(* ===== verification/Prelude.thy ===== *)
theory Prelude
  imports Main "HOL-Library.Word"
begin

section \<open>Shared vocabulary of the development\<close>

text \<open>
  The Go notions every component uses, and the lemmas about them that the component
  proofs share: Go's truncating integer division, 64-bit wrap-around, \<open>time.Time\<close> and
  \<open>time.Duration\<close>, iteration over a Go map in an order the runtime chooses, and the
  list searches that Go writes as index loops.
\<close>

unbundle bit_operations_syntax

named_theorems policy_simps \<open>unfolding rules of the scheduler policy\<close>
named_theorems actor_simps \<open>unfolding rules of the actor's field updates\<close>
named_theorems ledger_simps \<open>unfolding rules of the ledger's index updates\<close>

subsection \<open>Machine integers and bytes\<close>

type_synonym u8 = "8 word"
type_synonym u16 = "16 word"
type_synonym u32 = "32 word"
type_synonym u64 = "64 word"

text \<open>
  Go's \<open>int\<close> and \<open>int64\<close> are 64-bit. The model uses \<open>int\<close> and wraps a product
  with \<open>i64\<close> where the source multiplies a configuration value into a duration.
\<close>

definition i64 :: "int \<Rightarrow> int" where
  "i64 x = signed_take_bit 63 x"

lemma i64_id [simp]: "- (2 ^ 63) \<le> x \<Longrightarrow> x < 2 ^ 63 \<Longrightarrow> i64 x = x"
  by (simp add: i64_def signed_take_bit_int_eq_self_iff)

lemma i64_bounds: "- (2 ^ 63) \<le> i64 x \<and> i64 x < 2 ^ 63"
  unfolding i64_def
  using signed_take_bit_int_greater_eq_minus_exp [of 63 x]
    signed_take_bit_int_less_exp [of 63 x] by simp

text \<open>Go's \<open>/\<close> and \<open>%\<close> truncate towards zero. Every divisor in the source is a nonzero constant or guarded.\<close>

definition go_div :: "int \<Rightarrow> int \<Rightarrow> int" where
  "go_div a b = sgn a * sgn b * (\<bar>a\<bar> div \<bar>b\<bar>)"

definition go_mod :: "int \<Rightarrow> int \<Rightarrow> int" where
  "go_mod a b = a - b * go_div a b"

lemma go_div_nonneg [simp]: "0 \<le> a \<Longrightarrow> 0 < b \<Longrightarrow> go_div a b = a div b"
  by (cases "a = 0") (simp_all add: go_div_def)

lemma go_mod_nonneg [simp]: "0 \<le> a \<Longrightarrow> 0 < b \<Longrightarrow> go_mod a b = a mod b"
  by (simp add: go_mod_def minus_mult_div_eq_mod)

lemma go_div_neg: "a < 0 \<Longrightarrow> 0 < b \<Longrightarrow> go_div a b = - ((- a) div b)"
  by (simp add: go_div_def)

subsection \<open>Time\<close>

text \<open>
  \<open>time.Time\<close> is a number of nanoseconds since the zero time \<open>time.Time{}\<close>, so the
  zero time is \<open>0\<close> and \<open>IsZero\<close> is equality with it; \<open>time.Duration\<close> is a number
  of nanoseconds. \<open>Time.Sub\<close> saturates at the range of \<open>int64\<close>.
\<close>

type_synonym time = int
type_synonym duration = int

definition zero_time :: time where "zero_time = 0"

definition IsZero :: "time \<Rightarrow> bool" where "IsZero t \<longleftrightarrow> t = zero_time"

definition Millisecond :: duration where "Millisecond = 1000000"

definition Second :: duration where "Second = 1000 * Millisecond"

definition Minute :: duration where "Minute = 60 * Second"

definition time_Sub :: "time \<Rightarrow> time \<Rightarrow> duration" where
  "time_Sub a b = max (- (2 ^ 63)) (min (2 ^ 63 - 1) (a - b))"

lemma IsZero_zero [simp]: "IsZero zero_time"
  by (simp add: IsZero_def)

lemma time_Sub_self [simp]: "time_Sub a a = 0"
  by (simp add: time_Sub_def)

lemma time_Sub_exact: "\<bar>a - b\<bar> < 2 ^ 63 \<Longrightarrow> time_Sub a b = a - b"
  by (auto simp: time_Sub_def)

lemma time_Sub_less_iff:
  "- (2 ^ 63) < d \<Longrightarrow> d < 2 ^ 63 \<Longrightarrow> time_Sub a b < d \<longleftrightarrow> a - b < d"
  by (auto simp: time_Sub_def)

lemmas time_defs = zero_time_def IsZero_def Millisecond_def Second_def Minute_def

subsection \<open>Iterating over a Go map\<close>

text \<open>
  \<open>for k, v := range m\<close> visits the entries of \<open>m\<close> in an order the runtime chooses.
  An operation that ranges over a map takes that order as a list of keys;
  \<open>iteration_order ord m\<close> says that the list names each key of \<open>m\<close> once, and
  \<open>range_over ord m\<close> is the sequence of entries the loop visits.
\<close>

definition iteration_order :: "'k list \<Rightarrow> ('k \<rightharpoonup> 'v) \<Rightarrow> bool" where
  "iteration_order ord m \<longleftrightarrow> distinct ord \<and> set ord = dom m"

definition range_over :: "'k list \<Rightarrow> ('k \<rightharpoonup> 'v) \<Rightarrow> ('k \<times> 'v) list" where
  "range_over ord m = List.map_filter (\<lambda>k. map_option (Pair k) (m k)) ord"

lemma range_over_Nil [simp]: "range_over [] m = []"
  by (simp add: range_over_def List.map_filter_def)

lemma range_over_Cons:
  "range_over (k # ord) m =
     (case m k of None \<Rightarrow> range_over ord m | Some v \<Rightarrow> (k, v) # range_over ord m)"
  by (simp add: range_over_def List.map_filter_def split: option.splits)

lemma set_range_over: "set (range_over ord m) = {(k, v). k \<in> set ord \<and> m k = Some v}"
  by (induction ord) (auto simp: range_over_Cons split: option.splits)

lemma in_range_over [simp]:
  "iteration_order ord m \<Longrightarrow> (k, v) \<in> set (range_over ord m) \<longleftrightarrow> m k = Some v"
  by (auto simp: set_range_over iteration_order_def)

lemma map_fst_range_over:
  "iteration_order ord m \<Longrightarrow> map fst (range_over ord m) = ord"
proof -
  have "set ord \<subseteq> dom m \<Longrightarrow> map fst (range_over ord m) = ord"
    by (induction ord) (auto simp: range_over_Cons split: option.splits)
  then show "iteration_order ord m \<Longrightarrow> map fst (range_over ord m) = ord"
    by (simp add: iteration_order_def)
qed

lemma distinct_range_over: "distinct ord \<Longrightarrow> distinct (map fst (range_over ord m))"
proof (induction ord)
  case (Cons k ord)
  have "fst ` set (range_over ord m) \<subseteq> set ord"
    by (auto simp: set_range_over)
  with Cons show ?case by (auto simp: range_over_Cons split: option.splits)
qed simp

lemma length_range_over: "iteration_order ord m \<Longrightarrow> length (range_over ord m) = card (dom m)"
  by (metis distinct_card iteration_order_def length_map map_fst_range_over)

text \<open>
  A loop over a map computes a closed form \<open>g\<close> of (a part \<open>p\<close> of) its state when the
  closed form absorbs one iteration.
\<close>

lemma fold_range_over_closed:
  assumes "\<And>y. g [] y = y"
    and "\<And>k ord y. m k = None \<Longrightarrow> g (k # ord) y = g ord y"
    and "\<And>k v ord x. m k = Some v \<Longrightarrow> g (k # ord) (p x) = g ord (p (f (k, v) x))"
  shows "p (fold f (range_over ord m) x) = g ord (p x)"
proof (induction ord arbitrary: x)
  case (Cons k ord)
  then show ?case using assms by (cases "m k") (simp_all add: range_over_Cons)
qed (simp add: assms)

lemma iteration_order_empty [simp]: "iteration_order ord Map.empty \<longleftrightarrow> ord = []"
  by (auto simp: iteration_order_def)

subsection \<open>Loops over slices\<close>

text \<open>The first index whose element satisfies a test, as the \<open>for i := range\<close> searches return it.\<close>

fun index_of :: "('a \<Rightarrow> bool) \<Rightarrow> 'a list \<Rightarrow> nat option" where
  "index_of P [] = None"
| "index_of P (x # xs) = (if P x then Some 0 else map_option Suc (index_of P xs))"

lemma index_of_Some:
  "index_of P xs = Some i \<Longrightarrow> i < length xs \<and> P (xs ! i) \<and> (\<forall>j < i. \<not> P (xs ! j))"
proof (induction xs arbitrary: i)
  case (Cons x xs)
  then show ?case by (auto split: if_splits simp: less_Suc_eq_0_disj)
qed simp

lemma index_of_None: "index_of P xs = None \<longleftrightarrow> (\<forall>x \<in> set xs. \<not> P x)"
  by (induction xs) auto

text \<open>\<open>append(s[:i], s[i+1:]...)\<close>: the slice without its element \<open>i\<close>.\<close>

definition remove_at :: "nat \<Rightarrow> 'a list \<Rightarrow> 'a list" where
  "remove_at i xs = take i xs @ drop (Suc i) xs"

lemma length_remove_at [simp]: "i < length xs \<Longrightarrow> length (remove_at i xs) = length xs - 1"
  by (simp add: remove_at_def)

lemma set_remove_at_subset: "set (remove_at i xs) \<subseteq> set xs"
  by (auto simp: remove_at_def dest: in_set_takeD in_set_dropD)

lemma filter_remove_at:
  "i < length xs \<Longrightarrow> \<not> P (xs ! i) \<Longrightarrow> filter P (remove_at i xs) = filter P xs"
proof (induction xs arbitrary: i)
  case (Cons x xs)
  then show ?case by (cases i) (auto simp: remove_at_def)
qed simp

end
