(* ===== verification/Robot_Policy.thy ===== *)
theory Robot_Policy
  imports Prelude Complex_Main
begin

section \<open>Runtime configuration and scheduler policy\<close>

text \<open>
  The runtime configuration (\<open>capability/robotconfig/runtime_config.go\<close>), the pure
  scaling arithmetic over it (\<open>scheduler_policy.go\<close>, \<open>store_duration.go\<close>,
  \<open>foundation/mathx\<close>) and the adaptive policy that rewrites it from live signals
  (\<open>scheduler/adaptive_policy.go\<close>). The record keeps the source's field names.
\<close>

record RuntimeConfig =
  LevelMin :: int
  LevelMax :: int
  Jobs :: "int list"
  GrowTypes :: "int list"
  RobotUIDStart :: int
  RobotUIDEnd :: int
  RobotUIDGuard :: int
  NameASCIIFallback :: bool
  NameASCIIPrefix :: string
  SpawnFixed :: bool
  SpawnVillage :: int
  SpawnFallbackVillage :: int
  SpawnArea :: int
  SpawnXMin :: int
  SpawnXMax :: int
  SpawnYMin :: int
  SpawnYMax :: int
  MoveSpeedMin :: int
  MoveSpeedMax :: int
  MoveType :: int
  MoveSteps :: int
  MoveStepDelayMS :: int
  LoginDelayMS :: int
  ReconnectDelayMS :: int
  MaxReconnect :: int
  MaxOnlineRobots :: int
  MaxOnlinePerCommand :: int
  OnlineDispatchIntervalMS :: int
  OnlineConfirmTimeoutMS :: int
  DefaultMoney :: int
  DefaultCoin :: int
  InventoryCapacity :: int
  EquipSlots :: "int list"
  EquipRarityMin :: int
  EquipRarityMax :: int
  EquipIntensifyMin :: int
  EquipIntensifyMax :: int
  EquipSmithingMin :: int
  EquipSmithingMax :: int
  PreferEquipSets :: bool
  EquipSetMinSlots :: int
  AvatarSlots :: "int list"
  MinAvatarSlots :: int
  PreferAvatarSets :: bool
  AvatarSetMinSlots :: int
  StoreItemSlots :: int
  StoreItemCountMin :: int
  StoreItemCountMax :: int
  StoreEquipmentPriceMin :: int
  StoreEquipmentPriceMax :: int
  StoreMaterialPriceMin :: int
  StoreMaterialPriceMax :: int
  StoreInventoryStartBox :: int
  StoreEquipmentStartBox :: int
  StoreMaterialStartBox :: int
  StoreEquipmentIntensifyMin :: int
  StoreEquipmentIntensifyMax :: int
  StoreConfirmTimeoutSec :: int
  FollowAccount :: string
  FollowRadiusX :: int
  FollowRadiusY :: int
  ShoutDelayMS :: int
  ShoutSendEnabled :: bool
  AutoActions :: bool
  AutoMailNotify :: bool
  AutoTargetOnlineCount :: int
  AutoMoveIntervalMinSec :: int
  AutoMoveIntervalMaxSec :: int
  AutoShoutIntervalMinSec :: int
  AutoShoutIntervalMaxSec :: int
  AutoStoreProbabilityPercent :: int
  AutoStoreIntervalMinSec :: int
  AutoStoreIntervalMaxSec :: int
  AutoStoreDurationSec :: int
  AutoStoreTickSec :: int
  AutoStoreMaxPositionTries :: int
  AutoStoreFailCooldownSec :: int
  AutoGamePortStableSec :: int
  AutoGamePortCheckTimeoutMS :: int
  SchedulerBadRecoverSec :: int
  SchedulerBadFailures :: int
  SchedulerMetricsIntervalSec :: int
  SchedulerStoreConcurrent :: int
  SchedulerOnlineBatchSize :: int
  SchedulerOnlineStartRate :: int
  SchedulerOnlineFillTimeout :: int
  SchedulerBreakerAbnormalPct :: int
  SchedulerBreakerPauseSec :: int
  SchedulerBreakerReleaseBatch :: int
  SchedulerBreakerFloorPct :: int
  SchedulerPortDownReleaseBatch :: int
  SystemActorPollMS :: int
  SystemManualActionTimeoutSec :: int
  SystemPacketRatePerSec :: int

subsection \<open>Integer helpers\<close>

definition MinInt :: "int \<Rightarrow> int \<Rightarrow> int" where
  "MinInt a b = (if a < b then a else b)"

definition MaxInt :: "int \<Rightarrow> int \<Rightarrow> int" where
  "MaxInt a b = (if a > b then a else b)"

definition AbsInt :: "int \<Rightarrow> int" where
  "AbsInt v = (if v < 0 then - v else v)"

definition IntersectRange :: "int \<Rightarrow> int \<Rightarrow> int \<Rightarrow> int \<Rightarrow> int \<times> int \<times> bool" where
  "IntersectRange aMin aMax bMin bMax =
     (let (aMin, aMax) = (if aMax < aMin then (aMax, aMin) else (aMin, aMax));
          (bMin, bMax) = (if bMax < bMin then (bMax, bMin) else (bMin, bMax));
          minV = MaxInt aMin bMin;
          maxV = MinInt aMax bMax
      in if maxV < minV then (0, 0, False) else (minV, maxV, True))"

definition Clamp :: "int \<Rightarrow> int \<Rightarrow> int \<Rightarrow> int" where
  "Clamp val mn mx = (if val < mn then mn else if val > mx then mx else val)"

lemma Clamp_ge [simp]: "mn \<le> mx \<Longrightarrow> mn \<le> Clamp v mn mx"
  by (simp add: Clamp_def)

lemma Clamp_le [simp]: "mn \<le> mx \<Longrightarrow> Clamp v mn mx \<le> mx"
  by (simp add: Clamp_def)

lemma AbsInt_abs [simp]: "AbsInt v = \<bar>v\<bar>"
  by (simp add: AbsInt_def)

subsection \<open>Scheduler policy arithmetic\<close>

definition TargetCapacity :: "RuntimeConfig \<Rightarrow> int" where
  "TargetCapacity rc =
     (let target = AutoTargetOnlineCount rc;
          target = (if target < 0 then 0 else target)
      in if MaxOnlineRobots rc > 0 \<and> target > MaxOnlineRobots rc
         then MaxOnlineRobots rc else target)"

definition CreateRoom :: "RuntimeConfig \<Rightarrow> int \<Rightarrow> int" where
  "CreateRoom rc existing =
     (let room = TargetCapacity rc - existing in if room < 0 then 0 else room)"

definition ScaleUpBatch :: "RuntimeConfig \<Rightarrow> int" where
  "ScaleUpBatch rc =
     (let batch = SchedulerOnlineBatchSize rc
      in if batch < 0 then 0
         else (let batch = (if batch \<le> 0 then 20 else batch)
               in if batch > 120 then 120 else batch))"

definition OnlineStartRate :: "RuntimeConfig \<Rightarrow> int" where
  "OnlineStartRate rc =
     (let rate = SchedulerOnlineStartRate rc
      in if rate < 0 then 0
         else (let rate = (if rate \<le> 0 then 20 else rate)
               in if rate > 60 then 60 else rate))"

definition PendingActorLimit :: "int \<Rightarrow> RuntimeConfig \<Rightarrow> int" where
  "PendingActorLimit target rc =
     (if target \<le> 0 then 1
      else (let limit = OnlineStartRate rc * 8;
                limit = (if limit < go_div target 10 then go_div target 10 else limit);
                limit = (if limit < 5 then 5 else limit)
            in if limit > 120 then 120 else limit))"

definition ScaleDownBatch :: "int \<Rightarrow> int \<Rightarrow> int" where
  "ScaleDownBatch current target =
     (let delta = current - target
      in if delta \<le> 0 then 0
         else (let batch = go_div current 25;
                   batch = (if go_mod current 25 \<noteq> 0 then batch + 1 else batch);
                   batch = (if batch < 5 then 5 else batch);
                   batch = (if batch > 50 then 50 else batch)
               in if batch > delta then delta else batch))"

definition OnlineStartRateForNeed :: "int \<Rightarrow> RuntimeConfig \<Rightarrow> int" where
  "OnlineStartRateForNeed need rc =
     (let rate = OnlineStartRate rc
      in if rate \<le> 0 then 0
         else if need \<le> 0 then rate
         else (let timeout = SchedulerOnlineFillTimeout rc;
                   timeout = (if timeout \<le> 0 then 60 else timeout);
                   required = go_div (need + timeout - 1) timeout;
                   rate = (if required > rate then required else rate)
               in if rate > 60 then 60 else rate))"

definition NormalizedTarget :: "RuntimeConfig \<Rightarrow> int" where
  "NormalizedTarget rc =
     (let target = AutoTargetOnlineCount rc;
          target = (if target < 0 then 0 else target);
          target = (if MaxOnlineRobots rc > 0 \<and> target > MaxOnlineRobots rc
                    then MaxOnlineRobots rc else target)
      in if target \<le> 0 then 20 else target)"

definition TargetScale :: "int \<Rightarrow> int" where
  "TargetScale target =
     (let scale = go_div target 100;
          scale = (if go_mod target 100 \<noteq> 0 then scale + 1 else scale);
          scale = (if scale < 1 then 1 else scale)
      in if scale > 10 then 10 else scale)"

subsection \<open>Store durations\<close>

definition maxStoreDurationJitterSec :: int where "maxStoreDurationJitterSec = 35"

definition StoreDurationJitterSec :: "int \<Rightarrow> int" where
  "StoreDurationJitterSec durationSec =
     (if durationSec \<le> 1 then 0
      else (let jitter = go_div durationSec 6
            in if jitter > maxStoreDurationJitterSec then maxStoreDurationJitterSec else jitter))"

definition mixStoreDurationUID :: "u64 \<Rightarrow> u64" where
  "mixStoreDurationUID v0 =
     (let v1 = v0 XOR drop_bit 30 v0;
          v2 = v1 * 0xbf58476d1ce4e5b9;
          v3 = v2 XOR drop_bit 27 v2;
          v4 = v3 * 0x94d049bb133111eb
      in v4 XOR drop_bit 31 v4)"

definition StoreDurationForUID :: "int \<Rightarrow> int \<Rightarrow> duration" where
  "StoreDurationForUID durationSec uid =
     (if durationSec \<le> 0 then 0
      else (let jitter = StoreDurationJitterSec durationSec
            in if jitter = 0 \<or> uid \<le> 0 then i64 (durationSec * Second)
               else (let spn = (word_of_int (jitter * 2 + 1) :: u64);
                         offset = uint (mixStoreDurationUID (word_of_int uid) mod spn) - jitter
                     in i64 ((durationSec + offset) * Second))))"

definition MaxStoreDurationSec :: "int \<Rightarrow> int" where
  "MaxStoreDurationSec durationSec =
     (if durationSec \<le> 0 then 0 else durationSec + StoreDurationJitterSec durationSec)"

subsection \<open>Facts about the policy arithmetic\<close>

lemma TargetCapacity_range: "0 \<le> TargetCapacity rc"
  by (simp add: TargetCapacity_def Let_def)

lemma TargetCapacity_le_max:
  "0 < MaxOnlineRobots rc \<Longrightarrow> TargetCapacity rc \<le> MaxOnlineRobots rc"
  by (simp add: TargetCapacity_def Let_def)

lemma CreateRoom_range: "0 \<le> CreateRoom rc existing"
  by (simp add: CreateRoom_def Let_def)

lemma CreateRoom_no_overshoot:
  "existing \<le> TargetCapacity rc \<Longrightarrow> existing + CreateRoom rc existing = TargetCapacity rc"
  by (simp add: CreateRoom_def Let_def)

lemma ScaleUpBatch_range: "0 \<le> ScaleUpBatch rc \<and> ScaleUpBatch rc \<le> 120"
  by (simp add: ScaleUpBatch_def Let_def)

lemma ScaleUpBatch_stops: "ScaleUpBatch rc = 0 \<longleftrightarrow> SchedulerOnlineBatchSize rc < 0"
  by (simp add: ScaleUpBatch_def Let_def)

lemma OnlineStartRate_range: "0 \<le> OnlineStartRate rc \<and> OnlineStartRate rc \<le> 60"
  by (simp add: OnlineStartRate_def Let_def)

lemma PendingActorLimit_range: "1 \<le> PendingActorLimit t rc \<and> PendingActorLimit t rc \<le> 120"
  by (simp add: PendingActorLimit_def Let_def)

lemma OnlineStartRateForNeed_range:
  "0 \<le> OnlineStartRateForNeed need rc \<and> OnlineStartRateForNeed need rc \<le> 60"
  using OnlineStartRate_range [of rc] by (simp add: OnlineStartRateForNeed_def Let_def)

lemma NormalizedTarget_pos: "0 < NormalizedTarget rc"
  by (simp add: NormalizedTarget_def Let_def)

lemma TargetScale_range: "1 \<le> TargetScale t \<and> TargetScale t \<le> 10"
  by (simp add: TargetScale_def Let_def)

lemma ScaleDownBatch_bounds:
  assumes "target < current"
  shows "0 < ScaleDownBatch current target"
    and "ScaleDownBatch current target \<le> current - target"
    and "ScaleDownBatch current target \<le> 50"
  using assms by (simp_all add: ScaleDownBatch_def Let_def)

lemma ScaleDownBatch_stops: "current \<le> target \<Longrightarrow> ScaleDownBatch current target = 0"
  by (simp add: ScaleDownBatch_def Let_def)

lemma scale_down_rounds:
  "target \<le> current \<Longrightarrow> nat (current - target) \<le> k \<Longrightarrow>
     ((\<lambda>c. c - ScaleDownBatch c target) ^^ k) current = target"
proof (induction k arbitrary: current)
  case 0
  then show ?case by simp
next
  case (Suc k)
  let ?next = "current - ScaleDownBatch current target"
  have "((\<lambda>c. c - ScaleDownBatch c target) ^^ k) ?next = target"
  proof (cases "target < current")
    case True
    have le: "target \<le> ?next" using ScaleDownBatch_bounds(2) [OF True] by simp
    have "?next < current" using ScaleDownBatch_bounds(1) [OF True] by simp
    with Suc.prems le have "nat (?next - target) \<le> k" by linarith
    with le show ?thesis by (rule Suc.IH)
  next
    case False
    with Suc.prems(1) have "current = target" by simp
    then have "nat (?next - target) \<le> k" and "target \<le> ?next"
      by (simp_all add: ScaleDownBatch_stops)
    then show ?thesis by (rule Suc.IH [rotated])
  qed
  then show ?case by (simp add: funpow_Suc_right del: funpow.simps)
qed



lemma StoreDurationJitterSec_range:
  "0 \<le> StoreDurationJitterSec d \<and> StoreDurationJitterSec d \<le> 35"
  by (auto simp: StoreDurationJitterSec_def maxStoreDurationJitterSec_def Let_def
      pos_imp_zdiv_nonneg_iff)

lemma StoreDurationJitterSec_less: "0 < d \<Longrightarrow> StoreDurationJitterSec d < d"
  by (auto simp: StoreDurationJitterSec_def maxStoreDurationJitterSec_def Let_def)

lemma uint_mod_span: "0 \<le> j \<Longrightarrow> j \<le> 35 \<Longrightarrow> uint ((x :: u64) mod word_of_int (j * 2 + 1)) \<le> j * 2"
proof -
  assume j: "0 \<le> j" "j \<le> 35"
  then have "uint (word_of_int (j * 2 + 1) :: u64) = j * 2 + 1"
    by (simp add: uint_word_of_int take_bit_int_eq_self del: of_int_add of_int_mult)
  then show ?thesis
    using j pos_mod_bound [of "j * 2 + 1" "uint x"]
    by (simp add: uint_mod del: of_int_add of_int_mult)
qed

text \<open>
  A store opened for a UID lives within the configured duration plus or minus the
  jitter, so it never outlives \<open>MaxStoreDurationSec\<close>, the bound the point lease is computed
  from; the arithmetic does not overflow on a validated duration (60 to 86400 seconds).
\<close>

theorem store_duration_bounds:
  assumes "0 < d" and "d \<le> 86400"
  shows "(d - StoreDurationJitterSec d) * Second \<le> StoreDurationForUID d uid
    \<and> StoreDurationForUID d uid \<le> MaxStoreDurationSec d * Second
    \<and> 0 < StoreDurationForUID d uid"
proof -
  let ?j = "StoreDurationJitterSec d"
  have j: "0 \<le> ?j" "?j \<le> 35" "?j < d"
    using StoreDurationJitterSec_range StoreDurationJitterSec_less [OF assms(1)] by auto
  let ?o = "uint (mixStoreDurationUID (word_of_int uid) mod (word_of_int (?j * 2 + 1) :: u64)) - ?j"
  have o: "- ?j \<le> ?o" "?o \<le> ?j" using uint_mod_span [OF j(1,2), of "mixStoreDurationUID (word_of_int uid)"]
    by (simp_all del: of_int_add of_int_mult)
  have no_wrap: "i64 ((d + e) * Second) = (d + e) * Second" if "- ?j \<le> e" "e \<le> ?j" for e
    using that j assms by (simp add: Second_def Millisecond_def)
  define e where "e = (if ?j = 0 \<or> uid \<le> 0 then 0 else ?o)"
  have e: "- ?j \<le> e" "e \<le> ?j" using o j by (auto simp: e_def)
  have "StoreDurationForUID d uid = (d + e) * Second"
    using assms no_wrap [OF e] no_wrap [of 0] j
    by (auto simp: StoreDurationForUID_def Let_def e_def simp del: of_int_add of_int_mult)
  then show ?thesis
    using e j assms by (simp add: MaxStoreDurationSec_def Second_def Millisecond_def)
qed

theorem store_duration_bounds_witness:
  "(180 - StoreDurationJitterSec 180) * Second \<le> StoreDurationForUID 180 7
    \<and> StoreDurationForUID 180 7 \<le> MaxStoreDurationSec 180 * Second
    \<and> 0 < StoreDurationForUID 180 7"
  by (rule store_duration_bounds) simp_all

end
