(* ===== verification/Adaptive_Policy.thy ===== *)
theory Adaptive_Policy
  imports Robot_Policy
begin

section \<open>The adaptive scheduler policy\<close>

text \<open>
  \<open>scheduler/adaptive_policy.go\<close>: from the configured target and the live signals the
  policy derives the batch sizes, rates, intervals and store limits of the next
  scheduling round, and names the mode it chose. \<open>fmt.Sprintf\<close> reasons are the
  constructors of \<open>policy_reason\<close>, with the values they print; the finite
  \<open>float64\<close> CPU percentage is a real number.
\<close>

datatype schedulerPolicyMode =
    PolicyBootstrap | PolicyFill | PolicyStable | PolicyStore
  | PolicyPressure | PolicyBreaker | PolicyMaintenance | PolicyManual

record adaptiveSchedulerSignals =
  Live :: bool
  Running :: int
  Connecting :: int
  StoreRunning :: int
  Actors :: int
  Idle :: int
  ActorIdle :: int
  ActorAssigned :: int
  ActorOnline :: int
  ActorRunning :: int
  ActorBusy :: int
  ActorReleasing :: int
  GamePortReady :: bool
  BreakerActive :: bool
  CPUPercent :: real
  MemoryMB :: int
  Goroutines :: int

datatype policy_reason =
    NoLiveSnapshot int
  | TargetZero
  | PendingBacklog int int int int
  | PressureReason int int int real int int bool
  | ScalingDown int int
  | StoreReason int int int int int
  | StableReason int int int int
  | FillReason int int int
  | AutoDisabled
  | KeyInvalid string
  | StructuralOp string
  | GamePortUnstable
  | BreakerReason

record schedulerPolicyDecision =
  Mode :: schedulerPolicyMode
  Reason :: policy_reason

definition adaptiveActiveStoreCapacity :: int where "adaptiveActiveStoreCapacity = 108"

definition adaptiveActiveStoreTarget :: "int \<Rightarrow> int" where
  "adaptiveActiveStoreTarget target =
     (if target \<le> 0 then 0 else Clamp (go_div (target + 3) 4) 1 adaptiveActiveStoreCapacity)"

text \<open>
  The first half of \<open>applyAdaptiveSchedulerConfig\<close>: the configuration the target alone
  asks for. The source assigns the fields one after the other; only the two \<open>...MaxSec\<close>
  fields read an earlier assignment.
\<close>

definition baseAdaptive :: "RuntimeConfig \<Rightarrow> int \<Rightarrow> int \<Rightarrow> RuntimeConfig" where
  "baseAdaptive rc target scale =
     (let moveMin = Clamp (5 + scale) 6 18;
          storeMin = Clamp (45 + scale * 5) 50 120
      in rc\<lparr>SchedulerOnlineBatchSize := Clamp (go_div target 10) 10 60,
            SchedulerOnlineStartRate := Clamp (go_div target 40) 4 30,
            SchedulerOnlineFillTimeout := Clamp (go_div target 10) 45 180,
            AutoMoveIntervalMinSec := moveMin,
            AutoMoveIntervalMaxSec := moveMin + Clamp (10 + scale * 2) 12 36,
            SchedulerStoreConcurrent := Clamp (go_div target 20) 5 50,
            AutoStoreProbabilityPercent := Clamp (go_div 120 scale) 5 35,
            AutoStoreIntervalMinSec := storeMin,
            AutoStoreIntervalMaxSec := storeMin + Clamp (60 + scale * 10) 90 240,
            AutoStoreDurationSec := Clamp (120 + scale * 15) 120 300,
            AutoStoreTickSec := Clamp (5 + scale) 10 30,
            AutoStoreMaxPositionTries := Clamp (4 + scale) 5 20,
            AutoStoreFailCooldownSec := Clamp (60 + scale * 15) 60 240,
            SchedulerBreakerAbnormalPct := 30,
            SchedulerBreakerPauseSec := Clamp (120 + scale * 30) 180 600,
            SchedulerBreakerReleaseBatch := Clamp (go_div target 30) 5 40,
            SchedulerBreakerFloorPct := 70,
            SchedulerPortDownReleaseBatch := Clamp (go_div target 25) 5 50\<rparr>)"

text \<open>The four configuration rewrites of \<open>applyLiveSchedulerFeedback\<close>.\<close>

definition pendingBacklogConfig :: "RuntimeConfig \<Rightarrow> RuntimeConfig" where
  "pendingBacklogConfig rc =
     rc\<lparr>SchedulerOnlineBatchSize := - 1,
        SchedulerOnlineStartRate := Clamp (go_div (SchedulerOnlineStartRate rc) 2) 1 10,
        SchedulerStoreConcurrent := Clamp (go_div (SchedulerStoreConcurrent rc) 2) 2 25,
        AutoStoreProbabilityPercent := Clamp (go_div (AutoStoreProbabilityPercent rc) 3) 1 15\<rparr>"

definition pressureConfig :: "RuntimeConfig \<Rightarrow> RuntimeConfig" where
  "pressureConfig rc =
     (let moveMin = Clamp (go_div (AutoMoveIntervalMinSec rc * 3) 2) 10 45;
          storeMin = Clamp (go_div (AutoStoreIntervalMinSec rc * 3) 2) 60 240
      in rc\<lparr>SchedulerOnlineBatchSize := Clamp (go_div (SchedulerOnlineBatchSize rc) 2) 5 60,
            SchedulerOnlineStartRate := Clamp (go_div (SchedulerOnlineStartRate rc) 2) 4 30,
            SchedulerOnlineFillTimeout := Clamp (SchedulerOnlineFillTimeout rc * 2) 60 300,
            AutoMoveIntervalMinSec := moveMin,
            AutoMoveIntervalMaxSec := Clamp (go_div (AutoMoveIntervalMaxSec rc * 3) 2) (moveMin + 12) 90,
            SchedulerStoreConcurrent := Clamp (go_div (SchedulerStoreConcurrent rc) 2) 2 25,
            AutoStoreProbabilityPercent := Clamp (go_div (AutoStoreProbabilityPercent rc) 3) 1 15,
            AutoStoreIntervalMinSec := storeMin,
            AutoStoreIntervalMaxSec := Clamp (go_div (AutoStoreIntervalMaxSec rc * 3) 2) (storeMin + 60) 480,
            AutoStoreFailCooldownSec := Clamp (AutoStoreFailCooldownSec rc * 2) 120 600,
            SchedulerBreakerReleaseBatch := Clamp (go_div (SchedulerBreakerReleaseBatch rc * 3) 2) 5 60,
            SchedulerPortDownReleaseBatch := Clamp (go_div (SchedulerPortDownReleaseBatch rc * 3) 2) 5 80\<rparr>)"

definition storeExpandConfig ::
    "RuntimeConfig \<Rightarrow> int \<Rightarrow> adaptiveSchedulerSignals \<Rightarrow> int \<Rightarrow> bool \<Rightarrow> RuntimeConfig" where
  "storeExpandConfig rc target sig storeTarget idleRoom =
     (let storeGap = storeTarget - StoreRunning sig;
          storeBoost = Clamp (go_div target 40) 2 25;
          storeBoost = (if idleRoom then storeBoost + Clamp (go_div (Idle sig) 2) 1 20 else storeBoost);
          expandedConcurrent = Clamp (SchedulerStoreConcurrent rc + storeBoost) 5 90;
          gapConcurrent = Clamp (storeGap * 2) 5 90;
          expandedConcurrent = (if expandedConcurrent > gapConcurrent then gapConcurrent else expandedConcurrent);
          moveMin = Clamp (go_div (AutoMoveIntervalMinSec rc * 9) 10) 5 18;
          storeMin = Clamp (go_div (AutoStoreIntervalMinSec rc * 4) 5) 30 120;
          positionTryBoost = Clamp (go_div (storeGap + 9) 10) 1 3
      in rc\<lparr>SchedulerStoreConcurrent := expandedConcurrent,
            AutoStoreProbabilityPercent :=
              Clamp (AutoStoreProbabilityPercent rc + Clamp storeGap 1 10) 5 60,
            AutoMoveIntervalMinSec := moveMin,
            AutoMoveIntervalMaxSec := Clamp (go_div (AutoMoveIntervalMaxSec rc * 9) 10) (moveMin + 10) 54,
            AutoStoreIntervalMinSec := storeMin,
            AutoStoreIntervalMaxSec := Clamp (go_div (AutoStoreIntervalMaxSec rc * 4) 5) (storeMin + 60) 300,
            AutoStoreMaxPositionTries := Clamp (AutoStoreMaxPositionTries rc + positionTryBoost) 5 30\<rparr>)"

definition fillConfig :: "RuntimeConfig \<Rightarrow> int \<Rightarrow> RuntimeConfig" where
  "fillConfig rc target =
     rc\<lparr>SchedulerOnlineBatchSize := Clamp (SchedulerOnlineBatchSize rc + go_div target 20) 20 120,
        SchedulerOnlineStartRate := Clamp (SchedulerOnlineStartRate rc + go_div target 100) 8 60\<rparr>"

definition applyLiveSchedulerFeedback ::
    "RuntimeConfig \<Rightarrow> int \<Rightarrow> adaptiveSchedulerSignals \<Rightarrow> RuntimeConfig \<times> schedulerPolicyDecision" where
  "applyLiveSchedulerFeedback rc target sig =
     (if target \<le> 0 then (rc, \<lparr>Mode = PolicyStable, Reason = TargetZero\<rparr>) else
      let connectingLimit = Clamp (go_div target 20) 2 30;
          runningUpperBound = target + connectingLimit;
          healthyOnline = (Running sig \<ge> go_div (target * 95) 100 \<and> Running sig \<le> runningUpperBound
             \<and> Connecting sig \<le> connectingLimit \<and> GamePortReady sig \<and> \<not> BreakerActive sig);
          storeTarget = adaptiveActiveStoreTarget target;
          storeRoom = (StoreRunning sig < storeTarget);
          idleRoom = (Idle sig \<ge> Clamp (go_div target 50) 2 20);
          resourcePressure = (CPUPercent sig \<ge> 85 \<or> MemoryMB sig \<ge> 4096 \<or> Goroutines sig \<ge> 20000);
          pendingPressure = (Idle sig \<ge> PendingActorLimit target rc);
          connectionPressure = (Connecting sig > Clamp (go_div target 10) 3 60);
          pressure = (BreakerActive sig \<or> \<not> GamePortReady sig \<or> resourcePressure
             \<or> connectionPressure \<or> pendingPressure)
      in if pressure then
           (if pendingPressure \<and> GamePortReady sig \<and> \<not> BreakerActive sig
               \<and> \<not> resourcePressure \<and> \<not> connectionPressure
            then (pendingBacklogConfig rc,
                  \<lparr>Mode = PolicyPressure,
                   Reason = PendingBacklog (Idle sig) (Actors sig) (Running sig) target\<rparr>)
            else (pressureConfig rc,
                  \<lparr>Mode = (if BreakerActive sig then PolicyBreaker else PolicyPressure),
                   Reason = PressureReason (Running sig) (Connecting sig) (StoreRunning sig)
                     (CPUPercent sig) (MemoryMB sig) (Goroutines sig) (GamePortReady sig)\<rparr>))
         else if Running sig > runningUpperBound then
           (rc\<lparr>AutoStoreProbabilityPercent := 0\<rparr>,
            \<lparr>Mode = PolicyStable, Reason = ScalingDown (Running sig) target\<rparr>)
         else if healthyOnline \<and> storeRoom then
           (let rc' = storeExpandConfig rc target sig storeTarget idleRoom
            in (rc', \<lparr>Mode = PolicyStore,
                      Reason = StoreReason (Running sig) (Idle sig) (StoreRunning sig) storeTarget
                                 (SchedulerStoreConcurrent rc')\<rparr>))
         else if healthyOnline \<and> \<not> storeRoom then
           (rc\<lparr>AutoStoreProbabilityPercent := 0\<rparr>,
            \<lparr>Mode = PolicyStable,
             Reason = StableReason (Running sig) (Connecting sig) (StoreRunning sig) storeTarget\<rparr>)
         else if Running sig + Connecting sig < target \<and> Connecting sig \<le> connectingLimit then
           (fillConfig rc target,
            \<lparr>Mode = PolicyFill, Reason = FillReason (Running sig) (Connecting sig) target\<rparr>)
         else
           (rc, \<lparr>Mode = PolicyStable,
                 Reason = StableReason (Running sig) (Connecting sig) (StoreRunning sig) storeTarget\<rparr>))"

definition applyAdaptiveSchedulerConfig ::
    "RuntimeConfig \<Rightarrow> adaptiveSchedulerSignals \<Rightarrow> RuntimeConfig \<times> schedulerPolicyDecision" where
  "applyAdaptiveSchedulerConfig rc sig =
     (let target = NormalizedTarget rc;
          scale = TargetScale target;
          rc1 = baseAdaptive rc target scale
      in if \<not> Live sig
         then (rc1, \<lparr>Mode = PolicyBootstrap, Reason = NoLiveSnapshot target\<rparr>)
         else applyLiveSchedulerFeedback rc1 target sig)"

subsection \<open>What the policy guarantees\<close>

text \<open>
  The ranges \<open>robotconfig/validate.go\<close> accepts for the fields the policy rewrites, with
  the one extra value the policy uses: a batch size of \<open>-1\<close> means no scaling up.
\<close>

definition adaptive_bounds :: "RuntimeConfig \<Rightarrow> bool" where
  "adaptive_bounds rc \<longleftrightarrow>
     (SchedulerOnlineBatchSize rc = - 1 \<or> 1 \<le> SchedulerOnlineBatchSize rc \<and> SchedulerOnlineBatchSize rc \<le> 120)
   \<and> 1 \<le> SchedulerOnlineStartRate rc \<and> SchedulerOnlineStartRate rc \<le> 60
   \<and> 1 \<le> SchedulerOnlineFillTimeout rc \<and> SchedulerOnlineFillTimeout rc \<le> 3600
   \<and> 1 \<le> AutoMoveIntervalMinSec rc \<and> AutoMoveIntervalMinSec rc \<le> AutoMoveIntervalMaxSec rc
   \<and> AutoMoveIntervalMaxSec rc \<le> 86400
   \<and> 1 \<le> SchedulerStoreConcurrent rc \<and> SchedulerStoreConcurrent rc \<le> 90
   \<and> 0 \<le> AutoStoreProbabilityPercent rc \<and> AutoStoreProbabilityPercent rc \<le> 100
   \<and> 1 \<le> AutoStoreIntervalMinSec rc \<and> AutoStoreIntervalMinSec rc \<le> AutoStoreIntervalMaxSec rc
   \<and> AutoStoreIntervalMaxSec rc \<le> 86400
   \<and> 60 \<le> AutoStoreDurationSec rc \<and> AutoStoreDurationSec rc \<le> 86400
   \<and> 1 \<le> AutoStoreTickSec rc \<and> AutoStoreTickSec rc \<le> 300
   \<and> 1 \<le> AutoStoreMaxPositionTries rc \<and> AutoStoreMaxPositionTries rc \<le> 10000
   \<and> 1 \<le> AutoStoreFailCooldownSec rc \<and> AutoStoreFailCooldownSec rc \<le> 3600
   \<and> 1 \<le> SchedulerBreakerAbnormalPct rc \<and> SchedulerBreakerAbnormalPct rc \<le> 100
   \<and> 30 \<le> SchedulerBreakerPauseSec rc \<and> SchedulerBreakerPauseSec rc \<le> 3600
   \<and> 1 \<le> SchedulerBreakerReleaseBatch rc \<and> SchedulerBreakerReleaseBatch rc \<le> 120
   \<and> 0 \<le> SchedulerBreakerFloorPct rc \<and> SchedulerBreakerFloorPct rc \<le> 100
   \<and> 1 \<le> SchedulerPortDownReleaseBatch rc \<and> SchedulerPortDownReleaseBatch rc \<le> 120"

text \<open>A clamped value lies between any bounds that enclose the clamping range.\<close>

lemma Clamp_between:
  assumes "mn \<le> mx"
  shows "a \<le> mn \<Longrightarrow> a \<le> Clamp v mn mx" and "mx \<le> b \<Longrightarrow> Clamp v mn mx \<le> b"
  using Clamp_ge [OF assms, of v] Clamp_le [OF assms, of v] by linarith+

lemma Clamp_add_le:
  "mn \<le> mx \<Longrightarrow> mn' \<le> mx' \<Longrightarrow> mx + mx' \<le> b \<Longrightarrow> Clamp v mn mx + Clamp w mn' mx' \<le> b"
  using Clamp_le [of mn mx v] Clamp_le [of mn' mx' w] by linarith

lemma adaptive_bounds_base: "adaptive_bounds (baseAdaptive rc target scale)"
  by (simp add: adaptive_bounds_def baseAdaptive_def Let_def Clamp_between Clamp_add_le)

lemma adaptive_bounds_pending: "adaptive_bounds rc \<Longrightarrow> adaptive_bounds (pendingBacklogConfig rc)"
  by (simp add: adaptive_bounds_def pendingBacklogConfig_def Clamp_between)

lemma Clamp_above: "a + k \<le> mx \<Longrightarrow> 0 \<le> k \<Longrightarrow> a \<le> Clamp v (a + k) mx"
  by (rule Clamp_between) simp_all

lemma adaptive_bounds_pressure: "adaptive_bounds rc \<Longrightarrow> adaptive_bounds (pressureConfig rc)"
  by (simp add: adaptive_bounds_def pressureConfig_def Let_def Clamp_between Clamp_above
      add_le_imp_le_diff)

lemma adaptive_bounds_store:
  "adaptive_bounds rc \<Longrightarrow> adaptive_bounds (storeExpandConfig rc target sig st idle)"
  by (simp add: adaptive_bounds_def storeExpandConfig_def Let_def Clamp_between Clamp_above)

lemma adaptive_bounds_fill: "adaptive_bounds rc \<Longrightarrow> adaptive_bounds (fillConfig rc target)"
  by (simp add: adaptive_bounds_def fillConfig_def Clamp_between)

lemma adaptive_bounds_no_stores:
  "adaptive_bounds rc \<Longrightarrow> adaptive_bounds (rc\<lparr>AutoStoreProbabilityPercent := 0\<rparr>)"
  by (simp add: adaptive_bounds_def)

lemmas adaptive_bounds_intros =
  adaptive_bounds_base adaptive_bounds_pending adaptive_bounds_pressure
  adaptive_bounds_store adaptive_bounds_fill adaptive_bounds_no_stores


text \<open>
  Property C27. Back-pressure: once live signals are present, a scheduling round that sees as many
  idle actors as the pending limit allows (and no other kind of pressure) is answered with a
  configuration under which no actor slot is added, and an active breaker is always answered with
  breaker mode and a scale-up batch of at most 60.
\<close>

theorem adaptive_backpressure:
  assumes "Live sig"
  shows "(PendingActorLimit (NormalizedTarget rc) (baseAdaptive rc (NormalizedTarget rc) (TargetScale (NormalizedTarget rc))) \<le> Idle sig
      \<and> GamePortReady sig \<and> \<not> BreakerActive sig
      \<and> CPUPercent sig < 85 \<and> MemoryMB sig < 4096 \<and> Goroutines sig < 20000
      \<and> Connecting sig \<le> Clamp (go_div (NormalizedTarget rc) 10) 3 60
      \<longrightarrow> ScaleUpBatch (fst (applyAdaptiveSchedulerConfig rc sig)) = 0
          \<and> Mode (snd (applyAdaptiveSchedulerConfig rc sig)) = PolicyPressure)
    \<and> (BreakerActive sig
      \<longrightarrow> ScaleUpBatch (fst (applyAdaptiveSchedulerConfig rc sig)) \<le> 60
          \<and> Mode (snd (applyAdaptiveSchedulerConfig rc sig)) = PolicyBreaker)"
proof -
  have t: "\<not> NormalizedTarget rc \<le> 0" using NormalizedTarget_pos [of rc] by simp
  have le60: "ScaleUpBatch (pressureConfig rc1) \<le> 60" for rc1
    by (simp add: ScaleUpBatch_def pressureConfig_def Let_def Clamp_between not_less)
  have zero: "ScaleUpBatch (pendingBacklogConfig rc1) = 0" for rc1
    by (simp add: ScaleUpBatch_def pendingBacklogConfig_def Let_def)
  show ?thesis
    using assms t le60 zero
    by (simp add: applyAdaptiveSchedulerConfig_def applyLiveSchedulerFeedback_def Let_def)
qed

definition example_config :: RuntimeConfig where
  "example_config = undefined\<lparr>AutoTargetOnlineCount := 100, MaxOnlineRobots := 600\<rparr>"

definition example_signals :: adaptiveSchedulerSignals where
  "example_signals =
     \<lparr>Live = True, Running = 40, Connecting = 0, StoreRunning = 0, Actors = 100, Idle = 60,
      ActorIdle = 60, ActorAssigned = 0, ActorOnline = 0, ActorRunning = 40, ActorBusy = 0,
      ActorReleasing = 0, GamePortReady = True, BreakerActive = False, CPUPercent = 10,
      MemoryMB = 300, Goroutines = 900\<rparr>"

theorem adaptive_backpressure_witness:
  "ScaleUpBatch (fst (applyAdaptiveSchedulerConfig example_config example_signals)) = 0
    \<and> Mode (snd (applyAdaptiveSchedulerConfig example_config example_signals)) = PolicyPressure"
proof -
  have "Live example_signals" by (simp add: example_signals_def)
  from adaptive_backpressure [OF this, of example_config] show ?thesis
    by (simp add: example_signals_def example_config_def NormalizedTarget_def TargetScale_def
        baseAdaptive_def PendingActorLimit_def OnlineStartRate_def Clamp_def Let_def)
qed

end
