(* ===== verification/Runtime_Status.thy ===== *)
theory Runtime_Status
  imports Prelude
begin

section \<open>Runtime status and action results\<close>

text \<open>
  \<open>shared/runtime_status.go\<close> and the action results of \<open>capability/robot/types.go\<close>: the
  status the protocol runtime reports for a UID, the names of its states, the summary the
  scheduler computes over a status map, and the result every robot action returns.
  Record fields carry the prefix \<open>rs_\<close> (status), \<open>sum_\<close> (summary) and \<open>res_\<close> (result).
\<close>

record RuntimeStatus =
  rs_UID :: int
  rs_CID :: int
  rs_State :: int
  rs_StateName :: string
  rs_LastError :: int
  rs_DisconnectReason :: int
  rs_Reconnects :: int
  rs_RunStartTime :: int
  rs_UptimeSeconds :: int
  rs_RobotType :: int
  rs_StoreDisplaySent :: bool
  rs_StoreDisplayAck :: bool
  rs_StoreDisplayItems :: int
  rs_StoreDisplayRejected :: bool
  rs_StoreCreateRejected :: bool
  rs_LastStoreError :: u8
  rs_StoreCreated :: bool
  rs_DisjointCreateSent :: bool
  rs_DisjointDirectAck :: bool
  rs_DisjointActive :: bool
  rs_LastDisjointError :: u8
  rs_PartyActive :: bool
  rs_Village :: int
  rs_Area :: int
  rs_X :: int
  rs_Y :: int

abbreviation RuntimeStateStop :: string where "RuntimeStateStop \<equiv> ''stop''"
abbreviation RuntimeStateInit :: string where "RuntimeStateInit \<equiv> ''init''"
abbreviation RuntimeStateLogin :: string where "RuntimeStateLogin \<equiv> ''login''"
abbreviation RuntimeStateRunning :: string where "RuntimeStateRunning \<equiv> ''running''"
abbreviation RuntimeStateClean :: string where "RuntimeStateClean \<equiv> ''clean''"
abbreviation RuntimeStateWrong :: string where "RuntimeStateWrong \<equiv> ''wrong''"
abbreviation RuntimeStateSelect :: string where "RuntimeStateSelect \<equiv> ''character_select''"
abbreviation RuntimeStateUnknown :: string where "RuntimeStateUnknown \<equiv> ''unknown''"

definition zero_status :: RuntimeStatus where
  "zero_status =
     \<lparr>rs_UID = 0, rs_CID = 0, rs_State = 0, rs_StateName = '''', rs_LastError = 0,
      rs_DisconnectReason = 0, rs_Reconnects = 0, rs_RunStartTime = 0, rs_UptimeSeconds = 0,
      rs_RobotType = 0, rs_StoreDisplaySent = False, rs_StoreDisplayAck = False,
      rs_StoreDisplayItems = 0, rs_StoreDisplayRejected = False, rs_StoreCreateRejected = False,
      rs_LastStoreError = 0, rs_StoreCreated = False, rs_DisjointCreateSent = False,
      rs_DisjointDirectAck = False, rs_DisjointActive = False, rs_LastDisjointError = 0,
      rs_PartyActive = False, rs_Village = 0, rs_Area = 0, rs_X = 0, rs_Y = 0\<rparr>"

definition StateName :: "int \<Rightarrow> string" where
  "StateName s =
     (if s = 0 then RuntimeStateStop
      else if s = 1 then RuntimeStateInit
      else if s = 2 then RuntimeStateLogin
      else if s = 3 then RuntimeStateRunning
      else if s = 4 then RuntimeStateClean
      else if s = 5 then RuntimeStateWrong
      else if s = 6 then RuntimeStateSelect
      else RuntimeStateUnknown)"

definition ActiveRuntimeStatus :: "RuntimeStatus \<Rightarrow> bool" where
  "ActiveRuntimeStatus st \<longleftrightarrow> rs_StateName st = RuntimeStateRunning \<and> rs_DisconnectReason st = 0"

record RuntimeStatusSummary =
  sum_Running :: int
  sum_Connecting :: int
  sum_Stores :: int
  sum_ItemStores :: int
  sum_DisjointStores :: int

definition zero_summary :: RuntimeStatusSummary where
  "zero_summary = \<lparr>sum_Running = 0, sum_Connecting = 0, sum_Stores = 0, sum_ItemStores = 0, sum_DisjointStores = 0\<rparr>"

definition summary_Add :: "RuntimeStatus \<Rightarrow> RuntimeStatusSummary \<Rightarrow> RuntimeStatusSummary" where
  "summary_Add st s =
     (if rs_DisconnectReason st \<noteq> 0 then s
      else if rs_StateName st = RuntimeStateRunning then
        (let s = s\<lparr>sum_Running := sum_Running s + 1\<rparr>;
             s = (if rs_RobotType st = 2 \<and> rs_StoreDisplayAck st
                  then s\<lparr>sum_Stores := sum_Stores s + 1, sum_ItemStores := sum_ItemStores s + 1\<rparr> else s)
         in if rs_RobotType st = 3 \<and> rs_DisjointActive st
            then s\<lparr>sum_Stores := sum_Stores s + 1, sum_DisjointStores := sum_DisjointStores s + 1\<rparr> else s)
      else if rs_StateName st = RuntimeStateInit \<or> rs_StateName st = RuntimeStateLogin
        then s\<lparr>sum_Connecting := sum_Connecting s + 1\<rparr>
      else s)"

definition SummarizeRuntimeStatusMap ::
    "int list \<Rightarrow> (int \<rightharpoonup> RuntimeStatus) \<Rightarrow> RuntimeStatusSummary" where
  "SummarizeRuntimeStatusMap ord status =
     fold (\<lambda>(uid, st). summary_Add st) (range_over ord status) zero_summary"

record ActionResult =
  res_UID :: int
  res_CID :: int
  res_OK :: bool
  res_State :: string
  res_Message :: string

abbreviation ActionStateAccepted :: string where "ActionStateAccepted \<equiv> ''accepted''"
abbreviation ActionStateAttachedOffline :: string where "ActionStateAttachedOffline \<equiv> ''attached_offline''"
abbreviation ActionStateCancelled :: string where "ActionStateCancelled \<equiv> ''cancelled''"
abbreviation ActionStateFailed :: string where "ActionStateFailed \<equiv> ''failed''"
abbreviation ActionStateIdle :: string where "ActionStateIdle \<equiv> ''idle''"
abbreviation ActionStateOnlineTimeout :: string where "ActionStateOnlineTimeout \<equiv> ''online_timeout''"
abbreviation ActionStatePending :: string where "ActionStatePending \<equiv> ''pending''"
abbreviation ActionStateQueueFailed :: string where "ActionStateQueueFailed \<equiv> ''queue_failed''"
abbreviation ActionStateRunning :: string where "ActionStateRunning \<equiv> ''running''"
abbreviation ActionStateStoreBusy :: string where "ActionStateStoreBusy \<equiv> ''store_busy''"
abbreviation ActionStateStoreFailed :: string where "ActionStateStoreFailed \<equiv> ''store_failed''"
abbreviation ActionStateUnknownCommand :: string where "ActionStateUnknownCommand \<equiv> ''unknown_command''"

subsection \<open>The summary counts the map\<close>

lemma summary_Add_counts:
  "sum_Running (summary_Add st s) = sum_Running s + of_bool (ActiveRuntimeStatus st)"
  "sum_Stores (summary_Add st s) - sum_Stores s =
     (sum_ItemStores (summary_Add st s) - sum_ItemStores s)
     + (sum_DisjointStores (summary_Add st s) - sum_DisjointStores s)"
  "sum_Stores (summary_Add st s) - sum_Stores s \<le> of_bool (ActiveRuntimeStatus st)"
  "sum_Connecting (summary_Add st s) = sum_Connecting s
     + of_bool (rs_DisconnectReason st = 0 \<and> rs_StateName st \<in> {RuntimeStateInit, RuntimeStateLogin})"
  by (auto simp: summary_Add_def ActiveRuntimeStatus_def Let_def)

lemma fold_summary_Add:
  fixes xs :: "(int \<times> RuntimeStatus) list"
  defines "after \<equiv> \<lambda>s. fold (\<lambda>(uid, st). summary_Add st) xs s"
  shows "sum_Running (after s) =
           sum_Running s + int (length (filter (\<lambda>(uid, st). ActiveRuntimeStatus st) xs))"
    and "sum_Connecting (after s) = sum_Connecting s
           + int (length (filter (\<lambda>(uid, st). rs_DisconnectReason st = 0
                    \<and> rs_StateName st \<in> {RuntimeStateInit, RuntimeStateLogin}) xs))"
    and "sum_Stores (after s) - sum_Stores s =
           sum_ItemStores (after s) - sum_ItemStores s + (sum_DisjointStores (after s) - sum_DisjointStores s)"
    and "sum_Stores (after s) - sum_Stores s \<le> sum_Running (after s) - sum_Running s"
  unfolding after_def
proof (induction xs arbitrary: s)
  case (Cons p xs)
  { case 1 then show ?case using Cons.IH(1) by (cases p) (simp add: summary_Add_counts) }
  { case 2 then show ?case using Cons.IH(2) by (cases p) (simp add: summary_Add_counts) }
  { case 3 then show ?case
      using Cons.IH(3) [of "summary_Add (snd p) s"] summary_Add_counts(2) [of "snd p" s]
      by (cases p) simp }
  { case 4 then show ?case
      using Cons.IH(4) [of "summary_Add (snd p) s"] summary_Add_counts(1,3) [of "snd p" s]
      by (cases p) simp }
qed simp_all

lemma length_filter_range_over:
  assumes "iteration_order ord m"
  shows "length (filter (\<lambda>(k, v). P v) (range_over ord m)) = card {k. \<exists>v. m k = Some v \<and> P v}"
proof -
  let ?xs = "filter (\<lambda>(k, v). P v) (range_over ord m)"
  have "distinct (map fst ?xs)"
    using assms distinct_range_over [of ord m]
    by (simp add: iteration_order_def distinct_map_filter)
  then have "length ?xs = card (set (map fst ?xs))"
    by (metis distinct_card length_map)
  also have "set (map fst ?xs) = {k. \<exists>v. m k = Some v \<and> P v}"
    using assms by force
  finally show ?thesis .
qed

text \<open>
  The summary of a status map does not depend on the order Go iterates the map in:
  it counts the UIDs that are running without a disconnect and the UIDs that are connecting, it
  splits the open stores into item and disjoint stores, and it never counts more stores than
  running robots.
\<close>

theorem summary_counts:
  assumes "iteration_order ord status"
  shows "sum_Running (SummarizeRuntimeStatusMap ord status)
           = int (card {uid. \<exists>st. status uid = Some st \<and> ActiveRuntimeStatus st})
    \<and> sum_Connecting (SummarizeRuntimeStatusMap ord status)
           = int (card {uid. \<exists>st. status uid = Some st \<and> rs_DisconnectReason st = 0
                    \<and> rs_StateName st \<in> {RuntimeStateInit, RuntimeStateLogin}})
    \<and> sum_Stores (SummarizeRuntimeStatusMap ord status)
           = sum_ItemStores (SummarizeRuntimeStatusMap ord status)
             + sum_DisjointStores (SummarizeRuntimeStatusMap ord status)
    \<and> sum_Stores (SummarizeRuntimeStatusMap ord status)
           \<le> sum_Running (SummarizeRuntimeStatusMap ord status)"
  using fold_summary_Add [of "range_over ord status" zero_summary]
  unfolding SummarizeRuntimeStatusMap_def
    length_filter_range_over [OF assms, of ActiveRuntimeStatus, symmetric]
    length_filter_range_over [OF assms, of "\<lambda>st. rs_DisconnectReason st = 0
                    \<and> rs_StateName st \<in> {RuntimeStateInit, RuntimeStateLogin}", symmetric]
  by (simp add: zero_summary_def)

definition example_status :: "int \<rightharpoonup> RuntimeStatus" where
  "example_status = [7 \<mapsto> zero_status\<lparr>rs_StateName := RuntimeStateRunning\<rparr>,
                     9 \<mapsto> zero_status\<lparr>rs_StateName := RuntimeStateLogin\<rparr>]"

theorem summary_counts_witness:
  "sum_Running (SummarizeRuntimeStatusMap [9, 7] example_status)
     = int (card {uid. \<exists>st. example_status uid = Some st \<and> ActiveRuntimeStatus st})
   \<and> sum_Running (SummarizeRuntimeStatusMap [9, 7] example_status) = 1
   \<and> sum_Connecting (SummarizeRuntimeStatusMap [9, 7] example_status) = 1"
proof -
  have "iteration_order [9, 7] example_status"
    by (auto simp: iteration_order_def example_status_def)
  from summary_counts [OF this] show ?thesis
    by (simp add: SummarizeRuntimeStatusMap_def summary_Add_def zero_summary_def zero_status_def
        example_status_def range_over_Cons Let_def)
qed

end
