(* ===== verification/Actor.thy ===== *)
theory Actor
  imports Robot_Policy Runtime_Status
begin

section \<open>The actor: one goroutine that owns at most one UID\<close>

text \<open>
  \<open>actor/model.go\<close>, \<open>actor_core.go\<close>, \<open>actor_state.go\<close>, \<open>actor_loop.go\<close> and
  \<open>actor_actions.go\<close>. The state of an actor is the record \<open>Actor\<close> (fields prefixed
  \<open>a_\<close>), the two channels are its bounded mailboxes and the two closed-channel signals
  are booleans. The \<open>RobotRuntime\<close> interface the actor calls is a record of operations
  over a runtime state \<open>'r\<close>; an operation may panic. A handler is a function from
  actor and runtime state to an outcome and the new states, so a panic keeps the changes
  made before it, as in Go. The clock, the random source, \<open>time.Sleep\<close> and the release
  requests of other goroutines are operations of the runtime state too.
\<close>

datatype Mode = ModeAuto | ModeManual

datatype Command =
    CommandMove | CommandShoutLocal | CommandShoutWorld | CommandStore | CommandOnline | CommandLogout

datatype controlKind = controlAssign | controlRelease

datatype State =
    StateIdle | StateOffline | StateAssigned | StateOnline | StateRunning | StateBusy | StateReleasing

subsection \<open>Snapshots and health\<close>

record Snapshot =
  sn_SlotID :: int
  sn_UID :: int
  sn_Generation :: u64
  sn_Mode :: Mode
  sn_State :: State
  sn_Busy :: bool
  sn_BusyKind :: string
  sn_OnlineDesired :: bool
  sn_LastOnlineTry :: time
  sn_FirstFailureAt :: time
  sn_Failures :: int
  sn_Quarantined :: bool

datatype Health = HealthHealthy | HealthIdle | HealthBusy | HealthUnhealthy

record Status = Snapshot +
  st_Health :: Health
  st_HealthReason :: string
  st_RecycleUID :: bool

definition SnapshotEmpty :: "Snapshot \<Rightarrow> bool" where
  "SnapshotEmpty s \<longleftrightarrow> sn_UID s \<le> 0"

definition SnapshotSchedulerPending :: "Snapshot \<Rightarrow> bool" where
  "SnapshotSchedulerPending s \<longleftrightarrow>
     (if SnapshotEmpty s then True
      else (case sn_State s of
              StateIdle \<Rightarrow> True | StateOffline \<Rightarrow> True | StateAssigned \<Rightarrow> True
            | StateOnline \<Rightarrow> True | StateReleasing \<Rightarrow> True | _ \<Rightarrow> False))"

definition Operation :: "Snapshot \<Rightarrow> string" where
  "Operation s =
     (if sn_BusyKind s \<noteq> '''' then sn_BusyKind s
      else (case sn_State s of
              StateAssigned \<Rightarrow> ''online'' | StateOnline \<Rightarrow> ''online''
            | StateReleasing \<Rightarrow> ''release'' | StateOffline \<Rightarrow> ''offline'' | _ \<Rightarrow> ''''))"

definition StopPriority :: "int \<Rightarrow> (int \<rightharpoonup> RuntimeStatus) \<Rightarrow> int" where
  "StopPriority uid status =
     (if uid \<le> 0 then 0
      else (case status uid of
              None \<Rightarrow> 1
            | Some st \<Rightarrow>
                (if rs_DisconnectReason st \<noteq> 0 \<or> rs_StateName st = RuntimeStateInit
                    \<or> rs_StateName st = RuntimeStateLogin then 1
                 else if rs_PartyActive st then 4
                 else if rs_RobotType st = 2 \<or> rs_RobotType st = 3 \<or> rs_StoreDisplayAck st then 2
                 else 3)))"

record StatusConfig =
  sc_BadFailures :: int
  sc_OnlineConfirmTimeoutMS :: int

definition confirm_timeout :: "int \<Rightarrow> duration" where
  "confirm_timeout ms =
     (let timeout = i64 (ms * Millisecond) in if timeout \<le> 0 then 60 * Second else timeout)"

definition toStatus :: "Snapshot \<Rightarrow> Health \<Rightarrow> string \<Rightarrow> bool \<Rightarrow> Status" where
  "toStatus s h reason recycle =
     \<lparr>sn_SlotID = sn_SlotID s, sn_UID = sn_UID s, sn_Generation = sn_Generation s,
      sn_Mode = sn_Mode s, sn_State = sn_State s, sn_Busy = sn_Busy s, sn_BusyKind = sn_BusyKind s,
      sn_OnlineDesired = sn_OnlineDesired s, sn_LastOnlineTry = sn_LastOnlineTry s,
      sn_FirstFailureAt = sn_FirstFailureAt s, sn_Failures = sn_Failures s,
      sn_Quarantined = sn_Quarantined s,
      st_Health = h, st_HealthReason = reason, st_RecycleUID = recycle\<rparr>"

definition EvaluateStatus ::
    "Snapshot \<Rightarrow> time \<Rightarrow> StatusConfig \<Rightarrow> (int \<Rightarrow> RuntimeStatus \<times> bool) option \<Rightarrow> Status" where
  "EvaluateStatus s now cfg lookup =
     (if sn_Mode s \<noteq> ModeAuto \<or> sn_UID s \<le> 0 then toStatus s HealthIdle '''' False
      else if sn_Busy s then toStatus s HealthBusy (sn_BusyKind s) False
      else if sn_Failures s \<ge> sc_BadFailures cfg then toStatus s HealthUnhealthy ''failure_count'' True
      else if sn_State s = StateOnline \<and> \<not> IsZero (sn_LastOnlineTry s)
              \<and> time_Sub now (sn_LastOnlineTry s) > confirm_timeout (sc_OnlineConfirmTimeoutMS cfg)
              \<and> (case lookup of
                   None \<Rightarrow> True
                 | Some f \<Rightarrow> (let (st, ok) = f (sn_UID s)
                             in \<not> ok \<or> rs_StateName st \<noteq> RuntimeStateRunning \<or> rs_DisconnectReason st \<noteq> 0))
        then toStatus s HealthUnhealthy ''online_confirm_timeout'' False
      else toStatus s HealthHealthy '''' False)"

subsection \<open>Actor state\<close>

record request =
  rq_cmd :: Command
  rq_uid :: int
  rq_generation :: u64

record control =
  ct_kind :: controlKind
  ct_uid :: int

record controlResult =
  cr_uid :: int
  cr_ok :: bool

record Actor =
  a_slotID :: int
  a_uid :: int
  a_generation :: u64
  a_mode :: Mode
  a_state :: State
  a_cmds :: "request list"
  a_ctrls :: "control list"
  a_stop_closed :: bool
  a_done_closed :: bool
  a_nextMove :: time
  a_nextLocalShout :: time
  a_nextWorldShout :: time
  a_nextStore :: time
  a_storeUntil :: time
  a_lastOnlineTry :: time
  a_firstFailureAt :: time
  a_failures :: int
  a_busy :: bool
  a_busyKind :: string
  a_releaseRequested :: bool
  a_onlineDesired :: bool
  a_quarantined :: bool

definition NewActor :: "int \<Rightarrow> Mode \<Rightarrow> Actor" where
  "NewActor slotID mode =
     \<lparr>a_slotID = slotID, a_uid = 0, a_generation = 0, a_mode = mode, a_state = StateIdle,
      a_cmds = [], a_ctrls = [], a_stop_closed = False, a_done_closed = False,
      a_nextMove = zero_time, a_nextLocalShout = zero_time, a_nextWorldShout = zero_time,
      a_nextStore = zero_time, a_storeUntil = zero_time, a_lastOnlineTry = zero_time,
      a_firstFailureAt = zero_time, a_failures = 0, a_busy = False, a_busyKind = '''',
      a_releaseRequested = False, a_onlineDesired = False, a_quarantined = False\<rparr>"

definition snapshot :: "Actor \<Rightarrow> Snapshot" where
  "snapshot a =
     \<lparr>sn_SlotID = a_slotID a, sn_UID = a_uid a, sn_Generation = a_generation a,
      sn_Mode = a_mode a, sn_State = a_state a, sn_Busy = a_busy a, sn_BusyKind = a_busyKind a,
      sn_OnlineDesired = a_onlineDesired a, sn_LastOnlineTry = a_lastOnlineTry a,
      sn_FirstFailureAt = a_firstFailureAt a, sn_Failures = a_failures a,
      sn_Quarantined = a_quarantined a\<rparr>"

definition actor_status ::
    "Actor \<Rightarrow> time \<Rightarrow> RuntimeConfig \<Rightarrow> (int \<Rightarrow> RuntimeStatus \<times> bool) option \<Rightarrow> Status" where
  "actor_status a now rc lookup =
     EvaluateStatus (snapshot a) now
       \<lparr>sc_BadFailures = SchedulerBadFailures rc,
        sc_OnlineConfirmTimeoutMS = OnlineConfirmTimeoutMS rc\<rparr> lookup"

definition clearAutoActionSchedule :: "Actor \<Rightarrow> Actor" where
  "clearAutoActionSchedule a =
     a\<lparr>a_nextMove := zero_time, a_nextLocalShout := zero_time,
       a_nextWorldShout := zero_time, a_nextStore := zero_time\<rparr>"

definition clearAutoSchedule :: "Actor \<Rightarrow> Actor" where
  "clearAutoSchedule a =
     a\<lparr>a_nextMove := zero_time, a_nextLocalShout := zero_time,
       a_nextWorldShout := zero_time, a_nextStore := zero_time, a_storeUntil := zero_time\<rparr>"

definition resetForUID :: "int \<Rightarrow> Actor \<Rightarrow> Actor" where
  "resetForUID uid a =
     (clearAutoSchedule (a\<lparr>a_generation := a_generation a + 1, a_uid := uid\<rparr>))
       \<lparr>a_lastOnlineTry := zero_time, a_firstFailureAt := zero_time, a_failures := 0,
        a_busy := False, a_busyKind := '''', a_releaseRequested := False,
        a_onlineDesired := uid > 0, a_quarantined := False,
        a_state := (if uid > 0 then StateAssigned else StateIdle)\<rparr>"

definition markOnlineHealthy :: "Actor \<Rightarrow> Actor" where
  "markOnlineHealthy a =
     a\<lparr>a_failures := 0, a_firstFailureAt := zero_time, a_lastOnlineTry := zero_time\<rparr>"

definition clearOnlineAttempt :: "Actor \<Rightarrow> Actor" where
  "clearOnlineAttempt a = a\<lparr>a_lastOnlineTry := zero_time\<rparr>"

definition markOnlinePending :: "time \<Rightarrow> Actor \<Rightarrow> Actor" where
  "markOnlinePending now a =
     (if IsZero (a_firstFailureAt a) then a\<lparr>a_firstFailureAt := now\<rparr> else a)"

definition recordFailure :: "time \<Rightarrow> Actor \<Rightarrow> Actor" where
  "recordFailure now a =
     (let a = a\<lparr>a_failures := a_failures a + 1\<rparr>
      in if IsZero (a_firstFailureAt a) then a\<lparr>a_firstFailureAt := now\<rparr> else a)"

definition setBusy :: "bool \<Rightarrow> string \<Rightarrow> Actor \<Rightarrow> Actor" where
  "setBusy v kind a =
     (let a = a\<lparr>a_busy := v, a_busyKind := kind\<rparr>
      in if v then a\<lparr>a_state := StateBusy\<rparr>
         else if a_uid a > 0
           then a\<lparr>a_state := (if a_onlineDesired a then StateRunning else StateOffline)\<rparr>
         else a)"

definition quarantineCurrentUID :: "Actor \<Rightarrow> Actor" where
  "quarantineCurrentUID a =
     (let a = a\<lparr>a_quarantined := a_uid a > 0, a_busy := False, a_busyKind := '''',
                a_onlineDesired := False, a_releaseRequested := True\<rparr>
      in if a_uid a > 0 then a\<lparr>a_state := StateReleasing\<rparr> else a)"

definition storeExpired :: "time \<Rightarrow> Actor \<Rightarrow> bool" where
  "storeExpired now a \<longleftrightarrow> \<not> IsZero (a_storeUntil a) \<and> now > a_storeUntil a"

definition storeUntilMissing :: "Actor \<Rightarrow> bool" where
  "storeUntilMissing a \<longleftrightarrow> IsZero (a_storeUntil a)"

definition requestStop :: "Actor \<Rightarrow> Actor" where
  "requestStop a = a\<lparr>a_releaseRequested := True, a_stop_closed := True\<rparr>"

definition SetMode :: "Mode \<Rightarrow> Actor \<Rightarrow> Actor" where
  "SetMode m a = a\<lparr>a_mode := m\<rparr>"

definition handleLoopPanic :: "Actor \<Rightarrow> Actor" where
  "handleLoopPanic a =
     a\<lparr>a_busy := False, a_busyKind := '''', a_onlineDesired := False,
       a_releaseRequested := a_uid a > 0,
       a_state := (if a_uid a > 0 then StateReleasing else StateIdle)\<rparr>"

subsection \<open>Mailboxes\<close>

definition enqueue ::
    "Command \<Rightarrow> duration \<Rightarrow> ActionResult option \<Rightarrow> Actor \<Rightarrow> (ActionResult \<times> bool) \<times> Actor" where
  "enqueue cmd timeout reply a =
     (if length (a_cmds a) < 16
      then (let a' = a\<lparr>a_cmds := a_cmds a @ [\<lparr>rq_cmd = cmd, rq_uid = a_uid a, rq_generation = a_generation a\<rparr>]\<rparr>
            in if timeout \<le> 0
               then ((\<lparr>res_UID = a_uid a, res_CID = 0, res_OK = True, res_State = ActionStateAccepted, res_Message = ''''\<rparr>, True), a')
               else (case reply of
                       Some res \<Rightarrow> ((res, True), a')
                     | None \<Rightarrow> ((\<lparr>res_UID = a_uid a, res_CID = 0, res_OK = True, res_State = ActionStatePending,
                                 res_Message = ''actor command is still running''\<rparr>, True), a')))
      else ((\<lparr>res_UID = a_uid a, res_CID = 0, res_OK = False, res_State = ActionStateQueueFailed, res_Message = ''''\<rparr>, False), a))"

definition zero_control_result :: controlResult where
  "zero_control_result = \<lparr>cr_uid = 0, cr_ok = False\<rparr>"

text \<open>
  \<open>pick_done\<close> is the choice of \<open>select\<close> when the control mailbox has room and the actor
  is already done; \<open>reply\<close> is what the waiting caller receives, \<open>None\<close> when the timer or
  the done signal comes first.
\<close>

definition controlAndWait ::
    "control \<Rightarrow> bool \<Rightarrow> controlResult option \<Rightarrow> Actor \<Rightarrow> controlResult \<times> Actor" where
  "controlAndWait ctrl pick_done reply a =
     (if length (a_ctrls a) < 4 \<and> \<not> (a_done_closed a \<and> pick_done)
      then ((case reply of Some res \<Rightarrow> res | None \<Rightarrow> zero_control_result),
            a\<lparr>a_ctrls := a_ctrls a @ [ctrl]\<rparr>)
      else (zero_control_result, a))"

definition assignAndWait ::
    "int \<Rightarrow> bool \<Rightarrow> controlResult option \<Rightarrow> Actor \<Rightarrow> bool \<times> Actor" where
  "assignAndWait uid pick_done reply a =
     (if uid \<le> 0 then (False, a)
      else (let (res, a') = controlAndWait \<lparr>ct_kind = controlAssign, ct_uid = uid\<rparr> pick_done reply a
            in (cr_ok res, a')))"

definition releaseAndWait ::
    "bool \<Rightarrow> controlResult option \<Rightarrow> Actor \<Rightarrow> int \<times> Actor" where
  "releaseAndWait pick_done reply a =
     (let (res, a') = controlAndWait \<lparr>ct_kind = controlRelease, ct_uid = 0\<rparr> pick_done reply
                        (a\<lparr>a_releaseRequested := True\<rparr>)
      in (cr_uid res, a'))"

definition actorPollInterval :: "RuntimeConfig \<Rightarrow> duration" where
  "actorPollInterval rc =
     (let intervalMS = SystemActorPollMS rc;
          intervalMS = (if intervalMS \<le> 0 then 1000 else intervalMS);
          intervalMS = (if intervalMS < 100 then 100 else intervalMS)
      in i64 (intervalMS * Millisecond))"

end
