(* ===== verification/Ledger.thy ===== *)
theory Ledger
  imports Actor
begin

section \<open>The lease ledger\<close>

text \<open>
  \<open>actor/ledger.go\<close>: the index of actors by slot, of leases by UID, the actors being drained,
  and the blocked and quarantined UIDs. Actor pointers are addresses into the heap
  \<open>l_heap\<close>, which is part of the record; \<open>l_nextRef\<close> is the next free address.
  A \<open>nil\<close> pointer is \<open>None\<close>, so reading a missing key of a pointer map is the map itself.
  Each operation that holds \<open>indexMu\<close> is one step; an operation that ranges over a map
  takes the order of the iteration as an argument (\<open>oa\<close> for actors, \<open>od\<close> for
  draining, \<open>ou\<close> for leases).
\<close>

type_synonym aref = nat

record Ledger =
  l_actors :: "int \<rightharpoonup> aref"
  l_uidActors :: "int \<rightharpoonup> aref"
  l_draining :: "int \<rightharpoonup> aref"
  l_blockedUID :: "int set"
  l_quarantine :: "int set"
  l_nextSlotID :: int
  l_heap :: "aref \<Rightarrow> Actor"
  l_nextRef :: aref

record LeaseSnapshot =
  ls_UID :: int
  ls_Actor :: aref
  ls_Blocked :: bool

record LedgerCounts =
  lc_Auto :: int
  lc_Leased :: int
  lc_Idle :: int
  lc_Draining :: int
  lc_Releasing :: int
  lc_Blocked :: int
  lc_StateIdle :: int
  lc_StateAssigned :: int
  lc_StateOnline :: int
  lc_StateRunning :: int
  lc_StateBusy :: int
  lc_StateReleasing :: int

definition NewLedger :: Ledger where
  "NewLedger =
     \<lparr>l_actors = Map.empty, l_uidActors = Map.empty, l_draining = Map.empty,
      l_blockedUID = {}, l_quarantine = {}, l_nextSlotID = 0,
      l_heap = (\<lambda>_. NewActor 0 ModeAuto), l_nextRef = 0\<rparr>"

abbreviation actor_at :: "Ledger \<Rightarrow> aref \<Rightarrow> Actor" where
  "actor_at l a \<equiv> l_heap l a"

definition is_draining :: "Ledger \<Rightarrow> int \<Rightarrow> aref \<Rightarrow> bool" where
  "is_draining l slot a \<longleftrightarrow> l_draining l slot = Some a"

definition slot_of :: "Ledger \<Rightarrow> aref \<Rightarrow> int" where
  "slot_of l a = a_slotID (l_heap l a)"

definition actorDone :: "Ledger \<Rightarrow> aref \<Rightarrow> bool" where
  "actorDone l a = a_done_closed (l_heap l a)"

subsection \<open>Queries\<close>

definition LeaseSnapshots :: "int list \<Rightarrow> Ledger \<Rightarrow> LeaseSnapshot list" where
  "LeaseSnapshots ou l =
     map (\<lambda>(uid, a). \<lparr>ls_UID = uid, ls_Actor = a, ls_Blocked = uid \<in> l_blockedUID l\<rparr>)
       (filter (\<lambda>(uid, a). uid > 0 \<and> \<not> is_draining l (slot_of l a) a) (range_over ou (l_uidActors l)))"

definition IsQuarantinedUID :: "Ledger \<Rightarrow> int \<Rightarrow> bool" where
  "IsQuarantinedUID l uid \<longleftrightarrow> uid \<in> l_quarantine l"

text \<open>\<open>ob\<close> is the iteration order of the blocked set.\<close>

definition BlockedUIDs :: "int list \<Rightarrow> Ledger \<Rightarrow> int \<Rightarrow> int list" where
  "BlockedUIDs ob l limit = (if limit \<le> 0 then [] else take (nat limit) ob)"

definition BlockedCount :: "Ledger \<Rightarrow> int" where
  "BlockedCount l = int (card (l_blockedUID l))"

definition BlockedUIDSet :: "Ledger \<Rightarrow> int set" where
  "BlockedUIDSet l = l_blockedUID l"

definition ActorForUID :: "Ledger \<Rightarrow> int \<Rightarrow> aref option" where
  "ActorForUID l uid = l_uidActors l uid"

definition HasUID :: "Ledger \<Rightarrow> int \<Rightarrow> bool" where
  "HasUID l uid \<longleftrightarrow> (if uid \<le> 0 then False else l_uidActors l uid \<noteq> None)"

definition ActorPointers :: "int list \<Rightarrow> Ledger \<Rightarrow> aref list" where
  "ActorPointers oa l = map snd (range_over oa (l_actors l))"

definition AutoActorPointers :: "int list \<Rightarrow> Ledger \<Rightarrow> aref list" where
  "AutoActorPointers oa l =
     map snd (filter (\<lambda>(slot, a). a_mode (actor_at l a) = ModeAuto \<and> \<not> is_draining l slot a)
                (range_over oa (l_actors l)))"

definition IdleAutoActors :: "int list \<Rightarrow> Ledger \<Rightarrow> aref list" where
  "IdleAutoActors oa l =
     filter (\<lambda>a. SnapshotEmpty (snapshot (actor_at l a))) (AutoActorPointers oa l)"

definition FilterBlockedRuntimeStatus ::
    "Ledger \<Rightarrow> (int \<rightharpoonup> RuntimeStatus) \<Rightarrow> (int \<rightharpoonup> RuntimeStatus)" where
  "FilterBlockedRuntimeStatus l status = status |` (- l_blockedUID l)"

definition IsDraining :: "Ledger \<Rightarrow> aref option \<Rightarrow> bool" where
  "IsDraining l actor =
     (case actor of None \<Rightarrow> False | Some a \<Rightarrow> is_draining l (slot_of l a) a)"

definition DrainingCount :: "Ledger \<Rightarrow> int" where
  "DrainingCount l = int (card (dom (l_draining l)))"

definition ActorOwnsUID :: "int list \<Rightarrow> Ledger \<Rightarrow> int \<Rightarrow> bool" where
  "ActorOwnsUID oa l uid \<longleftrightarrow>
     (if uid \<le> 0 then False
      else if ActorForUID l uid \<noteq> None then True
      else list_ex (\<lambda>a. a_uid (actor_at l a) = uid) (ActorPointers oa l))"

text \<open>\<open>Counts\<close>: the counters one actor contributes.\<close>

definition zero_counts :: LedgerCounts where
  "zero_counts =
     \<lparr>lc_Auto = 0, lc_Leased = 0, lc_Idle = 0, lc_Draining = 0, lc_Releasing = 0, lc_Blocked = 0,
      lc_StateIdle = 0, lc_StateAssigned = 0, lc_StateOnline = 0, lc_StateRunning = 0,
      lc_StateBusy = 0, lc_StateReleasing = 0\<rparr>"

definition count_actor :: "Status \<Rightarrow> bool \<Rightarrow> LedgerCounts \<Rightarrow> LedgerCounts" where
  "count_actor st draining c =
     (let c = c\<lparr>lc_Auto := lc_Auto c + 1\<rparr>;
          c = (if sn_UID st > 0 then c\<lparr>lc_Leased := lc_Leased c + 1\<rparr> else c\<lparr>lc_Idle := lc_Idle c + 1\<rparr>)
      in if draining
         then c\<lparr>lc_Draining := lc_Draining c + 1, lc_Releasing := lc_Releasing c + 1,
                lc_StateReleasing := lc_StateReleasing c + 1\<rparr>
         else
           let c = (if sn_State st = StateReleasing then c\<lparr>lc_Releasing := lc_Releasing c + 1\<rparr> else c)
           in (case sn_State st of
                 StateIdle \<Rightarrow> c\<lparr>lc_StateIdle := lc_StateIdle c + 1\<rparr>
               | StateOffline \<Rightarrow> c\<lparr>lc_StateAssigned := lc_StateAssigned c + 1\<rparr>
               | StateAssigned \<Rightarrow> c\<lparr>lc_StateAssigned := lc_StateAssigned c + 1\<rparr>
               | StateOnline \<Rightarrow> c\<lparr>lc_StateOnline := lc_StateOnline c + 1\<rparr>
               | StateRunning \<Rightarrow> c\<lparr>lc_StateRunning := lc_StateRunning c + 1\<rparr>
               | StateBusy \<Rightarrow> c\<lparr>lc_StateBusy := lc_StateBusy c + 1\<rparr>
               | StateReleasing \<Rightarrow> c\<lparr>lc_StateReleasing := lc_StateReleasing c + 1\<rparr>))"

definition Counts ::
    "int list \<Rightarrow> Ledger \<Rightarrow> time \<Rightarrow> RuntimeConfig \<Rightarrow> (int \<Rightarrow> RuntimeStatus \<times> bool) option \<Rightarrow> LedgerCounts" where
  "Counts oa l now rc lookup =
     fold (\<lambda>(slot, a). count_actor (actor_status (actor_at l a) now rc lookup) (is_draining l slot a))
       (filter (\<lambda>(slot, a). a_mode (actor_at l a) = ModeAuto) (range_over oa (l_actors l)))
       (zero_counts\<lparr>lc_Blocked := BlockedCount l\<rparr>)"

subsection \<open>Leases and blocks\<close>

definition BlockLeaseIfCurrent :: "int \<Rightarrow> aref option \<Rightarrow> Ledger \<Rightarrow> bool \<times> Ledger" where
  "BlockLeaseIfCurrent uid actor l =
     (if l_uidActors l uid \<noteq> actor then (False, l)
      else (True, l\<lparr>l_blockedUID := insert uid (l_blockedUID l)\<rparr>))"

definition UnblockUID :: "int \<Rightarrow> Ledger \<Rightarrow> Ledger" where
  "UnblockUID uid l =
     (if uid \<notin> l_quarantine l then l\<lparr>l_blockedUID := l_blockedUID l - {uid}\<rparr> else l)"

definition TryLeaseUID :: "int \<Rightarrow> aref option \<Rightarrow> Ledger \<Rightarrow> bool \<times> Ledger" where
  "TryLeaseUID uid actor l =
     (case actor of
        None \<Rightarrow> (False, l)
      | Some a \<Rightarrow>
          (if uid \<le> 0 then (False, l)
           else if is_draining l (slot_of l a) a then (False, l)
           else if uid \<in> l_blockedUID l then (False, l)
           else if uid \<in> dom (l_uidActors l) then (False, l)
           else (True, l\<lparr>l_uidActors := (l_uidActors l)(uid \<mapsto> a)\<rparr>)))"

definition UnleaseUID :: "int \<Rightarrow> aref option \<Rightarrow> Ledger \<Rightarrow> Ledger" where
  "UnleaseUID uid actor l =
     (if uid \<le> 0 then l
      else if actor = None \<or> l_uidActors l uid = actor \<or> l_uidActors l uid = None
        then l\<lparr>l_uidActors := (l_uidActors l)(uid := None)\<rparr>
      else l)"

definition RemoveLeaseIfActor :: "int \<Rightarrow> aref option \<Rightarrow> Ledger \<Rightarrow> Ledger" where
  "RemoveLeaseIfActor uid actor l =
     (if l_uidActors l uid = actor then l\<lparr>l_uidActors := (l_uidActors l)(uid := None)\<rparr> else l)"

definition BlockUID :: "int \<Rightarrow> Ledger \<Rightarrow> Ledger" where
  "BlockUID uid l = (if uid \<le> 0 then l else l\<lparr>l_blockedUID := insert uid (l_blockedUID l)\<rparr>)"

subsection \<open>Reaping finished actors\<close>

definition reap_unexpected ::
    "int \<times> aref \<Rightarrow> Ledger \<times> (aref \<rightharpoonup> bool) \<times> int \<Rightarrow> Ledger \<times> (aref \<rightharpoonup> bool) \<times> int" where
  "reap_unexpected = (\<lambda>(slot, a) (l, dead, reaped).
     if is_draining l slot a \<or> \<not> actorDone l a then (l, dead, reaped)
     else (l\<lparr>l_actors := (l_actors l)(slot := None)\<rparr>, dead(a \<mapsto> True), reaped + 1))"

definition reap_draining ::
    "int \<times> aref \<Rightarrow> Ledger \<times> (aref \<rightharpoonup> bool) \<times> int \<Rightarrow> Ledger \<times> (aref \<rightharpoonup> bool) \<times> int" where
  "reap_draining = (\<lambda>(slot, a) (l, dead, reaped).
     if \<not> actorDone l a then (l, dead, reaped)
     else
       let l = l\<lparr>l_draining := (l_draining l)(slot := None)\<rparr>;
           l = (if l_actors l slot = Some a then l\<lparr>l_actors := (l_actors l)(slot := None)\<rparr> else l);
           reaped = (if a \<notin> dom dead then reaped + 1 else reaped)
       in (l, dead(a \<mapsto> a_quarantined (actor_at l a)), reaped))"

definition reap_lease :: "(aref \<rightharpoonup> bool) \<Rightarrow> int \<times> aref \<Rightarrow> Ledger \<Rightarrow> Ledger" where
  "reap_lease dead = (\<lambda>(uid, a) l.
     case dead a of
       None \<Rightarrow> l
     | Some block \<Rightarrow>
         (let l = l\<lparr>l_uidActors := (l_uidActors l)(uid := None)\<rparr>
          in if block \<and> uid > 0
             then l\<lparr>l_blockedUID := insert uid (l_blockedUID l), l_quarantine := insert uid (l_quarantine l)\<rparr>
             else l\<lparr>l_blockedUID := l_blockedUID l - {uid}\<rparr>))"

definition reapDoneActorsLocked ::
    "int list \<Rightarrow> int list \<Rightarrow> int list \<Rightarrow> bool \<Rightarrow> Ledger \<Rightarrow> int \<times> Ledger" where
  "reapDoneActorsLocked oa od ou includeUnexpected l =
     (let (l, dead, reaped) =
            (if includeUnexpected
             then fold reap_unexpected (range_over oa (l_actors l)) (l, Map.empty, 0)
             else (l, Map.empty, 0));
          (l, dead, reaped) = fold reap_draining (range_over od (l_draining l)) (l, dead, reaped)
      in if dead = Map.empty then (reaped, l)
         else (reaped, fold (reap_lease dead) (range_over ou (l_uidActors l)) l))"

definition reapDoneDrainingLocked :: "int list \<Rightarrow> int list \<Rightarrow> Ledger \<Rightarrow> int \<times> Ledger" where
  "reapDoneDrainingLocked od ou l = reapDoneActorsLocked [] od ou False l"

definition ReapDoneDraining :: "int list \<Rightarrow> int list \<Rightarrow> int list \<Rightarrow> Ledger \<Rightarrow> int \<times> Ledger" where
  "ReapDoneDraining oa od ou l = reapDoneActorsLocked oa od ou True l"

definition reap_lease_of :: "aref \<Rightarrow> int \<times> aref \<Rightarrow> Ledger \<Rightarrow> Ledger" where
  "reap_lease_of a = (\<lambda>(uid, leased) l.
     if leased = a then
       (let l = l\<lparr>l_uidActors := (l_uidActors l)(uid := None)\<rparr>
        in if a_quarantined (actor_at l a)
           then l\<lparr>l_blockedUID := insert uid (l_blockedUID l), l_quarantine := insert uid (l_quarantine l)\<rparr>
           else l\<lparr>l_blockedUID := l_blockedUID l - {uid}\<rparr>)
     else l)"

definition reapActorLocked :: "int list \<Rightarrow> aref \<Rightarrow> Ledger \<Rightarrow> bool \<times> Ledger" where
  "reapActorLocked ou a l =
     (let slot = slot_of l a
      in if \<not> is_draining l slot a \<or> \<not> actorDone l a then (False, l)
         else
           let l = l\<lparr>l_draining := (l_draining l)(slot := None)\<rparr>;
               l = (if l_actors l slot = Some a then l\<lparr>l_actors := (l_actors l)(slot := None)\<rparr> else l)
           in (True, fold (reap_lease_of a) (range_over ou (l_uidActors l)) l))"

definition ReapActor :: "int list \<Rightarrow> aref option \<Rightarrow> Ledger \<Rightarrow> bool \<times> Ledger" where
  "ReapActor ou actor l =
     (case actor of
        None \<Rightarrow> (False, l)
      | Some a \<Rightarrow>
          (if \<not> actorDone l a then (False, l)
           else if \<not> is_draining l (slot_of l a) a then (True, l)
           else reapActorLocked ou a l))"

subsection \<open>Slots\<close>

definition nextSlotLocked :: "Ledger \<Rightarrow> int \<times> Ledger" where
  "nextSlotLocked l =
     (let l = l\<lparr>l_nextSlotID := l_nextSlotID l + 1\<rparr> in (l_nextSlotID l, l))"

text \<open>\<open>NewActor\<close> with the slot just taken, entered in the index and started.\<close>

definition add_actor :: "Mode \<Rightarrow> Ledger \<Rightarrow> aref \<times> Ledger" where
  "add_actor mode l =
     (let (slot, l) = nextSlotLocked l;
          a = l_nextRef l
      in (a, l\<lparr>l_heap := (l_heap l)(a := NewActor slot mode), l_nextRef := Suc a,
                l_actors := (l_actors l)(slot \<mapsto> a)\<rparr>))"

fun add_actors :: "nat \<Rightarrow> Ledger \<Rightarrow> Ledger" where
  "add_actors 0 l = l"
| "add_actors (Suc k) l = add_actors k (snd (add_actor ModeAuto l))"

text \<open>The comparison \<open>SortActorsForStop\<close> passes to \<open>sort.Slice\<close>, and the sort it asks for.\<close>

definition stop_before :: "Ledger \<Rightarrow> (int \<rightharpoonup> RuntimeStatus) \<Rightarrow> aref \<Rightarrow> aref \<Rightarrow> bool" where
  "stop_before l status a b \<longleftrightarrow>
     (let leftPriority = StopPriority (a_uid (actor_at l a)) status;
          rightPriority = StopPriority (a_uid (actor_at l b)) status;
          leftUID = a_uid (actor_at l a);
          rightUID = a_uid (actor_at l b)
      in if leftPriority \<noteq> rightPriority then leftPriority < rightPriority
         else if leftUID \<le> 0 \<or> rightUID \<le> 0 then
           (if leftUID \<noteq> rightUID then leftUID \<le> 0 else slot_of l a > slot_of l b)
         else if leftUID \<noteq> rightUID then leftUID > rightUID
         else slot_of l a > slot_of l b)"

fun insert_for_stop :: "(aref \<Rightarrow> aref \<Rightarrow> bool) \<Rightarrow> aref \<Rightarrow> aref list \<Rightarrow> aref list" where
  "insert_for_stop lt a [] = [a]"
| "insert_for_stop lt a (b # bs) = (if lt b a then b # insert_for_stop lt a bs else a # b # bs)"

definition SortActorsForStop :: "Ledger \<Rightarrow> (int \<rightharpoonup> RuntimeStatus) \<Rightarrow> aref list \<Rightarrow> aref list" where
  "SortActorsForStop l status actors = foldr (insert_for_stop (stop_before l status)) actors []"

definition mark_draining :: "aref list \<Rightarrow> Ledger \<Rightarrow> Ledger" where
  "mark_draining as l = fold (\<lambda>a l. l\<lparr>l_draining := (l_draining l)(slot_of l a \<mapsto> a)\<rparr>) as l"

text \<open>
  \<open>EnsureAutoActorSlots\<close>. \<open>oa\<close> and \<open>oa'\<close> are the orders of the counting loop and of the
  loop that collects the candidates, which runs after the new actors have been added.
\<close>

definition pending_count :: "int list \<Rightarrow> Ledger \<Rightarrow> int" where
  "pending_count oa l =
     int (length (filter (\<lambda>(slot, a). a_mode (actor_at l a) = ModeAuto \<and> \<not> is_draining l slot a
                             \<and> SnapshotSchedulerPending (snapshot (actor_at l a)))
            (range_over oa (l_actors l))))"

definition auto_count :: "int list \<Rightarrow> Ledger \<Rightarrow> int" where
  "auto_count oa l =
     int (length (filter (\<lambda>(slot, a). a_mode (actor_at l a) = ModeAuto) (range_over oa (l_actors l))))"

definition slots_to_add :: "RuntimeConfig \<Rightarrow> int \<Rightarrow> int \<Rightarrow> int \<Rightarrow> int" where
  "slots_to_add rc target current pending =
     (let addCount = target - current;
          addCount = (if addCount < 0 then 0 else addCount);
          addCount = (if pending \<ge> PendingActorLimit target rc then 0 else addCount)
      in if addCount > ScaleUpBatch rc then ScaleUpBatch rc else addCount)"

definition slots_to_drain :: "int \<Rightarrow> int \<Rightarrow> int \<Rightarrow> int" where
  "slots_to_drain current target candidates =
     (let removeCount = current - target;
          removeCount = (if removeCount > ScaleDownBatch current target
                         then ScaleDownBatch current target else removeCount)
      in if removeCount > candidates then candidates else removeCount)"

definition EnsureAutoActorSlots ::
    "int list \<Rightarrow> int list \<Rightarrow> int list \<Rightarrow> int list \<Rightarrow> RuntimeConfig \<Rightarrow> int \<Rightarrow> (int \<rightharpoonup> RuntimeStatus) \<Rightarrow> Ledger
      \<Rightarrow> aref list \<times> Ledger" where
  "EnsureAutoActorSlots od ou oa oa' rc target0 status l0 =
     (let target = (if target0 < 0 then 0 else target0);
          l1 = snd (reapDoneDrainingLocked od ou l0);
          added = slots_to_add rc target (auto_count oa l1) (pending_count oa l1);
          l2 = add_actors (nat added) l1;
          current = auto_count oa l1 + added
      in if current \<le> target then ([], l2)
         else
           let candidates = SortActorsForStop l2 status (AutoActorPointers oa' l2);
               extra = take (nat (slots_to_drain current target (int (length candidates)))) candidates
           in (extra, mark_draining extra l2))"

definition ReserveEmptyAutoActor ::
    "int list \<Rightarrow> int \<Rightarrow> Ledger \<Rightarrow> (aref option \<times> bool \<times> bool) \<times> Ledger" where
  "ReserveEmptyAutoActor oa uid l =
     (if uid \<le> 0 then ((None, False, False), l)
      else if uid \<in> l_blockedUID l then ((None, False, False), l)
      else (case l_uidActors l uid of
              Some existing \<Rightarrow> ((Some existing, True, True), l)
            | None \<Rightarrow>
                (case List.find (\<lambda>(slot, a). \<not> is_draining l slot a \<and> a_mode (actor_at l a) = ModeAuto
                                    \<and> a_uid (actor_at l a) \<le> 0) (range_over oa (l_actors l)) of
                   None \<Rightarrow> ((None, False, False), l)
                 | Some (slot, a) \<Rightarrow>
                     ((Some a, False, True), l\<lparr>l_uidActors := (l_uidActors l)(uid \<mapsto> a)\<rparr>))))"

definition ReserveManualActor :: "int \<Rightarrow> Ledger \<Rightarrow> (aref option \<times> bool \<times> bool) \<times> Ledger" where
  "ReserveManualActor uid l =
     (if uid \<le> 0 then ((None, False, False), l)
      else if uid \<in> l_blockedUID l then ((None, False, False), l)
      else (case l_uidActors l uid of
              Some existing \<Rightarrow> ((Some existing, True, True), l)
            | None \<Rightarrow>
                (let (a, l) = add_actor ModeManual l
                 in ((Some a, False, True), l\<lparr>l_uidActors := (l_uidActors l)(uid \<mapsto> a)\<rparr>))))"

definition adopt_one :: "int \<times> aref \<Rightarrow> Ledger \<times> int \<Rightarrow> Ledger \<times> int" where
  "adopt_one = (\<lambda>(slot, a) (l, adopted).
     if is_draining l slot a \<or> a_mode (actor_at l a) \<noteq> ModeManual then (l, adopted)
     else (l\<lparr>l_heap := (l_heap l)(a := SetMode ModeAuto (actor_at l a))\<rparr>, adopted + 1))"

definition AdoptManualActors :: "int list \<Rightarrow> Ledger \<Rightarrow> int \<times> Ledger" where
  "AdoptManualActors oa l =
     (let (l', adopted) = fold adopt_one (range_over oa (l_actors l)) (l, 0) in (adopted, l'))"

subsection \<open>Draining\<close>

definition BeginDrainAutoActors :: "int list \<Rightarrow> Ledger \<Rightarrow> aref list \<times> Ledger" where
  "BeginDrainAutoActors oa l =
     (let chosen = filter (\<lambda>(slot, a). a_mode (actor_at l a) = ModeAuto \<and> \<not> is_draining l slot a)
                     (range_over oa (l_actors l))
      in (map snd chosen, l\<lparr>l_draining := l_draining l ++ map_of chosen\<rparr>))"

definition BeginDrainSomeAutoActors ::
    "int list \<Rightarrow> (int \<rightharpoonup> RuntimeStatus) \<Rightarrow> int \<Rightarrow> int \<Rightarrow> Ledger \<Rightarrow> aref list \<times> Ledger" where
  "BeginDrainSomeAutoActors oa status limit floor0 l =
     (if limit \<le> 0 then ([], l)
      else
        let candidates = SortActorsForStop l status (AutoActorPointers oa l);
            floor0 = (if floor0 < 0 then 0 else floor0)
        in if int (length candidates) \<le> floor0 then ([], l)
           else
             let maxStop = int (length candidates) - floor0;
                 limit = (if limit > maxStop then maxStop else limit);
                 limit = (if limit > int (length candidates) then int (length candidates) else limit);
                 actors = take (nat limit) candidates
             in (actors, mark_draining actors l))"

definition BeginDrainAllActors :: "int list \<Rightarrow> Ledger \<Rightarrow> aref list \<times> Ledger" where
  "BeginDrainAllActors oa l =
     (ActorPointers oa l, l\<lparr>l_draining := l_draining l ++ l_actors l\<rparr>)"

definition BeginDrainUID :: "int \<Rightarrow> Ledger \<Rightarrow> aref option \<times> Ledger" where
  "BeginDrainUID uid l =
     (case l_uidActors l uid of
        None \<Rightarrow> (None, l)
      | Some a \<Rightarrow> (Some a, mark_draining [a] l))"

fun drain_uids :: "int list \<Rightarrow> int set \<Rightarrow> Ledger \<Rightarrow> aref list \<times> int list \<times> Ledger" where
  "drain_uids [] seen l = ([], [], l)"
| "drain_uids (uid # uids) seen l =
     (if uid \<le> 0 then drain_uids uids seen l
      else if uid \<in> seen then drain_uids uids seen l
      else (case l_uidActors l uid of
              None \<Rightarrow>
                (let (actors, missing, l') = drain_uids uids (insert uid seen) l
                 in (actors, uid # missing, l'))
            | Some a \<Rightarrow>
                (let (actors, missing, l') = drain_uids uids (insert uid seen) (mark_draining [a] l)
                 in (a # actors, missing, l'))))"

definition BeginDrainUIDs :: "int list \<Rightarrow> Ledger \<Rightarrow> (aref list \<times> int list) \<times> Ledger" where
  "BeginDrainUIDs uids l = (let (actors, missing, l') = drain_uids uids {} l in ((actors, missing), l'))"

end
