(* ===== verification/Actor_Loop.thy ===== *)
theory Actor_Loop
  imports Actor
begin

section \<open>The actor's loop and its handlers\<close>

text \<open>
  The handlers of \<open>actor_loop.go\<close> and \<open>actor_actions.go\<close> as programs over the actor and
  a runtime state. \<open>andThen\<close> sequences statements, \<open>deferring\<close> is a \<open>defer\<close> whose
  function updates the actor, \<open>recovering\<close> is a deferred \<open>recover\<close>. The last section
  proves a small program logic for them and the invariants of the actor with it.
\<close>

datatype 'a outcome = Ret 'a | Panic string | Spin

type_synonym ('r, 'a) prog = "Actor \<times> 'r \<Rightarrow> 'a outcome \<times> Actor \<times> 'r"

definition ret :: "'a \<Rightarrow> ('r, 'a) prog" where
  "ret x s = (Ret x, s)"

definition andThen :: "('r, 'a) prog \<Rightarrow> ('a \<Rightarrow> ('r, 'b) prog) \<Rightarrow> ('r, 'b) prog" where
  "andThen p f s =
     (case p s of
        (Ret x, s') \<Rightarrow> f x s'
      | (Panic m, s') \<Rightarrow> (Panic m, s')
      | (Spin, s') \<Rightarrow> (Spin, s'))"

definition reading :: "(Actor \<Rightarrow> 'a) \<Rightarrow> ('r, 'a) prog" where
  "reading f s = (Ret (f (fst s)), s)"

definition updating :: "(Actor \<Rightarrow> Actor) \<Rightarrow> ('r, unit) prog" where
  "updating f s = (Ret (), f (fst s), snd s)"

definition calling :: "('r \<Rightarrow> 'a outcome \<times> 'r) \<Rightarrow> ('r, 'a) prog" where
  "calling op s = (case op (snd s) of (res, r') \<Rightarrow> (res, fst s, r'))"

definition asking :: "('r \<Rightarrow> 'a \<times> 'r) \<Rightarrow> ('r, 'a) prog" where
  "asking op s = (case op (snd s) of (x, r') \<Rightarrow> (Ret x, fst s, r'))"

definition deferring :: "(Actor \<Rightarrow> Actor) \<Rightarrow> ('r, 'a) prog \<Rightarrow> ('r, 'a) prog" where
  "deferring f p s = (case p s of (res, a, r) \<Rightarrow> (res, f a, r))"

definition recovering :: "(string \<Rightarrow> ('r, 'a) prog) \<Rightarrow> ('r, 'a) prog \<Rightarrow> ('r, 'a) prog" where
  "recovering h p s = (case p s of (Panic m, s') \<Rightarrow> h m s' | (res, s') \<Rightarrow> (res, s'))"

subsection \<open>The runtime interface\<close>

text \<open>
  \<open>RobotRuntime\<close> of \<open>actor/model.go\<close>. \<open>rt_ForceClose\<close> is \<open>None\<close> when the runtime does
  not implement \<open>runtimeForceCloser\<close>. The last four fields are the environment of the
  goroutine: the clock, \<open>time.Sleep\<close>, \<open>rand.Intn\<close>, and whether another goroutine has
  set \<open>releaseRequested\<close> by the time the flag is read.
\<close>

record 'r RobotRuntime =
  rt_Config :: "'r \<Rightarrow> RuntimeConfig outcome \<times> 'r"
  rt_Status :: "int \<Rightarrow> 'r \<Rightarrow> (RuntimeStatus \<times> bool) outcome \<times> 'r"
  rt_PartyActive :: "int \<Rightarrow> 'r \<Rightarrow> bool outcome \<times> 'r"
  rt_IsActive :: "int \<Rightarrow> 'r \<Rightarrow> bool outcome \<times> 'r"
  rt_FinishStoreState :: "int \<Rightarrow> int \<Rightarrow> string \<Rightarrow> 'r \<Rightarrow> unit outcome \<times> 'r"
  rt_AddAutoOnline :: "int \<Rightarrow> int \<Rightarrow> 'r \<Rightarrow> unit outcome \<times> 'r"
  rt_AutoActionsEnabled :: "RuntimeConfig \<Rightarrow> 'r \<Rightarrow> bool outcome \<times> 'r"
  rt_RandomShoutMessage :: "'r \<Rightarrow> string outcome \<times> 'r"
  rt_OnlineNoConfirm :: "int \<Rightarrow> 'r \<Rightarrow> ActionResult outcome \<times> 'r"
  rt_Logout :: "int \<Rightarrow> 'r \<Rightarrow> ActionResult outcome \<times> 'r"
  rt_Move :: "int \<Rightarrow> 'r \<Rightarrow> ActionResult outcome \<times> 'r"
  rt_Shout :: "int \<Rightarrow> bool \<Rightarrow> 'r \<Rightarrow> ActionResult outcome \<times> 'r"
  rt_Store :: "int \<Rightarrow> 'r \<Rightarrow> ActionResult outcome \<times> 'r"
  rt_AutoMove :: "int \<Rightarrow> 'r \<Rightarrow> ActionResult outcome \<times> 'r"
  rt_AutoShout :: "int \<Rightarrow> bool \<Rightarrow> string \<Rightarrow> 'r \<Rightarrow> ActionResult outcome \<times> 'r"
  rt_AutoStore :: "int \<Rightarrow> ('r \<Rightarrow> bool outcome \<times> 'r) \<Rightarrow> 'r \<Rightarrow> ActionResult outcome \<times> 'r"
  rt_ExpireStore :: "int \<Rightarrow> 'r \<Rightarrow> ActionResult outcome \<times> 'r"
  rt_ForceClose :: "(int \<Rightarrow> 'r \<Rightarrow> bool outcome \<times> 'r) option"
  rt_Now :: "'r \<Rightarrow> time \<times> 'r"
  rt_Sleep :: "duration \<Rightarrow> 'r \<Rightarrow> 'r"
  rt_Intn :: "int \<Rightarrow> 'r \<Rightarrow> int \<times> 'r"
  rt_ReleaseRequested :: "'r \<Rightarrow> bool"

definition setState :: "State \<Rightarrow> ('r, unit) prog" where
  "setState st = updating (\<lambda>a. a\<lparr>a_state := st\<rparr>)"

definition releaseRequestedValue :: "'r RobotRuntime \<Rightarrow> ('r, bool) prog" where
  "releaseRequestedValue rt s =
     (let a = (if rt_ReleaseRequested rt (snd s) then (fst s)\<lparr>a_releaseRequested := True\<rparr> else fst s)
      in (Ret (a_releaseRequested a), a, snd s))"

definition sleeping :: "'r RobotRuntime \<Rightarrow> duration \<Rightarrow> ('r, unit) prog" where
  "sleeping rt d s = (Ret (), fst s, rt_Sleep rt d (snd s))"

definition running_busy :: "string \<Rightarrow> ('r, 'a) prog \<Rightarrow> ('r, 'a) prog" where
  "running_busy kind p = andThen (updating (setBusy True kind)) (\<lambda>_. deferring (setBusy False '''') p)"

definition randIntn :: "'r RobotRuntime \<Rightarrow> int \<Rightarrow> 'r \<Rightarrow> int \<times> 'r" where
  "randIntn rt n r = (if n \<le> 0 then (0, r) else rt_Intn rt n r)"

definition randBetween :: "'r RobotRuntime \<Rightarrow> int \<Rightarrow> int \<Rightarrow> 'r \<Rightarrow> int \<times> 'r" where
  "randBetween rt mn mx r =
     (let (mn, mx) = (if mx < mn then (mx, mn) else (mn, mx));
          (k, r') = randIntn rt (mx - mn + 1) r
      in (mn + k, r'))"

text \<open>\<open>RandomizedDue\<close>: the new value of \<open>*next\<close> and whether the action is due.\<close>

definition RandomizedDue ::
    "time \<Rightarrow> time \<Rightarrow> int \<Rightarrow> int \<Rightarrow> (int \<Rightarrow> int \<Rightarrow> 'r \<Rightarrow> int \<times> 'r) \<Rightarrow> 'r \<Rightarrow> (time \<times> bool) \<times> 'r" where
  "RandomizedDue nxt now minSec maxSec between r =
     (if minSec \<le> 0 \<or> maxSec \<le> 0 then ((nxt, False), r)
      else
        let (minSec, maxSec) = (if maxSec < minSec then (maxSec, minSec) else (minSec, maxSec))
        in if IsZero nxt
           then (let (k, r') = between minSec maxSec r in ((now + i64 (k * Second), False), r'))
           else if now < nxt then ((nxt, False), r)
           else (let (k, r') = between minSec maxSec r in ((now + i64 (k * Second), True), r')))"

definition due :: "'r RobotRuntime \<Rightarrow> (Actor \<Rightarrow> time) \<Rightarrow> (time \<Rightarrow> Actor \<Rightarrow> Actor) \<Rightarrow> time \<Rightarrow> int \<Rightarrow> int \<Rightarrow> ('r, bool) prog" where
  "due rt get put now minSec maxSec =
     andThen (reading get) (\<lambda>nxt.
     andThen (asking (RandomizedDue nxt now minSec maxSec (randBetween rt))) (\<lambda>(nxt', isDue).
     andThen (updating (put nxt')) (\<lambda>_. ret isDue)))"

definition nextWorldShoutDue :: "'r RobotRuntime \<Rightarrow> time \<Rightarrow> RuntimeConfig \<Rightarrow> ('r, bool) prog" where
  "nextWorldShoutDue rt now rc =
     due rt a_nextWorldShout (\<lambda>t a. a\<lparr>a_nextWorldShout := t\<rparr>) now (AutoShoutIntervalMinSec rc) (AutoShoutIntervalMaxSec rc)"

definition nextLocalShoutDue :: "'r RobotRuntime \<Rightarrow> time \<Rightarrow> RuntimeConfig \<Rightarrow> ('r, bool) prog" where
  "nextLocalShoutDue rt now rc =
     due rt a_nextLocalShout (\<lambda>t a. a\<lparr>a_nextLocalShout := t\<rparr>) now (AutoShoutIntervalMinSec rc) (AutoShoutIntervalMaxSec rc)"

definition nextStoreDue :: "'r RobotRuntime \<Rightarrow> time \<Rightarrow> RuntimeConfig \<Rightarrow> ('r, bool) prog" where
  "nextStoreDue rt now rc =
     due rt a_nextStore (\<lambda>t a. a\<lparr>a_nextStore := t\<rparr>) now (AutoStoreIntervalMinSec rc) (AutoStoreIntervalMaxSec rc)"

definition nextMoveDue :: "'r RobotRuntime \<Rightarrow> time \<Rightarrow> RuntimeConfig \<Rightarrow> ('r, bool) prog" where
  "nextMoveDue rt now rc =
     due rt a_nextMove (\<lambda>t a. a\<lparr>a_nextMove := t\<rparr>) now (AutoMoveIntervalMinSec rc) (AutoMoveIntervalMaxSec rc)"

subsection \<open>Releasing the UID\<close>

definition finishStoreStateIfNeeded ::
    "'r RobotRuntime \<Rightarrow> int \<Rightarrow> int \<Rightarrow> RuntimeStatus \<Rightarrow> bool \<Rightarrow> string \<Rightarrow> ('r, unit) prog" where
  "finishStoreStateIfNeeded rt uid cid st statusOK reason =
     (if uid \<le> 0 then ret ()
      else andThen (reading storeUntilMissing) (\<lambda>missing.
        let storeScheduled = \<not> missing;
            storeRuntime = (statusOK \<and> (rs_RobotType st = 2 \<or> rs_RobotType st = 3))
        in if \<not> storeScheduled \<and> \<not> storeRuntime then ret ()
           else calling (rt_FinishStoreState rt uid cid reason)))"

definition releaseRuntimeUID :: "'r RobotRuntime \<Rightarrow> int \<Rightarrow> 'r \<Rightarrow> bool outcome \<times> 'r" where
  "releaseRuntimeUID rt uid r =
     (case rt_Logout rt uid r of
        (Ret res, r1) \<Rightarrow>
          (if res_OK res then (Ret True, r1)
           else (case rt_ForceClose rt of
                   Some close \<Rightarrow> close uid r1
                 | None \<Rightarrow> (case rt_IsActive rt uid r1 of
                             (Ret active, r2) \<Rightarrow> (Ret (\<not> active), r2)
                           | (Panic m, r2) \<Rightarrow> (Panic m, r2)
                           | (Spin, r2) \<Rightarrow> (Spin, r2))))
      | (Panic m, r1) \<Rightarrow> (Panic m, r1)
      | (Spin, r1) \<Rightarrow> (Spin, r1))"

definition beginRelease :: "'r RobotRuntime \<Rightarrow> int \<Rightarrow> ('r, unit) prog" where
  "beginRelease rt uid =
     andThen (setState StateReleasing) (\<lambda>_.
     andThen (calling (rt_Status rt uid)) (\<lambda>(st, statusOK).
       let cid = (if statusOK then rs_CID st else 0)
       in finishStoreStateIfNeeded rt uid cid st statusOK ''release''))"

definition releaseCurrentUID :: "'r RobotRuntime \<Rightarrow> ('r, int) prog" where
  "releaseCurrentUID rt =
     andThen (reading a_uid) (\<lambda>uid.
     if uid \<le> 0 then andThen (setState StateIdle) (\<lambda>_. ret 0)
     else andThen (beginRelease rt uid) (\<lambda>_.
          andThen (calling (releaseRuntimeUID rt uid)) (\<lambda>released.
          if \<not> released then ret 0
          else andThen (updating (resetForUID 0)) (\<lambda>_. ret uid))))"

definition stopReleaseMaxAttempts :: nat where "stopReleaseMaxAttempts = 8"

text \<open>The retry loop; the argument is the number of attempts left.\<close>

fun retryRelease :: "nat \<Rightarrow> 'r RobotRuntime \<Rightarrow> int \<Rightarrow> ('r, unit) prog" where
  "retryRelease 0 rt uid = updating quarantineCurrentUID"
| "retryRelease (Suc k) rt uid =
     andThen (calling (releaseRuntimeUID rt uid)) (\<lambda>released.
     if released then updating (resetForUID 0)
     else if k = 0 then retryRelease k rt uid
     else andThen (sleeping rt (250 * Millisecond)) (\<lambda>_. retryRelease k rt uid))"

definition releaseCurrentUIDUntilClosed :: "'r RobotRuntime \<Rightarrow> ('r, unit) prog" where
  "releaseCurrentUIDUntilClosed rt =
     andThen (reading a_uid) (\<lambda>uid.
     if uid \<le> 0 then setState StateIdle
     else andThen (beginRelease rt uid) (\<lambda>_. retryRelease stopReleaseMaxAttempts rt uid))"

subsection \<open>Going online\<close>

definition onlineConfirmPending :: "'r RobotRuntime \<Rightarrow> int \<Rightarrow> time \<Rightarrow> RuntimeConfig \<Rightarrow> ('r, bool) prog" where
  "onlineConfirmPending rt uid now rc =
     andThen (reading a_lastOnlineTry) (\<lambda>lastTry.
     if IsZero lastTry then ret False
     else if time_Sub now lastTry \<ge> confirm_timeout (OnlineConfirmTimeoutMS rc) then ret False
     else andThen (calling (rt_Status rt uid)) (\<lambda>(st, ok).
       if \<not> ok then ret True
       else ret (rs_DisconnectReason st = 0
                 \<and> (rs_StateName st = RuntimeStateInit \<or> rs_StateName st = RuntimeStateLogin))))"

definition onlineAttemptTimedOut :: "'r RobotRuntime \<Rightarrow> int \<Rightarrow> time \<Rightarrow> RuntimeConfig \<Rightarrow> ('r, bool) prog" where
  "onlineAttemptTimedOut rt uid now rc =
     andThen (reading a_lastOnlineTry) (\<lambda>lastTry.
     if IsZero lastTry then ret False
     else if time_Sub now lastTry < confirm_timeout (OnlineConfirmTimeoutMS rc) then ret False
     else andThen (calling (rt_Status rt uid)) (\<lambda>(st, ok).
       if \<not> ok then ret True
       else ret (rs_StateName st \<noteq> RuntimeStateRunning \<or> rs_DisconnectReason st \<noteq> 0)))"

definition onlineAttempt :: "'r RobotRuntime \<Rightarrow> int \<Rightarrow> time \<Rightarrow> ('r, unit) prog" where
  "onlineAttempt rt uid now =
     andThen (updating (\<lambda>a. a\<lparr>a_lastOnlineTry := now\<rparr>)) (\<lambda>_.
     andThen (setState StateOnline) (\<lambda>_.
     andThen (calling (rt_OnlineNoConfirm rt uid)) (\<lambda>res.
     andThen (releaseRequestedValue rt) (\<lambda>releaseRequested.
     if releaseRequested then ret ()
     else if res_OK res \<or> res_State res = ActionStateRunning then
       andThen (updating markOnlineHealthy) (\<lambda>_. calling (rt_AddAutoOnline rt 1 0))
     else if res_State res = ActionStateAccepted \<or> res_State res = RuntimeStateInit
             \<or> res_State res = RuntimeStateLogin then
       updating (markOnlinePending now)
     else andThen (updating (recordFailure now)) (\<lambda>_. calling (rt_AddAutoOnline rt 0 1))))))"

definition ensureOnline :: "'r RobotRuntime \<Rightarrow> time \<Rightarrow> ('r, unit) prog" where
  "ensureOnline rt now =
     andThen (reading a_uid) (\<lambda>uid.
     if uid \<le> 0 then ret ()
     else andThen (calling (rt_IsActive rt uid)) (\<lambda>active.
     if active then
       andThen (updating markOnlineHealthy) (\<lambda>_.
       andThen (setState StateRunning) (\<lambda>_. calling (rt_AddAutoOnline rt 1 0)))
     else andThen (calling (rt_Config rt)) (\<lambda>rc.
     andThen (onlineAttemptTimedOut rt uid now rc) (\<lambda>timedOut.
     if timedOut then
       andThen (updating (recordFailure now)) (\<lambda>_.
       andThen (calling (rt_AddAutoOnline rt 0 1)) (\<lambda>_. updating clearOnlineAttempt))
     else andThen (onlineConfirmPending rt uid now rc) (\<lambda>pending.
     if pending then updating (markOnlinePending now)
     else andThen (reading a_lastOnlineTry) (\<lambda>lastTry.
     if time_Sub now lastTry < i64 (ReconnectDelayMS rc * Millisecond) then ret ()
     else onlineAttempt rt uid now))))))"

definition action_result :: "int \<Rightarrow> int \<Rightarrow> bool \<Rightarrow> string \<Rightarrow> string \<Rightarrow> ActionResult" where
  "action_result uid cid ok st msg =
     \<lparr>res_UID = uid, res_CID = cid, res_OK = ok, res_State = st, res_Message = msg\<rparr>"

text \<open>
  The polling loop of \<open>ensureOnlineForCommand\<close>. Its number of rounds depends on the clock,
  so it takes fuel and yields \<open>Spin\<close> when the fuel runs out.
\<close>

fun waitOnline ::
    "nat \<Rightarrow> 'r RobotRuntime \<Rightarrow> int \<Rightarrow> time \<Rightarrow> ('r, ActionResult \<times> bool) prog" where
  "waitOnline 0 rt uid deadline = (\<lambda>s. (Spin, s))"
| "waitOnline (Suc fuel) rt uid deadline =
     andThen (asking (rt_Now rt)) (\<lambda>now.
     if \<not> now < deadline
     then ret (action_result uid 0 False ActionStateOnlineTimeout ''not confirmed running'', False)
     else andThen (releaseRequestedValue rt) (\<lambda>releaseRequested.
     if releaseRequested then ret (action_result uid 0 False ActionStateCancelled '''', False)
     else andThen (calling (rt_IsActive rt uid)) (\<lambda>active.
     if active then ret (action_result uid 0 True ActionStateRunning '''', True)
     else andThen (asking (rt_Now rt)) (\<lambda>now'.
     andThen (ensureOnline rt now') (\<lambda>_.
     andThen (sleeping rt (500 * Millisecond)) (\<lambda>_.
     waitOnline fuel rt uid deadline))))))"

definition ensureOnlineForCommand :: "nat \<Rightarrow> 'r RobotRuntime \<Rightarrow> ('r, ActionResult \<times> bool) prog" where
  "ensureOnlineForCommand fuel rt =
     andThen (reading a_uid) (\<lambda>uid.
     if uid \<le> 0 then ret (action_result 0 0 False ActionStateIdle ''actor has no uid'', False)
     else andThen (calling (rt_IsActive rt uid)) (\<lambda>active.
     if active then ret (action_result uid 0 True ActionStateRunning '''', True)
     else andThen (updating (\<lambda>a. a\<lparr>a_onlineDesired := True\<rparr>)) (\<lambda>_.
     andThen (setState StateAssigned) (\<lambda>_.
     andThen (calling (rt_Config rt)) (\<lambda>rc.
     andThen (asking (rt_Now rt)) (\<lambda>now.
     waitOnline fuel rt uid (now + confirm_timeout (OnlineConfirmTimeoutMS rc))))))))"

subsection \<open>Commands\<close>

definition logoutCurrentUID :: "'r RobotRuntime \<Rightarrow> ('r, ActionResult) prog" where
  "logoutCurrentUID rt =
     andThen (reading a_uid) (\<lambda>uid.
     if uid \<le> 0 then andThen (setState StateIdle) (\<lambda>_. ret (action_result 0 0 True ActionStateIdle ''''))
     else andThen (calling (rt_Status rt uid)) (\<lambda>(st, statusOK).
     andThen (finishStoreStateIfNeeded rt uid (if statusOK then rs_CID st else 0) st statusOK ''logout'') (\<lambda>_.
     andThen (updating (\<lambda>a. a\<lparr>a_onlineDesired := False\<rparr>)) (\<lambda>_.
     andThen (updating clearAutoSchedule) (\<lambda>_.
     running_busy ''logout''
       (andThen (calling (rt_Logout rt uid)) (\<lambda>res.
        let res = (if res_UID res = 0 then res\<lparr>res_UID := uid\<rparr> else res);
            res = (if res_OK res then res\<lparr>res_State := ActionStateAttachedOffline\<rparr> else res)
        in andThen (setState StateOffline) (\<lambda>_. ret res))))))))"

definition onlineThen :: "nat \<Rightarrow> 'r RobotRuntime \<Rightarrow> ('r, ActionResult) prog \<Rightarrow> ('r, ActionResult) prog" where
  "onlineThen fuel rt p =
     andThen (ensureOnlineForCommand fuel rt) (\<lambda>(res, ok). if \<not> ok then ret res else p)"

definition storeCommand :: "'r RobotRuntime \<Rightarrow> int \<Rightarrow> ('r, ActionResult) prog" where
  "storeCommand rt uid =
     andThen (calling (rt_Store rt uid)) (\<lambda>res.
     if res_OK res then
       andThen (calling (rt_Config rt)) (\<lambda>rc.
       andThen (asking (rt_Now rt)) (\<lambda>now.
       andThen (updating (\<lambda>a. a\<lparr>a_storeUntil := now + StoreDurationForUID (AutoStoreDurationSec rc) uid\<rparr>)) (\<lambda>_.
       ret res)))
     else ret res)"

definition busyCommand :: "nat \<Rightarrow> 'r RobotRuntime \<Rightarrow> int \<Rightarrow> Command \<Rightarrow> ('r, ActionResult) prog" where
  "busyCommand fuel rt uid cmd =
     (case cmd of
        CommandMove \<Rightarrow> onlineThen fuel rt (calling (rt_Move rt uid))
      | CommandShoutLocal \<Rightarrow> onlineThen fuel rt (calling (rt_Shout rt uid False))
      | CommandShoutWorld \<Rightarrow> onlineThen fuel rt (calling (rt_Shout rt uid True))
      | CommandStore \<Rightarrow> storeCommand rt uid
      | _ \<Rightarrow> ret (action_result uid 0 False ActionStateUnknownCommand ''''))"

text \<open>The party test of commands and ticks: the runtime's \<open>PartyActive\<close> is asked only when the status says no.\<close>

definition partyBusy :: "'r RobotRuntime \<Rightarrow> int \<Rightarrow> RuntimeStatus \<Rightarrow> ('r, bool) prog" where
  "partyBusy rt uid st = (if rs_PartyActive st then ret True else calling (rt_PartyActive rt uid))"

definition handleCommand :: "nat \<Rightarrow> 'r RobotRuntime \<Rightarrow> Command \<Rightarrow> ('r, ActionResult) prog" where
  "handleCommand fuel rt cmd =
     andThen (reading a_uid) (\<lambda>uid.
     if uid \<le> 0 then ret (action_result 0 0 False ActionStateIdle ''actor has no uid'')
     else if cmd = CommandOnline then
       andThen (updating (\<lambda>a. a\<lparr>a_onlineDesired := True\<rparr>)) (\<lambda>_.
       andThen (setState StateAssigned) (\<lambda>_. ret (action_result uid 0 True ActionStateAccepted '''')))
     else if cmd = CommandLogout then logoutCurrentUID rt
     else andThen (calling (rt_Status rt uid)) (\<lambda>(st, ok).
     andThen (partyBusy rt uid st) (\<lambda>party.
     if party then ret (action_result uid (rs_CID st) False ActionStateCancelled ''party active'')
     else running_busy ''command'' (busyCommand fuel rt uid cmd))))"

definition handleCommandSafely :: "nat \<Rightarrow> 'r RobotRuntime \<Rightarrow> Command \<Rightarrow> ('r, ActionResult) prog" where
  "handleCommandSafely fuel rt cmd =
     recovering (\<lambda>m. andThen (updating handleLoopPanic) (\<lambda>_.
                    andThen (reading a_uid) (\<lambda>uid.
                    ret (action_result uid 0 False ActionStateFailed (''actor command panic: '' @ m)))))
       (handleCommand fuel rt cmd)"

definition handleRequestSafely :: "nat \<Rightarrow> 'r RobotRuntime \<Rightarrow> request \<Rightarrow> ('r, ActionResult) prog" where
  "handleRequestSafely fuel rt req =
     andThen (reading (\<lambda>a. (a_uid a, a_generation a))) (\<lambda>(uid, generation).
     if rq_uid req \<le> 0 \<or> rq_uid req \<noteq> uid \<or> rq_generation req \<noteq> generation
     then ret (action_result (rq_uid req) 0 False ActionStateFailed
                 ''actor lease changed before command execution'')
     else andThen (handleCommandSafely fuel rt (rq_cmd req)) (\<lambda>result.
     andThen (reading a_mode) (\<lambda>mode.
     if rq_cmd req = CommandLogout \<and> mode = ModeManual
     then andThen (updating requestStop) (\<lambda>_. ret result)
     else ret result)))"

subsection \<open>Control messages\<close>

definition handleControl :: "'r RobotRuntime \<Rightarrow> control \<Rightarrow> ('r, controlResult) prog" where
  "handleControl rt ctrl =
     (case ct_kind ctrl of
        controlAssign \<Rightarrow>
          (if ct_uid ctrl \<le> 0 then ret zero_control_result
           else
             let finish = andThen (updating (resetForUID (ct_uid ctrl))) (\<lambda>_.
                          andThen (updating (\<lambda>a. a\<lparr>a_releaseRequested := False\<rparr>)) (\<lambda>_.
                          ret \<lparr>cr_uid = ct_uid ctrl, cr_ok = True\<rparr>))
             in andThen (reading a_uid) (\<lambda>old.
                if old > 0 \<and> old \<noteq> ct_uid ctrl then
                  andThen (releaseCurrentUID rt) (\<lambda>released.
                  if released \<noteq> old then ret \<lparr>cr_uid = old, cr_ok = False\<rparr> else finish)
                else finish))
      | controlRelease \<Rightarrow>
          andThen (releaseCurrentUID rt) (\<lambda>old. ret \<lparr>cr_uid = old, cr_ok = True\<rparr>))"

definition handleControlSafely :: "'r RobotRuntime \<Rightarrow> control \<Rightarrow> ('r, controlResult) prog" where
  "handleControlSafely rt ctrl =
     recovering (\<lambda>_. andThen (updating handleLoopPanic) (\<lambda>_.
                    andThen (reading a_uid) (\<lambda>uid. ret \<lparr>cr_uid = uid, cr_ok = False\<rparr>)))
       (handleControl rt ctrl)"

subsection \<open>Ticks\<close>

definition shouldStopAutoStore :: "'r RobotRuntime \<Rightarrow> Actor \<Rightarrow> 'r \<Rightarrow> bool outcome \<times> 'r" where
  "shouldStopAutoStore rt a r =
     (if a_releaseRequested a \<or> rt_ReleaseRequested rt r then (Ret True, r)
      else if a_uid a \<le> 0 then (Ret True, r)
      else (case rt_PartyActive rt (a_uid a) r of
              (Ret party, r1) \<Rightarrow>
                (if party then (Ret True, r1)
                 else (case rt_Status rt (a_uid a) r1 of
                         (Ret (st, ok), r2) \<Rightarrow> (Ret (ok \<and> rs_PartyActive st), r2)
                       | (Panic m, r2) \<Rightarrow> (Panic m, r2)
                       | (Spin, r2) \<Rightarrow> (Spin, r2)))
            | (Panic m, r1) \<Rightarrow> (Panic m, r1)
            | (Spin, r1) \<Rightarrow> (Spin, r1)))"

definition autoShout :: "'r RobotRuntime \<Rightarrow> int \<Rightarrow> bool \<Rightarrow> ('r, unit) prog" where
  "autoShout rt uid world =
     running_busy (if world then ''shout_world'' else ''shout_local'')
       (andThen (calling (rt_RandomShoutMessage rt)) (\<lambda>msg.
        andThen (calling (rt_AutoShout rt uid world msg)) (\<lambda>_. ret ())))"

definition autoStore :: "'r RobotRuntime \<Rightarrow> int \<Rightarrow> RuntimeConfig \<Rightarrow> ('r, unit) prog" where
  "autoStore rt uid rc =
     andThen (running_busy ''store''
                (deferring clearOnlineAttempt
                   (andThen (reading (\<lambda>a. a)) (\<lambda>a. calling (rt_AutoStore rt uid (shouldStopAutoStore rt a)))))) (\<lambda>res.
     if res_OK res then
       andThen (asking (rt_Now rt)) (\<lambda>now.
       updating (\<lambda>a. a\<lparr>a_storeUntil := now + StoreDurationForUID (AutoStoreDurationSec rc) uid\<rparr>))
     else if res_State res = ActionStateStoreBusy \<or> res_State res = ActionStateStoreFailed then
       andThen (updating markOnlineHealthy) (\<lambda>_.
       andThen (asking (rt_Now rt)) (\<lambda>now.
       updating (\<lambda>a. a\<lparr>a_nextStore := now + i64 (AutoStoreFailCooldownSec rc * Second)\<rparr>)))
     else if res_State res \<noteq> ActionStateCancelled then
       andThen (asking (rt_Now rt)) (\<lambda>now. updating (recordFailure now))
     else ret ())"

definition autoMoveIfDue :: "'r RobotRuntime \<Rightarrow> int \<Rightarrow> bool \<Rightarrow> time \<Rightarrow> RuntimeConfig \<Rightarrow> ('r, unit) prog" where
  "autoMoveIfDue rt uid isStore now rc =
     (if isStore then ret ()
      else andThen (nextMoveDue rt now rc) (\<lambda>isDue.
        if isDue then running_busy ''move'' (andThen (calling (rt_AutoMove rt uid)) (\<lambda>_. ret ()))
        else ret ()))"

definition autoActions :: "'r RobotRuntime \<Rightarrow> int \<Rightarrow> bool \<Rightarrow> time \<Rightarrow> RuntimeConfig \<Rightarrow> ('r, unit) prog" where
  "autoActions rt uid isStore now rc =
     andThen (nextWorldShoutDue rt now rc) (\<lambda>worldDue.
     andThen (if worldDue then autoShout rt uid True else ret ()) (\<lambda>_.
     andThen (nextLocalShoutDue rt now rc) (\<lambda>localDue.
     andThen (if localDue then autoShout rt uid False else ret ()) (\<lambda>_.
     andThen (if isStore then ret False else nextStoreDue rt now rc) (\<lambda>storeDue.
     andThen (if storeDue \<and> AutoStoreProbabilityPercent rc > 0
              then andThen (asking (randIntn rt 100)) (\<lambda>k. ret (k < AutoStoreProbabilityPercent rc))
              else ret False) (\<lambda>chosen.
     if chosen then autoStore rt uid rc else autoMoveIfDue rt uid isStore now rc))))))"

definition storeGrace :: "RuntimeConfig \<Rightarrow> duration" where
  "storeGrace rc = (let grace = i64 (AutoStoreTickSec rc * Second) in if grace \<le> 0 then 10 * Second else grace)"

definition tickRunning :: "'r RobotRuntime \<Rightarrow> int \<Rightarrow> RuntimeStatus \<Rightarrow> time \<Rightarrow> RuntimeConfig \<Rightarrow> ('r, unit) prog" where
  "tickRunning rt uid st now rc =
     andThen (reading a_state) (\<lambda>state.
     andThen (if state \<noteq> StateRunning then calling (rt_AddAutoOnline rt 1 0) else ret ()) (\<lambda>_.
     andThen (updating markOnlineHealthy) (\<lambda>_.
     andThen (setState StateRunning) (\<lambda>_.
     andThen (partyBusy rt uid st) (\<lambda>party.
     if party then updating clearAutoActionSchedule
     else
       let isStore = (rs_RobotType st = 2 \<or> rs_RobotType st = 3)
       in andThen (updating (\<lambda>a. if isStore \<and> storeUntilMissing a
                                 then a\<lparr>a_storeUntil := now + storeGrace rc\<rparr> else a)) (\<lambda>_.
          andThen (reading (\<lambda>a. (isStore \<and> storeExpired now a, a_mode a))) (\<lambda>(expired, mode).
          if expired then
            andThen (running_busy ''store_expire'' (calling (rt_ExpireStore rt uid))) (\<lambda>_.
            updating (\<lambda>a. a\<lparr>a_storeUntil := zero_time\<rparr>))
          else if mode \<noteq> ModeAuto then ret ()
          else andThen (calling (rt_AutoActionsEnabled rt rc)) (\<lambda>enabled.
            if \<not> enabled then ret () else autoActions rt uid isStore now rc))))))))"

definition tick :: "'r RobotRuntime \<Rightarrow> time \<Rightarrow> ('r, unit) prog" where
  "tick rt now =
     andThen (releaseRequestedValue rt) (\<lambda>releaseRequested.
     andThen (reading (\<lambda>a. a)) (\<lambda>a.
     if releaseRequested \<or> a_state a = StateReleasing then ret ()
     else if a_uid a \<le> 0 then ret ()
     else if \<not> a_onlineDesired a then
       (if a_state a \<noteq> StateOffline \<and> \<not> a_busy a then setState StateOffline else ret ())
     else
       let uid = a_uid a
       in andThen (calling (rt_Config rt)) (\<lambda>rc.
          andThen (calling (rt_IsActive rt uid)) (\<lambda>active.
          if \<not> active then ensureOnline rt now
          else andThen (calling (rt_Status rt uid)) (\<lambda>(st, ok).
          if \<not> ok \<or> rs_StateName st \<noteq> RuntimeStateRunning \<or> rs_DisconnectReason st \<noteq> 0 then ret ()
          else tickRunning rt uid st now rc)))))"

definition tickSafely :: "'r RobotRuntime \<Rightarrow> time \<Rightarrow> ('r, unit) prog" where
  "tickSafely rt now =
     recovering (\<lambda>_. updating handleLoopPanic)
       (andThen (reading a_state) (\<lambda>state.
        if state = StateReleasing then andThen (releaseCurrentUID rt) (\<lambda>_. ret ()) else tick rt now))"

definition pollInterval :: "'r RobotRuntime \<Rightarrow> ('r, duration) prog" where
  "pollInterval rt =
     recovering (\<lambda>_. andThen (updating handleLoopPanic) (\<lambda>_. ret Second))
       (andThen (calling (rt_Config rt)) (\<lambda>rc. ret (actorPollInterval rc)))"

subsection \<open>The loop\<close>

text \<open>
  One turn of \<open>loop\<close>: \<open>select\<close> picks a ready case. The stop case ends the goroutine; a panic
  that escapes it is caught by the deferred function, which releases once more and closes
  \<open>done\<close>.
\<close>

datatype loop_event = EvStop | EvControl control | EvRequest request | EvTick time

definition tryReleaseAfterFatalPanic :: "'r RobotRuntime \<Rightarrow> ('r, unit) prog" where
  "tryReleaseAfterFatalPanic rt =
     recovering (\<lambda>_. ret ()) (andThen (releaseCurrentUID rt) (\<lambda>_. ret ()))"

definition loopExit :: "'r RobotRuntime \<Rightarrow> ('r, unit) prog" where
  "loopExit rt =
     andThen (recovering (\<lambda>_. andThen (updating handleLoopPanic) (\<lambda>_. tryReleaseAfterFatalPanic rt))
                (releaseCurrentUIDUntilClosed rt))
       (\<lambda>_. updating (\<lambda>a. a\<lparr>a_done_closed := True\<rparr>))"

fun loopTurn :: "nat \<Rightarrow> 'r RobotRuntime \<Rightarrow> loop_event \<Rightarrow> ('r, unit) prog" where
  "loopTurn fuel rt EvStop = loopExit rt"
| "loopTurn fuel rt (EvControl ctrl) = andThen (handleControlSafely rt ctrl) (\<lambda>_. ret ())"
| "loopTurn fuel rt (EvRequest req) = andThen (handleRequestSafely fuel rt req) (\<lambda>_. ret ())"
| "loopTurn fuel rt (EvTick now) = andThen (tickSafely rt now) (\<lambda>_. andThen (pollInterval rt) (\<lambda>_. ret ()))"

end
