(* ===== verification/Actor_Invariant.thy ===== *)
theory Actor_Invariant
  imports Actor_Loop
begin

section \<open>Invariants of the actor\<close>

text \<open>
  A weakest-precondition calculus for the handlers that quantifies over everything the runtime
  may answer (results, panics, clock, randomness, concurrent release requests), and with it
  the invariant every turn of the loop keeps, the fate of a UID on release and on stop,
  the rejection of commands from an earlier lease, and the termination of the wait loop.
\<close>

subsection \<open>Weakest preconditions\<close>

definition wp :: "('r, 'a) prog \<Rightarrow> ('a \<Rightarrow> Actor \<Rightarrow> bool) \<Rightarrow> (Actor \<Rightarrow> bool) \<Rightarrow> Actor \<Rightarrow> bool" where
  "wp p Q E a \<longleftrightarrow>
     (\<forall>r. case p (a, r) of (Ret x, a', r') \<Rightarrow> Q x a' | (Panic m, a', r') \<Rightarrow> E a' | (Spin, a', r') \<Rightarrow> True)"

named_theorems wp_rules \<open>backward rules of the handler calculus\<close>

lemma wp_ret [wp_rules]: "Q x a \<Longrightarrow> wp (ret x) Q E a"
  by (simp add: wp_def ret_def)

lemma wp_andThen [wp_rules]: "wp p (\<lambda>x. wp (f x) Q E) E a \<Longrightarrow> wp (andThen p f) Q E a"
  by (fastforce simp: wp_def andThen_def split: outcome.splits prod.splits)

lemma wp_reading [wp_rules]: "Q (f a) a \<Longrightarrow> wp (reading f) Q E a"
  by (simp add: wp_def reading_def)

lemma wp_updating [wp_rules]: "Q () (f a) \<Longrightarrow> wp (updating f) Q E a"
  by (simp add: wp_def updating_def)

lemma wp_setState [wp_rules]: "Q () (a\<lparr>a_state := st\<rparr>) \<Longrightarrow> wp (setState st) Q E a"
  unfolding setState_def by (rule wp_updating)

lemma wp_calling [wp_rules]: "(\<And>x. Q x a) \<Longrightarrow> E a \<Longrightarrow> wp (calling op) Q E a"
  by (auto simp: wp_def calling_def split: outcome.splits prod.splits)

lemma wp_asking [wp_rules]: "(\<And>x. Q x a) \<Longrightarrow> wp (asking op) Q E a"
  by (auto simp: wp_def asking_def split: prod.splits)

lemma wp_sleeping [wp_rules]: "Q () a \<Longrightarrow> wp (sleeping rt d) Q E a"
  by (simp add: wp_def sleeping_def)

lemma wp_releaseRequestedValue [wp_rules]:
  "Q (a_releaseRequested a) a \<Longrightarrow> Q True (a\<lparr>a_releaseRequested := True\<rparr>)
     \<Longrightarrow> wp (releaseRequestedValue rt) Q E a"
  by (simp add: wp_def releaseRequestedValue_def Let_def)

lemma wp_deferring [wp_rules]:
  "wp p (\<lambda>x a. Q x (f a)) (\<lambda>a. E (f a)) a \<Longrightarrow> wp (deferring f p) Q E a"
  by (fastforce simp: wp_def deferring_def split: outcome.splits prod.splits)

lemma wp_running_busy [wp_rules]:
  "wp p (\<lambda>x a. Q x (setBusy False '''' a)) (\<lambda>a. E (setBusy False '''' a)) (setBusy True kind a)
     \<Longrightarrow> wp (running_busy kind p) Q E a"
  unfolding running_busy_def by (rule wp_andThen wp_updating wp_deferring)+

lemma wp_recovering [wp_rules]:
  assumes "wp p Q (\<lambda>a. \<forall>m. wp (h m) Q E a) a"
  shows "wp (recovering h p) Q E a"
  unfolding wp_def
proof
  fix r
  obtain o1 a1 r1 where p: "p (a, r) = (o1, a1, r1)" by (metis prod_cases3)
  from assms have post: "case o1 of Ret x \<Rightarrow> Q x a1 | Panic m \<Rightarrow> (\<forall>m. wp (h m) Q E a1) | Spin \<Rightarrow> True"
    unfolding wp_def [of p] by (drule_tac x = r in spec) (auto simp: p split: outcome.splits)
  show "case recovering h p (a, r) of (Ret x, a', r') \<Rightarrow> Q x a' | (Panic m, a', r') \<Rightarrow> E a' | (Spin, a', r') \<Rightarrow> True"
  proof (cases o1)
    case (Panic m)
    with post have "wp (h m) Q E a1" by simp
    then show ?thesis unfolding wp_def by (drule_tac x = r1 in spec) (simp add: recovering_def p Panic)
  qed (use post in \<open>simp_all add: recovering_def p\<close>)
qed

lemma wp_if [wp_rules]:
  "(b \<Longrightarrow> wp p Q E a) \<Longrightarrow> (\<not> b \<Longrightarrow> wp q Q E a) \<Longrightarrow> wp (if b then p else q) Q E a"
  by simp

lemma wp_case_prod [wp_rules]:
  "(\<And>x y. z = (x, y) \<Longrightarrow> wp (f x y) Q E a) \<Longrightarrow> wp (case z of (x, y) \<Rightarrow> f x y) Q E a"
  by (cases z) simp

lemma wp_mono:
  "wp p Q E a \<Longrightarrow> (\<And>x a. Q x a \<Longrightarrow> Q' x a) \<Longrightarrow> (\<And>a. E a \<Longrightarrow> E' a) \<Longrightarrow> wp p Q' E' a"
  by (fastforce simp: wp_def split: outcome.splits prod.splits)

lemma wpD:
  "wp p Q E a \<Longrightarrow> p (a, r) = (res, a', r') \<Longrightarrow> (case res of Ret x \<Rightarrow> Q x a' | Panic m \<Rightarrow> E a' | Spin \<Rightarrow> True)"
  unfolding wp_def by (drule spec [of _ r]) (auto split: outcome.splits)

subsection \<open>The invariant\<close>

text \<open>What holds of an actor between two turns of its loop.\<close>

definition quiet :: "Actor \<Rightarrow> bool" where
  "quiet a \<longleftrightarrow> \<not> a_busy a \<and> a_busyKind a = '''' \<and> a_state a \<noteq> StateBusy"

definition unscheduled :: "Actor \<Rightarrow> bool" where
  "unscheduled a \<longleftrightarrow>
     IsZero (a_nextMove a) \<and> IsZero (a_nextLocalShout a) \<and> IsZero (a_nextWorldShout a)
     \<and> IsZero (a_nextStore a) \<and> IsZero (a_storeUntil a) \<and> IsZero (a_lastOnlineTry a)
     \<and> IsZero (a_firstFailureAt a) \<and> a_failures a = 0"

definition actor_inv :: "Actor \<Rightarrow> bool" where
  "actor_inv a \<longleftrightarrow>
     0 \<le> a_uid a
   \<and> quiet a
   \<and> (a_uid a = 0 \<longleftrightarrow> a_state a = StateIdle)
   \<and> (a_uid a = 0 \<longrightarrow> \<not> a_onlineDesired a \<and> unscheduled a)
   \<and> (a_quarantined a \<longrightarrow> a_done_closed a \<and> 0 < a_uid a)
   \<and> (a_done_closed a \<longrightarrow> a_uid a = 0 \<or> a_state a = StateReleasing)"

text \<open>
  While a handler runs for a leased UID the lease, the signals and the mailboxes do not
  change; \<open>b\<close> says whether the busy mark has been taken back.
\<close>

definition live :: "bool \<Rightarrow> Actor \<Rightarrow> Actor \<Rightarrow> bool" where
  "live b a0 a \<longleftrightarrow>
     0 < a_uid a \<and> a_uid a = a_uid a0 \<and> a_generation a = a_generation a0
   \<and> a_slotID a = a_slotID a0 \<and> a_quarantined a = a_quarantined a0
   \<and> a_done_closed a = a_done_closed a0 \<and> a_stop_closed a = a_stop_closed a0
   \<and> a_mode a = a_mode a0 \<and> a_cmds a = a_cmds a0 \<and> a_ctrls a = a_ctrls a0
   \<and> a_state a \<noteq> StateIdle \<and> (b \<longrightarrow> quiet a)"

lemmas actor_updates =
  setBusy_def markOnlineHealthy_def clearOnlineAttempt_def markOnlinePending_def recordFailure_def
  clearAutoSchedule_def clearAutoActionSchedule_def Let_def

lemma live_updates [simp, intro]:
  assumes "live b a0 a"
  shows "live b a0 (markOnlineHealthy a)" and "live b a0 (clearOnlineAttempt a)"
    and "live b a0 (markOnlinePending now a)" and "live b a0 (recordFailure now a)"
    and "live b a0 (clearAutoSchedule a)" and "live b a0 (clearAutoActionSchedule a)"
    and "live b a0 (a\<lparr>a_releaseRequested := v\<rparr>)" and "live b a0 (a\<lparr>a_onlineDesired := v\<rparr>)"
    and "live b a0 (a\<lparr>a_lastOnlineTry := t\<rparr>)" and "live b a0 (a\<lparr>a_storeUntil := t\<rparr>)"
    and "live b a0 (a\<lparr>a_nextStore := t\<rparr>)" and "live b a0 (a\<lparr>a_nextMove := t\<rparr>)"
    and "live b a0 (a\<lparr>a_nextWorldShout := t\<rparr>)" and "live b a0 (a\<lparr>a_nextLocalShout := t\<rparr>)"
    and "st \<noteq> StateIdle \<Longrightarrow> st \<noteq> StateBusy \<Longrightarrow> live b a0 (a\<lparr>a_state := st\<rparr>)"
  using assms by (auto simp: live_def quiet_def actor_updates)

lemma live_busy [simp, intro]:
  assumes "live False a0 a"
  shows "live False a0 (setBusy True kind a)" and "live b a0 (setBusy False '''' a)"
  using assms by (auto simp: live_def quiet_def actor_updates)

lemma live_if [simp, intro]:
  "live b a0 x \<Longrightarrow> live b a0 y \<Longrightarrow> live b a0 (if c then x else y)"
  by simp

lemma live_weaken [intro]: "live b a0 a \<Longrightarrow> live False a0 a"
  by (simp add: live_def)

lemma live_True_False [simp, intro]: "live True a0 a \<Longrightarrow> live False a0 a"
  by (rule live_weaken)

lemma live_uid: "live b a0 a \<Longrightarrow> 0 < a_uid a \<and> a_uid a = a_uid a0"
  by (simp add: live_def)

subsection \<open>Handlers keep the lease\<close>

lemma wp_due [wp_rules]:
  assumes "live b a0 a" and put: "\<And>t. live b a0 (put t a)"
  shows "wp (due rt get put now lo hi) (\<lambda>_. live b a0) (live False a0) a"
  unfolding due_def by (auto intro!: wp_rules put)

lemma wp_next_due:
  assumes "live b a0 a"
  shows "wp (nextWorldShoutDue rt now rc) (\<lambda>_. live b a0) (live False a0) a"
    and "wp (nextLocalShoutDue rt now rc) (\<lambda>_. live b a0) (live False a0) a"
    and "wp (nextStoreDue rt now rc) (\<lambda>_. live b a0) (live False a0) a"
    and "wp (nextMoveDue rt now rc) (\<lambda>_. live b a0) (live False a0) a"
  using assms
  by (auto simp: nextWorldShoutDue_def nextLocalShoutDue_def nextStoreDue_def nextMoveDue_def intro!: wp_due)

lemma wp_finishStoreStateIfNeeded:
  "live b a0 a \<Longrightarrow> wp (finishStoreStateIfNeeded rt u cid st ok reason) (\<lambda>_. live b a0) (live False a0) a"
  unfolding finishStoreStateIfNeeded_def Let_def by (auto intro!: wp_rules)

lemma wp_online_tests:
  assumes "live b a0 a"
  shows "wp (onlineConfirmPending rt u now rc) (\<lambda>_. live b a0) (live False a0) a"
    and "wp (onlineAttemptTimedOut rt u now rc) (\<lambda>_. live b a0) (live False a0) a"
  using assms unfolding onlineConfirmPending_def onlineAttemptTimedOut_def
  by (auto intro!: wp_rules)

lemma wp_onlineAttempt:
  "live b a0 a \<Longrightarrow> wp (onlineAttempt rt u now) (\<lambda>_. live b a0) (live False a0) a"
  unfolding onlineAttempt_def by (auto intro!: wp_rules)

lemma wp_ensureOnline:
  assumes "live b a0 a"
  shows "wp (ensureOnline rt now) (\<lambda>_. live b a0) (live False a0) a"
  unfolding ensureOnline_def using assms
  by (auto intro!: wp_mono [OF wp_online_tests(2) [of b a0]] wp_mono [OF wp_online_tests(1) [of b a0]]
      wp_onlineAttempt wp_rules)

lemma wp_waitOnline:
  "live b a0 a \<Longrightarrow> wp (waitOnline fuel rt u deadline) (\<lambda>_. live b a0) (live False a0) a"
proof (induction fuel arbitrary: a)
  case 0
  then show ?case by (auto simp: wp_def)
next
  case (Suc fuel)
  then show ?case
    by (auto intro!: wp_mono [OF wp_ensureOnline [of b a0]] wp_rules Suc.IH)
qed

lemma wp_ensureOnlineForCommand:
  "live b a0 a \<Longrightarrow> wp (ensureOnlineForCommand fuel rt) (\<lambda>_. live b a0) (live False a0) a"
  unfolding ensureOnlineForCommand_def by (auto intro!: wp_rules wp_waitOnline)

lemma wp_onlineThen:
  assumes "live b a0 a" and "\<And>a. live b a0 a \<Longrightarrow> wp p (\<lambda>_. live b a0) (live False a0) a"
  shows "wp (onlineThen fuel rt p) (\<lambda>_. live b a0) (live False a0) a"
  unfolding onlineThen_def using assms(1)
  by (auto intro!: wp_mono [OF wp_ensureOnlineForCommand [of b a0]] wp_rules assms(2))

lemma wp_partyBusy:
  "live b a0 a \<Longrightarrow> wp (partyBusy rt u st) (\<lambda>_. live b a0) (live False a0) a"
  unfolding partyBusy_def by (auto intro!: wp_rules)

lemma wp_busyCommand:
  "live b a0 a \<Longrightarrow> wp (busyCommand fuel rt u cmd) (\<lambda>_. live b a0) (live False a0) a"
  by (cases cmd) (auto simp: busyCommand_def storeCommand_def intro!: wp_onlineThen wp_rules)

lemma wp_logoutCurrentUID:
  "live True a0 a \<Longrightarrow> wp (logoutCurrentUID rt) (\<lambda>_. live True a0) (live False a0) a"
  unfolding logoutCurrentUID_def Let_def
  by (auto intro!: wp_mono [OF wp_finishStoreStateIfNeeded [of True a0]] wp_rules dest: live_uid)

lemma wp_handleCommand:
  "live True a0 a \<Longrightarrow> wp (handleCommand fuel rt cmd) (\<lambda>_. live True a0) (live False a0) a"
  unfolding handleCommand_def
  by (auto intro!: wp_mono [OF wp_partyBusy [of True a0]] wp_mono [OF wp_busyCommand [of False a0]]
      wp_logoutCurrentUID wp_rules)

lemma wp_autoShout:
  "live True a0 a \<Longrightarrow> wp (autoShout rt u world) (\<lambda>_. live True a0) (live False a0) a"
  unfolding autoShout_def by (auto intro!: wp_rules)

lemma wp_autoStore:
  "live True a0 a \<Longrightarrow> wp (autoStore rt u rc) (\<lambda>_. live True a0) (live False a0) a"
  unfolding autoStore_def by (auto intro!: wp_rules)

lemma wp_autoMoveIfDue:
  "live True a0 a \<Longrightarrow> wp (autoMoveIfDue rt u isStore now rc) (\<lambda>_. live True a0) (live False a0) a"
  unfolding autoMoveIfDue_def by (auto intro!: wp_mono [OF wp_next_due(4) [of True a0]] wp_rules)

lemma wp_autoActions:
  "live True a0 a \<Longrightarrow> wp (autoActions rt u isStore now rc) (\<lambda>_. live True a0) (live False a0) a"
  unfolding autoActions_def
  by (intro wp_andThen wp_mono [OF wp_next_due(1) [of True a0]] wp_mono [OF wp_next_due(2) [of True a0]]
      wp_mono [OF wp_next_due(3) [of True a0]] wp_mono [OF wp_autoShout [of a0]] wp_if
      wp_autoStore wp_autoMoveIfDue wp_ret wp_asking; (rule live_updates)?; assumption?)

lemma wp_tickRunning:
  "live True a0 a \<Longrightarrow> wp (tickRunning rt u st now rc) (\<lambda>_. live True a0) (live False a0) a"
  unfolding tickRunning_def Let_def
  by (auto intro!: wp_mono [OF wp_partyBusy [of True a0]] wp_autoActions wp_rules)

lemma wp_tick:
  "live True a0 a \<Longrightarrow> wp (tick rt now) (\<lambda>_. live True a0) (live False a0) a"
  unfolding tick_def Let_def
  by (auto intro!: wp_ensureOnline wp_tickRunning wp_rules)

subsection \<open>Turns of the loop keep the invariant\<close>

text \<open>The loop runs only while \<open>done\<close> is open.\<close>

definition ready :: "Actor \<Rightarrow> bool" where
  "ready a \<longleftrightarrow> actor_inv a \<and> \<not> a_done_closed a"

text \<open>What a handler may do to the lease: keep it, or replace it with a new generation.\<close>

definition turned :: "Actor \<Rightarrow> Actor \<Rightarrow> bool" where
  "turned a0 a \<longleftrightarrow>
     ready a \<and> a_slotID a = a_slotID a0 \<and> a_mode a = a_mode a0
   \<and> a_cmds a = a_cmds a0 \<and> a_ctrls a = a_ctrls a0
   \<and> (a_generation a = a_generation a0 \<and> a_uid a = a_uid a0
      \<or> a_generation a = a_generation a0 + 1 \<or> a_generation a = a_generation a0 + 2)"

lemma ready_live: "ready a \<Longrightarrow> 0 < a_uid a \<Longrightarrow> live True a a"
  by (auto simp: ready_def actor_inv_def live_def)

lemma ready_uid: "ready a \<Longrightarrow> 0 \<le> a_uid a"
  by (simp add: ready_def actor_inv_def)

lemma turned_refl [simp]: "ready a \<Longrightarrow> turned a a"
  by (simp add: turned_def)

lemma live_turned: "ready a0 \<Longrightarrow> live True a0 a \<Longrightarrow> turned a0 a"
  by (auto simp: turned_def ready_def actor_inv_def live_def)

lemma live_panic: "ready a0 \<Longrightarrow> live False a0 a \<Longrightarrow> turned a0 (handleLoopPanic a)"
  by (auto simp: turned_def ready_def actor_inv_def live_def handleLoopPanic_def quiet_def)

lemma turned_reset:
  "ready a0 \<Longrightarrow> live False a0 a \<Longrightarrow> 0 \<le> u \<Longrightarrow> turned a0 (resetForUID u a)"
  by (auto simp: turned_def ready_def actor_inv_def live_def resetForUID_def clearAutoSchedule_def
      quiet_def unscheduled_def)

lemma turned_assign: "ready a \<Longrightarrow> 0 < u \<Longrightarrow> turned a (resetForUID u a)"
  by (auto simp: turned_def ready_def actor_inv_def resetForUID_def clearAutoSchedule_def quiet_def)

lemma turned_releaseRequested [simp]: "turned a0 a \<Longrightarrow> turned a0 (a\<lparr>a_releaseRequested := v\<rparr>)"
  by (auto simp: turned_def ready_def actor_inv_def quiet_def unscheduled_def)

lemma wp_beginRelease:
  "live True a0 a \<Longrightarrow>
     wp (beginRelease rt u) (\<lambda>_ a'. live True a0 a' \<and> a_state a' = StateReleasing)
       (\<lambda>a'. live True a0 a' \<and> a_state a' = StateReleasing) a"
  unfolding beginRelease_def finishStoreStateIfNeeded_def Let_def by (auto intro!: wp_rules)

text \<open>
  \<open>releaseCurrentUID\<close> either keeps the lease, marked as releasing, or ends it with a new
  generation and reports the UID.
\<close>

definition release_post :: "Actor \<Rightarrow> int \<Rightarrow> Actor \<Rightarrow> bool" where
  "release_post a0 u a \<longleftrightarrow> turned a0 a
     \<and> (a_uid a = 0 \<and> u = a_uid a0 \<and> a_generation a = a_generation a0 + of_bool (0 < u)
        \<or> u = 0 \<and> live True a0 a \<and> a_state a = StateReleasing)"

lemma release_post_reset:
  "ready a0 \<Longrightarrow> live True a0 a \<Longrightarrow> release_post a0 (a_uid a0) (resetForUID 0 a)"
  using turned_reset [of a0 a 0]
  by (auto simp: release_post_def resetForUID_def clearAutoSchedule_def live_def)

lemma release_post_pending:
  "ready a0 \<Longrightarrow> live True a0 a \<Longrightarrow> a_state a = StateReleasing \<Longrightarrow> release_post a0 0 a"
  by (simp add: release_post_def live_turned)

lemma wp_releaseCurrentUID:
  assumes "ready a"
  shows "wp (releaseCurrentUID rt) (release_post a)
           (\<lambda>a'. live True a a' \<and> a_state a' = StateReleasing) a"
proof (cases "0 < a_uid a")
  case True
  then show ?thesis
    unfolding releaseCurrentUID_def using assms
    by (auto intro!: wp_mono [OF wp_beginRelease [OF ready_live]] wp_rules
        release_post_reset release_post_pending)
next
  case False
  with assms have same: "a\<lparr>a_state := StateIdle\<rparr> = a" and "a_uid a = 0"
    by (cases a; auto simp: ready_def actor_inv_def)+
  with assms show ?thesis
    unfolding releaseCurrentUID_def by (auto intro!: wp_rules simp: same release_post_def)
qed

lemma release_post_assign:
  "release_post a0 u a \<Longrightarrow> u = a_uid a0 \<Longrightarrow> 0 < u \<Longrightarrow> 0 < u' \<Longrightarrow> turned a0 (resetForUID u' a)"
  using turned_assign [of a u']
  by (auto simp: release_post_def turned_def resetForUID_def clearAutoSchedule_def)

lemma wp_handleControl:
  assumes "ready a"
  shows "wp (handleControl rt ctrl) (\<lambda>_. turned a)
           (\<lambda>a'. live True a a' \<and> a_state a' = StateReleasing) a"
proof (cases "ct_kind ctrl")
  case controlAssign
  with assms show ?thesis
    by (auto simp: handleControl_def Let_def intro!: turned_releaseRequested release_post_assign
        turned_assign wp_mono [OF wp_releaseCurrentUID] wp_rules dest: release_post_def [THEN iffD1])
next
  case controlRelease
  with assms show ?thesis
    by (auto simp: handleControl_def release_post_def
        intro!: wp_mono [OF wp_releaseCurrentUID] wp_rules)
qed

lemma wp_handleControlSafely:
  "ready a \<Longrightarrow> wp (handleControlSafely rt ctrl) (\<lambda>_. turned a) (\<lambda>_. False) a"
  unfolding handleControlSafely_def
  by (auto intro!: wp_recovering wp_mono [OF wp_handleControl] wp_andThen wp_updating wp_reading wp_ret
      live_panic)

lemma wp_handleCommandSafely:
  "ready a \<Longrightarrow> 0 < a_uid a \<Longrightarrow> wp (handleCommandSafely fuel rt cmd) (\<lambda>_. turned a) (\<lambda>_. False) a"
  unfolding handleCommandSafely_def
  by (rule wp_recovering, rule wp_mono [OF wp_handleCommand [OF ready_live]])
    (auto intro!: wp_rules dest: live_panic live_turned)

lemma turned_requestStop: "turned a0 a \<Longrightarrow> turned a0 (requestStop a)"
  by (auto simp: requestStop_def turned_def ready_def actor_inv_def quiet_def unscheduled_def)

lemma wp_handleRequestSafely:
  "ready a \<Longrightarrow> wp (handleRequestSafely fuel rt req) (\<lambda>_. turned a) (\<lambda>_. False) a"
  unfolding handleRequestSafely_def
  by (auto intro!: wp_mono [OF wp_handleCommandSafely] turned_requestStop wp_rules)

lemma tick_idle: "ready a \<Longrightarrow> a_uid a = 0 \<Longrightarrow> wp (tick rt now) (\<lambda>_. turned a) (\<lambda>_. False) a"
  unfolding tick_def by (auto intro!: wp_rules)

lemma wp_tickSafely: "ready a \<Longrightarrow> wp (tickSafely rt now) (\<lambda>_. turned a) (\<lambda>_. False) a"
proof (cases "0 < a_uid a")
  case True
  assume r: "ready a"
  with True have "wp (tick rt now) (\<lambda>_. turned a) (live False a) a"
    by (auto intro!: wp_mono [OF wp_tick [OF ready_live]] live_turned)
  with r show ?thesis
    unfolding tickSafely_def
    by (auto intro!: wp_recovering wp_andThen wp_reading wp_if wp_ret wp_updating
        wp_mono [OF wp_releaseCurrentUID] live_panic elim!: wp_mono simp: release_post_def)
next
  case False
  assume r: "ready a"
  with False have "a_uid a = 0" "a_state a \<noteq> StateReleasing"
    by (auto simp: ready_def actor_inv_def)
  with r show ?thesis
    unfolding tickSafely_def
    by (auto intro!: wp_recovering wp_andThen wp_reading wp_if wp_mono [OF tick_idle])
qed

lemma turned_panic: "ready a0 \<Longrightarrow> turned a0 a \<Longrightarrow> turned a0 (handleLoopPanic a)"
  by (auto simp: turned_def ready_def actor_inv_def handleLoopPanic_def quiet_def unscheduled_def)

lemma wp_pollInterval: "ready a0 \<Longrightarrow> turned a0 a \<Longrightarrow> wp (pollInterval rt) (\<lambda>_. turned a0) (\<lambda>_. False) a"
  unfolding pollInterval_def by (auto intro!: wp_rules turned_panic)

text \<open>How the goroutine ends.\<close>

definition exited :: "Actor \<Rightarrow> Actor \<Rightarrow> bool" where
  "exited a0 a \<longleftrightarrow>
     actor_inv (a\<lparr>a_done_closed := True\<rparr>) \<and> a_slotID a = a_slotID a0 \<and> a_mode a = a_mode a0
   \<and> (a_uid a = 0 \<and> \<not> a_quarantined a \<or> a_uid a = a_uid a0 \<and> a_generation a = a_generation a0)"

lemma live_exited:
  "ready a0 \<Longrightarrow> live True a0 a \<Longrightarrow> a_state a = StateReleasing \<Longrightarrow> exited a0 a"
  by (auto simp: exited_def ready_def actor_inv_def live_def quiet_def)

lemma quarantine_exited: "ready a0 \<Longrightarrow> live True a0 a \<Longrightarrow> exited a0 (quarantineCurrentUID a)"
  by (auto simp: exited_def ready_def actor_inv_def live_def quiet_def quarantineCurrentUID_def Let_def)

lemma reset_exited: "ready a0 \<Longrightarrow> live True a0 a \<Longrightarrow> exited a0 (resetForUID 0 a)"
  by (auto simp: exited_def ready_def actor_inv_def live_def quiet_def resetForUID_def
      clearAutoSchedule_def unscheduled_def)

lemma wp_retryRelease:
  "ready a0 \<Longrightarrow> live True a0 a \<and> a_state a = StateReleasing \<Longrightarrow>
     wp (retryRelease k rt u) (\<lambda>_. exited a0) (\<lambda>a. live True a0 a \<and> a_state a = StateReleasing) a"
  by (induction k) (auto intro!: wp_rules quarantine_exited reset_exited)

lemma turned_exited: "release_post a0 u a \<Longrightarrow> exited a0 a"
  by (auto simp: release_post_def exited_def turned_def ready_def actor_inv_def live_def quiet_def
      unscheduled_def)

lemma panic_again: "ready a0 \<Longrightarrow> live True a0 a \<Longrightarrow> ready (handleLoopPanic a)
     \<and> a_uid (handleLoopPanic a) = a_uid a0 \<and> a_generation (handleLoopPanic a) = a_generation a0
     \<and> a_slotID (handleLoopPanic a) = a_slotID a0 \<and> a_mode (handleLoopPanic a) = a_mode a0"
  using live_panic [of a0 a] by (auto simp: turned_def handleLoopPanic_def live_def)

lemma exited_trans:
  "exited b a \<Longrightarrow> a_uid b = a_uid a0 \<Longrightarrow> a_generation b = a_generation a0 \<Longrightarrow> a_slotID b = a_slotID a0
     \<Longrightarrow> a_mode b = a_mode a0 \<Longrightarrow> exited a0 a"
  by (auto simp: exited_def)

lemma wp_tryRelease: "ready a \<Longrightarrow> wp (tryReleaseAfterFatalPanic rt) (\<lambda>_. exited a) (\<lambda>_. False) a"
  unfolding tryReleaseAfterFatalPanic_def
  by (auto intro!: wp_recovering wp_andThen wp_ret wp_mono [OF wp_releaseCurrentUID]
      intro: live_exited dest: turned_exited)

lemma wp_releaseUntilClosed:
  assumes "ready a"
  shows "wp (releaseCurrentUIDUntilClosed rt) (\<lambda>_. exited a)
           (\<lambda>a'. live True a a' \<and> a_state a' = StateReleasing) a"
proof (cases "0 < a_uid a")
  case True
  with assms show ?thesis
    unfolding releaseCurrentUIDUntilClosed_def
    by (auto intro!: wp_mono [OF wp_beginRelease [OF ready_live]] wp_retryRelease wp_rules)
next
  case False
  with assms show ?thesis
    unfolding releaseCurrentUIDUntilClosed_def
    by (auto intro!: wp_rules simp: exited_def ready_def actor_inv_def quiet_def unscheduled_def)
qed

lemma wp_loopExit:
  assumes "ready a"
  shows "wp (loopExit rt)
           (\<lambda>_ a'. actor_inv a' \<and> a_done_closed a' \<and> a_slotID a' = a_slotID a
              \<and> (a_uid a' = 0 \<and> \<not> a_quarantined a' \<or> a_uid a' = a_uid a \<and> a_generation a' = a_generation a))
           (\<lambda>_. False) a"
  unfolding loopExit_def
proof (rule wp_andThen, rule wp_mono)
  have "wp (tryReleaseAfterFatalPanic rt) (\<lambda>_. exited a) (\<lambda>_. False) (handleLoopPanic a')"
    if "live True a a'" for a'
    using panic_again [OF assms that]
    by (auto intro!: wp_mono [OF wp_tryRelease] intro: exited_trans)
  then show "wp (recovering (\<lambda>_. andThen (updating handleLoopPanic) (\<lambda>_. tryReleaseAfterFatalPanic rt))
                   (releaseCurrentUIDUntilClosed rt)) (\<lambda>_. exited a) (\<lambda>_. False) a"
    by (auto intro!: wp_recovering wp_andThen wp_updating wp_mono [OF wp_releaseUntilClosed [OF assms]])
qed (auto simp: exited_def intro!: wp_updating)

lemma wp_loopTurn:
  "ready a \<Longrightarrow> ev \<noteq> EvStop \<Longrightarrow> wp (loopTurn fuel rt ev) (\<lambda>_. turned a) (\<lambda>_. False) a"
  by (cases ev) (auto intro!: wp_andThen wp_ret wp_mono [OF wp_handleControlSafely]
      wp_mono [OF wp_handleRequestSafely] wp_mono [OF wp_tickSafely] wp_mono [OF wp_pollInterval])

text \<open>
  Property C1. Every turn of an actor's loop keeps the actor well-formed whatever the runtime
  does: results, panics, the clock, randomness and release requests of other goroutines are all
  arbitrary. No panic leaves the loop; between turns the actor is not busy, it holds a
  UID exactly when it is not idle, an actor without UID has no schedule left over, its slot never
  changes, and the goroutine ends only in the stop turn, with the UID given up or kept as
  releasing. The only other outcome is that a call into the runtime does not return, or that a
  command's wait loop outlasts the fuel.
\<close>

theorem loop_turn_keeps_invariant:
  assumes "actor_inv a" and "\<not> a_done_closed a" and "loopTurn fuel rt ev (a, r) = (res, a', r')"
  shows "res = Ret () \<and> actor_inv a' \<and> a_slotID a' = a_slotID a
         \<and> (a_done_closed a' \<longleftrightarrow> ev = EvStop)
       \<or> res = Spin"
proof -
  have r: "ready a" using assms(1,2) by (simp add: ready_def)
  show ?thesis
  proof (cases "ev = EvStop")
    case True
    then show ?thesis
      using wpD [OF wp_loopExit [OF r, of rt], of r res a' r'] assms(3) by (auto split: outcome.splits)
  next
    case False
    then show ?thesis
      using wpD [OF wp_loopTurn [OF r False] assms(3)] by (auto simp: turned_def ready_def split: outcome.splits)
  qed
qed

definition quiet_runtime :: "unit RobotRuntime" where
  "quiet_runtime =
     \<lparr>rt_Config = (\<lambda>r. (Panic ''no config'', r)),
      rt_Status = (\<lambda>u r. (Ret (zero_status, False), r)),
      rt_PartyActive = (\<lambda>u r. (Ret False, r)),
      rt_IsActive = (\<lambda>u r. (Ret False, r)),
      rt_FinishStoreState = (\<lambda>u c s r. (Ret (), r)),
      rt_AddAutoOnline = (\<lambda>k f r. (Ret (), r)),
      rt_AutoActionsEnabled = (\<lambda>rc r. (Ret False, r)),
      rt_RandomShoutMessage = (\<lambda>r. (Ret '''', r)),
      rt_OnlineNoConfirm = (\<lambda>u r. (Ret (action_result u 0 False ActionStateFailed ''''), r)),
      rt_Logout = (\<lambda>u r. (Ret (action_result u 0 False ActionStateFailed ''''), r)),
      rt_Move = (\<lambda>u r. (Ret (action_result u 0 False ActionStateFailed ''''), r)),
      rt_Shout = (\<lambda>u w r. (Ret (action_result u 0 False ActionStateFailed ''''), r)),
      rt_Store = (\<lambda>u r. (Ret (action_result u 0 False ActionStateFailed ''''), r)),
      rt_AutoMove = (\<lambda>u r. (Ret (action_result u 0 False ActionStateFailed ''''), r)),
      rt_AutoShout = (\<lambda>u w m r. (Ret (action_result u 0 False ActionStateFailed ''''), r)),
      rt_AutoStore = (\<lambda>u f r. (Ret (action_result u 0 False ActionStateFailed ''''), r)),
      rt_ExpireStore = (\<lambda>u r. (Ret (action_result u 0 False ActionStateFailed ''''), r)),
      rt_ForceClose = Some (\<lambda>u r. (Ret False, r)),
      rt_Now = (\<lambda>r. (0, r)), rt_Sleep = (\<lambda>d r. r), rt_Intn = (\<lambda>n r. (0, r)),
      rt_ReleaseRequested = (\<lambda>r. False)\<rparr>"

lemma NewActor_inv: "actor_inv (NewActor slot m)"
  by (simp add: actor_inv_def NewActor_def quiet_def unscheduled_def)

lemma assigned_inv: "0 < u \<Longrightarrow> actor_inv (resetForUID u (NewActor slot m))
    \<and> \<not> a_done_closed (resetForUID u (NewActor slot m))"
  by (simp add: actor_inv_def NewActor_def resetForUID_def clearAutoSchedule_def quiet_def)

theorem loop_turn_keeps_invariant_witness:
  "\<exists>a' r'. loopTurn 0 quiet_runtime (EvTick 5) (resetForUID 7 (NewActor 1 ModeAuto), ()) = (Ret (), a', r')
     \<and> actor_inv a' \<and> a_uid a' = 7 \<and> a_state a' = StateReleasing"
proof -
  let ?a = "resetForUID 7 (NewActor 1 ModeAuto)"
  obtain res a' r' where run: "loopTurn 0 quiet_runtime (EvTick 5) (?a, ()) = (res, a', r')"
    by (metis prod_cases3)
  have "res = Ret () \<and> a_uid a' = 7 \<and> a_state a' = StateReleasing"
    using run
    by (auto simp: tickSafely_def tick_def pollInterval_def quiet_runtime_def NewActor_def resetForUID_def
        clearAutoSchedule_def handleLoopPanic_def andThen_def recovering_def reading_def updating_def
        calling_def ret_def releaseRequestedValue_def)
  moreover have "actor_inv ?a" "\<not> a_done_closed ?a" using assigned_inv [of 7] by simp_all
  ultimately show ?thesis using loop_turn_keeps_invariant [OF _ _ run] run by auto
qed

subsection \<open>When a UID is given up\<close>

lemma andThen_Ret:
  "andThen p f s = (Ret y, s') \<longleftrightarrow> (\<exists>x t. p s = (Ret x, t) \<and> f x t = (Ret y, s'))"
  by (auto simp: andThen_def split: prod.splits outcome.splits)

lemma basic_Ret [simp]:
  "ret x s = (Ret y, s') \<longleftrightarrow> x = y \<and> s = s'"
  "reading g s = (Ret z, s') \<longleftrightarrow> g (fst s) = z \<and> s = s'"
  "updating h s = (Ret (), s') \<longleftrightarrow> (h (fst s), snd s) = s'"
  "calling op s = (Ret w, s') \<longleftrightarrow> op (snd s) = (Ret w, snd s') \<and> fst s = fst s'"
  by (auto simp: ret_def reading_def updating_def calling_def split: prod.splits)

lemma beginRelease_Ret:
  "beginRelease rt u (a, r) = (Ret x, a', r') \<Longrightarrow> a' = a\<lparr>a_state := StateReleasing\<rparr>"
  by (auto simp: beginRelease_def finishStoreStateIfNeeded_def setState_def andThen_Ret Let_def split: if_splits)

lemma releaseCurrentUID_Ret:
  assumes "releaseCurrentUID rt (a, r) = (Ret u, a', r')" and "0 < a_uid a"
  shows "u = 0 \<and> a' = a\<lparr>a_state := StateReleasing\<rparr>
       \<or> u = a_uid a \<and> a' = resetForUID 0 (a\<lparr>a_state := StateReleasing\<rparr>)
         \<and> (\<exists>r1. releaseRuntimeUID rt u r1 = (Ret True, r'))"
  using assms by (auto simp: releaseCurrentUID_def andThen_Ret dest!: beginRelease_Ret split: if_splits)

text \<open>\<open>k\<close> attempts in a row that the runtime answered with \<open>false\<close>, with the sleeps in between.\<close>

fun refused :: "nat \<Rightarrow> 'r RobotRuntime \<Rightarrow> int \<Rightarrow> 'r \<Rightarrow> 'r \<Rightarrow> bool" where
  "refused 0 rt u r r' \<longleftrightarrow> r = r'"
| "refused (Suc k) rt u r r' \<longleftrightarrow>
     (\<exists>r1. releaseRuntimeUID rt u r = (Ret False, r1)
        \<and> refused k rt u (if k = 0 then r1 else rt_Sleep rt (250 * Millisecond) r1) r')"

lemma retryRelease_Ret:
  "retryRelease k rt u (a, r) = (Ret x, a', r') \<Longrightarrow>
     a' = resetForUID 0 a \<and> (\<exists>r1. releaseRuntimeUID rt u r1 = (Ret True, r'))
   \<or> a' = quarantineCurrentUID a \<and> refused k rt u r r'"
  by (induction k arbitrary: r)
    (auto simp: andThen_Ret sleeping_def split: if_splits)

lemma releaseUntilClosed_Ret:
  assumes "releaseCurrentUIDUntilClosed rt (a, r) = (Ret x, a', r')" and "0 < a_uid a"
  shows "a' = resetForUID 0 (a\<lparr>a_state := StateReleasing\<rparr>)
         \<and> (\<exists>r1. releaseRuntimeUID rt (a_uid a) r1 = (Ret True, r'))
       \<or> a' = quarantineCurrentUID (a\<lparr>a_state := StateReleasing\<rparr>)
         \<and> (\<exists>r1. refused stopReleaseMaxAttempts rt (a_uid a) r1 r')"
  using assms
  by (fastforce simp: releaseCurrentUIDUntilClosed_def andThen_Ret dest!: beginRelease_Ret retryRelease_Ret
      split: if_splits)

text \<open>
  Property C19. The fate of a UID when its actor stops. If the release does not panic, the goroutine
  ends either without the UID, and then the last thing the runtime did was to confirm that the
  UID is closed, or with the UID quarantined, and then the runtime refused all eight attempts;
  there is no third way.
\<close>

theorem stop_closes_or_quarantines:
  assumes "0 < a_uid a" and "loopExit rt (a, r) = (Ret (), a', r')"
    and "\<And>m s. releaseCurrentUIDUntilClosed rt (a, r) \<noteq> (Panic m, s)"
  shows "a_done_closed a'
    \<and> (a_uid a' = 0 \<and> \<not> a_quarantined a'
         \<and> (\<exists>r1. releaseRuntimeUID rt (a_uid a) r1 = (Ret True, r'))
       \<or> a_uid a' = a_uid a \<and> a_quarantined a' \<and> a_state a' = StateReleasing
         \<and> (\<exists>r1. refused 8 rt (a_uid a) r1 r'))"
proof -
  from assms(2) obtain x a1 where
    run: "recovering (\<lambda>_. andThen (updating handleLoopPanic) (\<lambda>_. tryReleaseAfterFatalPanic rt))
            (releaseCurrentUIDUntilClosed rt) (a, r) = (Ret x, a1, r')"
    and a': "a' = a1\<lparr>a_done_closed := True\<rparr>"
    by (auto simp: loopExit_def andThen_Ret)
  with assms(3) have "releaseCurrentUIDUntilClosed rt (a, r) = (Ret x, a1, r')"
    by (auto simp: recovering_def split: prod.splits outcome.splits)
  from releaseUntilClosed_Ret [OF this assms(1)] a' assms(1) show ?thesis
    by (auto simp: resetForUID_def clearAutoSchedule_def quarantineCurrentUID_def Let_def
        stopReleaseMaxAttempts_def)
qed

lemma quiet_refuses: "releaseRuntimeUID quiet_runtime u r = (Ret False, r)"
  by (simp add: releaseRuntimeUID_def quiet_runtime_def action_result_def)

lemma quiet_stop:
  assumes "0 < a_uid a" and "IsZero (a_storeUntil a)"
  shows "releaseCurrentUIDUntilClosed quiet_runtime (a, ())
    = (Ret (), quarantineCurrentUID (a\<lparr>a_state := StateReleasing\<rparr>), ())"
proof -
  have begins: "beginRelease quiet_runtime (a_uid a) (a, ()) = (Ret (), a\<lparr>a_state := StateReleasing\<rparr>, ())"
    using assms
    by (simp add: beginRelease_def finishStoreStateIfNeeded_def setState_def andThen_def updating_def
        calling_def reading_def ret_def quiet_runtime_def storeUntilMissing_def)
  have retry: "retryRelease (Suc k) quiet_runtime (a_uid a) (b, ()) = (Ret (), quarantineCurrentUID b, ())" for k b
    by (induction k) (simp_all add: andThen_def calling_def quiet_refuses updating_def sleeping_def)
  show ?thesis
    using retry [of 7 "a\<lparr>a_state := StateReleasing\<rparr>"] assms(1)
    by (simp add: releaseCurrentUIDUntilClosed_def andThen_def reading_def begins
        stopReleaseMaxAttempts_def numeral_eq_Suc del: retryRelease.simps)
qed

theorem stop_closes_or_quarantines_witness:
  "\<exists>a'. loopExit quiet_runtime (resetForUID 7 (NewActor 1 ModeAuto), ()) = (Ret (), a', ())
     \<and> a_uid a' = 7 \<and> a_quarantined a' \<and> a_done_closed a'"
proof -
  let ?a = "resetForUID 7 (NewActor 1 ModeAuto)"
  have uid: "0 < a_uid ?a" "a_uid ?a = 7" "IsZero (a_storeUntil ?a)"
    by (simp_all add: resetForUID_def clearAutoSchedule_def)
  note closes = quiet_stop [OF uid(1,3)]
  obtain a' where run: "loopExit quiet_runtime (?a, ()) = (Ret (), a', ())"
    by (simp add: loopExit_def andThen_def recovering_def closes updating_def)
  have "\<not> (\<exists>r1. releaseRuntimeUID quiet_runtime (a_uid ?a) r1 = (Ret True, ()))"
    by (simp add: quiet_refuses)
  then show ?thesis
    using stop_closes_or_quarantines [OF uid(1) run] run closes uid(2) by auto
qed

lemma handleControl_Ret:
  assumes "handleControl rt ctrl (a, r) = (Ret res, a', r')" and "0 < a_uid a"
  shows "a_uid a' = a_uid a \<and> (ct_kind ctrl = controlAssign \<and> cr_ok res \<longrightarrow> a_generation a' = a_generation a + 1)
       \<or> (\<exists>r1. releaseRuntimeUID rt (a_uid a) r1 = (Ret True, r'))
         \<and> (a_generation a' = a_generation a + 1 \<or> a_generation a' = a_generation a + 2)"
  using assms
  by (cases "ct_kind ctrl")
    (auto simp: handleControl_def andThen_Ret Let_def resetForUID_def clearAutoSchedule_def
      zero_control_result_def dest!: releaseCurrentUID_Ret split: if_splits)

lemma stale_rejected:
  "(rq_uid req, rq_generation req) \<noteq> (a_uid a, a_generation a) \<Longrightarrow>
     handleRequestSafely fuel rt req (a, r) =
       (Ret (action_result (rq_uid req) 0 False ActionStateFailed
               ''actor lease changed before command execution''), a, r)"
  by (auto simp: handleRequestSafely_def andThen_def reading_def ret_def)



subsection \<open>Spacing of the automatic actions\<close>

text \<open>
  Automatic actions are spaced: with configured bounds (in either order) and a random
  source that returns values of its range, once an action is due its next time lies between the
  smaller and the larger bound after now, so no later check before that is due; a check on an
  unscheduled action only schedules it.
\<close>

theorem randomized_due_spacing:
  assumes "0 < lo" "0 < hi" "lo < 2 ^ 30" "hi < 2 ^ 30"
    and "\<And>n r. 0 < n \<Longrightarrow> 0 \<le> fst (rt_Intn rt n r) \<and> fst (rt_Intn rt n r) < n"
    and "RandomizedDue nxt now lo hi (randBetween rt) r = ((nxt', isDue), r')"
    and "isDue \<or> IsZero nxt"
  shows "now + min lo hi * Second \<le> nxt' \<and> nxt' \<le> now + max lo hi * Second
    \<and> (isDue \<longrightarrow> nxt \<le> now)
    \<and> (\<forall>now' r2. now < now' \<and> now' < nxt' \<and> 0 \<le> now \<longrightarrow>
         fst (RandomizedDue nxt' now' lo hi (randBetween rt) r2) = (nxt', False))"
proof -
  define mn mx where "mn = min lo hi" and "mx = max lo hi"
  have range: "mn \<le> fst (randBetween rt mn mx r) \<and> fst (randBetween rt mn mx r) \<le> mx" for r
    using assms(5) [of "mx - mn + 1" r]
    by (auto simp: randBetween_def randIntn_def Let_def mn_def mx_def split: prod.splits)
  have sec: "i64 (k * Second) = k * Second" if "mn \<le> k" "k \<le> mx" for k
    using that assms(1-4) by (simp add: mn_def mx_def Second_def Millisecond_def)
  have order: "(if hi < lo then (hi, lo) else (lo, hi)) = (mn, mx)"
    by (auto simp: mn_def mx_def)
  have eq: "RandomizedDue nxt t lo hi (randBetween rt) r =
      (if IsZero nxt then ((t + i64 (fst (randBetween rt mn mx r) * Second), False), snd (randBetween rt mn mx r))
       else if t < nxt then ((nxt, False), r)
       else ((t + i64 (fst (randBetween rt mn mx r) * Second), True), snd (randBetween rt mn mx r)))" for nxt t r
    using assms(1,2) by (simp add: RandomizedDue_def order Let_def split: prod.splits)
  have nxt': "nxt' = now + fst (randBetween rt mn mx r) * Second" "isDue \<longrightarrow> nxt \<le> now"
    using assms(6,7) sec [of "fst (randBetween rt mn mx r)"] range [of r]
    by (auto simp: eq split: if_splits)
  have bounds: "mn * Second \<le> fst (randBetween rt mn mx r) * Second"
      "fst (randBetween rt mn mx r) * Second \<le> mx * Second"
    using range [of r] by (simp_all add: Second_def Millisecond_def)
  show ?thesis
    using nxt' bounds by (auto simp: eq IsZero_def zero_time_def simp flip: mn_def mx_def)
qed

theorem randomized_due_spacing_witness:
  "\<exists>nxt' r'. RandomizedDue 10 20 9 4 (randBetween quiet_runtime) () = ((nxt', True), r')
     \<and> 20 + 4 * Second \<le> nxt' \<and> nxt' \<le> 20 + 9 * Second"
proof -
  have run: "RandomizedDue 10 20 9 4 (randBetween quiet_runtime) () = ((20 + 4 * Second, True), ())"
    by (simp add: RandomizedDue_def randBetween_def randIntn_def quiet_runtime_def time_defs)
  have rand: "\<And>n r. 0 < n \<Longrightarrow> 0 \<le> fst (rt_Intn quiet_runtime n r) \<and> fst (rt_Intn quiet_runtime n r) < n"
    by (simp add: quiet_runtime_def)
  show ?thesis
    using randomized_due_spacing [OF _ _ _ _ rand run] run by simp
qed

subsection \<open>The wait loop of a command ends\<close>

text \<open>
  A runtime whose calls return and whose clock \<open>clk\<close> never runs backwards and advances
  by at least the time slept. \<open>timely p\<close> says that the program \<open>p\<close> returns (or panics)
  and that time does not go back while it runs.
\<close>

definition responsive :: "('r \<Rightarrow> time) \<Rightarrow> 'r RobotRuntime \<Rightarrow> bool" where
  "responsive clk rt \<longleftrightarrow>
     (\<forall>r. fst (rt_Now rt r) = clk r \<and> clk r \<le> clk (snd (rt_Now rt r)))
   \<and> (\<forall>d r. clk r + d \<le> clk (rt_Sleep rt d r))
   \<and> (\<forall>r. fst (rt_Config rt r) \<noteq> Spin \<and> clk r \<le> clk (snd (rt_Config rt r)))
   \<and> (\<forall>u r. fst (rt_Status rt u r) \<noteq> Spin \<and> clk r \<le> clk (snd (rt_Status rt u r)))
   \<and> (\<forall>u r. fst (rt_IsActive rt u r) \<noteq> Spin \<and> clk r \<le> clk (snd (rt_IsActive rt u r)))
   \<and> (\<forall>k f r. fst (rt_AddAutoOnline rt k f r) \<noteq> Spin \<and> clk r \<le> clk (snd (rt_AddAutoOnline rt k f r)))
   \<and> (\<forall>u r. fst (rt_OnlineNoConfirm rt u r) \<noteq> Spin \<and> clk r \<le> clk (snd (rt_OnlineNoConfirm rt u r)))"

definition timely :: "('r \<Rightarrow> time) \<Rightarrow> ('r, 'a) prog \<Rightarrow> bool" where
  "timely clk p \<longleftrightarrow> (\<forall>a r. fst (p (a, r)) \<noteq> Spin \<and> clk r \<le> clk (snd (snd (p (a, r)))))"

named_theorems timely_rules \<open>programs that return\<close>

lemma timely_basic [timely_rules]:
  "timely clk (ret x)" "timely clk (reading f)" "timely clk (updating g)" "timely clk (setState st)"
  "timely clk (releaseRequestedValue rt)"
  by (simp_all add: timely_def ret_def reading_def updating_def setState_def releaseRequestedValue_def Let_def)

lemma timely_calling:
  "(\<And>r. fst (op r) \<noteq> Spin \<and> clk r \<le> clk (snd (op r))) \<Longrightarrow> timely clk (calling op)"
  by (simp add: timely_def calling_def case_prod_beta)

lemma timely_calls [timely_rules]:
  assumes "responsive clk rt"
  shows "timely clk (calling (rt_Config rt))" "timely clk (calling (rt_Status rt u))"
    "timely clk (calling (rt_IsActive rt u))" "timely clk (calling (rt_AddAutoOnline rt k f))"
    "timely clk (calling (rt_OnlineNoConfirm rt u))"
  using assms by (auto simp: responsive_def intro!: timely_calling)

lemma timely_run:
  "timely clk p \<Longrightarrow> p (a, r) = (res, a', r') \<Longrightarrow> res \<noteq> Spin \<and> clk r \<le> clk r'"
  unfolding timely_def by (metis fst_conv snd_conv)

lemma timely_andThen [timely_rules]:
  assumes "timely clk p" and "\<And>x. timely clk (f x)"
  shows "timely clk (andThen p f)"
  unfolding timely_def
proof (intro allI)
  fix a r
  obtain res a1 r1 where p: "p (a, r) = (res, a1, r1)" by (metis prod_cases3)
  with timely_run [OF assms(1)] have 1: "res \<noteq> Spin" "clk r \<le> clk r1" by auto
  show "fst (andThen p f (a, r)) \<noteq> Spin \<and> clk r \<le> clk (snd (snd (andThen p f (a, r))))"
    using 1 assms(2) by (cases res) (fastforce simp: andThen_def p timely_def intro: order_trans)+
qed

lemma timely_split [timely_rules]:
  "(b \<Longrightarrow> timely clk p) \<Longrightarrow> (\<not> b \<Longrightarrow> timely clk q) \<Longrightarrow> timely clk (if b then p else q)"
  "(\<And>x y. timely clk (g x y)) \<Longrightarrow> timely clk (case z of (x, y) \<Rightarrow> g x y)"
  by (auto split: prod.splits)

lemma timely_ensureOnline:
  "responsive clk rt \<Longrightarrow> timely clk (ensureOnline rt now)"
  unfolding ensureOnline_def onlineAttemptTimedOut_def onlineConfirmPending_def onlineAttempt_def
  by (intro timely_rules)

lemma waitOnline_returns:
  assumes "responsive clk rt"
  shows "deadline - clk r \<le> (int fuel - 1) * (500 * Millisecond) \<Longrightarrow> 0 < fuel \<Longrightarrow>
           fst (waitOnline fuel rt u deadline (a, r)) \<noteq> Spin"
proof (induction fuel arbitrary: a r)
  case (Suc fuel)
  obtain now1 r1 where now1: "rt_Now rt r = (now1, r1)" by (metis prod.exhaust)
  with assms have c1: "now1 = clk r" "clk r \<le> clk r1"
    unfolding responsive_def by (metis fst_conv, metis snd_conv)
  obtain act r2 where act: "rt_IsActive rt u r1 = (act, r2)" by (metis prod.exhaust)
  with assms have c2: "act \<noteq> Spin" "clk r1 \<le> clk r2"
    unfolding responsive_def by (metis fst_conv, metis snd_conv)
  obtain now2 r3 where now2: "rt_Now rt r2 = (now2, r3)" by (metis prod.exhaust)
  with assms have c3: "clk r2 \<le> clk r3" unfolding responsive_def by (metis snd_conv)
  obtain res a4 r4 where eo: "ensureOnline rt now2 (a, r3) = (res, a4, r4)" by (metis prod_cases3)
  with timely_run [OF timely_ensureOnline [OF assms]] have c4: "res \<noteq> Spin" "clk r3 \<le> clk r4" by auto
  let ?r5 = "rt_Sleep rt (500 * Millisecond) r4"
  have c5: "clk r4 + 500 * Millisecond \<le> clk ?r5" using assms by (simp add: responsive_def)
  have "fst (waitOnline fuel rt u deadline (a4, ?r5)) \<noteq> Spin" if "now1 < deadline"
  proof (rule Suc.IH)
    show "0 < fuel" using Suc.prems(1) that c1 by (simp add: Millisecond_def)
    show "deadline - clk ?r5 \<le> (int fuel - 1) * (500 * Millisecond)"
      using Suc.prems(1) c1 c2 c3 c4 c5 by (simp add: algebra_simps)
  qed
  then show ?case
    using c2 c4
    by (cases act; cases res)
      (simp_all add: andThen_def asking_def now1 releaseRequestedValue_def Let_def ret_def calling_def act
        now2 eo sleeping_def)
qed simp


definition clock_runtime :: "int RobotRuntime" where
  "clock_runtime =
     \<lparr>rt_Config = (\<lambda>r. (Panic ''no config'', r)),
      rt_Status = (\<lambda>u r. (Ret (zero_status, False), r)),
      rt_PartyActive = (\<lambda>u r. (Ret False, r)),
      rt_IsActive = (\<lambda>u r. (Ret False, r)),
      rt_FinishStoreState = (\<lambda>u c s r. (Ret (), r)),
      rt_AddAutoOnline = (\<lambda>k f r. (Ret (), r)),
      rt_AutoActionsEnabled = (\<lambda>rc r. (Ret False, r)),
      rt_RandomShoutMessage = (\<lambda>r. (Ret '''', r)),
      rt_OnlineNoConfirm = (\<lambda>u r. (Ret (action_result u 0 False ActionStateFailed ''''), r)),
      rt_Logout = (\<lambda>u r. (Ret (action_result u 0 True '''' ''''), r)),
      rt_Move = (\<lambda>u r. (Ret (action_result u 0 True '''' ''''), r)),
      rt_Shout = (\<lambda>u w r. (Ret (action_result u 0 True '''' ''''), r)),
      rt_Store = (\<lambda>u r. (Ret (action_result u 0 True '''' ''''), r)),
      rt_AutoMove = (\<lambda>u r. (Ret (action_result u 0 True '''' ''''), r)),
      rt_AutoShout = (\<lambda>u w m r. (Ret (action_result u 0 True '''' ''''), r)),
      rt_AutoStore = (\<lambda>u f r. (Ret (action_result u 0 True '''' ''''), r)),
      rt_ExpireStore = (\<lambda>u r. (Ret (action_result u 0 True '''' ''''), r)),
      rt_ForceClose = None,
      rt_Now = (\<lambda>r. (r, r)), rt_Sleep = (\<lambda>d r. r + d), rt_Intn = (\<lambda>n r. (0, r)),
      rt_ReleaseRequested = (\<lambda>r. False)\<rparr>"


text \<open>
  What the supervisor is told about an actor. Only an automatic actor with a UID that
  is not busy can be unhealthy; its UID is recycled exactly when it reached the configured number
  of failures; with fewer failures it is unhealthy exactly when it has been waiting for an
  online confirmation longer than the timeout and the runtime does not show it running.
\<close>

theorem evaluate_status_unhealthy:
  "(st_RecycleUID (EvaluateStatus s now cfg lookup) \<longleftrightarrow>
      sn_Mode s = ModeAuto \<and> 0 < sn_UID s \<and> \<not> sn_Busy s \<and> sc_BadFailures cfg \<le> sn_Failures s)
   \<and> (st_Health (EvaluateStatus s now cfg lookup) = HealthUnhealthy \<longleftrightarrow>
      sn_Mode s = ModeAuto \<and> 0 < sn_UID s \<and> \<not> sn_Busy s
      \<and> (sc_BadFailures cfg \<le> sn_Failures s
         \<or> sn_State s = StateOnline \<and> sn_LastOnlineTry s \<noteq> zero_time
           \<and> confirm_timeout (sc_OnlineConfirmTimeoutMS cfg) < time_Sub now (sn_LastOnlineTry s)
           \<and> \<not> (\<exists>f st. lookup = Some f \<and> f (sn_UID s) = (st, True) \<and> ActiveRuntimeStatus st)))
   \<and> (st_Health (EvaluateStatus s now cfg lookup) = HealthIdle \<longleftrightarrow> sn_Mode s \<noteq> ModeAuto \<or> sn_UID s \<le> 0)
   \<and> sn_UID (EvaluateStatus s now cfg lookup) = sn_UID s"
  by (cases lookup; cases "the lookup (sn_UID s)")
    (auto simp: EvaluateStatus_def toStatus_def ActiveRuntimeStatus_def IsZero_def not_le)

theorem evaluate_status_unhealthy_witness:
  "st_Health (EvaluateStatus
     \<lparr>sn_SlotID = 3, sn_UID = 17, sn_Generation = 1, sn_Mode = ModeAuto, sn_State = StateOnline,
      sn_Busy = False, sn_BusyKind = '''', sn_OnlineDesired = True, sn_LastOnlineTry = 5,
      sn_FirstFailureAt = 0, sn_Failures = 2, sn_Quarantined = False\<rparr>
     1000000006 \<lparr>sc_BadFailures = 3, sc_OnlineConfirmTimeoutMS = 1000\<rparr> None) = HealthUnhealthy"
  by (subst evaluate_status_unhealthy [THEN conjunct2, THEN conjunct1])
    (simp add: confirm_timeout_def time_Sub_def i64_def time_defs)

end
