(* ===== verification/Ledger_Invariant.thy ===== *)
theory Ledger_Invariant
  imports Ledger Actor_Invariant
begin

section \<open>Invariants of the ledger\<close>

text \<open>
  What reaping does to the index in closed form (independent of Go's iteration order), the
  well-formedness of the ledger, and that every operation keeps it. The last part composes
  ledger operations and actor turns into one step relation, in which quarantined UIDs are
  never leased again.
\<close>

definition ledger_inv :: "Ledger \<Rightarrow> bool" where
  "ledger_inv l \<longleftrightarrow>
     (\<forall>s a. l_actors l s = Some a \<longrightarrow> a < l_nextRef l \<and> slot_of l a = s)
   \<and> (\<forall>s a. l_draining l s = Some a \<longrightarrow> a < l_nextRef l \<and> slot_of l a = s)
   \<and> (\<forall>u a. l_uidActors l u = Some a \<longrightarrow> 0 < u \<and> a < l_nextRef l)
   \<and> (\<forall>a < l_nextRef l. 0 < slot_of l a \<and> slot_of l a \<le> l_nextSlotID l)
   \<and> 0 \<le> l_nextSlotID l
   \<and> inj_on (slot_of l) {..<l_nextRef l}
   \<and> l_quarantine l \<subseteq> l_blockedUID l
   \<and> l_quarantine l \<inter> dom (l_uidActors l) = {}"

lemma slot_of_update [simp]:
  "slot_of (l\<lparr>l_actors := x\<rparr>) = slot_of l" "slot_of (l\<lparr>l_uidActors := y\<rparr>) = slot_of l"
  "slot_of (l\<lparr>l_draining := z\<rparr>) = slot_of l" "slot_of (l\<lparr>l_blockedUID := b\<rparr>) = slot_of l"
  "slot_of (l\<lparr>l_quarantine := q\<rparr>) = slot_of l" "slot_of (l\<lparr>l_nextSlotID := n\<rparr>) = slot_of l"
  by (simp_all add: slot_of_def fun_eq_iff)

subsection \<open>Reaping in closed form\<close>

lemma index_cong:
  "x = x' \<Longrightarrow> l\<lparr>l_actors := x\<rparr> = l\<lparr>l_actors := x'\<rparr>"
  "y = y' \<Longrightarrow> z = z' \<Longrightarrow> l\<lparr>l_actors := y, l_draining := z\<rparr> = l\<lparr>l_actors := y', l_draining := z'\<rparr>"
  "u = u' \<Longrightarrow> b = b' \<Longrightarrow> q = q' \<Longrightarrow> l\<lparr>l_uidActors := u, l_blockedUID := b, l_quarantine := q\<rparr>
     = l\<lparr>l_uidActors := u', l_blockedUID := b', l_quarantine := q'\<rparr>"
  "u = u' \<Longrightarrow> b = b' \<Longrightarrow> l\<lparr>l_uidActors := u, l_blockedUID := b\<rparr> = l\<lparr>l_uidActors := u', l_blockedUID := b'\<rparr>"
  by simp_all

definition unexpected_pass :: "(int \<rightharpoonup> aref) \<Rightarrow> int list \<Rightarrow> Ledger \<times> (aref \<rightharpoonup> bool) \<Rightarrow> Ledger \<times> (aref \<rightharpoonup> bool)" where
  "unexpected_pass m ord = (\<lambda>(l, dead).
     (l\<lparr>l_actors := (\<lambda>s. if s \<in> set ord \<and> (\<exists>a. m s = Some a \<and> \<not> is_draining l s a \<and> actorDone l a)
                         then None else l_actors l s)\<rparr>,
      \<lambda>a. if (\<exists>s \<in> set ord. m s = Some a \<and> \<not> is_draining l s a) \<and> actorDone l a then Some True else dead a))"

definition draining_pass :: "(int \<rightharpoonup> aref) \<Rightarrow> int list \<Rightarrow> Ledger \<times> (aref \<rightharpoonup> bool) \<Rightarrow> Ledger \<times> (aref \<rightharpoonup> bool)" where
  "draining_pass m ord = (\<lambda>(l, dead).
     (l\<lparr>l_actors := (\<lambda>s. if s \<in> set ord \<and> (\<exists>a. m s = Some a \<and> actorDone l a \<and> l_actors l s = Some a)
                         then None else l_actors l s),
        l_draining := (\<lambda>s. if s \<in> set ord \<and> (\<exists>a. m s = Some a \<and> actorDone l a) then None else l_draining l s)\<rparr>,
      \<lambda>a. if (\<exists>s \<in> set ord. m s = Some a) \<and> actorDone l a then Some (a_quarantined (actor_at l a)) else dead a))"

definition lease_pass :: "(int \<rightharpoonup> aref) \<Rightarrow> (aref \<rightharpoonup> bool) \<Rightarrow> int list \<Rightarrow> Ledger \<Rightarrow> Ledger" where
  "lease_pass m dead ord l =
     (let D = (\<lambda>u. case m u of None \<Rightarrow> None | Some a \<Rightarrow> dead a)
      in l\<lparr>l_uidActors := (\<lambda>u. if u \<in> set ord \<and> D u \<noteq> None then None else l_uidActors l u),
           l_blockedUID := l_blockedUID l - {u \<in> set ord. D u \<noteq> None} \<union> {u \<in> set ord. 0 < u \<and> D u = Some True},
           l_quarantine := l_quarantine l \<union> {u \<in> set ord. 0 < u \<and> D u = Some True}\<rparr>)"

lemma unexpected_step:
  assumes "m s = Some a"
  shows "unexpected_pass m (s # ord) (l, dead)
    = unexpected_pass m ord (if is_draining l s a \<or> \<not> actorDone l a then (l, dead)
        else (l\<lparr>l_actors := (l_actors l)(s := None)\<rparr>, dead(a \<mapsto> True)))"
proof (cases "is_draining l s a \<or> \<not> actorDone l a")
  case True
  with assms show ?thesis by (auto simp: unexpected_pass_def intro!: index_cong ext)
next
  case False
  with assms show ?thesis
    by (auto simp: unexpected_pass_def is_draining_def actorDone_def intro!: index_cong ext)
qed

lemma fold_reap_unexpected:
  "(fst R, fst (snd R)) = unexpected_pass m ord (l, dead)"
  if "R = fold reap_unexpected (range_over ord m) (l, dead, n)"
proof -
  have "(\<lambda>(l, dead, n). (l, dead)) (fold reap_unexpected (range_over ord m) (l, dead, n))
      = unexpected_pass m ord ((\<lambda>(l, dead, n). (l, dead)) (l, dead, n))"
  proof (rule fold_range_over_closed)
    show "unexpected_pass m [] y = y" for y by (cases y) (simp add: unexpected_pass_def)
    show "unexpected_pass m (k # o1) y = unexpected_pass m o1 y" if "m k = None" for k o1 y
      using that by (cases y) (auto simp: unexpected_pass_def intro!: index_cong ext)
  qed (auto simp: unexpected_step reap_unexpected_def)
  then show ?thesis by (simp add: that case_prod_beta)
qed

lemma draining_actors_commute:
  "l\<lparr>l_draining := z, l_actors := x\<rparr> = l\<lparr>l_actors := x, l_draining := z\<rparr>"
  by simp

lemma draining_step:
  assumes "m s = Some a"
  shows "draining_pass m (s # ord) (l, dead)
    = draining_pass m ord (if \<not> actorDone l a then (l, dead)
        else (l\<lparr>l_actors := (if l_actors l s = Some a then (l_actors l)(s := None) else l_actors l),
                l_draining := (l_draining l)(s := None)\<rparr>, dead(a \<mapsto> a_quarantined (actor_at l a))))"
proof (cases "actorDone l a")
  case False
  with assms show ?thesis by (auto simp: draining_pass_def intro!: index_cong ext)
next
  case True
  with assms show ?thesis
    by (cases "l_actors l s = Some a")
      (auto simp: draining_pass_def actorDone_def intro!: index_cong ext)
qed

lemma fold_reap_draining:
  "(fst R, fst (snd R)) = draining_pass m ord (l, dead)"
  if "R = fold reap_draining (range_over ord m) (l, dead, n)"
proof -
  have "(\<lambda>(l, dead, n). (l, dead)) (fold reap_draining (range_over ord m) (l, dead, n))
      = draining_pass m ord ((\<lambda>(l, dead, n). (l, dead)) (l, dead, n))"
  proof (rule fold_range_over_closed)
    show "draining_pass m [] y = y" for y by (cases y) (simp add: draining_pass_def)
    show "draining_pass m (k # o1) y = draining_pass m o1 y" if "m k = None" for k o1 y
      using that by (cases y) (auto simp: draining_pass_def intro!: index_cong ext)
  qed (auto simp: draining_step reap_draining_def Let_def draining_actors_commute)
  then show ?thesis by (simp add: that case_prod_beta)
qed

lemma fold_reap_lease:
  "fold (reap_lease dead) (range_over ord m) l = lease_pass m dead ord l"
proof -
  have "(\<lambda>x. x) (fold (reap_lease dead) (range_over ord m) l) = lease_pass m dead ord ((\<lambda>x. x) l)"
    by (rule fold_range_over_closed)
      (auto simp: lease_pass_def reap_lease_def Let_def intro!: index_cong ext split: if_splits option.splits)
  then show ?thesis .
qed

subsection \<open>What one reaping pass does\<close>

text \<open>The actors a pass of \<open>ReapDoneDraining\<close> removes, with the mark that keeps their leases blocked.\<close>

definition dead_actors :: "bool \<Rightarrow> Ledger \<Rightarrow> (aref \<rightharpoonup> bool)" where
  "dead_actors includeUnexpected l a =
     (if a \<in> ran (l_draining l) \<and> actorDone l a then Some (a_quarantined (actor_at l a))
      else if includeUnexpected \<and> (\<exists>s. l_actors l s = Some a \<and> \<not> is_draining l s a) \<and> actorDone l a
        then Some True
      else None)"

definition reap_spec :: "bool \<Rightarrow> Ledger \<Rightarrow> Ledger" where
  "reap_spec includeUnexpected l =
     (let D = (\<lambda>u. case l_uidActors l u of None \<Rightarrow> None | Some a \<Rightarrow> dead_actors includeUnexpected l a)
      in l\<lparr>l_actors := (\<lambda>s. case l_actors l s of
                              None \<Rightarrow> None
                            | Some a \<Rightarrow> if actorDone l a \<and> (includeUnexpected \<or> is_draining l s a) then None else Some a),
           l_draining := (\<lambda>s. case l_draining l s of
                              None \<Rightarrow> None | Some a \<Rightarrow> if actorDone l a then None else Some a),
           l_uidActors := (\<lambda>u. if D u \<noteq> None then None else l_uidActors l u),
           l_blockedUID := l_blockedUID l - {u. D u \<noteq> None} \<union> {u. 0 < u \<and> D u = Some True},
           l_quarantine := l_quarantine l \<union> {u. 0 < u \<and> D u = Some True}\<rparr>)"

lemma ex_in_order: "iteration_order ord m \<Longrightarrow> (\<exists>s \<in> set ord. m s = Some a \<and> P s) \<longleftrightarrow> (\<exists>s. m s = Some a \<and> P s)"
  by (auto simp: iteration_order_def)

lemma mem_order: "iteration_order ord m \<Longrightarrow> s \<in> set ord \<longleftrightarrow> (\<exists>a. m s = Some a)"
  by (auto simp: iteration_order_def)

lemma reap_cong:
  "x = x' \<Longrightarrow> z = z' \<Longrightarrow> u = u' \<Longrightarrow> b = b' \<Longrightarrow> q = q' \<Longrightarrow>
     l\<lparr>l_actors := x, l_draining := z, l_uidActors := u, l_blockedUID := b, l_quarantine := q\<rparr>
     = l\<lparr>l_actors := x', l_draining := z', l_uidActors := u', l_blockedUID := b', l_quarantine := q'\<rparr>"
  by simp

lemma ran_iff: "a \<in> ran m \<longleftrightarrow> (\<exists>s. m s = Some a)"
  by (auto simp: ran_def)

lemma draining_pass_reaps:
  assumes "iteration_order od (l_draining l)"
  shows "draining_pass (l_draining l) od (l, Map.empty)
    = (l\<lparr>l_actors := (\<lambda>s. case l_actors l s of
                            None \<Rightarrow> None | Some a \<Rightarrow> if actorDone l a \<and> is_draining l s a then None else Some a),
         l_draining := (\<lambda>s. case l_draining l s of None \<Rightarrow> None | Some a \<Rightarrow> if actorDone l a then None else Some a)\<rparr>,
       dead_actors False l)"
  using mem_order [OF assms]
  by (auto simp: draining_pass_def dead_actors_def is_draining_def ran_iff fun_eq_iff
      intro!: index_cong split: option.splits)

lemma both_passes_reap:
  assumes "iteration_order oa (l_actors l)" and "iteration_order od (l_draining l)"
  shows "draining_pass (l_draining l) od (unexpected_pass (l_actors l) oa (l, Map.empty))
    = (l\<lparr>l_actors := (\<lambda>s. case l_actors l s of
                            None \<Rightarrow> None | Some a \<Rightarrow> if actorDone l a then None else Some a),
         l_draining := (\<lambda>s. case l_draining l s of None \<Rightarrow> None | Some a \<Rightarrow> if actorDone l a then None else Some a)\<rparr>,
       dead_actors True l)"
  using mem_order [OF assms(1)] mem_order [OF assms(2)]
  by (auto simp: draining_pass_def unexpected_pass_def dead_actors_def is_draining_def actorDone_def ran_iff
      fun_eq_iff intro!: index_cong split: option.splits)

lemma lease_pass_all:
  assumes "iteration_order ou (l_uidActors l)"
  shows "lease_pass (l_uidActors l) dead ou l =
    (let D = (\<lambda>u. case l_uidActors l u of None \<Rightarrow> None | Some a \<Rightarrow> dead a)
      in l\<lparr>l_uidActors := (\<lambda>u. if D u \<noteq> None then None else l_uidActors l u),
           l_blockedUID := l_blockedUID l - {u. D u \<noteq> None} \<union> {u. 0 < u \<and> D u = Some True},
           l_quarantine := l_quarantine l \<union> {u. 0 < u \<and> D u = Some True}\<rparr>)"
  using mem_order [OF assms]
  by (auto simp: lease_pass_def Let_def intro!: index_cong ext split: option.splits)

lemma lease_pass_empty: "lease_pass m Map.empty ord l = l"
proof -
  have D: "(\<lambda>u. case m u of None \<Rightarrow> None | Some a \<Rightarrow> Map.empty a) = (\<lambda>_. None)"
    by (simp add: fun_eq_iff split: option.split)
  show ?thesis unfolding lease_pass_def D by (simp add: Let_def)
qed

lemma reapDone_closed:
  assumes "includeUnexpected \<longrightarrow> iteration_order oa (l_actors l)" "iteration_order od (l_draining l)"
    and "iteration_order ou (l_uidActors l)"
  shows "snd (reapDoneActorsLocked oa od ou includeUnexpected l) = reap_spec includeUnexpected l"
proof -
  define R1 where "R1 = (if includeUnexpected
      then fold reap_unexpected (range_over oa (l_actors l)) (l, Map.empty, 0) else (l, Map.empty, 0))"
  define l1 dead1 n1 where "l1 = fst R1" and "dead1 = fst (snd R1)" and "n1 = snd (snd R1)"
  define R2 where "R2 = fold reap_draining (range_over od (l_draining l1)) (l1, dead1, n1)"
  define l2 dead2 n2 where "l2 = fst R2" and "dead2 = fst (snd R2)" and "n2 = snd (snd R2)"
  have 1: "(l1, dead1) = (if includeUnexpected then unexpected_pass (l_actors l) oa (l, Map.empty) else (l, Map.empty))"
    using fold_reap_unexpected [OF refl, of oa "l_actors l" l Map.empty 0]
    by (simp add: l1_def dead1_def R1_def)
  then have dr: "l_draining l1 = l_draining l"
    by (auto simp: unexpected_pass_def split: if_splits)
  have 2: "(l2, dead2) = draining_pass (l_draining l) od (l1, dead1)"
    using fold_reap_draining [OF R2_def] by (simp add: l2_def dead2_def dr)
  then have both: "(l2, dead2) =
      (l\<lparr>l_actors := (\<lambda>s. case l_actors l s of None \<Rightarrow> None
            | Some a \<Rightarrow> if actorDone l a \<and> (includeUnexpected \<or> is_draining l s a) then None else Some a),
         l_draining := (\<lambda>s. case l_draining l s of None \<Rightarrow> None | Some a \<Rightarrow> if actorDone l a then None else Some a)\<rparr>,
       dead_actors includeUnexpected l)"
    using 1 both_passes_reap [OF _ assms(2), of oa] assms(1) draining_pass_reaps [OF assms(2)]
    by (cases includeUnexpected) (simp_all cong: option.case_cong)
  then have ua: "l_uidActors l2 = l_uidActors l" "l_blockedUID l2 = l_blockedUID l" "l_quarantine l2 = l_quarantine l"
    by simp_all
  have "reapDoneActorsLocked oa od ou includeUnexpected l = (n2, lease_pass (l_uidActors l2) dead2 ou l2)"
    by (simp add: fold_reap_lease lease_pass_empty reapDoneActorsLocked_def R1_def [symmetric] case_prod_beta l1_def [symmetric]
        dead1_def [symmetric] n1_def [symmetric] R2_def [symmetric] l2_def [symmetric]
        dead2_def [symmetric] n2_def [symmetric] ua Let_def)
  moreover have "dead2 = dead_actors includeUnexpected l" using both by simp
  moreover have "lease_pass (l_uidActors l2) (dead_actors includeUnexpected l) ou l2 = reap_spec includeUnexpected l"
    unfolding lease_pass_all [OF assms(3) [folded ua(1)]] unfolding ua reap_spec_def Let_def
    using both by simp
  ultimately show ?thesis by simp
qed

text \<open>
  Property C4. What \<open>ReapDoneDraining\<close> does, in whatever order Go iterates the three maps: it
  computes the order-free \<open>reap_spec\<close>. Every finished actor leaves the index and no running one
  does. Leases of running actors stay as they are. The lease of an actor that was drained
  and closed its UID is removed and the UID is free again; the lease of an actor that was drained
  with its UID quarantined, or that ended without being drained, is removed and the UID is blocked
  and quarantined.
\<close>

theorem reap_exact:
  assumes "ledger_inv l"
    and "iteration_order oa (l_actors l)" "iteration_order od (l_draining l)"
    and "iteration_order ou (l_uidActors l)"
    and "l' = snd (ReapDoneDraining oa od ou l)"
  shows "l' = reap_spec True l
    \<and> (\<forall>s a. l_actors l' s = Some a \<longleftrightarrow> l_actors l s = Some a \<and> \<not> actorDone l a)
    \<and> (\<forall>s a. l_draining l' s = Some a \<longleftrightarrow> l_draining l s = Some a \<and> \<not> actorDone l a)
    \<and> (\<forall>u a. l_uidActors l u = Some a \<and> \<not> actorDone l a \<longrightarrow>
          l_uidActors l' u = Some a \<and> (u \<in> l_blockedUID l' \<longleftrightarrow> u \<in> l_blockedUID l)
          \<and> (u \<in> l_quarantine l' \<longleftrightarrow> u \<in> l_quarantine l))
    \<and> (\<forall>u a. l_uidActors l u = Some a \<and> actorDone l a \<and> is_draining l (slot_of l a) a
          \<and> \<not> a_quarantined (actor_at l a) \<longrightarrow>
          l_uidActors l' u = None \<and> u \<notin> l_blockedUID l' \<and> u \<notin> l_quarantine l')
    \<and> (\<forall>u a. l_uidActors l u = Some a \<and> actorDone l a
          \<and> (is_draining l (slot_of l a) a \<and> a_quarantined (actor_at l a)
             \<or> \<not> is_draining l (slot_of l a) a \<and> l_actors l (slot_of l a) = Some a) \<longrightarrow>
          l_uidActors l' u = None \<and> u \<in> l_blockedUID l' \<and> u \<in> l_quarantine l')"
proof -
  have l': "l' = reap_spec True l"
    using reapDone_closed [of True oa l od ou] assms(2-5) by (simp add: ReapDoneDraining_def)
  have slots: "l_draining l s = Some a \<Longrightarrow> slot_of l a = s" "l_actors l s = Some a \<Longrightarrow> slot_of l a = s" for s a
    using assms(1) by (auto simp: ledger_inv_def)
  have drained: "a \<in> ran (l_draining l) \<longleftrightarrow> is_draining l (slot_of l a) a" for a
    using slots(1) by (auto simp: ran_iff is_draining_def)
  have own: "(\<exists>s. l_actors l s = Some a \<and> \<not> is_draining l s a) \<longleftrightarrow>
      l_actors l (slot_of l a) = Some a \<and> \<not> is_draining l (slot_of l a) a" for a
    using slots(2) by auto
  have fresh: "l_uidActors l u = Some a \<Longrightarrow> 0 < u \<and> u \<notin> l_quarantine l" for u a
    using assms(1) by (auto simp: ledger_inv_def)
  have dead: "dead_actors True l a =
      (if actorDone l a then
         (if is_draining l (slot_of l a) a then Some (a_quarantined (actor_at l a))
          else if l_actors l (slot_of l a) = Some a then Some True else None)
       else None)" for a
    using own [of a] by (auto simp: dead_actors_def drained)
  show ?thesis
    unfolding l' using fresh
    by (intro conjI) (auto simp: reap_spec_def Let_def dead split: option.splits if_splits)
qed

definition reaped_example :: Ledger where
  "reaped_example =
     NewLedger\<lparr>l_actors := [1 \<mapsto> 0, 2 \<mapsto> 1], l_uidActors := [7 \<mapsto> 0, 9 \<mapsto> 1], l_nextSlotID := 2, l_nextRef := 2,
       l_heap := (\<lambda>_. NewActor 0 ModeAuto)
         (0 := (NewActor 1 ModeAuto)\<lparr>a_uid := 7, a_done_closed := True\<rparr>, 1 := (NewActor 2 ModeAuto)\<lparr>a_uid := 9\<rparr>)\<rparr>"

theorem reap_exact_witness:
  "7 \<in> l_quarantine (snd (ReapDoneDraining [2, 1] [] [7, 9] reaped_example))
   \<and> l_uidActors (snd (ReapDoneDraining [2, 1] [] [7, 9] reaped_example)) 9 = Some 1"
proof -
  have inv: "ledger_inv reaped_example"
    by (auto simp: ledger_inv_def reaped_example_def NewLedger_def slot_of_def NewActor_def inj_on_def
        less_Suc_eq numeral_2_eq_2 split: if_splits)
  have oa: "iteration_order [2, 1] (l_actors reaped_example)"
    by (auto simp: iteration_order_def reaped_example_def)
  have od: "iteration_order [] (l_draining reaped_example)"
    by (auto simp: reaped_example_def NewLedger_def)
  have ou: "iteration_order [7, 9] (l_uidActors reaped_example)"
    by (auto simp: iteration_order_def reaped_example_def)
  from reap_exact [OF inv oa od ou refl] show ?thesis
    by (auto simp: reaped_example_def NewLedger_def slot_of_def NewActor_def actorDone_def is_draining_def)
qed

subsection \<open>Every operation keeps the ledger well-formed\<close>

lemma ledger_inv_sub:
  assumes "ledger_inv l" and "l_actors l' \<subseteq>\<^sub>m l_actors l" "l_draining l' \<subseteq>\<^sub>m l_draining l"
    and "l_uidActors l' \<subseteq>\<^sub>m l_uidActors l"
    and "l_heap l' = l_heap l" "l_nextRef l' = l_nextRef l" "l_nextSlotID l' = l_nextSlotID l"
    and "l_quarantine l' \<subseteq> l_blockedUID l'" "l_quarantine l' \<inter> dom (l_uidActors l') = {}"
  shows "ledger_inv l'"
proof -
  have "slot_of l' = slot_of l" by (simp add: slot_of_def fun_eq_iff assms(5))
  moreover have "l_actors l' s = Some a \<Longrightarrow> l_actors l s = Some a"
      "l_draining l' s = Some a \<Longrightarrow> l_draining l s = Some a" for s a
    using assms(2,3) by (metis domI map_le_def)+
  moreover have "l_uidActors l' u = Some a \<Longrightarrow> l_uidActors l u = Some a" for u a
    using assms(4) by (metis domI map_le_def)
  ultimately show ?thesis using assms(1,6-9) unfolding ledger_inv_def by (simp add: assms(6,7)) blast
qed

lemma inv_lease_ops:
  assumes "ledger_inv l"
  shows "ledger_inv (snd (BlockLeaseIfCurrent u ao l))" "ledger_inv (UnblockUID u l)" "ledger_inv (BlockUID u l)"
    "ledger_inv (UnleaseUID u ao l)" "ledger_inv (RemoveLeaseIfActor u ao l)"
  using assms
  by (auto simp: BlockLeaseIfCurrent_def UnblockUID_def BlockUID_def UnleaseUID_def RemoveLeaseIfActor_def
      map_le_def ledger_inv_def intro!: ledger_inv_sub [OF assms])

lemma inv_TryLease:
  assumes "ledger_inv l" and "\<forall>a. ao = Some a \<longrightarrow> a < l_nextRef l"
  shows "ledger_inv (snd (TryLeaseUID u ao l))"
  using assms by (auto simp: TryLeaseUID_def ledger_inv_def split: option.splits)

lemma inv_mark_draining:
  "ledger_inv l \<Longrightarrow> \<forall>a \<in> set as. a < l_nextRef l \<Longrightarrow> ledger_inv (mark_draining as l)"
proof (induction as arbitrary: l)
  case (Cons a as)
  let ?l = "l\<lparr>l_draining := (l_draining l)(slot_of l a \<mapsto> a)\<rparr>"
  have "ledger_inv ?l" using Cons.prems by (auto simp: ledger_inv_def)
  with Cons.IH [of ?l] Cons.prems show ?case by (simp add: mark_draining_def)
qed (simp add: mark_draining_def)

lemma inv_reap_spec: "ledger_inv l \<Longrightarrow> ledger_inv (reap_spec b l)"
  by (rule ledger_inv_sub [of l])
    (auto simp: reap_spec_def Let_def map_le_def ledger_inv_def split: option.splits if_splits)

lemma inv_actor_index: "ledger_inv l \<Longrightarrow> (s, a) \<in> set (range_over ord (l_actors l)) \<Longrightarrow> a < l_nextRef l"
  by (auto simp: set_range_over ledger_inv_def)

lemma inv_add_actor:
  assumes "ledger_inv l"
  shows "ledger_inv (snd (add_actor m l))"
    and "fst (add_actor m l) = l_nextRef l" and "l_nextRef (snd (add_actor m l)) = Suc (l_nextRef l)"
    and "l_uidActors (snd (add_actor m l)) = l_uidActors l"
    and "l_blockedUID (snd (add_actor m l)) = l_blockedUID l"
    and "l_quarantine (snd (add_actor m l)) = l_quarantine l"
proof -
  let ?l = "snd (add_actor m l)" and ?r = "l_nextRef l" and ?s = "l_nextSlotID l + 1"
  show 1: "fst (add_actor m l) = ?r" "l_nextRef ?l = Suc ?r" "l_uidActors ?l = l_uidActors l"
      "l_blockedUID ?l = l_blockedUID l" "l_quarantine ?l = l_quarantine l"
    by (simp_all add: add_actor_def nextSlotLocked_def Let_def)
  have more: "l_actors ?l = (l_actors l)(?s \<mapsto> ?r)" "l_draining ?l = l_draining l" "l_nextSlotID ?l = ?s"
      "slot_of ?l = (slot_of l)(?r := ?s)"
    by (auto simp: add_actor_def nextSlotLocked_def Let_def slot_of_def NewActor_def)
  have old: "a < ?r \<Longrightarrow> slot_of l a < ?s" for a using assms by (auto simp: ledger_inv_def)
  have inj: "inj_on ((slot_of l)(?r := ?s)) {..<Suc ?r}"
    using assms old by (fastforce simp: ledger_inv_def inj_on_def less_Suc_eq)
  have "(\<forall>s a. l_actors l s = Some a \<longrightarrow> a < ?r \<and> slot_of l a = s)"
      "(\<forall>s a. l_draining l s = Some a \<longrightarrow> a < ?r \<and> slot_of l a = s)"
      "(\<forall>u a. l_uidActors l u = Some a \<longrightarrow> 0 < u \<and> a < ?r)"
    using assms by (auto simp: ledger_inv_def)
  then show "ledger_inv ?l"
    using assms inj old unfolding ledger_inv_def more 1
    by (auto simp: less_Suc_eq split: if_splits)
qed

lemma inv_add_actors:
  "ledger_inv l \<Longrightarrow> ledger_inv (add_actors k l) \<and> l_quarantine (add_actors k l) = l_quarantine l
     \<and> l_uidActors (add_actors k l) = l_uidActors l \<and> l_blockedUID (add_actors k l) = l_blockedUID l"
  by (induction k arbitrary: l) (auto simp: inv_add_actor)

lemma inv_lease_new:
  assumes "ledger_inv l" "0 < u" "u \<notin> l_blockedUID l" "a < l_nextRef l"
  shows "ledger_inv (l\<lparr>l_uidActors := (l_uidActors l)(u \<mapsto> a)\<rparr>)"
  using assms by (auto simp: ledger_inv_def)

lemma inv_reserve:
  assumes "ledger_inv l"
  shows "ledger_inv (snd (ReserveEmptyAutoActor oa u l))" "ledger_inv (snd (ReserveManualActor u l))"
proof -
  have "a < l_nextRef l" if "List.find P (range_over oa (l_actors l)) = Some (s, a)" for P s a
    using that inv_actor_index [OF assms] by (metis find_Some_iff nth_mem)
  then show "ledger_inv (snd (ReserveEmptyAutoActor oa u l))"
    using assms by (auto simp: ReserveEmptyAutoActor_def intro!: inv_lease_new split: option.splits)
  show "ledger_inv (snd (ReserveManualActor u l))"
    using assms inv_add_actor [OF assms, of ModeManual]
      inv_lease_new [of "snd (add_actor ModeManual l)" u "l_nextRef l"]
    by (auto simp: ReserveManualActor_def case_prod_beta split: option.splits)
qed

lemma inv_heap:
  assumes "ledger_inv l" and "a_slotID b = slot_of l a"
  shows "ledger_inv (l\<lparr>l_heap := (l_heap l)(a := b)\<rparr>)"
proof -
  have "slot_of (l\<lparr>l_heap := (l_heap l)(a := b)\<rparr>) = slot_of l"
    using assms(2) by (auto simp: slot_of_def)
  then show ?thesis using assms(1) by (simp add: ledger_inv_def)
qed

text \<open>\<open>fleet_inv\<close> adds that every actor of the heap is well-formed.\<close>

definition fleet_inv :: "Ledger \<Rightarrow> bool" where
  "fleet_inv l \<longleftrightarrow> ledger_inv l \<and> (\<forall>a < l_nextRef l. actor_inv (l_heap l a))"

lemma adopt_one_keeps: "fleet_inv (fst x) \<Longrightarrow> fleet_inv (fst (adopt_one e x))
    \<and> l_quarantine (fst (adopt_one e x)) = l_quarantine (fst x)
    \<and> (\<forall>a. a_done_closed (l_heap (fst (adopt_one e x)) a) = a_done_closed (l_heap (fst x) a))"
  by (auto simp: adopt_one_def SetMode_def slot_of_def fleet_inv_def actor_inv_def quiet_def unscheduled_def
      case_prod_beta intro!: inv_heap)

lemma adopt_keeps: "fleet_inv (fst x) \<Longrightarrow> fleet_inv (fst (fold adopt_one xs x))
    \<and> l_quarantine (fst (fold adopt_one xs x)) = l_quarantine (fst x)"
  by (induction xs arbitrary: x) (simp_all add: adopt_one_keeps)

lemma foldr_insert_for_stop_set: "set (insert_for_stop lt a xs) = insert a (set xs)"
  by (induction xs) auto

lemma set_SortActorsForStop [simp]: "set (SortActorsForStop l status xs) = set xs"
  by (induction xs) (simp_all add: SortActorsForStop_def foldr_insert_for_stop_set)

lemma inv_pointers:
  assumes "ledger_inv l"
  shows "\<forall>a \<in> set (AutoActorPointers oa l). a < l_nextRef l" "\<forall>a \<in> set (ActorPointers oa l). a < l_nextRef l"
  using inv_actor_index [OF assms] by (auto simp: AutoActorPointers_def ActorPointers_def)

lemma inv_drain:
  assumes "ledger_inv l"
  shows "ledger_inv (snd (BeginDrainAutoActors oa l))" "ledger_inv (snd (BeginDrainAllActors oa l))"
    "ledger_inv (snd (BeginDrainSomeAutoActors oa status limit f l))" "ledger_inv (snd (BeginDrainUID u l))"
proof -
  have pairs: "l_actors l s = Some a" if "map_of (filter P (range_over oa (l_actors l))) s = Some a" for P s a
    using map_of_SomeD [OF that] by (auto simp: set_range_over)
  show "ledger_inv (snd (BeginDrainAutoActors oa l))" "ledger_inv (snd (BeginDrainAllActors oa l))"
    using assms by (auto simp: BeginDrainAutoActors_def BeginDrainAllActors_def Let_def ledger_inv_def
        map_add_Some_iff dest!: pairs)
  show "ledger_inv (snd (BeginDrainSomeAutoActors oa status limit f l))"
    using assms inv_pointers [OF assms, of oa]
    by (auto simp: BeginDrainSomeAutoActors_def Let_def intro!: inv_mark_draining dest!: in_set_takeD)
  show "ledger_inv (snd (BeginDrainUID u l))"
    using assms by (auto simp: BeginDrainUID_def intro!: inv_mark_draining split: option.splits)
      (auto simp: ledger_inv_def)
qed

lemma mark_draining_same:
  "l_uidActors (mark_draining as l) = l_uidActors l \<and> l_nextRef (mark_draining as l) = l_nextRef l
   \<and> l_quarantine (mark_draining as l) = l_quarantine l \<and> l_blockedUID (mark_draining as l) = l_blockedUID l
   \<and> l_heap (mark_draining as l) = l_heap l \<and> l_actors (mark_draining as l) = l_actors l"
  by (induction as arbitrary: l) (simp_all add: mark_draining_def)

lemma inv_drain_uids: "ledger_inv l \<Longrightarrow> ledger_inv (snd (snd (drain_uids us seen l)))"
proof (induction us seen l rule: drain_uids.induct)
  case (2 u us seen l)
  have "ledger_inv (mark_draining [a] l)" if "l_uidActors l u = Some a" for a
    using that 2(5) by (intro inv_mark_draining) (auto simp: ledger_inv_def)
  with 2 show ?case by (auto simp: case_prod_beta split: option.splits)
qed simp

definition lease_of_pass :: "aref \<Rightarrow> (int \<rightharpoonup> aref) \<Rightarrow> int list \<Rightarrow> Ledger \<Rightarrow> Ledger" where
  "lease_of_pass a m ord l =
     (let gone = {u \<in> set ord. m u = Some a}; q = a_quarantined (actor_at l a)
      in l\<lparr>l_uidActors := (\<lambda>u. if u \<in> gone then None else l_uidActors l u),
           l_blockedUID := (if q then l_blockedUID l \<union> gone else l_blockedUID l - gone),
           l_quarantine := (if q then l_quarantine l \<union> gone else l_quarantine l)\<rparr>)"

lemma fold_reap_lease_of: "fold (reap_lease_of a) (range_over ord m) l = lease_of_pass a m ord l"
proof -
  have step: "lease_of_pass a m (u # ord) l = lease_of_pass a m ord (reap_lease_of a (u, x) l)"
    if "m u = Some x" for u x ord l
    using that by (cases "x = a"; cases "a_quarantined (actor_at l a)")
      (auto simp: lease_of_pass_def reap_lease_of_def Let_def intro!: index_cong ext)
  have "(\<lambda>x. x) (fold (reap_lease_of a) (range_over ord m) l) = lease_of_pass a m ord ((\<lambda>x. x) l)"
    by (rule fold_range_over_closed) (auto simp: step, auto simp: lease_of_pass_def Let_def intro!: index_cong ext)
  then show ?thesis .
qed

lemma inv_reapActorLocked:
  assumes "ledger_inv l"
  shows "ledger_inv (snd (reapActorLocked ou a l)) \<and> l_quarantine l \<subseteq> l_quarantine (snd (reapActorLocked ou a l))
    \<and> l_heap (snd (reapActorLocked ou a l)) = l_heap l \<and> l_nextRef (snd (reapActorLocked ou a l)) = l_nextRef l"
proof -
  define l1 where "l1 = l\<lparr>l_draining := (l_draining l)(slot_of l a := None)\<rparr>"
  define l2 where "l2 = (if l_actors l1 (slot_of l a) = Some a
     then l1\<lparr>l_actors := (l_actors l1)(slot_of l a := None)\<rparr> else l1)"
  have same: "l_quarantine l2 = l_quarantine l" "l_heap l2 = l_heap l" "l_nextRef l2 = l_nextRef l"
      "l_blockedUID l2 = l_blockedUID l" "l_uidActors l2 = l_uidActors l" "l_nextSlotID l2 = l_nextSlotID l"
      "l_draining l2 = (l_draining l)(slot_of l a := None)"
    by (simp_all add: l1_def l2_def)
  have "l_actors l2 = l_actors l \<or> l_actors l2 = (l_actors l)(slot_of l a := None)"
    by (simp add: l1_def l2_def)
  then have acts: "l_actors l2 \<subseteq>\<^sub>m l_actors l" by (metis map_le_refl upd_None_map_le)
  have l2: "ledger_inv l2"
    using assms by (intro ledger_inv_sub [OF assms acts]) (simp_all add: same ledger_inv_def upd_None_map_le)
  have pass: "ledger_inv (lease_of_pass a (l_uidActors l2) ou l2)"
  proof (rule ledger_inv_sub [OF l2])
    let ?p = "lease_of_pass a (l_uidActors l2) ou l2"
    show "l_uidActors ?p \<subseteq>\<^sub>m l_uidActors l2"
      by (auto simp: lease_of_pass_def Let_def map_le_def)
    show "l_quarantine ?p \<subseteq> l_blockedUID ?p"
      using l2 unfolding ledger_inv_def by (auto simp: lease_of_pass_def Let_def)
    show "l_quarantine ?p \<inter> dom (l_uidActors ?p) = {}"
      using l2 unfolding ledger_inv_def by (auto simp: lease_of_pass_def Let_def split: if_splits)
  qed (simp_all add: lease_of_pass_def Let_def)
  have "snd (reapActorLocked ou a l) = l \<or> snd (reapActorLocked ou a l) = lease_of_pass a (l_uidActors l2) ou l2"
    by (simp add: reapActorLocked_def Let_def fold_reap_lease_of l1_def l2_def)
  then show ?thesis
  proof
    assume "snd (reapActorLocked ou a l) = lease_of_pass a (l_uidActors l2) ou l2"
    with pass show ?thesis by (simp add: lease_of_pass_def Let_def same)
  qed (simp add: assms)
qed

lemma inv_ReapActor:
  assumes "ledger_inv l"
  shows "ledger_inv (snd (ReapActor ou ao l)) \<and> l_quarantine l \<subseteq> l_quarantine (snd (ReapActor ou ao l))
    \<and> l_heap (snd (ReapActor ou ao l)) = l_heap l \<and> l_nextRef (snd (ReapActor ou ao l)) = l_nextRef l"
  using assms inv_reapActorLocked [OF assms] by (auto simp: ReapActor_def split: option.splits)

lemma reapDraining_closed:
  assumes "iteration_order od (l_draining l)" "iteration_order ou (l_uidActors l)"
  shows "snd (reapDoneDrainingLocked od ou l) = reap_spec False l"
  using reapDone_closed [of False "[]" l od ou] assms by (simp add: reapDoneDrainingLocked_def)

end
