(* ===== verification/Fleet.thy ===== *)
theory Fleet
  imports Ledger_Invariant
begin

section \<open>The fleet: ledger operations and actor turns interleaved\<close>

text \<open>
  Every method of the ledger runs under its lock, and every actor runs its own loop, so an
  execution of the program is an interleaving of the steps below: ledger methods with any
  arguments and any iteration orders, messages put into an actor's mailboxes, stop requests, and
  turns of the actors' loops against an arbitrary runtime.
\<close>

inductive fleet_step :: "'r RobotRuntime \<Rightarrow> Ledger \<Rightarrow> Ledger \<Rightarrow> bool" for rt where
  step_lease: "\<forall>a. ao = Some a \<longrightarrow> a < l_nextRef l \<Longrightarrow> fleet_step rt l (snd (TryLeaseUID u ao l))"
| step_unlease: "fleet_step rt l (UnleaseUID u ao l)"
| step_remove: "fleet_step rt l (RemoveLeaseIfActor u ao l)"
| step_block_lease: "fleet_step rt l (snd (BlockLeaseIfCurrent u ao l))"
| step_block: "fleet_step rt l (BlockUID u l)"
| step_unblock: "fleet_step rt l (UnblockUID u l)"
| step_reserve_auto: "iteration_order oa (l_actors l) \<Longrightarrow> fleet_step rt l (snd (ReserveEmptyAutoActor oa u l))"
| step_reserve_manual: "fleet_step rt l (snd (ReserveManualActor u l))"
| step_adopt: "iteration_order oa (l_actors l) \<Longrightarrow> fleet_step rt l (snd (AdoptManualActors oa l))"
| step_ensure: "iteration_order od (l_draining l) \<Longrightarrow> iteration_order ou (l_uidActors l) \<Longrightarrow>
    fleet_step rt l (snd (EnsureAutoActorSlots od ou oa oa' rc target status l))"
| step_drain_auto: "iteration_order oa (l_actors l) \<Longrightarrow> fleet_step rt l (snd (BeginDrainAutoActors oa l))"
| step_drain_some: "iteration_order oa (l_actors l) \<Longrightarrow>
    fleet_step rt l (snd (BeginDrainSomeAutoActors oa status limit f l))"
| step_drain_all: "iteration_order oa (l_actors l) \<Longrightarrow> fleet_step rt l (snd (BeginDrainAllActors oa l))"
| step_drain_uid: "fleet_step rt l (snd (BeginDrainUID u l))"
| step_drain_uids: "fleet_step rt l (snd (BeginDrainUIDs us l))"
| step_reap_actor: "iteration_order ou (l_uidActors l) \<Longrightarrow> fleet_step rt l (snd (ReapActor ou ao l))"
| step_reap: "iteration_order oa (l_actors l) \<Longrightarrow> iteration_order od (l_draining l) \<Longrightarrow>
    iteration_order ou (l_uidActors l) \<Longrightarrow> fleet_step rt l (snd (ReapDoneDraining oa od ou l))"
| step_enqueue: "a < l_nextRef l \<Longrightarrow>
    fleet_step rt l (l\<lparr>l_heap := (l_heap l)(a := snd (enqueue cmd timeout reply (l_heap l a)))\<rparr>)"
| step_assign: "a < l_nextRef l \<Longrightarrow>
    fleet_step rt l (l\<lparr>l_heap := (l_heap l)(a := snd (assignAndWait u pick reply' (l_heap l a)))\<rparr>)"
| step_release: "a < l_nextRef l \<Longrightarrow>
    fleet_step rt l (l\<lparr>l_heap := (l_heap l)(a := snd (releaseAndWait pick reply' (l_heap l a)))\<rparr>)"
| step_stop: "a < l_nextRef l \<Longrightarrow>
    fleet_step rt l (l\<lparr>l_heap := (l_heap l)(a := requestStop (l_heap l a))\<rparr>)"
| step_turn_ctrl: "a < l_nextRef l \<Longrightarrow> \<not> a_done_closed (l_heap l a) \<Longrightarrow> a_ctrls (l_heap l a) = c # cs \<Longrightarrow>
    loopTurn fuel rt (EvControl c) ((l_heap l a)\<lparr>a_ctrls := cs\<rparr>, r) = (Ret (), b, r') \<Longrightarrow>
    fleet_step rt l (l\<lparr>l_heap := (l_heap l)(a := b)\<rparr>)"
| step_turn_cmd: "a < l_nextRef l \<Longrightarrow> \<not> a_done_closed (l_heap l a) \<Longrightarrow> a_cmds (l_heap l a) = q # qs \<Longrightarrow>
    loopTurn fuel rt (EvRequest q) ((l_heap l a)\<lparr>a_cmds := qs\<rparr>, r) = (Ret (), b, r') \<Longrightarrow>
    fleet_step rt l (l\<lparr>l_heap := (l_heap l)(a := b)\<rparr>)"
| step_turn_tick: "a < l_nextRef l \<Longrightarrow> \<not> a_done_closed (l_heap l a) \<Longrightarrow>
    loopTurn fuel rt (EvTick now) (l_heap l a, r) = (Ret (), b, r') \<Longrightarrow>
    fleet_step rt l (l\<lparr>l_heap := (l_heap l)(a := b)\<rparr>)"
| step_turn_stop: "a < l_nextRef l \<Longrightarrow> \<not> a_done_closed (l_heap l a) \<Longrightarrow> a_stop_closed (l_heap l a) \<Longrightarrow>
    loopTurn fuel rt EvStop (l_heap l a, r) = (Ret (), b, r') \<Longrightarrow>
    fleet_step rt l (l\<lparr>l_heap := (l_heap l)(a := b)\<rparr>)"

definition fleet_reachable :: "'r RobotRuntime \<Rightarrow> Ledger \<Rightarrow> bool" where
  "fleet_reachable rt l \<longleftrightarrow> (fleet_step rt)\<^sup>*\<^sup>* NewLedger l"

subsection \<open>Preservation\<close>

text \<open>The operations that do not touch the actors.\<close>

lemma same_heap_step:
  "fleet_inv l \<Longrightarrow> ledger_inv l' \<Longrightarrow> l_heap l' = l_heap l \<Longrightarrow> l_nextRef l' = l_nextRef l \<Longrightarrow> fleet_inv l'"
  by (simp add: fleet_inv_def)

lemma lease_ops_heap:
  "l_heap (snd (TryLeaseUID u ao l)) = l_heap l" "l_nextRef (snd (TryLeaseUID u ao l)) = l_nextRef l"
  "l_heap (UnleaseUID u ao l) = l_heap l" "l_nextRef (UnleaseUID u ao l) = l_nextRef l"
  "l_heap (RemoveLeaseIfActor u ao l) = l_heap l" "l_nextRef (RemoveLeaseIfActor u ao l) = l_nextRef l"
  "l_heap (snd (BlockLeaseIfCurrent u ao l)) = l_heap l" "l_nextRef (snd (BlockLeaseIfCurrent u ao l)) = l_nextRef l"
  "l_heap (BlockUID u l) = l_heap l" "l_nextRef (BlockUID u l) = l_nextRef l"
  "l_heap (UnblockUID u l) = l_heap l" "l_nextRef (UnblockUID u l) = l_nextRef l"
  "l_heap (snd (ReserveEmptyAutoActor oa u l)) = l_heap l" "l_nextRef (snd (ReserveEmptyAutoActor oa u l)) = l_nextRef l"
  "l_heap (reap_spec b l) = l_heap l" "l_nextRef (reap_spec b l) = l_nextRef l"
  by (auto simp: TryLeaseUID_def UnleaseUID_def RemoveLeaseIfActor_def BlockLeaseIfCurrent_def BlockUID_def
      UnblockUID_def ReserveEmptyAutoActor_def reap_spec_def Let_def split: option.splits)

lemma lease_ops_quarantine:
  "l_quarantine (snd (TryLeaseUID u ao l)) = l_quarantine l" "l_quarantine (UnleaseUID u ao l) = l_quarantine l"
  "l_quarantine (RemoveLeaseIfActor u ao l) = l_quarantine l"
  "l_quarantine (snd (BlockLeaseIfCurrent u ao l)) = l_quarantine l" "l_quarantine (BlockUID u l) = l_quarantine l"
  "l_quarantine (UnblockUID u l) = l_quarantine l"
  "l_quarantine (snd (ReserveEmptyAutoActor oa u l)) = l_quarantine l"
  "l_quarantine l \<subseteq> l_quarantine (reap_spec b l)"
  by (auto simp: TryLeaseUID_def UnleaseUID_def RemoveLeaseIfActor_def BlockLeaseIfCurrent_def BlockUID_def
      UnblockUID_def ReserveEmptyAutoActor_def reap_spec_def Let_def split: option.splits)

lemma drain_ops_same:
  "l_heap (snd (BeginDrainAutoActors oa l)) = l_heap l \<and> l_nextRef (snd (BeginDrainAutoActors oa l)) = l_nextRef l
   \<and> l_quarantine (snd (BeginDrainAutoActors oa l)) = l_quarantine l"
  "l_heap (snd (BeginDrainAllActors oa l)) = l_heap l \<and> l_nextRef (snd (BeginDrainAllActors oa l)) = l_nextRef l
   \<and> l_quarantine (snd (BeginDrainAllActors oa l)) = l_quarantine l"
  "l_heap (snd (BeginDrainSomeAutoActors oa st k f l)) = l_heap l
   \<and> l_nextRef (snd (BeginDrainSomeAutoActors oa st k f l)) = l_nextRef l
   \<and> l_quarantine (snd (BeginDrainSomeAutoActors oa st k f l)) = l_quarantine l"
  "l_heap (snd (BeginDrainUID u l)) = l_heap l \<and> l_nextRef (snd (BeginDrainUID u l)) = l_nextRef l
   \<and> l_quarantine (snd (BeginDrainUID u l)) = l_quarantine l"
  by (auto simp: BeginDrainAutoActors_def BeginDrainAllActors_def BeginDrainSomeAutoActors_def BeginDrainUID_def
      Let_def mark_draining_same split: option.splits)

lemma drain_uids_same:
  "l_heap (snd (snd (drain_uids us seen l))) = l_heap l \<and> l_nextRef (snd (snd (drain_uids us seen l))) = l_nextRef l
   \<and> l_quarantine (snd (snd (drain_uids us seen l))) = l_quarantine l"
proof (induction us seen l rule: drain_uids.induct)
  case (2 u us seen l)
  then show ?case using mark_draining_same by (auto simp: case_prod_beta split: option.splits)
qed simp

lemma fleet_add_actor: "fleet_inv l \<Longrightarrow> fleet_inv (snd (add_actor m l))"
  using NewActor_inv inv_add_actor(1,3) [of l m]
  by (auto simp: fleet_inv_def less_Suc_eq add_actor_def nextSlotLocked_def Let_def)

lemma fleet_add_actors: "fleet_inv l \<Longrightarrow> fleet_inv (add_actors k l)"
  by (induction k arbitrary: l) (simp_all add: fleet_add_actor)

lemma fleet_mark_draining:
  "fleet_inv l \<Longrightarrow> \<forall>a \<in> set as. a < l_nextRef l \<Longrightarrow> fleet_inv (mark_draining as l)"
  using mark_draining_same [of as l] by (auto simp: fleet_inv_def inv_mark_draining)

lemma fleet_reserve_manual:
  "fleet_inv l \<Longrightarrow> fleet_inv (snd (ReserveManualActor u l)) \<and> l_quarantine (snd (ReserveManualActor u l)) = l_quarantine l"
  using inv_reserve(2) [of l u] fleet_add_actor [of l ModeManual] inv_add_actor(6) [of l ModeManual]
  by (auto simp: fleet_inv_def ReserveManualActor_def case_prod_beta split: option.splits)

lemma fleet_ensure:
  assumes "fleet_inv l" "iteration_order od (l_draining l)" "iteration_order ou (l_uidActors l)"
  shows "fleet_inv (snd (EnsureAutoActorSlots od ou oa oa' rc target status l))
    \<and> l_quarantine l \<subseteq> l_quarantine (snd (EnsureAutoActorSlots od ou oa oa' rc target status l))"
proof -
  have reaped: "fleet_inv (reap_spec False l)"
    using assms(1) by (auto intro!: same_heap_step [of l] inv_reap_spec simp: lease_ops_heap fleet_inv_def)
  then have added: "fleet_inv (add_actors k (reap_spec False l))"
      "l_quarantine l \<subseteq> l_quarantine (add_actors k (reap_spec False l))" for k
    using inv_add_actors [of "reap_spec False l" k] lease_ops_quarantine(8) [of l False]
    by (simp_all add: fleet_add_actors fleet_inv_def [of "reap_spec False l"])
  have marked: "fleet_inv (mark_draining (take n (SortActorsForStop k st (AutoActorPointers oa' k))) k)"
    if "fleet_inv k" for n k st
    using that inv_pointers(1) [of k oa'] by (intro fleet_mark_draining) (auto simp: fleet_inv_def dest!: in_set_takeD)
  show ?thesis
    using added marked
    by (simp add: EnsureAutoActorSlots_def reapDraining_closed [OF assms(2,3)] Let_def mark_draining_same)
qed

lemma mailbox_inv:
  assumes "actor_inv a"
  shows "actor_inv (snd (enqueue cmd timeout reply a)) \<and> a_slotID (snd (enqueue cmd timeout reply a)) = a_slotID a"
    "actor_inv (snd (assignAndWait u pick reply' a)) \<and> a_slotID (snd (assignAndWait u pick reply' a)) = a_slotID a"
    "actor_inv (snd (releaseAndWait pick reply' a)) \<and> a_slotID (snd (releaseAndWait pick reply' a)) = a_slotID a"
    "actor_inv (requestStop a) \<and> a_slotID (requestStop a) = a_slotID a"
    "actor_inv (a\<lparr>a_ctrls := cs\<rparr>)" "actor_inv (a\<lparr>a_cmds := qs\<rparr>)"
  using assms
  by (auto simp: enqueue_def assignAndWait_def releaseAndWait_def controlAndWait_def requestStop_def Let_def
      actor_inv_def quiet_def unscheduled_def split: option.splits)

lemma fleet_heap:
  "fleet_inv l \<Longrightarrow> actor_inv b \<and> a_slotID b = a_slotID (l_heap l a) \<Longrightarrow>
     fleet_inv (l\<lparr>l_heap := (l_heap l)(a := b)\<rparr>)"
  by (auto simp: fleet_inv_def slot_of_def intro!: inv_heap)

lemma loop_turn_inv:
  "actor_inv a \<Longrightarrow> \<not> a_done_closed a \<Longrightarrow> loopTurn fuel rt ev (a, r) = (Ret (), b, r') \<Longrightarrow>
     actor_inv b \<and> a_slotID b = a_slotID a"
proof -
  assume *: "actor_inv a" "\<not> a_done_closed a" "loopTurn fuel rt ev (a, r) = (Ret (), b, r')"
  have ready: "ready a" using *(1,2) by (simp add: ready_def)
  show ?thesis
  proof (cases "ev = EvStop")
    case True
    with * wpD [OF wp_loopExit [OF ready, of rt], of r "Ret ()" b r'] show ?thesis by auto
  next
    case False
    with * wpD [OF wp_loopTurn [OF ready False], of fuel rt r "Ret ()" b r'] show ?thesis
      by (auto simp: turned_def ready_def)
  qed
qed

lemma fleet_same_heap:
  assumes "fleet_inv l"
  shows "(\<forall>a. ao = Some a \<longrightarrow> a < l_nextRef l) \<Longrightarrow> fleet_inv (snd (TryLeaseUID u ao l))"
    "fleet_inv (UnleaseUID u ao l)" "fleet_inv (RemoveLeaseIfActor u ao l)"
    "fleet_inv (snd (BlockLeaseIfCurrent u ao l))" "fleet_inv (BlockUID u l)" "fleet_inv (UnblockUID u l)"
    "fleet_inv (snd (ReserveEmptyAutoActor oa u l))" "fleet_inv (snd (BeginDrainAutoActors oa l))"
    "fleet_inv (snd (BeginDrainSomeAutoActors oa st k f l))" "fleet_inv (snd (BeginDrainAllActors oa l))"
    "fleet_inv (snd (BeginDrainUID u l))" "fleet_inv (snd (BeginDrainUIDs us l))"
    "fleet_inv (snd (ReapActor ou ao l))" "fleet_inv (reap_spec b l)"
proof -
  have l: "ledger_inv l" using assms by (simp add: fleet_inv_def)
  show "(\<forall>a. ao = Some a \<longrightarrow> a < l_nextRef l) \<Longrightarrow> fleet_inv (snd (TryLeaseUID u ao l))"
    by (rule same_heap_step [OF assms]) (simp_all add: inv_TryLease l lease_ops_heap)
  show "fleet_inv (snd (BeginDrainUIDs us l))"
    by (rule same_heap_step [OF assms])
      (simp_all add: BeginDrainUIDs_def case_prod_beta inv_drain_uids l drain_uids_same)
qed (rule same_heap_step [OF assms];
     simp add: fleet_inv_def [THEN iffD1, OF assms] inv_lease_ops inv_reserve inv_drain inv_ReapActor inv_reap_spec
       lease_ops_heap drain_ops_same)+

lemma fleet_step_keeps:
  "fleet_step rt l l' \<Longrightarrow> fleet_inv l \<Longrightarrow> fleet_inv l' \<and> l_quarantine l \<subseteq> l_quarantine l'"
proof (induction rule: fleet_step.induct)
  case (step_adopt oa l)
  then show ?case using adopt_keeps [of "(l, 0)"] by (simp add: AdoptManualActors_def case_prod_beta)
next
  case (step_turn_ctrl a l c cs fuel r b r')
  then have "actor_inv ((l_heap l a)\<lparr>a_ctrls := cs\<rparr>)" by (simp add: fleet_inv_def mailbox_inv)
  with step_turn_ctrl loop_turn_inv [OF this _ step_turn_ctrl.hyps(4)] show ?case by (simp add: fleet_heap)
next
  case (step_turn_cmd a l q qs fuel r b r')
  then have "actor_inv ((l_heap l a)\<lparr>a_cmds := qs\<rparr>)" by (simp add: fleet_inv_def mailbox_inv)
  with step_turn_cmd loop_turn_inv [OF this _ step_turn_cmd.hyps(4)] show ?case by (simp add: fleet_heap)
next
  case (step_turn_tick a l fuel now r b r')
  then show ?case using loop_turn_inv [OF _ _ step_turn_tick.hyps(3)] by (simp add: fleet_heap fleet_inv_def [of l])
next
  case (step_turn_stop a l fuel r b r')
  then show ?case using loop_turn_inv [OF _ _ step_turn_stop.hyps(4)] by (simp add: fleet_heap fleet_inv_def [of l])
next
  case (step_reap oa l od ou)
  then show ?case
    using reapDone_closed [of True oa l od ou]
    by (simp add: ReapDoneDraining_def fleet_same_heap lease_ops_quarantine)
next
  case (step_drain_uids l us)
  then show ?case by (simp add: fleet_same_heap) (simp add: BeginDrainUIDs_def case_prod_beta drain_uids_same)
next
  case (step_reap_actor ou l ao)
  then show ?case by (simp add: fleet_same_heap) (simp add: inv_ReapActor fleet_inv_def)
qed (simp_all add: fleet_same_heap lease_ops_quarantine drain_ops_same fleet_reserve_manual fleet_ensure
      fleet_heap mailbox_inv fleet_inv_def [THEN iffD1])

lemma NewLedger_inv: "fleet_inv NewLedger"
  by (auto simp: fleet_inv_def ledger_inv_def NewLedger_def)

lemma fleet_steps_keep:
  "(fleet_step rt)\<^sup>*\<^sup>* l l' \<Longrightarrow> fleet_inv l \<Longrightarrow> fleet_inv l' \<and> l_quarantine l \<subseteq> l_quarantine l'"
  by (induction rule: rtranclp_induct) (auto dest: fleet_step_keeps)



text \<open>
  Property C3. Quarantine is permanent. From the moment a UID is quarantined, no execution ever
  leases it again: in every later state it is quarantined and blocked, no actor holds a lease on it,
  and every attempt to lease it or to reserve an actor for it fails without changing the ledger.
\<close>

theorem quarantine_is_permanent:
  assumes "fleet_reachable rt l" and "u \<in> l_quarantine l" and "(fleet_step rt)\<^sup>*\<^sup>* l l'"
  shows "u \<in> l_quarantine l' \<and> u \<in> l_blockedUID l' \<and> l_uidActors l' u = None
    \<and> (\<forall>ao. TryLeaseUID u ao l' = (False, l'))
    \<and> (\<forall>oa. ReserveEmptyAutoActor oa u l' = ((None, False, False), l'))
    \<and> ReserveManualActor u l' = ((None, False, False), l')
    \<and> UnblockUID u l' = l'"
proof -
  have "fleet_inv l"
    using assms(1) fleet_steps_keep NewLedger_inv unfolding fleet_reachable_def by blast
  with fleet_steps_keep [OF assms(3)] assms(2) have l': "fleet_inv l'" and q: "u \<in> l_quarantine l'" by auto
  then have b: "u \<in> l_blockedUID l'" and none: "l_uidActors l' u = None"
    by (auto simp: fleet_inv_def ledger_inv_def)
  show ?thesis
    using q b none
    by (auto simp: TryLeaseUID_def ReserveEmptyAutoActor_def ReserveManualActor_def UnblockUID_def split: option.splits)
qed

text \<open>
  An execution that quarantines: attach UID 7, assign it, mark its actor for draining, stop it
  against a runtime that refuses every release, and reap.
\<close>

lemma quarantine_happens: "\<exists>l. fleet_reachable quiet_runtime l \<and> 7 \<in> l_quarantine l"
proof -
  define l1 where "l1 = snd (ReserveManualActor 7 NewLedger)"
  have l1: "l_actors l1 = [1 \<mapsto> 0]" "l_uidActors l1 = [7 \<mapsto> 0]" "l_draining l1 = Map.empty" "l_nextRef l1 = 1"
      "l_heap l1 0 = NewActor 1 ModeManual"
    by (simp_all add: l1_def ReserveManualActor_def NewLedger_def add_actor_def nextSlotLocked_def)
  define c where "c = \<lparr>ct_kind = controlAssign, ct_uid = 7\<rparr>"
  define a2 where "a2 = snd (assignAndWait 7 False None (l_heap l1 0))"
  define l2 where "l2 = l1\<lparr>l_heap := (l_heap l1)(0 := a2)\<rparr>"
  define a3 where "a3 = (resetForUID 7 (NewActor 1 ModeManual))\<lparr>a_releaseRequested := False\<rparr>"
  define l3 where "l3 = l2\<lparr>l_heap := (l_heap l2)(0 := a3)\<rparr>"
  define l4 where "l4 = snd (BeginDrainUID 7 l3)"
  define l5 where "l5 = l4\<lparr>l_heap := (l_heap l4)(0 := requestStop a3)\<rparr>"
  define a6 where "a6 = (quarantineCurrentUID ((requestStop a3)\<lparr>a_state := StateReleasing\<rparr>))\<lparr>a_done_closed := True\<rparr>"
  define l6 where "l6 = l5\<lparr>l_heap := (l_heap l5)(0 := a6)\<rparr>"
  have a2: "a2 = (NewActor 1 ModeManual)\<lparr>a_ctrls := [c]\<rparr>"
    by (simp add: a2_def l1 assignAndWait_def controlAndWait_def NewActor_def c_def)
  have a3: "a_uid a3 = 7" "IsZero (a_storeUntil a3)" "\<not> a_done_closed a3" "a_slotID a3 = 1"
    by (simp_all add: a3_def resetForUID_def clearAutoSchedule_def NewActor_def)
  have turn: "loopTurn 0 quiet_runtime (EvControl c) (a2\<lparr>a_ctrls := []\<rparr>, ()) = (Ret (), a3, ())"
    by (simp add: a2 a3_def c_def handleControlSafely_def handleControl_def recovering_def andThen_def reading_def
        updating_def ret_def Let_def NewActor_def)
  have l4: "l_draining l4 = [1 \<mapsto> 0]" "l_heap l4 0 = a3" "l_nextRef l4 = 1" "l_uidActors l4 = [7 \<mapsto> 0]"
    by (simp_all add: l4_def l3_def l2_def BeginDrainUID_def l1 mark_draining_def slot_of_def a3)
  have stop: "loopTurn 0 quiet_runtime EvStop (requestStop a3, ()) = (Ret (), a6, ())"
    using quiet_stop [of "requestStop a3"] a3
    by (simp add: loopExit_def recovering_def andThen_def updating_def a6_def requestStop_def)
  have l6: "l_draining l6 = [1 \<mapsto> 0]" "l_heap l6 0 = a6" "l_uidActors l6 = [7 \<mapsto> 0]" "iteration_order [7] (l_uidActors l6)"
    by (auto simp: l6_def l5_def l4 iteration_order_def)
  have a6: "a_done_closed a6" "a_quarantined a6" "a_slotID a6 = 1"
    by (simp_all add: a6_def quarantineCurrentUID_def requestStop_def Let_def a3)
  have "fleet_step quiet_runtime NewLedger l1" unfolding l1_def by (rule step_reserve_manual)
  moreover have "fleet_step quiet_runtime l1 l2" unfolding l2_def a2_def by (rule step_assign) (simp add: l1)
  moreover have "fleet_step quiet_runtime l2 l3" unfolding l3_def
    by (rule step_turn_ctrl [where c = c and cs = "[]" and fuel = 0 and r = "()" and r' = "()"])
      (simp_all add: l2_def l1 turn del: loopTurn.simps, simp_all add: a2 NewActor_def)
  moreover have "fleet_step quiet_runtime l3 l4" unfolding l4_def by (rule step_drain_uid)
  moreover have "fleet_step quiet_runtime l4 l5"
    using step_stop [of 0 l4 quiet_runtime] by (simp add: l4 l5_def)
  moreover have "fleet_step quiet_runtime l5 l6" unfolding l6_def
    by (rule step_turn_stop [of _ _ 0 _ "()" _ "()"]) (simp_all add: l5_def l4 stop del: loopTurn.simps, simp_all add: a3 requestStop_def)
  moreover have "fleet_step quiet_runtime l6 (snd (ReapActor [7] (Some 0) l6))"
    by (rule step_reap_actor) (rule l6)
  ultimately have "fleet_reachable quiet_runtime (snd (ReapActor [7] (Some 0) l6))"
    unfolding fleet_reachable_def by (meson converse_rtranclp_into_rtranclp rtranclp.rtrancl_refl)
  moreover have "7 \<in> l_quarantine (snd (ReapActor [7] (Some 0) l6))"
    by (simp add: ReapActor_def reapActorLocked_def fold_reap_lease_of lease_of_pass_def actorDone_def l6 a6
        is_draining_def slot_of_def Let_def)
  ultimately show ?thesis by blast
qed

theorem quarantine_is_permanent_witness:
  "\<exists>l. fleet_reachable quiet_runtime l \<and> 7 \<in> l_quarantine l
     \<and> TryLeaseUID 7 (Some 0) (BlockUID 9 l) = (False, BlockUID 9 l)"
proof -
  obtain l where l: "fleet_reachable quiet_runtime l" "7 \<in> l_quarantine l" using quarantine_happens by blast
  have "(fleet_step quiet_runtime)\<^sup>*\<^sup>* l (BlockUID 9 l)" by (rule r_into_rtranclp) (rule step_block)
  from quarantine_is_permanent [OF l this] l show ?thesis by blast
qed

end
