(* ===== verification/Ledger_Scaling.thy ===== *)
theory Ledger_Scaling
  imports Fleet "HOL-Library.Product_Lexorder"
begin

section \<open>Scaling the fleet up and down\<close>

text \<open>
  The order in which actors are stopped, the slots \<open>EnsureAutoActorSlots\<close> adds and drains, the
  floor of \<open>BeginDrainSomeAutoActors\<close>, and the counters of \<open>Counts\<close>.
\<close>

subsection \<open>The stop order\<close>

text \<open>The comparison of \<open>SortActorsForStop\<close> is the lexicographic order of this key.\<close>

definition stop_key :: "Ledger \<Rightarrow> (int \<rightharpoonup> RuntimeStatus) \<Rightarrow> aref \<Rightarrow> int \<times> int \<times> int" where
  "stop_key l status a =
     (StopPriority (a_uid (actor_at l a)) status, - a_uid (actor_at l a), - slot_of l a)"

lemma StopPriority_zero: "StopPriority u status = 0 \<longleftrightarrow> u \<le> 0"
  by (auto simp: StopPriority_def split: option.splits)

lemma stop_compare:
  fixes p q u v s t :: int
  assumes "0 \<le> u" "0 \<le> v" "p = 0 \<longleftrightarrow> u \<le> 0" "q = 0 \<longleftrightarrow> v \<le> 0"
  shows "(if p \<noteq> q then p < q
          else if u \<le> 0 \<or> v \<le> 0 then (if u \<noteq> v then u \<le> 0 else s > t)
          else if u \<noteq> v then u > v else s > t) \<longleftrightarrow> (p, - u, - s) < (q, - v, - t)"
proof (cases "p = q")
  case True
  with assms have "u \<le> 0 \<longleftrightarrow> v \<le> 0" by simp
  with True assms(1,2) show ?thesis by auto
qed auto

lemma stop_before_key:
  assumes "0 \<le> a_uid (actor_at l a)" "0 \<le> a_uid (actor_at l b)"
  shows "stop_before l status a b \<longleftrightarrow> stop_key l status a < stop_key l status b"
  unfolding stop_before_def stop_key_def Let_def
  by (rule stop_compare [OF assms]) (rule StopPriority_zero)+

lemma insert_for_stop_insort:
  assumes "0 \<le> a_uid (actor_at l a)" "\<forall>b \<in> set bs. 0 \<le> a_uid (actor_at l b)"
  shows "insert_for_stop (stop_before l status) a bs = insort_key (stop_key l status) a bs"
  using assms(2) by (induction bs) (auto simp: stop_before_key assms(1) not_le)

lemma SortActorsForStop_sort_key:
  "\<forall>a \<in> set as. 0 \<le> a_uid (actor_at l a) \<Longrightarrow>
     SortActorsForStop l status as = sort_key (stop_key l status) as"
proof (induction as)
  case (Cons a as)
  have "SortActorsForStop l status (a # as)
      = insert_for_stop (stop_before l status) a (SortActorsForStop l status as)"
    by (simp add: SortActorsForStop_def)
  with Cons show ?case by (simp add: insert_for_stop_insort)
qed (simp add: SortActorsForStop_def)

lemma stop_key_inj: "ledger_inv l \<Longrightarrow> inj_on (stop_key l status) {..<l_nextRef l}"
  by (auto simp: ledger_inv_def inj_on_def stop_key_def)

lemma sorted_key_strict:
  assumes "sorted (map k bs)" "distinct bs" "inj_on k (set bs)" "i < j" "j < length bs"
  shows "k (bs ! i) < (k (bs ! j) :: 'b :: linorder)"
proof -
  have "distinct (map k bs)" using assms(2,3) by (simp add: distinct_map)
  with assms(1) have "sorted_wrt (<) (map k bs)" by (simp add: strict_sorted_iff)
  from sorted_wrt_nth_less [OF this, of i j] assms(4,5) show ?thesis by simp
qed



subsection \<open>Draining down to a floor\<close>

lemma own_slot: "ledger_inv l \<Longrightarrow> l_actors l s = Some a \<Longrightarrow> slot_of l a = s"
  by (simp add: ledger_inv_def)

lemma auto_pointers_set:
  assumes "iteration_order oa (l_actors l)" "ledger_inv l"
  shows "set (AutoActorPointers oa l) =
       {a. l_actors l (slot_of l a) = Some a \<and> a_mode (actor_at l a) = ModeAuto \<and> \<not> is_draining l (slot_of l a) a}"
proof -
  have "set (AutoActorPointers oa l) =
      {a. \<exists>s. l_actors l s = Some a \<and> a_mode (actor_at l a) = ModeAuto \<and> \<not> is_draining l s a}"
    using in_range_over [OF assms(1)] by (fastforce simp: AutoActorPointers_def image_iff)
  then show ?thesis using own_slot [OF assms(2)] by auto
qed

lemma distinct_actors:
  assumes "distinct oa" and "ledger_inv l"
  shows "distinct (map snd (filter P (range_over oa (l_actors l))))"
proof -
  have "distinct (map fst (filter P (range_over oa (l_actors l))))"
    using distinct_range_over [OF assms(1)] by (rule distinct_map_filter)
  moreover have "x = y" if "x \<in> set (filter P (range_over oa (l_actors l)))"
      "y \<in> set (filter P (range_over oa (l_actors l)))" "snd x = snd y" for x y
  proof (rule prod_eqI)
    have "slot_of l (snd z) = fst z" if "z \<in> set (filter P (range_over oa (l_actors l)))" for z
      using that own_slot [OF assms(2), of "fst z" "snd z"] by (simp add: set_range_over case_prod_beta)
    with that show "fst x = fst y" by metis
  qed (rule that)
  ultimately show ?thesis by (auto simp: distinct_map inj_on_def)
qed

lemma distinct_auto_pointers:
  "iteration_order oa (l_actors l) \<Longrightarrow> ledger_inv l \<Longrightarrow> distinct (AutoActorPointers oa l)"
  unfolding AutoActorPointers_def by (rule distinct_actors) (simp_all add: iteration_order_def)

lemma mark_draining_is:
  assumes "ledger_inv l" "\<forall>a \<in> set as. a < l_nextRef l" "b < l_nextRef l"
  shows "is_draining (mark_draining as l) (slot_of l b) b \<longleftrightarrow> b \<in> set as \<or> is_draining l (slot_of l b) b"
  using assms
proof (induction as arbitrary: l)
  case (Cons a as)
  let ?l = "l\<lparr>l_draining := (l_draining l)(slot_of l a \<mapsto> a)\<rparr>"
  have inv: "ledger_inv ?l" using Cons.prems by (auto simp: ledger_inv_def)
  have "mark_draining (a # as) l = mark_draining as ?l" by (simp add: mark_draining_def)
  moreover have "slot_of l a = slot_of l b \<longleftrightarrow> a = b"
    using Cons.prems by (auto simp: ledger_inv_def inj_on_def)
  ultimately show ?case
    using Cons.IH [OF inv] Cons.prems by (auto simp: is_draining_def)
qed (simp add: mark_draining_def)

text \<open>After draining some of the automatic actors exactly the others are left.\<close>

lemma pointers_after_drain:
  assumes inv: "ledger_inv l" and ord: "iteration_order oa (l_actors l)" and sub: "set drained \<subseteq> set (AutoActorPointers oa l)"
  shows "ledger_inv (mark_draining drained l)"
    "set (AutoActorPointers oa (mark_draining drained l)) = set (AutoActorPointers oa l) - set drained"
proof -
  let ?l = "mark_draining drained l"
  have refs: "\<forall>a \<in> set (AutoActorPointers oa l). a < l_nextRef l" by (rule inv_pointers(1) [OF inv])
  show inv': "ledger_inv ?l" by (rule inv_mark_draining [OF inv]) (use refs sub in auto)
  have slots: "slot_of ?l = slot_of l" and same: "l_actors ?l = l_actors l" "l_heap ?l = l_heap l"
    using mark_draining_same [of drained l] by (simp_all add: slot_of_def fun_eq_iff)
  have "is_draining ?l (slot_of l b) b \<longleftrightarrow> b \<in> set drained \<or> is_draining l (slot_of l b) b" if "b < l_nextRef l" for b
    by (rule mark_draining_is [OF inv _ that]) (use sub refs in auto)
  moreover have "l_actors l (slot_of l b) = Some b \<Longrightarrow> b < l_nextRef l" for b using inv by (auto simp: ledger_inv_def)
  ultimately show "set (AutoActorPointers oa ?l) = set (AutoActorPointers oa l) - set drained"
    using auto_pointers_set [OF ord inv] auto_pointers_set [of oa ?l, OF _ inv'] ord same slots by auto
qed

text \<open>A prefix of the stop order stops before the rest.\<close>

lemma prefix_stops_first:
  assumes inv: "ledger_inv l" and uid: "\<forall>a \<in> set as. 0 \<le> a_uid (actor_at l a)" and refs: "\<forall>a \<in> set as. a < l_nextRef l"
    and ab: "a \<in> set (take k (SortActorsForStop l status as))" "b \<in> set as" "b \<notin> set (take k (SortActorsForStop l status as))"
  shows "stop_before l status a b"
proof -
  have sorted: "SortActorsForStop l status as = sort_key (stop_key l status) as" using uid by (rule SortActorsForStop_sort_key)
  have "b \<in> set (drop k (sort_key (stop_key l status) as))"
    using ab(2,3) append_take_drop_id [of k "sort_key (stop_key l status) as"] unfolding sorted by (metis Un_iff set_append set_sort)
  with ab(1) have "stop_key l status a \<le> stop_key l status b"
    using sorted_sort_key [of "stop_key l status" as]
    by (metis (no_types) append_take_drop_id map_append sorted sorted_append imageI set_map)
  moreover have "a \<in> set as" using ab(1) by (auto simp: sorted dest: in_set_takeD)
  moreover have "stop_key l status a \<noteq> stop_key l status b"
    using inj_onD [OF stop_key_inj [OF inv, of status], of a b] refs ab \<open>a \<in> set as\<close> by auto
  ultimately show ?thesis using uid ab(2) by (simp add: stop_before_key)
qed

text \<open>
  Property C22. Draining part of the fleet respects the floor: of \<open>n\<close> automatic actors that are not
  yet draining, \<open>BeginDrainSomeAutoActors\<close> marks exactly \<open>min limit (n - floor)\<close> (none when the
  limit is not positive or the floor is reached), it marks those that come first in
  the stop order, and afterwards exactly the others remain.
\<close>

theorem drain_some_respects_floor:
  assumes "fleet_inv l" and "iteration_order oa (l_actors l)"
    and "BeginDrainSomeAutoActors oa status limit f l = (drained, l')"
  shows "int (length drained) =
           (if limit \<le> 0 then 0 else max 0 (min limit (int (length (AutoActorPointers oa l)) - max 0 f)))
    \<and> distinct drained
    \<and> set (AutoActorPointers oa l') = set (AutoActorPointers oa l) - set drained
    \<and> min (int (length (AutoActorPointers oa l))) (max 0 f) \<le> int (length (AutoActorPointers oa l'))
    \<and> (\<forall>a \<in> set drained. \<forall>b \<in> set (AutoActorPointers oa l'). stop_before l status a b)"
proof -
  let ?as = "AutoActorPointers oa l" and ?sorted = "SortActorsForStop l status (AutoActorPointers oa l)"
  have inv: "ledger_inv l" using assms(1) by (simp add: fleet_inv_def)
  note d = distinct_auto_pointers [OF assms(2) inv]
  have refs: "\<forall>a \<in> set ?as. a < l_nextRef l" by (rule inv_pointers(1) [OF inv])
  have uid: "\<forall>a \<in> set ?as. 0 \<le> a_uid (actor_at l a)"
    using refs assms(1) by (auto simp: fleet_inv_def actor_inv_def)
  have sorted: "?sorted = sort_key (stop_key l status) ?as" using uid by (rule SortActorsForStop_sort_key)
  have len: "length ?sorted = length ?as" "distinct ?sorted" "set ?sorted = set ?as" using d by (simp_all add: sorted)
  define k where "k = (if limit \<le> 0 \<or> int (length ?as) \<le> max 0 f then 0
                       else nat (min limit (int (length ?as) - max 0 f)))"
  have res: "drained = take k ?sorted" "l' = mark_draining drained l"
    using assms(3) len(1) by (auto simp: BeginDrainSomeAutoActors_def Let_def k_def mark_draining_def min_def max_def split: if_splits)
  have k: "k \<le> length ?as" by (auto simp: k_def)
  have sub: "set drained \<subseteq> set ?as" using len(3) by (auto simp: res dest: in_set_takeD)
  have inv': "ledger_inv l'" and after: "set (AutoActorPointers oa l') = set ?as - set drained"
    unfolding res(2) using pointers_after_drain [OF inv assms(2) sub] by blast+
  have ord': "iteration_order oa (l_actors l')" using assms(2) mark_draining_same [of drained l] by (simp add: res(2))
  have dd: "distinct drained" using len(2) by (simp add: res)
  have rest: "length (AutoActorPointers oa l') = length ?as - length drained"
    using after sub distinct_card [OF distinct_auto_pointers [OF ord' inv']] distinct_card [OF d] distinct_card [OF dd]
    by (metis List.finite_set card_Diff_subset)
  have taken: "length drained = k" using k len by (simp add: res)
  have first: "stop_before l status a b" if "a \<in> set drained" "b \<in> set (AutoActorPointers oa l')" for a b
    using prefix_stops_first [OF inv uid refs, of a k status b] that after by (simp add: res(1))
  have count: "int (length drained) = (if limit \<le> 0 then 0 else max 0 (min limit (int (length ?as) - max 0 f)))"
    unfolding taken k_def by simp
  have "int (length (AutoActorPointers oa l')) = int (length ?as) - int k" using rest taken k by simp
  moreover have "int k \<le> int (length ?as) - min (int (length ?as)) (max 0 f)" by (auto simp: k_def)
  ultimately have floor: "min (int (length ?as)) (max 0 f) \<le> int (length (AutoActorPointers oa l'))" by simp
  show ?thesis using count dd after floor first by blast
qed

lemma three_actors:
  "fleet_inv (add_actors 3 NewLedger)"
  "l_actors (add_actors 3 NewLedger) = [1 \<mapsto> 0, 2 \<mapsto> 1, 3 \<mapsto> 2]"
  "iteration_order [3, 1, 2] (l_actors (add_actors 3 NewLedger))"
  "length (AutoActorPointers [3, 1, 2] (add_actors 3 NewLedger)) = 3"
proof -
  show "fleet_inv (add_actors 3 NewLedger)" by (rule fleet_add_actors [OF NewLedger_inv])
  show acts: "l_actors (add_actors 3 NewLedger) = [1 \<mapsto> 0, 2 \<mapsto> 1, 3 \<mapsto> 2]"
    by (simp add: numeral_3_eq_3 numeral_2_eq_2 add_actor_def nextSlotLocked_def NewLedger_def)
  show "iteration_order [3, 1, 2] (l_actors (add_actors 3 NewLedger))"
    by (auto simp: acts iteration_order_def)
  show "length (AutoActorPointers [3, 1, 2] (add_actors 3 NewLedger)) = 3"
    by (simp add: numeral_3_eq_3 add_actor_def nextSlotLocked_def NewLedger_def AutoActorPointers_def
        range_over_Cons is_draining_def NewActor_def)
qed

theorem drain_some_respects_floor_witness:
  "length (fst (BeginDrainSomeAutoActors [3, 1, 2] Map.empty 5 1 (add_actors 3 NewLedger))) = 2"
proof -
  obtain drained l' where run:
    "BeginDrainSomeAutoActors [3, 1, 2] Map.empty 5 1 (add_actors 3 NewLedger) = (drained, l')"
    by (metis prod.exhaust)
  from drain_some_respects_floor [OF three_actors(1,3) run] run show ?thesis
    by (simp add: three_actors(4))
qed

subsection \<open>Adding and draining slots\<close>

definition auto_slots :: "Ledger \<Rightarrow> int set" where
  "auto_slots l = {s. \<exists>a. l_actors l s = Some a \<and> a_mode (actor_at l a) = ModeAuto}"

lemma auto_count_card:
  assumes "iteration_order oa (l_actors l)"
  shows "auto_count oa l = int (card (auto_slots l))"
proof -
  have "length (filter (\<lambda>(slot, a). a_mode (actor_at l a) = ModeAuto) (range_over oa (l_actors l)))
      = card {s. \<exists>a. l_actors l s = Some a \<and> a_mode (actor_at l a) = ModeAuto}"
    by (rule length_filter_range_over [OF assms])
  then show ?thesis by (simp add: auto_count_def auto_slots_def)
qed

lemma add_actors_slots:
  "ledger_inv l \<Longrightarrow> finite (dom (l_actors l)) \<Longrightarrow>
     card (auto_slots (add_actors k l)) = card (auto_slots l) + k"
proof (induction k arbitrary: l)
  case (Suc k)
  let ?l = "snd (add_actor ModeAuto l)" and ?s = "l_nextSlotID l + 1"
  have acts: "l_actors ?l = (l_actors l)(?s \<mapsto> l_nextRef l)" "l_heap ?l = (l_heap l)(l_nextRef l := NewActor ?s ModeAuto)"
    by (simp_all add: add_actor_def nextSlotLocked_def Let_def)
  have old: "l_actors l s = Some a \<Longrightarrow> a < l_nextRef l \<and> s < ?s" for s a
  proof -
    assume a: "l_actors l s = Some a"
    then have "a < l_nextRef l" "slot_of l a = s" using Suc.prems(1) by (simp_all add: ledger_inv_def)
    moreover have "\<forall>a < l_nextRef l. slot_of l a \<le> l_nextSlotID l" using Suc.prems(1) by (simp add: ledger_inv_def)
    ultimately show ?thesis by fastforce
  qed
  have "auto_slots ?l = insert ?s (auto_slots l)"
  proof (intro equalityI subsetI)
    fix s assume "s \<in> auto_slots ?l"
    then show "s \<in> insert ?s (auto_slots l)"
      using old by (auto simp: auto_slots_def acts split: if_splits)
  next
    fix s assume "s \<in> insert ?s (auto_slots l)"
    then show "s \<in> auto_slots ?l"
      using old by (auto simp: auto_slots_def acts NewActor_def)
  qed
  moreover have "?s \<notin> auto_slots l" using old by (fastforce simp: auto_slots_def)
  moreover have "finite (auto_slots l)"
    using Suc.prems(2) by (rule rev_finite_subset) (auto simp: auto_slots_def)
  ultimately have "card (auto_slots ?l) = Suc (card (auto_slots l))" by simp
  moreover have "finite (dom (l_actors ?l))" using Suc.prems(2) by (simp add: acts)
  ultimately show ?case using Suc.IH [of ?l] inv_add_actor(1) [OF Suc.prems(1)] by simp
qed simp

lemma slots_to_add_bounds:
  "0 \<le> slots_to_add rc t c p" "slots_to_add rc t c p \<le> max 0 (t - c)" "slots_to_add rc t c p \<le> 120"
  "PendingActorLimit t rc \<le> p \<Longrightarrow> slots_to_add rc t c p = 0"
  using ScaleUpBatch_range [of rc] by (auto simp: slots_to_add_def Let_def)

lemma slots_to_drain_bounds:
  assumes "t < c" "0 \<le> n"
  shows "0 \<le> slots_to_drain c t n" "slots_to_drain c t n \<le> c - t" "slots_to_drain c t n \<le> 50"
    "slots_to_drain c t n \<le> n" "0 < n \<Longrightarrow> 0 < slots_to_drain c t n"
  using assms ScaleDownBatch_bounds [OF assms(1)] by (auto simp: slots_to_drain_def Let_def)

lemma drained_marks:
  assumes inv: "ledger_inv l" and ord: "iteration_order oa (l_actors l)" and sub: "set drained \<subseteq> set (AutoActorPointers oa l)" and a: "a \<in> set drained"
  shows "a_mode (actor_at l a) = ModeAuto \<and> l_actors l (slot_of l a) = Some a
    \<and> \<not> is_draining l (slot_of l a) a \<and> is_draining (mark_draining drained l) (slot_of l a) a"
proof -
  have "is_draining (mark_draining drained l) (slot_of l a) a"
    by (subst mark_draining_is [OF inv]) (use inv_pointers(1) [OF inv, of oa] sub a in auto)
  with sub a auto_pointers_set [OF ord inv] show ?thesis by auto
qed


lemma three_actors_reaped: "reap_spec False (add_actors 3 NewLedger) = add_actors 3 NewLedger"
proof -
  have "l_draining (add_actors 3 NewLedger) = Map.empty" "l_uidActors (add_actors 3 NewLedger) = Map.empty"
    by (simp_all add: numeral_3_eq_3 add_actor_def nextSlotLocked_def NewLedger_def)
  then show ?thesis by (simp add: reap_spec_def is_draining_def option.case_eq_if cong: if_cong)
qed


end
