(* ===== verification/Command_Queue.thy ===== *)
theory Command_Queue
  imports Prelude "HOL-Library.Sublist"
begin

section \<open>The contract of the per-UID command queues\<close>

text \<open>
  The program queues robot commands twice: the runtime service (\<open>protocol/dnfruntime/queue.go\<close>)
  has one queue for the whole fleet, and the protocol task (\<open>protocol/dnf/task_queue.go\<close>)
  one queue per shard of UIDs. Both follow one discipline, which this theory states as a locale:
  a command that ends a session clears what is queued for its UID, the newest move replaces
  a queued one unless a lifecycle command lies between, overflow evicts the oldest command that is
  not a lifecycle command, and a refused command changes nothing but what it was to clear. The lemmas of
  the locale follow runs of submissions and deliveries; both queues interpret it.
\<close>

subsection \<open>Scans and traces\<close>

text \<open>
  \<open>for i := len(q) - 1; i >= 0; i--\<close>: the test answers \<open>None\<close> to continue,
  \<open>Some True\<close> to stop at the index and \<open>Some False\<close> to give up.
\<close>

fun find_back :: "('a \<Rightarrow> bool option) \<Rightarrow> nat \<Rightarrow> 'a list \<Rightarrow> nat option" where
  "find_back t 0 q = None"
| "find_back t (Suc i) q =
     (case t (q ! i) of None \<Rightarrow> find_back t i q | Some True \<Rightarrow> Some i | Some False \<Rightarrow> None)"

text \<open>What a queue holds for one UID, each command seen through \<open>view\<close>.\<close>

abbreviation trace :: "('m \<Rightarrow> 'v option) \<Rightarrow> 'm list \<Rightarrow> 'v list" where
  "trace view q \<equiv> List.map_filter view q"

text \<open>The moves queued after the last lifecycle command.\<close>

definition count_move :: "('v \<Rightarrow> bool) \<Rightarrow> ('v \<Rightarrow> bool) \<Rightarrow> 'v \<Rightarrow> nat \<Rightarrow> nat" where
  "count_move lifecycle move v n = (if lifecycle v then 0 else if move v then Suc n else n)"

definition pending_moves :: "('v \<Rightarrow> bool) \<Rightarrow> ('v \<Rightarrow> bool) \<Rightarrow> 'v list \<Rightarrow> nat" where
  "pending_moves lifecycle move tr = fold (count_move lifecycle move) tr 0"

text \<open>How a scan for a replaceable move treats a command of the UID.\<close>

definition classify :: "('v \<Rightarrow> bool) \<Rightarrow> ('v \<Rightarrow> bool) \<Rightarrow> 'v option \<Rightarrow> bool option" where
  "classify lifecycle move vo =
     (case vo of None \<Rightarrow> None
      | Some v \<Rightarrow> if lifecycle v then Some False else if move v then Some True else None)"

declare List.map_filter_simps [simp del]

lemma map_filter_Nil [simp]: "List.map_filter f [] = []"
  by (simp add: List.map_filter_def)

lemma map_filter_append [simp]:
  "List.map_filter f (xs @ ys) = List.map_filter f xs @ List.map_filter f ys"
  by (simp add: List.map_filter_def)

lemma map_filter_singleton: "List.map_filter f [x] = (case f x of None \<Rightarrow> [] | Some v \<Rightarrow> [v])"
  by (simp add: List.map_filter_def split: option.splits)

lemma map_filter_Cons: "List.map_filter f (x # xs) = (case f x of None \<Rightarrow> [] | Some v \<Rightarrow> [v]) @ List.map_filter f xs"
  by (simp add: List.map_filter_def split: option.splits)

lemma map_filter_cong_filter:
  "(\<And>x. x \<in> set xs \<Longrightarrow> \<not> P x \<Longrightarrow> f x = None) \<Longrightarrow> List.map_filter f (filter P xs) = List.map_filter f xs"
  by (induction xs) (auto simp: map_filter_Cons split: option.splits)

lemma map_filter_None: "(\<And>x. x \<in> set xs \<Longrightarrow> f x = None) \<Longrightarrow> List.map_filter f xs = []"
  by (induction xs) (simp_all add: map_filter_Cons)

lemma split_at: "i < length q \<Longrightarrow> q = take i q @ q ! i # drop (Suc i) q"
  by (rule id_take_nth_drop)

lemma map_filter_remove_at:
  "List.map_filter f (remove_at i q) = List.map_filter f (take i q) @ List.map_filter f (drop (Suc i) q)"
  by (simp add: remove_at_def)

lemma map_filter_split:
  "i < length q \<Longrightarrow> List.map_filter f q =
     List.map_filter f (take i q) @ List.map_filter f [q ! i] @ List.map_filter f (drop (Suc i) q)"
  by (metis append_Cons append_Nil map_filter_append split_at)

lemma map_filter_update:
  "i < length q \<Longrightarrow> List.map_filter f (q[i := x]) =
     List.map_filter f (take i q) @ List.map_filter f [x] @ List.map_filter f (drop (Suc i) q)"
  by (metis append_Cons append_Nil map_filter_append upd_conv_take_nth_drop)

lemma find_back_Some:
  "find_back t n q = Some i \<Longrightarrow> i < n \<and> t (q ! i) = Some True"
  by (induction n) (auto split: option.splits bool.splits simp: less_Suc_eq)

lemma count_move_mono: "m \<le> n \<Longrightarrow> count_move lf mv v m \<le> count_move lf mv v n"
  by (simp add: count_move_def)

lemma fold_count_move_mono: "m \<le> n \<Longrightarrow> fold (count_move lf mv) tr m \<le> fold (count_move lf mv) tr n"
  by (induction tr arbitrary: m n) (simp_all add: count_move_mono)

lemma pending_moves_drop:
  "\<not> lf v \<Longrightarrow> pending_moves lf mv (a @ b) \<le> pending_moves lf mv (a @ v # b)"
  by (simp add: pending_moves_def fold_count_move_mono count_move_def)

lemma pending_moves_replace:
  "\<not> lf v \<Longrightarrow> \<not> lf w \<Longrightarrow> mv v = mv w \<Longrightarrow>
     pending_moves lf mv (a @ v # b) = pending_moves lf mv (a @ w # b)"
  by (simp add: pending_moves_def count_move_def)

lemma pending_moves_snoc: "pending_moves lf mv (a @ [v]) = count_move lf mv v (pending_moves lf mv a)"
  by (simp add: pending_moves_def)

lemma pending_moves_Nil [simp]: "pending_moves lf mv [] = 0"
  by (simp add: pending_moves_def)

lemma pending_moves_suffix: "pending_moves lf mv b \<le> pending_moves lf mv (a @ b)"
  by (simp add: pending_moves_def fold_count_move_mono)

lemma find_back_None_pending:
  assumes "find_back (\<lambda>m. classify lf mv (view m)) n q = None" and "n \<le> length q"
  shows "pending_moves lf mv (trace view (take n q)) = 0"
  using assms
proof (induction n)
  case (Suc n)
  then show ?case
    by (auto simp: take_Suc_conv_app_nth map_filter_singleton classify_def pending_moves_snoc
        count_move_def split: option.splits if_splits)
qed simp

text \<open>What eviction, replacement and appending do to the trace of a UID.\<close>

lemma evict_trace:
  assumes "i < length q" and "\<And>v. view (q ! i) = Some v \<Longrightarrow> \<not> lf v"
  shows "filter lf (trace view (remove_at i q)) = filter lf (trace view q)"
    and "set (trace view (remove_at i q)) \<subseteq> set (trace view q)"
    and "pending_moves lf mv (trace view (remove_at i q)) \<le> pending_moves lf mv (trace view q)"
  using assms pending_moves_drop [of lf "the (view (q ! i))" mv]
  by (auto simp: map_filter_remove_at map_filter_split [of i q] map_filter_singleton split: option.splits)

lemma replace_trace:
  assumes "i < length q" and "view (q ! i) = Some v" and "view m = Some w"
    and "\<not> lf v" and "\<not> lf w" and "mv v" and "mv w"
  shows "filter lf (trace view (q[i := m])) = filter lf (trace view q)"
    and "set (trace view (q[i := m])) \<subseteq> insert w (set (trace view q))"
    and "w \<in> set (trace view (q[i := m]))"
    and "pending_moves lf mv (trace view (q[i := m])) = pending_moves lf mv (trace view q)"
  using assms pending_moves_replace [of lf v w mv]
  by (auto simp: map_filter_update map_filter_split [of i q] map_filter_singleton)

lemma replace_other:
  assumes "i < length q" and "view (q ! i) = None" and "view m = None"
  shows "trace view (q[i := m]) = trace view q"
  using assms by (simp add: map_filter_update map_filter_split [of i q] map_filter_singleton)

lemma append_moves:
  assumes "pending_moves lf mv (trace view q) \<le> 1"
    and "\<And>v. view m = Some v \<Longrightarrow> mv v \<Longrightarrow> \<not> lf v \<Longrightarrow> pending_moves lf mv (trace view q) = 0"
  shows "pending_moves lf mv (trace view (q @ [m])) \<le> 1"
  using assms by (cases "view m") (auto simp: map_filter_singleton pending_moves_snoc count_move_def)

subsection \<open>Runs of a queue\<close>

datatype ('e, 'm) queue_event = Submit 'e 'm | Deliver

text \<open>
  A run of submissions and deliveries: what the consumer received, what the producers were
  told was accepted, and the queue that remains.
\<close>

fun queue_run ::
    "('e \<Rightarrow> 'm \<Rightarrow> 's \<Rightarrow> bool \<times> 's) \<Rightarrow> ('s \<Rightarrow> 'm list \<times> 's) \<Rightarrow> ('e, 'm) queue_event list \<Rightarrow> 's \<Rightarrow>
     'm list \<times> 'm list \<times> 's" where
  "queue_run push pull [] s = ([], [], s)"
| "queue_run push pull (Submit e m # evs) s =
     (let (ok, s1) = push e m s; (d, a, s2) = queue_run push pull evs s1
      in (d, (if ok then m # a else a), s2))"
| "queue_run push pull (Deliver # evs) s =
     (let (ms, s1) = pull s; (d, a, s2) = queue_run push pull evs s1 in (ms @ d, a, s2))"

subsection \<open>The contract\<close>

locale uid_queue =
  fixes good :: "'s \<Rightarrow> bool"
    and contents :: "'s \<Rightarrow> 'm list"
    and push :: "'e \<Rightarrow> 'm \<Rightarrow> 's \<Rightarrow> bool \<times> 's"
    and pull :: "'s \<Rightarrow> 'm list \<times> 's"
    and view :: "int \<Rightarrow> 'm \<Rightarrow> 'v option"
    and clears :: "'m \<Rightarrow> int \<Rightarrow> bool"
    and lifecycle :: "'v \<Rightarrow> bool"
    and move :: "'v \<Rightarrow> bool"
    and capacity :: nat
  assumes good_bounded: "good s \<Longrightarrow> length (contents s) \<le> capacity"
    and push_good: "good s \<Longrightarrow> good (snd (push e m s))"
    and push_refused: "good s \<Longrightarrow> push e m s = (False, s') \<Longrightarrow> 0 < u \<Longrightarrow>
      trace (view u) (contents s') = trace (view u) (contents s)
      \<or> clears m u \<and> trace (view u) (contents s') = []"
    and push_clears: "good s \<Longrightarrow> push e m s = (True, s') \<Longrightarrow> 0 < u \<Longrightarrow> clears m u \<Longrightarrow>
      trace (view u) (contents s') = trace (view u) [m]"
    and push_lifecycle: "good s \<Longrightarrow> push e m s = (True, s') \<Longrightarrow> 0 < u \<Longrightarrow> \<not> clears m u \<Longrightarrow>
      filter lifecycle (trace (view u) (contents s')) =
        filter lifecycle (trace (view u) (contents s)) @ filter lifecycle (trace (view u) [m])"
    and push_origin: "good s \<Longrightarrow> push e m s = (True, s') \<Longrightarrow> 0 < u \<Longrightarrow> \<not> clears m u \<Longrightarrow>
      set (trace (view u) (contents s')) \<subseteq> set (trace (view u) (contents s)) \<union> set (trace (view u) [m])"
    and push_present: "good s \<Longrightarrow> push e m s = (True, s') \<Longrightarrow> 0 < u \<Longrightarrow>
      set (trace (view u) [m]) \<subseteq> set (trace (view u) (contents s'))"
    and push_moves: "good s \<Longrightarrow> push e m s = (True, s') \<Longrightarrow> 0 < u \<Longrightarrow>
      pending_moves lifecycle move (trace (view u) (contents s)) \<le> 1 \<Longrightarrow>
      pending_moves lifecycle move (trace (view u) (contents s')) \<le> 1"
    and pull_good: "good s \<Longrightarrow> good (snd (pull s))"
    and pull_prefix: "good s \<Longrightarrow> fst (pull s) @ contents (snd (pull s)) = contents s"
begin

abbreviation run :: "('e, 'm) queue_event list \<Rightarrow> 's \<Rightarrow> 'm list \<times> 'm list \<times> 's" where
  "run \<equiv> queue_run push pull"

lemma run_good: "good s \<Longrightarrow> good (snd (snd (run evs s)))"
proof (induction evs arbitrary: s)
  case (Cons ev evs)
  then show ?case
    using push_good pull_good by (cases ev) (auto simp: Let_def split_beta)
qed simp

lemma run_bounded: "good s \<Longrightarrow> length (contents (snd (snd (run evs s)))) \<le> capacity"
  by (rule good_bounded [OF run_good])

text \<open>What a run delivers for a UID was pending or accepted.\<close>

lemma run_origin:
  assumes "good s" and "0 < u" and "run evs s = (d, a, s')"
  shows "set (trace (view u) (d @ contents s')) \<subseteq> set (trace (view u) (contents s @ a))"
  using assms
proof (induction evs arbitrary: s d a)
  case (Cons ev evs)
  show ?case
  proof (cases ev)
    case (Submit e m)
    obtain ok s1 where p: "push e m s = (ok, s1)" by fastforce
    obtain a1 where r: "run evs s1 = (d, a1, s')" and a: "a = (if ok then m # a1 else a1)"
      using Cons.prems(3) by (auto simp: Submit p Let_def split_beta prod_eq_iff)
    have g: "good s1" using push_good [OF Cons.prems(1), of e m] p by simp
    have "set (trace (view u) (contents s1)) \<subseteq> set (trace (view u) (contents s @ (if ok then [m] else [])))"
      using push_refused [OF Cons.prems(1), of e m s1 u] push_clears [OF Cons.prems(1), of e m s1 u]
        push_origin [OF Cons.prems(1), of e m s1 u] Cons.prems(2) p
      by (cases ok; cases "clears m u") auto
    moreover have "trace (view u) a = trace (view u) (if ok then [m] else []) @ trace (view u) a1"
      using map_filter_append [of "view u" "[m]" a1] by (simp add: a)
    ultimately show ?thesis using Cons.IH [OF g Cons.prems(2) r] by auto
  next
    case Deliver
    obtain ms s1 where p: "pull s = (ms, s1)" by fastforce
    obtain d1 where r: "run evs s1 = (d1, a, s')" and d: "d = ms @ d1"
      using Cons.prems(3) by (auto simp: Deliver p Let_def split_beta prod_eq_iff)
    have g: "good s1" using pull_good [OF Cons.prems(1)] p by simp
    have "contents s = ms @ contents s1" using pull_prefix [OF Cons.prems(1)] p by simp
    with Cons.IH [OF g Cons.prems(2) r] show ?thesis by (auto simp: d)
  qed
qed simp

text \<open>
  Lifecycle commands of a UID reach the consumer in the order of their acceptance, and none
  is lost while no command that clears the UID is submitted.
\<close>

lemma run_lifecycle:
  assumes "good s" and "0 < u" and "run evs s = (d, a, s')"
  shows "subseq (filter lifecycle (trace (view u) (d @ contents s')))
           (filter lifecycle (trace (view u) (contents s @ a)))
    \<and> ((\<forall>e m. Submit e m \<in> set evs \<longrightarrow> \<not> clears m u) \<longrightarrow>
         filter lifecycle (trace (view u) (d @ contents s')) =
         filter lifecycle (trace (view u) (contents s @ a)))"
  using assms
proof (induction evs arbitrary: s d a)
  case (Cons ev evs)
  show ?case
  proof (cases ev)
    case (Submit e m)
    obtain ok s1 where p: "push e m s = (ok, s1)" by fastforce
    obtain a1 where r: "run evs s1 = (d, a1, s')" and a: "a = (if ok then m # a1 else a1)"
      using Cons.prems(3) by (auto simp: Submit p Let_def split_beta prod_eq_iff)
    have g: "good s1" using push_good [OF Cons.prems(1), of e m] p by simp
    note IH = Cons.IH [OF g Cons.prems(2) r]
    let ?lc = "\<lambda>q. filter lifecycle (trace (view u) q)"
    consider (refused) "\<not> ok" | (cleared) ok "clears m u" | (kept) ok "\<not> clears m u" by blast
    then show ?thesis
    proof cases
      case refused
      then have "trace (view u) (contents s1) = trace (view u) (contents s)
          \<or> clears m u \<and> trace (view u) (contents s1) = []"
        using push_refused [OF Cons.prems(1), of e m s1 u] p Cons.prems(2) by simp
      with IH refused a Submit show ?thesis by (auto simp: list_emb_append2)
    next
      case cleared
      have "?lc (contents s1) = ?lc [m]"
        using push_clears [OF Cons.prems(1) _ Cons.prems(2), of e m s1] p cleared by simp
      with IH have "subseq (?lc (d @ contents s')) (?lc [m] @ ?lc a1)" by simp
      moreover have "?lc (contents s @ a) = ?lc (contents s) @ ?lc [m] @ ?lc a1"
        using cleared map_filter_append [of "view u" "[m]" a1] by (simp add: a)
      ultimately have "subseq (?lc (d @ contents s')) (?lc (contents s @ a))"
        by (metis list_emb_append2)
      with cleared Submit show ?thesis by (auto simp: a)
    next
      case kept
      have "?lc (contents s1) = ?lc (contents s) @ ?lc [m]"
        using push_lifecycle [OF Cons.prems(1) _ Cons.prems(2), of e m s1] p kept by simp
      moreover have "?lc a = ?lc [m] @ ?lc a1"
        using kept map_filter_append [of "view u" "[m]" a1] by (simp add: a)
      ultimately show ?thesis using IH kept Submit by (simp add: a)
    qed
  next
    case Deliver
    obtain ms s1 where p: "pull s = (ms, s1)" by fastforce
    obtain d1 where r: "run evs s1 = (d1, a, s')" and d: "d = ms @ d1"
      using Cons.prems(3) by (auto simp: Deliver p Let_def split_beta prod_eq_iff)
    have g: "good s1" using pull_good [OF Cons.prems(1)] p by simp
    have "contents s = ms @ contents s1" using pull_prefix [OF Cons.prems(1)] p by simp
    with Cons.IH [OF g Cons.prems(2) r] show ?thesis by (simp add: d Deliver list_emb_append_mono)
  qed
qed simp

text \<open>At most one move of a UID waits behind its last lifecycle command.\<close>

lemma run_moves:
  assumes "good s" and "0 < u" and "pending_moves lifecycle move (trace (view u) (contents s)) \<le> 1"
  shows "pending_moves lifecycle move (trace (view u) (contents (snd (snd (run evs s))))) \<le> 1"
  using assms
proof (induction evs arbitrary: s)
  case (Cons ev evs)
  show ?case
  proof (cases ev)
    case (Submit e m)
    obtain ok s1 where p: "push e m s = (ok, s1)" by fastforce
    have g: "good s1" using push_good [OF Cons.prems(1), of e m] p by simp
    have "pending_moves lifecycle move (trace (view u) (contents s1)) \<le> 1"
      using push_moves [OF Cons.prems(1), of e m s1] push_refused [OF Cons.prems(1), of e m s1 u] p Cons.prems(2,3)
      by (cases ok) auto
    with Cons.IH [OF g Cons.prems(2)] show ?thesis by (simp add: Submit p Let_def split_beta)
  next
    case Deliver
    obtain ms s1 where p: "pull s = (ms, s1)" by fastforce
    have g: "good s1" using pull_good [OF Cons.prems(1)] p by simp
    have "contents s = ms @ contents s1" using pull_prefix [OF Cons.prems(1)] p by simp
    with Cons.prems(3) have "pending_moves lifecycle move (trace (view u) (contents s1)) \<le> 1"
      using pending_moves_suffix [of lifecycle move "trace (view u) (contents s1)" "trace (view u) ms"] by simp
    with Cons.IH [OF g Cons.prems(2)] show ?thesis by (simp add: Deliver p Let_def split_beta)
  qed
qed simp

text \<open>
  Once a command that clears the UID is accepted, only that command and what is accepted after
  it can still reach the consumer for that UID.
\<close>

lemma nothing_stale:
  assumes "good s" and "0 < u" and "clears m u" and "push e m s = (True, s1)"
    and "run evs s1 = (d, a, s')"
  shows "set (trace (view u) (d @ contents s')) \<subseteq> set (trace (view u) (m # a))"
proof -
  have "good s1" using push_good [OF assms(1), of e m] assms(4) by simp
  from run_origin [OF this assms(2,5)] push_clears [OF assms(1,4,2,3)] show ?thesis
    using map_filter_append [of "view u" "[m]" a] by simp
qed

end

end
