(* ===== verification/Message_Queue.thy ===== *)
theory Message_Queue
  imports Command_Queue
begin

section \<open>The sharded message queue of the protocol task\<close>

text \<open>
  \<open>protocol/dnf/task_queue.go\<close>: messages for the robots, sharded by UID. A shard is a slice
  with a head index; the entries before the head are consumed and zeroed, and the slice is compacted
  now and then. The capacity of a Go slice is chosen by the runtime, so the one test that reads
  it (\<open>len(s.queue) < cap(s.queue)\<close>) is an argument of the operations, \<open>full\<close>. The
  main result of this theory is that \<open>TryAddMessage\<close> and the dispatch loop of any shard
  satisfy the contract \<open>uid_queue\<close>.
\<close>

subsection \<open>Messages\<close>

record moveInternalData =
  md_ID :: int
  md_Village :: u8
  md_Area :: u8
  md_X :: u16
  md_Y :: u16
  md_MoveType :: u8
  md_Speed :: u16

record publicMsgInternalData =
  pm_ID :: int
  pm_Msg :: string
  pm_Type :: int

text \<open>
  The dynamic types of \<open>MsgQueueData.Data\<close>. A \<open>*RobotVo\<close> is its address with its \<open>UID\<close>, which
  \<open>Load\<close> writes before the pointer is shared and nothing writes later; \<open>VoPtr None\<close>,
  \<open>MovePtr None\<close> and \<open>PublicPtr None\<close> are typed nil pointers.
\<close>

type_synonym vref = "nat \<times> u32"

datatype payload =
    VoPtr "vref option" | MovePtr "moveInternalData option" | IntValue int
  | PublicPtr "publicMsgInternalData option" | NilData

record MsgQueueData =
  Type :: string
  Data :: payload
  RunStartTime :: u32

definition zero_msg :: MsgQueueData where
  "zero_msg = \<lparr>Type = '''', Data = NilData, RunStartTime = 0\<rparr>"

definition maxMessageQueueSize :: int where "maxMessageQueueSize = 5000"

definition maxMessageTimerQueueSize :: int where "maxMessageTimerQueueSize = 10000"

definition messageDispatchShards :: nat where "messageDispatchShards = 32"

definition messageShardQueueSize :: int where
  "messageShardQueueSize = (maxMessageQueueSize + int messageDispatchShards - 1) div int messageDispatchShards"

definition messageUID :: "string \<Rightarrow> payload \<Rightarrow> int" where
  "messageUID typ data =
     (if typ = ''MsgOnLine'' \<or> typ = ''MsgReconnect'' then
        (case data of VoPtr (Some vo) \<Rightarrow> uint (snd vo) | _ \<Rightarrow> 0)
      else if typ = ''MsgMove'' then
        (case data of MovePtr (Some move) \<Rightarrow> md_ID move | _ \<Rightarrow> 0)
      else if typ = ''MsgLogout'' then
        (case data of IntValue uid \<Rightarrow> uid | _ \<Rightarrow> 0)
      else if typ = ''MsgPublicMsg'' then
        (case data of PublicPtr (Some msg) \<Rightarrow> pm_ID msg | _ \<Rightarrow> 0)
      else 0)"

text \<open>\<open>uint32(uid) * 2654435761 % 32\<close>, in 32-bit arithmetic.\<close>

definition messageShardIndex :: "string \<Rightarrow> payload \<Rightarrow> nat" where
  "messageShardIndex typ data =
     unat ((word_of_int (messageUID typ data) :: u32) * 2654435761 mod word_of_nat messageDispatchShards)"

definition lifecycleMessage :: "string \<Rightarrow> bool" where
  "lifecycleMessage typ \<longleftrightarrow> typ = ''MsgOnLine'' \<or> typ = ''MsgReconnect'' \<or> typ = ''MsgLogout''"

definition removeQueuedUID :: "MsgQueueData list \<Rightarrow> int \<Rightarrow> MsgQueueData list" where
  "removeQueuedUID queue uid =
     (if uid \<le> 0 \<or> queue = [] then queue
      else filter (\<lambda>queued. messageUID (Type queued) (Data queued) \<noteq> uid) queue)"

text \<open>The slice with the newest replaceable move overwritten; \<open>None\<close> when the loop returns false.\<close>

definition coalesceQueuedMove :: "MsgQueueData list \<Rightarrow> payload \<Rightarrow> MsgQueueData list option" where
  "coalesceQueuedMove queue data =
     (let uid = messageUID ''MsgMove'' data
      in if uid \<le> 0 then None
         else map_option (\<lambda>i. queue[i := (queue ! i)\<lparr>Data := data\<rparr>])
           (find_back
              (\<lambda>q. if messageUID (Type q) (Data q) \<noteq> uid then None
                   else if lifecycleMessage (Type q) then Some False
                   else if Type q = ''MsgMove'' then Some True
                   else None)
              (length queue) queue))"

definition oldestEvictableMessage :: "MsgQueueData list \<Rightarrow> nat option" where
  "oldestEvictableMessage queue = index_of (\<lambda>q. \<not> lifecycleMessage (Type q)) queue"

subsection \<open>Shards\<close>

record messageDispatchShard =
  sh_queue :: "MsgQueueData list"
  sh_head :: nat

definition newMessageDispatchShard :: messageDispatchShard where
  "newMessageDispatchShard = \<lparr>sh_queue = [], sh_head = 0\<rparr>"

definition liveQueue :: "messageDispatchShard \<Rightarrow> MsgQueueData list" where
  "liveQueue s = (if sh_head s \<ge> length (sh_queue s) then [] else drop (sh_head s) (sh_queue s))"

definition liveLen :: "messageDispatchShard \<Rightarrow> int" where
  "liveLen s = int (length (sh_queue s)) - int (sh_head s)"

definition compactIfNeeded :: "bool \<Rightarrow> bool \<Rightarrow> messageDispatchShard \<Rightarrow> messageDispatchShard" where
  "compactIfNeeded needTail full s =
     (if sh_head s = 0 then s
      else if \<not> needTail \<and> (sh_head s < 64 \<or> sh_head s * 2 < length (sh_queue s)) then s
      else if needTail \<and> \<not> full \<and> (sh_head s < 64 \<or> sh_head s * 2 < length (sh_queue s)) then s
      else s\<lparr>sh_queue := drop (sh_head s) (sh_queue s), sh_head := 0\<rparr>)"

text \<open>The locked part of \<open>TryAddMessage\<close>.\<close>

definition shard_add :: "bool \<Rightarrow> string \<Rightarrow> payload \<Rightarrow> messageDispatchShard \<Rightarrow> bool \<times> messageDispatchShard" where
  "shard_add full typ data s =
     (let msg = \<lparr>Type = typ, Data = data, RunStartTime = 0\<rparr>;
          cleared = (if typ = ''MsgLogout'' \<or> typ = ''MsgOnLine''
            then s\<lparr>sh_queue := removeQueuedUID (liveQueue s) (messageUID typ data), sh_head := 0\<rparr> else s)
      in case (if typ = ''MsgMove'' then coalesceQueuedMove (liveQueue s) data else None) of
           Some live \<Rightarrow> (True, s\<lparr>sh_queue := take (sh_head s) (sh_queue s) @ live\<rparr>)
         | None \<Rightarrow>
             (let s1 = compactIfNeeded True full cleared
              in if liveLen s1 \<ge> messageShardQueueSize then
                   (case oldestEvictableMessage (liveQueue s1) of
                      None \<Rightarrow> (False, s1)
                    | Some evict \<Rightarrow>
                        (True, s1\<lparr>sh_queue := remove_at evict (liveQueue s1) @ [msg], sh_head := 0\<rparr>))
                 else (True, s1\<lparr>sh_queue := sh_queue s1 @ [msg]\<rparr>)))"

text \<open>One turn of \<open>dispatchLoop\<close> up to the unlock: the message it takes, if any.\<close>

definition shard_pop :: "messageDispatchShard \<Rightarrow> MsgQueueData list \<times> messageDispatchShard" where
  "shard_pop s =
     (if sh_head s \<ge> length (sh_queue s) then ([], s)
      else ([sh_queue s ! sh_head s],
            compactIfNeeded False False
              (s\<lparr>sh_queue := (sh_queue s)[sh_head s := zero_msg], sh_head := sh_head s + 1\<rparr>)))"

subsection \<open>The task\<close>

record RobotDnfTask =
  messageShards :: "messageDispatchShard list"
  messageTimerQueue :: "MsgQueueData list"
  robotVoMap :: "int \<rightharpoonup> vref"
  task_done :: bool
  task_stopping :: bool
  connectQueue :: "vref list"
  connectQueued :: "u32 \<rightharpoonup> vref"

definition NewRobotDnfTask :: RobotDnfTask where
  "NewRobotDnfTask =
     \<lparr>messageShards = replicate messageDispatchShards newMessageDispatchShard, messageTimerQueue = [],
      robotVoMap = Map.empty, task_done = False, task_stopping = False,
      connectQueue = [], connectQueued = Map.empty\<rparr>"

definition TryAddMessage :: "bool \<Rightarrow> string \<Rightarrow> payload \<Rightarrow> RobotDnfTask \<Rightarrow> bool \<times> RobotDnfTask" where
  "TryAddMessage full typ data t =
     (if task_done t then (False, t)
      else let i = messageShardIndex typ data;
               (ok, s) = shard_add full typ data (messageShards t ! i)
           in (ok, t\<lparr>messageShards := (messageShards t)[i := s]\<rparr>))"

definition AddMessage :: "bool \<Rightarrow> string \<Rightarrow> payload \<Rightarrow> RobotDnfTask \<Rightarrow> RobotDnfTask" where
  "AddMessage full typ data t = snd (TryAddMessage full typ data t)"

definition dispatchLoop_pop :: "nat \<Rightarrow> RobotDnfTask \<Rightarrow> MsgQueueData list \<times> RobotDnfTask" where
  "dispatchLoop_pop k t =
     (if task_done t then ([], t)
      else let (ms, s) = shard_pop (messageShards t ! k)
           in (ms, t\<lparr>messageShards := (messageShards t)[k := s]\<rparr>))"

definition processTimedMessages :: "u32 \<Rightarrow> (nat \<Rightarrow> bool) \<Rightarrow> RobotDnfTask \<Rightarrow> RobotDnfTask" where
  "processTimedMessages now full t =
     (let due = filter (\<lambda>msg. RunStartTime msg \<le> now) (messageTimerQueue t);
          pending = filter (\<lambda>msg. \<not> RunStartTime msg \<le> now) (messageTimerQueue t)
      in fold (\<lambda>(i, msg). AddMessage (full i) (Type msg) (Data msg)) (List.enumerate 0 due)
           (t\<lparr>messageTimerQueue := pending\<rparr>))"

definition AddMessageDelay :: "u32 \<Rightarrow> bool \<Rightarrow> string \<Rightarrow> payload \<Rightarrow> int \<Rightarrow> RobotDnfTask \<Rightarrow> RobotDnfTask" where
  "AddMessageDelay now full typ data sleepVal t =
     (if task_done t then t
      else if sleepVal \<le> 0 then AddMessage full typ data t
      else let runAt = (if sleepVal \<le> 86400 then now + word_of_int sleepVal else word_of_int sleepVal)
           in if runAt \<le> now then AddMessage full typ data t
              else let msg = \<lparr>Type = typ, Data = data, RunStartTime = runAt\<rparr>;
                       q = (if int (length (messageTimerQueue t)) \<ge> maxMessageTimerQueueSize
                            then tl (messageTimerQueue t) else messageTimerQueue t)
                   in t\<lparr>messageTimerQueue := q @ [msg]\<rparr>)"

definition clear_online_work :: "vref \<Rightarrow> RobotDnfTask \<Rightarrow> RobotDnfTask" where
  "clear_online_work vo t =
     (let i = messageShardIndex ''MsgOnLine'' (VoPtr (Some vo));
          s = messageShards t ! i
      in t\<lparr>messageShards := (messageShards t)
            [i := s\<lparr>sh_queue := removeQueuedUID (liveQueue s) (uint (snd vo)), sh_head := 0\<rparr>]\<rparr>)"

definition onlineBacklog :: "RobotDnfTask \<Rightarrow> int" where
  "onlineBacklog t =
     sum_list (map (\<lambda>s. int (length (filter (\<lambda>msg. Type msg = ''MsgOnLine'') (sh_queue s)))) (messageShards t))
     + int (length (connectQueue t))"

definition shard_shutdown :: "messageDispatchShard \<Rightarrow> messageDispatchShard" where
  "shard_shutdown s = s\<lparr>sh_queue := []\<rparr>"

end
