(* ===== verification/Message_Queue_Proofs.thy ===== *)
theory Message_Queue_Proofs
  imports Message_Queue
begin

section \<open>The message queue keeps the command-queue contract\<close>

text \<open>
  A shard refines a plain list of pending messages; on that list the laws of
  \<open>uid_queue\<close> are proved, and \<open>TryAddMessage\<close> with the dispatch loop of a shard interprets
  the locale.
\<close>

subsection \<open>A shard refines a list\<close>

text \<open>The consumed prefix is zeroed and the live part is bounded.\<close>

definition shard_ok :: "messageDispatchShard \<Rightarrow> bool" where
  "shard_ok s \<longleftrightarrow> sh_head s \<le> length (sh_queue s)
     \<and> take (sh_head s) (sh_queue s) = replicate (sh_head s) zero_msg
     \<and> liveLen s \<le> messageShardQueueSize"

text \<open>The specification of \<open>TryAddMessage\<close> on the list of pending messages.\<close>

definition queue_add :: "string \<Rightarrow> payload \<Rightarrow> MsgQueueData list \<Rightarrow> bool \<times> MsgQueueData list" where
  "queue_add typ data q =
     (let msg = \<lparr>Type = typ, Data = data, RunStartTime = 0\<rparr>;
          q1 = (if typ = ''MsgLogout'' \<or> typ = ''MsgOnLine''
                then removeQueuedUID q (messageUID typ data) else q)
      in case (if typ = ''MsgMove'' then coalesceQueuedMove q data else None) of
           Some q2 \<Rightarrow> (True, q2)
         | None \<Rightarrow> if int (length q1) < messageShardQueueSize then (True, q1 @ [msg])
                   else (case oldestEvictableMessage q1 of
                           None \<Rightarrow> (False, q1)
                         | Some i \<Rightarrow> (True, remove_at i q1 @ [msg])))"

lemma shard_size [simp]: "messageShardQueueSize = 157"
  by (simp add: messageShardQueueSize_def maxMessageQueueSize_def messageDispatchShards_def)

lemma liveQueue_drop: "liveQueue s = drop (sh_head s) (sh_queue s)"
  by (simp add: liveQueue_def)

lemma liveLen_length: "sh_head s \<le> length (sh_queue s) \<Longrightarrow> liveLen s = int (length (liveQueue s))"
  by (simp add: liveQueue_drop liveLen_def of_nat_diff)

lemma shard_ok_live: "shard_ok s \<Longrightarrow> length (liveQueue s) \<le> 157"
  using liveLen_length [of s] by (simp add: shard_ok_def)

lemma shard_ok_plain: "length q \<le> 157 \<Longrightarrow> shard_ok (s\<lparr>sh_queue := q, sh_head := 0\<rparr>)"
  by (simp add: shard_ok_def liveLen_def)

lemma compact_live [simp]: "liveQueue (compactIfNeeded n f s) = liveQueue s"
  by (simp add: compactIfNeeded_def liveQueue_drop)

lemma compact_ok: "shard_ok s \<Longrightarrow> shard_ok (compactIfNeeded n f s)"
  by (auto simp: compactIfNeeded_def shard_ok_def liveLen_def)

lemma removeQueuedUID_length: "length (removeQueuedUID q u) \<le> length q"
  by (simp add: removeQueuedUID_def)

lemma coalesce_length: "coalesceQueuedMove q data = Some q' \<Longrightarrow> length q' = length q"
  by (auto simp: coalesceQueuedMove_def Let_def split: if_splits)

lemma shard_add_refines:
  assumes "shard_ok s"
  shows "queue_add typ data (liveQueue s) = map_prod id liveQueue (shard_add full typ data s)
    \<and> shard_ok (snd (shard_add full typ data s))"
proof (cases "if typ = ''MsgMove'' then coalesceQueuedMove (liveQueue s) data else None")
  case (Some live)
  have "length live = length (liveQueue s)"
    using Some coalesce_length by (simp split: if_splits)
  moreover have "queue_add typ data (liveQueue s) = (True, live)"
    unfolding queue_add_def Let_def Some by simp
  moreover have "shard_add full typ data s = (True, s\<lparr>sh_queue := take (sh_head s) (sh_queue s) @ live\<rparr>)"
    unfolding shard_add_def Let_def Some by simp
  ultimately show ?thesis
    using assms by (simp add: shard_ok_def liveQueue_drop liveLen_def min_def)
next
  case None
  define cleared where "cleared = (if typ = ''MsgLogout'' \<or> typ = ''MsgOnLine''
    then s\<lparr>sh_queue := removeQueuedUID (liveQueue s) (messageUID typ data), sh_head := 0\<rparr> else s)"
  define s1 where "s1 = compactIfNeeded True full cleared"
  have "shard_ok cleared"
    using assms shard_ok_live [OF assms] le_trans [OF removeQueuedUID_length]
    by (auto simp: cleared_def intro: shard_ok_plain)
  then have ok: "shard_ok s1" by (simp add: s1_def compact_ok)
  have live: "liveQueue s1 = (if typ = ''MsgLogout'' \<or> typ = ''MsgOnLine''
      then removeQueuedUID (liveQueue s) (messageUID typ data) else liveQueue s)"
    unfolding s1_def compact_live cleared_def by (simp add: liveQueue_drop)
  have len: "liveLen s1 = int (length (liveQueue s1))"
    using ok by (simp add: liveLen_length shard_ok_def)
  have add: "shard_add full typ data s =
      (if liveLen s1 \<ge> messageShardQueueSize then
         (case oldestEvictableMessage (liveQueue s1) of
            None \<Rightarrow> (False, s1)
          | Some evict \<Rightarrow>
              (True, s1\<lparr>sh_queue := remove_at evict (liveQueue s1) @ [\<lparr>Type = typ, Data = data, RunStartTime = 0\<rparr>],
                        sh_head := 0\<rparr>))
       else (True, s1\<lparr>sh_queue := sh_queue s1 @ [\<lparr>Type = typ, Data = data, RunStartTime = 0\<rparr>]\<rparr>))"
    using None unfolding shard_add_def s1_def cleared_def Let_def by simp
  have spec: "queue_add typ data (liveQueue s) =
      (if int (length (liveQueue s1)) < 157
       then (True, liveQueue s1 @ [\<lparr>Type = typ, Data = data, RunStartTime = 0\<rparr>])
       else (case oldestEvictableMessage (liveQueue s1) of
               None \<Rightarrow> (False, liveQueue s1)
             | Some i \<Rightarrow> (True, remove_at i (liveQueue s1) @ [\<lparr>Type = typ, Data = data, RunStartTime = 0\<rparr>])))"
    using None unfolding queue_add_def live Let_def by simp
  show ?thesis
  proof (cases "int (length (liveQueue s1)) < 157")
    case True
    with ok show ?thesis
      unfolding add spec len by (auto simp: liveQueue_drop shard_ok_def liveLen_def)
  next
    case False
    have "length (remove_at i (liveQueue s1)) \<le> 156" if "oldestEvictableMessage (liveQueue s1) = Some i" for i
      using that index_of_Some [of _ "liveQueue s1" i] shard_ok_live [OF ok]
      by (auto simp: oldestEvictableMessage_def)
    with False ok show ?thesis
      unfolding add spec len by (auto simp: liveQueue_drop shard_ok_plain split: option.splits)
  qed
qed

lemma shard_pop_refines:
  assumes "shard_ok s"
  shows "fst (shard_pop s) @ liveQueue (snd (shard_pop s)) = liveQueue s \<and> shard_ok (snd (shard_pop s))"
proof (cases "sh_head s < length (sh_queue s)")
  case True
  let ?s = "s\<lparr>sh_queue := (sh_queue s)[sh_head s := zero_msg], sh_head := sh_head s + 1\<rparr>"
  have "shard_ok ?s"
    using assms True by (simp add: shard_ok_def liveLen_def take_Suc_conv_app_nth replicate_append_same)
  moreover have "liveQueue s = sh_queue s ! sh_head s # liveQueue ?s"
    using True by (simp add: liveQueue_drop Cons_nth_drop_Suc)
  ultimately show ?thesis using True by (simp add: shard_pop_def compact_ok)
qed (use assms in \<open>simp add: shard_pop_def\<close>)

subsection \<open>The laws on the list of pending messages\<close>

definition message_view :: "int \<Rightarrow> MsgQueueData \<Rightarrow> (string \<times> payload) option" where
  "message_view u m = (if messageUID (Type m) (Data m) = u then Some (Type m, Data m) else None)"

definition message_clears :: "MsgQueueData \<Rightarrow> int \<Rightarrow> bool" where
  "message_clears m u \<longleftrightarrow> (Type m = ''MsgLogout'' \<or> Type m = ''MsgOnLine'') \<and> messageUID (Type m) (Data m) = u"

abbreviation message_lifecycle :: "string \<times> payload \<Rightarrow> bool" where
  "message_lifecycle v \<equiv> lifecycleMessage (fst v)"

abbreviation message_move :: "string \<times> payload \<Rightarrow> bool" where
  "message_move v \<equiv> fst v = ''MsgMove''"

lemma message_view_Some:
  "message_view u m = Some v \<longleftrightarrow> messageUID (Type m) (Data m) = u \<and> v = (Type m, Data m)"
  by (auto simp: message_view_def)

lemma removeQueuedUID_trace:
  assumes "0 < u"
  shows "trace (message_view u) (removeQueuedUID q w) = (if w = u then [] else trace (message_view u) q)"
proof (cases "w = u")
  case True
  then show ?thesis using assms
    by (auto simp: removeQueuedUID_def message_view_def intro: map_filter_None)
next
  case False
  then show ?thesis
    by (auto simp: removeQueuedUID_def message_view_def intro: map_filter_cong_filter)
qed

lemma coalesce_classify:
  "(if messageUID (Type q) (Data q) \<noteq> u then None
    else if lifecycleMessage (Type q) then Some False
    else if Type q = ''MsgMove'' then Some True else None)
   = classify message_lifecycle message_move (message_view u q)"
  by (simp add: classify_def message_view_def)

lemma coalesce_eq:
  "coalesceQueuedMove q data =
     (if messageUID ''MsgMove'' data \<le> 0 then None
      else map_option (\<lambda>i. q[i := (q ! i)\<lparr>Data := data\<rparr>])
        (find_back (\<lambda>m. classify message_lifecycle message_move (message_view (messageUID ''MsgMove'' data) m))
          (length q) q))"
  unfolding coalesceQueuedMove_def Let_def coalesce_classify by simp

lemma coalesce_Some:
  assumes "coalesceQueuedMove q data = Some q'"
  obtains i where "i < length q" "q' = q[i := (q ! i)\<lparr>Data := data\<rparr>]" "Type (q ! i) = ''MsgMove''"
    "messageUID ''MsgMove'' (Data (q ! i)) = messageUID ''MsgMove'' data" "0 < messageUID ''MsgMove'' data"
proof -
  from assms obtain i where i: "find_back (\<lambda>m. classify message_lifecycle message_move
      (message_view (messageUID ''MsgMove'' data) m)) (length q) q = Some i"
    and q': "q' = q[i := (q ! i)\<lparr>Data := data\<rparr>]" and "0 < messageUID ''MsgMove'' data"
    by (auto simp: coalesce_eq not_le split: if_splits)
  with find_back_Some [OF i] that show ?thesis
    by (auto simp: classify_def message_view_def split: if_splits)
qed

lemma coalesce_trace:
  assumes "coalesceQueuedMove q data = Some q'" and "0 < u"
  shows "filter message_lifecycle (trace (message_view u) q') = filter message_lifecycle (trace (message_view u) q)
    \<and> set (trace (message_view u) q') \<subseteq>
      set (trace (message_view u) q) \<union> (if messageUID ''MsgMove'' data = u then {(''MsgMove'', data)} else {})
    \<and> (messageUID ''MsgMove'' data = u \<longrightarrow> (''MsgMove'', data) \<in> set (trace (message_view u) q'))
    \<and> pending_moves message_lifecycle message_move (trace (message_view u) q') =
      pending_moves message_lifecycle message_move (trace (message_view u) q)"
proof -
  obtain i where i: "i < length q" "q' = q[i := (q ! i)\<lparr>Data := data\<rparr>]" "Type (q ! i) = ''MsgMove''"
    "messageUID ''MsgMove'' (Data (q ! i)) = messageUID ''MsgMove'' data"
    using coalesce_Some [OF assms(1)] by metis
  show ?thesis
  proof (cases "messageUID ''MsgMove'' data = u")
    case True
    note r = replace_trace [of i q "message_view u" "(''MsgMove'', Data (q ! i))" "(q ! i)\<lparr>Data := data\<rparr>"
        "(''MsgMove'', data)" message_lifecycle message_move]
    show ?thesis
      using i True r by (simp add: message_view_def lifecycleMessage_def)
  next
    case False
    with i show ?thesis by (simp add: replace_other message_view_def)
  qed
qed

abbreviation new_message :: "string \<Rightarrow> payload \<Rightarrow> MsgQueueData" where
  "new_message typ data \<equiv> \<lparr>Type = typ, Data = data, RunStartTime = 0\<rparr>"

abbreviation after_clear :: "string \<Rightarrow> payload \<Rightarrow> MsgQueueData list \<Rightarrow> MsgQueueData list" where
  "after_clear typ data q \<equiv>
     (if typ = ''MsgLogout'' \<or> typ = ''MsgOnLine'' then removeQueuedUID q (messageUID typ data) else q)"

text \<open>An accepted message either replaced a queued move or was appended, possibly after one eviction.\<close>

lemma queue_add_cases:
  assumes "queue_add typ data q = (True, q')"
  obtains (coalesced) "typ = ''MsgMove''" "coalesceQueuedMove q data = Some q'"
  | (appended) r where "q' = r @ [new_message typ data]"
      "typ = ''MsgMove'' \<Longrightarrow> coalesceQueuedMove q data = None"
      "\<And>u. filter message_lifecycle (trace (message_view u) r) =
         filter message_lifecycle (trace (message_view u) (after_clear typ data q))"
      "\<And>u. set (trace (message_view u) r) \<subseteq> set (trace (message_view u) (after_clear typ data q))"
      "\<And>u. pending_moves message_lifecycle message_move (trace (message_view u) r)
         \<le> pending_moves message_lifecycle message_move (trace (message_view u) (after_clear typ data q))"
proof (cases "if typ = ''MsgMove'' then coalesceQueuedMove q data else None")
  case (Some q2)
  then have "queue_add typ data q = (True, q2)" unfolding queue_add_def Let_def by simp
  with Some assms coalesced show ?thesis by (simp split: if_splits)
next
  case None
  then have add: "queue_add typ data q =
      (if int (length (after_clear typ data q)) < 157 then (True, after_clear typ data q @ [new_message typ data])
       else (case oldestEvictableMessage (after_clear typ data q) of
               None \<Rightarrow> (False, after_clear typ data q)
             | Some i \<Rightarrow> (True, remove_at i (after_clear typ data q) @ [new_message typ data])))"
    unfolding queue_add_def Let_def by simp
  have n: "typ = ''MsgMove'' \<Longrightarrow> coalesceQueuedMove q data = None" using None by simp
  show ?thesis
  proof (cases "int (length (after_clear typ data q)) < 157")
    case True
    with add assms have "q' = after_clear typ data q @ [new_message typ data]"
      by (simp only: if_True prod.inject)
    from appended [OF this n] show ?thesis by simp
  next
    case False
    with add assms obtain i where i: "oldestEvictableMessage (after_clear typ data q) = Some i"
      and q': "q' = remove_at i (after_clear typ data q) @ [new_message typ data]"
      by (simp only: if_False) (auto split: option.splits)
    have j: "i < length (after_clear typ data q)" "\<not> lifecycleMessage (Type (after_clear typ data q ! i))"
      using index_of_Some [OF i [unfolded oldestEvictableMessage_def]] by blast+
    have e: "\<And>u v. message_view u (after_clear typ data q ! i) = Some v \<Longrightarrow> \<not> message_lifecycle v"
      using j(2) by (simp only: message_view_Some fst_conv not_False_eq_True)
    show ?thesis
      by (rule appended [OF q' n]; (assumption | rule evict_trace [OF j(1) e])?)
  qed
qed

lemma queue_add_refused:
  assumes "queue_add typ data q = (False, q')" and "length q \<le> 157"
  shows "q' = q"
proof -
  have "q' = after_clear typ data q" and "157 \<le> length (after_clear typ data q)"
    using assms(1) unfolding queue_add_def Let_def by (auto split: option.splits if_splits)
  moreover have "length (removeQueuedUID q u) = length q \<Longrightarrow> removeQueuedUID q u = q" for u
    using length_filter_less [of _ q "\<lambda>m. messageUID (Type m) (Data m) \<noteq> u"]
    by (auto simp: removeQueuedUID_def filter_id_conv split: if_splits)
  ultimately show ?thesis
    using assms(2) removeQueuedUID_length [of q "messageUID typ data"] by (auto split: if_splits)
qed

lemma new_message_view:
  "message_view u (new_message typ data) = (if messageUID typ data = u then Some (typ, data) else None)"
  by (simp add: message_view_def)

lemma after_clear_trace:
  "0 < u \<Longrightarrow> \<not> message_clears (new_message typ data) u \<Longrightarrow>
     trace (message_view u) (after_clear typ data q) = trace (message_view u) q"
  by (auto simp: message_clears_def removeQueuedUID_trace)

lemma queue_add_clears:
  assumes "queue_add typ data q = (True, q')" and "0 < u" and "message_clears (new_message typ data) u"
  shows "trace (message_view u) q' = [(typ, data)]"
  using assms(1)
proof (cases rule: queue_add_cases)
  case coalesced
  with assms(3) show ?thesis by (simp add: message_clears_def)
next
  case (appended r)
  have "trace (message_view u) (after_clear typ data q) = []"
    using assms(2,3) by (auto simp: message_clears_def removeQueuedUID_trace)
  with appended(4) [of u] have "trace (message_view u) r = []" by simp
  with appended(1) assms(3) show ?thesis
    by (simp add: new_message_view message_clears_def map_filter_singleton)
qed

lemma queue_add_keeps:
  assumes "queue_add typ data q = (True, q')" and "0 < u" and "\<not> message_clears (new_message typ data) u"
  shows "filter message_lifecycle (trace (message_view u) q') =
      filter message_lifecycle (trace (message_view u) q)
        @ filter message_lifecycle (trace (message_view u) [new_message typ data])"
    and "set (trace (message_view u) q') \<subseteq>
      set (trace (message_view u) q) \<union> set (trace (message_view u) [new_message typ data])"
proof -
  have "filter message_lifecycle (trace (message_view u) q') =
      filter message_lifecycle (trace (message_view u) q)
        @ filter message_lifecycle (trace (message_view u) [new_message typ data])
    \<and> set (trace (message_view u) q') \<subseteq>
      set (trace (message_view u) q) \<union> set (trace (message_view u) [new_message typ data])"
    using assms(1)
  proof (cases rule: queue_add_cases)
    case coalesced
    with coalesce_trace [OF coalesced(2) assms(2)] show ?thesis
      by (cases "messageUID ''MsgMove'' data = u")
        (simp_all add: map_filter_singleton new_message_view lifecycleMessage_def)
  next
    case (appended r)
    note t = after_clear_trace [OF assms(2,3), of q]
    have "set (trace (message_view u) r) \<subseteq> set (trace (message_view u) q)"
      using appended(4) [of u] by (simp only: t)
    moreover have "filter message_lifecycle (trace (message_view u) r) =
        filter message_lifecycle (trace (message_view u) q)"
      using appended(3) [of u] by (simp only: t)
    ultimately show ?thesis
      using appended(1) by (auto simp only: map_filter_append filter_append set_append)
  qed
  then show "filter message_lifecycle (trace (message_view u) q') =
      filter message_lifecycle (trace (message_view u) q)
        @ filter message_lifecycle (trace (message_view u) [new_message typ data])"
    and "set (trace (message_view u) q') \<subseteq>
      set (trace (message_view u) q) \<union> set (trace (message_view u) [new_message typ data])"
    by blast+
qed

lemma queue_add_present:
  assumes "queue_add typ data q = (True, q')" and "0 < u"
  shows "set (trace (message_view u) [new_message typ data]) \<subseteq> set (trace (message_view u) q')"
  using assms(1)
proof (cases rule: queue_add_cases)
  case coalesced
  with coalesce_trace [OF coalesced(2) assms(2)] show ?thesis
    by (simp add: map_filter_singleton new_message_view)
qed auto

lemma queue_add_moves:
  assumes "queue_add typ data q = (True, q')" and "0 < u"
    and "pending_moves message_lifecycle message_move (trace (message_view u) q) \<le> 1"
  shows "pending_moves message_lifecycle message_move (trace (message_view u) q') \<le> 1"
  using assms(1)
proof (cases rule: queue_add_cases)
  case coalesced
  with coalesce_trace [OF coalesced(2) assms(2)] assms(3) show ?thesis by simp
next
  case (appended r)
  let ?pm = "\<lambda>q. pending_moves message_lifecycle message_move (trace (message_view u) q)"
  have r: "?pm r \<le> ?pm q"
    using appended(5) [of u] removeQueuedUID_trace [OF assms(2), of q]
    by (auto split: if_splits)
  have "?pm r = 0" if "messageUID typ data = u" "typ = ''MsgMove''"
  proof -
    have "find_back (\<lambda>m. classify message_lifecycle message_move (message_view u m)) (length q) q = None"
      using appended(2) [OF that(2)] that assms(2) by (simp add: coalesce_eq)
    then have "?pm q = 0" using find_back_None_pending [of message_lifecycle message_move _ "length q" q] by simp
    with r show ?thesis by simp
  qed
  then have "?pm (r @ [new_message typ data]) \<le> 1"
    using r assms(3) by (intro append_moves) (auto simp: new_message_view split: if_splits)
  with appended(1) show ?thesis by simp
qed

subsection \<open>The task interprets the contract\<close>

definition shard_of_uid :: "int \<Rightarrow> nat" where
  "shard_of_uid u = unat ((word_of_int u :: u32) * 2654435761 mod 32)"

definition task_ok :: "RobotDnfTask \<Rightarrow> bool" where
  "task_ok t \<longleftrightarrow> length (messageShards t) = messageDispatchShards \<and> (\<forall>s \<in> set (messageShards t). shard_ok s)"

abbreviation pending_in :: "nat \<Rightarrow> RobotDnfTask \<Rightarrow> MsgQueueData list" where
  "pending_in k t \<equiv> liveQueue (messageShards t ! k)"

abbreviation submit :: "bool \<Rightarrow> MsgQueueData \<Rightarrow> RobotDnfTask \<Rightarrow> bool \<times> RobotDnfTask" where
  "submit full m \<equiv> TryAddMessage full (Type m) (Data m)"

definition shard_view :: "nat \<Rightarrow> int \<Rightarrow> MsgQueueData \<Rightarrow> (string \<times> payload) option" where
  "shard_view k u = (if shard_of_uid u = k then message_view u else (\<lambda>m. None))"

lemma messageShardIndex_uid: "messageShardIndex typ data = shard_of_uid (messageUID typ data)"
  by (simp add: messageShardIndex_def shard_of_uid_def messageDispatchShards_def)

lemma shard_of_uid_less: "shard_of_uid u < 32"
proof -
  have "(word_of_int u :: u32) * 2654435761 mod 32 < 32" by (rule word_mod_less_divisor) simp
  then show ?thesis by (simp add: shard_of_uid_def word_less_nat_alt)
qed

lemma task_ok_shard: "task_ok t \<Longrightarrow> shard_ok (messageShards t ! shard_of_uid u)"
  using shard_of_uid_less [of u] by (auto simp: task_ok_def messageDispatchShards_def)

lemma task_ok_update:
  "task_ok t \<Longrightarrow> shard_ok s \<Longrightarrow> task_ok (t\<lparr>messageShards := (messageShards t)[i := s]\<rparr>)"
  using set_update_subset_insert [of "messageShards t" i s] by (auto simp: task_ok_def)

lemma TryAddMessage_step:
  assumes "task_ok t" and "TryAddMessage full typ data t = (ok, t')"
  shows "task_ok t'"
    and "\<not> task_done t \<Longrightarrow>
      queue_add typ data (pending_in (shard_of_uid (messageUID typ data)) t)
        = (ok, pending_in (shard_of_uid (messageUID typ data)) t')"
    and "k \<noteq> shard_of_uid (messageUID typ data) \<Longrightarrow> pending_in k t' = pending_in k t"
    and "task_done t \<Longrightarrow> t' = t \<and> \<not> ok"
proof -
  let ?i = "shard_of_uid (messageUID typ data)"
  note shard_step = shard_add_refines [OF task_ok_shard [OF assms(1), of "messageUID typ data"], of "typ" data full]
  have i: "?i < length (messageShards t)"
    using assms(1) shard_of_uid_less by (simp add: task_ok_def messageDispatchShards_def)
  show "task_ok t'"
    using assms shard_step task_ok_update [OF assms(1)]
    by (auto simp: TryAddMessage_def messageShardIndex_uid Let_def split_beta split: if_splits)
  show "queue_add typ data (pending_in ?i t) = (ok, pending_in ?i t')" if "\<not> task_done t"
    using that assms(2) shard_step i
    by (auto simp: TryAddMessage_def messageShardIndex_uid Let_def split_beta prod_eq_iff)
  show "pending_in k t' = pending_in k t" if "k \<noteq> ?i"
    using that assms(2)
    by (auto simp: TryAddMessage_def messageShardIndex_uid Let_def split_beta split: if_splits)
  show "t' = t \<and> \<not> ok" if "task_done t"
    using that assms(2) by (simp add: TryAddMessage_def)
qed

lemma new_message_trace: "trace (message_view u) [m] = trace (message_view u) [new_message (Type m) (Data m)]"
  by (simp add: message_view_def map_filter_singleton)

lemma trace_never [simp]: "trace (\<lambda>m. None) q = []"
  by (simp add: map_filter_None)

lemma dispatchLoop_pop_step:
  assumes "task_ok t" and "k < 32"
  shows "task_ok (snd (dispatchLoop_pop k t))
    \<and> fst (dispatchLoop_pop k t) @ pending_in k (snd (dispatchLoop_pop k t)) = pending_in k t"
proof -
  have "shard_ok (messageShards t ! k)" and "k < length (messageShards t)"
    using assms by (auto simp: task_ok_def messageDispatchShards_def)
  with shard_pop_refines [of "messageShards t ! k"] task_ok_update [OF assms(1)] assms(1) show ?thesis
    by (auto simp: dispatchLoop_pop_def Let_def split_beta)
qed

text \<open>
  The messages of a UID all live in its shard, so \<open>shard_view\<close> of shard \<open>k\<close> sees
  a UID only when \<open>k\<close> is its shard.
\<close>

lemma submit_cases:
  assumes "task_ok t" and "submit full m t = (True, t')"
  obtains (elsewhere) "shard_view k u = (\<lambda>m. None)"
  | (untouched) "pending_in k t' = pending_in k t" "trace (shard_view k u) [m] = []" "\<not> message_clears m u"
  | (here) "shard_view k u = message_view u" "queue_add (Type m) (Data m) (pending_in k t) = (True, pending_in k t')"
proof -
  have "\<not> task_done t" using TryAddMessage_step(4) [OF assms] by blast
  note step = TryAddMessage_step(2) [OF assms this] TryAddMessage_step(3) [OF assms, of k]
  consider "shard_of_uid u \<noteq> k" | "shard_of_uid u = k" "shard_of_uid (messageUID (Type m) (Data m)) \<noteq> k"
    | "shard_of_uid u = k" "shard_of_uid (messageUID (Type m) (Data m)) = k" by blast
  then show ?thesis
  proof cases
    case 1
    then show ?thesis using elsewhere by (simp add: shard_view_def)
  next
    case 2
    then have "messageUID (Type m) (Data m) \<noteq> u" by auto
    then show ?thesis
      using 2 step untouched by (simp add: shard_view_def message_view_def message_clears_def map_filter_singleton)
  next
    case 3
    then show ?thesis using here step by (simp add: shard_view_def)
  qed
qed

interpretation shard: uid_queue "\<lambda>t. task_ok t \<and> k < 32" "pending_in k" submit "dispatchLoop_pop k"
  "shard_view k" message_clears message_lifecycle message_move 157 for k
proof (unfold_locales, goal_cases)
  case (1 t)
  then show ?case by (simp add: task_ok_def messageDispatchShards_def shard_ok_live)
next
  case (2 t full m)
  then show ?case using TryAddMessage_step(1) [of t full] by (metis prod.collapse)
next
  case (3 t full m t' u)
  have "pending_in k t' = pending_in k t"
  proof (cases "k = shard_of_uid (messageUID (Type m) (Data m)) \<and> \<not> task_done t")
    case True
    with 3 TryAddMessage_step(2) [of t full "Type m" "Data m" False t'] show ?thesis
      using queue_add_refused shard_ok_live [OF task_ok_shard] by metis
  next
    case False
    with 3 TryAddMessage_step(3,4) [of t full "Type m" "Data m" False t'] show ?thesis by blast
  qed
  then show ?case by simp
next
  case (4 t full m t' u)
  then show ?case
    using queue_add_clears [of "Type m" "Data m"] new_message_trace [of u m]
    by (auto elim!: submit_cases [where k = k and u = u]
        simp: message_clears_def new_message_view map_filter_singleton)
next
  case (5 t full m t' u)
  then show ?case
    using queue_add_keeps(1) [of "Type m" "Data m" "pending_in k t" "pending_in k t'" u] new_message_trace [of u m]
    by (auto elim!: submit_cases [where k = k and u = u] simp: message_clears_def)
next
  case (6 t full m t' u)
  then show ?case
    using queue_add_keeps(2) [of "Type m" "Data m" "pending_in k t" "pending_in k t'" u] new_message_trace [of u m]
    by (auto elim!: submit_cases [where k = k and u = u] simp: message_clears_def)
next
  case (7 t full m t' u)
  then show ?case
    using queue_add_present [of "Type m" "Data m" "pending_in k t" "pending_in k t'" u] new_message_trace [of u m]
    by (auto elim!: submit_cases [where k = k and u = u])
next
  case (8 t full m t' u)
  then show ?case
    using queue_add_moves [of "Type m" "Data m" "pending_in k t" "pending_in k t'" u]
    by (auto elim!: submit_cases [where k = k and u = u])
qed (use dispatchLoop_pop_step in auto)

subsection \<open>Properties\<close>

lemma task_ok_new: "task_ok NewRobotDnfTask"
  by (simp add: task_ok_def NewRobotDnfTask_def newMessageDispatchShard_def shard_ok_def liveLen_def
      messageDispatchShards_def)

lemma shard_view_own: "shard_view (shard_of_uid u) u = message_view u"
  by (simp add: shard_view_def)

text \<open>
  Property C28. Lifecycle messages (online, reconnect, logout) of a robot are handled in
  the order they were accepted, whatever else is queued, coalesced or evicted; and none of them
  is lost unless a later logout or online message of the same robot was submitted.
\<close>

theorem message_lifecycle_order:
  assumes "task_ok t" and "0 < u"
    and "queue_run submit (dispatchLoop_pop (shard_of_uid u)) evs t = (handled, accepted, t')"
  shows "subseq (filter message_lifecycle (trace (message_view u) (handled @ pending_in (shard_of_uid u) t')))
           (filter message_lifecycle (trace (message_view u) (pending_in (shard_of_uid u) t @ accepted)))
    \<and> ((\<forall>full m. Submit full m \<in> set evs \<longrightarrow> \<not> message_clears m u) \<longrightarrow>
         filter message_lifecycle (trace (message_view u) (handled @ pending_in (shard_of_uid u) t')) =
         filter message_lifecycle (trace (message_view u) (pending_in (shard_of_uid u) t @ accepted)))"
  using shard.run_lifecycle [of t "shard_of_uid u" u evs] assms shard_of_uid_less
  by (simp add: shard_view_own)

definition example_vo :: "nat \<Rightarrow> MsgQueueData" where
  "example_vo ref = \<lparr>Type = ''MsgReconnect'', Data = VoPtr (Some (ref, 7)), RunStartTime = 0\<rparr>"

lemma example_shard: "shard_of_uid 7 = 23"
  by (simp add: shard_of_uid_def)

theorem message_lifecycle_order_witness:
  "queue_run submit (dispatchLoop_pop (shard_of_uid 7))
     [Submit False (example_vo 1), Deliver, Submit False (example_vo 2)] NewRobotDnfTask
     = ([example_vo 1], [example_vo 1, example_vo 2],
        NewRobotDnfTask\<lparr>messageShards := (messageShards NewRobotDnfTask)
          [23 := \<lparr>sh_queue = [zero_msg, example_vo 2], sh_head = 1\<rparr>]\<rparr>)
   \<and> filter message_lifecycle (trace (message_view 7) ([example_vo 1] @ [example_vo 2]))
     = [(''MsgReconnect'', VoPtr (Some (1, 7))), (''MsgReconnect'', VoPtr (Some (2, 7)))]"
proof -
  let ?t = "NewRobotDnfTask\<lparr>messageShards := (messageShards NewRobotDnfTask)
          [23 := \<lparr>sh_queue = [zero_msg, example_vo 2], sh_head = 1\<rparr>]\<rparr>"
  have run: "queue_run submit (dispatchLoop_pop (shard_of_uid 7))
     [Submit False (example_vo 1), Deliver, Submit False (example_vo 2)] NewRobotDnfTask
     = ([example_vo 1], [example_vo 1, example_vo 2], ?t)"
    by (simp add: example_shard TryAddMessage_def NewRobotDnfTask_def messageShardIndex_uid
        example_vo_def messageUID_def shard_add_def newMessageDispatchShard_def messageDispatchShards_def
        compactIfNeeded_def liveLen_def dispatchLoop_pop_def shard_pop_def)
  show ?thesis
    using message_lifecycle_order [OF task_ok_new _ run] run
    by (simp add: message_clears_def example_vo_def message_view_def messageUID_def map_filter_Cons
        lifecycleMessage_def liveQueue_drop NewRobotDnfTask_def newMessageDispatchShard_def
        messageDispatchShards_def example_shard)
qed

text \<open>
  Property C29. No stale work: after a logout or online message of a robot has been accepted,
  only that message and messages accepted later can still be handled for that robot.
\<close>

theorem no_stale_message:
  assumes "task_ok t" and "0 < u" and "message_clears m u" and "submit full m t = (True, t1)"
    and "queue_run submit (dispatchLoop_pop (shard_of_uid u)) evs t1 = (handled, accepted, t')"
  shows "set (trace (message_view u) (handled @ pending_in (shard_of_uid u) t'))
    \<subseteq> set (trace (message_view u) (m # accepted))"
  using shard.nothing_stale [of t "shard_of_uid u" u m full t1 evs] assms shard_of_uid_less
  by (simp add: shard_view_own)

definition example_move :: "u16 \<Rightarrow> MsgQueueData" where
  "example_move x = \<lparr>Type = ''MsgMove'', Data = MovePtr (Some \<lparr>md_ID = 7, md_Village = 1, md_Area = 2,
     md_X = x, md_Y = 200, md_MoveType = 1, md_Speed = 100\<rparr>), RunStartTime = 0\<rparr>"

definition example_logout :: MsgQueueData where
  "example_logout = \<lparr>Type = ''MsgLogout'', Data = IntValue 7, RunStartTime = 0\<rparr>"

definition example_pending :: "MsgQueueData list \<Rightarrow> RobotDnfTask" where
  "example_pending q = NewRobotDnfTask\<lparr>messageShards := (messageShards NewRobotDnfTask)
     [23 := \<lparr>sh_queue = q, sh_head = 0\<rparr>]\<rparr>"

lemmas example_simps = example_shard example_pending_def example_move_def example_logout_def
  example_vo_def TryAddMessage_def NewRobotDnfTask_def messageShardIndex_uid messageUID_def
  shard_add_def newMessageDispatchShard_def messageDispatchShards_def compactIfNeeded_def liveLen_def
  liveQueue_drop dispatchLoop_pop_def shard_pop_def removeQueuedUID_def lifecycleMessage_def
  message_clears_def message_view_def map_filter_Cons

lemma task_ok_example: "length q \<le> 157 \<Longrightarrow> task_ok (example_pending q)"
  unfolding example_pending_def
  by (rule task_ok_update [OF task_ok_new]) (simp add: shard_ok_def liveLen_def)

theorem no_stale_message_witness:
  "submit False example_logout (example_pending [example_move 5, example_vo 2])
     = (True, example_pending [example_logout])
   \<and> set (trace (message_view 7) ([example_logout] @ pending_in (shard_of_uid 7)
       (snd (dispatchLoop_pop 23 (example_pending [example_logout])))))
     \<subseteq> set (trace (message_view 7) [example_logout])"
proof -
  have push: "submit False example_logout (example_pending [example_move 5, example_vo 2])
     = (True, example_pending [example_logout])"
    by (simp add: example_simps)
  have run: "queue_run submit (dispatchLoop_pop (shard_of_uid 7)) [Deliver] (example_pending [example_logout])
     = ([example_logout], [], snd (dispatchLoop_pop 23 (example_pending [example_logout])))"
    by (simp add: example_simps)
  have "message_clears example_logout 7" by (simp add: example_simps)
  from no_stale_message [OF task_ok_example _ this push run] push show ?thesis by simp
qed

text \<open>
  Property C30. Whatever is submitted and handled, a shard never holds more than 157
  messages and never more than one move of a robot behind its last lifecycle message.
\<close>

theorem message_queue_bounded:
  assumes "task_ok t" and "0 < u"
    and "pending_moves message_lifecycle message_move (trace (message_view u) (pending_in (shard_of_uid u) t)) \<le> 1"
    and "queue_run submit (dispatchLoop_pop (shard_of_uid u)) evs t = (handled, accepted, t')"
  shows "int (length (pending_in (shard_of_uid u) t')) \<le> messageShardQueueSize
    \<and> pending_moves message_lifecycle message_move (trace (message_view u) (pending_in (shard_of_uid u) t')) \<le> 1"
  using shard.run_bounded [of t "shard_of_uid u" evs]
    shard.run_moves [of t "shard_of_uid u" u evs] assms shard_of_uid_less
  by (simp add: shard_view_own)

theorem message_queue_bounded_witness:
  "queue_run submit (dispatchLoop_pop (shard_of_uid 7)) [Submit True (example_move 9)]
     (example_pending [example_vo 2, example_move 5]) =
     ([], [example_move 9], example_pending [example_vo 2, example_move 9])
   \<and> pending_moves message_lifecycle message_move
       (trace (message_view 7) (pending_in (shard_of_uid 7) (example_pending [example_vo 2, example_move 9]))) \<le> 1"
proof -
  have run: "queue_run submit (dispatchLoop_pop (shard_of_uid 7)) [Submit True (example_move 9)]
     (example_pending [example_vo 2, example_move 5]) =
     ([], [example_move 9], example_pending [example_vo 2, example_move 9])"
    by (simp add: example_simps coalesceQueuedMove_def)
  have "pending_moves message_lifecycle message_move
      (trace (message_view 7) (pending_in (shard_of_uid 7) (example_pending [example_vo 2, example_move 5]))) \<le> 1"
    by (simp add: example_simps pending_moves_def count_move_def)
  from message_queue_bounded [OF task_ok_example _ this run] run show ?thesis by simp
qed

text \<open>
  Property C31. Refinement: on a well-formed shard, with its consumed prefix and whatever the
  slice's capacity is, \<open>TryAddMessage\<close> answers and changes the pending messages exactly as
  the specification on plain lists, leaves every other shard alone, and keeps the task well-formed.
\<close>

theorem try_add_refines_list:
  assumes "task_ok t" and "\<not> task_done t" and "TryAddMessage full typ data t = (ok, t')"
  shows "queue_add typ data (pending_in (messageShardIndex typ data) t)
      = (ok, pending_in (messageShardIndex typ data) t')
    \<and> task_ok t' \<and> (\<forall>k. k \<noteq> messageShardIndex typ data \<longrightarrow> messageShards t' ! k = messageShards t ! k)"
  using TryAddMessage_step(1,2) [OF assms(1,3)] assms(2,3)
  by (auto simp: messageShardIndex_uid TryAddMessage_def Let_def split_beta)

theorem try_add_refines_list_witness:
  "queue_add ''MsgLogout'' (IntValue 7) (pending_in 23 (example_pending [example_move 5]))
     = (True, pending_in 23 (example_pending [example_logout]))"
proof -
  have "TryAddMessage False ''MsgLogout'' (IntValue 7) (example_pending [example_move 5])
      = (True, example_pending [example_logout])"
    by (simp add: example_simps)
  from try_add_refines_list [OF task_ok_example _ this] show ?thesis
    by (simp add: messageShardIndex_uid example_shard messageUID_def example_pending_def NewRobotDnfTask_def)
qed

lemma shard_ok_online:
  assumes "shard_ok s"
  shows "filter (\<lambda>m. Type m = ''MsgOnLine'') (sh_queue s) = filter (\<lambda>m. Type m = ''MsgOnLine'') (liveQueue s)"
proof -
  have "filter (\<lambda>m. Type m = ''MsgOnLine'') (take (sh_head s) (sh_queue s)) = []"
    using assms by (simp add: shard_ok_def zero_msg_def filter_empty_conv)
  then show ?thesis
    by (metis append_Nil append_take_drop_id filter_append liveQueue_drop)
qed

text \<open>
  The back-pressure value of the online command counts exactly the online
  messages still pending in the shards and the queued connects: consumed entries, which stay in
  the slices until they are compacted, do not count.
\<close>

theorem online_backlog_exact:
  assumes "task_ok t"
  shows "onlineBacklog t =
    (\<Sum>s \<leftarrow> messageShards t. int (length (filter (\<lambda>m. Type m = ''MsgOnLine'') (liveQueue s))))
      + int (length (connectQueue t))"
proof -
  have "map (\<lambda>s. int (length (filter (\<lambda>m. Type m = ''MsgOnLine'') (sh_queue s)))) (messageShards t)
      = map (\<lambda>s. int (length (filter (\<lambda>m. Type m = ''MsgOnLine'') (liveQueue s)))) (messageShards t)"
    using assms shard_ok_online by (intro map_cong refl) (simp add: task_ok_def)
  then show ?thesis unfolding onlineBacklog_def by (rule arg_cong)
qed

theorem online_backlog_exact_witness:
  "onlineBacklog (example_pending [example_vo 1, \<lparr>Type = ''MsgOnLine'', Data = VoPtr (Some (3, 7)), RunStartTime = 0\<rparr>]) = 1"
  by (subst online_backlog_exact [OF task_ok_example])
    (simp_all add: example_simps list_update_def numeral_eq_Suc)

lemma AddMessage_timer [simp]: "messageTimerQueue (AddMessage full typ data t) = messageTimerQueue t"
  by (simp add: AddMessage_def TryAddMessage_def Let_def split_beta)

lemma fold_AddMessage_timer:
  "messageTimerQueue (fold (\<lambda>(i, msg). AddMessage (full i) (Type msg) (Data msg)) ms t) = messageTimerQueue t"
  by (induction ms arbitrary: t) (simp_all add: split_beta)

lemma processTimedMessages_timer:
  "messageTimerQueue (processTimedMessages now full t) = filter (\<lambda>m. now < RunStartTime m) (messageTimerQueue t)"
  by (simp add: processTimedMessages_def Let_def fold_AddMessage_timer not_le)



end
