(* ===== verification/Runtime_Queue.thy ===== *)
theory Runtime_Queue
  imports Command_Queue
begin

section \<open>The command queue of the runtime service\<close>

text \<open>
  \<open>protocol/dnfruntime/queue.go\<close> and the queue part of \<open>runtime.go\<close>: one bounded queue of
  logout, move, online and shout commands in front of the protocol task. An online command carries
  a batch of users; a logout removes its UID from every queued batch. The worker takes the whole
  queue at once. The queue interprets \<open>uid_queue\<close>.
\<close>

subsection \<open>Commands\<close>

record RuntimeOnlineUser =
  ou_IP :: string
  ou_LoginIP :: string
  ou_Port :: int
  ou_Token :: string
  ou_UID :: int
  ou_CID :: int
  ou_CharacterSlot :: int
  ou_MaxReconnect :: int
  ou_ReconnectDelay :: int
  ou_BirthVillage :: int
  ou_BirthArea :: int
  ou_BirthGateArea :: int
  ou_BirthX :: int
  ou_BirthY :: int
  ou_DisjointCost :: u32

record RuntimeMoveCommand =
  mc_UID :: int
  mc_Village :: int
  mc_Area :: int
  mc_X :: int
  mc_Y :: int
  mc_MoveType :: int
  mc_Speed :: int

record RuntimeShoutCommand =
  sc_UID :: int
  sc_Message :: string
  sc_Type :: int

text \<open>\<open>robotCommandUnknown\<close> stands for every value of the \<open>uint8\<close> other than the four constants.\<close>

datatype robotCommandType =
  robotCommandLogout | robotCommandMove | robotCommandOnline | robotCommandShout | robotCommandUnknown

record robotMsgEntry =
  en_typ :: robotCommandType
  en_uid :: int
  en_move :: RuntimeMoveCommand
  en_online :: "RuntimeOnlineUser list"
  en_shout :: RuntimeShoutCommand

text \<open>
  The two error values of the package, and the two errors that \<open>Online\<close> formats for a login
  it dispatches directly.
\<close>

datatype queue_error =
  ErrRuntimeStopped | ErrCommandQueueFull | DisjointPanic | DisjointRejected string

definition maxRobotCommandQueue :: nat where "maxRobotCommandQueue = 10000"

record RobotSvc =
  rs_msgQueue :: "robotMsgEntry list"
  rs_running :: bool
  rs_table :: bool
  rs_stop_closed :: bool

definition newRobotService :: RobotSvc where
  "newRobotService = \<lparr>rs_msgQueue = [], rs_running = True, rs_table = True, rs_stop_closed = False\<rparr>"

subsection \<open>Operations\<close>

definition robotCommandUID :: "robotMsgEntry \<Rightarrow> int" where
  "robotCommandUID entry =
     (case en_typ entry of
        robotCommandLogout \<Rightarrow> en_uid entry
      | robotCommandMove \<Rightarrow> mc_UID (en_move entry)
      | robotCommandShout \<Rightarrow> sc_UID (en_shout entry)
      | _ \<Rightarrow> 0)"

definition robotCommandContainsUID :: "robotMsgEntry \<Rightarrow> int \<Rightarrow> bool" where
  "robotCommandContainsUID entry uid \<longleftrightarrow>
     (if en_typ entry = robotCommandOnline then \<exists>user \<in> set (en_online entry). ou_UID user = uid
      else robotCommandUID entry = uid)"

definition withoutOnlineUID :: "RuntimeOnlineUser list \<Rightarrow> int \<Rightarrow> RuntimeOnlineUser list" where
  "withoutOnlineUID users uid = filter (\<lambda>user. ou_UID user \<noteq> uid) users"

definition without_uid :: "int \<Rightarrow> robotMsgEntry \<Rightarrow> robotMsgEntry option" where
  "without_uid uid entry =
     (if en_typ entry = robotCommandOnline then
        (let entry = entry\<lparr>en_online := withoutOnlineUID (en_online entry) uid\<rparr>
         in if length (en_online entry) > 0 then Some entry else None)
      else if robotCommandUID entry \<noteq> uid then Some entry else None)"

definition removeQueuedRobotUID :: "robotMsgEntry list \<Rightarrow> int \<Rightarrow> robotMsgEntry list" where
  "removeQueuedRobotUID queue uid =
     (if uid \<le> 0 \<or> queue = [] then queue else List.map_filter (without_uid uid) queue)"

definition coalesceQueuedRobotMove :: "robotMsgEntry list \<Rightarrow> robotMsgEntry \<Rightarrow> robotMsgEntry list option" where
  "coalesceQueuedRobotMove queue replacement =
     (let uid = mc_UID (en_move replacement)
      in if uid \<le> 0 then None
         else map_option (\<lambda>i. queue[i := replacement])
           (find_back
              (\<lambda>entry. if \<not> robotCommandContainsUID entry uid then None
                 else if en_typ entry = robotCommandOnline \<or> en_typ entry = robotCommandLogout then Some False
                 else if en_typ entry = robotCommandMove then Some True
                 else None)
              (length queue) queue))"

definition oldestEvictableRobotCommand :: "robotMsgEntry list \<Rightarrow> nat option" where
  "oldestEvictableRobotCommand queue =
     index_of (\<lambda>entry. en_typ entry = robotCommandMove \<or> en_typ entry = robotCommandShout) queue"

definition svc_enqueue :: "robotMsgEntry \<Rightarrow> RobotSvc \<Rightarrow> queue_error option \<times> RobotSvc" where
  "svc_enqueue entry rs =
     (if \<not> rs_running rs \<or> \<not> rs_table rs then (Some ErrRuntimeStopped, rs)
      else let q = (if en_typ entry = robotCommandLogout
                    then removeQueuedRobotUID (rs_msgQueue rs) (en_uid entry) else rs_msgQueue rs)
           in case (if en_typ entry = robotCommandMove then coalesceQueuedRobotMove q entry else None) of
                Some q' \<Rightarrow> (None, rs\<lparr>rs_msgQueue := q'\<rparr>)
              | None \<Rightarrow>
                  if length q \<ge> maxRobotCommandQueue then
                    (case oldestEvictableRobotCommand q of
                       None \<Rightarrow> (Some ErrCommandQueueFull, rs\<lparr>rs_msgQueue := q\<rparr>)
                     | Some evict \<Rightarrow> (None, rs\<lparr>rs_msgQueue := remove_at evict q @ [entry]\<rparr>))
                  else (None, rs\<lparr>rs_msgQueue := q @ [entry]\<rparr>))"

text \<open>The batch that one turn of \<open>run\<close> takes out of the queue.\<close>

definition run_take :: "RobotSvc \<Rightarrow> robotMsgEntry list \<times> RobotSvc" where
  "run_take rs = (rs_msgQueue rs, rs\<lparr>rs_msgQueue := []\<rparr>)"

definition svc_Shutdown :: "RobotSvc \<Rightarrow> RobotSvc" where
  "svc_Shutdown rs = rs\<lparr>rs_running := False, rs_msgQueue := [], rs_stop_closed := True\<rparr>"

text \<open>\<open>dispatch\<close>: the method of the driver that an entry calls. An unknown type is only logged.\<close>

datatype driver_call =
    DispatchLogout int | DispatchMove RuntimeMoveCommand
  | DispatchOnline "RuntimeOnlineUser list" | DispatchShout RuntimeShoutCommand

definition dispatch :: "robotMsgEntry \<Rightarrow> driver_call option" where
  "dispatch entry =
     (case en_typ entry of
        robotCommandLogout \<Rightarrow> Some (DispatchLogout (en_uid entry))
      | robotCommandMove \<Rightarrow> Some (DispatchMove (en_move entry))
      | robotCommandOnline \<Rightarrow> Some (DispatchOnline (en_online entry))
      | robotCommandShout \<Rightarrow> Some (DispatchShout (en_shout entry))
      | robotCommandUnknown \<Rightarrow> None)"

text \<open>
  The loop over a batch; \<open>stopped i\<close> is whether \<open>rs.stop\<close> is closed when entry \<open>i\<close> is
  reached. The second component says whether the worker returned.
\<close>

fun run_batch :: "(nat \<Rightarrow> bool) \<Rightarrow> nat \<Rightarrow> robotMsgEntry list \<Rightarrow> driver_call list \<times> bool" where
  "run_batch stopped i [] = ([], False)"
| "run_batch stopped i (entry # batch) =
     (if stopped i then ([], True)
      else let (calls, ret) = run_batch stopped (Suc i) batch
           in (case dispatch entry of None \<Rightarrow> calls | Some c \<Rightarrow> c # calls, ret))"

subsection \<open>The commands of the service\<close>

definition zero_entry :: robotMsgEntry where
  "zero_entry =
     \<lparr>en_typ = robotCommandUnknown, en_uid = 0,
      en_move = \<lparr>mc_UID = 0, mc_Village = 0, mc_Area = 0, mc_X = 0, mc_Y = 0, mc_MoveType = 0, mc_Speed = 0\<rparr>,
      en_online = [], en_shout = \<lparr>sc_UID = 0, sc_Message = '''', sc_Type = 0\<rparr>\<rparr>"

definition svc_Logout :: "int \<Rightarrow> RobotSvc \<Rightarrow> queue_error option \<times> RobotSvc" where
  "svc_Logout uid = svc_enqueue (zero_entry\<lparr>en_typ := robotCommandLogout, en_uid := uid\<rparr>)"

definition svc_Move :: "RuntimeMoveCommand \<Rightarrow> RobotSvc \<Rightarrow> queue_error option \<times> RobotSvc" where
  "svc_Move command = svc_enqueue (zero_entry\<lparr>en_typ := robotCommandMove, en_move := command\<rparr>)"

definition svc_Shout :: "RuntimeShoutCommand \<Rightarrow> RobotSvc \<Rightarrow> queue_error option \<times> RobotSvc" where
  "svc_Shout command = svc_enqueue (zero_entry\<lparr>en_typ := robotCommandShout, en_shout := command\<rparr>)"

definition beginWork :: "RobotSvc \<Rightarrow> bool" where
  "beginWork rs \<longleftrightarrow> rs_running rs \<and> rs_table rs"

text \<open>
  \<open>Online\<close>: a batch that contains a disjoint login bypasses the queue. \<open>direct\<close> is the answer
  of the driver's \<open>DispatchOnline\<close>, its message and code, or \<open>None\<close> when the call panics.
\<close>

definition svc_Online ::
    "(RuntimeOnlineUser list \<Rightarrow> (string \<times> int) option) \<Rightarrow> RuntimeOnlineUser list \<Rightarrow> RobotSvc \<Rightarrow>
     queue_error option \<times> RobotSvc" where
  "svc_Online direct users rs =
     (if \<exists>user \<in> set users. ou_DisjointCost user \<noteq> 0 then
        (if \<not> beginWork rs then (Some ErrRuntimeStopped, rs)
         else case direct users of
                None \<Rightarrow> (Some DisjointPanic, rs)
              | Some (msg, code) \<Rightarrow> if code \<noteq> 200 then (Some (DisjointRejected msg), rs) else (None, rs))
      else svc_enqueue (zero_entry\<lparr>en_typ := robotCommandOnline, en_online := users\<rparr>) rs)"

subsection \<open>The laws of the queue\<close>

definition entry_view :: "int \<Rightarrow> robotMsgEntry \<Rightarrow> robotMsgEntry option" where
  "entry_view u e =
     (if en_typ e = robotCommandOnline then
        (let us = filter (\<lambda>user. ou_UID user = u) (en_online e)
         in if us = [] then None else Some (e\<lparr>en_online := us\<rparr>))
      else if robotCommandUID e = u then Some e else None)"

definition entry_clears :: "robotMsgEntry \<Rightarrow> int \<Rightarrow> bool" where
  "entry_clears e u \<longleftrightarrow> en_typ e = robotCommandLogout \<and> en_uid e = u"

definition entry_lifecycle :: "robotMsgEntry \<Rightarrow> bool" where
  "entry_lifecycle e \<longleftrightarrow> en_typ e = robotCommandOnline \<or> en_typ e = robotCommandLogout"

definition entry_move :: "robotMsgEntry \<Rightarrow> bool" where
  "entry_move e \<longleftrightarrow> en_typ e = robotCommandMove"

lemma entry_view_typ: "entry_view u e = Some v \<Longrightarrow> en_typ v = en_typ e"
  by (auto simp: entry_view_def Let_def split: if_splits)

lemma entry_view_None:
  "entry_view u e = None \<longleftrightarrow> \<not> robotCommandContainsUID e u"
  by (auto simp: entry_view_def robotCommandContainsUID_def Let_def filter_empty_conv)

lemma without_uid_view:
  "0 < u \<Longrightarrow> (case without_uid w e of None \<Rightarrow> None | Some e' \<Rightarrow> entry_view u e')
     = (if w = u then None else entry_view u e)"
  by (auto simp: without_uid_def entry_view_def withoutOnlineUID_def robotCommandUID_def Let_def
      filter_empty_conv conj_commute cong: conj_cong split: robotCommandType.splits)

lemma map_filter_map_filter:
  "List.map_filter f (List.map_filter g xs) =
     List.map_filter (\<lambda>x. case g x of None \<Rightarrow> None | Some y \<Rightarrow> f y) xs"
  by (induction xs) (auto simp: map_filter_Cons split: option.splits)

lemma removeQueuedRobotUID_trace:
  assumes "0 < u"
  shows "trace (entry_view u) (removeQueuedRobotUID q w) = (if w = u then [] else trace (entry_view u) q)"
  using assms
  by (auto simp: removeQueuedRobotUID_def map_filter_map_filter without_uid_view map_filter_None)

lemma map_filter_length: "length (List.map_filter f xs) \<le> length xs"
  by (induction xs) (auto simp: map_filter_Cons split: option.splits)

lemma removeQueuedRobotUID_length: "length (removeQueuedRobotUID q w) \<le> length q"
  by (simp add: removeQueuedRobotUID_def map_filter_length)

lemma robot_coalesce_classify:
  "(if \<not> robotCommandContainsUID e u then None
    else if en_typ e = robotCommandOnline \<or> en_typ e = robotCommandLogout then Some False
    else if en_typ e = robotCommandMove then Some True else None)
   = classify entry_lifecycle entry_move (entry_view u e)"
  using entry_view_None [of u e]
  by (auto simp: classify_def entry_lifecycle_def entry_move_def dest: entry_view_typ split: option.splits)

lemma robot_coalesce_eq:
  "coalesceQueuedRobotMove q e =
     (if mc_UID (en_move e) \<le> 0 then None
      else map_option (\<lambda>i. q[i := e])
        (find_back (\<lambda>m. classify entry_lifecycle entry_move (entry_view (mc_UID (en_move e)) m)) (length q) q))"
  unfolding coalesceQueuedRobotMove_def Let_def robot_coalesce_classify by simp

lemma move_entry_view:
  "en_typ e = robotCommandMove \<Longrightarrow> entry_view u e = (if mc_UID (en_move e) = u then Some e else None)"
  by (simp add: entry_view_def robotCommandUID_def)

lemma robot_coalesce_trace:
  assumes "coalesceQueuedRobotMove q e = Some q'" and "0 < u" and "en_typ e = robotCommandMove"
  shows "filter entry_lifecycle (trace (entry_view u) q') = filter entry_lifecycle (trace (entry_view u) q)
    \<and> set (trace (entry_view u) q') \<subseteq> set (trace (entry_view u) q) \<union> set (trace (entry_view u) [e])
    \<and> set (trace (entry_view u) [e]) \<subseteq> set (trace (entry_view u) q')
    \<and> pending_moves entry_lifecycle entry_move (trace (entry_view u) q') =
      pending_moves entry_lifecycle entry_move (trace (entry_view u) q)
    \<and> length q' = length q"
proof -
  let ?w = "mc_UID (en_move e)"
  obtain i where i: "find_back (\<lambda>m. classify entry_lifecycle entry_move (entry_view ?w m)) (length q) q = Some i"
    and q': "q' = q[i := e]"
    using assms(1) by (auto simp: robot_coalesce_eq split: if_splits)
  from find_back_Some [OF i] have len: "i < length q"
    and hit: "classify entry_lifecycle entry_move (entry_view ?w (q ! i)) = Some True" by simp_all
  from hit have mv: "en_typ (q ! i) = robotCommandMove"
    by (auto simp: classify_def entry_move_def dest: entry_view_typ split: option.splits if_splits)
  with hit have uid: "mc_UID (en_move (q ! i)) = ?w"
    by (auto simp: classify_def move_entry_view split: option.splits if_splits)
  show ?thesis
  proof (cases "?w = u")
    case True
    note r = replace_trace [of i q "entry_view u" "q ! i" e e entry_lifecycle entry_move]
    show ?thesis
      using r len mv uid True assms(3) q'
      by (auto simp: move_entry_view entry_lifecycle_def entry_move_def map_filter_singleton)
  next
    case False
    with len mv uid assms(3) q' show ?thesis
      by (simp add: replace_other move_entry_view map_filter_singleton)
  qed
qed

abbreviation after_logout :: "robotMsgEntry \<Rightarrow> robotMsgEntry list \<Rightarrow> robotMsgEntry list" where
  "after_logout e q \<equiv> (if en_typ e = robotCommandLogout then removeQueuedRobotUID q (en_uid e) else q)"

lemma after_logout_trace:
  "0 < u \<Longrightarrow> trace (entry_view u) (after_logout e q) = (if entry_clears e u then [] else trace (entry_view u) q)"
  by (auto simp: removeQueuedRobotUID_trace entry_clears_def)

lemma svc_enqueue_cases:
  assumes "svc_enqueue e rs = (None, rs')"
  obtains (coalesced) "en_typ e = robotCommandMove" "coalesceQueuedRobotMove (rs_msgQueue rs) e = Some (rs_msgQueue rs')"
  | (appended) r where "rs_msgQueue rs' = r @ [e]"
      "en_typ e = robotCommandMove \<Longrightarrow> coalesceQueuedRobotMove (rs_msgQueue rs) e = None"
      "\<And>u. filter entry_lifecycle (trace (entry_view u) r) =
         filter entry_lifecycle (trace (entry_view u) (after_logout e (rs_msgQueue rs)))"
      "\<And>u. set (trace (entry_view u) r) \<subseteq> set (trace (entry_view u) (after_logout e (rs_msgQueue rs)))"
      "\<And>u. pending_moves entry_lifecycle entry_move (trace (entry_view u) r)
         \<le> pending_moves entry_lifecycle entry_move (trace (entry_view u) (after_logout e (rs_msgQueue rs)))"
      "length (after_logout e (rs_msgQueue rs)) \<le> maxRobotCommandQueue \<Longrightarrow> length r < maxRobotCommandQueue"
proof (cases "if en_typ e = robotCommandMove then coalesceQueuedRobotMove (rs_msgQueue rs) e else None")
  case (Some q')
  with assms coalesced show ?thesis
    unfolding svc_enqueue_def Let_def by (auto split: if_splits)
next
  case None
  define q where "q = after_logout e (rs_msgQueue rs)"
  have n: "en_typ e = robotCommandMove \<Longrightarrow> coalesceQueuedRobotMove (rs_msgQueue rs) e = None" using None by simp
  have add: "rs_running rs \<and> rs_table rs" "(None, rs') =
      (if length q \<ge> maxRobotCommandQueue then
         (case oldestEvictableRobotCommand q of
            None \<Rightarrow> (Some ErrCommandQueueFull, rs\<lparr>rs_msgQueue := q\<rparr>)
          | Some evict \<Rightarrow> (None, rs\<lparr>rs_msgQueue := remove_at evict q @ [e]\<rparr>))
       else (None, rs\<lparr>rs_msgQueue := q @ [e]\<rparr>))"
    using assms None unfolding svc_enqueue_def Let_def q_def by (auto split: if_splits)
  show ?thesis
  proof (cases "length q \<ge> maxRobotCommandQueue")
    case True
    with add(2) obtain i where i: "oldestEvictableRobotCommand q = Some i"
      and q': "rs_msgQueue rs' = remove_at i q @ [e]"
      by (auto split: option.splits)
    note j = index_of_Some [OF i [unfolded oldestEvictableRobotCommand_def]]
    have ev: "\<And>u v. entry_view u (q ! i) = Some v \<Longrightarrow> \<not> entry_lifecycle v"
      using j by (auto simp: entry_lifecycle_def dest: entry_view_typ)
    show ?thesis
    proof (rule appended [OF q' n], goal_cases)
      case (2 u)
      show ?case unfolding q_def [symmetric] by (rule evict_trace(1) [OF conjunct1 [OF j]]) (rule ev)
    next
      case (3 u)
      show ?case unfolding q_def [symmetric] by (rule evict_trace(2) [OF conjunct1 [OF j]]) (rule ev)
    next
      case (4 u)
      show ?case unfolding q_def [symmetric] by (rule evict_trace(3) [OF conjunct1 [OF j]]) (rule ev)
    qed (use j True in \<open>auto simp: q_def\<close>)
  next
    case False
    with add(2) have "rs_msgQueue rs' = q @ [e]" by simp
    from appended [OF this n] show ?thesis using False by (simp add: q_def)
  qed
qed

lemma svc_enqueue_refused_queue:
  "svc_enqueue e rs = (Some err, rs') \<Longrightarrow>
     rs_msgQueue rs' = rs_msgQueue rs \<or> rs_msgQueue rs' = after_logout e (rs_msgQueue rs)"
  unfolding svc_enqueue_def Let_def by (auto split: option.splits if_splits)

lemma svc_enqueue_good:
  assumes "length (rs_msgQueue rs) \<le> maxRobotCommandQueue"
  shows "length (rs_msgQueue (snd (svc_enqueue e rs))) \<le> maxRobotCommandQueue"
proof -
  have q: "length (after_logout e (rs_msgQueue rs)) \<le> maxRobotCommandQueue"
    using assms removeQueuedRobotUID_length [of "rs_msgQueue rs" "en_uid e"] by simp
  show ?thesis
  proof (cases "fst (svc_enqueue e rs)")
    case None
    then have "svc_enqueue e rs = (None, snd (svc_enqueue e rs))" by (simp add: prod_eq_iff)
    then show ?thesis
      by (cases rule: svc_enqueue_cases)
        (use assms q robot_coalesce_trace [of _ e _ 1] in auto)
  next
    case (Some err)
    then have "svc_enqueue e rs = (Some err, snd (svc_enqueue e rs))" by (simp add: prod_eq_iff)
    with assms q show ?thesis by (auto dest: svc_enqueue_refused_queue)
  qed
qed

lemma svc_enqueue_refused:
  assumes "svc_enqueue e rs = (Some err, rs')" and "0 < u"
  shows "trace (entry_view u) (rs_msgQueue rs') = trace (entry_view u) (rs_msgQueue rs)
    \<or> entry_clears e u \<and> trace (entry_view u) (rs_msgQueue rs') = []"
proof -
  have "rs_msgQueue rs' = rs_msgQueue rs \<or> rs_msgQueue rs' = after_logout e (rs_msgQueue rs)"
    using assms(1) by (rule svc_enqueue_refused_queue)
  with after_logout_trace [OF assms(2), of e "rs_msgQueue rs"] show ?thesis by (elim disjE) simp_all
qed

lemma svc_enqueue_moves:
  assumes "svc_enqueue e rs = (None, rs')" and "0 < u"
    and "pending_moves entry_lifecycle entry_move (trace (entry_view u) (rs_msgQueue rs)) \<le> 1"
  shows "pending_moves entry_lifecycle entry_move (trace (entry_view u) (rs_msgQueue rs')) \<le> 1"
  using assms(1)
proof (cases rule: svc_enqueue_cases)
  case coalesced
  with robot_coalesce_trace [OF coalesced(2) assms(2) coalesced(1)] assms(3) show ?thesis by simp
next
  case (appended r)
  let ?q = "rs_msgQueue rs"
  let ?pm = "\<lambda>q. pending_moves entry_lifecycle entry_move (trace (entry_view u) q)"
  have "?pm (after_logout e ?q) \<le> ?pm ?q"
    unfolding after_logout_trace [OF assms(2)] by simp
  with appended(5) [of u] have r: "?pm r \<le> ?pm ?q" by (rule le_trans)
  have "?pm r = 0" if "entry_view u e = Some v" "entry_move v" for v
  proof -
    have "en_typ e = robotCommandMove" using that by (auto simp: entry_move_def dest: entry_view_typ)
    moreover from this have "mc_UID (en_move e) = u" using that(1) by (simp add: move_entry_view split: if_splits)
    ultimately have "find_back (\<lambda>m. classify entry_lifecycle entry_move (entry_view u m)) (length ?q) ?q = None"
      using appended(2) assms(2) by (simp add: robot_coalesce_eq)
    then have "?pm ?q = 0" using find_back_None_pending [of entry_lifecycle entry_move _ "length ?q" ?q] by simp
    with r show ?thesis by simp
  qed
  with r assms(3) have "?pm (r @ [e]) \<le> 1" by (intro append_moves) auto
  with appended(1) show ?thesis by simp
qed

definition svc_push :: "unit \<Rightarrow> robotMsgEntry \<Rightarrow> RobotSvc \<Rightarrow> bool \<times> RobotSvc" where
  "svc_push _ e rs = (fst (svc_enqueue e rs) = None, snd (svc_enqueue e rs))"

lemma svc_push_True: "svc_push x e rs = (True, rs') \<longleftrightarrow> svc_enqueue e rs = (None, rs')"
  by (auto simp: svc_push_def prod_eq_iff)

lemma svc_push_False: "svc_push x e rs = (False, rs') \<Longrightarrow> \<exists>err. svc_enqueue e rs = (Some err, rs')"
  by (auto simp: svc_push_def prod_eq_iff)

interpretation svc: uid_queue "\<lambda>rs. length (rs_msgQueue rs) \<le> maxRobotCommandQueue" rs_msgQueue svc_push run_take
  entry_view entry_clears entry_lifecycle entry_move maxRobotCommandQueue
proof (unfold_locales, goal_cases)
  case (2 rs x e)
  then show ?case using svc_enqueue_good by (simp add: svc_push_def)
next
  case (3 rs x e rs' u)
  then show ?case using svc_enqueue_refused svc_push_False by blast
next
  case (4 rs x e rs' u)
  then have "svc_enqueue e rs = (None, rs')" by (simp add: svc_push_True)
  then show ?case
  proof (cases rule: svc_enqueue_cases)
    case coalesced
    with 4(4) show ?thesis by (simp add: entry_clears_def)
  next
    case (appended r)
    have "trace (entry_view u) r = []"
      using appended(4) [of u] after_logout_trace [OF 4(3), of e] 4(4) by simp
    with appended(1) show ?thesis by simp
  qed
next
  case (5 rs x e rs' u)
  then have "svc_enqueue e rs = (None, rs')" by (simp add: svc_push_True)
  then show ?case
  proof (cases rule: svc_enqueue_cases)
    case coalesced
    with robot_coalesce_trace [OF coalesced(2) 5(3) coalesced(1)] show ?thesis
      by (simp add: move_entry_view map_filter_singleton entry_lifecycle_def)
  next
    case (appended r)
    have "filter entry_lifecycle (trace (entry_view u) r) = filter entry_lifecycle (trace (entry_view u) (rs_msgQueue rs))"
      using appended(3) [of u] after_logout_trace [OF 5(3), of e] 5(4) by simp
    with appended(1) show ?thesis by simp
  qed
next
  case (6 rs x e rs' u)
  then have "svc_enqueue e rs = (None, rs')" by (simp add: svc_push_True)
  then show ?case
  proof (cases rule: svc_enqueue_cases)
    case coalesced
    with robot_coalesce_trace [OF coalesced(2) 6(3) coalesced(1)] show ?thesis by simp
  next
    case (appended r)
    have "set (trace (entry_view u) r) \<subseteq> set (trace (entry_view u) (rs_msgQueue rs))"
      using appended(4) [of u] after_logout_trace [OF 6(3), of e] 6(4) by simp
    with appended(1) show ?thesis by auto
  qed
next
  case (7 rs x e rs' u)
  then have "svc_enqueue e rs = (None, rs')" by (simp add: svc_push_True)
  then show ?case
  proof (cases rule: svc_enqueue_cases)
    case coalesced
    with robot_coalesce_trace [OF coalesced(2) 7(3) coalesced(1)] show ?thesis by simp
  qed auto
next
  case (8 rs x e rs' u)
  then show ?case using svc_enqueue_moves by (simp add: svc_push_True)
qed (simp_all add: run_take_def)

subsection \<open>Properties\<close>


definition example_user :: "int \<Rightarrow> RuntimeOnlineUser" where
  "example_user uid = \<lparr>ou_IP = ''10.0.0.2'', ou_LoginIP = '''', ou_Port = 10011, ou_Token = '''', ou_UID = uid,
     ou_CID = 100 + uid, ou_CharacterSlot = 0, ou_MaxReconnect = 3, ou_ReconnectDelay = 1000,
     ou_BirthVillage = 1, ou_BirthArea = 0, ou_BirthGateArea = 0, ou_BirthX = 300, ou_BirthY = 200,
     ou_DisjointCost = 0\<rparr>"

definition example_online :: "int list \<Rightarrow> robotMsgEntry" where
  "example_online uids = zero_entry\<lparr>en_typ := robotCommandOnline, en_online := map example_user uids\<rparr>"

definition example_command_logout :: "int \<Rightarrow> robotMsgEntry" where
  "example_command_logout uid = zero_entry\<lparr>en_typ := robotCommandLogout, en_uid := uid\<rparr>"

lemmas svc_example_simps = svc_push_def svc_enqueue_def newRobotService_def example_online_def
  example_command_logout_def zero_entry_def maxRobotCommandQueue_def run_take_def entry_view_def entry_clears_def
  entry_lifecycle_def robotCommandUID_def example_user_def map_filter_Cons removeQueuedRobotUID_def
  without_uid_def withoutOnlineUID_def


text \<open>
  Property C34. A logout that the service accepts withdraws everything it still queues for the robot,
  also from the middle of queued online batches: afterwards the worker only gets that logout
  and commands accepted later for this robot. The queue holds at most 10000 commands throughout.
\<close>

theorem logout_withdraws_commands:
  assumes "length (rs_msgQueue rs) \<le> maxRobotCommandQueue" and "0 < u"
    and "svc_Logout u rs = (None, rs1)"
    and "queue_run svc_push run_take evs rs1 = (taken, accepted, rs')"
  shows "set (trace (entry_view u) (taken @ rs_msgQueue rs'))
      \<subseteq> set (trace (entry_view u) (zero_entry\<lparr>en_typ := robotCommandLogout, en_uid := u\<rparr> # accepted))
    \<and> length (rs_msgQueue rs') \<le> maxRobotCommandQueue"
proof
  let ?e = "zero_entry\<lparr>en_typ := robotCommandLogout, en_uid := u\<rparr>"
  have p: "svc_push () ?e rs = (True, rs1)" using assms(3) by (simp add: svc_push_True svc_Logout_def)
  have "entry_clears ?e u" by (simp add: entry_clears_def)
  from svc.nothing_stale [OF assms(1,2) this p assms(4)]
  show "set (trace (entry_view u) (taken @ rs_msgQueue rs')) \<subseteq> set (trace (entry_view u) (?e # accepted))" .
  have "length (rs_msgQueue rs1) \<le> maxRobotCommandQueue"
    using svc.push_good [OF assms(1), of "()" ?e] p by simp
  from svc.run_bounded [OF this, of evs] assms(4)
  show "length (rs_msgQueue rs') \<le> maxRobotCommandQueue" by simp
qed

theorem logout_withdraws_commands_witness:
  "svc_Logout 4 (newRobotService\<lparr>rs_msgQueue := [example_online [4, 5], example_online [4]]\<rparr>)
     = (None, newRobotService\<lparr>rs_msgQueue := [example_online [5], example_command_logout 4]\<rparr>)
   \<and> set (trace (entry_view 4) [example_online [5], example_command_logout 4])
       \<subseteq> set (trace (entry_view 4) [example_command_logout 4])"
proof -
  let ?rs = "newRobotService\<lparr>rs_msgQueue := [example_online [4, 5], example_online [4]]\<rparr>"
  let ?rs1 = "newRobotService\<lparr>rs_msgQueue := [example_online [5], example_command_logout 4]\<rparr>"
  have l: "svc_Logout 4 ?rs = (None, ?rs1)"
    by (simp add: svc_example_simps svc_Logout_def)
  have run: "queue_run svc_push run_take [] ?rs1 = ([], [], ?rs1)" by simp
  have "length (rs_msgQueue ?rs) \<le> maxRobotCommandQueue" by (simp add: svc_example_simps)
  from logout_withdraws_commands [OF this _ l run] l show ?thesis
    by (simp add: example_command_logout_def)
qed

end
