(* ===== verification/Cipher_Base.thy ===== *)
theory Cipher_Base
  imports Prelude
begin

section \<open>Block ciphers: bytes, words and the common contract\<close>

text \<open>
  \<open>protocol/dnf/crypt/base.go\<close>: the errors, the loads and stores between bytes and words, and
  rotations. Every cipher of the package encrypts a buffer block by block, refuses a buffer that is
  not a whole number of blocks, and decrypts with the inverse of its block function; the locale
  \<open>block_cipher\<close> states that contract once, and each cipher interprets it.
\<close>

type_synonym bytes = "u8 list"

datatype crypt_error = ErrNotInitialized | ErrInvalidKeySize | ErrInvalidBlockSize | ErrOutBufTooSmall

subsection \<open>Loads and stores\<close>

definition loadU32BE :: "bytes \<Rightarrow> u32" where
  "loadU32BE b = push_bit 24 (ucast (b ! 0)) OR push_bit 16 (ucast (b ! 1)) OR push_bit 8 (ucast (b ! 2)) OR ucast (b ! 3)"

definition loadU32LE :: "bytes \<Rightarrow> u32" where
  "loadU32LE b = push_bit 24 (ucast (b ! 3)) OR push_bit 16 (ucast (b ! 2)) OR push_bit 8 (ucast (b ! 1)) OR ucast (b ! 0)"

definition storeU32BE :: "u32 \<Rightarrow> bytes" where
  "storeU32BE v = [ucast (drop_bit 24 v), ucast (drop_bit 16 v), ucast (drop_bit 8 v), ucast v]"

definition storeU32LE :: "u32 \<Rightarrow> bytes" where
  "storeU32LE v = [ucast v, ucast (drop_bit 8 v), ucast (drop_bit 16 v), ucast (drop_bit 24 v)]"

definition loadU64BE :: "bytes \<Rightarrow> u64" where
  "loadU64BE b =
     push_bit 56 (ucast (b ! 0)) OR push_bit 48 (ucast (b ! 1)) OR push_bit 40 (ucast (b ! 2)) OR
     push_bit 32 (ucast (b ! 3)) OR push_bit 24 (ucast (b ! 4)) OR push_bit 16 (ucast (b ! 5)) OR
     push_bit 8 (ucast (b ! 6)) OR ucast (b ! 7)"

definition storeU64BE :: "u64 \<Rightarrow> bytes" where
  "storeU64BE v =
     [ucast (drop_bit 56 v), ucast (drop_bit 48 v), ucast (drop_bit 40 v), ucast (drop_bit 32 v),
      ucast (drop_bit 24 v), ucast (drop_bit 16 v), ucast (drop_bit 8 v), ucast v]"

definition rol32 :: "u32 \<Rightarrow> nat \<Rightarrow> u32" where
  "rol32 v n = (let n = n mod 32 in if n = 0 then v else push_bit n v OR drop_bit (32 - n) v)"

definition ror32 :: "u32 \<Rightarrow> nat \<Rightarrow> u32" where
  "ror32 v n = (let n = n mod 32 in if n = 0 then v else drop_bit n v OR push_bit (32 - n) v)"

text \<open>The index \<open>byte(x >> n)\<close> of a table lookup.\<close>

abbreviation byte_of :: "u32 \<Rightarrow> nat \<Rightarrow> nat" where
  "byte_of x n \<equiv> unat (ucast (drop_bit n x) :: u8)"

lemma store_length [simp]:
  "length (storeU32BE v) = 4" "length (storeU32LE v) = 4" "length (storeU64BE w) = 8"
  by (simp_all add: storeU32BE_def storeU32LE_def storeU64BE_def)

lemma load_storeU32BE [simp]: "loadU32BE (storeU32BE v) = v"
proof (rule bit_word_eqI)
  fix n assume "n < LENGTH(32)"
  then show "bit (loadU32BE (storeU32BE v)) n \<longleftrightarrow> bit v n"
    by (cases "n < 8"; cases "n < 16"; cases "n < 24") (auto simp: loadU32BE_def storeU32BE_def bit_simps not_less)
qed

lemma load_storeU32LE [simp]: "loadU32LE (storeU32LE v) = v"
proof (rule bit_word_eqI)
  fix n assume "n < LENGTH(32)"
  then show "bit (loadU32LE (storeU32LE v)) n \<longleftrightarrow> bit v n"
    by (cases "n < 8"; cases "n < 16"; cases "n < 24") (auto simp: loadU32LE_def storeU32LE_def bit_simps not_less)
qed

lemma load_storeU64BE [simp]: "loadU64BE (storeU64BE v) = v"
proof (rule bit_word_eqI)
  fix n assume n: "n < LENGTH(64)"
  consider "n < 8" | "8 \<le> n" "n < 16" | "16 \<le> n" "n < 24" | "24 \<le> n" "n < 32"
    | "32 \<le> n" "n < 40" | "40 \<le> n" "n < 48" | "48 \<le> n" "n < 56" | "56 \<le> n" by linarith
  then show "bit (loadU64BE (storeU64BE v)) n \<longleftrightarrow> bit v n"
    by cases (use n in \<open>auto simp: loadU64BE_def storeU64BE_def bit_simps\<close>)
qed

lemma list4: "length b = 4 \<longleftrightarrow> (\<exists>b0 b1 b2 b3. b = [b0, b1, b2, b3])"
  by (auto simp: length_Suc_conv numeral_eq_Suc)

lemma list8: "length b = 8 \<longleftrightarrow> (\<exists>b0 b1 b2 b3 b4 b5 b6 b7. b = [b0, b1, b2, b3, b4, b5, b6, b7])"
  by (auto simp: length_Suc_conv numeral_eq_Suc)

lemma byte_high: "8 \<le> k \<Longrightarrow> \<not> bit (b :: u8) k"
  using bit_imp_le_length [of b k] by auto

lemma store_loadU32BE [simp]: "length b = 4 \<Longrightarrow> storeU32BE (loadU32BE b) = b"
  unfolding list4
  by (auto simp: loadU32BE_def storeU32BE_def intro!: bit_word_eqI simp: bit_simps byte_high)

lemma store_loadU32LE [simp]: "length b = 4 \<Longrightarrow> storeU32LE (loadU32LE b) = b"
  unfolding list4
  by (auto simp: loadU32LE_def storeU32LE_def intro!: bit_word_eqI simp: bit_simps byte_high)

lemma store_loadU64BE [simp]: "length b = 8 \<Longrightarrow> storeU64BE (loadU64BE b) = b"
  unfolding list8
  by (auto simp: loadU64BE_def storeU64BE_def intro!: bit_word_eqI simp: bit_simps byte_high)

lemma rol32_rotl: "rol32 v n = word_rotl n v"
proof (rule bit_word_eqI)
  fix i assume "i < LENGTH(32)"
  then have i: "i < 32" by simp
  define m where "m = n mod 32"
  have m: "m < 32" by (simp add: m_def)
  have "(i + (32 - m)) mod 32 = (if i < m then i + (32 - m) else i - m)"
    using i m by (auto simp: mod_if)
  then have "bit (word_rotl n v) i = bit v (if i < m then i + (32 - m) else i - m)"
    using i by (simp add: bit_word_rotl_iff m_def)
  moreover have "bit (rol32 v n) i = bit v (if i < m then i + (32 - m) else i - m)"
  proof (cases "m = 0")
    case False
    have "\<not> bit v (32 - m + i)" if "\<not> i < m"
      using that m bit_imp_le_length [of v "32 - m + i"] by auto
    with False i m show ?thesis
      by (simp add: rol32_def Let_def bit_or_iff bit_push_bit_iff bit_drop_bit_eq add.commute flip: m_def)
  qed (simp add: rol32_def Let_def flip: m_def)
  ultimately show "bit (rol32 v n) i \<longleftrightarrow> bit (word_rotl n v) i" by simp
qed

lemma ror32_rotr: "ror32 v n = word_rotr n v"
proof (cases "n mod 32 = 0")
  case True
  then show ?thesis
    by (intro bit_word_eqI) (simp add: ror32_def bit_word_rotr_iff mod_add_eq [of _ 32 n, symmetric])
next
  case False
  have "ror32 v n = rol32 v (32 - n mod 32)"
    using False by (auto simp: ror32_def rol32_def Let_def or.commute)
  also have "\<dots> = word_rotr n v"
    unfolding rol32_rotl word_rotl_eq_word_rotr
    by (intro bit_word_eqI) (use False in \<open>simp add: bit_word_rotr_iff mod_add_right_eq\<close>)
  finally show ?thesis .
qed

lemma ror_rol32 [simp]: "ror32 (rol32 v n) n = v"
  by (simp add: rol32_rotl ror32_rotr)

lemma rol_ror32 [simp]: "rol32 (ror32 v n) n = v"
  by (simp add: rol32_rotl ror32_rotr)

subsection \<open>Block by block\<close>

text \<open>
  \<open>for i := 0; i < len(data); i += blockSize\<close>: the block function applied to every block,
  and the length check in front of it that every cipher has.
\<close>

function ecb :: "nat \<Rightarrow> (bytes \<Rightarrow> bytes) \<Rightarrow> bytes \<Rightarrow> bytes" where
  "ecb n f data = (if n = 0 \<or> data = [] then [] else f (take n data) @ ecb n f (drop n data))"
  by auto
termination by (relation "measure (\<lambda>(n, f, data). length data)") auto

declare ecb.simps [simp del]

definition ecb_crypt :: "nat \<Rightarrow> (bytes \<Rightarrow> bytes) \<Rightarrow> bytes \<Rightarrow> crypt_error + bytes" where
  "ecb_crypt n f data = (if length data mod n \<noteq> 0 then Inl ErrInvalidBlockSize else Inr (ecb n f data))"

lemma ecb_Nil [simp]: "ecb n f [] = []"
  by (simp add: ecb.simps)

lemma ecb_block: "0 < n \<Longrightarrow> length b = n \<Longrightarrow> ecb n f (b @ rest) = f b @ ecb n f rest"
  by (subst ecb.simps) auto

text \<open>Induction over the blocks of a buffer.\<close>

lemma blocks_induct [consumes 2, case_names Nil Block]:
  assumes "0 < n" and "length data mod n = 0"
    and "P []" and "\<And>b rest. length b = n \<Longrightarrow> length rest mod n = 0 \<Longrightarrow> P rest \<Longrightarrow> P (b @ rest)"
  shows "P data"
  using assms(2)
proof (induction "length data" arbitrary: data rule: less_induct)
  case less
  show ?case
  proof (cases "data = []")
    case False
    with less.prems assms(1) have len: "n \<le> length data"
      by (metis length_greater_0_conv less_irrefl mod_less not_le)
    then have m: "length (drop n data) mod n = 0" using less.prems by (simp add: le_mod_geq)
    have "P (drop n data)" using less.hyps [OF _ m] assms(1) False by simp
    from assms(4) [OF _ m this, of "take n data"] len show ?thesis by simp
  qed (simp add: assms(3))
qed

locale block_cipher =
  fixes size :: nat
    and enc dec :: "bytes \<Rightarrow> bytes"
  assumes size_pos: "0 < size"
    and enc_length: "length b = size \<Longrightarrow> length (enc b) = size"
    and dec_enc: "length b = size \<Longrightarrow> dec (enc b) = b"
begin

lemma ecb_length:
  assumes "length data mod size = 0"
  shows "length (ecb size enc data) = length data"
  using size_pos assms by (induction rule: blocks_induct) (simp_all add: ecb_block enc_length size_pos)

lemma ecb_dec_enc:
  assumes "length data mod size = 0"
  shows "ecb size dec (ecb size enc data) = data"
  using size_pos assms
  by (induction rule: blocks_induct) (simp_all add: ecb_block enc_length dec_enc size_pos)

text \<open>A block function with a left inverse permutes the finitely many blocks, so it has a right inverse.\<close>

lemma enc_dec:
  assumes "length b = size"
  shows "enc (dec b) = b"
proof -
  let ?B = "{b :: bytes. length b = size}"
  have "finite ?B" using finite_lists_length_eq [of "UNIV :: u8 set" size] by simp
  moreover have "enc ` ?B \<subseteq> ?B" by (auto simp: enc_length)
  moreover have "inj_on enc ?B" by (rule inj_on_inverseI [of _ dec]) (simp add: dec_enc)
  ultimately have "enc ` ?B = ?B" by (rule endo_inj_surj)
  with assms obtain b0 where "length b0 = size" "b = enc b0" by auto
  then show ?thesis by (simp add: dec_enc)
qed

lemma crypt_round_trip:
  assumes "length data mod size = 0"
  shows "\<exists>c. ecb_crypt size enc data = Inr c \<and> length c = length data \<and> ecb_crypt size dec c = Inr data"
  using assms by (simp add: ecb_crypt_def ecb_length ecb_dec_enc)

end

text \<open>Undoing the rounds of a cipher in the reverse order.\<close>

lemma fold_inverse:
  assumes "\<And>r s. r \<in> set rs \<Longrightarrow> g r (f r s) = s"
  shows "fold g (rev rs) (fold f rs s) = s"
  using assms by (induction rs arbitrary: s) (simp_all add: fold_append)

lemma append4_split [simp]:
  "length a = 4 \<Longrightarrow> take 4 (a @ b) = a" "length a = 4 \<Longrightarrow> drop 4 (a @ b) = b"
  by simp_all

text \<open>The four little-endian or big-endian words of a buffer, and back.\<close>

definition word_at :: "(bytes \<Rightarrow> u32) \<Rightarrow> nat \<Rightarrow> bytes \<Rightarrow> u32" where
  "word_at load i b = load (take 4 (drop (4 * i) b))"

lemma split8:
  assumes "length b = 8"
  shows "take 4 b @ take 4 (drop 4 b) = b"
proof -
  have "take 4 (drop 4 b) = drop 4 b" using assms by simp
  then show ?thesis by simp
qed

lemma split16:
  assumes "length b = 16"
  shows "take 4 b @ take 4 (drop 4 b) @ take 4 (drop 8 b) @ take 4 (drop 12 b) = b"
proof -
  have "take 4 (drop 12 b) = drop 12 b" using assms by simp
  moreover have "take 4 (drop 8 b) @ drop 12 b = drop 8 b"
    using append_take_drop_id [of 4 "drop 8 b"] by simp
  moreover have "take 4 (drop 4 b) @ drop 8 b = drop 4 b"
    using append_take_drop_id [of 4 "drop 4 b"] by simp
  ultimately show ?thesis by simp
qed

end
