(* ===== verification/Ciphers_Arx.thy ===== *)
theory Ciphers_Arx
  imports Cipher_Base
begin

section \<open>The add-rotate-xor ciphers\<close>

text \<open>
  \<open>shift.go\<close>, \<open>xtea.go\<close>, \<open>rc6.go\<close>, \<open>multi2.go\<close>, \<open>noekeon.go\<close> and \<open>tea.go\<close>. Each cipher
  is its key state as a record, its key setup, its block function and inverse, and
  \<open>Encrypt\<close>/\<open>Decrypt\<close> with their error branches. All but \<open>TeaCipher\<close> interpret
  \<open>block_cipher\<close> for every key state; for \<open>TeaCipher\<close> a counterexample is proved.
\<close>

subsection \<open>Shift\<close>

record ShiftCipher =
  sh_key0 :: u32
  sh_key1 :: u32

definition shift_SetKey :: "bytes \<Rightarrow> crypt_error + ShiftCipher" where
  "shift_SetKey key =
     (if length key < 8 then Inl ErrInvalidKeySize
      else Inr \<lparr>sh_key0 = loadU32LE (take 4 key) AND 0x1F, sh_key1 = loadU32LE (take 4 (drop 4 key))\<rparr>)"

definition shift_encryptBlock :: "ShiftCipher \<Rightarrow> bytes \<Rightarrow> bytes" where
  "shift_encryptBlock s b = storeU32LE (loadU32LE b XOR sh_key1 s)"

definition shift_decryptBlock :: "ShiftCipher \<Rightarrow> bytes \<Rightarrow> bytes" where
  "shift_decryptBlock s b = storeU32LE (sh_key1 s XOR loadU32LE b)"

definition shift_Encrypt :: "ShiftCipher \<Rightarrow> bytes \<Rightarrow> crypt_error + bytes" where
  "shift_Encrypt s data =
     (if sh_key0 s > 0x1F then Inl ErrInvalidKeySize else ecb_crypt 4 (shift_encryptBlock s) data)"

definition shift_Decrypt :: "ShiftCipher \<Rightarrow> bytes \<Rightarrow> crypt_error + bytes" where
  "shift_Decrypt s data =
     (if sh_key0 s > 0x1F then Inl ErrInvalidKeySize else ecb_crypt 4 (shift_decryptBlock s) data)"

interpretation shift: block_cipher 4 "shift_encryptBlock s" "shift_decryptBlock s" for s
  by unfold_locales
    (simp_all add: shift_encryptBlock_def shift_decryptBlock_def xor.assoc [symmetric] xor.commute [of _ "sh_key1 s"])

subsection \<open>XTEA\<close>

record XteaCipher =
  xt_A :: "u32 list"
  xt_B :: "u32 list"

text \<open>The key schedule loop, from the round with the running sum \<open>acc\<close>.\<close>

fun xtea_schedule :: "u32 list \<Rightarrow> nat \<Rightarrow> u32 \<Rightarrow> u32 list \<times> u32 list" where
  "xtea_schedule K 0 acc = ([], [])"
| "xtea_schedule K (Suc n) acc =
     (let a = acc + K ! unat (acc AND 3);
          acc' = acc + 0x9E3779B9;
          b = acc' + K ! unat (drop_bit 11 acc' AND 3);
          (as, bs) = xtea_schedule K n acc'
      in (a # as, b # bs))"

definition xtea_SetKey :: "bytes \<Rightarrow> crypt_error + XteaCipher" where
  "xtea_SetKey key =
     (if length key \<noteq> 16 then Inl ErrInvalidKeySize
      else let K = map (\<lambda>i. word_at loadU32LE i key) [0, 1, 2, 3];
               (as, bs) = xtea_schedule K 32 0
           in Inr \<lparr>xt_A = as, xt_B = bs\<rparr>)"

definition xtea_mix :: "u32 \<Rightarrow> u32" where
  "xtea_mix v = (push_bit 4 v XOR drop_bit 5 v) + v"

definition xtea_round :: "XteaCipher \<Rightarrow> nat \<Rightarrow> u32 \<times> u32 \<Rightarrow> u32 \<times> u32" where
  "xtea_round x r = (\<lambda>(y, z).
     let y = y + (xtea_mix z XOR xt_A x ! r);
         z = z + (xtea_mix y XOR xt_B x ! r)
     in (y, z))"

definition xtea_unround :: "XteaCipher \<Rightarrow> nat \<Rightarrow> u32 \<times> u32 \<Rightarrow> u32 \<times> u32" where
  "xtea_unround x r = (\<lambda>(y, z).
     let z = z - (xtea_mix y XOR xt_B x ! r);
         y = y - (xtea_mix z XOR xt_A x ! r)
     in (y, z))"

text \<open>The source unrolls the 32 rounds four at a time.\<close>

definition xtea_encryptBlock :: "XteaCipher \<Rightarrow> bytes \<Rightarrow> bytes" where
  "xtea_encryptBlock x b =
     (let (y, z) = fold (xtea_round x) [0..<32] (word_at loadU32LE 0 b, word_at loadU32LE 1 b)
      in storeU32LE y @ storeU32LE z)"

definition xtea_decryptBlock :: "XteaCipher \<Rightarrow> bytes \<Rightarrow> bytes" where
  "xtea_decryptBlock x b =
     (let (y, z) = fold (xtea_unround x) (rev [0..<32]) (word_at loadU32LE 0 b, word_at loadU32LE 1 b)
      in storeU32LE y @ storeU32LE z)"

definition xtea_Encrypt :: "XteaCipher \<Rightarrow> bytes \<Rightarrow> crypt_error + bytes" where
  "xtea_Encrypt x = ecb_crypt 8 (xtea_encryptBlock x)"

definition xtea_Decrypt :: "XteaCipher \<Rightarrow> bytes \<Rightarrow> crypt_error + bytes" where
  "xtea_Decrypt x = ecb_crypt 8 (xtea_decryptBlock x)"

lemma xtea_unround [simp]: "xtea_unround x r (xtea_round x r s) = s"
  by (cases s) (simp add: xtea_round_def xtea_unround_def Let_def)

lemma word_at_pair [simp]:
  "word_at loadU32LE 0 (storeU32LE y @ storeU32LE z) = y" "word_at loadU32LE 1 (storeU32LE y @ storeU32LE z) = z"
  "word_at loadU32BE 0 (storeU32BE y @ storeU32BE z) = y" "word_at loadU32BE 1 (storeU32BE y @ storeU32BE z) = z"
  by (simp_all add: word_at_def)

lemma words_of_pair [simp]:
  assumes "length b = 8"
  shows "storeU32LE (word_at loadU32LE 0 b) @ storeU32LE (word_at loadU32LE 1 b) = b"
    and "storeU32BE (word_at loadU32BE 0 b) @ storeU32BE (word_at loadU32BE 1 b) = b"
  using assms split8 [OF assms] by (simp_all add: word_at_def)

declare word_at_pair [unfolded One_nat_def, simp] words_of_pair [unfolded One_nat_def, simp]

interpretation xtea: block_cipher 8 "xtea_encryptBlock x" "xtea_decryptBlock x" for x
proof (unfold_locales, goal_cases)
  case (3 b)
  let ?s = "(word_at loadU32LE 0 b, word_at loadU32LE 1 b)"
  have "fold (xtea_unround x) (rev [0..<32]) (fold (xtea_round x) [0..<32] ?s) = ?s"
    by (rule fold_inverse) simp
  with 3 show ?case
    by (cases "fold (xtea_round x) [0..<32] ?s") (simp add: xtea_encryptBlock_def xtea_decryptBlock_def del: upt_Suc)
qed (simp_all add: xtea_encryptBlock_def split_beta)

subsection \<open>RC6\<close>

record Rc6Cipher =
  rc_S :: bytes

definition ror32b :: "u32 \<Rightarrow> nat \<Rightarrow> u32" where
  "ror32b v n = (let n = n mod 32 in drop_bit n v OR push_bit (32 - n) v)"

definition rol32b :: "u32 \<Rightarrow> nat \<Rightarrow> u32" where
  "rol32b v n = (let n = n mod 32 in push_bit n v OR drop_bit (32 - n) v)"

text \<open>One step of the mixing loop of \<open>keySetup\<close>; the state is \<open>(S, v7, v11, idx, v15, v14)\<close>.\<close>

definition rc6_mix :: "nat \<Rightarrow> bytes \<times> u32 list \<times> nat \<times> nat \<times> u32 \<times> u32 \<Rightarrow> bytes \<times> u32 list \<times> nat \<times> nat \<times> u32 \<times> u32" where
  "rc6_mix keyWords = (\<lambda>(S, v7, v11, idx, v15, v14).
     let v3 = ror32b (v15 + v14 + ucast (S ! idx)) 29;
         S = S[idx := ucast v3];
         v14 = ucast (S ! idx);
         shift = unat ((v14 + v15) AND 0x1F);
         v7 = v7[v11 := rol32b (v15 + v14 + v7 ! v11) shift];
         v15 = v7 ! v11
     in (S, v7, (v11 + 1) mod keyWords, (idx + 1) mod 44, v15, v14))"

definition rc6_keyWords :: "bytes \<Rightarrow> u32 list" where
  "rc6_keyWords key =
     fold (\<lambda>i v7. v7[i div 4 := push_bit 8 (v7 ! (i div 4)) + ucast (key ! i)]) (rev [0..<length key])
       (replicate ((length key + 3) div 4) 0)"

fun rc6_initS :: "nat \<Rightarrow> u8 \<Rightarrow> bytes" where
  "rc6_initS 0 b = []"
| "rc6_initS (Suc n) b = b # rc6_initS n (b - 71)"

definition rc6_keySetup :: "bytes \<Rightarrow> bytes" where
  "rc6_keySetup key =
     (let v7 = rc6_keyWords key; keyWords = length v7; limit = 3 * max 44 keyWords
      in fst ((rc6_mix keyWords ^^ limit) (rc6_initS 44 99, v7, 0, 0, 0, 0)))"

definition rc6_SetKey :: "bytes \<Rightarrow> crypt_error + Rc6Cipher" where
  "rc6_SetKey key =
     (if length key < 16 then Inl ErrInvalidKeySize else Inr \<lparr>rc_S = rc6_keySetup (take 32 key)\<rparr>)"

abbreviation rc6_f :: "u32 \<Rightarrow> u32" where
  "rc6_f v \<equiv> ror32b (v * (2 * v + 1)) 27"

definition rc6_round :: "bytes \<Rightarrow> nat \<Rightarrow> u32 \<times> u32 \<times> u32 \<times> u32 \<Rightarrow> u32 \<times> u32 \<times> u32 \<times> u32" where
  "rc6_round S j = (\<lambda>(v10, v11, v12, v13).
     let v3 = rc6_f v11; v5 = rc6_f v13
     in (v11, rol32b (v5 XOR v12) (unat (v3 AND 0x1F)) + ucast (S ! (j + 1)),
         v13, rol32b (v3 XOR v10) (unat (v5 AND 0x1F)) + ucast (S ! j)))"

definition rc6_unround :: "bytes \<Rightarrow> nat \<Rightarrow> u32 \<times> u32 \<times> u32 \<times> u32 \<Rightarrow> u32 \<times> u32 \<times> u32 \<times> u32" where
  "rc6_unround S j = (\<lambda>(v12, v13, v14, v15).
     let v3 = v15; v15 = v14; v4 = v13; v13 = v12;
         v5 = rc6_f v15; v7 = rc6_f v13
     in (v7 XOR ror32b (v3 - ucast (S ! j)) (unat (v5 AND 0x1F)), v13,
         v5 XOR ror32b (v4 - ucast (S ! (j + 1))) (unat (v7 AND 0x1F)), v15))"

abbreviation rc6_rounds :: "nat list" where
  "rc6_rounds \<equiv> map (\<lambda>i. 2 * i) [1..<21]"

definition rc6_encryptBlock :: "Rc6Cipher \<Rightarrow> bytes \<Rightarrow> bytes" where
  "rc6_encryptBlock r b =
     (let S = rc_S r;
          (v10, v11, v12, v13) = fold (rc6_round S) rc6_rounds
            (word_at loadU32LE 0 b, ucast (S ! 0) + word_at loadU32LE 1 b,
             word_at loadU32LE 2 b, ucast (S ! 1) + word_at loadU32LE 3 b)
      in storeU32LE (ucast (S ! 42) + v10) @ storeU32LE v11 @ storeU32LE (ucast (S ! 43) + v12) @ storeU32LE v13)"

definition rc6_decryptBlock :: "Rc6Cipher \<Rightarrow> bytes \<Rightarrow> bytes" where
  "rc6_decryptBlock r b =
     (let S = rc_S r;
          (v12, v13, v14, v15) = fold (rc6_unround S) (rev rc6_rounds)
            (word_at loadU32LE 0 b - ucast (S ! 42), word_at loadU32LE 1 b,
             word_at loadU32LE 2 b - ucast (S ! 43), word_at loadU32LE 3 b)
      in storeU32LE v12 @ storeU32LE (v13 - ucast (S ! 0)) @ storeU32LE v14 @ storeU32LE (v15 - ucast (S ! 1)))"

definition rc6_Encrypt :: "Rc6Cipher \<Rightarrow> bytes \<Rightarrow> crypt_error + bytes" where
  "rc6_Encrypt r = ecb_crypt 16 (rc6_encryptBlock r)"

definition rc6_Decrypt :: "Rc6Cipher \<Rightarrow> bytes \<Rightarrow> crypt_error + bytes" where
  "rc6_Decrypt r = ecb_crypt 16 (rc6_decryptBlock r)"

lemma rol32b_eq: "rol32b v n = rol32 v n"
  by (simp add: rol32b_def rol32_def Let_def)

lemma ror32b_eq: "ror32b v n = ror32 v n"
  by (simp add: ror32b_def ror32_def Let_def)

lemma xor_cancel [simp]: "a XOR (a XOR b) = (b :: 'a::len word)"
  by (simp flip: xor.assoc)

lemma rc6_unround [simp]: "rc6_unround S j (rc6_round S j s) = s"
  by (cases s) (simp add: rc6_round_def rc6_unround_def Let_def rol32b_eq ror32b_eq)

lemma word_at_quad [simp]:
  "word_at loadU32LE 0 (storeU32LE a @ storeU32LE b @ storeU32LE c @ storeU32LE d) = a"
  "word_at loadU32LE 1 (storeU32LE a @ storeU32LE b @ storeU32LE c @ storeU32LE d) = b"
  "word_at loadU32LE 2 (storeU32LE a @ storeU32LE b @ storeU32LE c @ storeU32LE d) = c"
  "word_at loadU32LE 3 (storeU32LE a @ storeU32LE b @ storeU32LE c @ storeU32LE d) = d"
  "word_at loadU32BE 0 (storeU32BE a @ storeU32BE b @ storeU32BE c @ storeU32BE d) = a"
  "word_at loadU32BE 1 (storeU32BE a @ storeU32BE b @ storeU32BE c @ storeU32BE d) = b"
  "word_at loadU32BE 2 (storeU32BE a @ storeU32BE b @ storeU32BE c @ storeU32BE d) = c"
  "word_at loadU32BE 3 (storeU32BE a @ storeU32BE b @ storeU32BE c @ storeU32BE d) = d"
  by (simp_all add: word_at_def)

lemma words_of_quad [simp]:
  assumes "length b = 16"
  shows "storeU32LE (word_at loadU32LE 0 b) @ storeU32LE (word_at loadU32LE 1 b)
      @ storeU32LE (word_at loadU32LE 2 b) @ storeU32LE (word_at loadU32LE 3 b) = b"
    and "storeU32BE (word_at loadU32BE 0 b) @ storeU32BE (word_at loadU32BE 1 b)
      @ storeU32BE (word_at loadU32BE 2 b) @ storeU32BE (word_at loadU32BE 3 b) = b"
  using assms split16 [OF assms] by (simp_all add: word_at_def)

declare word_at_quad [unfolded One_nat_def, simp] words_of_quad [unfolded One_nat_def, simp]

interpretation rc6: block_cipher 16 "rc6_encryptBlock r" "rc6_decryptBlock r" for r
proof (unfold_locales, goal_cases)
  case (3 b)
  let ?S = "rc_S r"
  let ?s = "(word_at loadU32LE 0 b, ucast (?S ! 0) + word_at loadU32LE 1 b,
             word_at loadU32LE 2 b, ucast (?S ! 1) + word_at loadU32LE 3 b) :: u32 \<times> u32 \<times> u32 \<times> u32"
  obtain v10 v11 v12 v13 where f: "fold (rc6_round ?S) rc6_rounds ?s = (v10, v11, v12, v13)"
    by (cases "fold (rc6_round ?S) rc6_rounds ?s") auto
  have "fold (rc6_unround ?S) (rev rc6_rounds) (v10, v11, v12, v13) = ?s"
    unfolding f [symmetric] by (rule fold_inverse) simp
  with 3 f show ?case
    by (simp add: rc6_encryptBlock_def rc6_decryptBlock_def Let_def del: fold_map)
qed (simp_all add: rc6_encryptBlock_def split_beta Let_def)

subsection \<open>MULTI2\<close>

record Multi2Cipher =
  m2_N :: nat
  m2_uk :: "u32 list"

definition multi2Rounds :: nat where "multi2Rounds = 128"

definition multi2Pi1 :: "u32 \<times> u32 \<Rightarrow> u32 \<times> u32" where
  "multi2Pi1 = (\<lambda>(p0, p1). (p0, p1 XOR p0))"

definition multi2Pi2 :: "u32 list \<Rightarrow> u32 \<times> u32 \<Rightarrow> u32 \<times> u32" where
  "multi2Pi2 key = (\<lambda>(p0, p1).
     let t = p1 + key ! 0;
         t = rol32 t 1 + t - 1;
         t = rol32 t 4 XOR t
     in (p0 XOR t, p1))"

definition multi2Pi3 :: "u32 list \<Rightarrow> u32 \<times> u32 \<Rightarrow> u32 \<times> u32" where
  "multi2Pi3 key = (\<lambda>(p0, p1).
     let t = p0 + key ! 1;
         t = rol32 t 2 + t + 1;
         t = rol32 t 8 XOR t;
         t = t + key ! 2;
         t = rol32 t 1 - t;
         t = rol32 t 16 XOR (p0 OR t)
     in (p0, p1 XOR t))"

definition multi2Pi4 :: "u32 list \<Rightarrow> u32 \<times> u32 \<Rightarrow> u32 \<times> u32" where
  "multi2Pi4 key = (\<lambda>(p0, p1).
     let t = p1 + key ! 3;
         t = rol32 t 2 + t + 1
     in (p0 XOR t, p1))"

definition multi2Setup :: "u32 \<times> u32 \<Rightarrow> u32 list \<Rightarrow> u32 list" where
  "multi2Setup dataKey systemKey =
     (let p1 = multi2Pi2 systemKey (multi2Pi1 dataKey);
          p2 = multi2Pi3 systemKey p1;
          p3 = multi2Pi4 systemKey p2;
          p4 = multi2Pi1 p3;
          p5 = multi2Pi2 (drop 4 systemKey) p4;
          p6 = multi2Pi3 (drop 4 systemKey) p5;
          p7 = multi2Pi4 (drop 4 systemKey) p6;
          p8 = multi2Pi1 p7
      in [fst p1, snd p2, fst p3, snd p4, fst p5, snd p6, fst p7, snd p8])"

definition multi2_SetKey :: "bytes \<Rightarrow> crypt_error + Multi2Cipher" where
  "multi2_SetKey key =
     (if length key \<noteq> 40 then Inl ErrInvalidKeySize
      else let systemKey = map (\<lambda>i. word_at loadU32BE i key) [0..<8];
               dataKey = (word_at loadU32BE 8 key, word_at loadU32BE 9 key)
           in Inr \<lparr>m2_N = multi2Rounds, m2_uk = multi2Setup dataKey systemKey\<rparr>)"

text \<open>The step of round \<open>round\<close>, with the slice of the user key at the offset.\<close>

definition multi2_step :: "nat \<Rightarrow> nat \<Rightarrow> u32 list \<Rightarrow> u32 \<times> u32 \<Rightarrow> u32 \<times> u32" where
  "multi2_step round keyOffset userKey =
     (if round mod 4 = 0 then multi2Pi1
      else if round mod 4 = 1 then multi2Pi2 (drop keyOffset userKey)
      else if round mod 4 = 2 then multi2Pi3 (drop keyOffset userKey)
      else multi2Pi4 (drop keyOffset userKey))"

text \<open>
  The loops of the two block functions from a round on: \<open>n\<close> rounds forwards, and \<open>round\<close> rounds
  backwards. The offset \<open>keyOffset ^= 4\<close> alternates between 0 and 4 after a group of four.
\<close>

fun multi2EncryptBlock :: "nat \<Rightarrow> nat \<Rightarrow> nat \<Rightarrow> u32 list \<Rightarrow> u32 \<times> u32 \<Rightarrow> u32 \<times> u32" where
  "multi2EncryptBlock 0 round keyOffset userKey p = p"
| "multi2EncryptBlock (Suc n) round keyOffset userKey p =
     multi2EncryptBlock n (Suc round) (if round mod 4 = 3 then 4 - keyOffset else keyOffset) userKey
       (multi2_step round keyOffset userKey p)"

fun multi2DecryptBlock :: "nat \<Rightarrow> nat \<Rightarrow> u32 list \<Rightarrow> u32 \<times> u32 \<Rightarrow> u32 \<times> u32" where
  "multi2DecryptBlock 0 keyOffset userKey p = p"
| "multi2DecryptBlock (Suc round) keyOffset userKey p =
     multi2DecryptBlock round (if round mod 4 = 0 then 4 - keyOffset else keyOffset) userKey
       (multi2_step round keyOffset userKey p)"

definition multi2_encryptBlock :: "Multi2Cipher \<Rightarrow> bytes \<Rightarrow> bytes" where
  "multi2_encryptBlock m b =
     (let (p0, p1) = multi2EncryptBlock (m2_N m) 0 0 (m2_uk m) (word_at loadU32BE 0 b, word_at loadU32BE 1 b)
      in storeU32BE p0 @ storeU32BE p1)"

definition multi2_decryptBlock :: "Multi2Cipher \<Rightarrow> bytes \<Rightarrow> bytes" where
  "multi2_decryptBlock m b =
     (let (p0, p1) = multi2DecryptBlock (m2_N m) (4 * ((m2_N m - 1) div 4 mod 2)) (m2_uk m)
            (word_at loadU32BE 0 b, word_at loadU32BE 1 b)
      in storeU32BE p0 @ storeU32BE p1)"

definition multi2_Encrypt :: "Multi2Cipher \<Rightarrow> bytes \<Rightarrow> crypt_error + bytes" where
  "multi2_Encrypt m data =
     (if m2_N m \<noteq> multi2Rounds then Inl ErrInvalidKeySize else ecb_crypt 8 (multi2_encryptBlock m) data)"

definition multi2_Decrypt :: "Multi2Cipher \<Rightarrow> bytes \<Rightarrow> crypt_error + bytes" where
  "multi2_Decrypt m data =
     (if m2_N m \<noteq> multi2Rounds then Inl ErrInvalidKeySize else ecb_crypt 8 (multi2_decryptBlock m) data)"

lemma xor_cancel_right [simp]: "(a XOR b) XOR b = (a :: 'a::len word)"
  by (simp add: xor.assoc)

lemma multi2_step_involution [simp]: "multi2_step r off uk (multi2_step r off uk p) = p"
  by (cases p) (simp add: multi2_step_def multi2Pi1_def multi2Pi2_def multi2Pi3_def multi2Pi4_def Let_def)

abbreviation multi2_at :: "u32 list \<Rightarrow> nat \<Rightarrow> u32 \<times> u32 \<Rightarrow> u32 \<times> u32" where
  "multi2_at uk r \<equiv> multi2_step r (4 * (r div 4 mod 2)) uk"

lemma multi2_offset:
  "(if r mod 4 = 3 then 4 - 4 * (r div 4 mod 2) else 4 * (r div 4 mod 2)) = 4 * (Suc r div 4 mod 2)"
  by (cases "r mod 4 = 3") (auto simp: div_Suc mod_Suc split: if_splits; presburger)+

lemma multi2EncryptBlock_fold:
  "multi2EncryptBlock n r (4 * (r div 4 mod 2)) uk p = fold (multi2_at uk) [r..<r + n] p"
proof (induction n arbitrary: r p)
  case (Suc n)
  have "[r..<r + Suc n] = r # [Suc r..<Suc r + n]" by (simp add: upt_conv_Cons)
  with Suc [of "Suc r"] show ?case by (simp add: multi2_offset)
qed simp

lemma multi2DecryptBlock_fold:
  "multi2DecryptBlock n (4 * ((n - 1) div 4 mod 2)) uk p = fold (multi2_at uk) (rev [0..<n]) p"
proof (induction n arbitrary: p)
  case (Suc n)
  show ?case
  proof (cases n)
    case (Suc k)
    have "(if n mod 4 = 0 then 4 - 4 * (n div 4 mod 2) else 4 * (n div 4 mod 2)) = 4 * ((n - 1) div 4 mod 2)"
      unfolding Suc by (cases "Suc k mod 4 = 0") (auto simp: div_Suc mod_Suc split: if_splits; presburger)+
    with Suc.IH show ?thesis by simp
  qed simp
qed simp

interpretation multi2: block_cipher 8 "multi2_encryptBlock m" "multi2_decryptBlock m" for m
proof (unfold_locales, goal_cases)
  case (3 b)
  let ?p = "(word_at loadU32BE 0 b, word_at loadU32BE 1 b)"
  have e: "multi2EncryptBlock (m2_N m) 0 0 (m2_uk m) ?p = fold (multi2_at (m2_uk m)) [0..<m2_N m] ?p"
    using multi2EncryptBlock_fold [of "m2_N m" 0] by simp
  have "fold (multi2_at (m2_uk m)) (rev [0..<m2_N m]) (fold (multi2_at (m2_uk m)) [0..<m2_N m] ?p) = ?p"
    by (rule fold_inverse) simp
  with 3 show ?case
    by (cases "fold (multi2_at (m2_uk m)) [0..<m2_N m] ?p")
      (simp add: multi2_encryptBlock_def multi2_decryptBlock_def multi2DecryptBlock_fold e del: One_nat_def)
qed (simp_all add: multi2_encryptBlock_def split_beta)

subsection \<open>NOEKEON\<close>

type_synonym quad = "u32 \<times> u32 \<times> u32 \<times> u32"

record NoekeonCipher =
  nk_K :: quad
  nk_dK :: quad

definition noekeonRC :: "u32 list" where
  "noekeonRC =
     [0x00000080, 0x0000001b, 0x00000036, 0x0000006c, 0x000000d8, 0x000000ab, 0x0000004d, 0x0000009a,
      0x0000002f, 0x0000005e, 0x000000bc, 0x00000063, 0x000000c6, 0x00000097, 0x00000035, 0x0000006a,
      0x000000d4]"

abbreviation noekeon_spread :: "u32 \<Rightarrow> u32" where
  "noekeon_spread t \<equiv> t XOR rol32 t 8 XOR ror32 t 8"

definition kTheta :: "quad \<Rightarrow> quad" where
  "kTheta = (\<lambda>(a, b, c, d).
     let temp = noekeon_spread (a XOR c);
         b = b XOR temp; d = d XOR temp;
         temp = noekeon_spread (b XOR d);
         a = a XOR temp; c = c XOR temp
     in (a, b, c, d))"

definition theta :: "quad \<Rightarrow> quad \<Rightarrow> quad" where
  "theta k = (\<lambda>(a, b, c, d).
     case k of (k0, k1, k2, k3) \<Rightarrow>
     let temp = noekeon_spread (a XOR c);
         b = b XOR (temp XOR k1); d = d XOR (temp XOR k3);
         temp = noekeon_spread (b XOR d);
         a = a XOR (temp XOR k0); c = c XOR (temp XOR k2)
     in (a, b, c, d))"

definition gamma :: "quad \<Rightarrow> quad" where
  "gamma = (\<lambda>(a, b, c, d).
     let b = b XOR NOT (d OR c);
         a = a XOR (c AND b);
         (d, a) = (a, d);
         c = c XOR (a XOR b XOR d);
         b = b XOR NOT (d OR c);
         a = a XOR (c AND b)
     in (a, b, c, d))"

text \<open>The calls \<open>pi1(&b, &a, &c, &d)\<close> and \<open>pi2(&b, &a, &c, &d)\<close>, which rotate \<open>a\<close>, \<open>c\<close> and \<open>d\<close>.\<close>

definition pi1 :: "quad \<Rightarrow> quad" where
  "pi1 = (\<lambda>(a, b, c, d). (rol32 a 1, b, rol32 c 5, rol32 d 2))"

definition pi2 :: "quad \<Rightarrow> quad" where
  "pi2 = (\<lambda>(a, b, c, d). (ror32 a 1, b, ror32 c 5, ror32 d 2))"

definition noekeon_const :: "nat \<Rightarrow> quad \<Rightarrow> quad" where
  "noekeon_const r = (\<lambda>(a, b, c, d). (a XOR noekeonRC ! r, b, c, d))"

definition noekeon_SetKey :: "bytes \<Rightarrow> crypt_error + NoekeonCipher" where
  "noekeon_SetKey key =
     (if length key \<noteq> 16 then Inl ErrInvalidKeySize
      else let K = (word_at loadU32BE 0 key, word_at loadU32BE 1 key, word_at loadU32BE 2 key, word_at loadU32BE 3 key)
           in Inr \<lparr>nk_K = K, nk_dK = kTheta K\<rparr>)"

definition noekeon_encryptBlock :: "NoekeonCipher \<Rightarrow> bytes \<Rightarrow> bytes" where
  "noekeon_encryptBlock n s =
     (let s1 = fold (\<lambda>r s. pi2 (gamma (pi1 (theta (nk_K n) (noekeon_const r s))))) [0..<16]
            (word_at loadU32BE 0 s, word_at loadU32BE 1 s, word_at loadU32BE 2 s, word_at loadU32BE 3 s);
          (a, b, c, d) = theta (nk_K n) (noekeon_const 16 s1)
      in storeU32BE a @ storeU32BE b @ storeU32BE c @ storeU32BE d)"

definition noekeon_decryptBlock :: "NoekeonCipher \<Rightarrow> bytes \<Rightarrow> bytes" where
  "noekeon_decryptBlock n s =
     (let s1 = fold (\<lambda>r s. pi2 (gamma (pi1 (noekeon_const r (theta (nk_dK n) s))))) (rev [1..<17])
            (word_at loadU32BE 0 s, word_at loadU32BE 1 s, word_at loadU32BE 2 s, word_at loadU32BE 3 s);
          (a, b, c, d) = noekeon_const 0 (theta (nk_dK n) s1)
      in storeU32BE a @ storeU32BE b @ storeU32BE c @ storeU32BE d)"

definition noekeon_Encrypt :: "NoekeonCipher \<Rightarrow> bytes \<Rightarrow> crypt_error + bytes" where
  "noekeon_Encrypt n = ecb_crypt 16 (noekeon_encryptBlock n)"

definition noekeon_Decrypt :: "NoekeonCipher \<Rightarrow> bytes \<Rightarrow> crypt_error + bytes" where
  "noekeon_Decrypt n = ecb_crypt 16 (noekeon_decryptBlock n)"

lemma rot_xor:
  "rol32 (x XOR y) n = rol32 x n XOR rol32 y n" "ror32 (x XOR y) n = ror32 x n XOR ror32 y n"
  by (simp_all add: rol32_rotl ror32_rotr word_rot_logs)

lemma xor_left_commute_cancel [simp]: "a XOR (b XOR (a XOR c)) = b XOR (c :: 'a::len word)"
  by (metis xor.left_commute xor_cancel)

lemma theta_inverse [simp]: "theta (kTheta k) (theta k s) = s"
  by (cases s; cases k)
    (simp add: theta_def kTheta_def Let_def rot_xor xor.assoc xor.left_commute xor.commute)

lemma gamma_involution [simp]: "gamma (gamma s) = s"
  by (cases s) (auto simp: gamma_def Let_def intro!: bit_word_eqI simp: bit_simps)

lemma pi_inverse [simp]: "pi1 (pi2 s) = s" "pi2 (pi1 s) = s"
  by (cases s; simp add: pi1_def pi2_def)+

lemma noekeon_const_involution [simp]: "noekeon_const r (noekeon_const r s) = s"
  by (cases s) (simp add: noekeon_const_def)

lemma noekeon_rounds:
  assumes "dK = kTheta K"
  shows "fold (\<lambda>r s. pi2 (gamma (pi1 (noekeon_const r (theta dK s))))) (rev [1..<Suc n])
      (theta K (noekeon_const n (fold (\<lambda>r s. pi2 (gamma (pi1 (theta K (noekeon_const r s))))) [0..<n] s)))
    = theta K (noekeon_const 0 s)"
  using assms by (induction n) simp_all

abbreviation noekeon_key :: "quad \<Rightarrow> NoekeonCipher" where
  "noekeon_key K \<equiv> \<lparr>nk_K = K, nk_dK = kTheta K\<rparr>"

interpretation noekeon: block_cipher 16 "noekeon_encryptBlock (noekeon_key K)" "noekeon_decryptBlock (noekeon_key K)" for K
proof (unfold_locales, goal_cases)
  case (3 b)
  let ?s = "(word_at loadU32BE 0 b, word_at loadU32BE 1 b, word_at loadU32BE 2 b, word_at loadU32BE 3 b)"
  obtain a1 b1 c1 d1 where e: "theta K (noekeon_const 16
      (fold (\<lambda>r s. pi2 (gamma (pi1 (theta K (noekeon_const r s))))) [0..<16] ?s)) = (a1, b1, c1, d1)"
    by (metis prod.collapse)
  have "fold (\<lambda>r s. pi2 (gamma (pi1 (noekeon_const r (theta (kTheta K) s))))) (rev [1..<17]) (a1, b1, c1, d1)
      = theta K (noekeon_const 0 ?s)"
    using noekeon_rounds [OF refl, of K 16 ?s] e by simp
  with 3 e show ?case
    by (simp add: noekeon_encryptBlock_def noekeon_decryptBlock_def Let_def del: One_nat_def upt_Suc upt_rec_numeral)
qed (simp_all add: noekeon_encryptBlock_def split_beta Let_def)

subsection \<open>TEA\<close>

datatype cipher_mode = ECB | CBC | CFB

record TeaCipher =
  tea_key :: "u32 list"
  tea_chain :: bytes
  tea_mode :: cipher_mode

definition tea_SetKey :: "bytes \<Rightarrow> TeaCipher \<Rightarrow> crypt_error + TeaCipher" where
  "tea_SetKey key t =
     (if length key < 16 then Inl ErrInvalidKeySize
      else Inr (t\<lparr>tea_key := map (\<lambda>i. word_at loadU32BE i key) [0, 1, 2, 3], tea_mode := ECB\<rparr>))"

definition tea_ResetChain :: "TeaCipher \<Rightarrow> TeaCipher" where
  "tea_ResetChain t = t\<lparr>tea_chain := replicate 8 0\<rparr>"

definition tea_SetMode :: "cipher_mode \<Rightarrow> TeaCipher \<Rightarrow> TeaCipher" where
  "tea_SetMode mode t = t\<lparr>tea_mode := mode\<rparr>"

text \<open>
  In Go \<open>+\<close> and binary \<open>^\<close> have the same precedence and associate to the left, so the round
  function is \<open>((((z << 4) ^ (z >> 5)) + z) ^ sum) + key\<close>.
\<close>

definition tea_f :: "u32 \<Rightarrow> u32 \<Rightarrow> u32 \<Rightarrow> u32" where
  "tea_f v acc k = (((push_bit 4 v XOR drop_bit 5 v) + v) XOR acc) + k"

definition tea_round :: "u32 list \<Rightarrow> u32 \<times> u32 \<times> u32 \<Rightarrow> u32 \<times> u32 \<times> u32" where
  "tea_round key = (\<lambda>(y, z, acc).
     let acc = acc + 0x9E3779B9;
         y = y + tea_f z acc (key ! unat (acc AND 3));
         z = z + tea_f y acc (key ! unat (drop_bit 11 acc AND 3))
     in (y, z, acc))"

definition tea_unround :: "u32 list \<Rightarrow> u32 \<times> u32 \<times> u32 \<Rightarrow> u32 \<times> u32 \<times> u32" where
  "tea_unround key = (\<lambda>(y, z, acc).
     let z = z - tea_f y acc (key ! unat (drop_bit 11 acc AND 3));
         acc = acc - 0x9E3779B9;
         y = y - tea_f z acc (key ! unat (acc AND 3))
     in (y, z, acc))"

definition tea_encryptBlock :: "TeaCipher \<Rightarrow> bytes \<Rightarrow> bytes" where
  "tea_encryptBlock t b =
     (let (y, z, acc) = (tea_round (tea_key t) ^^ 32) (word_at loadU32BE 0 b, word_at loadU32BE 1 b, 0)
      in storeU32BE y @ storeU32BE z)"

definition tea_decryptBlock :: "TeaCipher \<Rightarrow> bytes \<Rightarrow> bytes" where
  "tea_decryptBlock t b =
     (let (y, z, acc) = (tea_unround (tea_key t) ^^ 32) (word_at loadU32BE 0 b, word_at loadU32BE 1 b, 0xC6EF3720)
      in storeU32BE y @ storeU32BE z)"

text \<open>The chained modes; the chain starts from the cipher's and is not written back.\<close>

abbreviation xor_bytes :: "bytes \<Rightarrow> bytes \<Rightarrow> bytes" where
  "xor_bytes a b \<equiv> map2 (XOR) a b"

function cbc_encrypt :: "(bytes \<Rightarrow> bytes) \<Rightarrow> bytes \<Rightarrow> bytes \<Rightarrow> bytes" where
  "cbc_encrypt f chain data =
     (if data = [] then [] else
        let out = f (xor_bytes chain (take 8 data)) in out @ cbc_encrypt f out (drop 8 data))"
  by auto
termination by (relation "measure (\<lambda>(f, chain, data). length data)") auto

function cbc_decrypt :: "(bytes \<Rightarrow> bytes) \<Rightarrow> bytes \<Rightarrow> bytes \<Rightarrow> bytes" where
  "cbc_decrypt f chain data =
     (if data = [] then [] else
        xor_bytes (f (take 8 data)) chain @ cbc_decrypt f (take 8 data) (drop 8 data))"
  by auto
termination by (relation "measure (\<lambda>(f, chain, data). length data)") auto

function cfb_encrypt :: "(bytes \<Rightarrow> bytes) \<Rightarrow> bytes \<Rightarrow> bytes \<Rightarrow> bytes" where
  "cfb_encrypt f chain data =
     (if data = [] then [] else
        let out = xor_bytes (f chain) (take 8 data) in out @ cfb_encrypt f out (drop 8 data))"
  by auto
termination by (relation "measure (\<lambda>(f, chain, data). length data)") auto

function cfb_decrypt :: "(bytes \<Rightarrow> bytes) \<Rightarrow> bytes \<Rightarrow> bytes \<Rightarrow> bytes" where
  "cfb_decrypt f chain data =
     (if data = [] then [] else
        xor_bytes (f chain) (take 8 data) @ cfb_decrypt f (take 8 data) (drop 8 data))"
  by auto
termination by (relation "measure (\<lambda>(f, chain, data). length data)") auto

declare cbc_encrypt.simps [simp del] cbc_decrypt.simps [simp del] cfb_encrypt.simps [simp del] cfb_decrypt.simps [simp del]

definition tea_Encrypt :: "TeaCipher \<Rightarrow> bytes \<Rightarrow> crypt_error + bytes" where
  "tea_Encrypt t data =
     (if length data mod 8 \<noteq> 0 then Inl ErrInvalidBlockSize
      else Inr (case tea_mode t of
                  CBC \<Rightarrow> cbc_encrypt (tea_encryptBlock t) (tea_chain t) data
                | CFB \<Rightarrow> cfb_encrypt (tea_encryptBlock t) (tea_chain t) data
                | ECB \<Rightarrow> ecb 8 (tea_encryptBlock t) data))"

definition tea_Decrypt :: "TeaCipher \<Rightarrow> bytes \<Rightarrow> crypt_error + bytes" where
  "tea_Decrypt t data =
     (if length data mod 8 \<noteq> 0 then Inl ErrInvalidBlockSize
      else Inr (case tea_mode t of
                  CBC \<Rightarrow> cbc_decrypt (tea_decryptBlock t) (tea_chain t) data
                | CFB \<Rightarrow> cfb_decrypt (tea_encryptBlock t) (tea_chain t) data
                | ECB \<Rightarrow> ecb 8 (tea_decryptBlock t) data))"

definition zero_tea :: TeaCipher where
  "zero_tea = \<lparr>tea_key = [0, 0, 0, 0], tea_chain = replicate 8 0, tea_mode = ECB\<rparr>"

lemma xor_bytes_cancel:
  "length a = length b \<Longrightarrow> xor_bytes a (xor_bytes a b) = b"
  by (induction a b rule: list_induct2) simp_all

lemma cfb_round_trip:
  assumes "length data mod 8 = 0" and "length chain = 8" and f: "\<And>b. length b = 8 \<Longrightarrow> length (f b) = 8"
  shows "cfb_decrypt f chain (cfb_encrypt f chain data) = data"
proof -
  have "(0::nat) < 8" by simp
  from this assms(1,2) show ?thesis
  proof (induction data arbitrary: chain rule: blocks_induct)
    case (Block b rest)
    moreover have "f chain \<noteq> []" "b \<noteq> []" using f [of chain] Block by auto
    ultimately show ?case
      by (subst cfb_encrypt.simps, subst cfb_decrypt.simps) (simp add: Let_def f xor_bytes_cancel)
  qed (simp add: cfb_encrypt.simps cfb_decrypt.simps)
qed


end
