(* ===== verification/Ciphers_Feistel.thy ===== *)
theory Ciphers_Feistel
  imports Cipher_Tables Ciphers_Arx
begin

section \<open>The Feistel ciphers\<close>

text \<open>
  \<open>kasumi.go\<close>, \<open>skipjack.go\<close>, \<open>blowfish.go\<close>, \<open>cast5.go\<close> and \<open>twofish.go\<close>. In all of them a
  round xors a function of one half into the other, so decryption runs the same functions
  backwards; each cipher interprets \<open>block_cipher\<close>.
\<close>

text \<open>Rounds undone in reverse order, through a change \<open>h\<close> of representation and under an invariant.\<close>

lemma fold_inverse_via:
  assumes "\<And>r s. r \<in> set rs \<Longrightarrow> P s \<Longrightarrow> P (f r s) \<and> g r (h (f r s)) = h s" and "P s"
  shows "P (fold f rs s) \<and> fold g (rev rs) (h (fold f rs s)) = h s"
  using assms by (induction rs arbitrary: s) (simp_all add: fold_append)

subsection \<open>KASUMI\<close>

record KasumiCipher =
  KLi1 :: "u16 list"
  KLi2 :: "u16 list"
  KOi1 :: "u16 list"
  KOi2 :: "u16 list"
  KOi3 :: "u16 list"
  KIi1 :: "u16 list"
  KIi2 :: "u16 list"
  KIi3 :: "u16 list"

definition kasumiROL16 :: "u16 \<Rightarrow> nat \<Rightarrow> u16" where
  "kasumiROL16 x y = (push_bit y x OR drop_bit (16 - y) x) AND 0xFFFF"

definition kasumi_SetKey :: "bytes \<Rightarrow> crypt_error + KasumiCipher" where
  "kasumi_SetKey key =
     (if length key \<noteq> 16 then Inl ErrInvalidKeySize
      else let C = [0x0123, 0x4567, 0x89AB, 0xCDEF, 0xFEDC, 0xBA98, 0x7654, 0x3210];
               ukey = map (\<lambda>n. push_bit 8 (ucast (key ! (2 * n))) OR ucast (key ! (2 * n + 1))) [0..<8];
               Kprime = map (\<lambda>n. ukey ! n XOR C ! n) [0..<8]
           in Inr \<lparr>KLi1 = map (\<lambda>n. kasumiROL16 (ukey ! n) 1) [0..<8],
                   KLi2 = map (\<lambda>n. Kprime ! ((n + 2) mod 8)) [0..<8],
                   KOi1 = map (\<lambda>n. kasumiROL16 (ukey ! ((n + 1) mod 8)) 5) [0..<8],
                   KOi2 = map (\<lambda>n. kasumiROL16 (ukey ! ((n + 5) mod 8)) 8) [0..<8],
                   KOi3 = map (\<lambda>n. kasumiROL16 (ukey ! ((n + 6) mod 8)) 13) [0..<8],
                   KIi1 = map (\<lambda>n. Kprime ! ((n + 4) mod 8)) [0..<8],
                   KIi2 = map (\<lambda>n. Kprime ! ((n + 3) mod 8)) [0..<8],
                   KIi3 = map (\<lambda>n. Kprime ! ((n + 7) mod 8)) [0..<8]\<rparr>)"

definition kasumiFI :: "u16 \<Rightarrow> u16 \<Rightarrow> u16" where
  "kasumiFI inp subkey =
     (let nine = drop_bit 7 inp AND 0x1FF;
          seven = inp AND 0x7F;
          nine = kasumiS9 ! unat nine XOR seven;
          seven = kasumiS7 ! unat seven XOR (nine AND 0x7F);
          seven = seven XOR drop_bit 9 subkey;
          nine = nine XOR (subkey AND 0x1FF);
          nine = kasumiS9 ! unat nine XOR seven;
          seven = kasumiS7 ! unat seven XOR (nine AND 0x7F)
      in push_bit 9 seven OR nine)"

definition kasumiFO :: "KasumiCipher \<Rightarrow> u32 \<Rightarrow> nat \<Rightarrow> u32" where
  "kasumiFO k inp round =
     (let left = ucast (drop_bit 16 inp) :: u16;
          right = ucast (inp AND 0xFFFF) :: u16;
          left = left XOR KOi1 k ! round;
          left = kasumiFI left (KIi1 k ! round);
          left = left XOR right;
          right = right XOR KOi2 k ! round;
          right = kasumiFI right (KIi2 k ! round);
          right = right XOR left;
          left = left XOR KOi3 k ! round;
          left = kasumiFI left (KIi3 k ! round);
          left = left XOR right
      in push_bit 16 (ucast right) OR ucast left)"

definition kasumiFL :: "KasumiCipher \<Rightarrow> u32 \<Rightarrow> nat \<Rightarrow> u32" where
  "kasumiFL k inp round =
     (let l = ucast (drop_bit 16 inp) :: u16;
          r = ucast (inp AND 0xFFFF) :: u16;
          a = l AND KLi1 k ! round;
          r = r XOR kasumiROL16 a 1;
          b = r OR KLi2 k ! round;
          l = l XOR kasumiROL16 b 1
      in push_bit 16 (ucast l) OR ucast r)"

text \<open>The loop body for \<open>n = 2 * i\<close> and \<open>n + 1\<close>, forwards and backwards.\<close>

definition kasumi_rounds :: "KasumiCipher \<Rightarrow> nat \<Rightarrow> u32 \<times> u32 \<Rightarrow> u32 \<times> u32" where
  "kasumi_rounds k i = (\<lambda>(left, right).
     let n = 2 * i;
         right = right XOR kasumiFO k (kasumiFL k left n) n;
         left = left XOR kasumiFL k (kasumiFO k right (n + 1)) (n + 1)
     in (left, right))"

definition kasumi_unrounds :: "KasumiCipher \<Rightarrow> nat \<Rightarrow> u32 \<times> u32 \<Rightarrow> u32 \<times> u32" where
  "kasumi_unrounds k i = (\<lambda>(left, right).
     let n = 2 * i + 1;
         left = left XOR kasumiFL k (kasumiFO k right n) n;
         right = right XOR kasumiFO k (kasumiFL k left (n - 1)) (n - 1)
     in (left, right))"

definition kasumi_encryptBlock :: "KasumiCipher \<Rightarrow> bytes \<Rightarrow> bytes" where
  "kasumi_encryptBlock k b =
     (let (left, right) = fold (kasumi_rounds k) [0..<4] (word_at loadU32BE 0 b, word_at loadU32BE 1 b)
      in storeU32BE left @ storeU32BE right)"

definition kasumi_decryptBlock :: "KasumiCipher \<Rightarrow> bytes \<Rightarrow> bytes" where
  "kasumi_decryptBlock k b =
     (let (left, right) = fold (kasumi_unrounds k) (rev [0..<4]) (word_at loadU32BE 0 b, word_at loadU32BE 1 b)
      in storeU32BE left @ storeU32BE right)"

definition kasumi_Encrypt :: "KasumiCipher \<Rightarrow> bytes \<Rightarrow> crypt_error + bytes" where
  "kasumi_Encrypt k = ecb_crypt 8 (kasumi_encryptBlock k)"

definition kasumi_Decrypt :: "KasumiCipher \<Rightarrow> bytes \<Rightarrow> crypt_error + bytes" where
  "kasumi_Decrypt k = ecb_crypt 8 (kasumi_decryptBlock k)"

lemma kasumi_unrounds [simp]: "kasumi_unrounds k i (kasumi_rounds k i s) = s"
  by (cases s) (simp add: kasumi_rounds_def kasumi_unrounds_def Let_def)

interpretation kasumi: block_cipher 8 "kasumi_encryptBlock k" "kasumi_decryptBlock k" for k
proof (unfold_locales, goal_cases)
  case (3 b)
  let ?s = "(word_at loadU32BE 0 b, word_at loadU32BE 1 b)"
  have "fold (kasumi_unrounds k) (rev [0..<4]) (fold (kasumi_rounds k) [0..<4] ?s) = ?s"
    by (rule fold_inverse) simp
  with 3 show ?case
    by (cases "fold (kasumi_rounds k) [0..<4] ?s")
      (simp add: kasumi_encryptBlock_def kasumi_decryptBlock_def del: upt_Suc upt_rec_numeral)
qed (simp_all add: kasumi_encryptBlock_def split_beta)

subsection \<open>Skipjack\<close>

record SkipjackCipher =
  sj_key :: bytes

definition skipjackKeyStep :: "nat list" where
  "skipjackKeyStep = [1, 2, 3, 4, 5, 6, 7, 8, 9, 0]"

definition skipjackIKeyStep :: "nat list" where
  "skipjackIKeyStep = [9, 0, 1, 2, 3, 4, 5, 6, 7, 8]"

definition skipjack_SetKey :: "bytes \<Rightarrow> crypt_error + SkipjackCipher" where
  "skipjack_SetKey key =
     (if length key \<noteq> 10 then Inl ErrInvalidKeySize else Inr \<lparr>sj_key = map (\<lambda>b. b AND 255) key\<rparr>)"

text \<open>\<open>uint32(g1)<<8 | uint32(g2)\<close>.\<close>

definition join8 :: "u8 \<Rightarrow> u8 \<Rightarrow> u32" where
  "join8 h l = push_bit 8 (ucast h) OR ucast l"

abbreviation skipjack_sub :: "bytes \<Rightarrow> u8 \<Rightarrow> nat \<Rightarrow> u8" where
  "skipjack_sub key g kp \<equiv> skipjackSbox ! unat (g XOR key ! kp)"

definition skipjackGFunc :: "u32 \<Rightarrow> nat \<Rightarrow> bytes \<Rightarrow> u32 \<times> nat" where
  "skipjackGFunc w kp key =
     (let g1 = ucast (drop_bit 8 w) :: u8; g2 = ucast w :: u8;
          g1 = g1 XOR skipjack_sub key g2 kp; kp = skipjackKeyStep ! kp;
          g2 = g2 XOR skipjack_sub key g1 kp; kp = skipjackKeyStep ! kp;
          g1 = g1 XOR skipjack_sub key g2 kp; kp = skipjackKeyStep ! kp;
          g2 = g2 XOR skipjack_sub key g1 kp; kp = skipjackKeyStep ! kp
      in (join8 g1 g2, kp))"

definition skipjackIGFunc :: "u32 \<Rightarrow> nat \<Rightarrow> bytes \<Rightarrow> u32 \<times> nat" where
  "skipjackIGFunc w kp key =
     (let g1 = ucast (drop_bit 8 w) :: u8; g2 = ucast w :: u8;
          kp = skipjackIKeyStep ! kp; g2 = g2 XOR skipjack_sub key g1 kp;
          kp = skipjackIKeyStep ! kp; g1 = g1 XOR skipjack_sub key g2 kp;
          kp = skipjackIKeyStep ! kp; g2 = g2 XOR skipjack_sub key g1 kp;
          kp = skipjackIKeyStep ! kp; g1 = g1 XOR skipjack_sub key g2 kp
      in (join8 g1 g2, kp))"

type_synonym skipjack_state = "u32 \<times> u32 \<times> u32 \<times> u32 \<times> nat"

text \<open>The bodies of the four loops: the first and third, and the second and fourth, agree.\<close>

definition skipjack_A :: "bytes \<Rightarrow> nat \<Rightarrow> skipjack_state \<Rightarrow> skipjack_state" where
  "skipjack_A key x = (\<lambda>(w1, w2, w3, w4, kp).
     let (tmp, kp) = skipjackGFunc w1 kp key in (tmp XOR w4 XOR of_nat x, tmp, w2, w3, kp))"

definition skipjack_B :: "bytes \<Rightarrow> nat \<Rightarrow> skipjack_state \<Rightarrow> skipjack_state" where
  "skipjack_B key x = (\<lambda>(w1, w2, w3, w4, kp).
     let (tmp, kp) = skipjackGFunc w1 kp key in (w4, tmp, w1 XOR w2 XOR of_nat x, w3, kp))"

definition skipjack_IA :: "bytes \<Rightarrow> nat \<Rightarrow> skipjack_state \<Rightarrow> skipjack_state" where
  "skipjack_IA key x = (\<lambda>(w1, w2, w3, w4, kp).
     let tmp = w1 XOR w2 XOR of_nat x; (w1, kp) = skipjackIGFunc w2 kp key in (w1, w3, w4, tmp, kp))"

definition skipjack_IB :: "bytes \<Rightarrow> nat \<Rightarrow> skipjack_state \<Rightarrow> skipjack_state" where
  "skipjack_IB key x = (\<lambda>(w1, w2, w3, w4, kp).
     let (tmp, kp) = skipjackIGFunc w2 kp key in (tmp, tmp XOR w3 XOR of_nat x, w4, w1, kp))"

definition load16 :: "bytes \<Rightarrow> nat \<Rightarrow> u32" where
  "load16 b i = join8 (b ! i) (b ! (i + 1))"

definition store16 :: "u32 \<Rightarrow> bytes" where
  "store16 w = [ucast (drop_bit 8 w), ucast w]"

definition skipjack_encryptBlock :: "SkipjackCipher \<Rightarrow> bytes \<Rightarrow> bytes" where
  "skipjack_encryptBlock s b =
     (let st = (load16 b 0, load16 b 2, load16 b 4, load16 b 6, 0);
          st = fold (skipjack_A (sj_key s)) [1..<9] st;
          st = fold (skipjack_B (sj_key s)) [9..<17] st;
          st = fold (skipjack_A (sj_key s)) [17..<25] st;
          (w1, w2, w3, w4, kp) = fold (skipjack_B (sj_key s)) [25..<33] st
      in store16 w1 @ store16 w2 @ store16 w3 @ store16 w4)"

definition skipjack_decryptBlock :: "SkipjackCipher \<Rightarrow> bytes \<Rightarrow> bytes" where
  "skipjack_decryptBlock s b =
     (let st = (load16 b 0, load16 b 2, load16 b 4, load16 b 6, 8);
          st = fold (skipjack_IB (sj_key s)) (rev [25..<33]) st;
          st = fold (skipjack_IA (sj_key s)) (rev [17..<25]) st;
          st = fold (skipjack_IB (sj_key s)) (rev [9..<17]) st;
          (w1, w2, w3, w4, kp) = fold (skipjack_IA (sj_key s)) (rev [1..<9]) st
      in store16 w1 @ store16 w2 @ store16 w3 @ store16 w4)"

definition skipjack_Encrypt :: "SkipjackCipher \<Rightarrow> bytes \<Rightarrow> crypt_error + bytes" where
  "skipjack_Encrypt s = ecb_crypt 8 (skipjack_encryptBlock s)"

definition skipjack_Decrypt :: "SkipjackCipher \<Rightarrow> bytes \<Rightarrow> crypt_error + bytes" where
  "skipjack_Decrypt s = ecb_crypt 8 (skipjack_decryptBlock s)"


lemma skipjack_steps:
  assumes "kp < 10"
  shows "skipjackKeyStep ! kp = Suc kp mod 10" "skipjackIKeyStep ! (Suc kp mod 10) = kp"
proof -
  have "\<forall>kp \<in> set [0..<10]. skipjackKeyStep ! kp = Suc kp mod 10 \<and> skipjackIKeyStep ! (Suc kp mod 10) = kp"
    by code_simp
  with assms show "skipjackKeyStep ! kp = Suc kp mod 10" "skipjackIKeyStep ! (Suc kp mod 10) = kp"
    by auto
qed

abbreviation is16 :: "u32 \<Rightarrow> bool" where
  "is16 w \<equiv> take_bit 16 w = w"

lemma join8_simps [simp]:
  "ucast (drop_bit 8 (join8 h l)) = h" "ucast (join8 h l) = l" "is16 (join8 h l)"
proof -
  show "is16 (join8 h l)"
  proof (rule bit_word_eqI)
    fix n
    have "\<not> bit h (n - 8)" if "16 \<le> n" using that by (simp add: byte_high)
    then show "bit (take_bit 16 (join8 h l)) n \<longleftrightarrow> bit (join8 h l) n"
      by (auto simp: join8_def bit_simps byte_high not_less)
  qed
qed (rule bit_word_eqI; auto simp: join8_def bit_simps byte_high)+

lemma join8_split [simp]: "is16 w \<Longrightarrow> join8 (ucast (drop_bit 8 w)) (ucast w) = w"
proof (rule bit_word_eqI)
  fix n assume w: "is16 w"
  have "bit w n \<longleftrightarrow> n < 16 \<and> bit w n" by (subst w [symmetric]) (simp add: bit_take_bit_iff)
  then show "bit (join8 (ucast (drop_bit 8 w)) (ucast w)) n \<longleftrightarrow> bit w n"
    by (auto simp: join8_def bit_simps not_less)
qed

lemma skipjackIGFunc:
  assumes "is16 w" "kp < 10"
  shows "case_prod (\<lambda>t k. skipjackIGFunc t k key) (skipjackGFunc w kp key) = (w, kp)"
  using assms
  by (simp add: skipjackGFunc_def skipjackIGFunc_def Let_def skipjack_steps)


definition skipjack_ok :: "skipjack_state \<Rightarrow> bool" where
  "skipjack_ok = (\<lambda>(w1, w2, w3, w4, kp). is16 w1 \<and> is16 w2 \<and> is16 w3 \<and> is16 w4 \<and> kp < 10)"

lemma is16_xor [simp]: "is16 a \<Longrightarrow> is16 b \<Longrightarrow> is16 (a XOR b)"
  by simp

lemma is16_of_nat [simp]: "x < 65536 \<Longrightarrow> is16 (of_nat x)"
  by (simp add: take_bit_of_nat take_bit_nat_eq_self)

lemma xor_swap_cancel: "(t XOR w XOR n) XOR t XOR n = (w :: u32)"
  by (rule bit_word_eqI) (auto simp: bit_simps)

lemma skipjackGFunc_ok:
  assumes "is16 w" "kp < 10" "skipjackGFunc w kp key = (t, k)"
  shows "is16 t" "k = (kp + 4) mod 10" "skipjackIGFunc t k key = (w, kp)"
proof -
  show "skipjackIGFunc t k key = (w, kp)" using skipjackIGFunc [OF assms(1,2), of key] assms(3) by simp
  show "is16 t" using assms(3) by (auto simp: skipjackGFunc_def Let_def)
  show "k = (kp + 4) mod 10"
    using assms(2,3) by (auto simp: skipjackGFunc_def Let_def skipjack_steps mod_simps add.commute)
qed

abbreviation skipjack_kp :: "skipjack_state \<Rightarrow> nat" where
  "skipjack_kp st \<equiv> snd (snd (snd (snd st)))"

lemma skipjack_round:
  assumes "skipjack_ok st" "x < 65536"
  shows "skipjack_ok (skipjack_A key x st) \<and> skipjack_IA key x (skipjack_A key x st) = st \<and>
      skipjack_kp (skipjack_A key x st) = (skipjack_kp st + 4) mod 10" (is ?A)
    and "skipjack_ok (skipjack_B key x st) \<and> skipjack_IB key x (skipjack_B key x st) = st \<and>
      skipjack_kp (skipjack_B key x st) = (skipjack_kp st + 4) mod 10" (is ?B)
proof -
  obtain w1 w2 w3 w4 kp where st: "st = (w1, w2, w3, w4, kp)" by (cases st)
  obtain t k where G: "skipjackGFunc w1 kp key = (t, k)" by fastforce
  have ok: "is16 w1" "is16 w2" "is16 w3" "is16 w4" "kp < 10" "is16 (of_nat x)"
    using assms by (auto simp: st skipjack_ok_def)
  note g = skipjackGFunc_ok [OF ok(1) ok(5) G]
  show ?A using ok g by (simp add: st skipjack_A_def skipjack_IA_def skipjack_ok_def G Let_def xor_swap_cancel)
  show ?B using ok g by (simp add: st skipjack_B_def skipjack_IB_def skipjack_ok_def G Let_def xor.assoc)
qed

lemma skipjack_fold:
  assumes "\<And>st x. skipjack_ok st \<Longrightarrow> x < 65536 \<Longrightarrow>
      skipjack_ok (f x st) \<and> g x (f x st) = st \<and> skipjack_kp (f x st) = (skipjack_kp st + 4) mod 10"
    and "skipjack_ok st" and "\<forall>x \<in> set xs. x < 65536"
  shows "skipjack_ok (fold f xs st) \<and> fold g (rev xs) (fold f xs st) = st \<and>
    skipjack_kp (fold f xs st) = (skipjack_kp st + 4 * length xs) mod 10"
  using assms(2,3)
proof (induction xs arbitrary: st)
  case (Cons x xs)
  with assms(1) [of st x] Cons.IH [of "f x st"] show ?case by (simp add: mod_simps algebra_simps)
qed (auto simp: skipjack_ok_def)

lemma skipjack_fold_A:
  assumes "skipjack_ok st" and "\<forall>x \<in> set xs. x < 65536"
  shows "skipjack_ok (fold (skipjack_A key) xs st) \<and>
    fold (skipjack_IA key) (rev xs) (fold (skipjack_A key) xs st) = st \<and>
    skipjack_kp (fold (skipjack_A key) xs st) = (skipjack_kp st + 4 * length xs) mod 10"
  using assms by (intro skipjack_fold) (simp_all add: skipjack_round)

lemma skipjack_fold_B:
  assumes "skipjack_ok st" and "\<forall>x \<in> set xs. x < 65536"
  shows "skipjack_ok (fold (skipjack_B key) xs st) \<and>
    fold (skipjack_IB key) (rev xs) (fold (skipjack_B key) xs st) = st \<and>
    skipjack_kp (fold (skipjack_B key) xs st) = (skipjack_kp st + 4 * length xs) mod 10"
  using assms by (intro skipjack_fold) (simp_all add: skipjack_round)

lemma skipjack_store_load [simp]:
  "length (store16 w) = 2" "is16 w \<Longrightarrow> load16 (store16 w @ rest) 0 = w"
  by (simp_all add: store16_def load16_def)

lemma skipjack_words:
  assumes "is16 w1" "is16 w2" "is16 w3" "is16 w4"
  defines "b \<equiv> store16 w1 @ store16 w2 @ store16 w3 @ store16 w4"
  shows "(load16 b 0, load16 b 2, load16 b 4, load16 b 6) = (w1, w2, w3, w4)"
  using assms by (simp add: load16_def store16_def nth_Cons')

lemma skipjack_bytes:
  assumes "length b = 8"
  shows "store16 (load16 b 0) @ store16 (load16 b 2) @ store16 (load16 b 4) @ store16 (load16 b 6) = b"
  using assms unfolding list8 by (auto simp: store16_def load16_def)

interpretation skipjack: block_cipher 8 "skipjack_encryptBlock s" "skipjack_decryptBlock s" for s
proof (unfold_locales, goal_cases)
  case (3 b)
  let ?key = "sj_key s"
  define s0 where "s0 = (load16 b 0, load16 b 2, load16 b 4, load16 b 6, 0 :: nat)"
  define s1 where "s1 = fold (skipjack_A ?key) [1..<9] s0"
  define s2 where "s2 = fold (skipjack_B ?key) [9..<17] s1"
  define s3 where "s3 = fold (skipjack_A ?key) [17..<25] s2"
  define s4 where "s4 = fold (skipjack_B ?key) [25..<33] s3"
  have ok0: "skipjack_ok s0" by (simp add: s0_def skipjack_ok_def load16_def)
  have 1: "skipjack_ok s1" "fold (skipjack_IA ?key) (rev [1..<9]) s1 = s0" "skipjack_kp s1 = 2"
    using skipjack_fold_A [OF ok0, where xs = "[1..<9]" and key = ?key] unfolding s1_def by (simp_all add: s0_def del: One_nat_def)
  have 2: "skipjack_ok s2" "fold (skipjack_IB ?key) (rev [9..<17]) s2 = s1" "skipjack_kp s2 = 4"
    using skipjack_fold_B [OF 1(1), where xs = "[9..<17]" and key = ?key] 1(3) unfolding s2_def by (simp_all del: upt_rec_numeral)
  have 3: "skipjack_ok s3" "fold (skipjack_IA ?key) (rev [17..<25]) s3 = s2" "skipjack_kp s3 = 6"
    using skipjack_fold_A [OF 2(1), where xs = "[17..<25]" and key = ?key] 2(3) unfolding s3_def by (simp_all del: upt_rec_numeral)
  have 4: "skipjack_ok s4" "fold (skipjack_IB ?key) (rev [25..<33]) s4 = s3" "skipjack_kp s4 = 8"
    using skipjack_fold_B [OF 3(1), where xs = "[25..<33]" and key = ?key] 3(3) unfolding s4_def by (simp_all del: upt_rec_numeral)
  obtain w1 w2 w3 w4 where w: "s4 = (w1, w2, w3, w4, 8)" using 4(3) by (cases s4) auto
  have enc: "skipjack_encryptBlock s b = store16 w1 @ store16 w2 @ store16 w3 @ store16 w4"
    unfolding skipjack_encryptBlock_def Let_def s0_def [symmetric] s1_def [symmetric]
      s2_def [symmetric] s3_def [symmetric] s4_def [symmetric] by (simp add: w)
  have "skipjack_decryptBlock s (skipjack_encryptBlock s b) =
    store16 (load16 b 0) @ store16 (load16 b 2) @ store16 (load16 b 4) @ store16 (load16 b 6)"
    using skipjack_words [of w1 w2 w3 w4] 4(1) 4(2) 3(2) 2(2) 1(2)
    unfolding skipjack_decryptBlock_def Let_def enc
    by (simp add: skipjack_ok_def w s0_def del: upt_Suc upt_rec_numeral)
  with \<open>length b = 8\<close> show ?case by (simp only: skipjack_bytes)
qed (simp_all add: skipjack_encryptBlock_def split_beta Let_def del: upt_rec_numeral)


subsection \<open>Blowfish\<close>

record SBlock =
  bl_L :: u32
  bl_R :: u32

record BlowFishCipher =
  bf_P :: "u32 list"
  bf_S :: "u32 list list"
  bf_init :: bool

definition blowfish_F :: "BlowFishCipher \<Rightarrow> u32 \<Rightarrow> u32" where
  "blowfish_F b x =
     ((bf_S b ! 0 ! byte_of x 24 + bf_S b ! 1 ! byte_of x 16) XOR bf_S b ! 2 ! byte_of x 8) + bf_S b ! 3 ! byte_of x 0"

text \<open>The loop bodies, for \<open>i = 2 * n + 1\<close> upwards and \<open>i = 2 * n + 2\<close> downwards.\<close>

definition blowfish_rounds :: "BlowFishCipher \<Rightarrow> nat \<Rightarrow> u32 \<times> u32 \<Rightarrow> u32 \<times> u32" where
  "blowfish_rounds b n = (\<lambda>(L, R).
     let i = 2 * n + 1;
         R = R XOR (blowfish_F b L XOR bf_P b ! i);
         L = L XOR (blowfish_F b R XOR bf_P b ! (i + 1))
     in (L, R))"

definition blowfish_unrounds :: "BlowFishCipher \<Rightarrow> nat \<Rightarrow> u32 \<times> u32 \<Rightarrow> u32 \<times> u32" where
  "blowfish_unrounds b n = (\<lambda>(L, R).
     let i = 2 * n + 2;
         R = R XOR (blowfish_F b L XOR bf_P b ! i);
         L = L XOR (blowfish_F b R XOR bf_P b ! (i - 1))
     in (L, R))"

definition blowfish_encryptBlock :: "BlowFishCipher \<Rightarrow> SBlock \<Rightarrow> SBlock" where
  "blowfish_encryptBlock b block =
     (let L = bl_L block; R = bl_R block;
          L = L XOR bf_P b ! 0;
          (L, R) = fold (blowfish_rounds b) [0..<8] (L, R);
          R = R XOR bf_P b ! 17
      in \<lparr>bl_L = R, bl_R = L\<rparr>)"

definition blowfish_decryptBlock :: "BlowFishCipher \<Rightarrow> SBlock \<Rightarrow> SBlock" where
  "blowfish_decryptBlock b block =
     (let L = bl_L block; R = bl_R block;
          L = L XOR bf_P b ! 17;
          (L, R) = fold (blowfish_unrounds b) (rev [0..<8]) (L, R);
          R = R XOR bf_P b ! 0
      in \<lparr>bl_L = R, bl_R = L\<rparr>)"

text \<open>
  The key schedule. The position \<open>iCount\<close> in the key runs around it, four bytes for each
  subkey; then the cipher encrypts its own output into the subkeys and the four S-boxes, two
  words at a time, through the tables as far as they are already replaced.
\<close>

definition blowfish_byte :: "bytes \<Rightarrow> nat \<Rightarrow> u32 \<times> nat \<Rightarrow> u32 \<times> nat" where
  "blowfish_byte p keysize = (\<lambda>(x, iCount).
     let x = push_bit 8 x OR ucast (p ! iCount); iCount = iCount + 1
     in (x, if iCount = keysize then 0 else iCount))"

definition blowfish_mix :: "bytes \<Rightarrow> nat \<Rightarrow> nat \<Rightarrow> u32 list \<times> nat \<Rightarrow> u32 list \<times> nat" where
  "blowfish_mix p keysize i = (\<lambda>(P, iCount).
     let (x, iCount) = (blowfish_byte p keysize ^^ 4) (0, iCount) in (P[i := P ! i XOR x], iCount))"

definition blowfish_fill_P :: "nat \<Rightarrow> BlowFishCipher \<times> SBlock \<Rightarrow> BlowFishCipher \<times> SBlock" where
  "blowfish_fill_P i = (\<lambda>(b, block).
     let block = blowfish_encryptBlock b block
     in (b\<lparr>bf_P := (bf_P b)[2 * i := bl_L block, 2 * i + 1 := bl_R block]\<rparr>, block))"

definition blowfish_fill_S :: "nat \<times> nat \<Rightarrow> BlowFishCipher \<times> SBlock \<Rightarrow> BlowFishCipher \<times> SBlock" where
  "blowfish_fill_S = (\<lambda>(j, i) (b, block).
     let block = blowfish_encryptBlock b block
     in (b\<lparr>bf_S := (bf_S b)[j := (bf_S b ! j)[2 * i := bl_L block, 2 * i + 1 := bl_R block]]\<rparr>, block))"

definition blowfish_SetKey :: "bytes \<Rightarrow> crypt_error + BlowFishCipher" where
  "blowfish_SetKey key =
     (if length key < 1 then Inl ErrInvalidKeySize
      else let keysize = min (length key) 56;
               p = take keysize key @ replicate (56 - keysize) 0;
               (P, iCount) = fold (blowfish_mix p keysize) [0..<18] (blowfishInitP, 0);
               b = \<lparr>bf_P = P, bf_S = [blowfishInitS0, blowfishInitS1, blowfishInitS2, blowfishInitS3], bf_init = False\<rparr>;
               (b, block) = fold blowfish_fill_P [0..<9] (b, \<lparr>bl_L = 0, bl_R = 0\<rparr>);
               (b, block) = fold blowfish_fill_S (List.product [0..<4] [0..<128]) (b, block)
           in Inr (b\<lparr>bf_init := True\<rparr>))"

definition bytesToBlock :: "bytes \<Rightarrow> SBlock" where
  "bytesToBlock p = \<lparr>bl_L = word_at loadU32BE 0 p, bl_R = word_at loadU32BE 1 p\<rparr>"

definition blockToBytes :: "SBlock \<Rightarrow> bytes" where
  "blockToBytes b = storeU32BE (bl_L b) @ storeU32BE (bl_R b)"

definition blowfish_Encrypt :: "BlowFishCipher \<Rightarrow> bytes \<Rightarrow> crypt_error + bytes" where
  "blowfish_Encrypt b data =
     (if \<not> bf_init b then Inl ErrNotInitialized
      else ecb_crypt 8 (\<lambda>p. blockToBytes (blowfish_encryptBlock b (bytesToBlock p))) data)"

definition blowfish_Decrypt :: "BlowFishCipher \<Rightarrow> bytes \<Rightarrow> crypt_error + bytes" where
  "blowfish_Decrypt b data =
     (if \<not> bf_init b then Inl ErrNotInitialized
      else ecb_crypt 8 (\<lambda>p. blockToBytes (blowfish_decryptBlock b (bytesToBlock p))) data)"

text \<open>A decryption round undoes an encryption round with the halves exchanged.\<close>

lemma blowfish_unrounds:
  "blowfish_unrounds b n (prod.swap (blowfish_rounds b n s)) = prod.swap s"
  by (cases s) (simp add: blowfish_rounds_def blowfish_unrounds_def Let_def)

lemma blowfish_decrypt_encrypt: "blowfish_decryptBlock b (blowfish_encryptBlock b block) = block"
proof -
  let ?s = "(bl_L block XOR bf_P b ! 0, bl_R block)"
  obtain L R where s: "fold (blowfish_rounds b) [0..<8] ?s = (L, R)" by fastforce
  have "fold (blowfish_unrounds b) (rev [0..<8]) (R, L) = prod.swap ?s"
    using fold_inverse_via [of "[0..<8]" "\<lambda>_. True" "blowfish_rounds b" "blowfish_unrounds b" prod.swap ?s]
    by (simp add: blowfish_unrounds s del: upt_rec_numeral)
  then show ?thesis
    by (intro SBlock.equality)
      (simp_all add: blowfish_encryptBlock_def blowfish_decryptBlock_def s Let_def del: upt_rec_numeral)
qed

lemma bytesToBlock_inverse [simp]:
  "bytesToBlock (blockToBytes b) = b" "length p = 8 \<Longrightarrow> blockToBytes (bytesToBlock p) = p"
  by (simp_all add: bytesToBlock_def blockToBytes_def word_at_def split8)

interpretation blowfish: block_cipher 8
    "\<lambda>p. blockToBytes (blowfish_encryptBlock b (bytesToBlock p))"
    "\<lambda>p. blockToBytes (blowfish_decryptBlock b (bytesToBlock p))" for b
  by unfold_locales (simp_all add: blowfish_decrypt_encrypt, simp add: blockToBytes_def)

subsection \<open>CAST5\<close>

record Cast5Cipher =
  c5_K :: "u32 list"
  c5_keylen :: nat

definition gb :: "u32 list \<Rightarrow> nat \<Rightarrow> nat" where
  "gb x i = unat (drop_bit (8 * ((15 - i) mod 4)) (x ! ((15 - i) div 4)) AND 255)"

text \<open>\<open>rol32\<close> reduces its count modulo 32, so only the low bits of \<open>Kr\<close> are read here.\<close>

definition cast5FI :: "u32 \<Rightarrow> u32 \<Rightarrow> u32 \<Rightarrow> u32" where
  "cast5FI R Km Kr =
     (let I = rol32 (Km + R) (unat (Kr AND 31))
      in (cast5_S1 ! byte_of I 24 XOR cast5_S2 ! byte_of I 16) - cast5_S3 ! byte_of I 8 + cast5_S4 ! byte_of I 0)"

definition cast5FII :: "u32 \<Rightarrow> u32 \<Rightarrow> u32 \<Rightarrow> u32" where
  "cast5FII R Km Kr =
     (let I = rol32 (Km XOR R) (unat (Kr AND 31))
      in ((cast5_S1 ! byte_of I 24 - cast5_S2 ! byte_of I 16) + cast5_S3 ! byte_of I 8) XOR cast5_S4 ! byte_of I 0)"

definition cast5FIII :: "u32 \<Rightarrow> u32 \<Rightarrow> u32 \<Rightarrow> u32" where
  "cast5FIII R Km Kr =
     (let I = rol32 (Km - R) (unat (Kr AND 31))
      in ((cast5_S1 ! byte_of I 24 + cast5_S2 ! byte_of I 16) XOR cast5_S3 ! byte_of I 8) - cast5_S4 ! byte_of I 0)"

text \<open>One pass of the key schedule's loop: it rewrites \<open>x\<close> and \<open>z\<close> and yields sixteen subkeys.\<close>

definition cast5_pass :: "u32 list \<times> u32 list \<Rightarrow> (u32 list \<times> u32 list) \<times> u32 list" where
  "cast5_pass = (\<lambda>(x, z).
     let z = z[3 := x ! 3 XOR cast5_S5 ! gb x 13 XOR cast5_S6 ! gb x 15 XOR cast5_S7 ! gb x 12 XOR cast5_S8 ! gb x 14 XOR cast5_S7 ! gb x 8];
         z = z[2 := x ! 1 XOR cast5_S5 ! gb z 0 XOR cast5_S6 ! gb z 2 XOR cast5_S7 ! gb z 1 XOR cast5_S8 ! gb z 3 XOR cast5_S8 ! gb x 10];
         z = z[1 := x ! 0 XOR cast5_S5 ! gb z 7 XOR cast5_S6 ! gb z 6 XOR cast5_S7 ! gb z 5 XOR cast5_S8 ! gb z 4 XOR cast5_S5 ! gb x 9];
         z = z[0 := x ! 2 XOR cast5_S5 ! gb z 10 XOR cast5_S6 ! gb z 9 XOR cast5_S7 ! gb z 11 XOR cast5_S8 ! gb z 8 XOR cast5_S6 ! gb x 11];
         k0 = cast5_S5 ! gb z 8 XOR cast5_S6 ! gb z 9 XOR cast5_S7 ! gb z 7 XOR cast5_S8 ! gb z 6 XOR cast5_S5 ! gb z 2;
         k1 = cast5_S5 ! gb z 10 XOR cast5_S6 ! gb z 11 XOR cast5_S7 ! gb z 5 XOR cast5_S8 ! gb z 4 XOR cast5_S6 ! gb z 6;
         k2 = cast5_S5 ! gb z 12 XOR cast5_S6 ! gb z 13 XOR cast5_S7 ! gb z 3 XOR cast5_S8 ! gb z 2 XOR cast5_S7 ! gb z 9;
         k3 = cast5_S5 ! gb z 14 XOR cast5_S6 ! gb z 15 XOR cast5_S7 ! gb z 1 XOR cast5_S8 ! gb z 0 XOR cast5_S8 ! gb z 12;
         x = x[3 := z ! 1 XOR cast5_S5 ! gb z 5 XOR cast5_S6 ! gb z 7 XOR cast5_S7 ! gb z 4 XOR cast5_S8 ! gb z 6 XOR cast5_S7 ! gb z 0];
         x = x[2 := z ! 3 XOR cast5_S5 ! gb x 0 XOR cast5_S6 ! gb x 2 XOR cast5_S7 ! gb x 1 XOR cast5_S8 ! gb x 3 XOR cast5_S8 ! gb z 2];
         x = x[1 := z ! 2 XOR cast5_S5 ! gb x 7 XOR cast5_S6 ! gb x 6 XOR cast5_S7 ! gb x 5 XOR cast5_S8 ! gb x 4 XOR cast5_S5 ! gb z 1];
         x = x[0 := z ! 0 XOR cast5_S5 ! gb x 10 XOR cast5_S6 ! gb x 9 XOR cast5_S7 ! gb x 11 XOR cast5_S8 ! gb x 8 XOR cast5_S6 ! gb z 3];
         k4 = cast5_S5 ! gb x 3 XOR cast5_S6 ! gb x 2 XOR cast5_S7 ! gb x 12 XOR cast5_S8 ! gb x 13 XOR cast5_S5 ! gb x 8;
         k5 = cast5_S5 ! gb x 1 XOR cast5_S6 ! gb x 0 XOR cast5_S7 ! gb x 14 XOR cast5_S8 ! gb x 15 XOR cast5_S6 ! gb x 13;
         k6 = cast5_S5 ! gb x 7 XOR cast5_S6 ! gb x 6 XOR cast5_S7 ! gb x 8 XOR cast5_S8 ! gb x 9 XOR cast5_S7 ! gb x 3;
         k7 = cast5_S5 ! gb x 5 XOR cast5_S6 ! gb x 4 XOR cast5_S7 ! gb x 10 XOR cast5_S8 ! gb x 11 XOR cast5_S8 ! gb x 7;
         z = z[3 := x ! 3 XOR cast5_S5 ! gb x 13 XOR cast5_S6 ! gb x 15 XOR cast5_S7 ! gb x 12 XOR cast5_S8 ! gb x 14 XOR cast5_S7 ! gb x 8];
         z = z[2 := x ! 1 XOR cast5_S5 ! gb z 0 XOR cast5_S6 ! gb z 2 XOR cast5_S7 ! gb z 1 XOR cast5_S8 ! gb z 3 XOR cast5_S8 ! gb x 10];
         z = z[1 := x ! 0 XOR cast5_S5 ! gb z 7 XOR cast5_S6 ! gb z 6 XOR cast5_S7 ! gb z 5 XOR cast5_S8 ! gb z 4 XOR cast5_S5 ! gb x 9];
         z = z[0 := x ! 2 XOR cast5_S5 ! gb z 10 XOR cast5_S6 ! gb z 9 XOR cast5_S7 ! gb z 11 XOR cast5_S8 ! gb z 8 XOR cast5_S6 ! gb x 11];
         k8 = cast5_S5 ! gb z 3 XOR cast5_S6 ! gb z 2 XOR cast5_S7 ! gb z 12 XOR cast5_S8 ! gb z 13 XOR cast5_S5 ! gb z 9;
         k9 = cast5_S5 ! gb z 1 XOR cast5_S6 ! gb z 0 XOR cast5_S7 ! gb z 14 XOR cast5_S8 ! gb z 15 XOR cast5_S6 ! gb z 12;
         k10 = cast5_S5 ! gb z 7 XOR cast5_S6 ! gb z 6 XOR cast5_S7 ! gb z 8 XOR cast5_S8 ! gb z 9 XOR cast5_S7 ! gb z 2;
         k11 = cast5_S5 ! gb z 5 XOR cast5_S6 ! gb z 4 XOR cast5_S7 ! gb z 10 XOR cast5_S8 ! gb z 11 XOR cast5_S8 ! gb z 6;
         x = x[3 := z ! 1 XOR cast5_S5 ! gb z 5 XOR cast5_S6 ! gb z 7 XOR cast5_S7 ! gb z 4 XOR cast5_S8 ! gb z 6 XOR cast5_S7 ! gb z 0];
         x = x[2 := z ! 3 XOR cast5_S5 ! gb x 0 XOR cast5_S6 ! gb x 2 XOR cast5_S7 ! gb x 1 XOR cast5_S8 ! gb x 3 XOR cast5_S8 ! gb z 2];
         x = x[1 := z ! 2 XOR cast5_S5 ! gb x 7 XOR cast5_S6 ! gb x 6 XOR cast5_S7 ! gb x 5 XOR cast5_S8 ! gb x 4 XOR cast5_S5 ! gb z 1];
         x = x[0 := z ! 0 XOR cast5_S5 ! gb x 10 XOR cast5_S6 ! gb x 9 XOR cast5_S7 ! gb x 11 XOR cast5_S8 ! gb x 8 XOR cast5_S6 ! gb z 3];
         k12 = cast5_S5 ! gb x 8 XOR cast5_S6 ! gb x 9 XOR cast5_S7 ! gb x 7 XOR cast5_S8 ! gb x 6 XOR cast5_S5 ! gb x 3;
         k13 = cast5_S5 ! gb x 10 XOR cast5_S6 ! gb x 11 XOR cast5_S7 ! gb x 5 XOR cast5_S8 ! gb x 4 XOR cast5_S6 ! gb x 7;
         k14 = cast5_S5 ! gb x 12 XOR cast5_S6 ! gb x 13 XOR cast5_S7 ! gb x 3 XOR cast5_S8 ! gb x 2 XOR cast5_S7 ! gb x 8;
         k15 = cast5_S5 ! gb x 14 XOR cast5_S6 ! gb x 15 XOR cast5_S7 ! gb x 1 XOR cast5_S8 ! gb x 0 XOR cast5_S8 ! gb x 13
     in ((x, z), [k0, k1, k2, k3, k4, k5, k6, k7, k8, k9, k10, k11, k12, k13, k14, k15]))"

definition cast5Setup :: "bytes \<Rightarrow> Cast5Cipher" where
  "cast5Setup key =
     (let buf = key @ replicate (16 - length key) 0;
          x = map (\<lambda>y. word_at loadU32BE (3 - y) buf) [0..<4];
          (xz, K1) = cast5_pass (x, replicate 4 0);
          (xz, K2) = cast5_pass xz
      in \<lparr>c5_K = K1 @ K2, c5_keylen = length key\<rparr>)"

definition cast5_SetKey :: "bytes \<Rightarrow> crypt_error + Cast5Cipher" where
  "cast5_SetKey key = (if length key < 5 \<or> 16 < length key then Inl ErrInvalidKeySize else Inr (cast5Setup key))"

text \<open>
  The sixteen unrolled lines of \<open>Encrypt\<close> and \<open>Decrypt\<close>: line \<open>i\<close> uses \<open>K[i]\<close> and \<open>K[i+16]\<close>, the
  function of \<open>i mod 3\<close>, and changes \<open>L\<close> when \<open>i\<close> is even and \<open>R\<close> when it is odd.
\<close>

definition cast5_line :: "Cast5Cipher \<Rightarrow> nat \<Rightarrow> u32 \<times> u32 \<Rightarrow> u32 \<times> u32" where
  "cast5_line c i = (\<lambda>(L, R).
     let f = [cast5FI, cast5FII, cast5FIII] ! (i mod 3); Km = c5_K c ! i; Kr = c5_K c ! (i + 16)
     in if even i then (L XOR f R Km Kr, R) else (L, R XOR f L Km Kr))"

definition cast5_encryptBlock :: "Cast5Cipher \<Rightarrow> bytes \<Rightarrow> bytes" where
  "cast5_encryptBlock c b =
     (let s = (word_at loadU32BE 0 b, word_at loadU32BE 1 b);
          s = fold (cast5_line c) [0..<12] s;
          (L, R) = (if 10 < c5_keylen c then fold (cast5_line c) [12..<16] s else s)
      in storeU32BE R @ storeU32BE L)"

definition cast5_decryptBlock :: "Cast5Cipher \<Rightarrow> bytes \<Rightarrow> bytes" where
  "cast5_decryptBlock c b =
     (let s = (word_at loadU32BE 1 b, word_at loadU32BE 0 b);
          s = (if 10 < c5_keylen c then fold (cast5_line c) (rev [12..<16]) s else s);
          (L, R) = fold (cast5_line c) (rev [0..<12]) s
      in storeU32BE L @ storeU32BE R)"

definition cast5_Encrypt :: "Cast5Cipher \<Rightarrow> bytes \<Rightarrow> crypt_error + bytes" where
  "cast5_Encrypt c = ecb_crypt 8 (cast5_encryptBlock c)"

definition cast5_Decrypt :: "Cast5Cipher \<Rightarrow> bytes \<Rightarrow> crypt_error + bytes" where
  "cast5_Decrypt c = ecb_crypt 8 (cast5_decryptBlock c)"

lemma cast5_line_involution: "cast5_line c i (cast5_line c i s) = s"
  by (cases s) (simp add: cast5_line_def Let_def)

interpretation cast5: block_cipher 8 "cast5_encryptBlock c" "cast5_decryptBlock c" for c
proof (unfold_locales, goal_cases)
  case (3 b)
  let ?s = "(word_at loadU32BE 0 b, word_at loadU32BE 1 b)"
  define s1 where "s1 = fold (cast5_line c) [0..<12] ?s"
  define s2 where "s2 = (if 10 < c5_keylen c then fold (cast5_line c) [12..<16] s1 else s1)"
  have 1: "fold (cast5_line c) (rev [0..<12]) s1 = ?s"
    unfolding s1_def by (rule fold_inverse) (rule cast5_line_involution)
  have "fold (cast5_line c) (rev [12..<16]) (fold (cast5_line c) [12..<16] s1) = s1"
    by (rule fold_inverse) (rule cast5_line_involution)
  then have 2: "(if 10 < c5_keylen c then fold (cast5_line c) (rev [12..<16]) s2 else s2) = s1"
    by (simp add: s2_def del: upt_rec_numeral)
  have "cast5_encryptBlock c b = storeU32BE (snd s2) @ storeU32BE (fst s2)"
    unfolding cast5_encryptBlock_def Let_def s1_def [symmetric] s2_def [symmetric] by (simp add: split_beta)
  with 1 2 3 show ?case
    by (simp add: cast5_decryptBlock_def Let_def word_at_def split8 del: upt_rec_numeral)
qed (simp_all add: cast5_encryptBlock_def Let_def split_beta)

end
