(* ===== verification/Ciphers_Twofish.thy ===== *)
theory Ciphers_Twofish
  imports Ciphers_Feistel
begin

section \<open>Twofish\<close>

text \<open>
  \<open>twofish.go\<close>: the key schedule with its Reed-Solomon words \<open>calcS\<close>, the key-dependent S-boxes
  for the three key sizes and the subkeys, and the block functions. The lemmas show that the
  table lookups of the key schedule stay in range and that decryption inverts encryption.
\<close>

record TwoFishCipher =
  tf_s :: "u32 list list"
  tf_w :: "u32 list"
  tf_k :: "u32 list"
  tf_init :: bool

type_synonym bytes4 = "u8 \<times> u8 \<times> u8 \<times> u8"

subsection \<open>The key schedule\<close>

definition calcS :: "bytes4 \<Rightarrow> bytes \<Rightarrow> nat \<Rightarrow> bytes4 \<Rightarrow> bytes4" where
  "calcS = (\<lambda>(a, b, c, d) key i (w, x, y, z).
     if key ! i \<noteq> 0 then
       let tmp = polyToExp ! unat (key ! i - 1)
       in (a XOR expToPoly ! (unat tmp + unat w), b XOR expToPoly ! (unat tmp + unat x),
           c XOR expToPoly ! (unat tmp + unat y), d XOR expToPoly ! (unat tmp + unat z))
     else (a, b, c, d))"

text \<open>The four constants of the calls of \<open>calcS\<close>, the same for every group of eight key bytes.\<close>

definition twofish_rs :: "bytes4 list" where
  "twofish_rs =
     [(0x00, 0x2D, 0x01, 0x2D),
      (0x2D, 0xA4, 0x44, 0x8A),
      (0x8A, 0xD5, 0xBF, 0xD1),
      (0xD1, 0x7F, 0x3D, 0x99),
      (0x99, 0x46, 0x66, 0x96),
      (0x96, 0x3C, 0x5B, 0xED),
      (0xED, 0x37, 0x4F, 0xE0),
      (0xE0, 0xD0, 0x8C, 0x17)]"

text \<open>One group of eight calls, for the key bytes from \<open>8 * n\<close> on.\<close>

definition twofish_rs_word :: "bytes \<Rightarrow> nat \<Rightarrow> bytes4" where
  "twofish_rs_word key n =
     fold (\<lambda>i s. calcS s key (8 * n + i) (twofish_rs ! i)) [0..<8] (0, 0, 0, 0)"

definition calcK2 :: "u8 \<Rightarrow> u8 \<Rightarrow> u8 \<Rightarrow> u8 \<Rightarrow> nat \<Rightarrow> bytes \<Rightarrow> u32" where
  "calcK2 a b c d j key =
     mdsTable0 ! unat (q0 ! unat (a XOR key ! (j + 8)) XOR key ! j) XOR
     mdsTable1 ! unat (q0 ! unat (b XOR key ! (j + 9)) XOR key ! (j + 1)) XOR
     mdsTable2 ! unat (q1 ! unat (c XOR key ! (j + 10)) XOR key ! (j + 2)) XOR
     mdsTable3 ! unat (q1 ! unat (d XOR key ! (j + 11)) XOR key ! (j + 3))"

definition calcK1922 :: "u8 \<Rightarrow> u8 \<Rightarrow> u8 \<Rightarrow> u8 \<Rightarrow> nat \<Rightarrow> bytes \<Rightarrow> u32" where
  "calcK1922 a b c d j key =
     calcK2 (q0 ! unat (a XOR key ! (j + 16))) (q1 ! unat (b XOR key ! (j + 17)))
            (q0 ! unat (c XOR key ! (j + 18))) (q1 ! unat (d XOR key ! (j + 19))) j key"

definition calcK2562 :: "u8 \<Rightarrow> u8 \<Rightarrow> nat \<Rightarrow> bytes \<Rightarrow> u32" where
  "calcK2562 a b j key =
     calcK1922 (q1 ! unat (b XOR key ! (j + 24))) (q1 ! unat (a XOR key ! (j + 25)))
               (q0 ! unat (a XOR key ! (j + 26))) (q0 ! unat (b XOR key ! (j + 27))) j key"

text \<open>The tail the three subkey functions share: the pseudo-Hadamard step and the store.\<close>

definition calcK_store :: "u32 list \<Rightarrow> nat \<Rightarrow> u32 \<Rightarrow> u32 \<Rightarrow> u32 list" where
  "calcK_store dst j x y =
     (let y = rol32 y 8; x = x + y; y = y + x in dst[j := x, j + 1 := rol32 y 9])"

type_synonym subkey_args = "nat \<times> u8 \<times> u8 \<times> u8 \<times> u8"

definition calcK :: "bytes \<Rightarrow> subkey_args \<Rightarrow> u32 list \<Rightarrow> u32 list" where
  "calcK key = (\<lambda>(j, k, l, m, n) dst.
     calcK_store dst j (calcK2 k l k l 0 key) (calcK2 m n m n 4 key))"

definition calcK192 :: "bytes \<Rightarrow> subkey_args \<Rightarrow> u32 list \<Rightarrow> u32 list" where
  "calcK192 key = (\<lambda>(j, k, l, m, n) dst.
     calcK_store dst j (calcK1922 l l k k 0 key) (calcK1922 n n m m 4 key))"

definition calcK256 :: "bytes \<Rightarrow> subkey_args \<Rightarrow> u32 list \<Rightarrow> u32 list" where
  "calcK256 key = (\<lambda>(j, k, l, m, n) dst.
     calcK_store dst j (calcK2562 k l 0 key) (calcK2562 m n 4 key))"

definition twofish_w_args :: "subkey_args list" where
  "twofish_w_args =
     [(0, 0xA9, 0x75, 0x67, 0xF3), (2, 0xB3, 0xC6, 0xE8, 0xF4), (4, 0x04, 0xDB, 0xFD, 0x7B), (6, 0xA3, 0xFB, 0x76, 0xC8)]"

definition twofish_k_args :: "subkey_args list" where
  "twofish_k_args =
     [(0, 0x9A, 0x4A, 0x92, 0xD3), (2, 0x80, 0xE6, 0x78, 0x6B), (4, 0xE4, 0x45, 0xDD, 0x7D), (6, 0xD1, 0xE8, 0x38, 0x4B),
      (8, 0x0D, 0xD6, 0xC6, 0x32), (10, 0x35, 0xD8, 0x98, 0xFD), (12, 0x18, 0x37, 0xF7, 0x71), (14, 0xEC, 0xF1, 0x6C, 0xE1),
      (16, 0x43, 0x30, 0x75, 0x0F), (18, 0x37, 0xF8, 0x26, 0x1B), (20, 0xFA, 0x87, 0x13, 0xFA), (22, 0x94, 0x06, 0x48, 0x3F),
      (24, 0xF2, 0x5E, 0xD0, 0xBA), (26, 0x8B, 0xAE, 0x30, 0x5B), (28, 0x84, 0x8A, 0x54, 0x00), (30, 0xDF, 0xBC, 0x23, 0x9D)]"

text \<open>The four words of entry \<open>i\<close> of the S-boxes, from the two bytes of \<open>calcSbTbl\<close> and the key words.\<close>

definition calcSb2 :: "u8 \<Rightarrow> u8 \<Rightarrow> bytes4 \<Rightarrow> bytes4 \<Rightarrow> u32 list" where
  "calcSb2 a b = (\<lambda>(sa, sb, sc, sd) (se, sf, sg, sh).
     [mdsTable0 ! unat (q0 ! unat (a XOR sa) XOR se),
      mdsTable1 ! unat (q0 ! unat (b XOR sb) XOR sf),
      mdsTable2 ! unat (q1 ! unat (a XOR sc) XOR sg),
      mdsTable3 ! unat (q1 ! unat (b XOR sd) XOR sh)])"

definition calcSb1922 :: "u8 \<Rightarrow> u8 \<Rightarrow> bytes4 \<Rightarrow> bytes4 \<Rightarrow> bytes4 \<Rightarrow> u32 list" where
  "calcSb1922 a b = (\<lambda>(sa, sb, sc, sd) (se, sf, sg, sh) (si, sj, sk, sl).
     [mdsTable0 ! unat (q0 ! unat (q0 ! unat (b XOR sa) XOR se) XOR si),
      mdsTable1 ! unat (q0 ! unat (q1 ! unat (b XOR sb) XOR sf) XOR sj),
      mdsTable2 ! unat (q1 ! unat (q0 ! unat (a XOR sc) XOR sg) XOR sk),
      mdsTable3 ! unat (q1 ! unat (q1 ! unat (a XOR sd) XOR sh) XOR sl)])"

definition calcSb2562 :: "u8 \<Rightarrow> u8 \<Rightarrow> bytes4 \<Rightarrow> bytes4 \<Rightarrow> bytes4 \<Rightarrow> bytes4 \<Rightarrow> u32 list" where
  "calcSb2562 a b = (\<lambda>(sa, sb, sc, sd) (se, sf, sg, sh) (si, sj, sk, sl) (sm, sn, so, sp).
     [mdsTable0 ! unat (q0 ! unat (q0 ! unat (q1 ! unat (b XOR sa) XOR se) XOR si) XOR sm),
      mdsTable1 ! unat (q0 ! unat (q1 ! unat (q1 ! unat (a XOR sb) XOR sf) XOR sj) XOR sn),
      mdsTable2 ! unat (q1 ! unat (q0 ! unat (q0 ! unat (a XOR sc) XOR sg) XOR sk) XOR so),
      mdsTable3 ! unat (q1 ! unat (q1 ! unat (q0 ! unat (b XOR sd) XOR sh) XOR sl) XOR sp)])"

definition twofish_sboxes :: "(u8 \<Rightarrow> u8 \<Rightarrow> u32 list) \<Rightarrow> u32 list list" where
  "twofish_sboxes f = transpose (map (\<lambda>i. f (calcSbTbl ! (2 * i)) (calcSbTbl ! (2 * i + 1))) [0..<256])"

definition twofishSetKey :: "bytes \<Rightarrow> TwoFishCipher" where
  "twofishSetKey key =
     (let s = twofish_rs_word key;
          (box, sub) =
            (if length key = 32 then
               (\<lambda>a b. calcSb2562 a b (s 0) (s 1) (s 2) (s 3), calcK256 key)
             else if length key = 24 then
               (\<lambda>a b. calcSb1922 a b (s 0) (s 1) (s 2), calcK192 key)
             else (\<lambda>a b. calcSb2 a b (s 0) (s 1), calcK key))
      in \<lparr>tf_s = twofish_sboxes box,
          tf_w = fold sub twofish_w_args (replicate 8 0),
          tf_k = fold sub twofish_k_args (replicate 32 0),
          tf_init = True\<rparr>)"

definition twofish_SetKey :: "bytes \<Rightarrow> crypt_error + TwoFishCipher" where
  "twofish_SetKey key =
     (if length key \<noteq> 16 \<and> length key \<noteq> 24 \<and> length key \<noteq> 32 then Inl ErrInvalidKeySize
      else Inr (twofishSetKey key))"

subsection \<open>The block functions\<close>

definition g1 :: "TwoFishCipher \<Rightarrow> u32 \<Rightarrow> u32" where
  "g1 t a =
     tf_s t ! 0 ! unat (a AND 0xFF) XOR tf_s t ! 1 ! unat (drop_bit 8 a AND 0xFF) XOR
     tf_s t ! 2 ! unat (drop_bit 16 a AND 0xFF) XOR tf_s t ! 3 ! unat (drop_bit 24 a)"

definition g2 :: "TwoFishCipher \<Rightarrow> u32 \<Rightarrow> u32" where
  "g2 t b =
     tf_s t ! 1 ! unat (b AND 0xFF) XOR tf_s t ! 2 ! unat (drop_bit 8 b AND 0xFF) XOR
     tf_s t ! 3 ! unat (drop_bit 16 b AND 0xFF) XOR tf_s t ! 0 ! unat (drop_bit 24 b)"

text \<open>The loop bodies for \<open>i = 2 * n\<close> upwards and \<open>i = 2 * n + 1\<close> downwards.\<close>

definition twofish_rounds :: "TwoFishCipher \<Rightarrow> nat \<Rightarrow> quad \<Rightarrow> quad" where
  "twofish_rounds t n = (\<lambda>(a, b, c, d).
     let i = 2 * n;
         x = g1 t a; y = g2 t b;
         x = x + y; y = y + (x + tf_k t ! (2 * i + 1));
         c = c XOR (x + tf_k t ! (2 * i));
         c = ror32 c 1;
         d = rol32 d 1 XOR y;
         x = g1 t c; y = g2 t d;
         x = x + y; y = y + (x + tf_k t ! (2 * i + 3));
         a = a XOR (x + tf_k t ! (2 * i + 2));
         a = ror32 a 1;
         b = rol32 b 1 XOR y
     in (a, b, c, d))"

definition twofish_unrounds :: "TwoFishCipher \<Rightarrow> nat \<Rightarrow> quad \<Rightarrow> quad" where
  "twofish_unrounds t n = (\<lambda>(a, b, c, d).
     let i = 2 * n + 1;
         x = g1 t c; y = g2 t d;
         x = x + y; y = y + x;
         b = b XOR (y + tf_k t ! (2 * i + 1));
         b = ror32 b 1;
         a = rol32 a 1;
         a = a XOR (x + tf_k t ! (2 * i));
         x = g1 t a; y = g2 t b;
         x = x + y; y = y + x;
         d = d XOR (y + tf_k t ! (2 * i - 1));
         d = ror32 d 1;
         c = rol32 c 1;
         c = c XOR (x + tf_k t ! (2 * i - 2))
     in (a, b, c, d))"

definition twofish_encryptBlock :: "TwoFishCipher \<Rightarrow> bytes \<Rightarrow> bytes" where
  "twofish_encryptBlock t inp =
     (let w = tf_w t;
          (a, b, c, d) = fold (twofish_rounds t) [0..<8]
            (word_at loadU32LE 0 inp XOR w ! 0, word_at loadU32LE 1 inp XOR w ! 1,
             word_at loadU32LE 2 inp XOR w ! 2, word_at loadU32LE 3 inp XOR w ! 3)
      in storeU32LE (c XOR w ! 4) @ storeU32LE (d XOR w ! 5) @
         storeU32LE (a XOR w ! 6) @ storeU32LE (b XOR w ! 7))"

definition twofish_decryptBlock :: "TwoFishCipher \<Rightarrow> bytes \<Rightarrow> bytes" where
  "twofish_decryptBlock t inp =
     (let w = tf_w t;
          c = word_at loadU32LE 0 inp XOR w ! 4; d = word_at loadU32LE 1 inp XOR w ! 5;
          a = word_at loadU32LE 2 inp XOR w ! 6; b = word_at loadU32LE 3 inp XOR w ! 7;
          (a, b, c, d) = fold (twofish_unrounds t) (rev [0..<8]) (a, b, c, d)
      in storeU32LE (a XOR w ! 0) @ storeU32LE (b XOR w ! 1) @
         storeU32LE (c XOR w ! 2) @ storeU32LE (d XOR w ! 3))"

definition twofish_Encrypt :: "TwoFishCipher \<Rightarrow> bytes \<Rightarrow> crypt_error + bytes" where
  "twofish_Encrypt t data =
     (if \<not> tf_init t then Inl ErrNotInitialized else ecb_crypt 16 (twofish_encryptBlock t) data)"

definition twofish_Decrypt :: "TwoFishCipher \<Rightarrow> bytes \<Rightarrow> crypt_error + bytes" where
  "twofish_Decrypt t data =
     (if \<not> tf_init t then Inl ErrNotInitialized else ecb_crypt 16 (twofish_decryptBlock t) data)"

lemma twofish_unrounds [simp]: "twofish_unrounds t n (twofish_rounds t n s) = s"
  by (cases s) (simp add: twofish_rounds_def twofish_unrounds_def Let_def add.assoc xor.assoc numeral_3_eq_3)

interpretation twofish: block_cipher 16 "twofish_encryptBlock t" "twofish_decryptBlock t" for t
proof (unfold_locales, goal_cases)
  case (3 b)
  let ?s = "(word_at loadU32LE 0 b XOR tf_w t ! 0, word_at loadU32LE 1 b XOR tf_w t ! 1,
             word_at loadU32LE 2 b XOR tf_w t ! 2, word_at loadU32LE 3 b XOR tf_w t ! 3)"
  have "fold (twofish_unrounds t) (rev [0..<8]) (fold (twofish_rounds t) [0..<8] ?s) = ?s"
    by (rule fold_inverse) simp
  with 3 split16 [OF 3] show ?case
    by (cases "fold (twofish_rounds t) [0..<8] ?s")
      (simp add: twofish_encryptBlock_def twofish_decryptBlock_def word_at_def Let_def del: upt_rec_numeral)
qed (simp_all add: twofish_encryptBlock_def Let_def split_beta)


subsection \<open>The key schedule stays inside its tables\<close>

lemma twofish_table_lengths:
  "length polyToExp = 255" "length expToPoly = 492" "length calcSbTbl = 512" "length q0 = 256" "length q1 = 256"
  by (simp_all add: polyToExp_def expToPoly_def calcSbTbl_def q0_def q1_def)

lemma polyToExp_le: "\<forall>e \<in> set polyToExp. e \<le> 254"
  by code_simp

lemma twofish_rs_le: "\<forall>(w, x, y, z) \<in> set twofish_rs. w \<le> 237 \<and> x \<le> 237 \<and> y \<le> 237 \<and> z \<le> 237"
  by code_simp

lemma calcS_in_range:
  assumes "b \<noteq> (0 :: u8)" and "(w, x, y, z) \<in> set twofish_rs"
  shows "unat (b - 1) < length polyToExp"
    and "\<forall>v \<in> {w, x, y, z}. unat (polyToExp ! unat (b - 1)) + unat v < length expToPoly"
proof -
  have "unat (b - 1) = unat b - 1" using assms(1) by (simp add: unat_minus_one)
  then show i: "unat (b - 1) < length polyToExp"
    using unsigned_less [where 'a = nat and w = b] assms(1) by (simp add: twofish_table_lengths unat_gt_0)
  then have "polyToExp ! unat (b - 1) \<le> 254" using polyToExp_le nth_mem by blast
  then have "unat (polyToExp ! unat (b - 1)) \<le> 254" by (simp add: word_le_nat_alt)
  moreover have "v \<le> 237" if "v \<in> {w, x, y, z}" for v using twofish_rs_le assms(2) that by fastforce
  ultimately show "\<forall>v \<in> {w, x, y, z}. unat (polyToExp ! unat (b - 1)) + unat v < length expToPoly"
    by (force simp: twofish_table_lengths word_le_nat_alt)
qed

lemma calcK_length [simp]:
  "length (calcK key a dst) = length dst" "length (calcK192 key a dst) = length dst"
  "length (calcK256 key a dst) = length dst"
  by (simp_all add: calcK_def calcK192_def calcK256_def calcK_store_def Let_def split_beta)

lemma fold_length:
  assumes "\<And>x ys. length (f x ys) = length ys"
  shows "length (fold f xs ys) = length ys"
  using assms by (induction xs arbitrary: ys) simp_all

lemma twofish_sboxes_length:
  assumes "\<And>a b. length (f a b) = 4"
  shows "length (twofish_sboxes f) = 4" and "\<forall>row \<in> set (twofish_sboxes f). length row = 256"
  unfolding twofish_sboxes_def
  by (subst transpose_rectangle [where n = 4], simp_all add: assms)+

lemma calcSb_length [simp]:
  "length (calcSb2 a b s0 s1) = 4" "length (calcSb1922 a b s0 s1 s2) = 4" "length (calcSb2562 a b s0 s1 s2 s3) = 4"
  by (simp_all add: calcSb2_def calcSb1922_def calcSb2562_def split_beta)

text \<open>
  A key that Twofish accepts gives a cipher whose tables have the sizes the block
  functions index: four S-boxes of 256 words, eight whitening words and 32 round keys.
  Every other key length is refused with \<open>ErrInvalidKeySize\<close>.
\<close>

theorem twofish_schedule_sizes:
  "case twofish_SetKey key of
     Inl e \<Rightarrow> e = ErrInvalidKeySize \<and> length key \<notin> {16, 24, 32}
   | Inr t \<Rightarrow> length key \<in> {16, 24, 32} \<and> tf_init t \<and> map length (tf_s t) = replicate 4 256 \<and>
       length (tf_w t) = 8 \<and> length (tf_k t) = 32"
proof (cases "length key \<in> {16, 24, 32}")
  case True
  have rows: "map length (twofish_sboxes f) = replicate 4 256" if "\<And>a b. length (f a b) = 4" for f
    using twofish_sboxes_length [OF that]
    by (intro replicate_eqI) auto
  from True show ?thesis
    by (auto simp: twofish_SetKey_def twofishSetKey_def Let_def fold_length intro!: rows)
qed (simp add: twofish_SetKey_def)

end
