(* ===== verification/Khazad.thy ===== *)
theory Khazad
  imports Cipher_Tables Ciphers_Arx
begin

section \<open>The substitution-permutation ciphers\<close>

text \<open>
  \<open>khazad.go\<close> and \<open>anubis.go\<close>. Both decrypt with the code that encrypts, under other round keys.
  That works because the substitution layer \<open>gamma\<close> and the diffusion layer \<open>theta\<close> are involutions
  and \<open>theta\<close> is linear; the locale \<open>involutional\<close> has the argument once. The layers are folded into
  lookup tables in the code, so for each cipher the tables are shown to be those layers.
\<close>

locale involutional =
  fixes gamma theta :: "'s \<Rightarrow> 's"
    and add :: "'s \<Rightarrow> 's \<Rightarrow> 's"
  assumes gamma_gamma: "gamma (gamma s) = s"
    and theta_theta: "theta (theta s) = s"
    and theta_add: "theta (add s t) = add (theta s) (theta t)"
    and add_cancel: "add (add s t) t = s"
begin

text \<open>The rounds between the first and the last, with the inner keys \<open>ks\<close>.\<close>

definition inner :: "'s list \<Rightarrow> 's \<Rightarrow> 's" where
  "inner ks s = fold (\<lambda>k s. add (theta (gamma s)) k) ks s"

definition crypt :: "'s \<Rightarrow> 's list \<Rightarrow> 's \<Rightarrow> 's \<Rightarrow> 's" where
  "crypt k0 ks kn s = add (gamma (inner ks (add s k0))) kn"

lemma inner_inverse: "inner (map theta (rev ks)) (gamma (inner ks s)) = gamma s"
proof (induction ks arbitrary: s)
  case (Cons k ks)
  have "inner (map theta (rev (k # ks))) (gamma (inner (k # ks) s)) =
      add (theta (gamma (inner (map theta (rev ks)) (gamma (inner ks (add (theta (gamma s)) k)))))) (theta k)"
    by (simp add: inner_def)
  also have "\<dots> = theta (add (add (theta (gamma s)) k) k)"
    by (simp add: Cons.IH gamma_gamma theta_add)
  finally show ?case by (simp add: add_cancel theta_theta)
qed (simp add: inner_def)

lemma crypt_inverse: "crypt kn (map theta (rev ks)) k0 (crypt k0 ks kn s) = s"
  by (simp add: crypt_def add_cancel inner_inverse gamma_gamma)

end

subsection \<open>Linear maps on words\<close>

text \<open>The linear map that sends bit \<open>n\<close> to \<open>B ! n\<close>.\<close>

definition lin :: "'b::len word list \<Rightarrow> 'a::len word \<Rightarrow> 'b word" where
  "lin B v = foldr (\<lambda>n acc. (if bit v n then B ! n else 0) XOR acc) [0..<length B] 0"

lemma lin_additive: "lin B (v XOR w) = lin B v XOR lin B w"
proof -
  have "foldr (\<lambda>n acc. (if bit (v XOR w) n then B ! n else 0) XOR acc) ns 0 =
      foldr (\<lambda>n acc. (if bit v n then B ! n else 0) XOR acc) ns 0 XOR
      foldr (\<lambda>n acc. (if bit w n then B ! n else 0) XOR acc) ns 0" for ns
    by (induction ns) (auto simp: bit_xor_iff ac_simps)
  then show ?thesis by (simp add: lin_def)
qed

lemma lin_comp:
  assumes "\<And>v w. f (v XOR w) = f v XOR f w"
  shows "f (lin C v) = lin (map f C) v"
proof -
  have "f 0 = f (0 XOR 0)" by simp
  then have f0: "f 0 = 0" unfolding assms by simp
  have "f (foldr (\<lambda>n acc. (if bit v n then C ! n else 0) XOR acc) ns 0) =
      foldr (\<lambda>n acc. (if bit v n then map f C ! n else 0) XOR acc) ns 0" if "set ns \<subseteq> {..<length C}" for ns
    using that by (induction ns) (auto simp: assms f0)
  then show ?thesis by (simp add: lin_def atLeast0LessThan)
qed

lemma lin_units:
  fixes v :: "'a::len word"
  shows "lin (map (\<lambda>n. push_bit n 1) [0..<LENGTH('a)]) v = v"
proof (rule bit_word_eqI)
  fix m assume m: "m < LENGTH('a)"
  let ?B = "map (\<lambda>n. push_bit n (1 :: 'a word)) [0..<LENGTH('a)]"
  have *: "bit (foldr (\<lambda>n acc. (if bit v n then ?B ! n else 0) XOR acc) ns 0) m \<longleftrightarrow> m \<in> set ns \<and> bit v m"
    if "set ns \<subseteq> {..<LENGTH('a)}" "distinct ns" for ns
    using that m by (induction ns) (auto simp: bit_simps)
  from * [of "[0..<LENGTH('a)]"] show "bit (lin ?B v) m \<longleftrightarrow> bit v m"
    unfolding lin_def length_map using m by (simp add: atLeast0LessThan)
qed


subsection \<open>Doubling\<close>

text \<open>Multiplication by \<open>x\<close> in the field of 256 elements, on which both diffusion layers rest.\<close>

definition anubisMul2 :: "u8 \<Rightarrow> u8" where
  "anubisMul2 value =
     (let result = push_bit 1 (ucast value) :: u16;
          result = (if result AND 0x100 \<noteq> 0 then result XOR 0x11d else result)
      in ucast result)"

lemma ucast_xor: "ucast (v XOR w) = (ucast v XOR ucast w :: 'b::len word)" for v w :: "'a::len word"
  by (rule bit_word_eqI) (auto simp: bit_simps)

lemma anubisMul2_eq: "anubisMul2 v = push_bit 1 v XOR (if bit v 7 then 0x1d else 0)"
proof -
  have "push_bit 1 (ucast v :: u16) AND 0x100 \<noteq> 0 \<longleftrightarrow> bit (push_bit 1 (ucast v :: u16)) 8"
    using bit_iff_and_push_bit_not_eq_0 [of "push_bit 1 (ucast v :: u16)" 8] by simp
  also have "\<dots> \<longleftrightarrow> bit v 7" by (subst bit_push_bit_iff) (simp add: bit_ucast_iff)
  finally have "push_bit 1 (ucast v :: u16) AND 0x100 \<noteq> 0 \<longleftrightarrow> bit v 7" .
  moreover have "ucast (push_bit 1 (ucast v :: u16)) = push_bit 1 v"
    by (intro bit_word_eqI, simp only: bit_unsigned_iff bit_push_bit_iff, auto)
  moreover have "ucast (w XOR 0x11d) = (ucast w XOR 0x1d :: u8)" for w :: u16
  proof -
    have "ucast (0x11d :: u16) = (0x1d :: u8)" by code_simp
    then show ?thesis by (simp only: ucast_xor)
  qed
  ultimately show ?thesis
    by (simp add: anubisMul2_def Let_def)
qed

declare anubisMul2_eq [code]

lemma mul2_xor: "anubisMul2 (v XOR w) = anubisMul2 v XOR anubisMul2 w"
  by (auto simp: anubisMul2_eq bit_xor_iff ac_simps)

subsection \<open>Khazad\<close>

record KhazadCipher =
  kz_roundKeyEnc :: "u64 list"
  kz_roundKeyDec :: "u64 list"

definition khazadC :: "u64 list" where
  "khazadC =
     [0xba542f7453d3d24d, 0x50ac8dbf70529a4c, 0xead597d133515ba6, 0xde48a899db32b7fc, 0xe39e919be2bb416e,
      0xa5cb6b95a1f3b102, 0xccc41d14c363da5d, 0x5fdc7dcd7f5a6c5c, 0xf726ffede89d6f8e]"

definition permuteKhazadTable :: "u64 \<Rightarrow> nat list \<Rightarrow> u64" where
  "permuteKhazadTable v order = foldl (\<lambda>out idx. push_bit 8 out OR (drop_bit ((7 - idx) * 8) v AND 0xff)) 0 order"

definition khazad_orders :: "nat list list" where
  "khazad_orders =
     [[0, 1, 2, 3, 4, 5, 6, 7], [1, 0, 3, 2, 5, 4, 7, 6], [2, 3, 0, 1, 6, 7, 4, 5], [3, 2, 1, 0, 7, 6, 5, 4],
      [4, 5, 6, 7, 0, 1, 2, 3], [5, 4, 7, 6, 1, 0, 3, 2], [6, 7, 4, 5, 2, 3, 0, 1], [7, 6, 5, 4, 3, 2, 1, 0]]"

text \<open>\<open>T0\<close> to \<open>T7\<close>, as the package's \<open>init\<close> fills them.\<close>

definition khazad_T :: "nat \<Rightarrow> u64 list" where
  "khazad_T j = map (\<lambda>v. permuteKhazadTable v (khazad_orders ! j)) khazadSbox"

definition khazadRound :: "u64 \<Rightarrow> u64" where
  "khazadRound state =
     khazad_T 0 ! unat (ucast (drop_bit 56 state) :: u8) XOR khazad_T 1 ! unat (ucast (drop_bit 48 state) :: u8) XOR
     khazad_T 2 ! unat (ucast (drop_bit 40 state) :: u8) XOR khazad_T 3 ! unat (ucast (drop_bit 32 state) :: u8) XOR
     khazad_T 4 ! unat (ucast (drop_bit 24 state) :: u8) XOR khazad_T 5 ! unat (ucast (drop_bit 16 state) :: u8) XOR
     khazad_T 6 ! unat (ucast (drop_bit 8 state) :: u8) XOR khazad_T 7 ! unat (ucast state :: u8)"

definition khazadCryptBlock :: "u64 \<Rightarrow> u64 list \<Rightarrow> u64" where
  "khazadCryptBlock block roundKey =
     (let state = fold (\<lambda>r state. khazadRound state XOR roundKey ! r) [1..<8] (block XOR roundKey ! 0)
      in (khazad_T 0 ! unat (ucast (drop_bit 56 state) :: u8) AND 0xff00000000000000) XOR
         (khazad_T 1 ! unat (ucast (drop_bit 48 state) :: u8) AND 0x00ff000000000000) XOR
         (khazad_T 2 ! unat (ucast (drop_bit 40 state) :: u8) AND 0x0000ff0000000000) XOR
         (khazad_T 3 ! unat (ucast (drop_bit 32 state) :: u8) AND 0x000000ff00000000) XOR
         (khazad_T 4 ! unat (ucast (drop_bit 24 state) :: u8) AND 0x00000000ff000000) XOR
         (khazad_T 5 ! unat (ucast (drop_bit 16 state) :: u8) AND 0x0000000000ff0000) XOR
         (khazad_T 6 ! unat (ucast (drop_bit 8 state) :: u8) AND 0x000000000000ff00) XOR
         (khazad_T 7 ! unat (ucast state :: u8) AND 0x00000000000000ff) XOR
         roundKey ! 8)"

text \<open>The byte \<open>byte(T7[byte(v)])\<close>, the substitution, and the word of a decryption key.\<close>

definition khazad_S :: "u8 \<Rightarrow> u8" where
  "khazad_S b = ucast (khazad_T 7 ! unat b)"

definition khazad_decKey :: "u64 \<Rightarrow> u64" where
  "khazad_decKey k1 =
     khazad_T 0 ! unat (khazad_S (ucast (drop_bit 56 k1))) XOR khazad_T 1 ! unat (khazad_S (ucast (drop_bit 48 k1))) XOR
     khazad_T 2 ! unat (khazad_S (ucast (drop_bit 40 k1))) XOR khazad_T 3 ! unat (khazad_S (ucast (drop_bit 32 k1))) XOR
     khazad_T 4 ! unat (khazad_S (ucast (drop_bit 24 k1))) XOR khazad_T 5 ! unat (khazad_S (ucast (drop_bit 16 k1))) XOR
     khazad_T 6 ! unat (khazad_S (ucast (drop_bit 8 k1))) XOR khazad_T 7 ! unat (khazad_S (ucast k1))"

text \<open>One step of the key schedule, on the keys so far and the last two words.\<close>

definition khazad_expand :: "nat \<Rightarrow> u64 list \<times> u64 \<times> u64 \<Rightarrow> u64 list \<times> u64 \<times> u64" where
  "khazad_expand r = (\<lambda>(enc, k1, k2). let k = khazadRound k1 XOR khazadC ! r XOR k2 in (enc @ [k], k, k1))"

definition khazad_keys :: "u64 list \<Rightarrow> KhazadCipher" where
  "khazad_keys enc =
     \<lparr>kz_roundKeyEnc = enc,
      kz_roundKeyDec = enc ! 8 # map (\<lambda>r. khazad_decKey (enc ! (8 - r))) [1..<8] @ [enc ! 0]\<rparr>"

definition khazad_SetKey :: "bytes \<Rightarrow> crypt_error + KhazadCipher" where
  "khazad_SetKey key =
     (if length key \<noteq> 16 then Inl ErrInvalidKeySize
      else let k2 = loadU64BE (take 8 key);
               k1 = loadU64BE (drop 8 key);
               (enc, k1, k2) = fold khazad_expand [0..<9] ([], k1, k2)
           in Inr (khazad_keys enc))"

definition khazad_Encrypt :: "KhazadCipher \<Rightarrow> bytes \<Rightarrow> crypt_error + bytes" where
  "khazad_Encrypt k = ecb_crypt 8 (\<lambda>b. storeU64BE (khazadCryptBlock (loadU64BE b) (kz_roundKeyEnc k)))"

definition khazad_Decrypt :: "KhazadCipher \<Rightarrow> bytes \<Rightarrow> crypt_error + bytes" where
  "khazad_Decrypt k = ecb_crypt 8 (\<lambda>b. storeU64BE (khazadCryptBlock (loadU64BE b) (kz_roundKeyDec k)))"

text \<open>
  The two layers: the S-box on every byte, and the matrix that the tables add to it, whose
  coefficients are \<open>1, 3, 4, 5, 6, 8, 11, 7\<close> in the order of the bytes of a row of \<open>T0\<close>.
\<close>

definition khazad_gamma :: "u64 \<Rightarrow> u64" where
  "khazad_gamma v = loadU64BE (map khazad_S (storeU64BE v))"

definition khazad_mul :: "nat \<Rightarrow> u8 \<Rightarrow> u8" where
  "khazad_mul t b =
     (let b2 = anubisMul2 b; b4 = anubisMul2 b2; b8 = anubisMul2 b4
      in [b, b XOR b2, b4, b XOR b4, b2 XOR b4, b8, b XOR b2 XOR b8, b XOR b2 XOR b4] ! t)"

definition khazad_matrix :: "bytes \<Rightarrow> bytes" where
  "khazad_matrix bs = map (\<lambda>k.
     khazad_mul (khazad_orders ! 0 ! k) (bs ! 0) XOR khazad_mul (khazad_orders ! 1 ! k) (bs ! 1) XOR
     khazad_mul (khazad_orders ! 2 ! k) (bs ! 2) XOR khazad_mul (khazad_orders ! 3 ! k) (bs ! 3) XOR
     khazad_mul (khazad_orders ! 4 ! k) (bs ! 4) XOR khazad_mul (khazad_orders ! 5 ! k) (bs ! 5) XOR
     khazad_mul (khazad_orders ! 6 ! k) (bs ! 6) XOR khazad_mul (khazad_orders ! 7 ! k) (bs ! 7)) [0..<8]"

definition khazad_theta :: "u64 \<Rightarrow> u64" where
  "khazad_theta v = loadU64BE (khazad_matrix (storeU64BE v))"

text \<open>The S-box on its own, the rows of \<open>T0\<close> as linear images of it, and the evaluations.\<close>

definition khazad_sub :: "u8 list" where
  "khazad_sub =
     [186, 84, 47, 116, 83, 211, 210, 77, 80, 172, 141, 191, 112, 82, 154, 76, 234, 213, 151, 209,
      51, 81, 91, 166, 222, 72, 168, 153, 219, 50, 183, 252, 227, 158, 145, 155, 226, 187, 65, 110,
      165, 203, 107, 149, 161, 243, 177, 2, 204, 196, 29, 20, 195, 99, 218, 93, 95, 220, 125, 205,
      127, 90, 108, 92, 247, 38, 255, 237, 232, 157, 111, 142, 25, 160, 240, 137, 15, 7, 175, 251,
      8, 21, 13, 4, 1, 100, 223, 118, 121, 221, 61, 22, 63, 55, 109, 56, 185, 115, 233, 53,
      85, 113, 123, 140, 114, 136, 246, 42, 62, 94, 39, 70, 12, 101, 104, 97, 3, 193, 87, 214,
      217, 88, 216, 102, 215, 58, 200, 60, 250, 150, 167, 152, 236, 184, 199, 174, 105, 75, 171, 169,
      103, 10, 71, 242, 181, 34, 229, 238, 190, 43, 129, 18, 131, 27, 14, 35, 245, 69, 33, 206,
      73, 44, 249, 230, 182, 40, 23, 130, 26, 139, 254, 138, 9, 201, 135, 78, 225, 46, 228, 224,
      235, 144, 164, 30, 133, 96, 0, 37, 244, 241, 148, 11, 231, 117, 239, 52, 49, 212, 208, 134,
      126, 173, 253, 41, 48, 59, 159, 248, 198, 19, 6, 5, 197, 17, 119, 124, 122, 120, 54, 28,
      57, 89, 24, 86, 179, 176, 36, 32, 178, 146, 163, 192, 68, 98, 16, 180, 132, 67, 147, 194,
      74, 189, 143, 45, 188, 156, 106, 64, 207, 162, 128, 79, 31, 202, 170, 66]"

definition khazad_rows :: "u64 list" where
  "khazad_rows =
     [0x0103040506080b07, 0x0206080a0c10160e, 0x040c101418202c1c, 0x0818202830405838,
      0x103040506080b070, 0x206080a0c01d7de0, 0x40c01d5d9d3afadd, 0x809d3aba2774e9a7]"

lemma khazad_sub_table: "map (\<lambda>v. ucast (drop_bit 56 v)) khazadSbox = khazad_sub"
  by code_simp

lemma khazad_sub_involution: "map (\<lambda>b. khazad_sub ! unat b) khazad_sub = map of_nat [0..<256]"
  by code_simp

lemma khazad_sbox_rows: "\<forall>(s, v) \<in> set (zip khazad_sub khazadSbox). lin khazad_rows s = v"
  by code_simp

lemma khazad_rows_mul:
  "khazad_rows = map (\<lambda>b. loadU64BE (map (\<lambda>t. khazad_mul t b) [0..<8])) [1, 2, 4, 8, 16, 32, 64, 128]"
  by code_simp

text \<open>The coefficients commute, so all but the squares cancel in the square of the matrix.\<close>

lemma khazad_mul_poly:
  "khazad_mul 0 b = b" "khazad_mul (Suc 0) b = b XOR anubisMul2 b"
  "khazad_mul 2 b = anubisMul2 (anubisMul2 b)" "khazad_mul 3 b = b XOR anubisMul2 (anubisMul2 b)"
  "khazad_mul 4 b = anubisMul2 b XOR anubisMul2 (anubisMul2 b)"
  "khazad_mul 5 b = anubisMul2 (anubisMul2 (anubisMul2 b))"
  "khazad_mul 6 b = b XOR anubisMul2 b XOR anubisMul2 (anubisMul2 (anubisMul2 b))"
  "khazad_mul 7 b = b XOR anubisMul2 b XOR anubisMul2 (anubisMul2 b)"
  by (simp_all add: khazad_mul_def Let_def)

lemma less_8: "t < 8 \<longleftrightarrow> t \<in> {0, Suc 0, 2, 3, 4, 5, 6, 7}" for t :: nat
  by auto

lemma khazad_mul_xor: "khazad_mul t (a XOR b) = khazad_mul t a XOR khazad_mul t b" if "t < 8"
  using that unfolding less_8 by (auto simp: khazad_mul_poly mul2_xor ac_simps)

lemma khazad_mul_commute:
  assumes "s < 8" "t < 8"
  shows "khazad_mul s (khazad_mul t b) = khazad_mul t (khazad_mul s b)"
  using assms unfolding less_8 by (elim insertE) (simp_all add: khazad_mul_poly mul2_xor ac_simps)

lemma khazad_squares:
  "khazad_mul 0 (khazad_mul 0 b) XOR khazad_mul (Suc 0) (khazad_mul (Suc 0) b) XOR khazad_mul 2 (khazad_mul 2 b) XOR
   khazad_mul 3 (khazad_mul 3 b) XOR khazad_mul 4 (khazad_mul 4 b) XOR khazad_mul 5 (khazad_mul 5 b) XOR
   khazad_mul 6 (khazad_mul 6 b) XOR khazad_mul 7 (khazad_mul 7 b) = b"
  by (simp add: khazad_mul_poly mul2_xor ac_simps)

lemma upt_8: "[0..<8] = [0, Suc 0, 2, 3, 4, 5, 6, 7]"
  by (simp add: upt_rec)

lemma khazad_matrix_square:
  assumes "length bs = 8"
  shows "khazad_matrix (khazad_matrix bs) = bs"
proof -
  obtain b0 b1 b2 b3 b4 b5 b6 b7 where bs: "bs = [b0, b1, b2, b3, b4, b5, b6, b7]"
    using assms unfolding list8 by blast
  show ?thesis
    unfolding bs khazad_matrix_def upt_8 khazad_orders_def
    by (simp add: khazad_mul_poly mul2_xor ac_simps)
qed

lemma khazad_matrix_xor:
  assumes "length a = 8" "length b = 8"
  shows "khazad_matrix (map2 (XOR) a b) = map2 (XOR) (khazad_matrix a) (khazad_matrix b)"
  using assms unfolding list8 khazad_matrix_def upt_8 khazad_orders_def
  by (auto simp: khazad_mul_poly mul2_xor ac_simps)

lemma khazad_matrix_length [simp]: "length (khazad_matrix bs) = 8"
  by (simp add: khazad_matrix_def)

text \<open>Bytes and words under xor.\<close>

lemma storeU64BE_xor: "storeU64BE (v XOR w) = map2 (XOR) (storeU64BE v) (storeU64BE w)"
  by (simp add: storeU64BE_def drop_bit_xor ucast_xor)

lemma loadU64BE_xor:
  assumes "length a = 8" "length b = 8"
  shows "loadU64BE (map2 (XOR) a b) = loadU64BE a XOR loadU64BE b"
  using load_storeU64BE [of "loadU64BE a XOR loadU64BE b"] assms
  by (simp only: storeU64BE_xor store_loadU64BE)

lemma loadU64BE_map_xor:
  "loadU64BE (map (\<lambda>k. f k XOR g k) [0..<8]) = loadU64BE (map f [0..<8]) XOR loadU64BE (map g [0..<8])"
  by (subst loadU64BE_xor [symmetric]) (simp_all add: map2_map_map)

lemma khazad_row_mul: "lin khazad_rows b = loadU64BE (map (\<lambda>t. khazad_mul t b) [0..<8])"
proof -
  let ?f = "\<lambda>b. loadU64BE (map (\<lambda>t. khazad_mul t b) [0..<8])"
  have add: "?f (v XOR w) = ?f v XOR ?f w" for v w
    unfolding loadU64BE_map_xor [symmetric] by (intro arg_cong [of _ _ loadU64BE] map_cong) (simp_all add: khazad_mul_xor)
  have "?f b = ?f (lin (map (\<lambda>n. push_bit n 1) [0..<LENGTH(8)]) b)" by (simp only: lin_units)
  also have "\<dots> = lin (map ?f (map (\<lambda>n. push_bit n 1) [0..<LENGTH(8)])) b" by (rule lin_comp) (rule add)
  also have "map (\<lambda>n. push_bit n 1) [0..<LENGTH(8)] = [1, 2, 4, 8, 16, 32, 64, 128 :: u8]"
    by (simp add: upt_8)
  finally show ?thesis by (simp only: khazad_rows_mul)
qed

text \<open>A permuted row has its bytes in the order of the table.\<close>

lemma permute_bytes:
  assumes "length bs = 8"
  shows "foldl (\<lambda>out b. push_bit 8 out OR ucast b) 0 bs = loadU64BE bs"
  using assms unfolding list8
  by (auto simp: loadU64BE_def push_bit_or ac_simps)

lemma permuteKhazadTable_bytes:
  assumes "length order = 8" "\<forall>i \<in> set order. i < 8"
  shows "permuteKhazadTable v order = loadU64BE (map (\<lambda>i. storeU64BE v ! i) order)"
proof -
  have "drop_bit ((7 - i) * 8) v AND 0xff = ucast (storeU64BE v ! i)" if "i < 8" for i
  proof -
    have m: "0xff = (mask 8 :: u64)" by (simp add: mask_eq_exp_minus_1)
    have "w AND 0xff = ucast (ucast w :: u8)" for w :: u64
      unfolding m by (rule bit_word_eqI) (auto simp: bit_simps)
    then show ?thesis using that unfolding less_8 by (elim insertE) (simp_all add: storeU64BE_def)
  qed
  then have "permuteKhazadTable v order = foldl (\<lambda>out i. push_bit 8 out OR ucast (storeU64BE v ! i)) 0 order"
    unfolding permuteKhazadTable_def using assms(2) by (intro foldl_cong) auto
  also have "\<dots> = foldl (\<lambda>out b. push_bit 8 out OR ucast b) 0 (map (\<lambda>i. storeU64BE v ! i) order)"
    by (simp add: foldl_map)
  finally show ?thesis using assms(1) by (simp add: permute_bytes)
qed

text \<open>Column \<open>j\<close> of the matrix is table \<open>j\<close>, taken at a substituted byte.\<close>

lemma khazad_lengths: "length khazadSbox = 256" "length khazad_sub = 256"
  by (simp_all add: khazadSbox_def khazad_sub_def)

lemma unat_lt_256: "unat (b :: u8) < 256"
  using unsigned_less [of b] by simp

lemma khazad_orders_ok: "j < 8 \<Longrightarrow> length (khazad_orders ! j) = 8 \<and> (\<forall>i \<in> set (khazad_orders ! j). i < 8)"
  unfolding less_8 by (elim insertE) (simp_all add: khazad_orders_def)

lemma khazad_column:
  assumes "j < 8"
  shows "khazad_T j ! unat (b :: u8) = loadU64BE (map (\<lambda>k. khazad_mul (khazad_orders ! j ! k) (khazad_sub ! unat b)) [0..<8])"
proof -
  have "(khazad_sub ! unat b, khazadSbox ! unat b) \<in> set (zip khazad_sub khazadSbox)"
    using unat_lt_256 [of b] by (auto simp: set_zip khazad_lengths)
  then have "khazadSbox ! unat b = lin khazad_rows (khazad_sub ! unat b)" using khazad_sbox_rows by auto
  then have row: "storeU64BE (khazadSbox ! unat b) = map (\<lambda>t. khazad_mul t (khazad_sub ! unat b)) [0..<8]"
    by (simp add: khazad_row_mul)
  have "khazad_T j ! unat b = loadU64BE (map (\<lambda>i. storeU64BE (khazadSbox ! unat b) ! i) (khazad_orders ! j))"
    using unat_lt_256 [of b] khazad_orders_ok [OF assms]
    by (simp add: khazad_T_def khazad_lengths permuteKhazadTable_bytes)
  also have "map (\<lambda>i. storeU64BE (khazadSbox ! unat b) ! i) (khazad_orders ! j) =
      map (\<lambda>k. khazad_mul (khazad_orders ! j ! k) (khazad_sub ! unat b)) [0..<8]"
    using khazad_orders_ok [OF assms] by (intro nth_equalityI) (simp_all add: row)
  finally show ?thesis .
qed

lemma khazad_S_sub: "khazad_S b = khazad_sub ! unat b"
proof -
  have "storeU64BE (khazad_T 7 ! unat b) ! 7 = khazad_sub ! unat b"
    by (simp add: khazad_column khazad_mul_poly khazad_orders_def)
  then show ?thesis by (simp add: khazad_S_def storeU64BE_def)
qed

lemma khazad_S_involution [simp]: "khazad_S (khazad_S b) = b"
proof -
  have "map (\<lambda>b. khazad_sub ! unat b) khazad_sub ! unat b = of_nat (unat b)"
    unfolding khazad_sub_involution using unat_lt_256 [of b] by simp
  then show ?thesis using unat_lt_256 [of b] by (simp add: khazad_S_sub khazad_lengths)
qed

lemma khazadRound_layers: "khazadRound v = khazad_theta (khazad_gamma v)"
proof -
  have "khazadRound v = loadU64BE (khazad_matrix (map khazad_S (storeU64BE v)))"
    unfolding khazad_matrix_def loadU64BE_map_xor
    by (simp add: khazadRound_def khazad_column khazad_S_sub storeU64BE_def del: upt_rec_numeral)
  then show ?thesis by (simp add: khazad_theta_def khazad_gamma_def)
qed

lemma khazad_decKey_theta: "khazad_decKey k = khazad_theta k"
proof -
  have "khazad_decKey k = khazadRound (khazad_gamma k)"
  proof -
    have "storeU64BE (khazad_gamma k) = map khazad_S (storeU64BE k)" by (simp add: khazad_gamma_def)
    then show ?thesis by (simp add: storeU64BE_def khazadRound_def khazad_decKey_def)
  qed
  then show ?thesis by (simp add: khazadRound_layers khazad_gamma_def comp_def)
qed

interpretation khazad_layers: involutional khazad_gamma khazad_theta "(XOR)"
proof (unfold_locales, goal_cases)
  case (1 s)
  then show ?case by (simp add: khazad_gamma_def comp_def)
next
  case (2 s)
  then show ?case by (simp add: khazad_theta_def khazad_matrix_square)
next
  case (3 s t)
  then show ?case by (simp add: khazad_theta_def storeU64BE_xor khazad_matrix_xor loadU64BE_xor)
next
  case (4 s t)
  then show ?case by (simp add: xor.assoc)
qed

text \<open>The masked tables of the last round place the substituted bytes.\<close>

lemma storeU64BE_and: "storeU64BE (v AND w) = map2 (AND) (storeU64BE v) (storeU64BE w)"
  by (auto simp: storeU64BE_def drop_bit_and intro!: bit_word_eqI simp: bit_simps)

lemma byte_and_255: "b AND 255 = (b :: u8)"
proof -
  have "(255 :: u8) = - 1" by code_simp
  then show ?thesis by (simp only: and.right_neutral)
qed

lemma khazad_masks:
  "storeU64BE 0xff00000000000000 = [255, 0, 0, 0, 0, 0, 0, 0]"
  "storeU64BE 0x00ff000000000000 = [0, 255, 0, 0, 0, 0, 0, 0]"
  "storeU64BE 0x0000ff0000000000 = [0, 0, 255, 0, 0, 0, 0, 0]"
  "storeU64BE 0x000000ff00000000 = [0, 0, 0, 255, 0, 0, 0, 0]"
  "storeU64BE 0x00000000ff000000 = [0, 0, 0, 0, 255, 0, 0, 0]"
  "storeU64BE 0x0000000000ff0000 = [0, 0, 0, 0, 0, 255, 0, 0]"
  "storeU64BE 0x000000000000ff00 = [0, 0, 0, 0, 0, 0, 255, 0]"
  "storeU64BE 0x00000000000000ff = [0, 0, 0, 0, 0, 0, 0, 255]"
  by code_simp+

lemma khazad_last_layer:
  "(khazad_T 0 ! unat (ucast (drop_bit 56 state) :: u8) AND 0xff00000000000000) XOR
   (khazad_T 1 ! unat (ucast (drop_bit 48 state) :: u8) AND 0x00ff000000000000) XOR
   (khazad_T 2 ! unat (ucast (drop_bit 40 state) :: u8) AND 0x0000ff0000000000) XOR
   (khazad_T 3 ! unat (ucast (drop_bit 32 state) :: u8) AND 0x000000ff00000000) XOR
   (khazad_T 4 ! unat (ucast (drop_bit 24 state) :: u8) AND 0x00000000ff000000) XOR
   (khazad_T 5 ! unat (ucast (drop_bit 16 state) :: u8) AND 0x0000000000ff0000) XOR
   (khazad_T 6 ! unat (ucast (drop_bit 8 state) :: u8) AND 0x000000000000ff00) XOR
   (khazad_T 7 ! unat (ucast state :: u8) AND 0x00000000000000ff) XOR k = khazad_gamma state XOR k"
  (is "?l0 XOR ?l1 XOR ?l2 XOR ?l3 XOR ?l4 XOR ?l5 XOR ?l6 XOR ?l7 XOR k = _")
proof -
  have "storeU64BE (?l0 XOR ?l1 XOR ?l2 XOR ?l3 XOR ?l4 XOR ?l5 XOR ?l6 XOR ?l7) = map khazad_S (storeU64BE state)"
    unfolding storeU64BE_xor storeU64BE_and khazad_masks
    by (simp add: khazad_column khazad_S_sub upt_8 khazad_orders_def khazad_mul_poly byte_and_255)
      (simp add: storeU64BE_def khazad_S_sub)
  then have "?l0 XOR ?l1 XOR ?l2 XOR ?l3 XOR ?l4 XOR ?l5 XOR ?l6 XOR ?l7 = khazad_gamma state"
    unfolding khazad_gamma_def by (metis load_storeU64BE)
  then show ?thesis by (simp only: xor.assoc [symmetric])
qed

lemma khazadCryptBlock_layers:
  "khazadCryptBlock b K = khazad_layers.crypt (K ! 0) (map ((!) K) [1..<8]) (K ! 8) b"
  unfolding khazadCryptBlock_def Let_def khazad_last_layer khazad_layers.crypt_def khazad_layers.inner_def
  by (simp add: khazadRound_layers fold_map comp_def)

interpretation khazad: block_cipher 8
    "\<lambda>b. storeU64BE (khazadCryptBlock (loadU64BE b) (kz_roundKeyEnc (khazad_keys enc)))"
    "\<lambda>b. storeU64BE (khazadCryptBlock (loadU64BE b) (kz_roundKeyDec (khazad_keys enc)))" for enc
proof (unfold_locales, goal_cases)
  case (3 b)
  let ?D = "kz_roundKeyDec (khazad_keys enc)"
  have D: "?D ! 0 = enc ! 8" "?D ! 8 = enc ! 0" "map ((!) ?D) [1..<8] = map khazad_theta (rev (map ((!) enc) [1..<8]))"
    by (simp_all add: khazad_keys_def khazad_decKey_theta upt_rec numeral_eq_Suc)
  show ?case
    using 3 khazad_layers.crypt_inverse [of "enc ! 8" "map ((!) enc) [1..<8]" "enc ! 0" "loadU64BE b"]
    unfolding khazadCryptBlock_layers D load_storeU64BE by (simp add: khazad_keys_def del: upt_rec_numeral)
qed simp_all

end
