(* ===== verification/Anubis.thy ===== *)
theory Anubis
  imports Khazad
begin

section \<open>Anubis\<close>

text \<open>
  \<open>anubis.go\<close> and \<open>anubis_tables.go\<close>: the tables that \<open>init\<close> computes from the S-box, the key
  schedule for every key length, and \<open>crypt\<close>, which runs under the encryption or the decryption
  keys. The state is four words; the interpretation of \<open>involutional\<close> shows that the two runs are
  inverse.
\<close>

type_synonym anubis_state = "u32 \<times> u32 \<times> u32 \<times> u32"

record AnubisCipher =
  an_rounds :: nat
  an_roundKeyEnc :: "anubis_state list"
  an_roundKeyDec :: "anubis_state list"

definition anubisRoundConstants :: "u32 list" where
  "anubisRoundConstants =
     [0xa7d3e671, 0xd0ac4d79, 0x3ac991fc, 0x1e4754bd, 0x8ca57afb, 0x63b8ddd4, 0xe5b3c5be, 0xa9880ca2,
      0x39df29da, 0x2ba8cb4c, 0x4b22aa24, 0x4170a6f9, 0x5ae2b036, 0x7de433ff, 0x6020088b, 0x5eab7f78,
      0x7c2c57d2, 0xdc6d7e0d, 0x5394c328]"

subsection \<open>The tables\<close>

abbreviation anubis_table :: "(u8 \<Rightarrow> u8 \<Rightarrow> u8 \<Rightarrow> u8 \<Rightarrow> bytes) \<Rightarrow> u32 list" where
  "anubis_table row \<equiv> map (\<lambda>value.
     let x2 = anubisMul2 value; x4 = anubisMul2 x2; x6 = x2 XOR x4 in loadU32BE (row value x2 x4 x6)) anubisSBox"

definition anubisT0 :: "u32 list" where
  "anubisT0 = anubis_table (\<lambda>value x2 x4 x6. [value, x2, x4, x6])"

definition anubisT1 :: "u32 list" where
  "anubisT1 = anubis_table (\<lambda>value x2 x4 x6. [x2, value, x6, x4])"

definition anubisT2 :: "u32 list" where
  "anubisT2 = anubis_table (\<lambda>value x2 x4 x6. [x4, x6, value, x2])"

definition anubisT3 :: "u32 list" where
  "anubisT3 = anubis_table (\<lambda>value x2 x4 x6. [x6, x4, x2, value])"

definition anubisT4 :: "u32 list" where
  "anubisT4 = map (\<lambda>value. ucast value * 0x01010101) anubisSBox"

definition anubisT5 :: "u32 list" where
  "anubisT5 = map (\<lambda>i.
     let raw = of_nat i; raw2 = anubisMul2 raw; raw4 = anubisMul2 raw2; raw6 = raw2 XOR raw4; raw8 = anubisMul2 raw4
     in loadU32BE [raw, raw2, raw6, raw8]) [0..<256]"

subsection \<open>The key schedule\<close>

definition anubisKeyTransform :: "u32 \<Rightarrow> u32" where
  "anubisKeyTransform v =
     (anubisT5 ! byte_of v 24 AND 0xff000000) OR (anubisT5 ! byte_of v 16 AND 0x00ff0000) OR
     (anubisT5 ! byte_of v 8 AND 0x0000ff00) OR (anubisT5 ! byte_of v 0 AND 0x000000ff)"

text \<open>One word of a round key: \<open>k0\<close> to \<open>k3\<close> for the shifts 24, 16, 8 and 0.\<close>

definition anubis_keyWord :: "nat \<Rightarrow> u32 list \<Rightarrow> u32" where
  "anubis_keyWord sh kappa =
     fold (\<lambda>w k. anubisT4 ! byte_of w sh XOR anubisKeyTransform k) (rev (butlast kappa)) (anubisT4 ! byte_of (last kappa) sh)"

definition anubis_evolve :: "nat \<Rightarrow> u32 list \<Rightarrow> u32 list" where
  "anubis_evolve round kappa =
     (let n = length kappa;
          intermediate = map (\<lambda>i.
            anubisT0 ! byte_of (kappa ! i) 24 XOR
            anubisT1 ! byte_of (kappa ! ((i + n - 1) mod n)) 16 XOR
            anubisT2 ! byte_of (kappa ! ((i + n - 2) mod n)) 8 XOR
            anubisT3 ! byte_of (kappa ! ((i + n - 3) mod n)) 0) [0..<n]
      in intermediate[0 := intermediate ! 0 XOR anubisRoundConstants ! round])"

definition anubis_roundKey :: "u32 list \<Rightarrow> anubis_state" where
  "anubis_roundKey kappa =
     (anubis_keyWord 24 kappa, anubis_keyWord 16 kappa, anubis_keyWord 8 kappa, anubis_keyWord 0 kappa)"

text \<open>The loop over the rounds, which breaks after the last key; only the keys it fills are listed.\<close>

primrec anubis_expand :: "nat list \<Rightarrow> u32 list \<Rightarrow> anubis_state list" where
  "anubis_expand [] kappa = [anubis_roundKey kappa]"
| "anubis_expand (round # rs) kappa = anubis_roundKey kappa # anubis_expand rs (anubis_evolve round kappa)"

definition anubis_decWord :: "u32 \<Rightarrow> u32" where
  "anubis_decWord v =
     anubisT0 ! unat (ucast (anubisT4 ! byte_of v 24) :: u8) XOR anubisT1 ! unat (ucast (anubisT4 ! byte_of v 16) :: u8) XOR
     anubisT2 ! unat (ucast (anubisT4 ! byte_of v 8) :: u8) XOR anubisT3 ! unat (ucast (anubisT4 ! byte_of v 0) :: u8)"

definition anubis_decKey :: "anubis_state \<Rightarrow> anubis_state" where
  "anubis_decKey = (\<lambda>(a, b, c, d). (anubis_decWord a, anubis_decWord b, anubis_decWord c, anubis_decWord d))"

definition anubis_keys :: "nat \<Rightarrow> anubis_state list \<Rightarrow> AnubisCipher" where
  "anubis_keys rounds enc =
     \<lparr>an_rounds = rounds,
      an_roundKeyEnc = enc,
      an_roundKeyDec =
        enc ! rounds # map (\<lambda>round. anubis_decKey (enc ! (rounds - round))) [1..<rounds] @ [enc ! 0]\<rparr>"

definition anubis_SetKey :: "bytes \<Rightarrow> crypt_error + AnubisCipher" where
  "anubis_SetKey key =
     (if length key < 16 \<or> 40 < length key \<or> length key mod 4 \<noteq> 0 then Inl ErrInvalidKeySize
      else let n = length key div 4;
               rounds = 8 + n;
               kappa = map (\<lambda>i. word_at loadU32BE i key) [0..<n]
           in Inr (anubis_keys rounds (anubis_expand [0..<rounds] kappa)))"

subsection \<open>The rounds\<close>

definition anubis_add :: "anubis_state \<Rightarrow> anubis_state \<Rightarrow> anubis_state" where
  "anubis_add = (\<lambda>(a, b, c, d) (e, f, g, h). (a XOR e, b XOR f, c XOR g, d XOR h))"

definition anubis_round :: "anubis_state \<Rightarrow> anubis_state" where
  "anubis_round = (\<lambda>(s0, s1, s2, s3).
     let word = \<lambda>sh. anubisT0 ! byte_of s0 sh XOR anubisT1 ! byte_of s1 sh XOR
                     anubisT2 ! byte_of s2 sh XOR anubisT3 ! byte_of s3 sh
     in (word 24, word 16, word 8, word 0))"

definition anubis_last :: "anubis_state \<Rightarrow> anubis_state" where
  "anubis_last = (\<lambda>(s0, s1, s2, s3).
     let word = \<lambda>sh. (anubisT0 ! byte_of s0 sh AND 0xff000000) XOR (anubisT1 ! byte_of s1 sh AND 0x00ff0000) XOR
                     (anubisT2 ! byte_of s2 sh AND 0x0000ff00) XOR (anubisT3 ! byte_of s3 sh AND 0x000000ff)
     in (word 24, word 16, word 8, word 0))"

definition anubis_block :: "nat \<Rightarrow> anubis_state list \<Rightarrow> bytes \<Rightarrow> bytes" where
  "anubis_block rounds roundKeys data =
     (let state = (word_at loadU32BE 0 data, word_at loadU32BE 1 data, word_at loadU32BE 2 data, word_at loadU32BE 3 data);
          state = anubis_add state (roundKeys ! 0);
          state = fold (\<lambda>round state. anubis_add (anubis_round state) (roundKeys ! round)) [1..<rounds] state;
          (l0, l1, l2, l3) = anubis_add (anubis_last state) (roundKeys ! rounds)
      in storeU32BE l0 @ storeU32BE l1 @ storeU32BE l2 @ storeU32BE l3)"

definition anubis_crypt :: "AnubisCipher \<Rightarrow> bytes \<Rightarrow> anubis_state list \<Rightarrow> crypt_error + bytes" where
  "anubis_crypt a data roundKeys =
     (if an_rounds a = 0 then Inl ErrNotInitialized
      else ecb_crypt 16 (anubis_block (an_rounds a) roundKeys) data)"

definition anubis_Encrypt :: "AnubisCipher \<Rightarrow> bytes \<Rightarrow> crypt_error + bytes" where
  "anubis_Encrypt a data = anubis_crypt a data (an_roundKeyEnc a)"

definition anubis_Decrypt :: "AnubisCipher \<Rightarrow> bytes \<Rightarrow> crypt_error + bytes" where
  "anubis_Decrypt a data = anubis_crypt a data (an_roundKeyDec a)"

subsection \<open>The layers\<close>

lemma anubis_sub_involution: "map (\<lambda>b. anubisSBox ! unat b) anubisSBox = map of_nat [0..<256]"
  by code_simp

lemma anubisT4_byte: "map ucast anubisT4 = anubisSBox"
  by code_simp

definition anubis_S :: "u8 \<Rightarrow> u8" where
  "anubis_S b = anubisSBox ! unat b"

definition anubis_matrix :: "bytes \<Rightarrow> bytes" where
  "anubis_matrix bs =
     (let m2 = anubisMul2; m4 = \<lambda>b. m2 (m2 b); m6 = \<lambda>b. m2 b XOR m4 b
      in case bs of [a, b, c, d] \<Rightarrow>
        [a XOR m2 b XOR m4 c XOR m6 d, m2 a XOR b XOR m6 c XOR m4 d,
         m4 a XOR m6 b XOR c XOR m2 d, m6 a XOR m4 b XOR m2 c XOR d])"

definition anubis_theta_word :: "u32 \<Rightarrow> u32" where
  "anubis_theta_word w = loadU32BE (anubis_matrix (storeU32BE w))"

definition anubis_theta :: "anubis_state \<Rightarrow> anubis_state" where
  "anubis_theta = (\<lambda>(a, b, c, d).
     (anubis_theta_word a, anubis_theta_word b, anubis_theta_word c, anubis_theta_word d))"

definition anubis_gamma :: "anubis_state \<Rightarrow> anubis_state" where
  "anubis_gamma = (\<lambda>(s0, s1, s2, s3).
     let word = \<lambda>i. loadU32BE (map (\<lambda>s. anubis_S (storeU32BE s ! i)) [s0, s1, s2, s3])
     in (word 0, word 1, word 2, word 3))"

lemma anubis_matrix_square: "length bs = 4 \<Longrightarrow> anubis_matrix (anubis_matrix bs) = bs"
  unfolding list4 by (auto simp: anubis_matrix_def Let_def mul2_xor ac_simps)

lemma anubis_matrix_length [simp]: "length bs = 4 \<Longrightarrow> length (anubis_matrix bs) = 4"
  unfolding list4 by (auto simp: anubis_matrix_def Let_def)

lemma anubis_matrix_xor:
  assumes "length a = 4" "length b = 4"
  shows "anubis_matrix (map2 (XOR) a b) = map2 (XOR) (anubis_matrix a) (anubis_matrix b)"
  using assms unfolding list4 by (auto simp: anubis_matrix_def Let_def mul2_xor ac_simps)

lemma storeU32BE_xor: "storeU32BE (v XOR w) = map2 (XOR) (storeU32BE v) (storeU32BE w)"
  by (simp add: storeU32BE_def drop_bit_xor ucast_xor)

lemma storeU32BE_and: "storeU32BE (v AND w) = map2 (AND) (storeU32BE v) (storeU32BE w)"
  by (auto simp: storeU32BE_def drop_bit_and intro!: bit_word_eqI simp: bit_simps)

lemma loadU32BE_xor:
  assumes "length a = 4" "length b = 4"
  shows "loadU32BE (map2 (XOR) a b) = loadU32BE a XOR loadU32BE b"
  using load_storeU32BE [of "loadU32BE a XOR loadU32BE b"] assms
  by (simp only: storeU32BE_xor store_loadU32BE)

lemma anubis_box_length: "length anubisSBox = 256"
  by (simp add: anubisSBox_def)

lemma anubis_S_involution [simp]: "anubis_S (anubis_S b) = b"
proof -
  have "map (\<lambda>b. anubisSBox ! unat b) anubisSBox ! unat b = of_nat (unat b)"
    unfolding anubis_sub_involution using unat_lt_256 [of b] by simp
  then show ?thesis using unat_lt_256 [of b] by (simp add: anubis_S_def anubis_box_length)
qed

lemma anubis_columns:
  fixes b :: u8
  defines "v \<equiv> anubis_S b"
  shows "anubisT0 ! unat b = loadU32BE (anubis_matrix [v, 0, 0, 0])"
    and "anubisT1 ! unat b = loadU32BE (anubis_matrix [0, v, 0, 0])"
    and "anubisT2 ! unat b = loadU32BE (anubis_matrix [0, 0, v, 0])"
    and "anubisT3 ! unat b = loadU32BE (anubis_matrix [0, 0, 0, v])"
    and "ucast (anubisT4 ! unat b) = v"
proof -
  have "anubisMul2 0 = 0" by (simp add: anubisMul2_eq)
  then show "anubisT0 ! unat b = loadU32BE (anubis_matrix [v, 0, 0, 0])"
    "anubisT1 ! unat b = loadU32BE (anubis_matrix [0, v, 0, 0])"
    "anubisT2 ! unat b = loadU32BE (anubis_matrix [0, 0, v, 0])"
    "anubisT3 ! unat b = loadU32BE (anubis_matrix [0, 0, 0, v])"
    using unat_lt_256 [of b]
    by (simp_all add: v_def anubis_S_def anubisT0_def anubisT1_def anubisT2_def anubisT3_def
        anubis_matrix_def Let_def anubis_box_length)
  have "map ucast anubisT4 ! unat b = v" unfolding anubisT4_byte by (simp add: v_def anubis_S_def)
  then show "ucast (anubisT4 ! unat b) = v"
    using unat_lt_256 [of b] by (simp add: anubisT4_def anubis_box_length)
qed

lemma anubis_column_sum:
  "anubisT0 ! unat a XOR anubisT1 ! unat b XOR anubisT2 ! unat c XOR anubisT3 ! unat d =
   loadU32BE (anubis_matrix [anubis_S a, anubis_S b, anubis_S c, anubis_S d])"
  unfolding anubis_columns by (simp add: loadU32BE_xor [symmetric] anubis_matrix_xor [symmetric])

lemma anubis_round_layers: "anubis_round s = anubis_theta (anubis_gamma s)"
  by (cases s) (simp add: anubis_round_def anubis_gamma_def anubis_theta_def anubis_theta_word_def
      anubis_column_sum Let_def, simp add: storeU32BE_def)

lemma anubis_decKey_theta: "anubis_decKey k = anubis_theta k"
  by (cases k) (simp add: anubis_decKey_def anubis_theta_def anubis_theta_word_def anubis_decWord_def
      anubis_columns(5) anubis_column_sum, simp add: storeU32BE_def)

lemma anubis_masks:
  "storeU32BE 0xff000000 = [255, 0, 0, 0]" "storeU32BE 0x00ff0000 = [0, 255, 0, 0]"
  "storeU32BE 0x0000ff00 = [0, 0, 255, 0]" "storeU32BE 0x000000ff = [0, 0, 0, 255]"
  by code_simp+

lemma anubis_masked:
  "(anubisT0 ! unat a AND 0xff000000) XOR (anubisT1 ! unat b AND 0x00ff0000) XOR
   (anubisT2 ! unat c AND 0x0000ff00) XOR (anubisT3 ! unat d AND 0x000000ff) =
   loadU32BE [anubis_S a, anubis_S b, anubis_S c, anubis_S d]" (is "?w = _")
proof -
  have "storeU32BE ?w = [anubis_S a, anubis_S b, anubis_S c, anubis_S d]"
    unfolding storeU32BE_xor storeU32BE_and anubis_masks anubis_columns
    by (simp add: anubis_matrix_def Let_def byte_and_255 anubisMul2_eq)
  then show ?thesis by (metis load_storeU32BE)
qed

lemma anubis_last_layer: "anubis_last s = anubis_gamma s"
  by (cases s) (simp add: anubis_last_def anubis_gamma_def anubis_masked Let_def, simp add: storeU32BE_def)

lemma list4_nth: "length b = 4 \<Longrightarrow> [b ! 0, b ! Suc 0, b ! 2, b ! 3] = b"
  unfolding list4 by auto

interpretation anubis_layers: involutional anubis_gamma anubis_theta anubis_add
proof (unfold_locales, goal_cases)
  case (1 s)
  have "loadU32BE [storeU32BE w ! 0, storeU32BE w ! Suc 0, storeU32BE w ! 2, storeU32BE w ! 3] = w" for w
    by (metis list4_nth load_storeU32BE store_length(1))
  then show ?case by (cases s) (simp add: anubis_gamma_def Let_def)
next
  case (2 s)
  then show ?case by (cases s) (simp add: anubis_theta_def anubis_theta_word_def anubis_matrix_square)
next
  case (3 s t)
  then show ?case
    by (cases s; cases t) (simp add: anubis_theta_def anubis_add_def anubis_theta_word_def
        storeU32BE_xor anubis_matrix_xor loadU32BE_xor)
next
  case (4 s t)
  then show ?case by (cases s; cases t) (simp add: anubis_add_def xor.assoc)
qed

text \<open>A block as four words and back, and \<open>crypt\<close> as the rounds of \<open>involutional\<close>.\<close>

definition anubis_load :: "bytes \<Rightarrow> anubis_state" where
  "anubis_load b = (word_at loadU32BE 0 b, word_at loadU32BE 1 b, word_at loadU32BE 2 b, word_at loadU32BE 3 b)"

definition anubis_store :: "anubis_state \<Rightarrow> bytes" where
  "anubis_store = (\<lambda>(a, b, c, d). storeU32BE a @ storeU32BE b @ storeU32BE c @ storeU32BE d)"

lemma anubis_load_store [simp]: "anubis_load (anubis_store s) = s"
  by (cases s) (simp add: anubis_load_def anubis_store_def word_at_def)

lemma anubis_store_load: "length b = 16 \<Longrightarrow> anubis_store (anubis_load b) = b"
  using split16 [of b] by (simp add: anubis_load_def anubis_store_def word_at_def)

lemma anubis_block_layers:
  "anubis_block rounds K b =
   anubis_store (anubis_layers.crypt (K ! 0) (map ((!) K) [1..<rounds]) (K ! rounds) (anubis_load b))"
  unfolding anubis_block_def Let_def anubis_layers.crypt_def anubis_layers.inner_def anubis_store_def anubis_last_layer
  by (simp add: anubis_round_layers fold_map comp_def anubis_load_def)

lemma rev_upt_minus: "map (\<lambda>r. n - r) [1..<n] = rev [1..<n]"
  by (rule nth_equalityI) (auto simp: rev_nth)

interpretation anubis: block_cipher 16
    "anubis_block rounds (an_roundKeyEnc (anubis_keys rounds enc))"
    "anubis_block rounds (an_roundKeyDec (anubis_keys rounds enc))" for rounds enc
proof (unfold_locales, goal_cases)
  case (3 b)
  let ?D = "an_roundKeyDec (anubis_keys rounds enc)"
  have "map ((!) ?D) [1..<rounds] = map (\<lambda>r. anubis_theta (enc ! (rounds - r))) [1..<rounds]"
    by (rule map_cong) (auto simp: anubis_keys_def anubis_decKey_theta nth_Cons' nth_append)
  also have "\<dots> = map anubis_theta (map ((!) enc) (map (\<lambda>r. rounds - r) [1..<rounds]))"
    by simp
  finally have D: "map ((!) ?D) [1..<rounds] = map anubis_theta (rev (map ((!) enc) [1..<rounds]))"
    unfolding rev_upt_minus rev_map .
  have D0: "?D ! 0 = enc ! rounds" and Dn: "?D ! rounds = enc ! 0" and E: "an_roundKeyEnc (anubis_keys rounds enc) = enc"
    by (cases rounds, simp_all add: anubis_keys_def nth_append)+
  show ?case
    using 3 unfolding anubis_block_layers anubis_load_store E D D0 Dn anubis_layers.crypt_inverse
    by (rule anubis_store_load)
qed (auto simp: anubis_block_layers anubis_store_def split: prod.splits)

end
