(* ===== verification/DNF_Cipher.thy ===== *)
theory DNF_Cipher
  imports Ciphers_Twofish Anubis
begin

section \<open>The packet cipher\<close>

text \<open>
  \<open>master.go\<close>: \<open>DNFCipher\<close> holds the fourteen ciphers, splits one long key among them and picks the
  cipher of a packet by its type. \<open>rijndael.go\<close> wraps \<open>crypto/aes\<close>, which is outside the repository:
  the block functions \<open>aesEnc\<close> and \<open>aesDec\<close>, given a key, are parameters.
\<close>

subsection \<open>Rijndael\<close>

record RijndaelCipher =
  rj_ciph :: "bytes option"

definition rijndael_SetKey :: "bytes \<Rightarrow> crypt_error + RijndaelCipher" where
  "rijndael_SetKey key =
     (if length key \<noteq> 16 \<and> length key \<noteq> 24 \<and> length key \<noteq> 32 then Inl ErrInvalidKeySize
      else Inr \<lparr>rj_ciph = Some key\<rparr>)"

definition rijndael_Encrypt :: "(bytes \<Rightarrow> bytes \<Rightarrow> bytes) \<Rightarrow> RijndaelCipher \<Rightarrow> bytes \<Rightarrow> crypt_error + bytes" where
  "rijndael_Encrypt aesEnc r data =
     (case rj_ciph r of None \<Rightarrow> Inl ErrNotInitialized | Some key \<Rightarrow> ecb_crypt 16 (aesEnc key) data)"

definition rijndael_Decrypt :: "(bytes \<Rightarrow> bytes \<Rightarrow> bytes) \<Rightarrow> RijndaelCipher \<Rightarrow> bytes \<Rightarrow> crypt_error + bytes" where
  "rijndael_Decrypt aesDec r data =
     (case rj_ciph r of None \<Rightarrow> Inl ErrNotInitialized | Some key \<Rightarrow> ecb_crypt 16 (aesDec key) data)"

text \<open>What \<open>crypto/aes\<close> documents: blocks of 16 bytes, and \<open>Decrypt\<close> inverts \<open>Encrypt\<close>.\<close>

definition aes_block :: "(bytes \<Rightarrow> bytes \<Rightarrow> bytes) \<Rightarrow> (bytes \<Rightarrow> bytes \<Rightarrow> bytes) \<Rightarrow> bool" where
  "aes_block aesEnc aesDec \<longleftrightarrow>
     (\<forall>key b. length key \<in> {16, 24, 32} \<longrightarrow> length b = 16 \<longrightarrow>
        length (aesEnc key b) = 16 \<and> aesDec key (aesEnc key b) = b)"

subsection \<open>The fourteen handles\<close>

datatype BlockCipher =
    Shift ShiftCipher | Rijndael RijndaelCipher | BlowFish BlowFishCipher | Rc6 Rc6Cipher
  | TwoFish TwoFishCipher | Tea TeaCipher | Kasumi KasumiCipher | Xtea XteaCipher
  | Noekeon NoekeonCipher | Khazad KhazadCipher | Cast5 Cast5Cipher | Skipjack SkipjackCipher
  | Multi2 Multi2Cipher | Anubis AnubisCipher

fun handle_KeySize :: "BlockCipher \<Rightarrow> nat" where
  "handle_KeySize (Shift c) = 8"
| "handle_KeySize (Rijndael c) = 16"
| "handle_KeySize (BlowFish c) = 56"
| "handle_KeySize (Rc6 c) = 60"
| "handle_KeySize (TwoFish c) = 32"
| "handle_KeySize (Tea c) = 16"
| "handle_KeySize (Kasumi c) = 16"
| "handle_KeySize (Xtea c) = 16"
| "handle_KeySize (Noekeon c) = 16"
| "handle_KeySize (Khazad c) = 16"
| "handle_KeySize (Cast5 c) = 16"
| "handle_KeySize (Skipjack c) = 10"
| "handle_KeySize (Multi2 c) = 40"
| "handle_KeySize (Anubis c) = 16"

fun handle_BlockSize :: "BlockCipher \<Rightarrow> nat" where
  "handle_BlockSize (Shift c) = 4"
| "handle_BlockSize (Rijndael c) = 16"
| "handle_BlockSize (BlowFish c) = 8"
| "handle_BlockSize (Rc6 c) = 16"
| "handle_BlockSize (TwoFish c) = 16"
| "handle_BlockSize (Tea c) = 8"
| "handle_BlockSize (Kasumi c) = 8"
| "handle_BlockSize (Xtea c) = 8"
| "handle_BlockSize (Noekeon c) = 16"
| "handle_BlockSize (Khazad c) = 8"
| "handle_BlockSize (Cast5 c) = 8"
| "handle_BlockSize (Skipjack c) = 8"
| "handle_BlockSize (Multi2 c) = 8"
| "handle_BlockSize (Anubis c) = 16"

fun handle_SetKey :: "BlockCipher \<Rightarrow> bytes \<Rightarrow> crypt_error + BlockCipher" where
  "handle_SetKey (Shift c) key = map_sum id Shift (shift_SetKey key)"
| "handle_SetKey (Rijndael c) key = map_sum id Rijndael (rijndael_SetKey key)"
| "handle_SetKey (BlowFish c) key = map_sum id BlowFish (blowfish_SetKey key)"
| "handle_SetKey (Rc6 c) key = map_sum id Rc6 (rc6_SetKey key)"
| "handle_SetKey (TwoFish c) key = map_sum id TwoFish (twofish_SetKey key)"
| "handle_SetKey (Tea c) key = map_sum id Tea (tea_SetKey key c)"
| "handle_SetKey (Kasumi c) key = map_sum id Kasumi (kasumi_SetKey key)"
| "handle_SetKey (Xtea c) key = map_sum id Xtea (xtea_SetKey key)"
| "handle_SetKey (Noekeon c) key = map_sum id Noekeon (noekeon_SetKey key)"
| "handle_SetKey (Khazad c) key = map_sum id Khazad (khazad_SetKey key)"
| "handle_SetKey (Cast5 c) key = map_sum id Cast5 (cast5_SetKey key)"
| "handle_SetKey (Skipjack c) key = map_sum id Skipjack (skipjack_SetKey key)"
| "handle_SetKey (Multi2 c) key = map_sum id Multi2 (multi2_SetKey key)"
| "handle_SetKey (Anubis c) key = map_sum id Anubis (anubis_SetKey key)"

fun handle_Encrypt :: "(bytes \<Rightarrow> bytes \<Rightarrow> bytes) \<Rightarrow> BlockCipher \<Rightarrow> bytes \<Rightarrow> crypt_error + bytes" where
  "handle_Encrypt aesEnc (Shift c) data = shift_Encrypt c data"
| "handle_Encrypt aesEnc (Rijndael c) data = rijndael_Encrypt aesEnc c data"
| "handle_Encrypt aesEnc (BlowFish c) data = blowfish_Encrypt c data"
| "handle_Encrypt aesEnc (Rc6 c) data = rc6_Encrypt c data"
| "handle_Encrypt aesEnc (TwoFish c) data = twofish_Encrypt c data"
| "handle_Encrypt aesEnc (Tea c) data = tea_Encrypt c data"
| "handle_Encrypt aesEnc (Kasumi c) data = kasumi_Encrypt c data"
| "handle_Encrypt aesEnc (Xtea c) data = xtea_Encrypt c data"
| "handle_Encrypt aesEnc (Noekeon c) data = noekeon_Encrypt c data"
| "handle_Encrypt aesEnc (Khazad c) data = khazad_Encrypt c data"
| "handle_Encrypt aesEnc (Cast5 c) data = cast5_Encrypt c data"
| "handle_Encrypt aesEnc (Skipjack c) data = skipjack_Encrypt c data"
| "handle_Encrypt aesEnc (Multi2 c) data = multi2_Encrypt c data"
| "handle_Encrypt aesEnc (Anubis c) data = anubis_Encrypt c data"

fun handle_Decrypt :: "(bytes \<Rightarrow> bytes \<Rightarrow> bytes) \<Rightarrow> BlockCipher \<Rightarrow> bytes \<Rightarrow> crypt_error + bytes" where
  "handle_Decrypt aesDec (Shift c) data = shift_Decrypt c data"
| "handle_Decrypt aesDec (Rijndael c) data = rijndael_Decrypt aesDec c data"
| "handle_Decrypt aesDec (BlowFish c) data = blowfish_Decrypt c data"
| "handle_Decrypt aesDec (Rc6 c) data = rc6_Decrypt c data"
| "handle_Decrypt aesDec (TwoFish c) data = twofish_Decrypt c data"
| "handle_Decrypt aesDec (Tea c) data = tea_Decrypt c data"
| "handle_Decrypt aesDec (Kasumi c) data = kasumi_Decrypt c data"
| "handle_Decrypt aesDec (Xtea c) data = xtea_Decrypt c data"
| "handle_Decrypt aesDec (Noekeon c) data = noekeon_Decrypt c data"
| "handle_Decrypt aesDec (Khazad c) data = khazad_Decrypt c data"
| "handle_Decrypt aesDec (Cast5 c) data = cast5_Decrypt c data"
| "handle_Decrypt aesDec (Skipjack c) data = skipjack_Decrypt c data"
| "handle_Decrypt aesDec (Multi2 c) data = multi2_Decrypt c data"
| "handle_Decrypt aesDec (Anubis c) data = anubis_Decrypt c data"

text \<open>The ciphers as their \<open>New\<close> functions make them, with all arrays zero.\<close>

definition new_handles :: "BlockCipher list" where
  "new_handles =
     [Shift \<lparr>sh_key0 = 0, sh_key1 = 0\<rparr>,
      Rijndael \<lparr>rj_ciph = None\<rparr>,
      BlowFish \<lparr>bf_P = replicate 18 0, bf_S = replicate 4 (replicate 256 0), bf_init = False\<rparr>,
      Rc6 \<lparr>rc_S = replicate 44 0\<rparr>,
      TwoFish \<lparr>tf_s = replicate 4 (replicate 256 0), tf_w = replicate 8 0, tf_k = replicate 32 0, tf_init = False\<rparr>,
      Tea zero_tea,
      Kasumi \<lparr>KLi1 = replicate 8 0, KLi2 = replicate 8 0, KOi1 = replicate 8 0, KOi2 = replicate 8 0,
              KOi3 = replicate 8 0, KIi1 = replicate 8 0, KIi2 = replicate 8 0, KIi3 = replicate 8 0\<rparr>,
      Xtea \<lparr>xt_A = replicate 32 0, xt_B = replicate 32 0\<rparr>,
      Noekeon \<lparr>nk_K = (0, 0, 0, 0), nk_dK = (0, 0, 0, 0)\<rparr>,
      Khazad \<lparr>kz_roundKeyEnc = replicate 9 0, kz_roundKeyDec = replicate 9 0\<rparr>,
      Cast5 \<lparr>c5_K = replicate 32 0, c5_keylen = 0\<rparr>,
      Skipjack \<lparr>sj_key = replicate 10 0\<rparr>,
      Multi2 \<lparr>m2_N = 0, m2_uk = replicate 8 0\<rparr>,
      Anubis \<lparr>an_rounds = 0, an_roundKeyEnc = replicate 19 (0, 0, 0, 0), an_roundKeyDec = replicate 19 (0, 0, 0, 0)\<rparr>]"

subsection \<open>DNFCipher\<close>

record DNFCipher =
  handles :: "BlockCipher option list"
  dnf_keySize :: nat
  initialized :: bool

definition NewDNFCipher :: DNFCipher where
  "NewDNFCipher = \<lparr>handles = map Some new_handles, dnf_keySize = sum_list (map handle_KeySize new_handles), initialized = False\<rparr>"

text \<open>The loop of \<open>Initialize\<close>: the handles as far as it came, and the error that stopped it.\<close>

fun init_handles :: "BlockCipher option list \<Rightarrow> bytes \<Rightarrow> BlockCipher option list \<times> crypt_error option" where
  "init_handles [] pBuffer = ([], None)"
| "init_handles (None # hs) pBuffer = (None # hs, Some ErrNotInitialized)"
| "init_handles (Some h # hs) pBuffer =
     (case handle_SetKey h (take (handle_KeySize h) pBuffer) of
        Inl e \<Rightarrow> (Some h # hs, Some e)
      | Inr h' \<Rightarrow> (let (hs', e) = init_handles hs (drop (handle_KeySize h) pBuffer) in (Some h' # hs', e)))"

definition Initialize :: "DNFCipher \<Rightarrow> bytes \<Rightarrow> DNFCipher \<times> crypt_error option" where
  "Initialize c key =
     (if length key \<noteq> dnf_keySize c then (c, Some ErrInvalidKeySize)
      else let (hs, e) = init_handles (handles c) key in (c\<lparr>handles := hs, initialized := (e = None)\<rparr>, e))"

definition dnf_Encrypt :: "(bytes \<Rightarrow> bytes \<Rightarrow> bytes) \<Rightarrow> DNFCipher \<Rightarrow> u16 \<Rightarrow> bytes \<Rightarrow> crypt_error + bytes" where
  "dnf_Encrypt aesEnc c packetType data =
     (if \<not> initialized c then Inl ErrNotInitialized
      else handle_Encrypt aesEnc (the (handles c ! (unat packetType mod 14))) data)"

definition dnf_Decrypt :: "(bytes \<Rightarrow> bytes \<Rightarrow> bytes) \<Rightarrow> DNFCipher \<Rightarrow> u16 \<Rightarrow> bytes \<Rightarrow> crypt_error + bytes" where
  "dnf_Decrypt aesDec c packetType data =
     (if \<not> initialized c then Inl ErrNotInitialized
      else handle_Decrypt aesDec (the (handles c ! (unat packetType mod 14))) data)"


subsection \<open>What a key leaves in a handle\<close>

text \<open>A handle that a successful \<open>SetKey\<close> may have left; the constructor never changes.\<close>

fun handle_ok :: "BlockCipher \<Rightarrow> bool" where
  "handle_ok (Shift c) = (sh_key0 c \<le> 0x1F)"
| "handle_ok (Rijndael c) = (case rj_ciph c of None \<Rightarrow> False | Some key \<Rightarrow> length key \<in> {16, 24, 32})"
| "handle_ok (BlowFish c) = bf_init c"
| "handle_ok (TwoFish c) = tf_init c"
| "handle_ok (Noekeon c) = (c = noekeon_key (nk_K c))"
| "handle_ok (Khazad c) = (c = khazad_keys (kz_roundKeyEnc c))"
| "handle_ok (Multi2 c) = (m2_N c = multi2Rounds)"
| "handle_ok (Anubis c) = (0 < an_rounds c \<and> c = anubis_keys (an_rounds c) (an_roundKeyEnc c))"
| "handle_ok (Tea c) = (tea_mode c = ECB)"
| "handle_ok _ = True"

fun handle_index :: "BlockCipher \<Rightarrow> nat" where
  "handle_index (Shift c) = 0"
| "handle_index (Rijndael c) = 1"
| "handle_index (BlowFish c) = 2"
| "handle_index (Rc6 c) = 3"
| "handle_index (TwoFish c) = 4"
| "handle_index (Tea c) = 5"
| "handle_index (Kasumi c) = 6"
| "handle_index (Xtea c) = 7"
| "handle_index (Noekeon c) = 8"
| "handle_index (Khazad c) = 9"
| "handle_index (Cast5 c) = 10"
| "handle_index (Skipjack c) = 11"
| "handle_index (Multi2 c) = 12"
| "handle_index (Anubis c) = 13"

lemmas setkey_defs =
  shift_SetKey_def rijndael_SetKey_def blowfish_SetKey_def rc6_SetKey_def twofish_SetKey_def tea_SetKey_def
  kasumi_SetKey_def xtea_SetKey_def noekeon_SetKey_def khazad_SetKey_def cast5_SetKey_def skipjack_SetKey_def
  multi2_SetKey_def anubis_SetKey_def

lemma shift_key0_bound: "(w AND 0x1F :: u32) \<le> 0x1F"
  by (rule word_and_le1)

lemma handle_SetKey_ok:
  assumes "length key = handle_KeySize h"
  shows "\<exists>h'. handle_SetKey h key = Inr h' \<and> handle_ok h' \<and> handle_index h' = handle_index h"
  using assms
  by (cases h)
    (simp_all add: setkey_defs Let_def split_beta shift_key0_bound twofishSetKey_def khazad_keys_def anubis_keys_def)

lemma rijndael_round_trip:
  assumes "aes_block aesEnc aesDec" and "rj_ciph c = Some key" and "length key \<in> {16, 24, 32}" and "length data mod 16 = 0"
  shows "\<exists>e. rijndael_Encrypt aesEnc c data = Inr e \<and> length e = length data \<and> rijndael_Decrypt aesDec c e = Inr data"
proof -
  have "block_cipher 16 (aesEnc key) (aesDec key)"
    using assms(1,3) by unfold_locales (auto simp: aes_block_def)
  from block_cipher.crypt_round_trip [OF this assms(4)] show ?thesis
    by (simp add: rijndael_Encrypt_def rijndael_Decrypt_def assms(2))
qed

lemmas crypt_defs =
  shift_Encrypt_def shift_Decrypt_def blowfish_Encrypt_def blowfish_Decrypt_def rc6_Encrypt_def rc6_Decrypt_def
  twofish_Encrypt_def twofish_Decrypt_def kasumi_Encrypt_def kasumi_Decrypt_def xtea_Encrypt_def xtea_Decrypt_def
  noekeon_Encrypt_def noekeon_Decrypt_def khazad_Encrypt_def khazad_Decrypt_def cast5_Encrypt_def cast5_Decrypt_def
  skipjack_Encrypt_def skipjack_Decrypt_def multi2_Encrypt_def multi2_Decrypt_def
  anubis_Encrypt_def anubis_Decrypt_def anubis_crypt_def

lemmas crypt_round_trips =
  shift.crypt_round_trip blowfish.crypt_round_trip rc6.crypt_round_trip twofish.crypt_round_trip
  kasumi.crypt_round_trip xtea.crypt_round_trip cast5.crypt_round_trip skipjack.crypt_round_trip multi2.crypt_round_trip

lemma handle_round_trip:
  assumes "aes_block aesEnc aesDec" and ok: "handle_ok h" and "handle_index h \<noteq> 5"
    and len: "length data mod handle_BlockSize h = 0"
  shows "\<exists>e. handle_Encrypt aesEnc h data = Inr e \<and> length e = length data \<and> handle_Decrypt aesDec h e = Inr data"
proof (cases h)
  case (Rijndael c)
  with ok len show ?thesis
    by (auto split: option.splits intro!: rijndael_round_trip [OF assms(1)])
next
  case (Noekeon c)
  with ok len noekeon.crypt_round_trip [of data "nk_K c"] show ?thesis by (simp add: crypt_defs)
next
  case (Khazad c)
  with ok len khazad.crypt_round_trip [of data "kz_roundKeyEnc c"] show ?thesis by (simp add: crypt_defs)
next
  case (Anubis c)
  with ok len anubis.crypt_round_trip [of data "an_rounds c" "an_roundKeyEnc c"] show ?thesis
    by (simp add: crypt_defs)
qed (use ok len assms(3) in \<open>simp_all add: crypt_defs crypt_round_trips\<close>)


subsection \<open>Keys and packets\<close>

lemma init_handles_ok:
  assumes "length key = sum_list (map handle_KeySize hs)"
  shows "\<exists>hs'. init_handles (map Some hs) key = (map Some hs', None) \<and> map handle_index hs' = map handle_index hs \<and>
    (\<forall>h \<in> set hs'. handle_ok h)"
  using assms
proof (induction hs arbitrary: key)
  case (Cons h hs)
  let ?n = "handle_KeySize h"
  have "length (take ?n key) = ?n" using Cons.prems by simp
  from handle_SetKey_ok [OF this] obtain h' where
    h': "handle_SetKey h (take ?n key) = Inr h'" "handle_ok h'" "handle_index h' = handle_index h" by blast
  have "length (drop ?n key) = sum_list (map handle_KeySize hs)" using Cons.prems by simp
  from Cons.IH [OF this] obtain hs' where
    "init_handles (map Some hs) (drop ?n key) = (map Some hs', None)" "map handle_index hs' = map handle_index hs"
    "\<forall>h \<in> set hs'. handle_ok h" by blast
  with h' show ?case by (intro exI [of _ "h' # hs'"]) simp
qed simp

lemma new_handles_index: "map handle_index new_handles = [0..<14]"
  by (simp add: new_handles_def upt_rec)

lemma dnf_keySize_new: "dnf_keySize NewDNFCipher = 334"
  by (simp add: NewDNFCipher_def new_handles_def)

lemma handle_BlockSize_index: "handle_index h = handle_index h' \<Longrightarrow> handle_BlockSize h = handle_BlockSize h'"
  by (cases h; cases h'; simp)

lemma Initialize_ok:
  assumes "length key = 334"
  obtains c hs where "Initialize NewDNFCipher key = (c, None)" "initialized c" "handles c = map Some hs"
    "map handle_index hs = [0..<14]" "\<forall>h \<in> set hs. handle_ok h"
proof -
  have "length key = sum_list (map handle_KeySize new_handles)"
    using assms by (simp add: new_handles_def)
  from init_handles_ok [OF this] obtain hs where
    "init_handles (map Some new_handles) key = (map Some hs, None)"
    "map handle_index hs = [0..<14]" "\<forall>h \<in> set hs. handle_ok h" unfolding new_handles_index by blast
  moreover have "handles NewDNFCipher = map Some new_handles" by (simp add: NewDNFCipher_def)
  ultimately show ?thesis
    using assms that [of "NewDNFCipher\<lparr>handles := map Some hs, initialized := True\<rparr>" hs]
    by (simp add: Initialize_def dnf_keySize_new)
qed

text \<open>The handle a packet type selects in an initialized cipher.\<close>

lemma selected_handle:
  assumes "handles c = map Some hs" "map handle_index hs = [0..<14]" "\<forall>h \<in> set hs. handle_ok h" "n < 14"
  obtains h where "the (handles c ! n) = h" "handle_ok h" "handle_index h = n"
    "handle_BlockSize h = handle_BlockSize (new_handles ! n)"
proof -
  have len: "length hs = 14" using assms(2) by (metis length_map length_upt diff_zero)
  have i: "handle_index (hs ! n) = n" using assms(2,4) len by (metis nth_map nth_upt add_0)
  moreover have "handle_index (new_handles ! n) = n"
    using new_handles_index assms(4) by (metis length_map length_upt nth_map nth_upt add_0 diff_zero)
  ultimately show ?thesis
    using assms(1,3,4) len by (intro that [of "hs ! n"]) (auto intro: handle_BlockSize_index)
qed

lemma handle_misaligned:
  assumes "handle_ok h" and "handle_BlockSize h = n" and "length data mod n \<noteq> 0"
  shows "handle_Encrypt aesEnc h data = Inl ErrInvalidBlockSize \<and> handle_Decrypt aesDec h data = Inl ErrInvalidBlockSize"
  using assms
  by (cases h)
    (auto simp: crypt_defs tea_Encrypt_def tea_Decrypt_def rijndael_Encrypt_def rijndael_Decrypt_def ecb_crypt_def
      split: option.splits)

text \<open>
  Property C35. Every key of the full protocol length initializes the cipher, and from then on
  what it encrypts under a packet type it decrypts to the same bytes under that type, for every
  type but those that select TEA; the length is kept. Buffers are whole numbers of the selected
  cipher's blocks.
\<close>

theorem dnf_cipher_round_trip:
  assumes "aes_block aesEnc aesDec" and "length key = 334" and "unat packetType mod 14 \<noteq> 5"
    and "length data mod handle_BlockSize (new_handles ! (unat packetType mod 14)) = 0"
  shows "\<exists>c e. Initialize NewDNFCipher key = (c, None) \<and> dnf_Encrypt aesEnc c packetType data = Inr e \<and>
    length e = length data \<and> dnf_Decrypt aesDec c packetType e = Inr data"
proof -
  from assms(2) obtain c hs where c: "Initialize NewDNFCipher key = (c, None)" "initialized c"
    and hs: "handles c = map Some hs" "map handle_index hs = [0..<14]" "\<forall>h \<in> set hs. handle_ok h"
    by (rule Initialize_ok)
  have "unat packetType mod 14 < 14" by simp
  with hs obtain h where "the (handles c ! (unat packetType mod 14)) = h" "handle_ok h"
    "handle_index h = unat packetType mod 14" "handle_BlockSize h = handle_BlockSize (new_handles ! (unat packetType mod 14))"
    by (rule selected_handle)
  with handle_round_trip [OF assms(1), of h data] assms(3,4) c show ?thesis
    by (auto simp: dnf_Encrypt_def dnf_Decrypt_def)
qed

theorem dnf_cipher_round_trip_witness:
  "\<exists>c e. Initialize NewDNFCipher (replicate 334 7) = (c, None) \<and>
     dnf_Encrypt (\<lambda>key b. rev b) c 15 (replicate 32 9) = Inr e \<and> length e = 32 \<and>
     dnf_Decrypt (\<lambda>key b. rev b) c 15 e = Inr (replicate 32 9)"
proof -
  have t: "unat (15 :: u16) mod 14 = 1" by simp
  have b: "handle_BlockSize (new_handles ! 1) = 16" by (simp add: new_handles_def)
  have "aes_block (\<lambda>key b. rev b) (\<lambda>key b. rev b)" by (simp add: aes_block_def)
  from dnf_cipher_round_trip [OF this, of "replicate 334 7" 15 "replicate 32 9", unfolded t b]
  show ?thesis by simp
qed

text \<open>
  Property C36. The cipher refuses every other input with an error and never with other bytes: a
  key of another length leaves it as it was, an uninitialized cipher encrypts and decrypts
  nothing, and an initialized one refuses a buffer that is not a whole number of blocks, TEA
  included.
\<close>

theorem dnf_cipher_errors:
  "(length key \<noteq> 334 \<longrightarrow> Initialize NewDNFCipher key = (NewDNFCipher, Some ErrInvalidKeySize))
   \<and> dnf_Encrypt aesEnc NewDNFCipher packetType data = Inl ErrNotInitialized
   \<and> dnf_Decrypt aesDec NewDNFCipher packetType data = Inl ErrNotInitialized
   \<and> (length key = 334 \<longrightarrow> length data mod handle_BlockSize (new_handles ! (unat packetType mod 14)) \<noteq> 0 \<longrightarrow>
        (let c = fst (Initialize NewDNFCipher key)
         in dnf_Encrypt aesEnc c packetType data = Inl ErrInvalidBlockSize \<and>
            dnf_Decrypt aesDec c packetType data = Inl ErrInvalidBlockSize))"
proof (intro conjI impI)
  assume "length key \<noteq> 334"
  then show "Initialize NewDNFCipher key = (NewDNFCipher, Some ErrInvalidKeySize)"
    by (simp add: Initialize_def dnf_keySize_new)
next
  show "dnf_Encrypt aesEnc NewDNFCipher packetType data = Inl ErrNotInitialized"
    "dnf_Decrypt aesDec NewDNFCipher packetType data = Inl ErrNotInitialized"
    by (simp_all add: dnf_Encrypt_def dnf_Decrypt_def NewDNFCipher_def)
next
  assume key: "length key = 334"
    and len: "length data mod handle_BlockSize (new_handles ! (unat packetType mod 14)) \<noteq> 0"
  from key obtain c hs where c: "Initialize NewDNFCipher key = (c, None)" "initialized c"
    and hs: "handles c = map Some hs" "map handle_index hs = [0..<14]" "\<forall>h \<in> set hs. handle_ok h"
    by (rule Initialize_ok)
  have "unat packetType mod 14 < 14" by simp
  with hs obtain h where h: "the (handles c ! (unat packetType mod 14)) = h" "handle_ok h"
    "handle_BlockSize h = handle_BlockSize (new_handles ! (unat packetType mod 14))"
    by (rule selected_handle)
  have "handle_Encrypt aesEnc h data = Inl ErrInvalidBlockSize \<and> handle_Decrypt aesDec h data = Inl ErrInvalidBlockSize"
    using h(2,3) len by (rule handle_misaligned)
  with c h show "let c = fst (Initialize NewDNFCipher key)
      in dnf_Encrypt aesEnc c packetType data = Inl ErrInvalidBlockSize \<and>
         dnf_Decrypt aesDec c packetType data = Inl ErrInvalidBlockSize"
    by (simp add: dnf_Encrypt_def dnf_Decrypt_def)
qed

theorem dnf_cipher_errors_witness:
  "Initialize NewDNFCipher [1, 2, 3] = (NewDNFCipher, Some ErrInvalidKeySize)
   \<and> dnf_Encrypt (\<lambda>key b. rev b) (fst (Initialize NewDNFCipher (replicate 334 7))) 0 [1] = Inl ErrInvalidBlockSize"
proof -
  have b: "handle_BlockSize (new_handles ! (unat (0 :: u16) mod 14)) = 4" by (simp add: new_handles_def)
  show ?thesis
    using dnf_cipher_errors [of "[1, 2, 3]" _ 0 "[]"]
      dnf_cipher_errors [of "replicate 334 7" "\<lambda>key b. rev b" 0 "[1]", unfolded b]
    by (simp add: Let_def)
qed

end
