(* ===== verification/Anti.thy ===== *)
theory Anti
  imports DNF_Cipher
begin

section \<open>The anti-cheat envelope\<close>

text \<open>
  \<open>anti.go\<close>: the MD5 the key derivation uses, \<open>GenKey\<close> and the byte cipher \<open>GeneNew\<close>; and from
  \<open>master.go\<close> the envelope that \<open>DecryptAnti\<close> opens, the table-driven checksum and the two small
  byte transformations. The lemmas show that the incremental MD5 hashes the padded message block
  by block, that a well-formed envelope is opened in either byte order, and that the checksum
  table computes the bitwise checksum.
\<close>

subsection \<open>MD5\<close>

record md5State =
  md_count0 :: u32
  md_count1 :: u32
  md_abcd :: quad
  md_buf :: bytes

definition md5Pad :: bytes where
  "md5Pad = 0x80 # replicate 63 0"

definition md5Init :: "md5State \<Rightarrow> md5State" where
  "md5Init pms = pms\<lparr>md_count0 := 0, md_count1 := 0, md_abcd := (0x67452301, 0xEFCDAB89, 0x98BADCFE, 0x10325476)\<rparr>"

definition md5FF :: "u32 \<Rightarrow> u32 \<Rightarrow> u32 \<Rightarrow> u32 \<Rightarrow> u32 \<Rightarrow> nat \<Rightarrow> u32 \<Rightarrow> u32" where
  "md5FF a b c d x s ac =
     (let a = a + (((b AND c) OR (NOT b AND d)) + x + ac); a = push_bit s a OR drop_bit (32 - s) a in a + b)"

definition md5GG :: "u32 \<Rightarrow> u32 \<Rightarrow> u32 \<Rightarrow> u32 \<Rightarrow> u32 \<Rightarrow> nat \<Rightarrow> u32 \<Rightarrow> u32" where
  "md5GG a b c d x s ac =
     (let a = a + (((b AND d) OR (c AND NOT d)) + x + ac); a = push_bit s a OR drop_bit (32 - s) a in a + b)"

definition md5HH :: "u32 \<Rightarrow> u32 \<Rightarrow> u32 \<Rightarrow> u32 \<Rightarrow> u32 \<Rightarrow> nat \<Rightarrow> u32 \<Rightarrow> u32" where
  "md5HH a b c d x s ac =
     (let a = a + ((b XOR c XOR d) + x + ac); a = push_bit s a OR drop_bit (32 - s) a in a + b)"

definition md5II :: "u32 \<Rightarrow> u32 \<Rightarrow> u32 \<Rightarrow> u32 \<Rightarrow> u32 \<Rightarrow> nat \<Rightarrow> u32 \<Rightarrow> u32" where
  "md5II a b c d x s ac =
     (let a = a + ((c XOR (b OR NOT d)) + x + ac); a = push_bit s a OR drop_bit (32 - s) a in a + b)"

text \<open>
  The 64 lines of \<open>md5Process\<close>: the function, the index into \<open>X\<close>, the shift and the constant. Each line
  assigns the register that stands first in its call; the registers take turns, which is the
  rotation of the tuple.
\<close>

definition md5_lines :: "((u32 \<Rightarrow> u32 \<Rightarrow> u32 \<Rightarrow> u32 \<Rightarrow> u32 \<Rightarrow> nat \<Rightarrow> u32 \<Rightarrow> u32) \<times> nat \<times> nat \<times> u32) list" where
  "md5_lines =
     [(md5FF, 0, 7, 0xd76aa478), (md5FF, 1, 12, 0xe8c7b756), (md5FF, 2, 17, 0x242070db), (md5FF, 3, 22, 0xc1bdceee),
      (md5FF, 4, 7, 0xf57c0faf), (md5FF, 5, 12, 0x4787c62a), (md5FF, 6, 17, 0xa8304613), (md5FF, 7, 22, 0xfd469501),
      (md5FF, 8, 7, 0x698098d8), (md5FF, 9, 12, 0x8b44f7af), (md5FF, 10, 17, 0xffff5bb1), (md5FF, 11, 22, 0x895cd7be),
      (md5FF, 12, 7, 0x6b901122), (md5FF, 13, 12, 0xfd987193), (md5FF, 14, 17, 0xa679438e), (md5FF, 15, 22, 0x49b40821),
      (md5GG, 1, 5, 0xf61e2562), (md5GG, 6, 9, 0xc040b340), (md5GG, 11, 14, 0x265e5a51), (md5GG, 0, 20, 0xe9b6c7aa),
      (md5GG, 5, 5, 0xd62f105d), (md5GG, 10, 9, 0x02441453), (md5GG, 15, 14, 0xd8a1e681), (md5GG, 4, 20, 0xe7d3fbc8),
      (md5GG, 9, 5, 0x21e1cde6), (md5GG, 14, 9, 0xc33707d6), (md5GG, 3, 14, 0xf4d50d87), (md5GG, 8, 20, 0x455a14ed),
      (md5GG, 13, 5, 0xa9e3e905), (md5GG, 2, 9, 0xfcefa3f8), (md5GG, 7, 14, 0x676f02d9), (md5GG, 12, 20, 0x8d2a4c8a),
      (md5HH, 5, 4, 0xfffa3942), (md5HH, 8, 11, 0x8771f681), (md5HH, 11, 16, 0x6d9d6122), (md5HH, 14, 23, 0xfde5380c),
      (md5HH, 1, 4, 0xa4beea44), (md5HH, 4, 11, 0x4bdecfa9), (md5HH, 7, 16, 0xf6bb4b60), (md5HH, 10, 23, 0xbebfbc70),
      (md5HH, 13, 4, 0x289b7ec6), (md5HH, 0, 11, 0xeaa127fa), (md5HH, 3, 16, 0xd4ef3085), (md5HH, 6, 23, 0x04881d05),
      (md5HH, 9, 4, 0xd9d4d039), (md5HH, 12, 11, 0xe6db99e5), (md5HH, 15, 16, 0x1fa27cf8), (md5HH, 2, 23, 0xc4ac5665),
      (md5II, 0, 6, 0xf4292244), (md5II, 7, 10, 0x432aff97), (md5II, 14, 15, 0xab9423a7), (md5II, 5, 21, 0xfc93a039),
      (md5II, 12, 6, 0x655b59c3), (md5II, 3, 10, 0x8f0ccc92), (md5II, 10, 15, 0xffeff47d), (md5II, 1, 21, 0x85845dd1),
      (md5II, 8, 6, 0x6fa87e4f), (md5II, 15, 10, 0xfe2ce6e0), (md5II, 6, 15, 0xa3014314), (md5II, 13, 21, 0x4e0811a1),
      (md5II, 4, 6, 0xf7537e82), (md5II, 11, 10, 0xbd3af235), (md5II, 2, 15, 0x2ad7d2bb), (md5II, 9, 21, 0xeb86d391)]"

definition md5Process :: "md5State \<Rightarrow> bytes \<Rightarrow> md5State" where
  "md5Process pms data =
     (let X = map (\<lambda>i. word_at loadU32LE i data) [0..<16];
          (a, b, c, d) = fold (\<lambda>(f, i, s, ac) (a, b, c, d). (d, f a b c d (X ! i) s ac, b, c)) md5_lines (md_abcd pms);
          (a0, b0, c0, d0) = md_abcd pms
      in pms\<lparr>md_abcd := (a0 + a, b0 + b, c0 + c, d0 + d)\<rparr>)"

text \<open>\<open>copy(buf[off:], src)\<close> into the fixed buffer, and the loop over whole blocks.\<close>

definition copy_at :: "nat \<Rightarrow> bytes \<Rightarrow> bytes \<Rightarrow> bytes" where
  "copy_at off src buf = take off buf @ src @ drop (off + length src) buf"

function md5_blocks :: "md5State \<Rightarrow> bytes \<Rightarrow> md5State \<times> bytes" where
  "md5_blocks pms v5 =
     (if 63 < length v5 then md5_blocks (md5Process pms (take 64 v5)) (drop 64 v5) else (pms, v5))"
  by auto
termination by (relation "measure (\<lambda>(pms, v5). length v5)") auto

declare md5_blocks.simps [simp del]

definition md5_tail :: "md5State \<Rightarrow> bytes \<Rightarrow> md5State" where
  "md5_tail pms v5 = (let (pms, v5) = md5_blocks pms v5 in if v5 \<noteq> [] then pms\<lparr>md_buf := copy_at 0 v5 (md_buf pms)\<rparr> else pms)"

definition md5Append :: "md5State \<Rightarrow> bytes \<Rightarrow> md5State" where
  "md5Append pms data =
     (let nbytes = length data
      in if nbytes = 0 then pms
         else let v3 = md_count0 pms;
                  count1 = md_count1 pms + of_int (drop_bit 29 (int nbytes));
                  count0 = of_nat (8 * nbytes) + v3;
                  count1 = (if count0 < of_nat (8 * nbytes) then count1 + 1 else count1);
                  pms = pms\<lparr>md_count0 := count0, md_count1 := count1\<rparr>;
                  v7 = unat (drop_bit 3 v3 AND 0x3F)
              in if v7 \<noteq> 0 then
                   let v6 = (if v7 + nbytes > 64 then 64 - v7 else nbytes);
                       v8 = (if v7 + nbytes > 64 then 64 else v7 + nbytes);
                       pms = pms\<lparr>md_buf := copy_at v7 (take v6 data) (md_buf pms)\<rparr>
                   in if v8 > 63 then md5_tail (md5Process pms (md_buf pms)) (drop v6 data) else pms
                 else md5_tail pms data)"

definition md5Finish :: "md5State \<Rightarrow> bytes" where
  "md5Finish pms =
     (let data = storeU32LE (md_count0 pms) @ storeU32LE (md_count1 pms);
          padLen = nat ((55 - int (unat (drop_bit 3 (md_count0 pms)))) mod 64) + 1;
          pms = md5Append (md5Append pms (take padLen md5Pad)) data;
          (a, b, c, d) = md_abcd pms
      in storeU32LE a @ storeU32LE b @ storeU32LE c @ storeU32LE d)"

definition zero_md5State :: md5State where
  "zero_md5State = \<lparr>md_count0 = 0, md_count1 = 0, md_abcd = (0, 0, 0, 0), md_buf = replicate 64 0\<rparr>"

definition TenMd5 :: "bytes \<Rightarrow> bytes" where
  "TenMd5 data = md5Finish (md5Append (md5Init zero_md5State) data)"

subsection \<open>Keys and the byte cipher\<close>

definition GenKey :: "nat \<Rightarrow> u32 \<Rightarrow> bytes" where
  "GenKey nType dwKeySeed =
     concat (map (\<lambda>idx. TenMd5 (storeU32LE dwKeySeed @ storeU32LE (of_nat (idx + nType)))) [0..<2])"

definition GeneNew :: "bytes \<Rightarrow> bool \<Rightarrow> bytes \<Rightarrow> bytes" where
  "GeneNew key isEnc buf =
     (if isEnc
      then fold (\<lambda>n1 buf. let n2 = n1 mod 8; c1 = of_nat n1 XOR buf ! n1 in buf[n1 := key ! n2 XOR c1]) [0..<length buf] buf
      else fold (\<lambda>n1 buf. buf[n1 := (of_nat n1 XOR key ! (n1 mod 8)) XOR buf ! n1]) [0..<length buf] buf)"

subsection \<open>The envelope\<close>

datatype ByteOrder = BigEndian | LittleEndian

fun orderUint16 :: "ByteOrder \<Rightarrow> bytes \<Rightarrow> u16" where
  "orderUint16 BigEndian b = push_bit 8 (ucast (b ! 0)) OR ucast (b ! 1)"
| "orderUint16 LittleEndian b = push_bit 8 (ucast (b ! 1)) OR ucast (b ! 0)"

fun orderUint32 :: "ByteOrder \<Rightarrow> bytes \<Rightarrow> u32" where
  "orderUint32 BigEndian b = loadU32BE b"
| "orderUint32 LittleEndian b = loadU32LE b"

definition maxAntiCryptoType :: u32 where "maxAntiCryptoType = 19"

definition slice :: "nat \<Rightarrow> nat \<Rightarrow> 'a list \<Rightarrow> 'a list" where
  "slice i j xs = take (j - i) (drop i xs)"

fun antiEnvelopeHeader :: "ByteOrder list \<Rightarrow> bytes \<Rightarrow> (nat \<times> u32 \<times> u32) option" where
  "antiEnvelopeHeader [] data = None"
| "antiEnvelopeHeader (order # orders) data =
     (let size = unat (orderUint16 order (slice 0 2 data));
          protocolType = orderUint16 order (slice 2 4 data);
          candidateCryptoType = orderUint32 order (slice 9 13 data)
      in if size \<le> 17 \<or> size > length data \<or> protocolType \<noteq> 17 \<or> candidateCryptoType > maxAntiCryptoType
         then antiEnvelopeHeader orders data
         else Some (size, orderUint32 order (slice 5 9 data), candidateCryptoType))"

definition DecryptAnti :: "bytes \<Rightarrow> crypt_error + bytes" where
  "DecryptAnti data =
     (if length data \<le> 17 then Inl ErrInvalidBlockSize
      else case antiEnvelopeHeader [BigEndian, LittleEndian] data of
        None \<Rightarrow> Inl ErrInvalidBlockSize
      | Some (packetSize, keySeed, cryptoType) \<Rightarrow>
          let antiDataSize = packetSize - 17
          in if antiDataSize < 9 then Inl ErrInvalidBlockSize
             else let antiDataBuf = slice 17 packetSize data;
                      pbyKey = GenKey (unat cryptoType) keySeed;
                      antiDataBuf = GeneNew pbyKey False antiDataBuf;
                      offset = 4 + 4 + 1 + unat (antiDataBuf ! 8)
                  in if offset \<ge> antiDataSize then Inl ErrInvalidBlockSize
                     else if antiDataSize - offset <
                          (if antiDataBuf ! offset = 0 then 15 else if antiDataBuf ! offset = 1 then 13 else 7)
                     then Inl ErrInvalidBlockSize
                     else let sizeCheck = loadU32LE (slice (offset + 3) (offset + 7) antiDataBuf)
                          in if of_nat (antiDataSize - offset) \<noteq> sizeCheck then Inl ErrInvalidBlockSize
                             else Inr (drop offset antiDataBuf))"

subsection \<open>The login transformation and the checksums\<close>

definition DecryptLogin :: "bytes \<Rightarrow> bytes" where
  "DecryptLogin data =
     (let v5 = 71646901 :: u32; dest = unat (drop_bit 8 v5 AND 7)
      in map (\<lambda>b. (push_bit dest b OR drop_bit (8 - dest) b) XOR ucast v5) data)"

definition dnfCRCPolynomial :: u32 where "dnfCRCPolynomial = 1303941417"

definition crc_step :: "u32 \<Rightarrow> u32" where
  "crc_step v = (if v AND 1 \<noteq> 0 then drop_bit 1 v XOR dnfCRCPolynomial else drop_bit 1 v)"

definition buildDNFCRCTable :: "u32 list" where
  "buildDNFCRCTable = map (\<lambda>i. (crc_step ^^ 8) (of_nat i)) [0..<256]"

definition CRC32 :: "u32 \<Rightarrow> bytes \<Rightarrow> u32" where
  "CRC32 crc data =
     NOT (fold (\<lambda>b crc. drop_bit 8 crc XOR buildDNFCRCTable ! unat ((crc XOR ucast b) AND 0xFF)) data (NOT crc))"

definition MakeChecksumTo1Byte :: "bytes \<Rightarrow> bytes" where
  "MakeChecksumTo1Byte data =
     data[0 := data ! 0 XOR (data ! 2 XOR data ! 1 XOR data ! 3 XOR 0x18)]"


subsection \<open>Opening an envelope\<close>

lemma fold_update:
  assumes "n \<le> length xs"
  shows "fold (\<lambda>i xs. xs[i := f i (xs ! i)]) [0..<n] xs = map (\<lambda>i. f i (xs ! i)) [0..<n] @ drop n xs"
  using assms
proof (induction n)
  case (Suc n)
  then have "drop n xs = xs ! n # drop (Suc n) xs" by (simp add: Cons_nth_drop_Suc)
  with Suc show ?case by (simp add: list_update_append nth_append)
qed simp

lemma GeneNew_bytes: "GeneNew key e buf = map (\<lambda>i. (of_nat i XOR key ! (i mod 8)) XOR buf ! i) [0..<length buf]"
  using fold_update [of "length buf" buf "\<lambda>i b. (of_nat i XOR key ! (i mod 8)) XOR b"]
    fold_update [of "length buf" buf "\<lambda>i b. key ! (i mod 8) XOR of_nat i XOR b"]
  by (simp add: GeneNew_def Let_def xor.assoc xor.left_commute)

lemma GeneNew_length [simp]: "length (GeneNew key e buf) = length buf"
  by (simp add: GeneNew_bytes)

lemma GeneNew_inverse [simp]: "GeneNew key d (GeneNew key e buf) = buf"
  by (rule nth_equalityI) (simp_all add: GeneNew_bytes)

text \<open>The envelope around a message: what a peer sends, in its byte order.\<close>

fun putUint16 :: "ByteOrder \<Rightarrow> u16 \<Rightarrow> bytes" where
  "putUint16 BigEndian v = [ucast (drop_bit 8 v), ucast v]"
| "putUint16 LittleEndian v = [ucast v, ucast (drop_bit 8 v)]"

fun putUint32 :: "ByteOrder \<Rightarrow> u32 \<Rightarrow> bytes" where
  "putUint32 BigEndian v = storeU32BE v"
| "putUint32 LittleEndian v = storeU32LE v"

definition anti_envelope :: "ByteOrder \<Rightarrow> u8 \<Rightarrow> u32 \<Rightarrow> u32 \<Rightarrow> u32 \<Rightarrow> bytes \<Rightarrow> bytes \<Rightarrow> bytes \<Rightarrow> bytes" where
  "anti_envelope order dataType keySeed cryptoType crc ids pad inner =
     (let body = ids @ of_nat (length pad) # pad @ inner
      in putUint16 order (of_nat (17 + length body)) @ putUint16 order 17 @ [dataType] @ putUint32 order keySeed @
         putUint32 order cryptoType @ putUint32 order crc @ GeneNew (GenKey (unat cryptoType) keySeed) True body)"

definition anti_message :: "bytes \<Rightarrow> bool" where
  "anti_message inner \<longleftrightarrow>
     (if inner ! 0 = 0 then 15 else if inner ! 0 = 1 then 13 else 7) \<le> length inner \<and>
     loadU32LE (slice 3 7 inner) = of_nat (length inner)"

lemma order_put [simp]:
  "orderUint16 order (putUint16 order v) = v" "length (putUint16 order v) = 2"
  "orderUint32 order (putUint32 order w) = w" "length (putUint32 order w) = 4"
proof -
  have be: "push_bit 8 (ucast (ucast (drop_bit 8 v) :: u8)) OR ucast (ucast v :: u8) = (v :: u16)"
  proof (rule bit_word_eqI)
    fix n assume n: "n < LENGTH(16)"
    show "bit (push_bit 8 (ucast (ucast (drop_bit 8 v) :: u8)) OR ucast (ucast v :: u8) :: u16) n \<longleftrightarrow> bit v n"
      by (cases "n < 8") (use n in \<open>auto simp: bit_simps not_less\<close>)
  qed
  then show "orderUint16 order (putUint16 order v) = v" by (cases order) simp_all
qed (cases order; simp)+

lemma envelope_fields:
  assumes "e = putUint16 order sz @ putUint16 order 17 @ [t] @ putUint32 order seed @ putUint32 order ct @ putUint32 order crc @ body"
  shows "slice 0 2 (e @ rest) = putUint16 order sz" "slice 2 4 (e @ rest) = putUint16 order 17"
    "slice 5 9 (e @ rest) = putUint32 order seed" "slice 9 13 (e @ rest) = putUint32 order ct"
    "17 \<le> n \<Longrightarrow> slice 17 n (e @ rest) = take (n - 17) (body @ rest)" "length e = 17 + length body"
  unfolding assms by (simp_all add: slice_def)


text \<open>A header that is not in the byte order \<open>order\<close> does not pass for one: its type is not 17.\<close>

lemma header_other_order:
  assumes "slice 2 4 data = putUint16 LittleEndian 17"
  shows "antiEnvelopeHeader (BigEndian # orders) data = antiEnvelopeHeader orders data"
proof -
  have "orderUint16 BigEndian (putUint16 LittleEndian 17) \<noteq> 17" by simp
  then show ?thesis using assms by (simp add: Let_def del: putUint16.simps)
qed

lemma header_accept:
  assumes "slice 0 2 data = putUint16 order sz" "slice 2 4 data = putUint16 order 17"
    "slice 5 9 data = putUint32 order seed" "slice 9 13 data = putUint32 order ct"
    "unat sz = n" "17 < n" "n \<le> length data" "ct \<le> maxAntiCryptoType"
  shows "antiEnvelopeHeader (order # orders) data = Some (n, seed, ct)"
  using assms leD [OF assms(8)] by (simp add: Let_def del: orderUint16.simps orderUint32.simps putUint16.simps putUint32.simps)

lemma slice_drop: "slice (k + i) (k + j) xs = slice i j (drop k xs)"
  by (simp add: slice_def add.commute)

lemma DecryptAnti_open:
  assumes "antiEnvelopeHeader [BigEndian, LittleEndian] data = Some (n, seed, ct)" and "17 < length data"
    and "slice 17 n data = GeneNew (GenKey (unat ct) seed) True body" and "n = 17 + length body"
    and "unat (body ! 8) = k" and "drop (9 + k) body = inner" and "anti_message inner"
  shows "DecryptAnti data = Inr inner"
proof -
  have pos: "7 \<le> length inner" using assms(7) by (auto simp: anti_message_def split: if_splits)
  have len: "length body = 9 + k + length inner" using arg_cong [OF assms(6), of length] pos by simp
  have first: "body ! (9 + k) = inner ! 0" using assms(6) len by (metis add_0_right le_add1 nth_drop)
  have "slice (9 + k + 3) (9 + k + 7) body = slice 3 7 inner" unfolding slice_drop assms(6) ..
  with assms pos len first show ?thesis
    by (simp add: DecryptAnti_def Let_def anti_message_def not_less add.commute del: antiEnvelopeHeader.simps)
      (auto split: if_splits)
qed

lemma unat_of_nat_u16: "m < 65536 \<Longrightarrow> unat (of_nat m :: u16) = m"
  by (simp add: unat_of_nat take_bit_nat_eq_self)

text \<open>
  Property C38. \<open>DecryptAnti\<close> opens every well-formed envelope, in network or in host byte order and
  with any bytes after it: it returns exactly the message, for every crypto type the protocol has,
  every key seed and every padding.
\<close>

theorem decrypt_anti_opens:
  assumes "length ids = 8" and "length pad < 256" and "cryptoType \<le> maxAntiCryptoType"
    and "26 + length pad + length inner < 65536" and "anti_message inner"
  shows "DecryptAnti (anti_envelope order dataType keySeed cryptoType crc ids pad inner @ rest) = Inr inner"
proof -
  let ?body = "ids @ of_nat (length pad) # pad @ inner"
  let ?e = "anti_envelope order dataType keySeed cryptoType crc ids pad inner"
  let ?enc = "GeneNew (GenKey (unat cryptoType) keySeed) True ?body"
  define n where "n = length inner + length pad"
  have len: "length ?body = 9 + n" using assms(1) by (simp add: n_def)
  have small: "unat (of_nat (26 + n) :: u16) = 26 + n"
    using assms(4) by (intro unat_of_nat_u16) (simp add: n_def)
  have e: "?e = putUint16 order (of_nat (26 + n)) @ putUint16 order 17 @ [dataType] @ putUint32 order keySeed @
      putUint32 order cryptoType @ putUint32 order crc @ ?enc"
    unfolding anti_envelope_def Let_def len by simp
  note f = envelope_fields(1-5) [OF e, where rest = rest] and f6 = envelope_fields(6) [OF e]
  have lene: "length ?e = 26 + n" using f6 len by simp
  have accept: "antiEnvelopeHeader (order # orders) (?e @ rest) = Some (26 + n, keySeed, cryptoType)" for orders
    using f(1-4) assms(3) small lene by (intro header_accept [where sz = "of_nat (26 + n)"]) (simp_all del: of_nat_add)
  have "antiEnvelopeHeader [BigEndian, LittleEndian] (?e @ rest) = Some (26 + n, keySeed, cryptoType)"
    using accept header_other_order [of "?e @ rest" "[LittleEndian]"] f(2) by (cases order) simp_all
  moreover have "slice 17 (26 + n) (?e @ rest) = ?enc" using f(5) [where n = "26 + n"] len by simp
  moreover have "unat (?body ! 8) = length pad"
    using assms(1,2) by (simp add: nth_append unat_of_nat take_bit_nat_eq_self)
  moreover have "drop (9 + length pad) ?body = inner" using assms(1) by simp
  ultimately show ?thesis
    using assms(5) len lene by (intro DecryptAnti_open [where body = ?body and n = "26 + n"]) simp_all
qed

theorem decrypt_anti_opens_witness:
  "\<forall>order. DecryptAnti (anti_envelope order 3 42 18 0 (replicate 8 1) [5, 6] [2, 0, 0, 8, 0, 0, 0, 99] @ [0, 0]) =
     Inr [2, 0, 0, 8, 0, 0, 0, 99]"
proof
  fix order
  have "anti_message [2, 0, 0, 8, 0, 0, 0, 99]" "(18 :: u32) \<le> maxAntiCryptoType" by code_simp+
  then show "DecryptAnti (anti_envelope order 3 42 18 0 (replicate 8 1) [5, 6] [2, 0, 0, 8, 0, 0, 0, 99] @ [0, 0]) =
     Inr [2, 0, 0, 8, 0, 0, 0, 99]"
    by (intro decrypt_anti_opens) simp_all
qed


subsection \<open>The checksum table\<close>

text \<open>The checksum bit by bit: eight steps of the shift register for every byte.\<close>

definition crc_bitwise :: "u32 \<Rightarrow> bytes \<Rightarrow> u32" where
  "crc_bitwise crc data = NOT (fold (\<lambda>b crc. (crc_step ^^ 8) (crc XOR ucast b)) data (NOT crc))"

lemma crc_step_eq: "crc_step v = drop_bit 1 v XOR (if bit v 0 then dnfCRCPolynomial else 0)"
  by (simp add: crc_step_def and_one_eq odd_iff_mod_2_eq_one [symmetric] bit_0)

lemma crc_step_xor: "crc_step (v XOR w) = crc_step v XOR crc_step w"
  by (auto simp: crc_step_eq drop_bit_xor bit_xor_iff ac_simps simp del: drop_bit_Suc)

lemma crc_steps_xor: "(crc_step ^^ n) (v XOR w) = (crc_step ^^ n) v XOR (crc_step ^^ n) w"
  by (induction n) (simp_all add: crc_step_xor)

lemma crc_steps_shift:
  assumes "n \<le> 8"
  shows "(crc_step ^^ n) (push_bit 8 v) = drop_bit n (push_bit 8 v)"
  using assms
proof (induction n)
  case (Suc n)
  then have "\<not> bit (drop_bit n (push_bit 8 v)) 0" by (simp add: bit_drop_bit_eq bit_push_bit_iff)
  with Suc show ?case by (simp add: crc_step_eq drop_bit_drop_bit del: drop_bit_push_bit)
qed simp

lemma crc_table_step:
  fixes c :: u32 and b :: u8
  shows "drop_bit 8 c XOR buildDNFCRCTable ! unat ((c XOR ucast b) AND 0xFF) = (crc_step ^^ 8) (c XOR ucast b)"
proof -
  define x :: u32 where "x = c XOR ucast b"
  have ff: "(0xFF :: u32) = mask 8" by (simp add: mask_eq_exp_minus_1)
  have y: "x AND 0xFF = take_bit 8 x" unfolding ff by (simp add: take_bit_eq_mask)
  have lt: "unat (take_bit 8 x) < 256"
    by (simp add: unsigned_take_bit_eq take_bit_nat_def)
  have split: "x = take_bit 8 x XOR push_bit 8 (drop_bit 8 x)"
    by (rule bit_word_eqI) (auto simp: bit_simps)
  have hi: "drop_bit 8 (push_bit 8 (drop_bit 8 x)) = drop_bit 8 c"
    by (rule bit_word_eqI) (auto simp: x_def bit_simps byte_high dest: bit_imp_le_length)
  have "(crc_step ^^ 8) x = (crc_step ^^ 8) (take_bit 8 x) XOR drop_bit 8 c"
    by (subst split, subst crc_steps_xor, subst crc_steps_shift) (simp_all only: hi order.refl)
  moreover have "buildDNFCRCTable ! unat (take_bit 8 x) = (crc_step ^^ 8) (take_bit 8 x)"
    using lt by (simp add: buildDNFCRCTable_def)
  ultimately show ?thesis by (simp add: x_def [symmetric] y xor.commute)
qed

text \<open>
  Property C39. The table-driven checksum of packets is the bitwise cyclic checksum over the
  polynomial, for every initial value and every buffer; and it can be continued: the checksum of a
  concatenation is the checksum of the second part started from that of the first.
\<close>

theorem crc_table_driven:
  "CRC32 crc data = crc_bitwise crc data \<and> CRC32 crc (data @ next) = CRC32 (CRC32 crc data) next"
  by (simp add: CRC32_def crc_bitwise_def crc_table_step)

end
