(* ===== verification/Md5_Proofs.thy ===== *)
theory Md5_Proofs
  imports Anti
begin

section \<open>The incremental hash\<close>

text \<open>
  The MD5 of \<open>anti.go\<close> against a reference: the invariant \<open>md5_after\<close> relates a state to the bytes it
  has taken in, every append keeps it, and finishing a state hashes the padded message.
\<close>

text \<open>
  The reference: the message padded with a bit, zeros and its length in bits, and hashed by blocks.
\<close>

definition md5_compress :: "quad \<Rightarrow> bytes \<Rightarrow> quad" where
  "md5_compress h b = md_abcd (md5Process \<lparr>md_count0 = 0, md_count1 = 0, md_abcd = h, md_buf = []\<rparr> b)"

function md5_hash :: "quad \<Rightarrow> bytes \<Rightarrow> quad" where
  "md5_hash h m = (if 63 < length m then md5_hash (md5_compress h (take 64 m)) (drop 64 m) else h)"
  by auto
termination by (relation "measure (\<lambda>(h, m). length m)") auto

declare md5_hash.simps [simp del]

definition md5_padded :: "bytes \<Rightarrow> bytes" where
  "md5_padded m =
     m @ 0x80 # replicate (63 - (length m + 8) mod 64) 0 @
     storeU32LE (of_nat (8 * length m)) @ storeU32LE (of_nat (8 * length m div 2 ^ 32))"

definition md5_reference :: "bytes \<Rightarrow> bytes" where
  "md5_reference m =
     (let (a, b, c, d) = md5_hash (0x67452301, 0xEFCDAB89, 0x98BADCFE, 0x10325476) (md5_padded m)
      in storeU32LE a @ storeU32LE b @ storeU32LE c @ storeU32LE d)"

text \<open>The state after the bytes \<open>m\<close>: the whole blocks hashed, the rest in the buffer, the bits counted.\<close>

definition md5_after :: "bytes \<Rightarrow> md5State \<Rightarrow> bool" where
  "md5_after m st \<longleftrightarrow>
     length (md_buf st) = 64 \<and>
     md_abcd st = md5_hash (0x67452301, 0xEFCDAB89, 0x98BADCFE, 0x10325476) m \<and>
     take (length m mod 64) (md_buf st) = drop (length m div 64 * 64) m \<and>
     md_count0 st = of_nat (8 * length m) \<and> md_count1 st = of_nat (8 * length m div 2 ^ 32)"

lemma md5Process_fields [simp]:
  "md_count0 (md5Process s b) = md_count0 s" "md_count1 (md5Process s b) = md_count1 s" "md_buf (md5Process s b) = md_buf s"
  by (simp_all add: md5Process_def Let_def split_beta)

lemma md5Process_abcd: "md_abcd (md5Process s b) = md5_compress (md_abcd s) b"
  by (simp add: md5_compress_def md5Process_def Let_def split_beta)

lemma md5_hash_short: "length m < 64 \<Longrightarrow> md5_hash h m = h"
  by (simp add: md5_hash.simps [of h m])

lemma md5_hash_block: "length b = 64 \<Longrightarrow> md5_hash h (b @ m) = md5_hash (md5_compress h b) m"
  by (simp add: md5_hash.simps [of h "b @ m"])

text \<open>Hashing goes on from a whole number of blocks.\<close>

lemma md5_hash_append:
  assumes "length m mod 64 = 0"
  shows "md5_hash h (m @ k) = md5_hash (md5_hash h m) k"
proof -
  have "(0 :: nat) < 64" by simp
  from this assms show ?thesis
    by (induction m arbitrary: h rule: blocks_induct) (simp_all add: md5_hash_block md5_hash_short)
qed

text \<open>The loop over the whole blocks of an argument.\<close>

lemma md5_blocks_eq:
  "md5_blocks s v = (s\<lparr>md_abcd := md5_hash (md_abcd s) v\<rparr>, drop (length v div 64 * 64) v)"
proof (induction "length v" arbitrary: s v rule: less_induct)
  case less
  show ?case
  proof (cases "63 < length v")
    case True
    then have "length v div 64 * 64 = 64 + length (drop 64 v) div 64 * 64" by (simp add: div_if)
    moreover have "md5_hash (md_abcd s) v = md5_hash (md5_compress (md_abcd s) (take 64 v)) (drop 64 v)"
      using md5_hash_block [of "take 64 v" "md_abcd s" "drop 64 v"] True by simp
    moreover have "(md5Process s b)\<lparr>md_abcd := h\<rparr> = s\<lparr>md_abcd := h\<rparr>" for h b
      by (simp add: md5Process_def Let_def split_beta)
    moreover have "md5_blocks (md5Process s (take 64 v)) (drop 64 v) =
        ((md5Process s (take 64 v))\<lparr>md_abcd := md5_hash (md_abcd (md5Process s (take 64 v))) (drop 64 v)\<rparr>,
         drop (length (drop 64 v) div 64 * 64) (drop 64 v))"
      using True by (intro less) simp
    ultimately show ?thesis using True
      by (subst md5_blocks.simps) (simp add: md5Process_abcd add.commute)
  qed (simp add: md5_blocks.simps [of s v] md5_hash_short)
qed


abbreviation md5_start :: quad where
  "md5_start \<equiv> (0x67452301, 0xEFCDAB89, 0x98BADCFE, 0x10325476)"

lemma copy_at_length [simp]: "off + length src \<le> length buf \<Longrightarrow> length (copy_at off src buf) = length buf"
  by (simp add: copy_at_def)

lemma md5_tail_after:
  assumes "length m mod 64 = 0" "md_abcd st = md5_hash md5_start m" "length (md_buf st) = 64"
    "md_count0 st = of_nat (8 * length (m @ v))" "md_count1 st = of_nat (8 * length (m @ v) div 2 ^ 32)"
  shows "md5_after (m @ v) (md5_tail st v)"
proof -
  define r where "r = drop (length v div 64 * 64) v"
  have lr: "length r = length v mod 64" by (simp add: r_def minus_div_mult_eq_mod)
  have mv: "length (m @ v) mod 64 = length v mod 64" using assms(1) by (simp add: mod_add_left_eq [symmetric])
  have "length (m @ v) div 64 * 64 = length m + length v div 64 * 64"
    using assms(1) by (metis div_mult_mod_eq div_plus_div_distrib_dvd_left dvd_eq_mod_eq_0 add_mult_distrib length_append add.right_neutral)
  then have dr: "drop (length (m @ v) div 64 * 64) (m @ v) = r" by (simp add: r_def)
  have t: "md5_tail st v = (let s = st\<lparr>md_abcd := md5_hash (md5_hash md5_start m) v\<rparr>
      in if r \<noteq> [] then s\<lparr>md_buf := copy_at 0 r (md_buf s)\<rparr> else s)"
    by (simp add: md5_tail_def md5_blocks_eq assms(2) r_def Let_def)
  have "length r \<le> 64" using lr by (simp add: less_imp_le)
  then show ?thesis
    unfolding md5_after_def mv dr t
    using assms lr by (auto simp: Let_def md5_hash_append copy_at_def)
qed

lemma md5_count_low: "unat (drop_bit 3 (of_nat (8 * n) :: u32) AND 0x3F) = n mod 64"
proof -
  have ff: "(0x3F :: u32) = mask 6" by (simp add: mask_eq_exp_minus_1)
  have "unat (drop_bit 3 (of_nat k :: u32) AND 0x3F) = k mod 2 ^ 32 div 8 mod 64" for k
    unfolding ff take_bit_eq_mask [symmetric]
    by (simp add: unsigned_take_bit_eq unsigned_drop_bit_eq unat_of_nat take_bit_nat_def drop_bit_nat_def)
  then have "unat (drop_bit 3 (of_nat (8 * n) :: u32) AND 0x3F) = 8 * n mod 2 ^ 32 div 8 mod 64" .
  also have "8 * n mod 2 ^ 32 = 8 * (n mod 2 ^ 29)" by (simp add: mult_mod_right)
  also have "8 * (n mod 2 ^ 29) div 8 mod 64 = n mod 64" by (simp add: mod_mod_cancel)
  finally show ?thesis .
qed

lemma mod_sum_wraps: "a < n \<Longrightarrow> b < n \<Longrightarrow> (a + b) mod n < b \<longleftrightarrow> n \<le> a + b" for a b n :: nat
  by (cases "n \<le> a + b") (simp_all add: le_mod_geq)

lemma div_sum_carry: "(a + b) div n = a div n + b div n + (if n \<le> a mod n + b mod n then 1 else 0)" if "0 < n" for a b n :: nat
proof -
  have "a mod n + b mod n < 2 * n" using that by (simp add: add_less_le_mono less_imp_le mult_2)
  then have "(a mod n + b mod n) div n = (if n \<le> a mod n + b mod n then 1 else 0)"
    by (auto simp: div_if)
  then show ?thesis by (subst div_add1_eq) simp
qed

lemma md5_count_add:
  fixes a b :: nat
  defines "low \<equiv> of_nat b + of_nat a :: u32"
  shows "low = of_nat (a + b)"
    and "(if low < of_nat b then of_nat (a div 2 ^ 32) + of_nat (b div 2 ^ 32) + 1
          else of_nat (a div 2 ^ 32) + of_nat (b div 2 ^ 32)) = (of_nat ((a + b) div 2 ^ 32) :: u32)"
proof -
  show low: "low = of_nat (a + b)" by (simp add: low_def add.commute)
  let ?a = "a mod 2 ^ 32" and ?b = "b mod 2 ^ 32"
  have n: "unat (of_nat k :: u32) = k mod 2 ^ 32" for k
    by (simp add: unat_of_nat take_bit_nat_def)
  have u: "unat low = (?a + ?b) mod 2 ^ 32"
    unfolding low n by (rule mod_add_eq [symmetric])
  have c: "low < of_nat b \<longleftrightarrow> 2 ^ 32 \<le> ?a + ?b"
    unfolding word_less_nat_alt u n by (rule mod_sum_wraps) simp_all
  have "(a + b) div 2 ^ 32 = a div 2 ^ 32 + b div 2 ^ 32 + (if 2 ^ 32 \<le> ?a + ?b then 1 else 0)"
    by (rule div_sum_carry) simp
  with c show "(if low < of_nat b then of_nat (a div 2 ^ 32) + of_nat (b div 2 ^ 32) + 1
      else of_nat (a div 2 ^ 32) + of_nat (b div 2 ^ 32)) = (of_nat ((a + b) div 2 ^ 32) :: u32)"
    by simp
qed


lemma md5Append_counts:
  fixes d :: bytes
  assumes "md5_after m st"
  defines "n \<equiv> 8 * length d"
  shows "of_nat n + md_count0 st = of_nat (8 * length (m @ d))"
    and "(if of_nat n + md_count0 st < of_nat n then md_count1 st + of_int (drop_bit 29 (int (length d))) + 1
          else md_count1 st + of_int (drop_bit 29 (int (length d)))) = of_nat (8 * length (m @ d) div 2 ^ 32)"
proof -
  have "drop_bit 29 (int (length d)) = int (n div 2 ^ 32)"
    by (simp add: n_def drop_bit_eq_div zdiv_int [symmetric])
  then have "of_int (drop_bit 29 (int (length d))) = (of_nat (n div 2 ^ 32) :: u32)" by simp
  then show "of_nat n + md_count0 st = of_nat (8 * length (m @ d))"
    "(if of_nat n + md_count0 st < of_nat n then md_count1 st + of_int (drop_bit 29 (int (length d))) + 1
      else md_count1 st + of_int (drop_bit 29 (int (length d)))) = of_nat (8 * length (m @ d) div 2 ^ 32)"
    using assms(1) md5_count_add [of n "8 * length m"]
    unfolding md5_after_def by (simp_all only: n_def length_append distrib_left)
qed

text \<open>Appending bytes to a state takes it to the state after the longer message.\<close>

lemma md5Append_after:
  assumes "md5_after m st"
  shows "md5_after (m @ d) (md5Append st d)"
proof (cases "d = []")
  case False
  define s0 where "s0 = st\<lparr>md_count0 := of_nat (8 * length (m @ d)), md_count1 := of_nat (8 * length (m @ d) div 2 ^ 32)\<rparr>"
  define v where "v = length m mod 64"
  define q where "q = take (length m div 64 * 64) m"
  define r where "r = drop (length m div 64 * 64) m"
  have m: "m = q @ r" by (simp add: q_def r_def)
  have len_q: "length q = length m div 64 * 64" by (simp add: q_def min_absorb2)
  then have lq: "length q mod 64 = 0" by simp
  have lr: "length r = v" by (simp add: r_def v_def minus_div_mult_eq_mod)
  have v7: "unat (drop_bit 3 (md_count0 st) AND 0x3F) = v"
    using assms md5_count_low [of "length m"] by (simp add: md5_after_def v_def)
  have app: "md5Append st d =
     (if v \<noteq> 0 then
        let v6 = (if v + length d > 64 then 64 - v else length d);
            v8 = (if v + length d > 64 then 64 else v + length d);
            pms = s0\<lparr>md_buf := copy_at v (take v6 d) (md_buf s0)\<rparr>
        in if v8 > 63 then md5_tail (md5Process pms (md_buf pms)) (drop v6 d) else pms
      else md5_tail s0 d)"
    unfolding md5Append_def Let_def v7 md5Append_counts(1) [OF assms]
      md5Append_counts(2) [OF assms, unfolded md5Append_counts(1) [OF assms]] s0_def
    by (simp only: False length_0_conv if_False)
  have buf: "length (md_buf s0) = 64" "take v (md_buf s0) = r"
    using assms by (simp_all add: md5_after_def s0_def v_def r_def)
  have "v < 64" by (simp add: v_def)
  have hash: "md_abcd s0 = md5_hash md5_start q"
    using assms md5_hash_append [OF lq, of _ r] \<open>v < 64\<close> lr by (simp add: md5_after_def s0_def md5_hash_short flip: m)
  have counts: "md_count0 s0 = of_nat (8 * length (m @ d))" "md_count1 s0 = of_nat (8 * length (m @ d) div 2 ^ 32)"
    by (simp_all add: s0_def)
  consider "v = 0" | "v \<noteq> 0" "v + length d < 64" | "v \<noteq> 0" "64 \<le> v + length d" by linarith
  then show ?thesis
  proof cases
    case 1
    then have "q = m" using lr m by simp
    with 1 app show ?thesis using md5_tail_after [OF lq hash buf(1), of d] counts by simp
  next
    case 2
    have mod: "length (m @ d) mod 64 = v + length d" "length (m @ d) div 64 * 64 = length q"
      using 2(2) len_q mod_add_left_eq [of "length m" 64 "length d"] unfolding v_def
      by (simp_all add: minus_mod_eq_div_mult [symmetric])
    have "md5_hash md5_start (m @ d) = md5_hash md5_start q"
      using md5_hash_append [OF lq, of _ "r @ d"] 2(2) lr by (simp add: m md5_hash_short)
    moreover have "drop (length q) (m @ d) = r @ d" by (simp add: m)
    ultimately show ?thesis
      using 2 app buf hash counts lr unfolding md5_after_def mod by (simp add: Let_def copy_at_def)
  next
    case 3
    define b where "b = r @ take (64 - v) d"
    have lb: "length b = 64" using 3(2) lr \<open>v < 64\<close> by (simp add: b_def)
    define s1 where "s1 = s0\<lparr>md_buf := b\<rparr>"
    have "copy_at v (take (64 - v) d) (md_buf s0) = b"
      using 3(2) \<open>v < 64\<close> buf by (simp add: copy_at_def b_def)
    then have "md5Append st d = md5_tail (md5Process s1 b) (drop (64 - v) d)"
      using app 3 by (cases "v + length d = 64") (simp_all add: Let_def s1_def)
    moreover have "md_abcd (md5Process s1 b) = md5_hash md5_start (q @ b)"
      using md5_hash_append [OF lq] hash md5_hash_block [OF lb, of _ "[]"] by (simp add: md5Process_abcd s1_def md5_hash_short)
    moreover have "m @ d = (q @ b) @ drop (64 - v) d" by (simp add: m b_def)
    ultimately show ?thesis
      using md5_tail_after [of "q @ b" "md5Process s1 b" "drop (64 - v) d"] lq lb counts by (simp add: s1_def)
  qed
qed (use assms in \<open>simp add: md5Append_def\<close>)

lemma md5_padLen: "nat ((55 - int (unat (drop_bit 3 (of_nat (8 * n) :: u32)))) mod 64) = 63 - (n + 8) mod 64"
proof -
  have "unat (drop_bit 3 (of_nat k :: u32)) = k mod 2 ^ 32 div 8" for k
    by (simp add: unsigned_drop_bit_eq unat_of_nat take_bit_nat_def drop_bit_nat_def)
  then have "unat (drop_bit 3 (of_nat (8 * n) :: u32)) = 8 * n mod 2 ^ 32 div 8" .
  also have "8 * n mod 2 ^ 32 = 8 * (n mod 2 ^ 29)" by (simp add: mult_mod_right)
  finally have u: "unat (drop_bit 3 (of_nat (8 * n) :: u32)) = n mod 2 ^ 29" by simp
  have "(55 - int (n mod 2 ^ 29)) mod 64 = (55 - int (n mod 2 ^ 29) mod 64) mod 64" by (rule mod_diff_right_eq [symmetric])
  also have "int (n mod 2 ^ 29) mod 64 = int (n mod 64)" 
  proof -
    have "n mod 2 ^ 29 mod 64 = n mod 64" by (simp add: mod_mod_cancel)
    then show ?thesis by (metis of_nat_mod of_nat_numeral)
  qed
  also have "(55 - int (n mod 64)) mod 64 = (63 - int ((n + 8) mod 64)) mod 64"
    by (simp add: of_nat_mod mod_simps)
  also have "\<dots> = int (63 - (n + 8) mod 64)"
  proof -
    have "(n + 8) mod 64 \<le> 63" by (simp add: less_Suc_eq_le [symmetric])
    then show ?thesis by (simp add: of_nat_diff)
  qed
  finally show ?thesis unfolding u by simp
qed

lemma md5_padded_length: "length (md5_padded m) mod 64 = 0"
proof -
  have "(length m + 8) mod 64 \<le> 63" by (simp add: less_Suc_eq_le [symmetric])
  then have "length (md5_padded m) = length m + 8 - (length m + 8) mod 64 + 64" by (simp add: md5_padded_def)
  then show ?thesis by (simp add: minus_mod_eq_div_mult)
qed

text \<open>
  Property C40. The incremental MD5 of the key derivation computes the reference hash: for every
  message, appending the message, the padding and the bit count through the 64-byte buffer gives
  the block-by-block hash of the padded message.
\<close>

theorem ten_md5_reference: "TenMd5 data = md5_reference data"
proof -
  let ?n = "length data"
  have init: "md5_after [] (md5Init zero_md5State)"
    by (simp add: md5_after_def md5Init_def zero_md5State_def md5_hash_short)
  define st where "st = md5Append (md5Init zero_md5State) data"
  have st: "md5_after data st" using md5Append_after [OF init, of data] by (simp add: st_def)
  have pad: "take (63 - (?n + 8) mod 64 + 1) md5Pad = 0x80 # replicate (63 - (?n + 8) mod 64) 0"
    by (simp add: md5Pad_def min_def)
  have c: "md_count0 st = of_nat (8 * ?n)" "md_count1 st = of_nat (8 * ?n div 2 ^ 32)"
    using st by (simp_all add: md5_after_def)
  have "md5_after (md5_padded data)
      (md5Append (md5Append st (0x80 # replicate (63 - (?n + 8) mod 64) 0)) (storeU32LE (md_count0 st) @ storeU32LE (md_count1 st)))"
    using md5Append_after [OF md5Append_after [OF st, of "0x80 # replicate (63 - (?n + 8) mod 64) 0"],
        of "storeU32LE (md_count0 st) @ storeU32LE (md_count1 st)"]
    unfolding md5_padded_def c by simp
  then show ?thesis
    unfolding TenMd5_def md5Finish_def st_def [symmetric] md5_reference_def
    using md5_padLen [of ?n] pad c by (simp add: Let_def md5_after_def [of "md5_padded data"])
qed

end
