(* ===== verification/Party_Codec.thy ===== *)
theory Party_Codec
  imports Anti
begin

section \<open>The wire format of the party transport\<close>

text \<open>
  \<open>protocol/dnf/party_tqos_codec.go\<close>: the frames peers of a party exchange over UDP or the relay
  (acknowledgements, reliable and unreliable frames), the obfuscated handshake body with its
  checksum, and the receive window that drops repeated reliable frames. The
  lemmas show that frames are split as they were joined, that a handshake packet is parsed back
  whatever codec its sender chose, and that the window refines a set of accepted numbers.
\<close>

named_theorems party_simps \<open>unfolding rules of the party transport\<close>

subsection \<open>Library functions the codec uses\<close>

abbreviation le16 :: "bytes \<Rightarrow> u16" where "le16 \<equiv> orderUint16 LittleEndian"
abbreviation le32 :: "bytes \<Rightarrow> u32" where "le32 \<equiv> orderUint32 LittleEndian"
abbreviation put16 :: "u16 \<Rightarrow> bytes" where "put16 \<equiv> putUint16 LittleEndian"
abbreviation put32 :: "u32 \<Rightarrow> bytes" where "put32 \<equiv> putUint32 LittleEndian"

text \<open>\<open>math/bits.RotateLeft8\<close>, also for negative distances.\<close>

definition RotateLeft8 :: "u8 \<Rightarrow> int \<Rightarrow> u8" where
  "RotateLeft8 x k = (let s = nat (k mod 8) in push_bit s x OR drop_bit (8 - s) x)"

text \<open>\<open>hash/crc32\<close>: \<open>MakeTable\<close> of a reversed polynomial and \<open>Checksum\<close>, which is table-driven.\<close>

definition crc32_MakeTable :: "u32 \<Rightarrow> u32 list" where
  "crc32_MakeTable poly =
     map (\<lambda>i. ((\<lambda>c. if c AND 1 = 1 then drop_bit 1 c XOR poly else drop_bit 1 c) ^^ 8) (of_nat i)) [0..<256]"

definition crc32_Checksum :: "bytes \<Rightarrow> u32 list \<Rightarrow> u32" where
  "crc32_Checksum data tab =
     NOT (fold (\<lambda>v crc. tab ! unat (ucast crc XOR v :: u8) XOR drop_bit 8 crc) data (NOT 0))"

subsection \<open>Data\<close>

definition partyTQOSBodySize :: nat where "partyTQOSBodySize = 10"

definition partyTQOSCRCTable :: "u32 list" where
  "partyTQOSCRCTable = crc32_MakeTable 0x4db89129"

record partyTQOSCodec =
  tc_key :: u8
  tc_rotate :: u8

record partyTQOSPacket =
  tp_typ :: u8
  tp_sequence :: u32
  tp_senderSlot :: u8
  tp_flags :: u8
  tp_state :: u8
  tp_route :: u8
  tp_codec :: partyTQOSCodec

record partyTQOSReceiveWindow =
  rw_latest :: u32
  rw_seen :: u64
  rw_initialized :: bool

subsection \<open>The receive window\<close>

definition accept :: "u32 \<Rightarrow> partyTQOSReceiveWindow \<Rightarrow> bool \<times> partyTQOSReceiveWindow" where
  "accept sequence w =
     (if \<not> rw_initialized w then (True, \<lparr>rw_latest = sequence, rw_seen = 1, rw_initialized = True\<rparr>)
      else
        let delta = sint (sequence - rw_latest w) in
        if delta > 0 then
          (True, w\<lparr>rw_seen := (if delta \<ge> 64 then 1 else push_bit (nat delta) (rw_seen w) OR 1), rw_latest := sequence\<rparr>)
        else
          let behind = rw_latest w - sequence in
          if behind \<ge> 64 then (False, w)
          else
            let m = push_bit (unat behind) 1 in
            if rw_seen w AND m \<noteq> 0 then (False, w)
            else (True, w\<lparr>rw_seen := rw_seen w OR m\<rparr>))"

subsection \<open>Frames\<close>

text \<open>The size of the first frame of a payload, \<open>None\<close> when it has no frame header.\<close>

definition frame_size :: "bytes \<Rightarrow> nat option" where
  "frame_size payload =
     (if payload ! 0 = 0 then Some 8
      else if payload ! 0 = 1 \<or> payload ! 0 = 2 then
        (if length payload < 9 then None else Some (9 + unat (le16 (slice 5 7 payload))))
      else None)"

function split_frames :: "bytes list \<Rightarrow> bytes \<Rightarrow> bytes list option" where
  "split_frames frames payload =
     (if payload = [] then Some frames
      else case frame_size payload of
        None \<Rightarrow> None
      | Some frameSize \<Rightarrow>
          if frameSize \<le> 0 \<or> frameSize > length payload then None
          else split_frames (frames @ [take frameSize payload]) (drop frameSize payload))"
  by auto
termination by (relation "measure (\<lambda>(frames, payload). length payload)") auto

declare split_frames.simps [simp del]

definition splitPartyTransportFrames :: "bytes \<Rightarrow> bytes list option" where
  "splitPartyTransportFrames payload =
     (case split_frames [] payload of
        None \<Rightarrow> None
      | Some frames \<Rightarrow> if length frames > 0 then Some frames else None)"

definition frame_header :: "u8 \<Rightarrow> u32 \<Rightarrow> u16 \<Rightarrow> u8 \<Rightarrow> u8 \<Rightarrow> bytes" where
  "frame_header t sequence bodySize senderSlot flags = [t] @ put32 sequence @ put16 bodySize @ [senderSlot, flags]"

definition buildPartyUnreliablePacketChecked :: "u32 \<Rightarrow> u8 \<Rightarrow> u8 \<Rightarrow> bytes \<Rightarrow> bytes option" where
  "buildPartyUnreliablePacketChecked sequence senderSlot flags body =
     (if length body > 65535 then None
      else Some (frame_header 2 sequence (of_nat (length body)) senderSlot flags @ body))"

definition buildPartyUnreliablePacket :: "u32 \<Rightarrow> u8 \<Rightarrow> u8 \<Rightarrow> bytes \<Rightarrow> bytes" where
  "buildPartyUnreliablePacket sequence senderSlot flags body =
     (case buildPartyUnreliablePacketChecked sequence senderSlot flags body of None \<Rightarrow> [] | Some p \<Rightarrow> p)"

text \<open>The size of the records' body, \<open>None\<close> when it does not fit 16 bits.\<close>

fun records_size :: "nat \<Rightarrow> bytes list \<Rightarrow> nat option" where
  "records_size bodySize [] = Some bodySize"
| "records_size bodySize (record # records) =
     (if length record > 65535 \<or> int bodySize > 65535 - 2 - int (length record) then None
      else records_size (bodySize + 2 + length record) records)"

definition buildPartyReliablePacketChecked :: "u32 \<Rightarrow> u8 \<Rightarrow> u8 \<Rightarrow> bytes list \<Rightarrow> bytes option" where
  "buildPartyReliablePacketChecked sequence senderSlot flags records =
     (case records_size 0 records of
        None \<Rightarrow> None
      | Some bodySize \<Rightarrow>
          Some (fold (\<lambda>record payload. payload @ put16 (of_nat (length record)) @ record) records
            (frame_header 1 sequence (of_nat bodySize) senderSlot flags)))"

definition buildPartyReliablePacket :: "u32 \<Rightarrow> u8 \<Rightarrow> u8 \<Rightarrow> bytes list \<Rightarrow> bytes" where
  "buildPartyReliablePacket sequence senderSlot flags records =
     (case buildPartyReliablePacketChecked sequence senderSlot flags records of None \<Rightarrow> [] | Some p \<Rightarrow> p)"

subsection \<open>The handshake body\<close>

definition partyPayloadChecksum :: "bytes \<Rightarrow> bytes" where
  "partyPayloadChecksum payload =
     (let checksum = put32 (crc32_Checksum payload partyTQOSCRCTable) in
      checksum[0 := checksum ! 0 XOR (checksum ! 1 XOR checksum ! 2 XOR checksum ! 3 XOR 0x18)])"

definition partyTQOSChecksum :: "u8 \<Rightarrow> u8 \<Rightarrow> u8 \<Rightarrow> bytes" where
  "partyTQOSChecksum senderSlot state route = partyPayloadChecksum [senderSlot, state, route]"

definition decodePartyTQOSBodyWithCodec :: "bytes \<Rightarrow> u8 \<Rightarrow> u8 \<Rightarrow> partyTQOSCodec \<Rightarrow> u8 option" where
  "decodePartyTQOSBodyWithCodec body senderSlot expectedRoute codec =
     (let decodedSlot = RotateLeft8 (body ! 7) (- uint (tc_rotate codec)) XOR tc_key codec;
          state = RotateLeft8 (body ! 8) (- uint (tc_rotate codec)) XOR tc_key codec;
          route = RotateLeft8 (body ! 9) (- uint (tc_rotate codec)) XOR tc_key codec in
      if decodedSlot \<noteq> senderSlot \<or> state > 3 \<or> route \<noteq> expectedRoute then None
      else if slice 3 7 body = partyTQOSChecksum senderSlot state route then Some state else None)"

text \<open>The search over the eight rotations, from rotation \<open>r\<close> on.\<close>

fun search_codec :: "bytes \<Rightarrow> u8 \<Rightarrow> u8 \<Rightarrow> nat list \<Rightarrow> (u8 \<times> partyTQOSCodec) option" where
  "search_codec body senderSlot expectedRoute [] = None"
| "search_codec body senderSlot expectedRoute (r # rs) =
     (let codec = \<lparr>tc_key = RotateLeft8 (body ! 7) (- int r) XOR senderSlot, tc_rotate = of_nat r\<rparr> in
      case decodePartyTQOSBodyWithCodec body senderSlot expectedRoute codec of
        Some state \<Rightarrow> Some (state, codec)
      | None \<Rightarrow> search_codec body senderSlot expectedRoute rs)"

definition decodePartyTQOSBody ::
    "bytes \<Rightarrow> u8 \<Rightarrow> u8 \<Rightarrow> partyTQOSCodec option \<Rightarrow> (u8 \<times> partyTQOSCodec) option" where
  "decodePartyTQOSBody body senderSlot expectedRoute preferred =
     (if length body \<noteq> partyTQOSBodySize then None
      else case preferred of
        None \<Rightarrow> search_codec body senderSlot expectedRoute [0..<8]
      | Some codec \<Rightarrow>
          (case decodePartyTQOSBodyWithCodec body senderSlot expectedRoute codec of
             Some state \<Rightarrow> Some (state, codec)
           | None \<Rightarrow> search_codec body senderSlot expectedRoute [0..<8]))"

text \<open>The handshake body of a frame: the whole body, or the first record of a reliable frame.\<close>

definition tqos_body :: "bytes \<Rightarrow> bytes option" where
  "tqos_body payload =
     (let body = drop 9 payload in
      if payload ! 0 = 1 \<and> length body \<noteq> partyTQOSBodySize then
        (if length body < 2 then None
         else let innerSize = unat (le16 (slice 0 2 body)) in
           if innerSize \<noteq> partyTQOSBodySize \<or> length body < 2 + innerSize then None
           else Some (slice 2 (2 + innerSize) body))
      else Some body)"

definition parsePartyTQOSPacketWithCodec :: "bytes \<Rightarrow> u8 \<Rightarrow> partyTQOSCodec option \<Rightarrow> partyTQOSPacket option" where
  "parsePartyTQOSPacketWithCodec payload expectedRoute preferred =
     (if length payload < 9 \<or> (payload ! 0 \<noteq> 1 \<and> payload ! 0 \<noteq> 2) then None
      else if length payload \<noteq> 9 + unat (le16 (slice 5 7 payload)) then None
      else case tqos_body payload of
        None \<Rightarrow> None
      | Some body \<Rightarrow>
          if length body \<noteq> partyTQOSBodySize then None
          else if body ! 0 \<noteq> 0 \<or> body ! 1 \<noteq> 0 \<or> body ! 2 \<noteq> 0 then None
          else
            let senderSlot = payload ! 7 in
            case decodePartyTQOSBody body senderSlot expectedRoute preferred of
              None \<Rightarrow> None
            | Some (state, codec) \<Rightarrow>
                Some \<lparr>tp_typ = payload ! 0, tp_sequence = le32 (slice 1 5 payload), tp_senderSlot = senderSlot,
                  tp_flags = payload ! 8, tp_state = state, tp_route = expectedRoute, tp_codec = codec\<rparr>)"

definition buildPartyTQOSPacket :: "u32 \<Rightarrow> u8 \<Rightarrow> u8 \<Rightarrow> u8 \<Rightarrow> u8 \<Rightarrow> partyTQOSCodec \<Rightarrow> bytes" where
  "buildPartyTQOSPacket sequence senderSlot flags state route codec =
     (let t = if state = 2 then 1 else 2;
          bodySize = if state = 2 then partyTQOSBodySize + 2 else partyTQOSBodySize;
          inner = if t = (1 :: u8) then put16 (of_nat partyTQOSBodySize) else [];
          body = [0, 0, 0] @ partyTQOSChecksum senderSlot state route @
            map (\<lambda>v. RotateLeft8 (v XOR tc_key codec) (uint (tc_rotate codec))) [senderSlot, state, route] in
      frame_header t sequence (of_nat bodySize) senderSlot flags @ inner @ body)"

definition buildPartyTQOSAck :: "u8 \<Rightarrow> u32 \<Rightarrow> bytes" where
  "buildPartyTQOSAck senderSlot sequence = [0, senderSlot] @ put32 (sequence + 1) @ [0, 0]"

definition nextPartyTQOSState :: "u8 \<Rightarrow> u8 option" where
  "nextPartyTQOSState state =
     (if state = 3 then Some 0 else if state = 0 then Some 1 else if state = 1 then Some 2 else None)"


subsection \<open>The receive window refines a set of accepted numbers\<close>

text \<open>
  The specification works on unbounded numbers: it keeps the newest accepted number and all accepted
  ones. Numbers reach the window modulo \<open>2 ^ 32\<close>.
\<close>

type_synonym window_spec = "(int \<times> int set) option"

fun spec_accept :: "int \<Rightarrow> window_spec \<Rightarrow> bool \<times> window_spec" where
  "spec_accept n None = (True, Some (n, {n}))"
| "spec_accept n (Some (m, S)) =
     (if n > m then (True, Some (n, insert n S))
      else if m - n < 64 \<and> n \<notin> S then (True, Some (m, insert n S))
      else (False, Some (m, S)))"

fun window_run :: "u32 list \<Rightarrow> partyTQOSReceiveWindow \<Rightarrow> bool list" where
  "window_run [] w = []"
| "window_run (s # ss) w = (let (ok, w') = accept s w in ok # window_run ss w')"

fun spec_run :: "int list \<Rightarrow> window_spec \<Rightarrow> bool list" where
  "spec_run [] st = []"
| "spec_run (n # ns) st = (let (ok, st') = spec_accept n st in ok # spec_run ns st')"

text \<open>Every number arrives within half of the number space of the newest accepted one.\<close>

fun near_newest :: "int list \<Rightarrow> window_spec \<Rightarrow> bool" where
  "near_newest [] st \<longleftrightarrow> True"
| "near_newest (n # ns) st \<longleftrightarrow>
     (case st of None \<Rightarrow> True | Some (m, S) \<Rightarrow> - (2 ^ 31) \<le> n - m \<and> n - m < 2 ^ 31) \<and>
     near_newest ns (snd (spec_accept n st))"

definition zero_window :: partyTQOSReceiveWindow where
  "zero_window = \<lparr>rw_latest = 0, rw_seen = 0, rw_initialized = False\<rparr>"

fun window_rel :: "partyTQOSReceiveWindow \<Rightarrow> window_spec \<Rightarrow> bool" where
  "window_rel w None \<longleftrightarrow> \<not> rw_initialized w"
| "window_rel w (Some (m, S)) \<longleftrightarrow>
     rw_initialized w \<and> rw_latest w = word_of_int m \<and> (\<forall>k < 64. bit (rw_seen w) k \<longleftrightarrow> m - int k \<in> S) \<and>
     (\<forall>x \<in> S. x \<le> m)"

lemma sint_word_of_int_u32: "- (2 ^ 31) \<le> k \<Longrightarrow> k < 2 ^ 31 \<Longrightarrow> sint (word_of_int k :: u32) = k"
  by (simp add: signed_of_int signed_take_bit_int_eq_self)

lemma unat_word_of_int_u32: "0 \<le> k \<Longrightarrow> k < 2 ^ 32 \<Longrightarrow> unat (word_of_int k :: u32) = nat k"
  unfolding unat_eq_nat_uint uint_word_of_int_eq by (subst take_bit_int_eq_self) simp_all

lemma accept_newer:
  assumes rel: "window_rel w (Some (m, S))" and n: "m < n" "n - m < 2 ^ 31"
  shows "fst (accept (word_of_int n) w)" "window_rel (snd (accept (word_of_int n) w)) (Some (n, insert n S))"
proof -
  have init: "rw_initialized w" using rel by simp
  define d where "d = nat (n - m)"
  have d: "n = m + int d" "0 < d" using n by (auto simp: d_def)
  have s: "sint (word_of_int n - rw_latest w) = int d"
    using rel n d sint_word_of_int_u32 [of "n - m"] by (simp flip: wi_hom_sub)
  have acc: "accept (word_of_int n) w =
      (True, w\<lparr>rw_seen := (if 64 \<le> d then 1 else push_bit d (rw_seen w) OR 1), rw_latest := word_of_int n\<rparr>)"
    using init d(2) by (simp add: accept_def s)
  show "fst (accept (word_of_int n) w)" by (simp add: acc)
  have "bit (if 64 \<le> d then 1 else push_bit d (rw_seen w) OR 1) k \<longleftrightarrow> n - int k \<in> insert n S" if k: "k < 64" for k
  proof (cases "d \<le> k")
    case True
    then have eq: "n - int k = m - int (k - d)" "n \<noteq> n - int k" using d by simp_all
    have "bit (rw_seen w) (k - d) \<longleftrightarrow> m - int (k - d) \<in> S" using rel k by simp
    then show ?thesis
      using k True eq(2) d(2) by (auto simp: bit_simps bit_1_iff eq(1) simp del: of_nat_diff)
  next
    case False
    then have "n - int k \<notin> S" using rel d by force
    then show ?thesis using k False by (auto simp: bit_simps bit_1_iff)
  qed
  then show "window_rel (snd (accept (word_of_int n) w)) (Some (n, insert n S))"
    using rel n by (auto simp: acc)
qed

lemma accept_older:
  assumes rel: "window_rel w (Some (m, S))" and n: "n \<le> m" "m - n \<le> 2 ^ 31"
  shows "fst (accept (word_of_int n) w) \<longleftrightarrow> m - n < 64 \<and> n \<notin> S"
    and "window_rel (snd (accept (word_of_int n) w)) (Some (m, if m - n < 64 \<and> n \<notin> S then insert n S else S))"
proof -
  have init: "rw_initialized w" using rel by simp
  define d where "d = nat (m - n)"
  have d: "n = m - int d" using n by (auto simp: d_def)
  have s: "\<not> sint (word_of_int n - rw_latest w) > 0"
    using rel n sint_word_of_int_u32 [of "n - m"] by (simp flip: wi_hom_sub)
  have b: "unat (rw_latest w - word_of_int n) = d"
    using rel n unat_word_of_int_u32 [of "m - n"] by (simp add: d_def flip: wi_hom_sub)
  have b64: "64 \<le> rw_latest w - word_of_int n \<longleftrightarrow> 64 \<le> d" by (simp add: word_le_nat_alt b)
  have in_seen: "rw_seen w AND push_bit d 1 \<noteq> 0 \<longleftrightarrow> n \<in> S" if "d < 64"
    using rel d that by (simp add: push_bit_of_1 bit_iff_and_push_bit_not_eq_0)
  have acc: "accept (word_of_int n) w =
      (if 64 \<le> d then (False, w) else if n \<in> S then (False, w) else (True, w\<lparr>rw_seen := rw_seen w OR push_bit d 1\<rparr>))"
    using init s in_seen by (auto simp: accept_def Let_def b64 b simp del: push_bit_of_1)
  show "fst (accept (word_of_int n) w) \<longleftrightarrow> m - n < 64 \<and> n \<notin> S" 
    unfolding acc using d by auto
  have "bit (rw_seen w OR push_bit d 1) k \<longleftrightarrow> m - int k \<in> insert n S" if "k < 64" for k
    using rel d that by (auto simp: bit_simps bit_1_iff simp del: push_bit_of_1)
  then show "window_rel (snd (accept (word_of_int n) w)) (Some (m, if m - n < 64 \<and> n \<notin> S then insert n S else S))"
    unfolding acc using rel n d by (auto simp del: push_bit_of_1)
qed

lemma accept_refines:
  assumes "window_rel w st" and "near_newest (n # ns) st"
  shows "fst (accept (word_of_int n) w) = fst (spec_accept n st)"
    and "window_rel (snd (accept (word_of_int n) w)) (snd (spec_accept n st))"
proof -
  have "fst (accept (word_of_int n) w) = fst (spec_accept n st) \<and>
      window_rel (snd (accept (word_of_int n) w)) (snd (spec_accept n st))"
  proof (cases st)
    case None
    with assms show ?thesis by (auto simp: accept_def bit_1_iff)
  next
    case (Some mS)
    obtain m S where st: "st = Some (m, S)" using Some by (cases mS) auto
    show ?thesis
      using assms accept_newer [of w m S n] accept_older [of w m S n] by (cases "m < n") (auto simp: st)
  qed
  then show "fst (accept (word_of_int n) w) = fst (spec_accept n st)"
    and "window_rel (snd (accept (word_of_int n) w)) (snd (spec_accept n st))" by auto
qed

lemma window_run_refines:
  "window_rel w st \<Longrightarrow> near_newest ns st \<Longrightarrow> window_run (map word_of_int ns) w = spec_run ns st"
proof (induction ns arbitrary: w st)
  case (Cons n ns)
  from accept_refines [OF Cons.prems] Cons.IH Cons.prems show ?case
    by (auto simp: split_beta Let_def)
qed simp

definition accepted :: "int list \<Rightarrow> window_spec \<Rightarrow> int list" where
  "accepted ns st = map fst (filter snd (zip ns (spec_run ns st)))"

lemma accepted_fresh:
  "(\<forall>m S. st = Some (m, S) \<longrightarrow> (\<forall>x \<in> S. x \<le> m)) \<Longrightarrow>
   distinct (accepted ns st) \<and> (\<forall>m S. st = Some (m, S) \<longrightarrow> set (accepted ns st) \<inter> S = {})"
proof (induction ns arbitrary: st)
  case (Cons n ns)
  obtain ok st' where sp: "spec_accept n st = (ok, st')" by force
  obtain m' S' where st': "st' = Some (m', S')" using sp by (cases st) (auto split: if_splits)
  have "\<forall>x \<in> S'. x \<le> m'" using sp Cons.prems by (cases st) (force simp: st' split: if_splits)+
  with Cons.IH [of st'] have IH: "distinct (accepted ns st')" "set (accepted ns st') \<inter> S' = {}"
    by (auto simp: st')
  have eq: "accepted (n # ns) st = (if ok then n # accepted ns st' else accepted ns st')"
    by (simp add: accepted_def sp)
  have ins: "ok \<Longrightarrow> n \<in> S'" and sub: "\<And>m S. st = Some (m, S) \<Longrightarrow> S \<subseteq> S'"
    and new: "\<And>m S. st = Some (m, S) \<Longrightarrow> ok \<Longrightarrow> n \<notin> S"
    using sp Cons.prems by (cases st; force simp: st' split: if_splits)+
  from IH ins sub new show ?case unfolding eq by (auto; blast)
qed (simp add: accepted_def)

text \<open>
  Property C8. The receive window never accepts a reliable frame twice. As long as every
  frame is numbered within half of the 32-bit number space of the newest one accepted, the window, which keeps one
  number and 64 bits, answers for every sequence of arrivals exactly like the specification that
  remembers every accepted number: newer frames are accepted, of the last 64 those not
  yet accepted, older ones never; and the accepted numbers are distinct, across wrap-around.
\<close>

theorem receive_window_refines:
  assumes "near_newest ns None"
  shows "window_run (map word_of_int ns) zero_window = spec_run ns None \<and> distinct (accepted ns None)"
  using window_run_refines [OF _ assms, of zero_window] accepted_fresh [of None ns] by (simp add: zero_window_def)

theorem receive_window_refines_witness:
  "window_run (map word_of_int [2 ^ 32 - 2, 2 ^ 32 + 1, 2 ^ 32 - 2, 2 ^ 32, 2 ^ 32 - 90, 2 ^ 32]) zero_window =
     [True, True, False, True, False, False]"
proof -
  have "near_newest [2 ^ 32 - 2, 2 ^ 32 + 1, 2 ^ 32 - 2, 2 ^ 32, 2 ^ 32 - 90, 2 ^ 32] None" by simp
  from receive_window_refines [OF this] show ?thesis by simp
qed


subsection \<open>Frames are split as they were joined\<close>

text \<open>A frame the transport puts into a payload: an acknowledgement, or a header that announces its body.\<close>

definition transport_frame :: "bytes \<Rightarrow> bool" where
  "transport_frame f \<longleftrightarrow> f \<noteq> [] \<and> frame_size f = Some (length f)"

lemma slice_append_left [simp]: "j \<le> length xs \<Longrightarrow> slice i j (xs @ ys) = slice i j xs"
  by (simp add: slice_def)

lemma slice_take [simp]: "j \<le> n \<Longrightarrow> slice i j (take n xs) = slice i j xs"
  by (auto simp: slice_def drop_take min_def)

lemma frame_size_append: "transport_frame f \<Longrightarrow> frame_size (f @ rest) = Some (length f)"
  by (auto simp: transport_frame_def frame_size_def nth_append not_less simp del: orderUint16.simps split: if_splits)

lemma split_frames_concat:
  "\<forall>f \<in> set fs. transport_frame f \<Longrightarrow> split_frames acc (concat fs) = Some (acc @ fs)"
proof (induction fs arbitrary: acc)
  case Nil
  show ?case by (simp add: split_frames.simps)
next
  case (Cons f fs)
  then have f: "transport_frame f" "f \<noteq> []" by (auto simp: transport_frame_def)
  show ?case
    using Cons f by (subst split_frames.simps) (simp add: frame_size_append)
qed

lemma split_frames_sound:
  "split_frames acc payload = Some fs \<Longrightarrow>
     \<exists>gs. fs = acc @ gs \<and> concat gs = payload \<and> (\<forall>g \<in> set gs. transport_frame g)"
proof (induction acc payload rule: split_frames.induct)
  case (1 frames payload)
  show ?case
  proof (cases "payload = []")
    case True
    with 1(2) show ?thesis by (auto simp: split_frames.simps)
  next
    case False
    with 1(2) obtain n where n: "frame_size payload = Some n" "0 < n" "n \<le> length payload"
      and rec: "split_frames (frames @ [take n payload]) (drop n payload) = Some fs"
      by (subst (asm) split_frames.simps) (auto split: option.splits if_splits)
    from 1(1) [OF False n(1) _ rec] n(2,3) obtain gs
      where gs: "fs = frames @ take n payload # gs" "concat gs = drop n payload" "\<forall>g \<in> set gs. transport_frame g"
      by auto
    have "transport_frame (take n payload)"
      using n False
      by (auto simp: transport_frame_def frame_size_def simp del: orderUint16.simps split: if_splits)
    with gs show ?thesis by (intro exI [of _ "take n payload # gs"]) simp
  qed
qed

lemma frame_header_simps [simp]:
  "length (frame_header t s n p f) = 9" "frame_header t s n p f ! 0 = t"
  "slice 1 5 (frame_header t s n p f) = put32 s" "slice 5 7 (frame_header t s n p f) = put16 n"
  "frame_header t s n p f ! 7 = p" "frame_header t s n p f ! 8 = f" "frame_header t s n p f \<noteq> []"
  by (simp_all add: frame_header_def slice_def nth_append storeU32LE_def)

lemma transport_frame_header:
  assumes "t = 1 \<or> t = 2" and "unat n = length body"
  shows "transport_frame (frame_header t s n p f @ body)"
  using assms by (auto simp: transport_frame_def frame_size_def nth_append simp del: orderUint16.simps putUint16.simps)


lemma records_size_exact: "records_size n rs = Some m \<Longrightarrow> m = n + sum_list (map (\<lambda>r. 2 + length r) rs) \<and> (n \<le> 65535 \<longrightarrow> m \<le> 65535)"
proof (induction rs arbitrary: n)
  case (Cons r rs)
  from Cons.prems have "int n + 2 + int (length r) \<le> 65535" "records_size (n + 2 + length r) rs = Some m"
    by (auto split: if_splits)
  with Cons.IH [OF this(2)] show ?case by simp
qed simp

lemma append_records:
  "fold (\<lambda>record payload. payload @ put16 (of_nat (length record)) @ record) rs p =
     p @ concat (map (\<lambda>r. put16 (of_nat (length r)) @ r) rs)"
  by (induction rs arbitrary: p) simp_all

lemma build_reliable_frame:
  assumes "buildPartyReliablePacketChecked s p f records = Some pkt"
  shows "transport_frame pkt" "drop 9 pkt = concat (map (\<lambda>r. put16 (of_nat (length r)) @ r) records)"
proof -
  obtain m where m: "records_size 0 records = Some m"
    and pkt: "pkt = frame_header 1 s (of_nat m) p f @ concat (map (\<lambda>r. put16 (of_nat (length r)) @ r) records)"
    using assms by (auto simp: buildPartyReliablePacketChecked_def append_records simp del: putUint16.simps split: option.splits)
  have "m = length (concat (map (\<lambda>r. put16 (of_nat (length r)) @ r) records))" "m < 65536"
    using records_size_exact [OF m] by (simp_all add: length_concat comp_def del: putUint16.simps)
  then show "transport_frame pkt" unfolding pkt by (intro transport_frame_header) (simp_all add: unat_of_nat_u16)
  show "drop 9 pkt = concat (map (\<lambda>r. put16 (of_nat (length r)) @ r) records)" by (simp add: pkt)
qed

lemma build_unreliable_frame:
  "buildPartyUnreliablePacketChecked s p f body = Some pkt \<Longrightarrow> transport_frame pkt \<and> drop 9 pkt = body"
  by (auto simp: buildPartyUnreliablePacketChecked_def unat_of_nat_u16 intro!: transport_frame_header split: if_splits)

lemma ack_frame: "transport_frame (buildPartyTQOSAck p s)"
  by (simp add: transport_frame_def frame_size_def buildPartyTQOSAck_def)

subsection \<open>A handshake packet is parsed back\<close>

lemma RotateLeft8_rotl: "RotateLeft8 x k = word_rotl (nat (k mod 8)) x"
proof (rule bit_word_eqI)
  fix i assume "i < LENGTH(8)"
  then have i: "i < 8" by simp
  define m where "m = nat (k mod 8)"
  have m: "m < 8" by (simp add: m_def nat_less_iff)
  have "(i + (8 - m)) mod 8 = (if i < m then i + (8 - m) else i - m)"
    using i m by (auto simp: mod_if)
  then have "bit (word_rotl m x) i = bit x (if i < m then i + (8 - m) else i - m)"
    using i m by (simp add: bit_word_rotl_iff)
  moreover have "\<not> bit x (8 - m + i)" if "\<not> i < m"
    using that m bit_imp_le_length [of x "8 - m + i"] by auto
  ultimately show "bit (RotateLeft8 x k) i \<longleftrightarrow> bit (word_rotl (nat (k mod 8)) x) i"
    using i m by (simp add: RotateLeft8_def Let_def bit_or_iff bit_push_bit_iff bit_drop_bit_eq add.commute flip: m_def)
qed

lemma RotateLeft8_back [simp]: "RotateLeft8 (RotateLeft8 x k) (- k) = x"
proof -
  define m where "m = nat (k mod 8)"
  have m: "m < 8" by (simp add: m_def nat_less_iff)
  have "int (nat ((- k) mod 8)) = (- int m) mod 8"
    by (simp add: m_def mod_minus_eq)
  then have n: "nat ((- k) mod 8) = (8 - m) mod 8" using m by (auto simp: mod_if zmod_zminus1_eq_if split: if_splits)
  have "word_rotl ((8 - m) mod 8) y = word_rotr m y" for y :: u8
    by (rule bit_word_eqI) (use m in \<open>cases "m = 0"; simp add: bit_word_rotl_iff bit_word_rotr_iff\<close>)
  then show ?thesis by (simp add: RotateLeft8_rotl n flip: m_def)
qed

lemma partyTQOSCRCTable_dnf: "partyTQOSCRCTable = buildDNFCRCTable"
proof -
  have "(\<lambda>c. if c AND 1 = 1 then drop_bit 1 c XOR 0x4db89129 else drop_bit 1 c) = crc_step"
    by (auto simp: crc_step_def fun_eq_iff dnfCRCPolynomial_def and_one_eq)
  then show ?thesis by (simp only: partyTQOSCRCTable_def crc32_MakeTable_def buildDNFCRCTable_def)
qed

text \<open>The library's checksum over the transport's table is the checksum of the packet cipher.\<close>

lemma crc32_Checksum_dnf: "crc32_Checksum data partyTQOSCRCTable = CRC32 0 data"
proof -
  have "unat (ucast c XOR v :: u8) = unat ((c XOR ucast v) AND 0xFF)" for c :: u32 and v :: u8
  proof -
    have ff: "(0xFF :: u32) = mask 8" by (simp add: mask_eq_exp_minus_1)
    have "ucast (ucast c XOR v :: u8) = (c XOR ucast v) AND (0xFF :: u32)"
      unfolding ff by (rule bit_word_eqI) (auto simp: bit_simps byte_high not_less dest: bit_imp_le_length)
    from arg_cong [OF this, of unat] have "take_bit 32 (unat (ucast c XOR v :: u8)) = unat ((c XOR ucast v) AND 0xFF)"
      by (simp add: unsigned_ucast_eq)
    moreover have "unat (ucast c XOR v :: u8) < 2 ^ 8" using unsigned_less [of "ucast c XOR v :: u8"] by simp
    ultimately show ?thesis by (simp add: take_bit_nat_eq_self)
  qed
  then show ?thesis by (simp add: crc32_Checksum_def CRC32_def partyTQOSCRCTable_dnf xor.commute)
qed


lemma partyPayloadChecksum_inj:
  assumes "partyPayloadChecksum p = partyPayloadChecksum q"
  shows "CRC32 0 p = CRC32 0 q"
proof -
  have undo: "(let c = partyPayloadChecksum r in c[0 := c ! 0 XOR (c ! 1 XOR c ! 2 XOR c ! 3 XOR 0x18)]) = put32 (CRC32 0 r)" for r
    by (simp add: partyPayloadChecksum_def crc32_Checksum_dnf Let_def storeU32LE_def)
  have "put32 (CRC32 0 p) = put32 (CRC32 0 q)"
    by (simp only: undo [symmetric] assms)
  then show ?thesis by (metis order_put(3))
qed

lemma xor_cancel_iff [simp]:
  fixes a b c :: "'a::len word"
  shows "a XOR b = a XOR c \<longleftrightarrow> b = c" "b XOR a = c XOR a \<longleftrightarrow> b = c"
  by (metis xor.assoc xor_self_eq xor.left_neutral, metis xor.assoc xor_self_eq xor.right_neutral)

lemma crc_two_bytes_later:
  "CRC32 0 [a, s, r] = CRC32 0 [a, t, r] \<longleftrightarrow>
     (crc_step ^^ 8) ((crc_step ^^ 8) (ucast s)) = (crc_step ^^ 8) ((crc_step ^^ 8) (ucast t))"
  by (simp add: CRC32_def crc_table_step crc_steps_xor del: funpow.simps crc_steps_shift)

lemma state_cases: "(s :: u8) \<le> 3 \<Longrightarrow> s = 0 \<or> s = 1 \<or> s = 2 \<or> s = 3"
proof -
  assume "s \<le> 3"
  then have "unat s \<le> 3" by (simp add: word_le_nat_alt)
  then have "unat s = 0 \<or> unat s = 1 \<or> unat s = 2 \<or> unat s = 3" by linarith
  then show ?thesis by (simp add: word_unat_eq_iff)
qed

lemma crc_step_8: "(crc_step ^^ 8) v =
    crc_step (crc_step (crc_step (crc_step (crc_step (crc_step (crc_step (crc_step v)))))))"
  by (simp add: eval_nat_numeral)

lemma crc_state_values:
  "(crc_step ^^ 8) 0 = 0" "(crc_step ^^ 8) 1 = 2131829514" "(crc_step ^^ 8) 2 = 1699963975" "(crc_step ^^ 8) 3 = 440551245"
  "(crc_step ^^ 8) 2131829514 = 1576174221" "(crc_step ^^ 8) 1699963975 = 546580297" "(crc_step ^^ 8) 440551245 = 2103879108"
  unfolding crc_step_8 by (simp_all add: crc_step_def dnfCRCPolynomial_def)

text \<open>The checksum tells the four handshake states apart.\<close>

lemma partyTQOSChecksum_state:
  assumes "partyTQOSChecksum a s r = partyTQOSChecksum a t r" "s \<le> 3" "t \<le> 3"
  shows "s = t"
proof -
  have "(crc_step ^^ 8) ((crc_step ^^ 8) (ucast s)) = (crc_step ^^ 8) ((crc_step ^^ 8) (ucast t))"
    using partyPayloadChecksum_inj [OF assms(1) [unfolded partyTQOSChecksum_def]] by (simp only: crc_two_bytes_later)
  then show ?thesis
    using state_cases [OF assms(2)] state_cases [OF assms(3)] by (auto simp: crc_state_values simp del: funpow.simps)
qed


definition tqos_plain_body :: "u8 \<Rightarrow> u8 \<Rightarrow> u8 \<Rightarrow> partyTQOSCodec \<Rightarrow> bytes" where
  "tqos_plain_body senderSlot state route codec =
     [0, 0, 0] @ partyTQOSChecksum senderSlot state route @
     map (\<lambda>v. RotateLeft8 (v XOR tc_key codec) (uint (tc_rotate codec))) [senderSlot, state, route]"

lemma partyTQOSChecksum_length [simp]: "length (partyTQOSChecksum a s r) = 4"
  by (simp add: partyTQOSChecksum_def partyPayloadChecksum_def Let_def)

lemma tqos_plain_body_simps [simp]:
  "length (tqos_plain_body a s r c) = 10" "slice 3 7 (tqos_plain_body a s r c) = partyTQOSChecksum a s r"
  "tqos_plain_body a s r c ! 0 = 0" "tqos_plain_body a s r c ! 1 = 0" "tqos_plain_body a s r c ! 2 = 0"
  "tqos_plain_body a s r c ! 7 = RotateLeft8 (a XOR tc_key c) (uint (tc_rotate c))"
  "tqos_plain_body a s r c ! 8 = RotateLeft8 (s XOR tc_key c) (uint (tc_rotate c))"
  "tqos_plain_body a s r c ! 9 = RotateLeft8 (r XOR tc_key c) (uint (tc_rotate c))"
  by (simp_all add: tqos_plain_body_def slice_def nth_append)

lemma decode_own_codec:
  "s \<le> 3 \<Longrightarrow> decodePartyTQOSBodyWithCodec (tqos_plain_body a s r c) a r c = Some s"
  by (simp add: decodePartyTQOSBodyWithCodec_def not_less)

text \<open>Whatever codec decodes a body, the state it finds is the sender's: the checksum fixes it.\<close>

lemma decode_any_codec:
  assumes "decodePartyTQOSBodyWithCodec (tqos_plain_body a s r c) a r c' = Some t" and "s \<le> 3"
  shows "t = s"
  using assms partyTQOSChecksum_state [of a s r t]
  by (auto simp: decodePartyTQOSBodyWithCodec_def Let_def not_less split: if_splits)

lemma search_codec_sound:
  "search_codec body a r rs = Some (t, c) \<Longrightarrow> decodePartyTQOSBodyWithCodec body a r c = Some t"
  by (induction rs) (auto simp: Let_def split: option.splits)

lemma search_codec_complete:
  assumes "i \<in> set rs"
    and "decodePartyTQOSBodyWithCodec body a r
      \<lparr>tc_key = RotateLeft8 (body ! 7) (- int i) XOR a, tc_rotate = of_nat i\<rparr> = Some t"
  shows "search_codec body a r rs \<noteq> None"
  using assms by (induction rs) (auto simp: Let_def split: option.splits)

lemma RotateLeft8_mod: "RotateLeft8 x k = RotateLeft8 x l" if "k mod 8 = l mod 8"
  using that by (simp add: RotateLeft8_def)

text \<open>A codec's rotation counts modulo eight.\<close>

lemma decode_mod_8:
  assumes "uint (tc_rotate c) mod 8 = uint (tc_rotate d) mod 8" "tc_key c = tc_key d"
  shows "decodePartyTQOSBodyWithCodec body a r c = decodePartyTQOSBodyWithCodec body a r d"
proof -
  have "(- uint (tc_rotate c)) mod 8 = (- uint (tc_rotate d)) mod 8"
    using assms(1) by (metis mod_minus_eq)
  then have "RotateLeft8 x (- uint (tc_rotate c)) = RotateLeft8 x (- uint (tc_rotate d))" for x
    by (rule RotateLeft8_mod)
  then show ?thesis using assms(2) by (simp add: decodePartyTQOSBodyWithCodec_def)
qed

lemma search_finds_sender:
  assumes "s \<le> 3"
  shows "\<exists>c'. search_codec (tqos_plain_body a s r c) a r [0..<8] = Some (s, c')"
proof -
  define i where "i = unat (tc_rotate c) mod 8"
  let ?body = "tqos_plain_body a s r c"
  let ?c = "\<lparr>tc_key = RotateLeft8 (?body ! 7) (- int i) XOR a, tc_rotate = of_nat i\<rparr> :: partyTQOSCodec"
  have i: "i \<in> set [0..<8]" "i < 8" by (simp_all add: i_def)
  have int_i: "int i = uint (tc_rotate c) mod 8" by (simp add: i_def zmod_int)
  have ui: "uint (of_nat i :: u8) = int i" using i by (simp add: unsigned_of_nat take_bit_nat_eq_self)
  have "(- int i) mod 8 = (- uint (tc_rotate c)) mod 8" unfolding int_i by (metis mod_minus_eq mod_mod_trivial)
  then have "RotateLeft8 (?body ! 7) (- int i) = RotateLeft8 (?body ! 7) (- uint (tc_rotate c))" by (rule RotateLeft8_mod)
  then have k: "tc_key ?c = tc_key c" by (simp add: xor.commute)
  have "decodePartyTQOSBodyWithCodec ?body a r ?c = Some s"
    using decode_mod_8 [of ?c c ?body a r] k decode_own_codec [OF assms] by (simp add: ui int_i)
  from search_codec_complete [OF i(1) this] obtain t c' where f: "search_codec ?body a r [0..<8] = Some (t, c')"
    by auto
  from decode_any_codec [OF search_codec_sound [OF f] assms] f show ?thesis by auto
qed

lemma decode_body_sender:
  assumes "s \<le> 3"
  shows "\<exists>c'. decodePartyTQOSBody (tqos_plain_body a s r c) a r preferred = Some (s, c') \<and> (preferred = Some c \<longrightarrow> c' = c)"
proof (cases preferred)
  case None
  with search_finds_sender [OF assms] show ?thesis by (simp add: decodePartyTQOSBody_def partyTQOSBodySize_def)
next
  case (Some d)
  show ?thesis
  proof (cases "decodePartyTQOSBodyWithCodec (tqos_plain_body a s r c) a r d")
    case None
    then have "d \<noteq> c" using decode_own_codec [OF assms] by auto
    with search_finds_sender [OF assms] Some None show ?thesis
      by (simp add: decodePartyTQOSBody_def partyTQOSBodySize_def)
  next
    case (Some t)
    with decode_any_codec [OF this assms] \<open>preferred = Some d\<close> show ?thesis
      by (simp add: decodePartyTQOSBody_def partyTQOSBodySize_def)
  qed
qed

lemma build_tqos_frame:
  "buildPartyTQOSPacket q a f s r c =
     (if s = 2 then frame_header 1 q 12 a f @ put16 10 @ tqos_plain_body a s r c
      else frame_header 2 q 10 a f @ tqos_plain_body a s r c)"
  by (simp add: buildPartyTQOSPacket_def tqos_plain_body_def Let_def partyTQOSBodySize_def)

lemma tqos_packet_frame: "transport_frame (buildPartyTQOSPacket q a f s r c)"
  unfolding build_tqos_frame by (auto intro!: transport_frame_header simp del: putUint16.simps)

lemma tqos_body_built: "tqos_body (buildPartyTQOSPacket q a f s r c) = Some (tqos_plain_body a s r c)"
proof (cases "s = 2")
  case True
  have "slice 0 2 (put16 10 @ tqos_plain_body a s r c) = put16 10" by (simp add: slice_def)
  moreover have "slice 2 12 (put16 10 @ tqos_plain_body a s r c) = tqos_plain_body a s r c" by (simp add: slice_def)
  ultimately show ?thesis
    using True by (simp add: tqos_body_def build_tqos_frame nth_append Let_def partyTQOSBodySize_def del: putUint16.simps orderUint16.simps)
qed (simp add: tqos_body_def build_tqos_frame nth_append Let_def partyTQOSBodySize_def)

text \<open>
  Property C17. Handshake packets survive the wire. A packet built for a state, with any codec (key and
  rotation), is parsed back with its type, sequence number, slot, flags, route and state, whatever codec the
  receiver prefers or guesses; a receiver that prefers the sender's codec keeps it.
\<close>

theorem tqos_round_trip:
  assumes "state \<le> 3"
  shows "\<exists>c. parsePartyTQOSPacketWithCodec (buildPartyTQOSPacket sequence senderSlot flags state route codec) route preferred =
      Some \<lparr>tp_typ = (if state = 2 then 1 else 2), tp_sequence = sequence, tp_senderSlot = senderSlot, tp_flags = flags,
        tp_state = state, tp_route = route, tp_codec = c\<rparr> \<and> (preferred = Some codec \<longrightarrow> c = codec)"
proof -
  define p where "p = buildPartyTQOSPacket sequence senderSlot flags state route codec"
  define t where "t = (if state = 2 then 1 else 2 :: u8)"
  have h: "p ! 0 = t" "slice 1 5 p = put32 sequence" "p ! 7 = senderSlot" "p ! 8 = flags" "9 \<le> length p" "t = 1 \<or> t = 2"
    "length p = 9 + unat (le16 (slice 5 7 p))"
    by (simp_all add: p_def t_def build_tqos_frame nth_append del: putUint16.simps orderUint16.simps putUint32.simps One_nat_def)
  obtain c where c: "decodePartyTQOSBody (tqos_plain_body senderSlot state route codec) senderSlot route preferred = Some (state, c)"
    "preferred = Some codec \<longrightarrow> c = codec"
    using decode_body_sender [OF assms] by blast
  have "parsePartyTQOSPacketWithCodec p route preferred =
      Some \<lparr>tp_typ = t, tp_sequence = sequence, tp_senderSlot = senderSlot, tp_flags = flags,
        tp_state = state, tp_route = route, tp_codec = c\<rparr>"
    using c(1) h(6) tqos_body_built [of sequence senderSlot flags state route codec, folded p_def]
    by (auto simp: parsePartyTQOSPacketWithCodec_def h(1-5) h(7) [symmetric] partyTQOSBodySize_def Let_def not_less
      simp del: putUint16.simps putUint32.simps orderUint16.simps orderUint32.simps One_nat_def)
  with c(2) show ?thesis unfolding p_def t_def by blast
qed

theorem tqos_round_trip_witness:
  "\<exists>c. parsePartyTQOSPacketWithCodec (buildPartyTQOSPacket 7 1 0 2 1 \<lparr>tc_key = 0x7e, tc_rotate = 3\<rparr>) 1 None =
      Some \<lparr>tp_typ = 1, tp_sequence = 7, tp_senderSlot = 1, tp_flags = 0, tp_state = 2, tp_route = 1, tp_codec = c\<rparr>"
  using tqos_round_trip [of 2 7 1 0 1 "\<lparr>tc_key = 0x7e, tc_rotate = 3\<rparr>" None] by auto

text \<open>
  Frames are split as they were joined: a payload is split into frames exactly when it is the concatenation
  of one or more well-formed frames, and these are the frames returned; and everything the transport builds
  (acknowledgements, handshake packets, reliable and unreliable packets) is such a frame that keeps its content.
\<close>

theorem split_frames_exact:
  "(splitPartyTransportFrames payload = Some fs \<longleftrightarrow> fs \<noteq> [] \<and> concat fs = payload \<and> (\<forall>f \<in> set fs. transport_frame f)) \<and>
   transport_frame (buildPartyTQOSAck p s) \<and> transport_frame (buildPartyTQOSPacket q a fl st r c) \<and>
   (buildPartyUnreliablePacketChecked s p fl body = Some pkt \<longrightarrow> transport_frame pkt \<and> drop 9 pkt = body) \<and>
   (buildPartyReliablePacketChecked s p fl records = Some rel \<longrightarrow>
      transport_frame rel \<and> drop 9 rel = concat (map (\<lambda>r. put16 (of_nat (length r)) @ r) records))"
proof -
  have "splitPartyTransportFrames payload = Some fs \<longleftrightarrow> fs \<noteq> [] \<and> concat fs = payload \<and> (\<forall>f \<in> set fs. transport_frame f)"
    using split_frames_concat [of fs "[]"] split_frames_sound [of "[]" payload]
    by (auto simp: splitPartyTransportFrames_def split: option.splits if_splits)
  then show ?thesis
    using ack_frame tqos_packet_frame build_unreliable_frame [of s p fl body] build_reliable_frame [of s p fl records rel]
    by (intro conjI impI) (simp_all only:)
qed

theorem split_frames_exact_witness:
  "splitPartyTransportFrames ([0, 1, 5, 0, 0, 0, 0, 0] @ [2, 9, 0, 0, 0, 1, 0, 3, 0, 42]) =
     Some [[0, 1, 5, 0, 0, 0, 0, 0], [2, 9, 0, 0, 0, 1, 0, 3, 0, 42]]"
proof -
  have "\<forall>f \<in> set [[0, 1, 5, 0, 0, 0, 0, 0], [2, 9, 0, 0, 0, 1, 0, 3, 0, 42]]. transport_frame f"
    by (simp add: transport_frame_def frame_size_def slice_def)
  with split_frames_exact [of "[0, 1, 5, 0, 0, 0, 0, 0] @ [2, 9, 0, 0, 0, 1, 0, 3, 0, 42]"
    "[[0, 1, 5, 0, 0, 0, 0, 0], [2, 9, 0, 0, 0, 1, 0, 3, 0, 42]]"] show ?thesis by simp
qed

end
