(* ===== verification/Packet_Stream.thy ===== *)
theory Packet_Stream
  imports Party_Codec
begin

section \<open>Reassembling packets from the game connection\<close>

text \<open>
  \<open>protocol/dnf/robot_session.go\<close>, the receiving half: \<open>onRecvDataFrom\<close> appends what the socket
  delivers to a buffer that grows by doubling, cuts complete packets off its front, hands each to
  \<open>parsePacket\<close>, moves the rest to the front and shrinks the buffer. \<open>RobotVo\<close> is split in two: a
  \<open>session\<close> holds the receive buffer and the robot itself, which is any extension of the record \<open>link\<close>
  (state and connection). No packet handler mentions the buffer, so a handler is a function on the robot.
  What the loop relies on of the handler is the locale \<open>packet_handler\<close>. The result \<open>None\<close> stands for
  a call that does not return normally (a slice out of range, or a loop that never ends); the lemmas
  show that this never happens, that the packets handled do not depend on how the stream was cut
  into reads, and that the buffer stays bounded.
\<close>

subsection \<open>State\<close>

datatype ClientState =
  StateStop | StateInit | StateLogin | StateRun | StateClean | StateWrong | StateSelect

type_synonym conn = nat

text \<open>\<open>closedConns\<close> are the connections \<open>Close\<close> was called on.\<close>

record link =
  rv_State :: ClientState
  rv_Conn :: "conn option"
  closedConns :: "conn list"

record 'a session =
  rv :: "'a link_scheme"
  recvBuffer :: bytes
  recvSize :: int
  recvMaxSize :: int
  minBufferSize :: int

definition closeConn :: "'a link_scheme \<Rightarrow> 'a link_scheme" where
  "closeConn r = (case rv_Conn r of None \<Rightarrow> r | Some c \<Rightarrow> r\<lparr>closedConns := closedConns r @ [c], rv_Conn := None\<rparr>)"

subsection \<open>The buffer\<close>

definition maxPacketSize :: u32 where "maxPacketSize = 1024 * 1024"

text \<open>
  \<open>for r.recvMaxSize-r.recvSize < len(data) { r.recvMaxSize *= 2 }\<close>: doubling a size that is not
  positive never reaches the goal.
\<close>

function grow_size :: "int \<Rightarrow> int \<Rightarrow> int option" where
  "grow_size maxSize needed =
     (if needed \<le> maxSize then Some maxSize else if maxSize \<le> 0 then None else grow_size (maxSize * 2) needed)"
  by auto
termination by (relation "measure (\<lambda>(m, n). nat (n - m))") auto

declare grow_size.simps [simp del]

text \<open>\<open>for r.recvSize < newSize/4 && newSize > minBufferSize { newSize /= 2 }\<close>; the minimum is positive.\<close>

function shrink_size :: "int \<Rightarrow> int \<Rightarrow> int \<Rightarrow> int" where
  "shrink_size rsize minSize newSize =
     (if rsize < go_div newSize 4 \<and> newSize > minSize \<and> newSize > 0 then shrink_size rsize minSize (go_div newSize 2) else newSize)"
  by auto
termination by (relation "measure (\<lambda>(s, m, n). nat n)") auto

declare shrink_size.simps [simp del]

text \<open>\<open>copy(buf[off:], src)\<close>, which stops at the end of the buffer.\<close>

definition copy_into :: "nat \<Rightarrow> bytes \<Rightarrow> bytes \<Rightarrow> bytes" where
  "copy_into off src buf = take (length buf) (copy_at off src buf)"

definition resized :: "int \<Rightarrow> 'a session \<Rightarrow> 'a session option" where
  "resized newSize r =
     (if recvSize r < 0 \<or> recvSize r > int (length (recvBuffer r)) then None
      else Some (r\<lparr>recvBuffer := copy_into 0 (take (nat (recvSize r)) (recvBuffer r)) (replicate (nat newSize) 0),
                   recvMaxSize := newSize\<rparr>))"

definition append_data :: "bytes \<Rightarrow> 'a session \<Rightarrow> 'a session option" where
  "append_data data r =
     (case (if recvMaxSize r - recvSize r < int (length data)
            then (case grow_size (recvMaxSize r) (recvSize r + int (length data)) of
                    None \<Rightarrow> None
                  | Some m \<Rightarrow> resized m r)
            else Some r) of
        None \<Rightarrow> None
      | Some r \<Rightarrow>
          if recvSize r < 0 \<or> recvSize r > int (length (recvBuffer r)) then None
          else Some (r\<lparr>recvBuffer := copy_into (nat (recvSize r)) data (recvBuffer r), recvSize := recvSize r + int (length data)\<rparr>))"

text \<open>
  The packet loop, from \<open>consumed\<close> on. It reads the fields of the robot again in every round. The flag tells the early
  return after an invalid header, which stops the robot.
\<close>

partial_function (option) parse_loop ::
    "(bytes \<Rightarrow> 'a link_scheme \<Rightarrow> 'a link_scheme) \<Rightarrow> int \<Rightarrow> 'a session \<Rightarrow> (int \<times> bool \<times> 'a session) option" where
  "parse_loop parsePacket consumed r =
     (if recvSize r - consumed < 7 then Some (consumed, False, r)
      else if consumed < 0 \<or> recvSize r > int (length (recvBuffer r)) then None
      else
        let packet = slice (nat consumed) (nat (recvSize r)) (recvBuffer r);
            packetSize = le32 (slice 3 7 packet) in
        if packetSize < 7 \<or> packetSize > maxPacketSize then Some (consumed, True, r\<lparr>rv := closeConn (rv r\<lparr>rv_State := StateStop\<rparr>)\<rparr>)
        else if length packet < unat packetSize then Some (consumed, False, r)
        else parse_loop parsePacket (consumed + int (unat packetSize)) (r\<lparr>rv := parsePacket (take (unat packetSize) packet) (rv r)\<rparr>))"

definition compact :: "int \<Rightarrow> 'a session \<Rightarrow> 'a session option" where
  "compact consumed r =
     (if consumed > 0 then
        (if consumed > recvSize r \<or> recvSize r > int (length (recvBuffer r)) then None
         else Some (r\<lparr>recvBuffer := copy_into 0 (slice (nat consumed) (nat (recvSize r)) (recvBuffer r)) (recvBuffer r),
                      recvSize := recvSize r - consumed\<rparr>))
      else Some r)"

definition shrink :: "'a session \<Rightarrow> 'a session option" where
  "shrink r =
     (let minSize = if minBufferSize r \<le> 0 then 4096 else minBufferSize r in
      if recvMaxSize r > minSize \<and> recvSize r < go_div (recvMaxSize r) 4 then
        let newSize = shrink_size (recvSize r) minSize (recvMaxSize r);
            newSize = if newSize < minSize then minSize else newSize in
        if newSize \<noteq> recvMaxSize r then resized newSize r else Some r
      else Some r)"

definition onRecvDataFrom ::
    "(bytes \<Rightarrow> 'a link_scheme \<Rightarrow> 'a link_scheme) \<Rightarrow> conn option \<Rightarrow> bytes \<Rightarrow> 'a session \<Rightarrow> 'a session option" where
  "onRecvDataFrom parsePacket conn data r =
     (if rv_State (rv r) = StateStop \<or> length data < 1 \<or> (conn \<noteq> None \<and> rv_Conn (rv r) \<noteq> conn) then Some r
      else case append_data data r of
        None \<Rightarrow> None
      | Some r \<Rightarrow>
          (case parse_loop parsePacket 0 r of
             None \<Rightarrow> None
           | Some (consumed, invalid, r) \<Rightarrow>
               if invalid then Some r
               else (case compact consumed r of None \<Rightarrow> None | Some r \<Rightarrow> shrink r)))"

definition onRecvData ::
    "(bytes \<Rightarrow> 'a link_scheme \<Rightarrow> 'a link_scheme) \<Rightarrow> bytes \<Rightarrow> 'a session \<Rightarrow> 'a session option" where
  "onRecvData parsePacket data r = onRecvDataFrom parsePacket (rv_Conn (rv r)) data r"


subsection \<open>What the loop computes\<close>

text \<open>The packets at the front of a stream, and what is left: \<open>None\<close> when an invalid header follows them.\<close>

function cut_packets :: "bytes \<Rightarrow> bytes list \<times> bytes option" where
  "cut_packets s =
     (if length s < 7 then ([], Some s)
      else
        let n = le32 (slice 3 7 s) in
        if n < 7 \<or> n > maxPacketSize then ([], None)
        else if length s < unat n then ([], Some s)
        else let (ps, e) = cut_packets (drop (unat n) s) in (take (unat n) s # ps, e))"
  by auto
termination
proof (relation "measure length")
  fix s :: bytes and n :: u32
  assume "\<not> length s < 7" "\<not> (n < 7 \<or> maxPacketSize < n)"
  then have "7 \<le> unat n" by (simp add: word_le_nat_alt not_less)
  then show "(drop (unat n) s, s) \<in> measure length" using \<open>\<not> length s < 7\<close> by simp
qed simp

declare cut_packets.simps [simp del]

text \<open>The four ways a round of the loop can go.\<close>

lemma cut_short: "length s < 7 \<Longrightarrow> cut_packets s = ([], Some s)"
  by (simp add: cut_packets.simps)

lemma cut_invalid: "7 \<le> length s \<Longrightarrow> le32 (slice 3 7 s) < 7 \<or> le32 (slice 3 7 s) > maxPacketSize \<Longrightarrow> cut_packets s = ([], None)"
  by (subst cut_packets.simps) (auto simp: Let_def not_less simp del: orderUint32.simps)

lemma cut_partial:
  "7 \<le> length s \<Longrightarrow> \<not> (le32 (slice 3 7 s) < 7 \<or> le32 (slice 3 7 s) > maxPacketSize) \<Longrightarrow> length s < unat (le32 (slice 3 7 s)) \<Longrightarrow>
   cut_packets s = ([], Some s)"
  by (subst cut_packets.simps) (auto simp: Let_def not_less simp del: orderUint32.simps)

lemma cut_packet:
  "7 \<le> length s \<Longrightarrow> \<not> (le32 (slice 3 7 s) < 7 \<or> le32 (slice 3 7 s) > maxPacketSize) \<Longrightarrow> unat (le32 (slice 3 7 s)) \<le> length s \<Longrightarrow>
   cut_packets (drop (unat (le32 (slice 3 7 s))) s) = (qs, e) \<Longrightarrow>
   cut_packets s = (take (unat (le32 (slice 3 7 s))) s # qs, e)"
  by (subst cut_packets.simps) (auto simp: Let_def not_less simp del: orderUint32.simps)

text \<open>A session whose buffer fields agree, and the bytes waiting in it.\<close>

definition rx_ok :: "'a session \<Rightarrow> bool" where
  "rx_ok r \<longleftrightarrow> 0 \<le> recvSize r \<and> recvSize r \<le> recvMaxSize r \<and> recvMaxSize r = int (length (recvBuffer r)) \<and> 0 < recvMaxSize r"

definition pending :: "'a session \<Rightarrow> bytes" where
  "pending r = take (nat (recvSize r)) (recvBuffer r)"

lemma copy_into_length [simp]: "off \<le> length buf \<Longrightarrow> length (copy_into off src buf) = length buf"
  by (auto simp: copy_into_def copy_at_def)

lemma grow_size_reaches:
  "0 < m \<Longrightarrow> \<exists>m'. grow_size m n = Some m' \<and> n \<le> m' \<and> m \<le> m'"
proof (induction m n rule: grow_size.induct)
  case (1 m n)
  show ?case
  proof (cases "n \<le> m")
    case False
    with 1 obtain m' where "grow_size (m * 2) n = Some m'" "n \<le> m'" "m * 2 \<le> m'" by auto
    with False 1(2) show ?thesis by (subst grow_size.simps) auto
  qed (simp add: grow_size.simps [of m n])
qed

lemma resized_ok:
  assumes "rx_ok r" "recvSize r \<le> n" "0 < n"
  shows "\<exists>r'. resized n r = Some r' \<and> rx_ok r' \<and> pending r' = pending r \<and> recvSize r' = recvSize r \<and> recvMaxSize r' = n \<and>
    rv r' = rv r \<and> minBufferSize r' = minBufferSize r"
  using assms by (auto simp: resized_def rx_ok_def pending_def copy_into_def copy_at_def)

lemma append_data_ok:
  assumes ok: "rx_ok r"
  shows "\<exists>r'. append_data data r = Some r' \<and> rx_ok r' \<and> pending r' = pending r @ data \<and> rv r' = rv r \<and> minBufferSize r' = minBufferSize r"
proof -
  have fits: "\<exists>r'. (if recvSize r < 0 \<or> recvSize r > int (length (recvBuffer r)) then None
          else Some (r\<lparr>recvBuffer := copy_into (nat (recvSize r)) data (recvBuffer r), recvSize := recvSize r + int (length data)\<rparr>)) = Some r' \<and>
      rx_ok r' \<and> pending r' = pending r @ data \<and> rv r' = rv r \<and> minBufferSize r' = minBufferSize r"
    if "rx_ok r" "recvSize r + int (length data) \<le> recvMaxSize r" for r :: "'a session"
    using that by (auto simp: rx_ok_def pending_def copy_into_def copy_at_def nat_add_distrib)
  show ?thesis
  proof (cases "recvMaxSize r - recvSize r < int (length data)")
    case False
    then show ?thesis using fits [OF ok] by (simp add: append_data_def)
  next
    case True
    from ok have pos: "0 < recvMaxSize r" and sz: "0 \<le> recvSize r" by (auto simp: rx_ok_def)
    from grow_size_reaches [OF pos, of "recvSize r + int (length data)"] obtain m
      where m: "grow_size (recvMaxSize r) (recvSize r + int (length data)) = Some m" "recvSize r + int (length data) \<le> m" "recvMaxSize r \<le> m"
      by auto
    from resized_ok [OF ok, of m] m pos obtain r1
      where r1: "resized m r = Some r1" "rx_ok r1" "pending r1 = pending r" "recvSize r1 = recvSize r" "recvMaxSize r1 = m" "rv r1 = rv r" "minBufferSize r1 = minBufferSize r"
      by auto
    from fits [of r1] r1 m True show ?thesis by (simp add: append_data_def)
  qed
qed

lemma shrink_size_bounds:
  assumes "0 \<le> s" "0 < mn" "s \<le> n" "0 < n"
  shows "s \<le> shrink_size s mn n \<and> 0 < shrink_size s mn n \<and> (shrink_size s mn n \<le> mn \<or> shrink_size s mn n < 4 * s + 4)"
  using assms
proof (induction s mn n rule: shrink_size.induct)
  case (1 s mn n)
  show ?case
  proof (cases "s < go_div n 4 \<and> n > mn")
    case True
    then have d: "s < n div 4" "go_div n 2 = n div 2" using 1(5) by simp_all
    then have h: "s \<le> n div 2" "0 < n div 2" using 1(2) by linarith+
    from True 1(5) have c: "s < go_div n 4 \<and> n > mn \<and> n > 0" by simp
    from 1(1) [OF c] h 1(2,3) d(2) have "s \<le> shrink_size s mn (go_div n 2) \<and> 0 < shrink_size s mn (go_div n 2) \<and>
        (shrink_size s mn (go_div n 2) \<le> mn \<or> shrink_size s mn (go_div n 2) < 4 * s + 4)" by simp
    then show ?thesis using c by (subst (1 2 3 4) shrink_size.simps) auto
  next
    case False
    then have "n \<le> mn \<or> n div 4 \<le> s" using 1(5) by (simp, linarith)
    with False 1(4,5) show ?thesis by (subst (1 2 3 4) shrink_size.simps) auto
  qed
qed

lemma shrink_ok:
  assumes ok: "rx_ok r"
  shows "\<exists>r'. shrink r = Some r' \<and> rx_ok r' \<and> pending r' = pending r \<and> rv r' = rv r \<and> minBufferSize r' = minBufferSize r \<and> recvSize r' = recvSize r \<and>
    recvMaxSize r' \<le> max (if minBufferSize r \<le> 0 then 4096 else minBufferSize r) (4 * recvSize r + 4)"
proof -
  define mn where "mn = (if minBufferSize r \<le> 0 then 4096 else minBufferSize r)"
  have mn: "0 < mn" by (simp add: mn_def)
  have r: "0 \<le> recvSize r" "recvSize r \<le> recvMaxSize r" "0 < recvMaxSize r" using ok by (auto simp: rx_ok_def)
  show ?thesis
  proof (cases "recvMaxSize r > mn \<and> recvSize r < go_div (recvMaxSize r) 4")
    case False
    then have "shrink r = Some r" by (auto simp: shrink_def Let_def simp flip: mn_def)
    moreover have "recvMaxSize r \<le> max mn (4 * recvSize r + 4)" using False r by (simp, linarith)
    ultimately show ?thesis using ok by (auto simp: mn_def)
  next
    case True
    define n where "n = (let n = shrink_size (recvSize r) mn (recvMaxSize r) in if n < mn then mn else n)"
    have n: "recvSize r \<le> n" "0 < n" "n \<le> max mn (4 * recvSize r + 4)"
      using shrink_size_bounds [OF r(1) mn r(2,3)] mn by (auto simp: n_def Let_def)
    have "shrink r = (if n \<noteq> recvMaxSize r then resized n r else Some r)"
      using True by (simp add: shrink_def Let_def n_def flip: mn_def)
    with resized_ok [OF ok n(1,2)] n(3) ok show ?thesis by (auto simp: mn_def)
  qed
qed


lemma compact_keeps_rest:
  assumes ok: "rx_ok r" and p: "pending r = front @ rest"
  shows "\<exists>r'. compact (int (length front)) r = Some r' \<and> rx_ok r' \<and> pending r' = rest \<and> rv r' = rv r \<and> minBufferSize r' = minBufferSize r"
proof (cases "front = []")
  case True
  with assms show ?thesis by (auto simp: compact_def)
next
  case False
  define n where "n = nat (recvSize r)"
  have n: "recvSize r = int n" "n \<le> length (recvBuffer r)" using ok by (auto simp: rx_ok_def n_def)
  have len: "n = length front + length rest" using arg_cong [OF p, of length] n by (simp add: pending_def)
  have "slice (length front) n (recvBuffer r) = drop (length front) (pending r)"
    by (simp add: slice_def pending_def n drop_take)
  then have "slice (length front) n (recvBuffer r) = rest" by (simp add: p)
  then have sl: "slice (nat (int (length front))) (nat (recvSize r)) (recvBuffer r) = rest" by (simp add: n)
  have c: "compact (int (length front)) r =
      Some (r\<lparr>recvBuffer := copy_into 0 rest (recvBuffer r), recvSize := int (length rest)\<rparr>)"
    unfolding compact_def sl using False n len by simp
  show ?thesis unfolding c using ok n len by (auto simp: rx_ok_def pending_def copy_into_def copy_at_def)
qed

lemma cut_packets_concat: "cut_packets s = (ps, Some rest) \<Longrightarrow> s = concat ps @ rest"
proof (induction s arbitrary: ps rule: cut_packets.induct)
  case (1 s)
  define n where "n = le32 (slice 3 7 s)"
  consider "length s < 7" | "7 \<le> length s" "n < 7 \<or> n > maxPacketSize"
    | "7 \<le> length s" "\<not> (n < 7 \<or> n > maxPacketSize)" "length s < unat n"
    | "7 \<le> length s" "\<not> (n < 7 \<or> n > maxPacketSize)" "unat n \<le> length s" by linarith
  then show ?case
  proof cases
    case 4
    obtain qs e where q: "cut_packets (drop (unat n) s) = (qs, e)" by fastforce
    from cut_packet [of s qs e, folded n_def, OF 4 q] 1(2) have qs: "ps = take (unat n) s # qs" "e = Some rest" by auto
    have "drop (unat n) s = concat qs @ rest"
      using 1(1) [of n qs] 4 q qs(2) by (simp add: n_def not_less del: orderUint32.simps)
    then show ?thesis using qs(1) by (metis append.assoc append_take_drop_id concat.simps(2))
  qed (use 1(2) cut_short [of s] cut_invalid [of s, folded n_def] cut_partial [of s, folded n_def] in auto)
qed

text \<open>Cutting in two steps cuts the same packets.\<close>

lemma cut_rest: "cut_packets s = (ps, Some rest) \<Longrightarrow> cut_packets rest = ([], Some rest)"
proof (induction s arbitrary: ps rule: cut_packets.induct)
  case (1 s)
  define n where "n = le32 (slice 3 7 s)"
  consider "length s < 7" | "7 \<le> length s" "n < 7 \<or> n > maxPacketSize"
    | "7 \<le> length s" "\<not> (n < 7 \<or> n > maxPacketSize)" "length s < unat n"
    | "7 \<le> length s" "\<not> (n < 7 \<or> n > maxPacketSize)" "unat n \<le> length s" by linarith
  then show ?case
  proof cases
    case 4
    obtain qs e where q: "cut_packets (drop (unat n) s) = (qs, e)" by fastforce
    from cut_packet [of s qs e, folded n_def, OF 4 q] 1(2) have qs: "e = Some rest" by auto
    show ?thesis using 1(1) [of n qs] 4 q qs by (simp add: n_def not_less del: orderUint32.simps)
  qed (use 1(2) cut_short [of s] cut_invalid [of s, folded n_def] cut_partial [of s, folded n_def] in auto)
qed

lemma cut_append:
  "cut_packets s = (ps, Some rest) \<Longrightarrow> cut_packets (rest @ t) = (qs, e) \<Longrightarrow> cut_packets (s @ t) = (ps @ qs, e)"
proof (induction s arbitrary: ps rule: cut_packets.induct)
  case (1 s)
  define n where "n = le32 (slice 3 7 s)"
  consider "length s < 7" | "7 \<le> length s" "n < 7 \<or> n > maxPacketSize"
    | "7 \<le> length s" "\<not> (n < 7 \<or> n > maxPacketSize)" "length s < unat n"
    | "7 \<le> length s" "\<not> (n < 7 \<or> n > maxPacketSize)" "unat n \<le> length s" by linarith
  then show ?case
  proof cases
    case 4
    have n': "le32 (slice 3 7 (s @ t)) = n" using 4(1) by (simp add: n_def)
    obtain ps' e' where q: "cut_packets (drop (unat n) s) = (ps', e')" by fastforce
    from cut_packet [of s ps' e', folded n_def, OF 4 q] 1(2) have ps: "ps = take (unat n) s # ps'" "e' = Some rest" by auto
    have "cut_packets (drop (unat n) s @ t) = (ps' @ qs, e)"
      using 1(1) [of n ps'] 1(3) 4 q ps(2) by (simp add: n_def not_less del: orderUint32.simps)
    then have "cut_packets (drop (unat n) (s @ t)) = (ps' @ qs, e)" using 4(3) by simp
    from cut_packet [of "s @ t", unfolded n', OF _ 4(2) _ this] 4 show ?thesis by (simp add: ps(1))
  qed (use 1(2,3) cut_short [of s] cut_invalid [of s, folded n_def] cut_partial [of s, folded n_def] in auto)
qed

lemma cut_append_invalid: "cut_packets s = (ps, None) \<Longrightarrow> cut_packets (s @ t) = (ps, None)"
proof (induction s arbitrary: ps rule: cut_packets.induct)
  case (1 s)
  define n where "n = le32 (slice 3 7 s)"
  consider "length s < 7" | "7 \<le> length s" "n < 7 \<or> n > maxPacketSize"
    | "7 \<le> length s" "\<not> (n < 7 \<or> n > maxPacketSize)" "length s < unat n"
    | "7 \<le> length s" "\<not> (n < 7 \<or> n > maxPacketSize)" "unat n \<le> length s" by linarith
  then show ?case
  proof cases
    case 2
    have n': "le32 (slice 3 7 (s @ t)) = n" using 2(1) by (simp add: n_def)
    with 2 1(2) cut_invalid [of s, folded n_def] cut_invalid [of "s @ t"] show ?thesis by simp
  next
    case 4
    have n': "le32 (slice 3 7 (s @ t)) = n" using 4(1) by (simp add: n_def)
    obtain ps' e' where q: "cut_packets (drop (unat n) s) = (ps', e')" by fastforce
    from cut_packet [of s ps' e', folded n_def, OF 4 q] 1(2) have ps: "ps = take (unat n) s # ps'" "e' = None" by auto
    have "cut_packets (drop (unat n) s @ t) = (ps', None)"
      using 1(1) [of n ps'] 4 q ps(2) by (simp add: n_def not_less del: orderUint32.simps)
    then have "cut_packets (drop (unat n) (s @ t)) = (ps', None)" using 4(3) by simp
    from cut_packet [of "s @ t", unfolded n', OF _ 4(2) _ this] 4 show ?thesis by (simp add: ps(1))
  qed (use 1(2) cut_short [of s] cut_partial [of s, folded n_def] in auto)
qed

subsection \<open>The contract of the packet handler\<close>

text \<open>
  What the receive loop relies on of \<open>parsePacket\<close>: it does nothing once the robot is stopped, it leaves the
  connection alone unless it stops the robot, and then it has closed it.
\<close>

text \<open>The stop that an invalid header causes.\<close>

definition finish :: "bytes option \<Rightarrow> 'a link_scheme \<Rightarrow> 'a link_scheme" where
  "finish e r = (if e = None then closeConn (r\<lparr>rv_State := StateStop\<rparr>) else r)"

text \<open>A robot that is stopped has no connection, one that runs has the one it reads from.\<close>

definition connected :: "conn \<Rightarrow> 'a link_scheme \<Rightarrow> bool" where
  "connected c r \<longleftrightarrow> rv_Conn r = (if rv_State r = StateStop then None else Some c)"

text \<open>The buffer is no larger than four times what waits in it, or its minimum.\<close>

definition buf_ok :: "'a session \<Rightarrow> bool" where
  "buf_ok r \<longleftrightarrow> recvMaxSize r \<le> max (if minBufferSize r \<le> 0 then 4096 else minBufferSize r) (4 * int (length (pending r)) + 4)"

text \<open>A whole connection: reads arrive in any pieces.\<close>

fun feed :: "(bytes \<Rightarrow> 'a link_scheme \<Rightarrow> 'a link_scheme) \<Rightarrow> conn \<Rightarrow> bytes list \<Rightarrow> 'a session \<Rightarrow> 'a session option" where
  "feed parsePacket c [] r = Some r"
| "feed parsePacket c (data # chunks) r =
     (case onRecvDataFrom parsePacket (Some c) data r of None \<Rightarrow> None | Some r' \<Rightarrow> feed parsePacket c chunks r')"

lemma connected_finish: "connected c r \<Longrightarrow> connected c (finish e r)"
  by (auto simp: finish_def closeConn_def connected_def split: option.splits)

lemma finish_stopped: "connected c r \<Longrightarrow> rv_State r = StateStop \<Longrightarrow> finish e r = r"
  by (simp add: finish_def closeConn_def connected_def)

lemma finish_None_stops: "rv_State (finish None r) = StateStop"
  by (simp add: finish_def closeConn_def split: option.splits)

text \<open>What waits in the buffer is less than a packet.\<close>

lemma incomplete_bound: "cut_packets s = ([], Some s) \<Longrightarrow> length s < 1048576"
proof -
  assume cut: "cut_packets s = ([], Some s)"
  define n where "n = le32 (slice 3 7 s)"
  have "unat n \<le> 1048576" if "\<not> n > maxPacketSize" using that by (simp add: maxPacketSize_def word_less_nat_alt)
  moreover have "length s < 7 \<or> \<not> (n < 7 \<or> n > maxPacketSize) \<and> length s < unat n"
    using cut cut_invalid [of s, folded n_def] cut_packet [of s, folded n_def] by (cases "cut_packets (drop (unat n) s)") fastforce
  ultimately show ?thesis by auto
qed

locale packet_handler =
  fixes parsePacket :: "bytes \<Rightarrow> 'a link_scheme \<Rightarrow> 'a link_scheme"
  assumes stopped_idle: "rv_State r = StateStop \<Longrightarrow> parsePacket p r = r"
    and connection_kept: "rv_State (parsePacket p r) \<noteq> StateStop \<Longrightarrow> rv_Conn (parsePacket p r) = rv_Conn r"
    and stop_closes: "rv_State r \<noteq> StateStop \<Longrightarrow> rv_State (parsePacket p r) = StateStop \<Longrightarrow> rv_Conn (parsePacket p r) = None"
begin

lemma run_stopped: "rv_State r = StateStop \<Longrightarrow> fold parsePacket ps r = r"
  by (induction ps) (simp_all add: stopped_idle)

lemma connected_parse: "connected c r \<Longrightarrow> connected c (parsePacket p r)"
  using connection_kept [of p r] stop_closes [of r p] stopped_idle [of r p] by (auto simp: connected_def)

lemma connected_run: "connected c r \<Longrightarrow> connected c (fold parsePacket ps r)"
  by (induction ps arbitrary: r) (simp_all add: connected_parse)

lemma parse_loop_cuts:
  assumes "rx_ok r" and "0 \<le> consumed" and "consumed \<le> recvSize r"
    and "cut_packets (drop (nat consumed) (pending r)) = (ps, e)"
  shows "parse_loop parsePacket consumed r =
      Some (consumed + int (length (concat ps)), e = None, r\<lparr>rv := finish e (fold parsePacket ps (rv r))\<rparr>)"
  using assms
proof (induction "nat (recvSize r - consumed)" arbitrary: consumed r ps rule: less_induct)
  case less
  define s where "s = drop (nat consumed) (pending r)"
  have len: "int (length s) = recvSize r - consumed"
    using less.prems(1-3) by (auto simp: s_def pending_def rx_ok_def)
  have sl: "slice (nat consumed) (nat (recvSize r)) (recvBuffer r) = s"
    using less.prems(1-3) by (auto simp: s_def pending_def slice_def rx_ok_def drop_take nat_diff_distrib)
  have inb: "\<not> (consumed < 0 \<or> recvSize r > int (length (recvBuffer r)))"
    using less.prems(1,2) by (auto simp: rx_ok_def)
  define n where "n = le32 (slice 3 7 s)"
  have loop: "parse_loop parsePacket consumed r =
      (if length s < 7 then Some (consumed, False, r)
       else if n < 7 \<or> n > maxPacketSize then Some (consumed, True, r\<lparr>rv := closeConn (rv r\<lparr>rv_State := StateStop\<rparr>)\<rparr>)
       else if length s < unat n then Some (consumed, False, r)
       else parse_loop parsePacket (consumed + int (unat n)) (r\<lparr>rv := parsePacket (take (unat n) s) (rv r)\<rparr>))"
    using inb len by (subst parse_loop.simps) (simp add: Let_def sl n_def [symmetric] del: orderUint32.simps)
  have cut: "cut_packets s = (ps, e)" using less.prems(4) by (simp add: s_def)
  consider "length s < 7" | "7 \<le> length s" "n < 7 \<or> n > maxPacketSize"
    | "7 \<le> length s" "\<not> (n < 7 \<or> n > maxPacketSize)" "length s < unat n"
    | "7 \<le> length s" "\<not> (n < 7 \<or> n > maxPacketSize)" "unat n \<le> length s" by linarith
  then show ?case
  proof cases
    case 1
    with cut cut_short [of s] show ?thesis by (auto simp: loop finish_def)
  next
    case 2
    with cut cut_invalid [of s, folded n_def] show ?thesis by (auto simp: loop finish_def)
  next
    case 3
    with cut cut_partial [of s, folded n_def] show ?thesis by (auto simp: loop finish_def)
  next
    case 4
    then have n7: "7 \<le> unat n" by (simp add: word_le_nat_alt not_less)
    obtain qs e' where q: "cut_packets (drop (unat n) s) = (qs, e')" by fastforce
    from cut_packet [of s qs e', folded n_def, OF 4 q] cut have qs: "ps = take (unat n) s # qs" "e' = e" by auto
    let ?r = "r\<lparr>rv := parsePacket (take (unat n) s) (rv r)\<rparr>" and ?c = "consumed + int (unat n)"
    have ok: "rx_ok ?r" "pending ?r = pending r" using less.prems(1) by (auto simp: rx_ok_def pending_def)
    have le: "int (unat n) \<le> int (length s)" using 4(3) by (simp only: of_nat_le_iff)
    have c: "0 \<le> ?c" "?c \<le> recvSize ?r" using less.prems(2) le len by auto
    have "drop (nat ?c) (pending r) = drop (unat n) s"
      using less.prems(2) by (simp add: s_def nat_add_distrib add.commute)
    then have d: "drop (nat ?c) (pending ?r) = drop (unat n) s" by (simp only: ok(2))
    have "0 < int (unat n)" using n7 by linarith
    then have m: "nat (recvSize ?r - ?c) < nat (recvSize r - consumed)" using c(2) by simp
    from less.hyps [OF m ok(1) c] d q qs(2) have "parse_loop parsePacket ?c ?r =
        Some (?c + int (length (concat qs)), e = None, ?r\<lparr>rv := finish e (fold parsePacket qs (rv ?r))\<rparr>)" by simp
    with 4 qs(1) show ?thesis by (simp add: loop)
  qed
qed

text \<open>One call: the packets completed by the new data are handled, and what is left waits.\<close>

lemma recv_step:
  assumes ok: "rx_ok r" and live: "rv_State (rv r) \<noteq> StateStop" "data \<noteq> []" "conn = None \<or> rv_Conn (rv r) = conn"
    and cut: "cut_packets (pending r @ data) = (ps, e)"
  shows "\<exists>r'. onRecvDataFrom parsePacket conn data r = Some r' \<and> rx_ok r' \<and> minBufferSize r' = minBufferSize r \<and>
    rv r' = finish e (fold parsePacket ps (rv r)) \<and>
    (\<forall>rest. e = Some rest \<longrightarrow> pending r' = rest \<and>
       recvMaxSize r' \<le> max (if minBufferSize r \<le> 0 then 4096 else minBufferSize r) (4 * int (length rest) + 4))"
proof -
  from append_data_ok [OF ok] obtain r1
    where r1: "append_data data r = Some r1" "rx_ok r1" "pending r1 = pending r @ data" "rv r1 = rv r" "minBufferSize r1 = minBufferSize r"
    by blast
  let ?f = "r1\<lparr>rv := finish e (fold parsePacket ps (rv r))\<rparr>" and ?c = "int (length (concat ps))"
  have sz: "0 \<le> recvSize r1" using r1(2) by (simp add: rx_ok_def)
  from parse_loop_cuts [OF r1(2) order.refl sz] cut r1(3,4)
  have loop: "parse_loop parsePacket 0 r1 = Some (?c, e = None, ?f)" by simp
  have okf: "rx_ok ?f" "pending ?f = pending r1" using r1(2) by (auto simp: rx_ok_def pending_def)
  have call: "onRecvDataFrom parsePacket conn data r =
      (if e = None then Some ?f else case compact ?c ?f of None \<Rightarrow> None | Some r \<Rightarrow> shrink r)"
    using live by (cases e) (auto simp: onRecvDataFrom_def r1(1) loop Suc_le_eq)
  show ?thesis
  proof (cases e)
    case None
    with okf call r1(5) show ?thesis by auto
  next
    case (Some rest)
    from cut_packets_concat [OF cut [unfolded Some]] have cc: "pending ?f = concat ps @ rest" using r1(3) okf(2) by simp
    from compact_keeps_rest [OF okf(1) cc] obtain r2
      where r2: "compact ?c ?f = Some r2" "rx_ok r2" "pending r2 = rest" "rv r2 = rv ?f" "minBufferSize r2 = minBufferSize r"
      using r1(5) by auto
    have sz2: "recvSize r2 = int (length rest)" using r2(2,3) by (auto simp: rx_ok_def pending_def)
    from shrink_ok [OF r2(2), unfolded r2(5)] obtain r3 where r3: "shrink r2 = Some r3" "rx_ok r3" "pending r3 = rest" "rv r3 = rv ?f"
        "minBufferSize r3 = minBufferSize r"
        "recvMaxSize r3 \<le> max (if minBufferSize r \<le> 0 then 4096 else minBufferSize r) (4 * int (length rest) + 4)"
      using r2 sz2 by auto
    with Some call r2(1) show ?thesis by auto
  qed
qed

lemma feed_any_pieces:
  assumes "rx_ok r" "connected c (rv r)"
    and "rv_State (rv r) \<noteq> StateStop \<longrightarrow> cut_packets (pending r) = ([], Some (pending r))"
    and "rv_State (rv r) \<noteq> StateStop \<longrightarrow> cut_packets (pending r @ concat chunks) = (ps, e)"
    and "buf_ok r"
  shows "\<exists>r'. feed parsePacket c chunks r = Some r' \<and> rx_ok r' \<and> rv r' = finish e (fold parsePacket ps (rv r)) \<and>
    minBufferSize r' = minBufferSize r \<and> (rv_State (rv r') \<noteq> StateStop \<longrightarrow> buf_ok r' \<and> e = Some (pending r'))"
  using assms
proof (induction chunks arbitrary: r ps e)
  case Nil
  show ?case
  proof (cases "rv_State (rv r) = StateStop")
    case True
    with Nil show ?thesis by (simp add: run_stopped finish_stopped [of c])
  next
    case False
    with Nil show ?thesis by (auto simp: finish_def)
  qed
next
  case (Cons data chunks)
  show ?case
  proof (cases "rv_State (rv r) = StateStop \<or> data = []")
    case True
    then have "onRecvDataFrom parsePacket (Some c) data r = Some r" by (auto simp: onRecvDataFrom_def)
    with Cons.IH [of r ps e] Cons.prems True show ?thesis by auto
  next
    case False
    then have conn: "Some c = None \<or> rv_Conn (rv r) = Some c" using Cons.prems(2) by (simp add: connected_def)
    obtain ps1 e1 where cut1: "cut_packets (pending r @ data) = (ps1, e1)" by fastforce
    from recv_step [OF Cons.prems(1) _ _ conn cut1] False obtain r1
      where r1: "onRecvDataFrom parsePacket (Some c) data r = Some r1" "rx_ok r1"
        "rv r1 = finish e1 (fold parsePacket ps1 (rv r))" "\<forall>rest. e1 = Some rest \<longrightarrow> pending r1 = rest"
        and min1: "minBufferSize r1 = minBufferSize r"
        and max1: "\<forall>rest. e1 = Some rest \<longrightarrow>
          recvMaxSize r1 \<le> max (if minBufferSize r \<le> 0 then 4096 else minBufferSize r) (4 * int (length rest) + 4)"
      by blast
    have con1: "connected c (rv r1)"
      using Cons.prems(2) r1(3) by (simp add: connected_finish connected_run)
    have total_cut: "cut_packets ((pending r @ data) @ concat chunks) = (ps, e)" using Cons.prems(4) False by simp
    show ?thesis
    proof (cases e1)
      case None
      with cut_append_invalid [of "pending r @ data" ps1 "concat chunks"] cut1 total_cut have eq: "ps = ps1" "e = None" by auto
      have st: "rv_State (rv r1) = StateStop" using r1(3) None by (simp add: finish_None_stops)
      have "feed parsePacket c chunks r1 = Some r1" using st by (induction chunks) (simp_all add: onRecvDataFrom_def)
      with st r1 None eq min1 show ?thesis by auto
    next
      case (Some rest)
      obtain qs e2 where q: "cut_packets (rest @ concat chunks) = (qs, e2)" by fastforce
      from cut_append [of "pending r @ data" ps1 rest "concat chunks" qs e2] cut1 Some q total_cut
      have eq: "ps = ps1 @ qs" "e2 = e" by auto
      have p1: "pending r1 = rest" using r1(4) Some by simp
      have "buf_ok r1" using max1 Some p1 min1 by (simp add: buf_ok_def split: if_splits)
      with Cons.IH [OF r1(2) con1, of qs e] p1 q eq(2) cut_rest [OF cut1 [unfolded Some]]
      show ?thesis using r1 Some eq(1) min1 by (auto simp: finish_def)
    qed
  qed
qed

end

end
