(* ===== verification/Robot_Codec.thy ===== *)
theory Robot_Codec
  imports Packet_Stream
begin

section \<open>The packet codec of the game protocol\<close>

text \<open>
  \<open>protocol/dnf/robot_codec.go\<close>: sealing an outgoing packet, opening an incoming one in its two
  possible forms (encrypted and plain), answering peer requests, and the parsers of the party packets.
  What the codec calls outside the repository is collected in the record \<open>lib\<close>: the block functions of
  \<open>crypto/aes\<close> and the decompression of \<open>compress/zlib\<close>. A slice expression of the source that could be out of range is
  guarded by the source's own length tests.
\<close>

subsection \<open>Libraries\<close>

text \<open>
  \<open>zlibRead n data\<close> is the result of reading at most \<open>n\<close> bytes from a \<open>zlib.NewReader\<close> over
  \<open>data\<close>, \<open>None\<close> when the reader reports an error.
\<close>

record lib =
  aesEnc :: "bytes \<Rightarrow> bytes \<Rightarrow> bytes"
  aesDec :: "bytes \<Rightarrow> bytes \<Rightarrow> bytes"
  zlibRead :: "nat \<Rightarrow> bytes \<Rightarrow> bytes option"

datatype codec_error =
  CryptError crypt_error
| PacketTooShort
| InflateError
| AmbiguousBody
| NoValidBody

subsection \<open>Sending\<close>

definition packet_hash :: "u16 \<Rightarrow> bytes \<Rightarrow> u32" where
  "packet_hash sendIndex rawData =
     (let crc = CRC32 (CRC32 0 (put16 sendIndex)) rawData;
          hashByte0 = ucast crc XOR ucast (drop_bit 16 crc) XOR ucast (drop_bit 8 crc) XOR ucast (drop_bit 24 crc) XOR 0x18 in
      (crc AND NOT 0xff) OR ucast (hashByte0 :: u8))"

definition buildSendPacket :: "'e lib_scheme \<Rightarrow> u16 \<Rightarrow> u16 \<Rightarrow> bytes \<Rightarrow> DNFCipher \<Rightarrow> crypt_error + bytes" where
  "buildSendPacket L sendType sendIndex rawData cipher =
     (let outSize = 13 + length rawData;
          header = [1] @ put16 sendType @ put32 (of_nat outSize) @ put32 (packet_hash sendIndex rawData) @ put16 sendIndex in
      if length rawData > 0 then
        (case dnf_Encrypt (aesEnc L) cipher sendType rawData of
           Inl e \<Rightarrow> Inl e
         | Inr encrypted \<Rightarrow> Inr (copy_into 13 encrypted (header @ replicate (length rawData) 0)))
      else Inr header)"

definition boolToInt :: "bool \<Rightarrow> int" where
  "boolToInt b = (if b then 1 else 0)"

definition alignTo :: "int \<Rightarrow> int \<Rightarrow> int" where
  "alignTo n block = block * (go_div n block + boolToInt (go_mod n block \<noteq> 0))"

definition alignTo16 :: "int \<Rightarrow> int" where
  "alignTo16 n = alignTo n 16"

subsection \<open>Receiving\<close>

definition parseRecvPacket :: "'e lib_scheme \<Rightarrow> DNFCipher \<Rightarrow> bytes \<Rightarrow> bool \<Rightarrow> codec_error + (u16 \<times> nat \<times> bytes)" where
  "parseRecvPacket L cipher raw isAnti =
     (if length raw < 15 then Inl PacketTooShort
      else
        let dataType = le16 (slice 1 3 raw);
            encryptedData = drop 15 raw in
        if length encryptedData = 0 then Inr (dataType, 0, [])
        else if isAnti then Inr (dataType, length encryptedData, encryptedData)
        else
          case (if dataType = 1 then Inr (DecryptLogin encryptedData) else dnf_Decrypt (aesDec L) cipher dataType encryptedData) of
            Inl e \<Rightarrow> Inl (CryptError e)
          | Inr decData \<Rightarrow> Inr (dataType, length decData, decData))"

text \<open>The decrypted body alone, as most handlers use it.\<close>

definition recv_body :: "'e lib_scheme \<Rightarrow> DNFCipher \<Rightarrow> bytes \<Rightarrow> bool \<Rightarrow> bytes option" where
  "recv_body L cipher raw isAnti =
     (case parseRecvPacket L cipher raw isAnti of Inl e \<Rightarrow> None | Inr (dataType, dataSize, body) \<Rightarrow> Some body)"

definition plainRecvBody :: "bytes \<Rightarrow> bool \<Rightarrow> bytes option" where
  "plainRecvBody raw isAnti = (if isAnti \<or> length raw \<le> 15 then None else Some (drop 15 raw))"

datatype recvBodySource = recvBodySourceUnknown | recvBodySourceDecrypted | recvBodySourcePlain

fun source_String :: "recvBodySource \<Rightarrow> string" where
  "source_String recvBodySourceDecrypted = ''decrypted''"
| "source_String recvBodySourcePlain = ''plain''"
| "source_String recvBodySourceUnknown = ''unknown''"

record recvBodyCandidate =
  cand_body :: bytes
  cand_source :: recvBodySource

text \<open>The candidates, and the error of the decryption (which may accompany the plain candidate).\<close>

definition recvBodyCandidates :: "'e lib_scheme \<Rightarrow> DNFCipher \<Rightarrow> bytes \<Rightarrow> bool \<Rightarrow> recvBodyCandidate list \<times> codec_error option" where
  "recvBodyCandidates L cipher raw isAnti =
     (let (candidates, decryptErr) =
            (case parseRecvPacket L cipher raw isAnti of
               Inl e \<Rightarrow> ([], Some e)
             | Inr (_, _, decrypted) \<Rightarrow> ([\<lparr>cand_body = decrypted, cand_source = recvBodySourceDecrypted\<rparr>], None)) in
      case plainRecvBody raw isAnti of
        None \<Rightarrow> (candidates, decryptErr)
      | Some plain \<Rightarrow>
          if \<exists>c \<in> set candidates. cand_body c = plain then (candidates, decryptErr)
          else (candidates @ [\<lparr>cand_body = plain, cand_source = recvBodySourcePlain\<rparr>], decryptErr))"

subsection \<open>Peer requests\<close>

definition peerRequestParty :: u8 where "peerRequestParty = 0"
definition peerRequestTrade :: u8 where "peerRequestTrade = 1"
definition gameEtcOptionSize :: nat where "gameEtcOptionSize = 72"
definition partyRejectOption :: nat where "partyRejectOption = 6"

definition buildPeerResponse :: "bytes \<Rightarrow> (bytes \<times> u8) option" where
  "buildPeerResponse request =
     (if length request < 7 then None
      else if le16 (slice 0 2 request) = 0 then None
      else
        let t = request ! 2 in
        if t \<noteq> peerRequestParty \<and> t \<noteq> peerRequestTrade then None
        else Some (take 7 request @ [0], t))"

definition partyAcceptGameOptions :: "bytes \<Rightarrow> bytes option" where
  "partyAcceptGameOptions packet =
     (if length packet < 4 then None
      else
        let optSize = unat (le32 (slice 0 4 packet)) in
        if optSize < gameEtcOptionSize \<or> optSize > length packet - 4 then None
        else
          let options = slice 4 (4 + gameEtcOptionSize) packet in
          Some (copy_into (partyRejectOption * 2) (put16 0) options))"

definition defaultPartyAcceptGameOptions :: bytes where
  "defaultPartyAcceptGameOptions =
     (let options = concat (replicate (gameEtcOptionSize div 2) (put16 0x7fff));
          options = copy_into (1 * 2) (put16 1) options in
      copy_into (partyRejectOption * 2) (put16 0) options)"

record peerResponseCandidate =
  pr_data :: bytes
  pr_typ :: u8
  pr_source :: recvBodySource
  pr_canonical :: bool

definition canonicalPeerRequestBody :: "bytes \<Rightarrow> bool" where
  "canonicalPeerRequestBody body =
     (if length body < 7 then False else if length body = 7 then True else list_all (\<lambda>b. b = 0) (drop 7 body))"

definition alternatePartyResponse ::
    "peerResponseCandidate list \<Rightarrow> peerResponseCandidate \<Rightarrow> peerResponseCandidate option" where
  "alternatePartyResponse candidates selected =
     (if pr_typ selected \<noteq> peerRequestParty \<and> (pr_typ selected \<noteq> peerRequestTrade \<or> \<not> pr_canonical selected) then None
      else List.find (\<lambda>c. \<not> (pr_source c = pr_source selected \<or> pr_typ c \<noteq> peerRequestParty \<or> pr_data c = pr_data selected) \<and>
             \<not> (pr_typ selected = peerRequestTrade \<and> \<not> pr_canonical c)) candidates)"

text \<open>The candidates of a packet that are valid peer requests.\<close>

definition valid_responses :: "recvBodyCandidate list \<Rightarrow> peerResponseCandidate list" where
  "valid_responses candidates =
     List.map_filter (\<lambda>c. case buildPeerResponse (cand_body c) of
         None \<Rightarrow> None
       | Some (response, t) \<Rightarrow>
           Some \<lparr>pr_data = response, pr_typ = t, pr_source = cand_source c, pr_canonical = canonicalPeerRequestBody (cand_body c)\<rparr>)
       candidates"

text \<open>One candidate that passes a test alone is selected, with the alternative.\<close>

definition sole :: "peerResponseCandidate list \<Rightarrow> (peerResponseCandidate \<Rightarrow> bool) \<Rightarrow>
    (peerResponseCandidate \<times> peerResponseCandidate option) option" where
  "sole valid P =
     (case filter P valid of [c] \<Rightarrow> Some (c, alternatePartyResponse valid c) | _ \<Rightarrow> None)"

definition first_from :: "peerResponseCandidate list \<Rightarrow> recvBodySource \<Rightarrow>
    (peerResponseCandidate \<times> peerResponseCandidate option) option" where
  "first_from valid source =
     map_option (\<lambda>c. (c, alternatePartyResponse valid c)) (List.find (\<lambda>c. pr_source c = source) valid)"

fun or_else :: "'a option \<Rightarrow> 'a option \<Rightarrow> 'a option" where
  "or_else (Some x) y = Some x"
| "or_else None y = y"

definition selectPeerResponsePackets ::
    "'e lib_scheme \<Rightarrow> DNFCipher \<Rightarrow> bytes \<Rightarrow> bool \<Rightarrow> recvBodySource \<Rightarrow> (u16 \<Rightarrow> bool) option \<Rightarrow>
     codec_error + (peerResponseCandidate \<times> peerResponseCandidate option)" where
  "selectPeerResponsePackets L cipher raw isAnti preferred knownUniqueID =
     (let (candidates, decryptErr) = recvBodyCandidates L cipher raw isAnti;
          valid = valid_responses candidates in
      if length valid = 1 then Inr (hd valid, None)
      else if length valid > 1 then
        (case or_else (case knownUniqueID of None \<Rightarrow> None | Some known \<Rightarrow> sole valid (\<lambda>c. known (le16 (slice 0 2 (pr_data c)))))
              (or_else (sole valid pr_canonical)
              (or_else (if \<not> isAnti \<and> length raw \<ge> 15
                        then first_from valid (if length raw - 15 \<le> 8 then recvBodySourcePlain else recvBodySourceDecrypted)
                        else None)
                (if preferred \<noteq> recvBodySourceUnknown then first_from valid preferred else None))) of
           Some chosen \<Rightarrow> Inr chosen
         | None \<Rightarrow> Inl AmbiguousBody)
      else case decryptErr of Some e \<Rightarrow> Inl e | None \<Rightarrow> Inl NoValidBody)"


subsection \<open>Party members\<close>

text \<open>A \<open>net.IP\<close> is \<open>None\<close> when nil, otherwise its four bytes.\<close>

type_synonym ip = "bytes option"

record partyIPPeer =
  uniqueID :: u16
  accID :: u32
  peer_slot :: u8
  slotKnown :: bool
  innerIP :: ip
  outerIP :: ip
  peer_port :: u16
  observedIP :: ip
  observedPort :: u16
  natType :: u8
  peer_mtu :: u32

definition zero_peer :: partyIPPeer where
  "zero_peer = \<lparr>uniqueID = 0, accID = 0, peer_slot = 0, slotKnown = False, innerIP = None, outerIP = None, peer_port = 0,
     observedIP = None, observedPort = 0, natType = 0, peer_mtu = 0\<rparr>"

abbreviation be16 :: "bytes \<Rightarrow> u16" where "be16 \<equiv> orderUint16 BigEndian"

definition partyIPInfoEndpointIP :: "bytes \<Rightarrow> bool" where
  "partyIPInfoEndpointIP addr \<longleftrightarrow> \<not> length addr < 4 \<and> addr ! 0 \<noteq> 0 \<and> addr ! 0 < 224"

definition partyIPInfoNetworkFieldsValid :: "u16 \<Rightarrow> u32 \<Rightarrow> u32 \<Rightarrow> bool" where
  "partyIPInfoNetworkFieldsValid port acc mtu \<longleftrightarrow> port \<noteq> 0 \<and> acc \<noteq> 0 \<and> mtu \<ge> 256 \<and> mtu \<le> 65535"

definition partyIPInfoIPZero :: "bytes \<Rightarrow> bool" where
  "partyIPInfoIPZero addr \<longleftrightarrow> length addr \<ge> 4 \<and> addr ! 0 = 0 \<and> addr ! 1 = 0 \<and> addr ! 2 = 0 \<and> addr ! 3 = 0"

definition partyIPInfoMemberWithIDValid :: "bytes \<Rightarrow> bool" where
  "partyIPInfoMemberWithIDValid entry =
     (if length entry < 22 then False
      else if le16 (slice 0 2 entry) = 0 \<and> partyIPInfoIPZero (slice 2 6 entry) \<and> partyIPInfoIPZero (slice 6 10 entry) then True
      else partyIPInfoEndpointIP (slice 2 6 entry) \<and> partyIPInfoEndpointIP (slice 6 10 entry) \<and>
        partyIPInfoNetworkFieldsValid (be16 (slice 10 12 entry)) (le32 (slice 12 16 entry)) (le32 (slice 17 21 entry)))"

definition partyIPInfoMemberWithoutIDValid :: "bytes \<Rightarrow> bool" where
  "partyIPInfoMemberWithoutIDValid entry =
     (if length entry < 19 then False
      else partyIPInfoEndpointIP (slice 0 4 entry) \<and> partyIPInfoEndpointIP (slice 4 8 entry) \<and>
        partyIPInfoNetworkFieldsValid (be16 (slice 8 10 entry)) (le32 (slice 10 14 entry)) (le32 (slice 15 19 entry)))"

definition partyIPInfoMemberWithID :: "bytes \<Rightarrow> u8 \<Rightarrow> partyIPPeer" where
  "partyIPInfoMemberWithID entry slot =
     zero_peer\<lparr>uniqueID := le16 (slice 0 2 entry), accID := le32 (slice 12 16 entry), peer_slot := slot,
       innerIP := Some (slice 2 6 entry), outerIP := Some (slice 6 10 entry), peer_port := be16 (slice 10 12 entry),
       natType := entry ! 16, peer_mtu := le32 (slice 17 21 entry)\<rparr>"

definition partyIPInfoMemberWithoutID :: "bytes \<Rightarrow> u8 \<Rightarrow> partyIPPeer" where
  "partyIPInfoMemberWithoutID entry slot =
     zero_peer\<lparr>accID := le32 (slice 10 14 entry), peer_slot := slot,
       innerIP := Some (slice 0 4 entry), outerIP := Some (slice 4 8 entry), peer_port := be16 (slice 8 10 entry),
       natType := entry ! 14, peer_mtu := le32 (slice 15 19 entry)\<rparr>"

text \<open>The candidates of one entry: the peer and the number of bytes it takes.\<close>

definition partyIPInfoMemberCandidates :: "bytes \<Rightarrow> u8 \<Rightarrow> (partyIPPeer \<times> nat) list" where
  "partyIPInfoMemberCandidates data slot =
     map (\<lambda>n. (partyIPInfoMemberWithID (take n data) slot, n))
       (filter (\<lambda>n. n \<le> length data \<and> partyIPInfoMemberWithIDValid (take n data)) [22, 23, 24]) @
     map (\<lambda>n. (partyIPInfoMemberWithoutID (take n data) slot, n))
       (filter (\<lambda>n. n \<le> length data \<and> partyIPInfoMemberWithoutIDValid (take n data)) [19, 20, 21, 22, 23, 24])"

text \<open>The backtracking parser; \<open>left\<close> entries are still to come.\<close>

definition with_member :: "partyIPPeer \<Rightarrow> partyIPPeer list \<Rightarrow> partyIPPeer list" where
  "with_member peer peers =
     (if uniqueID peer \<noteq> 0 \<or> accID peer \<noteq> 0 then peers @ [peer\<lparr>slotKnown := True\<rparr>] else peers)"

fun first_parse :: "('a \<Rightarrow> 'b option) \<Rightarrow> 'a list \<Rightarrow> 'b option" where
  "first_parse f [] = None"
| "first_parse f (x # xs) = (case f x of Some y \<Rightarrow> Some y | None \<Rightarrow> first_parse f xs)"

lemma first_parse_cong [fundef_cong]:
  "xs = ys \<Longrightarrow> (\<And>x. x \<in> set ys \<Longrightarrow> f x = g x) \<Longrightarrow> first_parse f xs = first_parse g ys"
  by (induction xs arbitrary: ys) (auto split: option.splits)

fun parsePartyIPInfoMembersAt :: "bytes \<Rightarrow> nat \<Rightarrow> nat \<Rightarrow> u8 \<Rightarrow> partyIPPeer list \<Rightarrow> partyIPPeer list option" where
  "parsePartyIPInfoMembersAt packet 0 offset slot peers =
     (if int (length packet) - int offset \<ge> 8 then None
      else if list_all (\<lambda>b. b = 0) (drop offset packet) then Some peers else None)"
| "parsePartyIPInfoMembersAt packet (Suc left) offset slot peers =
     first_parse (\<lambda>(peer, n). parsePartyIPInfoMembersAt packet left (offset + n) (slot + 1) (with_member peer peers))
       (partyIPInfoMemberCandidates (drop offset packet) slot)"

definition parsePartyIPInfoMembers :: "bytes \<Rightarrow> partyIPPeer list option" where
  "parsePartyIPInfoMembers packet =
     (if length packet < 1 then None
      else let count = unat (packet ! 0) in
        if count > 4 then None else parsePartyIPInfoMembersAt packet count 1 0 [])"

definition parsePartyIPInfoSnapshot :: "bytes \<Rightarrow> u32 \<Rightarrow> (partyIPPeer \<times> partyIPPeer list) option" where
  "parsePartyIPInfoSnapshot packet selfAccID =
     (case parsePartyIPInfoMembers packet of
        None \<Rightarrow> None
      | Some members \<Rightarrow>
          Some (fold (\<lambda>peer (self, peers). if selfAccID \<noteq> 0 \<and> accID peer = selfAccID then (peer, peers) else (self, peers @ [peer]))
            members (zero_peer, [])))"

fun select_ip_info :: "u32 \<Rightarrow> recvBodyCandidate list \<Rightarrow> (partyIPPeer \<times> partyIPPeer list \<times> recvBodySource) option" where
  "select_ip_info selfAccID [] = None"
| "select_ip_info selfAccID (c # cs) =
     (case parsePartyIPInfoSnapshot (cand_body c) selfAccID of
        None \<Rightarrow> select_ip_info selfAccID cs
      | Some (self, peers) \<Rightarrow>
          if selfAccID \<noteq> 0 \<and> accID self \<noteq> selfAccID then select_ip_info selfAccID cs
          else Some (self, peers, cand_source c))"

definition selectPartyIPInfoPacket ::
    "'e lib_scheme \<Rightarrow> DNFCipher \<Rightarrow> bytes \<Rightarrow> bool \<Rightarrow> u32 \<Rightarrow> codec_error + (partyIPPeer \<times> partyIPPeer list \<times> recvBodySource)" where
  "selectPartyIPInfoPacket L cipher raw isAnti selfAccID =
     (let (candidates, decryptErr) = recvBodyCandidates L cipher raw isAnti in
      case select_ip_info selfAccID candidates of
        Some found \<Rightarrow> Inr found
      | None \<Rightarrow> (case decryptErr of Some e \<Rightarrow> (if length candidates = 0 then Inl e else Inl NoValidBody) | None \<Rightarrow> Inl NoValidBody))"

subsection \<open>Party information\<close>

definition maxPartyInfoInflatedSize :: nat where "maxPartyInfoInflatedSize = 1048576"

definition inflatePartyInfo :: "'e lib_scheme \<Rightarrow> bytes \<Rightarrow> bytes option" where
  "inflatePartyInfo L data =
     (case zlibRead L (maxPartyInfoInflatedSize + 1) data of
        None \<Rightarrow> None
      | Some inflated \<Rightarrow> if length inflated > maxPartyInfoInflatedSize then None else Some inflated)"

definition partyInfoClearsParty :: "bytes \<Rightarrow> bool" where
  "partyInfoClearsParty data =
     (if length data < 8 \<or> data ! 0 \<noteq> 1 \<or> (data ! 4 \<noteq> 2 \<and> data ! 4 \<noteq> 3) then False
      else data ! 5 = 0xff \<and> data ! 6 = 0xff \<and> data ! 7 = 0xff)"

fun clears_party :: "'e lib_scheme \<Rightarrow> recvBodySource \<Rightarrow> recvBodyCandidate list \<Rightarrow> bool \<times> recvBodySource" where
  "clears_party L validSource [] = (False, validSource)"
| "clears_party L validSource (c # cs) =
     (case inflatePartyInfo L (cand_body c) of
        None \<Rightarrow> clears_party L validSource cs
      | Some inflated \<Rightarrow>
          if partyInfoClearsParty inflated then (True, cand_source c)
          else clears_party L (if validSource = recvBodySourceUnknown then cand_source c else validSource) cs)"

definition partyInfoPacketClearsParty ::
    "'e lib_scheme \<Rightarrow> DNFCipher \<Rightarrow> bytes \<Rightarrow> bool \<Rightarrow> codec_error + (bool \<times> recvBodySource)" where
  "partyInfoPacketClearsParty L cipher raw isAnti =
     (let (candidates, decryptErr) = recvBodyCandidates L cipher raw isAnti;
          (clears, source) = clears_party L recvBodySourceUnknown candidates in
      if clears then Inr (True, source)
      else if source \<noteq> recvBodySourceUnknown then Inr (False, source)
      else case decryptErr of Some e \<Rightarrow> Inl e | None \<Rightarrow> Inl NoValidBody)"

subsection \<open>Realtime identities\<close>

record partyRealtimeIdentity =
  rt_uniqueID :: u16
  rt_slot :: u8

fun realtime_identities :: "bytes \<Rightarrow> u8 list \<Rightarrow> nat list \<Rightarrow> partyRealtimeIdentity list option" where
  "realtime_identities data seenSlots [] = Some []"
| "realtime_identities data seenSlots (i # is) =
     (let offset = 1 + i * 5;
          unique = le16 (slice offset (offset + 2) data);
          slot = data ! (offset + 4) in
      if unique = 0 \<or> slot \<ge> 4 \<or> slot \<in> set seenSlots then None
      else map_option (Cons \<lparr>rt_uniqueID = unique, rt_slot = slot\<rparr>) (realtime_identities data (slot # seenSlots) is))"

definition parsePartyRealtimeInfo :: "bytes \<Rightarrow> partyRealtimeIdentity list option" where
  "parsePartyRealtimeInfo data =
     (if length data < 1 then None
      else
        let count = unat (data ! 0) in
        if count < 1 \<or> count > 4 then None
        else
          let expected = 1 + count * 5 + 4 in
          if length data < expected \<or> length data - expected > 15 then None
          else if \<not> list_all (\<lambda>b. b = 0) (drop expected data) then None
          else realtime_identities data [] [0..<count])"

definition selectPartyRealtimeInfoPacket ::
    "'e lib_scheme \<Rightarrow> DNFCipher \<Rightarrow> bytes \<Rightarrow> bool \<Rightarrow> codec_error + (partyRealtimeIdentity list \<times> recvBodySource)" where
  "selectPartyRealtimeInfoPacket L cipher raw isAnti =
     (let (candidates, decryptErr) = recvBodyCandidates L cipher raw isAnti;
          valid = List.map_filter (\<lambda>c. map_option (\<lambda>identities. (identities, cand_source c)) (parsePartyRealtimeInfo (cand_body c))) candidates in
      case List.find (\<lambda>v. snd v = recvBodySourceDecrypted) valid of
        Some v \<Rightarrow> Inr v
      | None \<Rightarrow>
          (case valid of
             v # _ \<Rightarrow> Inr v
           | [] \<Rightarrow> (case decryptErr of Some e \<Rightarrow> Inl e | None \<Rightarrow> Inl NoValidBody)))"

end
