(* ===== verification/Robot_State.thy ===== *)
theory Robot_State
  imports Robot_Codec
begin

section \<open>The robot of a session\<close>

text \<open>
  The struct \<open>RobotVo\<close> of \<open>protocol/dnf/robot_session.go\<close>, without its receive buffer (theory
  \<open>Packet_Stream\<close>), its locks and its log state, in four records that extend each other:
  the session itself, private stores and trades, the party, and the party's transport. Go's arrays
  indexed by peer slot and route, such as \<open>partyTQOSSeq[slot][route]\<close>, are the fields of one
  record \<open>route_state\<close> for each slot and route; those indexed by slot are the fields of \<open>slot_state\<close>.

  What the operating system does is part of the state or of an environment: the socket answers the next
  writes as \<open>writeScript\<close> says and \<open>wrote\<close> lists what it took; the record \<open>env\<close> has the
  instant of the call (\<open>time.Now\<close> is read as one instant in each operation), the addresses of the
  connections and the configuration of the party runtime. Goroutines and timers an operation starts
  are listed in \<open>started\<close>.
\<close>

subsection \<open>Errors and enumerations\<close>

datatype ClientError =
  NoneError | ConnectError | StartRecvError | CloseError | LoginSendError | MaxReconnectError
| NormalDropError | BadTokenError | BadCidError | BadUidError | RepeatLoginError | PunishReasonError

text \<open>\<open>DisconnectReason\<close> is an integer the server sends; \<open>NoDisconnect\<close> is zero.\<close>

type_synonym DisconnectReason = int

definition NoDisconnect :: DisconnectReason where "NoDisconnect = 0"

subsection \<open>Stores and trades\<close>

record StoreInfo =
  si_Index :: int
  si_ItemID :: int
  si_BoxType :: int
  si_BoxIndex :: int
  si_Price :: int
  si_Count :: int

record Transaction =
  ItemPos :: "16 word"
  ItemId :: "32 word"
  ItemNum :: "32 word"
  ItemType :: "32 word"

subsection \<open>The party's transport\<close>

record partyReliablePending =
  rp_packet :: bytes
  rp_sequence :: u32
  rp_firstSentAt :: time
  rp_nextRetry :: time
  rp_retryDelay :: duration
  rp_retries :: u16
  rp_purpose :: string

record partyTQOSReliableReply =
  tr_packet :: bytes
  tr_nextRetry :: time
  tr_retries :: u8
  tr_acknowledged :: bool
  tr_exhausted :: bool
  tr_requestKnown :: bool
  tr_requestType :: u8
  tr_requestFlags :: u8
  tr_requestCodec :: partyTQOSCodec
  tr_latestRequestSequence :: u32

record partyTQOSEpoch =
  ep_flags :: u8
  ep_codec :: partyTQOSCodec
  ep_startedAt :: time
  ep_initialized :: bool

record route_state =
  TQOSSeq :: u32
  TQOSReliableSeq :: u32
  TQOSReply :: partyTQOSReliableReply
  ReliablePending :: "partyReliablePending list"
  TQOSReceived :: partyTQOSReceiveWindow
  TQOSEpoch :: partyTQOSEpoch
  TQOSCodec :: partyTQOSCodec
  TQOSCodecKnown :: bool
  RobotRouteReady :: bool
  RouteActivityAt :: time
  RouteBlockedUntil :: time
  RouteFailures :: u8
  RouteRecoveryAt :: time
  RouteDiagAt :: time

record slot_state =
  RobotProbeAt :: time
  RobotProbeCount :: u8
  RobotPeerReady :: bool
  PeerRoute :: u8
  PeerRouteAt :: time

record partyDungeonFollowPending =
  fp_due :: time
  fp_peerSlot :: u8
  fp_flags :: u8
  fp_reliable :: bool
  fp_body :: bytes
  fp_records :: "bytes list"

record partySkillCandidate =
  sk_skillIndex :: u8
  sk_state :: u8
  sk_level :: int
  sk_name :: string
  sk_stateData :: bytes
  sk_risk :: int
  sk_path :: string

record townEntityPosition =
  te_uniqueID :: u16
  te_x :: u16
  te_y :: u16
  te_moveType :: u8
  te_speed :: u16
  te_seenAt :: time

record townEntityArea =
  ta_uniqueID :: u16
  ta_village :: u8
  ta_area :: u8
  ta_x :: u16
  ta_y :: u16

record partyInviteFallbackState =
  if_data :: bytes
  if_source :: recvBodySource
  if_primaryPeer :: u16
  if_primaryType :: u8
  if_due :: time

definition zero_codec :: partyTQOSCodec where
  "zero_codec = \<lparr>tc_key = 0, tc_rotate = 0\<rparr>"

definition zero_reply :: partyTQOSReliableReply where
  "zero_reply = \<lparr>tr_packet = [], tr_nextRetry = zero_time, tr_retries = 0, tr_acknowledged = False, tr_exhausted = False,
     tr_requestKnown = False, tr_requestType = 0, tr_requestFlags = 0, tr_requestCodec = zero_codec, tr_latestRequestSequence = 0\<rparr>"

definition zero_epoch :: partyTQOSEpoch where
  "zero_epoch = \<lparr>ep_flags = 0, ep_codec = zero_codec, ep_startedAt = zero_time, ep_initialized = False\<rparr>"

definition zero_route :: route_state where
  "zero_route = \<lparr>TQOSSeq = 0, TQOSReliableSeq = 0, TQOSReply = zero_reply, ReliablePending = [], TQOSReceived = zero_window,
     TQOSEpoch = zero_epoch, TQOSCodec = zero_codec, TQOSCodecKnown = False, RobotRouteReady = False, RouteActivityAt = zero_time,
     RouteBlockedUntil = zero_time, RouteFailures = 0, RouteRecoveryAt = zero_time, RouteDiagAt = zero_time\<rparr>"

definition zero_slot :: slot_state where
  "zero_slot = \<lparr>RobotProbeAt = zero_time, RobotProbeCount = 0, RobotPeerReady = False, PeerRoute = 0, PeerRouteAt = zero_time\<rparr>"

definition zero_fallback :: partyInviteFallbackState where
  "zero_fallback = \<lparr>if_data = replicate 8 0, if_source = recvBodySourceUnknown, if_primaryPeer = 0, if_primaryType = 0, if_due = zero_time\<rparr>"

record RobotSnapshot =
  sn_UID :: u32
  sn_CID :: int
  sn_State :: ClientState
  sn_LastError :: ClientError
  sn_DisconnectReason :: DisconnectReason
  sn_Reconnects :: u32
  sn_RunStartTime :: u32
  sn_RobotType :: int
  sn_StoreDisplaySent :: bool
  sn_StoreDisplayAck :: bool
  sn_StoreDisplayItems :: nat
  sn_StoreDisplayRejected :: bool
  sn_StoreCreateRejected :: bool
  sn_LastStoreError :: u8
  sn_StoreCreated :: bool
  sn_DisjointCreateSent :: bool
  sn_DisjointDirectAck :: bool
  sn_DisjointActive :: bool
  sn_LastDisjointError :: u8
  sn_PartyActive :: bool
  sn_ReturnSelectPending :: bool
  sn_ReturnSelectRejected :: bool
  sn_Village :: u8
  sn_Area :: u8
  sn_X :: u16
  sn_Y :: u16

subsection \<open>Goroutines and timers an operation starts\<close>

datatype routine =
  PartySupervisor u64
| PartyUDPLoop nat u64
| ConnectPartyRelay u64
| PartyRelayWriter conn
| RefreshConnect
| RefreshTradeQuote
| DisjointStore u32
| LoadPartySkillProfile u64 u64
| InviteFallbackTimer u64 duration
| PartyReselect u64 duration

subsection \<open>The socket\<close>

text \<open>What a \<open>SetWriteDeadline\<close> and \<open>Write\<close> of the game connection answer.\<close>

datatype write_result = DeadlineError | WriteError | Wrote nat

subsection \<open>The robot\<close>

record UserLoginInfo =
  li_IP :: string
  li_Port :: int
  li_Token :: bytes
  li_TokenSize :: u32
  li_UID :: u32
  li_CID :: int
  li_CharacterSlot :: u8
  li_MaxReConn :: u32
  li_ReDelay :: u32
  li_BirthPos :: "u32 \<times> u32 \<times> u32 \<times> u32"
  li_GateArea :: u32

text \<open>\<open>hasController\<close> and \<open>hasDB\<close> tell whether the pointers \<open>Controller\<close> and \<open>DB\<close> are set.\<close>

record robot_session = link +
  UID :: u32
  CID :: int
  CharacterSlot :: u8
  LoginIP :: string
  LocalIP :: string
  gameIP :: string
  gamePort :: int
  LoginInfo :: UserLoginInfo
  hasController :: bool
  hasDB :: bool
  Cipher :: DNFCipher
  LastError :: ClientError
  Token :: bytes
  TokenSize :: u32
  MaxReConn :: u32
  ConnCount :: u32
  ReDelay :: u32
  PacketID :: u32
  CurVillage :: u8
  CurArea :: u8
  CurX :: u16
  CurY :: u16
  GateArea :: u8
  NccSent :: bool
  SelectCharacSent :: bool
  ReturnSelectPending :: bool
  ReturnSelectRejected :: bool
  RunStartTime :: u32
  MoveType :: u8
  DisconReason :: DisconnectReason
  RobotTyp :: int
  loginReal :: bytes
  loginEnd :: bytes
  selectCharac :: bytes
  setPos :: bytes
  setArea :: bytes
  setPosStart :: bytes
  connectInFlight :: bool
  writeScript :: "write_result list"
  wrote :: "(conn \<times> bytes) list"
  started :: "routine list"

record robot_market = robot_session +
  LastTradeID :: u16
  LastTradeState :: bool
  TradeMoney :: u32
  tradeQuoteLoading :: bool
  tradeQuotePending :: bool
  tradeQuoteVersion :: u64
  tradeQuoteFailures :: u8
  TransactionArr :: "Transaction option list"
  InfanMap :: "int \<rightharpoonup> Transaction"
  IsWaitingItemList :: bool
  PendingStoreTitle :: bytes
  StoreDisplaySent :: bool
  StoreDisplayAck :: bool
  StoreDisplayRejected :: bool
  StoreCreateRejected :: bool
  LastStoreError :: u8
  StoreCreated :: bool
  LastStoreDisplay :: "StoreInfo list"
  storeDisplayCandidates :: "StoreInfo list"
  storeDisplayRetryPlans :: "StoreInfo list list"
  storeDisplayRetryIndex :: nat
  storeInventoryVersion :: u64
  DisjointCreateSent :: bool
  DisjointDirectAck :: bool
  DisjointActive :: bool
  LastDisjointError :: u8
  AfterRunDisjointCost :: u32

record robot_party = robot_market +
  partyOptionReady :: bool
  partyOptionSent :: bool
  partyOptionData :: bytes
  partyRecvSource :: recvBodySource
  natInfoSent :: bool
  partySelfPeer :: partyIPPeer
  partySelfRefreshAt :: time
  partySelfRefreshBackoff :: duration
  partySelfRefreshAttempts :: u8
  partyRealtimeUnique :: "u16 list"
  partyRealtimeCandidate :: "u16 list"
  partyRealtimeConfirmations :: u8
  partyRealtimeCandidateAt :: time
  partyHumanObserved :: bool
  partyRecovery :: bool
  partyRecoveryResumePending :: bool
  partyRecoveryEpoch :: u64
  partyRecoveryCooldownUntil :: time
  partyPeers :: "partyIPPeer list"
  partyLeaderTransportUnique :: u16
  partyLeaderTransportAt :: time
  partyPendingPeer :: u16
  partyPendingUntil :: time
  partyInviteFallback :: partyInviteFallbackState
  partyInviteTimer :: bool
  partyInviteEpoch :: u64
  townEntityPositions :: "u16 \<rightharpoonup> townEntityPosition"
  townEntitySweepAt :: time
  lastSnapshot :: "RobotSnapshot option"

record RobotVo = robot_party +
  partyUDPConn :: "nat option"
  partyUDPMTU :: int
  partyUDPNetwork :: "(bytes \<times> bytes) option"
  partyUDPRunning :: bool
  partyUDPGeneration :: u64
  partySupervisorRun :: bool
  partySupervisorEpoch :: u64
  partyRelayConn :: "conn option"
  partyRelayConnecting :: bool
  partyRelayGeneration :: u64
  partyRelayNextAt :: time
  partyRelayBackoff :: duration
  partyRelayWriter :: "(conn \<times> bytes list) option"
  routes :: "u8 \<Rightarrow> u8 \<Rightarrow> route_state"
  slots :: "u8 \<Rightarrow> slot_state"
  udpScript :: "bool list"
  udpSent :: "(bytes \<times> int \<times> bytes) list"
  partyRuntimeDiagAt :: time
  partyDungeonFollow :: "partyDungeonFollowPending list"
  partyDungeonEnteredAt :: time
  partyDungeonLastAt :: time
  partyDungeonFlags :: u8
  partySkillNextAt :: time
  partySkillRecoverAt :: time
  partySkillBlockedUntil :: time
  partySkillLoaded :: bool
  partySkillLoading :: bool
  partySkillGeneration :: u64
  partySkillCatalogGeneration :: u64
  partySkillJob :: int
  partySkillCandidates :: "partySkillCandidate list"

subsection \<open>The environment\<close>

text \<open>\<open>townOrder\<close> is the order in which Go visits the map of town entities.\<close>

record env = lib +
  now :: time
  workerAccepted :: bool
  localAddr :: "conn \<Rightarrow> (bytes \<times> int) option"
  listenUDP :: "bytes \<Rightarrow> int \<Rightarrow> nat option"
  udpLocal :: "nat \<Rightarrow> bytes \<times> int"
  ifaceMTU :: "bytes \<Rightarrow> int option"
  ifaceNetwork :: "bytes \<Rightarrow> (bytes \<times> bytes) option"
  accountStart :: u32
  accountEnd :: u32
  skillCatalogGeneration :: u64
  dbReady :: bool
  townOrder :: "(u16 \<rightharpoonup> townEntityPosition) \<Rightarrow> u16 list"

end
