(* ===== verification/Party_Links.thy ===== *)
theory Party_Links
  imports Robot_State
begin

section \<open>Party membership, routes and connections\<close>

text \<open>
  The operations of \<open>party_state.go\<close>, \<open>party_health.go\<close>, \<open>party_udp.go\<close>, \<open>party_relay.go\<close>,
  \<open>party_supervisor.go\<close> and \<open>party_transport.go\<close> that everything else in the party code calls: who is in the
  party, which of the two routes (1: UDP, 2: relay) to a peer is usable, and how a packet is sent over a route. Every
  operation returns the robot it changed. Log lines and the packet recorder are not modelled.
\<close>

subsection \<open>Peers\<close>

definition partyPeerIdentityKnown :: "partyIPPeer \<Rightarrow> bool" where
  "partyPeerIdentityKnown peer \<longleftrightarrow> uniqueID peer \<noteq> 0 \<or> accID peer \<noteq> 0"

definition partyPeerSameIdentity :: "partyIPPeer \<Rightarrow> partyIPPeer \<Rightarrow> bool" where
  "partyPeerSameIdentity left right =
     (if accID left \<noteq> 0 \<and> accID right \<noteq> 0 then accID left = accID right
      else uniqueID left \<noteq> 0 \<and> uniqueID left = uniqueID right)"

definition partyIPEqual :: "ip \<Rightarrow> ip \<Rightarrow> bool" where
  "partyIPEqual left right \<longleftrightarrow> left = right"

definition partyPeerAdvertisedEndpointEqual :: "partyIPPeer \<Rightarrow> partyIPPeer \<Rightarrow> bool" where
  "partyPeerAdvertisedEndpointEqual left right \<longleftrightarrow>
     partyIPEqual (outerIP left) (outerIP right) \<and> peer_port left = peer_port right"

definition mergePartyPeer :: "partyIPPeer \<Rightarrow> partyIPPeer \<Rightarrow> partyIPPeer" where
  "mergePartyPeer old nxt =
     \<lparr>uniqueID = (if uniqueID nxt = 0 then uniqueID old else uniqueID nxt),
      accID = (if accID nxt = 0 then accID old else accID nxt),
      peer_slot = (if \<not> slotKnown nxt \<and> slotKnown old then peer_slot old else peer_slot nxt),
      slotKnown = (slotKnown nxt \<or> slotKnown old),
      innerIP = (if innerIP nxt = None then innerIP old else innerIP nxt),
      outerIP = (if outerIP nxt = None then outerIP old else outerIP nxt),
      peer_port = (if peer_port nxt = 0 then peer_port old else peer_port nxt),
      observedIP = (if observedIP nxt = None then observedIP old else observedIP nxt),
      observedPort = (if observedPort nxt = 0 then observedPort old else observedPort nxt),
      natType = (if natType nxt = 0 then natType old else natType nxt),
      peer_mtu = (if peer_mtu nxt = 0 then peer_mtu old else peer_mtu nxt)\<rparr>"

definition partyPeerForSlot :: "partyIPPeer list \<Rightarrow> u8 \<Rightarrow> partyIPPeer" where
  "partyPeerForSlot peers slot =
     (case List.find (\<lambda>p. slotKnown p \<and> peer_slot p = slot) peers of Some p \<Rightarrow> p | None \<Rightarrow> zero_peer)"

definition partyPeerForSlotUnsafe :: "RobotVo \<Rightarrow> u8 \<Rightarrow> partyIPPeer" where
  "partyPeerForSlotUnsafe r slot = partyPeerForSlot (partyPeers r) slot"

definition partyPeerForAccountUnsafe :: "RobotVo \<Rightarrow> u32 \<Rightarrow> partyIPPeer option" where
  "partyPeerForAccountUnsafe r acc = (if acc = 0 then None else List.find (\<lambda>p. accID p = acc) (partyPeers r))"

definition partyConfirmedPeerUnsafe :: "RobotVo \<Rightarrow> u16 \<Rightarrow> bool" where
  "partyConfirmedPeerUnsafe r unique =
     (if unique = 0 then False
      else if uniqueID (partySelfPeer r) = unique then True
      else list_ex (\<lambda>p. uniqueID p = unique) (partyPeers r))"

definition partyEntityKnownUnsafe :: "RobotVo \<Rightarrow> u16 \<Rightarrow> bool" where
  "partyEntityKnownUnsafe r unique \<longleftrightarrow> partyConfirmedPeerUnsafe r unique \<or> townEntityPositions r unique \<noteq> None"

definition rememberPartyRecvSourceUnsafe :: "recvBodySource \<Rightarrow> RobotVo \<Rightarrow> RobotVo" where
  "rememberPartyRecvSourceUnsafe source r =
     (if source = recvBodySourceDecrypted \<or> source = recvBodySourcePlain then r\<lparr>partyRecvSource := source\<rparr> else r)"

definition isPartyRobotAccount :: "env \<Rightarrow> u32 \<Rightarrow> bool" where
  "isPartyRobotAccount E accountID \<longleftrightarrow> accountID \<ge> accountStart E \<and> accountID \<le> accountEnd E"

subsection \<open>Is there a party?\<close>

definition partyPendingTimeout :: duration where "partyPendingTimeout = 15 * Second"
definition partyInviteFallbackDelay :: duration where "partyInviteFallbackDelay = 3 * Second"

definition clearPartyInviteFallbackUnsafe :: "RobotVo \<Rightarrow> RobotVo" where
  "clearPartyInviteFallbackUnsafe r =
     r\<lparr>partyInviteEpoch := partyInviteEpoch r + 1, partyInviteTimer := False, partyInviteFallback := zero_fallback\<rparr>"

definition clearPartyPendingUnsafe :: "RobotVo \<Rightarrow> RobotVo" where
  "clearPartyPendingUnsafe r =
     clearPartyInviteFallbackUnsafe (r\<lparr>partyPendingPeer := 0, partyPendingUntil := zero_time\<rparr>)"

text \<open>Asking whether a party is active ends an invitation whose time is over.\<close>

definition partyActiveUnsafe :: "env \<Rightarrow> RobotVo \<Rightarrow> bool \<times> RobotVo" where
  "partyActiveUnsafe E r =
     (let r = (if partyPendingPeer r \<noteq> 0 \<and> (IsZero (partyPendingUntil r) \<or> \<not> now E < partyPendingUntil r)
               then clearPartyPendingUnsafe r else r) in
      (list_ex partyPeerIdentityKnown (partyPeers r) \<or> partyPendingPeer r \<noteq> 0, r))"

definition publishSnapshotUnsafe :: "env \<Rightarrow> RobotVo \<Rightarrow> RobotVo" where
  "publishSnapshotUnsafe E r =
     (let (active, r') = partyActiveUnsafe E r in
      r'\<lparr>lastSnapshot := Some \<lparr>sn_UID = UID r, sn_CID = CID r, sn_State = rv_State r, sn_LastError = LastError r,
          sn_DisconnectReason = DisconReason r, sn_Reconnects = ConnCount r, sn_RunStartTime = RunStartTime r, sn_RobotType = RobotTyp r,
          sn_StoreDisplaySent = StoreDisplaySent r, sn_StoreDisplayAck = StoreDisplayAck r,
          sn_StoreDisplayItems = length (LastStoreDisplay r), sn_StoreDisplayRejected = StoreDisplayRejected r,
          sn_StoreCreateRejected = StoreCreateRejected r, sn_LastStoreError = LastStoreError r, sn_StoreCreated = StoreCreated r,
          sn_DisjointCreateSent = DisjointCreateSent r, sn_DisjointDirectAck = DisjointDirectAck r, sn_DisjointActive = DisjointActive r,
          sn_LastDisjointError = LastDisjointError r, sn_PartyActive = active, sn_ReturnSelectPending = ReturnSelectPending r,
          sn_ReturnSelectRejected = ReturnSelectRejected r, sn_Village = CurVillage r, sn_Area = CurArea r, sn_X = CurX r, sn_Y = CurY r\<rparr>\<rparr>)"

subsection \<open>Supervisor, UDP socket and relay connection\<close>

definition stopPartySupervisorUnsafe :: "RobotVo \<Rightarrow> RobotVo" where
  "stopPartySupervisorUnsafe r = r\<lparr>partySupervisorEpoch := partySupervisorEpoch r + 1, partySupervisorRun := False\<rparr>"

definition ensurePartySupervisorUnsafe :: "env \<Rightarrow> RobotVo \<Rightarrow> RobotVo" where
  "ensurePartySupervisorUnsafe E r =
     (if partySupervisorRun r \<or> rv_State r \<noteq> StateRun then r
      else let (active, r) = partyActiveUnsafe E r in
        if \<not> active then r
        else
          let epoch = partySupervisorEpoch r + 1 in
          r\<lparr>partySupervisorEpoch := epoch, partySupervisorRun := True, started := started r @ [PartySupervisor epoch]\<rparr>)"

definition closePartyUDPUnsafe :: "RobotVo \<Rightarrow> RobotVo" where
  "closePartyUDPUnsafe r =
     r\<lparr>partyUDPGeneration := partyUDPGeneration r + 1, partyUDPRunning := False, partyUDPConn := None, partyUDPMTU := 0, partyUDPNetwork := None\<rparr>"

definition ensurePartyUDPLoopUnsafe :: "env \<Rightarrow> RobotVo \<Rightarrow> RobotVo" where
  "ensurePartyUDPLoopUnsafe E r =
     (case partyUDPConn r of
        None \<Rightarrow> r
      | Some conn \<Rightarrow>
          if partyUDPRunning r then r
          else let (active, r) = partyActiveUnsafe E r in
            if \<not> active then r
            else r\<lparr>partyUDPRunning := True, started := started r @ [PartyUDPLoop conn (partyUDPGeneration r)]\<rparr>)"

definition partyDefaultUDPMTU :: int where "partyDefaultUDPMTU = 1472"

definition partyUDPMTUForIP :: "env \<Rightarrow> bytes \<Rightarrow> int" where
  "partyUDPMTUForIP E addr =
     (case ifaceMTU E addr of
        None \<Rightarrow> partyDefaultUDPMTU
      | Some mtu \<Rightarrow>
          let payloadMTU = mtu - 28 in
          if payloadMTU > 0 \<and> payloadMTU < partyDefaultUDPMTU then payloadMTU else partyDefaultUDPMTU)"

definition startPartyUDPUnsafe :: "env \<Rightarrow> (bytes \<times> int) option \<Rightarrow> RobotVo \<Rightarrow> bool \<times> RobotVo" where
  "startPartyUDPUnsafe E addr r =
     (case addr of
        None \<Rightarrow> (False, r)
      | Some (addrIP, addrPort) \<Rightarrow>
          if (case partyUDPConn r of None \<Rightarrow> False | Some conn \<Rightarrow> snd (udpLocal E conn) = addrPort)
          then (True, ensurePartyUDPLoopUnsafe E r)
          else
            let r = (if partyUDPConn r \<noteq> None then closePartyUDPUnsafe r else r) in
            case (case listenUDP E addrIP addrPort of Some conn \<Rightarrow> Some conn | None \<Rightarrow> listenUDP E addrIP 0) of
              None \<Rightarrow> (False, r)
            | Some conn \<Rightarrow>
                (True, ensurePartyUDPLoopUnsafe E
                  (r\<lparr>partyUDPConn := Some conn, partyUDPMTU := partyUDPMTUForIP E (fst (udpLocal E conn)),
                     partyUDPNetwork := ifaceNetwork E (fst (udpLocal E conn)), partyUDPGeneration := partyUDPGeneration r + 1,
                     partyUDPRunning := False\<rparr>)))"

definition partyRelayBackoffInitial :: duration where "partyRelayBackoffInitial = 500 * Millisecond"
definition partyRelayBackoffMax :: duration where "partyRelayBackoffMax = 30 * Second"
definition partyRelayWriteQueueSize :: nat where "partyRelayWriteQueueSize = 64"
definition partyRelayMaxPacketSize :: nat where "partyRelayMaxPacketSize = 4096"

text \<open>The writer of a relay connection and the packets in its channel.\<close>

definition startPartyRelayWriterUnsafe :: "conn \<Rightarrow> RobotVo \<Rightarrow> RobotVo" where
  "startPartyRelayWriterUnsafe conn r =
     (case partyRelayWriter r of
        Some (c, packets) \<Rightarrow>
          if c = conn then r else r\<lparr>partyRelayWriter := Some (conn, []), started := started r @ [PartyRelayWriter conn]\<rparr>
      | None \<Rightarrow> r\<lparr>partyRelayWriter := Some (conn, []), started := started r @ [PartyRelayWriter conn]\<rparr>)"

definition stopPartyRelayWriterUnsafe :: "conn option \<Rightarrow> RobotVo \<Rightarrow> RobotVo" where
  "stopPartyRelayWriterUnsafe conn r =
     (case partyRelayWriter r of
        None \<Rightarrow> r
      | Some (c, packets) \<Rightarrow> if conn \<noteq> None \<and> Some c \<noteq> conn then r else r\<lparr>partyRelayWriter := None\<rparr>)"

definition closePartyRelayUnsafe :: "RobotVo \<Rightarrow> RobotVo" where
  "closePartyRelayUnsafe r =
     (let conn = partyRelayConn r;
          r = r\<lparr>partyRelayGeneration := partyRelayGeneration r + 1, partyRelayConnecting := False, partyRelayNextAt := zero_time,
                partyRelayBackoff := 0, partyRelayConn := None\<rparr>;
          r = stopPartyRelayWriterUnsafe conn r in
      case conn of None \<Rightarrow> r | Some c \<Rightarrow> r\<lparr>closedConns := closedConns r @ [c]\<rparr>)"

definition schedulePartyRelayRetryUnsafe :: "time \<Rightarrow> RobotVo \<Rightarrow> RobotVo" where
  "schedulePartyRelayRetryUnsafe t r =
     (let backoff = (if partyRelayBackoff r \<le> 0 then partyRelayBackoffInitial
                     else if partyRelayBackoff r * 2 > partyRelayBackoffMax then partyRelayBackoffMax else partyRelayBackoff r * 2) in
      r\<lparr>partyRelayBackoff := backoff, partyRelayNextAt := t + backoff\<rparr>)"

definition ensurePartyRelayUnsafe :: "env \<Rightarrow> RobotVo \<Rightarrow> RobotVo" where
  "ensurePartyRelayUnsafe E r =
     (if partyRelayConn r \<noteq> None \<or> partyRelayConnecting r \<or> rv_State r \<noteq> StateRun \<or> rv_Conn r = None then r
      else let (active, r) = partyActiveUnsafe E r in
        if \<not> active \<or> LoginIP r = [] then r
        else if \<not> IsZero (partyRelayNextAt r) \<and> now E < partyRelayNextAt r then r
        else r\<lparr>partyRelayConnecting := True, started := started r @ [ConnectPartyRelay (partyRelayGeneration r)]\<rparr>)"


subsection \<open>Route health\<close>

definition upd_route :: "u8 \<Rightarrow> u8 \<Rightarrow> (route_state \<Rightarrow> route_state) \<Rightarrow> RobotVo \<Rightarrow> RobotVo" where
  "upd_route slot route f r = r\<lparr>routes := (routes r)(slot := (routes r slot)(route := f (routes r slot route)))\<rparr>"

definition upd_slot :: "u8 \<Rightarrow> (slot_state \<Rightarrow> slot_state) \<Rightarrow> RobotVo \<Rightarrow> RobotVo" where
  "upd_slot slot f r = r\<lparr>slots := (slots r)(slot := f (slots r slot))\<rparr>"

definition partyRouteFailureBase :: duration where "partyRouteFailureBase = 2 * Second"
definition partyRouteFailureMax :: duration where "partyRouteFailureMax = 30 * Second"
definition partyRouteDiagGap :: duration where "partyRouteDiagGap = 15 * Second"
definition partyRuntimeDiagGap :: duration where "partyRuntimeDiagGap = 10 * Second"

text \<open>The guard of the operations that take a peer and a route.\<close>

definition bad_route :: "partyIPPeer \<Rightarrow> u8 \<Rightarrow> bool" where
  "bad_route peer route \<longleftrightarrow> \<not> slotKnown peer \<or> peer_slot peer \<ge> 4 \<or> route < 1 \<or> route > 2"

definition setPartyRobotRouteReadyUnsafe :: "env \<Rightarrow> partyIPPeer \<Rightarrow> u8 \<Rightarrow> bool \<Rightarrow> time \<Rightarrow> RobotVo \<Rightarrow> RobotVo" where
  "setPartyRobotRouteReadyUnsafe E peer route ready t r =
     (if bad_route peer route \<or> \<not> isPartyRobotAccount E (accID peer) then r
      else
        let slot = peer_slot peer;
            wasPeerReady = RobotPeerReady (slots r slot);
            r = upd_route slot route (RobotRouteReady_update (\<lambda>_. ready)) r;
            r = upd_slot slot (RobotPeerReady_update (\<lambda>_. RobotRouteReady (routes r slot 1) \<or> RobotRouteReady (routes r slot 2))) r in
        if ready then
          let r = upd_slot slot (\<lambda>s. s\<lparr>PeerRoute := route, PeerRouteAt := t\<rparr>) r;
              r = upd_route slot route (RouteActivityAt_update (\<lambda>_. t)) r in
          upd_slot slot (\<lambda>s. s\<lparr>RobotProbeAt := zero_time, RobotProbeCount := 0\<rparr>) r
        else if wasPeerReady \<and> \<not> RobotPeerReady (slots r slot) then
          upd_slot slot (\<lambda>s. s\<lparr>RobotProbeAt := zero_time, RobotProbeCount := 0\<rparr>) r
        else if RobotPeerReady (slots r slot) \<and> PeerRoute (slots r slot) = route then
          let alternate = (if route = 1 then 2 else 1) in
          if RobotRouteReady (routes r slot alternate)
          then upd_slot slot (\<lambda>s. s\<lparr>PeerRoute := alternate, PeerRouteAt := t\<rparr>) r
          else r
        else r)"

definition clearPartyRobotRouteReadyUnsafe :: "u8 \<Rightarrow> u8 \<Rightarrow> RobotVo \<Rightarrow> RobotVo" where
  "clearPartyRobotRouteReadyUnsafe slot route r =
     (if slot \<ge> 4 \<or> route < 1 \<or> route > 2 then r
      else
        let wasPeerReady = RobotPeerReady (slots r slot);
            r = upd_route slot route (RobotRouteReady_update (\<lambda>_. False)) r;
            r = upd_slot slot (RobotPeerReady_update (\<lambda>_. RobotRouteReady (routes r slot 1) \<or> RobotRouteReady (routes r slot 2))) r in
        if wasPeerReady \<and> \<not> RobotPeerReady (slots r slot)
        then upd_slot slot (\<lambda>s. s\<lparr>RobotProbeAt := zero_time, RobotProbeCount := 0\<rparr>) r
        else r)"

text \<open>The back-off of a route: two seconds doubled for each further failure, at most thirty.\<close>

definition failure_delay :: "u8 \<Rightarrow> duration" where
  "failure_delay failures =
     min partyRouteFailureMax
       (((\<lambda>d. if d < partyRouteFailureMax then d * 2 else d) ^^ (unat failures - 1)) partyRouteFailureBase)"

definition markPartyRouteFailureUnsafe :: "env \<Rightarrow> partyIPPeer \<Rightarrow> u8 \<Rightarrow> time \<Rightarrow> RobotVo \<Rightarrow> RobotVo" where
  "markPartyRouteFailureUnsafe E peer route t r =
     (if bad_route peer route then r
      else
        let slot = peer_slot peer;
            failures = (let f = RouteFailures (routes r slot route) in if f < 8 then f + 1 else f);
            blockedUntil = t + failure_delay failures;
            r = upd_route slot route (\<lambda>s. s\<lparr>RouteFailures := failures,
                  RouteBlockedUntil := (if blockedUntil > RouteBlockedUntil s then blockedUntil else RouteBlockedUntil s)\<rparr>) r;
            r = (if isPartyRobotAccount E (accID peer) then setPartyRobotRouteReadyUnsafe E peer route False t r else r) in
        if t < RouteDiagAt (routes r slot route) then r
        else upd_route slot route (RouteDiagAt_update (\<lambda>_. t + partyRouteDiagGap)) r)"

definition partyRouteInUseUnsafe :: "RobotVo \<Rightarrow> u8 \<Rightarrow> u8 \<Rightarrow> bool" where
  "partyRouteInUseUnsafe r slot route =
     (if slot \<ge> 4 \<or> route < 1 \<or> route > 2 then False
      else if PeerRoute (slots r slot) = route \<and> \<not> IsZero (PeerRouteAt (slots r slot)) then True
      else if RobotRouteReady (routes r slot route) \<or> length (ReliablePending (routes r slot route)) > 0 then True
      else let reply = TQOSReply (routes r slot route) in length (tr_packet reply) > 0 \<and> \<not> tr_acknowledged reply)"

definition shouldLogPartyRuntimeErrorUnsafe :: "time \<Rightarrow> RobotVo \<Rightarrow> bool \<times> RobotVo" where
  "shouldLogPartyRuntimeErrorUnsafe t r =
     (if t < partyRuntimeDiagAt r then (False, r) else (True, r\<lparr>partyRuntimeDiagAt := t + partyRuntimeDiagGap\<rparr>))"

definition markPartyRouteHealthyUnsafe :: "partyIPPeer \<Rightarrow> u8 \<Rightarrow> time \<Rightarrow> RobotVo \<Rightarrow> RobotVo" where
  "markPartyRouteHealthyUnsafe peer route t r =
     (if bad_route peer route then r
      else
        let slot = peer_slot peer;
            r = upd_route slot route (\<lambda>s. s\<lparr>RouteFailures := 0, RouteBlockedUntil := zero_time, RouteActivityAt := t\<rparr>) r;
            r = upd_slot slot (\<lambda>s. s\<lparr>PeerRoute := route, PeerRouteAt := t\<rparr>) r in
        if slot = 0 \<and> uniqueID peer \<noteq> 0
        then r\<lparr>partyLeaderTransportUnique := uniqueID peer, partyLeaderTransportAt := t\<rparr> else r)"

subsection \<open>Endpoints\<close>

definition net_contains :: "bytes \<times> bytes \<Rightarrow> bytes \<Rightarrow> bool" where
  "net_contains net addr \<longleftrightarrow>
     length addr = length (fst net) \<and>
     list_all (\<lambda>((n, m), a). n AND m = a AND m) (zip (zip (fst net) (snd net)) addr)"

text \<open>The advertised address of a peer: the inner one when it is in the local network, otherwise the outer one, or the other way round.\<close>

definition advertised_addr :: "partyIPPeer \<Rightarrow> (bytes \<times> bytes) option \<Rightarrow> bool \<Rightarrow> (bytes \<times> int) option" where
  "advertised_addr peer localNetwork alternate =
     (if peer_port peer = 0 then None
      else
        let innerFirst = (case (innerIP peer, localNetwork) of (Some inner, Some net) \<Rightarrow> net_contains net inner | _ \<Rightarrow> False);
            (primary, secondary) = (if innerFirst then (innerIP peer, outerIP peer) else (outerIP peer, innerIP peer));
            primary = (if alternate \<and> secondary \<noteq> None \<and> (primary = None \<or> secondary \<noteq> primary) then secondary else primary) in
        map_option (\<lambda>addr. (addr, uint (peer_port peer))) primary)"

definition partyPeerUDPAddrForNetwork :: "partyIPPeer \<Rightarrow> (bytes \<times> bytes) option \<Rightarrow> bool \<Rightarrow> (bytes \<times> int) option" where
  "partyPeerUDPAddrForNetwork peer localNetwork alternate =
     (case observedIP peer of
        Some obs \<Rightarrow>
          if observedPort peer \<noteq> 0 then Some (obs, uint (observedPort peer)) else advertised_addr peer localNetwork alternate
      | None \<Rightarrow> advertised_addr peer localNetwork alternate)"

definition partyPeerUDPAddr :: "partyIPPeer \<Rightarrow> (bytes \<times> int) option" where
  "partyPeerUDPAddr peer = partyPeerUDPAddrForNetwork peer None False"

definition partyPeerEndpointMatches :: "ip \<Rightarrow> u16 \<Rightarrow> bytes \<times> int \<Rightarrow> bool" where
  "partyPeerEndpointMatches addr port remote \<longleftrightarrow>
     addr \<noteq> None \<and> port \<noteq> 0 \<and> addr = Some (fst remote) \<and> port = word_of_int (snd remote)"

definition partyPeerKnownIP :: "partyIPPeer \<Rightarrow> bytes \<Rightarrow> bool" where
  "partyPeerKnownIP peer addr \<longleftrightarrow> innerIP peer = Some addr \<or> outerIP peer = Some addr \<or> observedIP peer = Some addr"

text \<open>\<open>remote\<close> is \<open>None\<close> for a nil address.\<close>

definition partyPeerForUDPUnsafe :: "RobotVo \<Rightarrow> (bytes \<times> int) option \<Rightarrow> u8 option \<Rightarrow> partyIPPeer option" where
  "partyPeerForUDPUnsafe r remote senderSlot =
     (case remote of
        None \<Rightarrow> None
      | Some addr \<Rightarrow>
          if snd addr \<le> 0 \<or> snd addr > 0xffff then None
          else
            case List.find (\<lambda>p. \<not> (uniqueID p = 0 \<and> accID p = 0) \<and>
                   (case senderSlot of None \<Rightarrow> True | Some s \<Rightarrow> slotKnown p \<and> peer_slot p = s) \<and>
                   (partyPeerEndpointMatches (observedIP p) (observedPort p) addr \<or> partyPeerEndpointMatches (outerIP p) (peer_port p) addr))
                 (partyPeers r) of
              Some p \<Rightarrow> Some p
            | None \<Rightarrow>
                (case senderSlot of
                   None \<Rightarrow> None
                 | Some s \<Rightarrow>
                     List.find (\<lambda>p. \<not> (uniqueID p = 0 \<and> accID p = 0) \<and> slotKnown p \<and> peer_slot p = s \<and> partyPeerKnownIP p (fst addr))
                       (partyPeers r)))"

definition learnPartyPeerEndpointUnsafe :: "partyIPPeer \<Rightarrow> bytes \<times> int \<Rightarrow> RobotVo \<Rightarrow> partyIPPeer \<times> RobotVo" where
  "learnPartyPeerEndpointUnsafe peer remote r =
     (if snd remote \<le> 0 \<or> snd remote > 0xffff \<or> \<not> slotKnown peer \<or> \<not> partyPeerKnownIP peer (fst remote) then (peer, r)
      else
        case index_of (\<lambda>p. partyPeerSameIdentity p peer \<and> slotKnown p \<and> peer_slot p = peer_slot peer) (partyPeers r) of
          None \<Rightarrow> (peer, r)
        | Some i \<Rightarrow>
            let learned = (partyPeers r ! i)\<lparr>observedIP := Some (fst remote), observedPort := word_of_int (snd remote)\<rparr> in
            (learned, r\<lparr>partyPeers := (partyPeers r)[i := learned]\<rparr>))"

definition partyRouteAvailableUnsafe :: "RobotVo \<Rightarrow> partyIPPeer \<Rightarrow> u8 \<Rightarrow> bool" where
  "partyRouteAvailableUnsafe r peer route =
     (if route = 1 then partyPeerUDPAddr peer \<noteq> None \<and> partyUDPConn r \<noteq> None \<and> partyUDPRunning r
      else if route = 2 then accID peer \<noteq> 0 \<and> partyRelayConn r \<noteq> None
      else False)"

definition partyRouteEligibleUnsafe :: "RobotVo \<Rightarrow> partyIPPeer \<Rightarrow> u8 \<Rightarrow> time \<Rightarrow> bool" where
  "partyRouteEligibleUnsafe r peer route t =
     (if \<not> slotKnown peer \<or> peer_slot peer \<ge> 4 \<or> \<not> partyRouteAvailableUnsafe r peer route then False
      else let blockedUntil = RouteBlockedUntil (routes r (peer_slot peer) route) in IsZero blockedUntil \<or> \<not> t < blockedUntil)"

definition partyRouteSendEligibleUnsafe :: "RobotVo \<Rightarrow> nat option \<Rightarrow> partyIPPeer \<Rightarrow> u8 \<Rightarrow> time \<Rightarrow> bool" where
  "partyRouteSendEligibleUnsafe r conn peer route t =
     (if bad_route peer route then False
      else
        let blockedUntil = RouteBlockedUntil (routes r (peer_slot peer) route) in
        if \<not> IsZero blockedUntil \<and> t < blockedUntil then False
        else if route = 1 then partyPeerUDPAddr peer \<noteq> None \<and> conn \<noteq> None
        else partyRouteAvailableUnsafe r peer route)"

definition partyAlternativeRouteUnsafe :: "RobotVo \<Rightarrow> partyIPPeer \<Rightarrow> u8 \<Rightarrow> time \<Rightarrow> u8" where
  "partyAlternativeRouteUnsafe r peer route t =
     (case List.find (\<lambda>c. c \<noteq> route \<and> partyRouteEligibleUnsafe r peer c t) [1, 2] of Some c \<Rightarrow> c | None \<Rightarrow> 0)"

definition partyRouteForPeerUnsafe :: "env \<Rightarrow> RobotVo \<Rightarrow> u8 \<Rightarrow> u8" where
  "partyRouteForPeerUnsafe E r peerSlot =
     (let peer = partyPeerForSlotUnsafe r peerSlot;
          t = now E;
          route = PeerRoute (slots r peerSlot) in
      if peerSlot < 4 \<and> \<not> IsZero (PeerRouteAt (slots r peerSlot)) \<and> (route = 1 \<or> route = 2) \<and>
         (\<not> isPartyRobotAccount E (accID peer) \<or> RobotRouteReady (routes r peerSlot route)) \<and>
         partyRouteEligibleUnsafe r peer route t
      then route
      else
        case (if isPartyRobotAccount E (accID peer) \<and> peerSlot < 4
              then List.find (\<lambda>c. RobotRouteReady (routes r peerSlot c) \<and> partyRouteEligibleUnsafe r peer c t) [1, 2] else None) of
          Some c \<Rightarrow> c
        | None \<Rightarrow>
            if partyRouteEligibleUnsafe r peer 1 t then 1
            else if partyRouteEligibleUnsafe r peer 2 t then 2
            else if partyRouteAvailableUnsafe r peer 1 then 1
            else if partyRouteAvailableUnsafe r peer 2 then 2
            else 1)"

subsection \<open>Sending over a route\<close>

definition buildPartyRelayPacket :: "u16 \<Rightarrow> u32 \<Rightarrow> u32 \<Rightarrow> bytes \<Rightarrow> bytes option" where
  "buildPartyRelayPacket t src dst payload =
     (let n = 12 + length payload in
      if n > partyRelayMaxPacketSize \<or> n > 65535 then None
      else Some (put16 t @ put16 (of_nat n) @ put32 src @ put32 dst @ payload))"

text \<open>\<open>True\<close> when the packet was taken into the writer's channel.\<close>

definition enqueuePartyRelayPacketUnsafe :: "conn \<Rightarrow> bytes \<Rightarrow> RobotVo \<Rightarrow> bool \<times> RobotVo" where
  "enqueuePartyRelayPacketUnsafe conn packet r =
     (if partyRelayConn r \<noteq> Some conn then (False, r)
      else if length packet < 12 \<or> length packet > partyRelayMaxPacketSize \<or> unat (le16 (slice 2 4 packet)) \<noteq> length packet then (False, r)
      else
        let r = startPartyRelayWriterUnsafe conn r in
        case partyRelayWriter r of
          None \<Rightarrow> (False, r)
        | Some (c, packets) \<Rightarrow>
            if length packets < partyRelayWriteQueueSize
            then (True, r\<lparr>partyRelayWriter := Some (c, packets @ [packet])\<rparr>)
            else (False, r))"

definition detachPartyRelayConnUnsafe :: "env \<Rightarrow> conn \<Rightarrow> RobotVo \<Rightarrow> bool \<times> RobotVo" where
  "detachPartyRelayConnUnsafe E conn r =
     (if partyRelayConn r \<noteq> Some conn then (False, r)
      else
        let r = stopPartyRelayWriterUnsafe (Some conn)
                  (r\<lparr>partyRelayConn := None, partyRelayGeneration := partyRelayGeneration r + 1, partyRelayConnecting := False\<rparr>) in
        if rv_State r = StateRun then
          let (active, r) = partyActiveUnsafe E r in
          if active then
            let r = fold (\<lambda>slot r.
                  let peer = partyPeerForSlotUnsafe r slot in
                  if partyPeerIdentityKnown peer \<and> partyRouteInUseUnsafe r slot 2
                  then markPartyRouteFailureUnsafe E peer 2 (now E) r else r) [0, 1, 2, 3] r;
                r = schedulePartyRelayRetryUnsafe (now E) r in
            (rv_State r \<noteq> StateStop, r)
          else (rv_State r \<noteq> StateStop, r)
        else (rv_State r \<noteq> StateStop, r))"

text \<open>
  A datagram is refused when it exceeds the MTU; otherwise the network answers as \<open>udpScript\<close> says (an exhausted
  script is an error).
\<close>

definition writePartyUDPDatagramWithMTU :: "nat option \<Rightarrow> bytes \<Rightarrow> bytes \<times> int \<Rightarrow> int \<Rightarrow> RobotVo \<Rightarrow> bool \<times> RobotVo" where
  "writePartyUDPDatagramWithMTU conn payload remote mtu r =
     (if conn = None then (False, r)
      else
        let mtu = (if mtu \<le> 0 \<or> mtu > partyDefaultUDPMTU then partyDefaultUDPMTU else mtu) in
        if int (length payload) > mtu then (False, r)
        else case udpScript r of
          True # script \<Rightarrow> (True, r\<lparr>udpScript := script, udpSent := udpSent r @ [(fst remote, snd remote, payload)]\<rparr>)
        | False # script \<Rightarrow> (False, r\<lparr>udpScript := script\<rparr>)
        | [] \<Rightarrow> (False, r))"

text \<open>\<open>True\<close> when the packet was sent (route 1) or queued (route 2).\<close>

definition sendPartyTransportUnsafe :: "env \<Rightarrow> nat option \<Rightarrow> partyIPPeer \<Rightarrow> u8 \<Rightarrow> bytes \<Rightarrow> RobotVo \<Rightarrow> bool \<times> RobotVo" where
  "sendPartyTransportUnsafe E conn peer route payload r =
     (if route = 1 then
        let alternate = slotKnown peer \<and> peer_slot peer < 4 \<and> RouteFailures (routes r (peer_slot peer) route) > 0 in
        case partyPeerUDPAddrForNetwork peer (partyUDPNetwork r) alternate of
          None \<Rightarrow> (False, markPartyRouteFailureUnsafe E peer route (now E) r)
        | Some remote \<Rightarrow>
            if conn = None then (False, markPartyRouteFailureUnsafe E peer route (now E) r)
            else
              let mtu = (if partyUDPMTU r \<le> 0 then partyDefaultUDPMTU else partyUDPMTU r);
                  (ok, r) = writePartyUDPDatagramWithMTU conn payload remote mtu r in
              if ok then (True, r) else (False, markPartyRouteFailureUnsafe E peer route (now E) r)
      else if route = 2 then
        if accID peer = 0 then (False, markPartyRouteFailureUnsafe E peer route (now E) r)
        else case partyRelayConn r of
          None \<Rightarrow> (False, markPartyRouteFailureUnsafe E peer route (now E) r)
        | Some relay \<Rightarrow>
            (case buildPartyRelayPacket 1 (UID r) (accID peer) payload of
               None \<Rightarrow> (False, markPartyRouteFailureUnsafe E peer route (now E) r)
             | Some packet \<Rightarrow>
                 let (ok, r) = enqueuePartyRelayPacketUnsafe relay packet r in
                 if ok then (True, r)
                 else if partyRelayConn r = Some relay then
                   let (_, r) = detachPartyRelayConnUnsafe E relay r in
                   (False, r\<lparr>closedConns := closedConns r @ [relay]\<rparr>)
                 else (False, r))
      else (False, r))"

fun group_frames :: "nat \<Rightarrow> bytes list \<Rightarrow> bytes list \<Rightarrow> bytes list option" where
  "group_frames maxSize groups [] = Some groups"
| "group_frames maxSize groups (frame # frames) =
     (if length frame = 0 then group_frames maxSize groups frames
      else if length frame > maxSize then None
      else if groups = [] \<or> length (last groups) + length frame > maxSize then group_frames maxSize (groups @ [frame]) frames
      else group_frames maxSize (butlast groups @ [last groups @ frame]) frames)"

definition groupPartyTransportFrames :: "bytes list \<Rightarrow> int \<Rightarrow> bytes list option" where
  "groupPartyTransportFrames frames maxSize =
     (if maxSize \<le> 0 then None else group_frames (nat maxSize) [] frames)"

end
