(* ===== verification/Party_Transport.thy ===== *)
theory Party_Transport
  imports Party_Links
begin

section \<open>Reliable delivery and the handshake between party members\<close>

text \<open>
  \<open>party_tqos.go\<close> and \<open>party_reliable.go\<close>: the handshake that opens a route (states 3, 0, 1, 2), replies that are
  repeated until acknowledged, reliable packets in a window of four for each route with doubling retry delays, recovery
  of a stalled route, and the probing of other robots. \<open>flushPartyReliableUnsafe\<close> and its companions run on every
  tick of the supervisor.
\<close>

subsection \<open>Sequences and resets\<close>

definition nextPartyTQOSSequenceUnsafe :: "u8 \<Rightarrow> u8 \<Rightarrow> bool \<Rightarrow> RobotVo \<Rightarrow> (u32 \<times> RobotVo) option" where
  "nextPartyTQOSSequenceUnsafe peerSlot route reliable r =
     (if peerSlot \<ge> 4 \<or> route \<ge> 3 then None
      else if reliable then
        Some (TQOSReliableSeq (routes r peerSlot route), upd_route peerSlot route (\<lambda>s. s\<lparr>TQOSReliableSeq := TQOSReliableSeq s + 1\<rparr>) r)
      else
        Some (TQOSSeq (routes r peerSlot route), upd_route peerSlot route (\<lambda>s. s\<lparr>TQOSSeq := TQOSSeq s + 1\<rparr>) r))"

definition resetPartyTQOSRouteUnsafe :: "u8 \<Rightarrow> u8 \<Rightarrow> RobotVo \<Rightarrow> RobotVo" where
  "resetPartyTQOSRouteUnsafe slot route r =
     (if slot \<ge> 4 \<or> route < 1 \<or> route > 2 then r
      else
        let r = upd_route slot route (\<lambda>s. s\<lparr>TQOSSeq := 0, TQOSReliableSeq := 0, TQOSReply := zero_reply, ReliablePending := [],
                  TQOSReceived := zero_window, TQOSEpoch := zero_epoch, TQOSCodec := zero_codec, TQOSCodecKnown := False\<rparr>) r;
            r = clearPartyRobotRouteReadyUnsafe slot route r in
        upd_route slot route (RouteActivityAt_update (\<lambda>_. zero_time)) r)"

definition resetPartyTQOSTransportUnsafe :: "RobotVo \<Rightarrow> RobotVo" where
  "resetPartyTQOSTransportUnsafe r =
     r\<lparr>partyLeaderTransportUnique := 0, partyLeaderTransportAt := zero_time, routes := (\<lambda>_ _. zero_route), slots := (\<lambda>_. zero_slot),
       partyRuntimeDiagAt := zero_time, partyDungeonFollow := [], partyDungeonEnteredAt := zero_time, partyDungeonLastAt := zero_time,
       partyDungeonFlags := 0, partySkillNextAt := zero_time, partySkillRecoverAt := zero_time, partySkillBlockedUntil := zero_time\<rparr>"

definition resetPartyTQOSPeerUnsafe :: "u8 \<Rightarrow> RobotVo \<Rightarrow> RobotVo" where
  "resetPartyTQOSPeerUnsafe slot r =
     (if slot \<ge> 4 then r
      else r\<lparr>routes := (routes r)(slot := (\<lambda>_. zero_route)), slots := (slots r)(slot := zero_slot),
             partyDungeonFollow := filter (\<lambda>p. fp_peerSlot p \<noteq> slot) (partyDungeonFollow r)\<rparr>)"

definition rememberPartyPeerRouteUnsafe :: "u8 \<Rightarrow> u8 \<Rightarrow> time \<Rightarrow> RobotVo \<Rightarrow> RobotVo" where
  "rememberPartyPeerRouteUnsafe peerSlot route t r =
     (if peerSlot \<ge> 4 \<or> (route \<noteq> 1 \<and> route \<noteq> 2) then r
      else markPartyRouteHealthyUnsafe (partyPeerForSlotUnsafe r peerSlot) route t r)"

subsection \<open>Reliable packets\<close>

definition partyReliableWindow :: nat where "partyReliableWindow = 4"
definition partyReliableRetryInitial :: duration where "partyReliableRetryInitial = 500 * Millisecond"
definition partyReliableRetryMax :: duration where "partyReliableRetryMax = 5 * Second"
definition partyReliableRecoverAfter :: duration where "partyReliableRecoverAfter = 12 * Second"
definition partyReliableRecoverCooldown :: duration where "partyReliableRecoverCooldown = 30 * Second"
definition partySkillFailureCooldown :: duration where "partySkillFailureCooldown = 30 * Second"

definition HasPrefix :: "string \<Rightarrow> string \<Rightarrow> bool" where
  "HasPrefix s p \<longleftrightarrow> take (length p) s = p"

definition sendPartyReliableRouteUnsafe ::
    "env \<Rightarrow> nat option \<Rightarrow> partyIPPeer \<Rightarrow> u8 \<Rightarrow> u8 \<Rightarrow> bytes list \<Rightarrow> string \<Rightarrow> time \<Rightarrow> RobotVo \<Rightarrow> bool \<times> RobotVo" where
  "sendPartyReliableRouteUnsafe E conn peer route flags records purpose t r =
     (if bad_route peer route then (False, r)
      else if \<not> partyRouteSendEligibleUnsafe r conn peer route t then (False, r)
      else
        let slot = peer_slot peer in
        if length (ReliablePending (routes r slot route)) \<ge> partyReliableWindow then (False, r)
        else
          let sequence = TQOSReliableSeq (routes r slot route) in
          case buildPartyReliablePacketChecked sequence (peer_slot (partySelfPeer r)) flags records of
            None \<Rightarrow> (False, r)
          | Some packet \<Rightarrow>
              let (ok, r) = sendPartyTransportUnsafe E conn peer route packet r in
              if \<not> ok then (False, r)
              else (True, upd_route slot route (\<lambda>s. s\<lparr>TQOSReliableSeq := TQOSReliableSeq s + 1,
                     ReliablePending := ReliablePending s @
                       [\<lparr>rp_packet = packet, rp_sequence = sequence, rp_firstSentAt = t, rp_nextRetry = t + partyReliableRetryInitial,
                         rp_retryDelay = partyReliableRetryInitial, rp_retries = 0, rp_purpose = purpose\<rparr>]\<rparr>) r))"

definition sendPartyReliableUnsafe ::
    "env \<Rightarrow> nat option \<Rightarrow> partyIPPeer \<Rightarrow> u8 \<Rightarrow> bytes list \<Rightarrow> string \<Rightarrow> time \<Rightarrow> RobotVo \<Rightarrow> bool \<times> RobotVo" where
  "sendPartyReliableUnsafe E conn peer flags records purpose t r =
     (if \<not> slotKnown peer \<or> peer_slot peer \<ge> 4 \<or> length records = 0 then (False, r)
      else
        let route = partyRouteForPeerUnsafe E r (peer_slot peer);
            (ok, r) = sendPartyReliableRouteUnsafe E conn peer route flags records purpose t r in
        if ok then (True, r)
        else
          let alternate = partyAlternativeRouteUnsafe r peer route t in
          if alternate = 0 then (False, r)
          else sendPartyReliableRouteUnsafe E conn peer alternate flags records purpose t r)"

definition recoverPartyRouteUnsafe ::
    "env \<Rightarrow> nat option \<Rightarrow> partyIPPeer \<Rightarrow> u8 \<Rightarrow> time \<Rightarrow> partyReliablePending \<Rightarrow> RobotVo \<Rightarrow> RobotVo" where
  "recoverPartyRouteUnsafe E conn peer route t stalled r =
     (let slot = peer_slot peer;
          r = upd_route slot route (RouteRecoveryAt_update (\<lambda>_. t)) r;
          r = (if HasPrefix (rp_purpose stalled) ''skill-'' then r\<lparr>partySkillBlockedUntil := t + partySkillFailureCooldown\<rparr> else r);
          r = markPartyRouteFailureUnsafe E peer route t r;
          r = resetPartyTQOSRouteUnsafe slot route r in
      case nextPartyTQOSSequenceUnsafe slot route False r of
        None \<Rightarrow> r
      | Some (sequence, r) \<Rightarrow>
          snd (sendPartyTransportUnsafe E conn peer route
            (buildPartyTQOSPacket sequence (peer_slot (partySelfPeer r)) 0 3 route \<lparr>tc_key = 0x7e, tc_rotate = 0\<rparr>) r))"

text \<open>The retry loop over the pending packets of a route.\<close>

definition retried :: "time \<Rightarrow> bool \<Rightarrow> partyReliablePending \<Rightarrow> partyReliablePending" where
  "retried t ok item =
     (let delay = (if rp_retryDelay item * 2 > partyReliableRetryMax then partyReliableRetryMax else rp_retryDelay item * 2) in
      item\<lparr>rp_retries := (if ok then rp_retries item + 1 else rp_retries item), rp_retryDelay := delay, rp_nextRetry := t + delay\<rparr>)"

fun retry_items ::
    "env \<Rightarrow> nat option \<Rightarrow> partyIPPeer \<Rightarrow> u8 \<Rightarrow> time \<Rightarrow> partyReliablePending list \<Rightarrow> RobotVo \<Rightarrow> partyReliablePending list \<times> RobotVo" where
  "retry_items E conn peer route t [] r = ([], r)"
| "retry_items E conn peer route t (item # items) r =
     (if IsZero (rp_nextRetry item) \<or> t < rp_nextRetry item then
        let (rest, r) = retry_items E conn peer route t items r in (item # rest, r)
      else
        let (ok, r) = sendPartyTransportUnsafe E conn peer route (rp_packet item) r;
            (rest, r) = retry_items E conn peer route t items r in
        (retried t ok item # rest, r))"

definition flush_route :: "env \<Rightarrow> nat option \<Rightarrow> time \<Rightarrow> partyIPPeer \<Rightarrow> u8 \<Rightarrow> u8 \<Rightarrow> RobotVo \<Rightarrow> RobotVo" where
  "flush_route E conn t peer slot route r =
     (case ReliablePending (routes r slot route) of
        [] \<Rightarrow> r
      | oldest # rest \<Rightarrow>
          let lastRecovery = RouteRecoveryAt (routes r slot route) in
          if time_Sub t (rp_firstSentAt oldest) \<ge> partyReliableRecoverAfter \<and>
             (IsZero lastRecovery \<or> time_Sub t lastRecovery \<ge> partyReliableRecoverCooldown)
          then recoverPartyRouteUnsafe E conn peer route t oldest r
          else
            let (items, r) = retry_items E conn peer route t (oldest # rest) r in
            upd_route slot route (ReliablePending_update (\<lambda>_. items)) r)"

definition flushPartyReliableUnsafe :: "env \<Rightarrow> nat option \<Rightarrow> time \<Rightarrow> RobotVo \<Rightarrow> RobotVo" where
  "flushPartyReliableUnsafe E conn t r =
     fold (\<lambda>slot r.
       let peer = partyPeerForSlotUnsafe r slot in
       if \<not> partyPeerIdentityKnown peer then r
       else fold (\<lambda>route r. flush_route E conn t peer slot route r) [1, 2] r) [0, 1, 2, 3] r"

definition acknowledgePartyReliableUnsafe :: "bytes \<Rightarrow> u8 \<Rightarrow> partyIPPeer \<Rightarrow> time \<Rightarrow> RobotVo \<Rightarrow> bool \<times> RobotVo" where
  "acknowledgePartyReliableUnsafe frame route peer t r =
     (if length frame \<noteq> 8 \<or> frame ! 0 \<noteq> 0 \<or> bad_route peer route \<or> frame ! 1 \<noteq> peer_slot peer then (False, r)
      else
        let sequence = le32 (slice 2 6 frame) - 1;
            items = ReliablePending (routes r (peer_slot peer) route) in
        case index_of (\<lambda>item. rp_sequence item = sequence) items of
          None \<Rightarrow> (False, r)
        | Some i \<Rightarrow>
            (True, markPartyRouteHealthyUnsafe peer route t
               (upd_route (peer_slot peer) route (ReliablePending_update (\<lambda>_. remove_at i items)) r)))"

definition partyReliablePendingCountUnsafe :: "RobotVo \<Rightarrow> u8 \<Rightarrow> nat" where
  "partyReliablePendingCountUnsafe r slot =
     (if slot \<ge> 4 then 0 else length (ReliablePending (routes r slot 1)) + length (ReliablePending (routes r slot 2)))"

definition partyReliableWindowFullUnsafe :: "RobotVo \<Rightarrow> u8 \<Rightarrow> bool" where
  "partyReliableWindowFullUnsafe r slot =
     (if slot \<ge> 4 then False
      else list_all (\<lambda>route. \<not> length (ReliablePending (routes r slot route)) < partyReliableWindow) [1, 2])"

definition partyReliablePurposePendingUnsafe :: "RobotVo \<Rightarrow> u8 \<Rightarrow> string \<Rightarrow> bool" where
  "partyReliablePurposePendingUnsafe r slot prefix =
     (if slot \<ge> 4 then False
      else list_ex (\<lambda>route. list_ex (\<lambda>item. HasPrefix (rp_purpose item) prefix) (ReliablePending (routes r slot route))) [1, 2])"

definition cancelPartyDungeonReliableUnsafe :: "env \<Rightarrow> RobotVo \<Rightarrow> RobotVo" where
  "cancelPartyDungeonReliableUnsafe E r =
     fold (\<lambda>slot r.
       let peer = partyPeerForSlotUnsafe r slot in
       if \<not> partyPeerIdentityKnown peer then r
       else fold (\<lambda>route r.
         if \<not> list_ex (\<lambda>item. rp_purpose item = ''follow'' \<or> HasPrefix (rp_purpose item) ''skill-'') (ReliablePending (routes r slot route)) then r
         else
           let r = resetPartyTQOSRouteUnsafe slot route r in
           if \<not> partyRouteAvailableUnsafe r peer route then r
           else case nextPartyTQOSSequenceUnsafe slot route False r of
             None \<Rightarrow> r
           | Some (sequence, r) \<Rightarrow>
               snd (sendPartyTransportUnsafe E (partyUDPConn r) peer route
                 (buildPartyTQOSPacket sequence (peer_slot (partySelfPeer r)) 0 3 route \<lparr>tc_key = 0x7e, tc_rotate = 0\<rparr>) r))
         [1, 2] r) [0, 1, 2, 3] r"


subsection \<open>Replies to the handshake\<close>

definition partyTQOSRetryInterval :: duration where "partyTQOSRetryInterval = Second"
definition partyTQOSMaxRetries :: u8 where "partyTQOSMaxRetries = 6"
definition partyTQOSSlowRetry :: duration where "partyTQOSSlowRetry = 5 * Second"
definition partyTQOSEpochReuseDelay :: duration where "partyTQOSEpochReuseDelay = partyTQOSRetryInterval * uint partyTQOSMaxRetries"
definition partyRobotProbeCooldown :: duration where "partyRobotProbeCooldown = 30 * Second"
definition partyRobotHealthInterval :: duration where "partyRobotHealthInterval = 10 * Second"

definition upd_reply :: "u8 \<Rightarrow> u8 \<Rightarrow> (partyTQOSReliableReply \<Rightarrow> partyTQOSReliableReply) \<Rightarrow> RobotVo \<Rightarrow> RobotVo" where
  "upd_reply slot route f = upd_route slot route (\<lambda>s. s\<lparr>TQOSReply := f (TQOSReply s)\<rparr>)"

definition flush_reply :: "env \<Rightarrow> nat option \<Rightarrow> time \<Rightarrow> partyIPPeer \<Rightarrow> u8 \<Rightarrow> u8 \<Rightarrow> RobotVo \<Rightarrow> RobotVo" where
  "flush_reply E conn t peer slot route r =
     (let reply = TQOSReply (routes r slot route) in
      if length (tr_packet reply) = 0 \<or> tr_acknowledged reply \<or> IsZero (tr_nextRetry reply) \<or> t < tr_nextRetry reply then r
      else if tr_exhausted reply then
        let (_, r) = sendPartyTransportUnsafe E conn peer route (tr_packet reply) r in
        upd_reply slot route (\<lambda>p. p\<lparr>tr_nextRetry := t + partyTQOSSlowRetry\<rparr>) r
      else if tr_retries reply \<ge> partyTQOSMaxRetries then
        let r = upd_reply slot route (\<lambda>p. p\<lparr>tr_exhausted := True, tr_nextRetry := t + partyTQOSSlowRetry\<rparr>) r in
        markPartyRouteFailureUnsafe E peer route t r
      else
        let (ok, r) = sendPartyTransportUnsafe E conn peer route (tr_packet reply) r in
        if \<not> ok then upd_reply slot route (\<lambda>p. p\<lparr>tr_nextRetry := t + partyTQOSRetryInterval\<rparr>) r
        else upd_reply slot route (\<lambda>p. p\<lparr>tr_retries := tr_retries p + 1, tr_nextRetry := t + partyTQOSRetryInterval\<rparr>) r)"

definition flushPartyTQOSRepliesUnsafe :: "env \<Rightarrow> nat option \<Rightarrow> time \<Rightarrow> RobotVo \<Rightarrow> RobotVo" where
  "flushPartyTQOSRepliesUnsafe E conn t r =
     fold (\<lambda>slot r.
       let peer = partyPeerForSlotUnsafe r slot in
       if uniqueID peer = 0 \<and> accID peer = 0 then r
       else fold (\<lambda>route r. flush_reply E conn t peer slot route r) [1, 2] r) [0, 1, 2, 3] r"

definition partyTQOSReplyAcknowledgedUnsafe :: "bytes \<Rightarrow> u8 \<Rightarrow> partyIPPeer \<Rightarrow> RobotVo \<Rightarrow> bool \<times> RobotVo" where
  "partyTQOSReplyAcknowledgedUnsafe frame route peer r =
     (if length frame \<noteq> 8 \<or> frame ! 0 \<noteq> 0 \<or> frame ! 1 \<noteq> peer_slot peer \<or> peer_slot peer \<ge> 4 \<or> route \<ge> 3 then (False, r)
      else
        let packet = tr_packet (TQOSReply (routes r (peer_slot peer) route)) in
        if length packet < 5 then (False, r)
        else if le32 (slice 2 6 frame) \<noteq> le32 (slice 1 5 packet) + 1 then (False, r)
        else (True, upd_reply (peer_slot peer) route
               (\<lambda>p. p\<lparr>tr_acknowledged := True, tr_exhausted := False, tr_nextRetry := zero_time\<rparr>) r))"

definition markPartyRobotPeerReadyUnsafe :: "env \<Rightarrow> partyIPPeer \<Rightarrow> u8 \<Rightarrow> time \<Rightarrow> RobotVo \<Rightarrow> RobotVo" where
  "markPartyRobotPeerReadyUnsafe E peer route t r = setPartyRobotRouteReadyUnsafe E peer route True t r"

definition probe_route :: "env \<Rightarrow> nat option \<Rightarrow> time \<Rightarrow> partyIPPeer \<Rightarrow> u8 \<Rightarrow> u8 \<Rightarrow> RobotVo \<Rightarrow> RobotVo" where
  "probe_route E conn t peer slot route r =
     (let reply = TQOSReply (routes r slot route);
          lastActivity = RouteActivityAt (routes r slot route) in
      if \<not> RobotRouteReady (routes r slot route) then r
      else if length (tr_packet reply) = 0 \<or> \<not> tr_acknowledged reply then r
      else if IsZero lastActivity \<or> time_Sub t lastActivity < partyRobotHealthInterval then r
      else
        let r = upd_reply slot route (\<lambda>p. p\<lparr>tr_acknowledged := False, tr_exhausted := False, tr_retries := 0,
                  tr_nextRetry := t + partyTQOSRetryInterval\<rparr>) r in
        snd (sendPartyTransportUnsafe E conn peer route (tr_packet reply) r))"

definition probePartyRobotPeerHealthUnsafe :: "env \<Rightarrow> nat option \<Rightarrow> time \<Rightarrow> RobotVo \<Rightarrow> RobotVo" where
  "probePartyRobotPeerHealthUnsafe E conn t r =
     fold (\<lambda>slot r.
       let peer = partyPeerForSlotUnsafe r slot in
       if \<not> isPartyRobotAccount E (accID peer) then r
       else fold (\<lambda>route r. probe_route E conn t peer slot route r) [1, 2] r) [0, 1, 2, 3] r"

definition matchesRequestEpoch :: "partyTQOSReliableReply \<Rightarrow> partyTQOSPacket \<Rightarrow> bool" where
  "matchesRequestEpoch p request \<longleftrightarrow>
     tr_requestKnown p \<and> length (tr_packet p) \<noteq> 0 \<and> tr_requestType p = tp_typ request \<and> tr_requestFlags p = tp_flags request \<and>
     tr_requestCodec p = tp_codec request"

definition partyTQOSSequenceAfter :: "u32 \<Rightarrow> u32 \<Rightarrow> bool" where
  "partyTQOSSequenceAfter sequence previous \<longleftrightarrow> sint (sequence - previous) > 0"

definition new_reliable_reply :: "env \<Rightarrow> u8 \<Rightarrow> u8 \<Rightarrow> partyTQOSPacket \<Rightarrow> RobotVo \<Rightarrow> bytes option \<times> RobotVo" where
  "new_reliable_reply E peerSlot route request r =
     (case nextPartyTQOSSequenceUnsafe peerSlot route True r of
        None \<Rightarrow> (None, r)
      | Some (sequence, r) \<Rightarrow>
          let packet = buildPartyTQOSPacket sequence (peer_slot (partySelfPeer r)) (tp_flags request) 2 route (tp_codec request) in
          (Some packet,
           upd_reply peerSlot route (\<lambda>_. zero_reply\<lparr>tr_packet := packet, tr_nextRetry := now E + partyTQOSRetryInterval,
             tr_requestKnown := True, tr_requestType := tp_typ request, tr_requestFlags := tp_flags request,
             tr_requestCodec := tp_codec request, tr_latestRequestSequence := tp_sequence request\<rparr>) r))"

definition partyTQOSReliableReplyUnsafe :: "env \<Rightarrow> u8 \<Rightarrow> u8 \<Rightarrow> partyTQOSPacket \<Rightarrow> RobotVo \<Rightarrow> bytes option \<times> RobotVo" where
  "partyTQOSReliableReplyUnsafe E peerSlot route request r =
     (if peerSlot \<ge> 4 \<or> route \<ge> 3 then (None, r)
      else
        let reply = TQOSReply (routes r peerSlot route) in
        if matchesRequestEpoch reply request then
          let newerRequest = partyTQOSSequenceAfter (tp_sequence request) (tr_latestRequestSequence reply) in
          if \<not> tr_acknowledged reply then
            (Some (tr_packet reply),
             if newerRequest then upd_reply peerSlot route (\<lambda>p. p\<lparr>tr_latestRequestSequence := tp_sequence request\<rparr>) r else r)
          else if \<not> newerRequest then (Some (tr_packet reply), r)
          else new_reliable_reply E peerSlot route request r
        else new_reliable_reply E peerSlot route request r)"

definition epoch_matches :: "partyTQOSEpoch \<Rightarrow> partyTQOSPacket \<Rightarrow> bool" where
  "epoch_matches e request \<longleftrightarrow> ep_initialized e \<and> ep_flags e = tp_flags request \<and> ep_codec e = tp_codec request"

definition beginPartyTQOSEpochUnsafe :: "u8 \<Rightarrow> u8 \<Rightarrow> partyTQOSPacket \<Rightarrow> time \<Rightarrow> RobotVo \<Rightarrow> RobotVo" where
  "beginPartyTQOSEpochUnsafe peerSlot route request t r =
     (if peerSlot \<ge> 4 \<or> route \<ge> 3 then r
      else
        let epoch = TQOSEpoch (routes r peerSlot route) in
        if epoch_matches epoch request \<and> time_Sub t (ep_startedAt epoch) < partyTQOSEpochReuseDelay then r
        else
          let r = resetPartyTQOSRouteUnsafe peerSlot route r in
          upd_route peerSlot route (\<lambda>s. s\<lparr>TQOSEpoch :=
            \<lparr>ep_flags = tp_flags request, ep_codec = tp_codec request, ep_startedAt = t, ep_initialized = True\<rparr>\<rparr>) r)"

definition preferred_codec :: "RobotVo \<Rightarrow> u8 \<Rightarrow> u8 \<Rightarrow> partyTQOSCodec option" where
  "preferred_codec r slot route =
     (if slot < 4 \<and> TQOSCodecKnown (routes r slot route) then Some (TQOSCodec (routes r slot route)) else None)"

definition partyTQOSPayloadAuthenticatesPeerUnsafe :: "RobotVo \<Rightarrow> bytes \<Rightarrow> u8 \<Rightarrow> partyIPPeer \<Rightarrow> bool" where
  "partyTQOSPayloadAuthenticatesPeerUnsafe r payload route peer =
     (if \<not> slotKnown peer \<or> route < 1 \<or> route > 2 then False
      else case splitPartyTransportFrames payload of
        None \<Rightarrow> False
      | Some frames \<Rightarrow>
          list_ex (\<lambda>frame.
            \<not> (length frame < 9 \<or> frame ! 0 = 0 \<or> frame ! 7 \<noteq> peer_slot peer) \<and>
            (case parsePartyTQOSPacketWithCodec frame route (preferred_codec r (peer_slot peer) route) of
               None \<Rightarrow> False
             | Some request \<Rightarrow> tp_senderSlot request = peer_slot peer \<and> tp_route request = route)) frames)"

subsection \<open>Following a leader through a dungeon\<close>

definition partyDungeonActivityTimeout :: duration where "partyDungeonActivityTimeout = 15 * Second"
definition partyDungeonEntryTimeout :: duration where "partyDungeonEntryTimeout = 30 * Minute"

definition partyDungeonStateCommand :: u16 where "partyDungeonStateCommand = 0x0004"
definition partyDungeonEnvelopeCommand :: u16 where "partyDungeonEnvelopeCommand = 0x0051"
definition partyDungeonEnvelopeMinBodySize :: nat where "partyDungeonEnvelopeMinBodySize = 26"
definition partyDungeonEnvelopePayloadOffset :: nat where "partyDungeonEnvelopePayloadOffset = 22"
definition partyDungeonEnvelopeChecksumOffsets :: "nat list" where "partyDungeonEnvelopeChecksumOffsets = [10, 18]"

text \<open>Replacing an identity at the given offsets: the number of replacements and the new payload.\<close>

definition replace_ids :: "nat list \<Rightarrow> u16 \<Rightarrow> u16 \<Rightarrow> bytes \<Rightarrow> nat \<times> bytes" where
  "replace_ids offsets sourceID targetID payload =
     fold (\<lambda>offset (replacements, payload).
       if le16 (slice offset (offset + 2) payload) \<noteq> sourceID then (replacements, payload)
       else (replacements + 1, copy_into offset (put16 targetID) payload)) offsets (0, payload)"

definition rewritePartyDungeonEnvelopeIdentity :: "bytes \<Rightarrow> u16 \<Rightarrow> u16 \<Rightarrow> nat \<times> bytes" where
  "rewritePartyDungeonEnvelopeIdentity payload sourceID targetID =
     (if length payload < 6 then (0, payload) else replace_ids [2, 4] sourceID targetID payload)"

definition rewritePartyDungeonStateIdentity :: "bytes \<Rightarrow> u16 \<Rightarrow> u16 \<Rightarrow> nat \<times> bytes" where
  "rewritePartyDungeonStateIdentity payload sourceID targetID =
     (if length payload < 15 \<or> payload ! 0 \<noteq> 1 then (0, payload) else replace_ids [3, 7] sourceID targetID payload)"

definition put_checksums :: "bytes \<Rightarrow> bytes \<Rightarrow> bytes" where
  "put_checksums checksum body = fold (\<lambda>offset body. copy_into offset checksum body) partyDungeonEnvelopeChecksumOffsets body"

definition rewritePartyDungeonBody :: "bytes \<Rightarrow> u16 \<Rightarrow> u16 \<Rightarrow> (bytes \<times> u16) option" where
  "rewritePartyDungeonBody body sourceID targetID =
     (if length body < 7 \<or> body ! 0 \<noteq> 1 \<or> sourceID = 0 \<or> targetID = 0 \<or> sourceID = targetID then None
      else
        let command = le16 (slice 1 3 body) in
        if command = partyDungeonEnvelopeCommand then
          if length body < partyDungeonEnvelopeMinBodySize then None
          else if slice 3 7 body \<noteq> partyPayloadChecksum (drop 7 body) then None
          else
            let inner = partyPayloadChecksum (drop partyDungeonEnvelopePayloadOffset body) in
            if \<not> list_all (\<lambda>offset. slice offset (offset + 4) body = inner) partyDungeonEnvelopeChecksumOffsets then None
            else
              let (replacements, payload) =
                    rewritePartyDungeonEnvelopeIdentity (drop partyDungeonEnvelopePayloadOffset body) sourceID targetID in
              if replacements = 0 then None
              else
                let followBody = take partyDungeonEnvelopePayloadOffset body @ payload;
                    followBody = put_checksums (partyPayloadChecksum payload) followBody;
                    followBody = copy_into 3 (partyPayloadChecksum (drop 7 followBody)) followBody in
                Some (followBody, command)
        else if command = partyDungeonStateCommand then
          let plain = map (\<lambda>b. b XOR 0x7e) (drop 7 body) in
          if slice 3 7 body \<noteq> partyPayloadChecksum plain then None
          else
            let (replacements, plain) = rewritePartyDungeonStateIdentity plain sourceID targetID in
            if replacements = 0 then None
            else Some (take 3 body @ partyPayloadChecksum plain @ map (\<lambda>b. b XOR 0x7e) plain, command)
        else None)"

function rewrite_records :: "bytes list \<Rightarrow> bytes \<Rightarrow> u16 \<Rightarrow> u16 \<Rightarrow> bytes list" where
  "rewrite_records records body sourceID targetID =
     (if length body < 2 then (if length body \<noteq> 0 then [] else records)
      else
        let n = unat (le16 (take 2 body));
            body = drop 2 body in
        if n = 0 \<or> n > length body then []
        else rewrite_records
          (case rewritePartyDungeonBody (take n body) sourceID targetID of
             None \<Rightarrow> records
           | Some (record, _) \<Rightarrow> records @ [record])
          (drop n body) sourceID targetID)"
  by auto
termination by (relation "measure (\<lambda>(records, body, s, t). length body)") auto

declare rewrite_records.simps [simp del]

definition rewritePartyDungeonRecords :: "bytes \<Rightarrow> u16 \<Rightarrow> u16 \<Rightarrow> bytes list" where
  "rewritePartyDungeonRecords body sourceID targetID = rewrite_records [] body sourceID targetID"

function records_contain :: "bytes \<Rightarrow> u16 \<Rightarrow> bool" where
  "records_contain body target =
     (if length body < 2 then False
      else
        let n = unat (le16 (take 2 body));
            body = drop 2 body in
        if n = 0 \<or> n > length body then False
        else if n \<ge> 3 \<and> le16 (slice 1 3 body) = target then True
        else records_contain (drop n body) target)"
  by auto
termination by (relation "measure (\<lambda>(body, t). length body)") auto

declare records_contain.simps [simp del]

definition partyDungeonFrameContainsCommand :: "bytes \<Rightarrow> u16 \<Rightarrow> bool" where
  "partyDungeonFrameContainsCommand frame target =
     (if length frame < 12 then False
      else if frame ! 0 = 2 then le16 (slice 10 12 frame) = target
      else if frame ! 0 \<noteq> 1 then False
      else records_contain (drop 9 frame) target)"

definition shouldFollowPartyPeerUnsafe :: "RobotVo \<Rightarrow> partyIPPeer \<Rightarrow> bool" where
  "shouldFollowPartyPeerUnsafe r peer \<longleftrightarrow>
     slotKnown (partySelfPeer r) \<and> peer_slot (partySelfPeer r) \<noteq> 0 \<and> uniqueID (partySelfPeer r) \<noteq> 0 \<and>
     slotKnown peer \<and> peer_slot peer = 0 \<and> uniqueID peer \<noteq> 0"

definition partyDungeonFollowDelayUnsafe :: "RobotVo \<Rightarrow> duration" where
  "partyDungeonFollowDelayUnsafe r = (300 + uint (UID r) mod 701) * Millisecond"

definition in_dungeon :: "RobotVo \<Rightarrow> time \<Rightarrow> bool" where
  "in_dungeon r t \<longleftrightarrow> \<not> (IsZero (partyDungeonEnteredAt r) \<or> time_Sub t (partyDungeonEnteredAt r) > partyDungeonEntryTimeout)"

definition queue_follow :: "partyDungeonFollowPending \<Rightarrow> RobotVo \<Rightarrow> RobotVo" where
  "queue_follow item r =
     (if length (partyDungeonFollow r) \<ge> 2048 then r\<lparr>partyDungeonFollow := []\<rparr>
      else case index_of (\<lambda>e. fp_peerSlot e = fp_peerSlot item \<and> fp_reliable e = fp_reliable item) (partyDungeonFollow r) of
        Some i \<Rightarrow>
          r\<lparr>partyDungeonFollow := (partyDungeonFollow r)[i :=
              (partyDungeonFollow r ! i)\<lparr>fp_flags := fp_flags item, fp_body := fp_body item, fp_records := fp_records item\<rparr>]\<rparr>
      | None \<Rightarrow> r\<lparr>partyDungeonFollow := partyDungeonFollow r @ [item]\<rparr>)"

definition queuePartyDungeonFollowUnsafe :: "bytes \<Rightarrow> partyIPPeer \<Rightarrow> time \<Rightarrow> RobotVo \<Rightarrow> RobotVo" where
  "queuePartyDungeonFollowUnsafe frame peer t r =
     (if length frame < 9 \<or> \<not> slotKnown peer \<or> peer_slot peer \<ge> 4 then r
      else if \<not> in_dungeon r t then r
      else if length frame \<noteq> 9 + unat (le16 (slice 5 7 frame)) then r
      else
        let item = \<lparr>fp_due = t + partyDungeonFollowDelayUnsafe r, fp_peerSlot = peer_slot peer, fp_flags = frame ! 8,
                    fp_reliable = False, fp_body = [], fp_records = []\<rparr> in
        if frame ! 0 = 2 then
          (case rewritePartyDungeonBody (drop 9 frame) (uniqueID peer) (uniqueID (partySelfPeer r)) of
             None \<Rightarrow> r
           | Some (body, _) \<Rightarrow> queue_follow (item\<lparr>fp_body := body\<rparr>) r)
        else if frame ! 0 = 1 then
          let records = rewritePartyDungeonRecords (drop 9 frame) (uniqueID peer) (uniqueID (partySelfPeer r)) in
          if length records = 0 then r else queue_follow (item\<lparr>fp_reliable := True, fp_records := records\<rparr>) r
        else r)"

end
