(* ===== verification/Party_Runtime.thy ===== *)
theory Party_Runtime
  imports Party_Transport
begin

section \<open>The party runtime: skills, following, received datagrams, the relay\<close>

text \<open>
  What runs on a tick of the party supervisor (\<open>flushPartyRuntimeUnsafe\<close> of \<open>party_transport.go\<close> with the dungeon
  code of \<open>party_dungeon_skill.go\<close> and \<open>party_dungeon_follow.go\<close>) and what runs on a received datagram
  (\<open>buildPartyUDPAcks\<close> and \<open>buildPartyRelayReplies\<close> of \<open>party_tqos.go\<close>, the packet loop of \<open>party_relay.go\<close>).
\<close>

subsection \<open>Goroutines\<close>

text \<open>Without a controller a goroutine always starts; with one it is a worker of the task, which may refuse it.\<close>

definition startRobotRoutine :: "env \<Rightarrow> routine \<Rightarrow> RobotVo \<Rightarrow> bool \<times> RobotVo" where
  "startRobotRoutine E job r =
     (if hasController r \<and> \<not> workerAccepted E then (False, r) else (True, r\<lparr>started := started r @ [job]\<rparr>))"

subsection \<open>Skills in a dungeon\<close>

definition partySkillRecoveryGrace :: duration where "partySkillRecoveryGrace = 2 * Second"
definition partySkillRecoveryRetry :: duration where "partySkillRecoveryRetry = 750 * Millisecond"
definition partySkillRecoverDelay :: duration where "partySkillRecoverDelay = 900 * Millisecond"

text \<open>\<open>time.Time.UnixNano\<close> of an instant counted from the zero time.\<close>

definition UnixNano :: "time \<Rightarrow> int" where
  "UnixNano t = t - 62135596800 * Second"

definition partySkillChoice :: "u32 \<Rightarrow> time \<Rightarrow> nat \<Rightarrow> nat" where
  "partySkillChoice uid t count =
     (if count \<le> 1 then 0
      else
        let v = word_of_int (UnixNano t) XOR (ucast uid * 0x9e3779b97f4a7c15) :: u64;
            v = v XOR drop_bit 30 v;
            v = v * 0xbf58476d1ce4e5b9;
            v = v XOR drop_bit 27 v in
        unat (v mod of_nat count))"

definition partySkillToken :: "u32 \<Rightarrow> time \<Rightarrow> u16" where
  "partySkillToken uid t =
     (let v = word_of_int (UnixNano t) XOR push_bit 32 (ucast uid) :: u64;
          v = v XOR drop_bit 33 v;
          v = v * 0xff51afd7ed558ccd;
          v = v XOR drop_bit 33 v in
      ucast v)"

definition partySkillDelayUnsafe :: "RobotVo \<Rightarrow> time \<Rightarrow> duration" where
  "partySkillDelayUnsafe r t = int (4 + partySkillChoice (UID r) t 3) * Second"

text \<open>The payload starts at offset 22 of the body; its checksum stands at the offsets 10 and 18.\<close>

definition skill_payload :: "u16 \<Rightarrow> u8 \<Rightarrow> bytes \<Rightarrow> u16 \<Rightarrow> bytes" where
  "skill_payload unique state stateData token =
     [0x11, 0x01] @ put16 unique @ [state] @ put16 (of_nat (length stateData)) @ stateData @ put16 token"

definition buildPartySkillStateBody :: "u16 \<Rightarrow> u8 \<Rightarrow> bytes \<Rightarrow> u16 \<Rightarrow> bytes" where
  "buildPartySkillStateBody unique state stateData token =
     (let payload = skill_payload unique state stateData token;
          innerChecksum = partyPayloadChecksum payload;
          tail = [0x02, 0x05, 0] @ innerChecksum @ [0, 0x02, 0x05, 0] @ innerChecksum @ payload;
          outerChecksum = partyPayloadChecksum tail in
      [0x02] @ put16 partyDungeonEnvelopeCommand @
      [outerChecksum ! 0, ucast token, ucast (drop_bit 8 token), ucast (drop_bit 8 unique) XOR state XOR of_nat (length stateData)] @ tail)"

definition rememberPartyDungeonActivityUnsafe :: "bytes \<Rightarrow> u8 \<Rightarrow> partyIPPeer \<Rightarrow> time \<Rightarrow> RobotVo \<Rightarrow> RobotVo" where
  "rememberPartyDungeonActivityUnsafe frame route peer t r =
     (if (route \<noteq> 1 \<and> route \<noteq> 2) \<or> \<not> shouldFollowPartyPeerUnsafe r peer \<or> length frame < 9 then r
      else if \<not> in_dungeon r t then r
      else
        let strongActivity = partyDungeonFrameContainsCommand frame 0x0004 \<or> partyDungeonFrameContainsCommand frame 0x0027 in
        if \<not> strongActivity \<and> (\<not> partyDungeonFrameContainsCommand frame 0x0051 \<or> IsZero (partyDungeonLastAt r) \<or>
             time_Sub t (partyDungeonLastAt r) > partyDungeonActivityTimeout) then r
        else
          let r = r\<lparr>partyDungeonLastAt := t, partyDungeonFlags := frame ! 8\<rparr> in
          if IsZero (partySkillNextAt r) then r\<lparr>partySkillNextAt := t + partySkillDelayUnsafe r t\<rparr> else r)"

definition resetPartySkillProfileUnsafe :: "RobotVo \<Rightarrow> RobotVo" where
  "resetPartySkillProfileUnsafe r =
     r\<lparr>partySkillGeneration := partySkillGeneration r + 1, partySkillLoaded := False, partySkillLoading := False, partySkillJob := 0,
       partySkillCandidates := [], partySkillCatalogGeneration := 0\<rparr>"

definition markPartyDungeonEnteredUnsafe :: "time \<Rightarrow> RobotVo \<Rightarrow> RobotVo" where
  "markPartyDungeonEnteredUnsafe t r =
     (let r = (if \<not> in_dungeon r t then resetPartySkillProfileUnsafe r else r);
          r = r\<lparr>partyDungeonEnteredAt := t\<rparr>;
          r = (if IsZero (partyDungeonLastAt r) then r\<lparr>partyDungeonLastAt := t\<rparr> else r) in
      if IsZero (partySkillNextAt r) then r\<lparr>partySkillNextAt := t + partySkillDelayUnsafe r t\<rparr> else r)"

definition clearPartyDungeonRuntimeUnsafe :: "env \<Rightarrow> RobotVo \<Rightarrow> RobotVo" where
  "clearPartyDungeonRuntimeUnsafe E r =
     (if IsZero (partyDungeonEnteredAt r) \<and> IsZero (partyDungeonLastAt r) \<and> IsZero (partySkillNextAt r) \<and>
         IsZero (partySkillRecoverAt r) \<and> length (partyDungeonFollow r) = 0 then r
      else (cancelPartyDungeonReliableUnsafe E r)\<lparr>partyDungeonFollow := [], partyDungeonEnteredAt := zero_time,
              partyDungeonLastAt := zero_time, partyDungeonFlags := 0, partySkillNextAt := zero_time, partySkillRecoverAt := zero_time,
              partySkillBlockedUntil := zero_time\<rparr>)"

text \<open>The loader runs as a goroutine: \<open>LoadPartySkillProfile\<close> with the generations it was started for.\<close>

definition ensurePartySkillProfileUnsafe :: "env \<Rightarrow> RobotVo \<Rightarrow> bool \<times> RobotVo" where
  "ensurePartySkillProfileUnsafe E r =
     (let r = (if partySkillLoaded r \<and> partySkillCatalogGeneration r \<noteq> skillCatalogGeneration E
               then resetPartySkillProfileUnsafe r else r) in
      if partySkillLoaded r then (True, r)
      else if partySkillLoading r then (False, r)
      else if (\<not> hasDB r \<and> \<not> dbReady E) \<or> UID r = 0 then (False, r)
      else
        let r = r\<lparr>partySkillLoading := True\<rparr>;
            (ok, r) = startRobotRoutine E (LoadPartySkillProfile (partySkillGeneration r) (skillCatalogGeneration E)) r in
        (False, if ok then r else r\<lparr>partySkillLoading := False\<rparr>))"

record partySkillProfile =
  pf_cid :: int
  pf_job :: int
  pf_candidates :: "partySkillCandidate list"

text \<open>The goroutine with the profile its loader gave; \<open>None\<close> is an error of the loader.\<close>

definition loadPartySkillProfile :: "env \<Rightarrow> u64 \<Rightarrow> u64 \<Rightarrow> u32 \<Rightarrow> partySkillProfile option \<Rightarrow> RobotVo \<Rightarrow> RobotVo" where
  "loadPartySkillProfile E generation catalogGeneration uid profile r =
     (if generation \<noteq> partySkillGeneration r \<or> catalogGeneration \<noteq> skillCatalogGeneration E \<or> UID r \<noteq> uid \<or> rv_State r = StateStop then r
      else
        let r = r\<lparr>partySkillLoading := False\<rparr> in
        case profile of
          None \<Rightarrow> r
        | Some p \<Rightarrow>
            let r = (if CID r = 0 then r\<lparr>CID := pf_cid p\<rparr> else r);
                r = r\<lparr>partySkillLoaded := True, partySkillCatalogGeneration := catalogGeneration, partySkillJob := pf_job p,
                      partySkillCandidates := pf_candidates p\<rparr> in
            if \<not> IsZero (partyDungeonEnteredAt r) \<and> time_Sub (now E) (partyDungeonEnteredAt r) \<le> partyDungeonEntryTimeout \<and>
               \<not> IsZero (partyDungeonLastAt r) \<and> time_Sub (now E) (partyDungeonLastAt r) \<le> partyDungeonActivityTimeout
            then r\<lparr>partySkillNextAt := now E\<rparr> else r)"

definition zero_skill :: partySkillCandidate where
  "zero_skill = \<lparr>sk_skillIndex = 0, sk_state = 0, sk_level = 0, sk_name = [], sk_stateData = [], sk_risk = 0, sk_path = []\<rparr>"

definition nextPartySkillCandidateUnsafe :: "RobotVo \<Rightarrow> time \<Rightarrow> partySkillCandidate" where
  "nextPartySkillCandidateUnsafe r t =
     (if length (partySkillCandidates r) = 0 then zero_skill
      else partySkillCandidates r ! partySkillChoice (UID r) t (length (partySkillCandidates r)))"

definition sendPartySkillStateUnsafe ::
    "env \<Rightarrow> nat option \<Rightarrow> time \<Rightarrow> u8 \<Rightarrow> bytes \<Rightarrow> string \<Rightarrow> RobotVo \<Rightarrow> bool \<times> RobotVo" where
  "sendPartySkillStateUnsafe E conn t state stateData reason r =
     (let peer = partyPeerForSlotUnsafe r 0 in
      if uniqueID peer = 0 \<or> uniqueID (partySelfPeer r) = 0 then (False, r)
      else
        let body = buildPartySkillStateBody (uniqueID (partySelfPeer r)) state stateData (partySkillToken (UID r) t);
            purpose = (if reason = ''RECOVER'' then ''skill-recover'' else ''skill-cast'');
            (ok, r) = sendPartyReliableUnsafe E conn peer (partyDungeonFlags r) [body] purpose t r in
        if \<not> ok then (False, snd (shouldLogPartyRuntimeErrorUnsafe t r)) else (True, r))"

definition cast_skill :: "env \<Rightarrow> nat option \<Rightarrow> time \<Rightarrow> RobotVo \<Rightarrow> RobotVo" where
  "cast_skill E conn t r =
     (let r = r\<lparr>partySkillNextAt := t + partySkillDelayUnsafe r t\<rparr>;
          (ready, r) = ensurePartySkillProfileUnsafe E r in
      if \<not> ready \<or> length (partySkillCandidates r) = 0 then r
      else
        let peer = partyPeerForSlotUnsafe r 0 in
        if uniqueID peer = 0 \<or> uniqueID (partySelfPeer r) = 0 then r
        else if partyReliablePurposePendingUnsafe r (peer_slot peer) ''skill-'' then r\<lparr>partySkillNextAt := t + Second\<rparr>
        else if partyReliablePendingCountUnsafe r (peer_slot peer) > 0 then r\<lparr>partySkillNextAt := t + Second\<rparr>
        else
          let candidate = nextPartySkillCandidateUnsafe r t;
              (ok, r) = sendPartySkillStateUnsafe E conn t (sk_state candidate) (sk_stateData candidate) ''CAST'' r in
          if ok then r\<lparr>partySkillRecoverAt := t + partySkillRecoverDelay\<rparr> else r)"

definition recover_skill :: "env \<Rightarrow> nat option \<Rightarrow> time \<Rightarrow> RobotVo \<Rightarrow> RobotVo" where
  "recover_skill E conn t r =
     (let peer = partyPeerForSlotUnsafe r 0 in
      if slotKnown peer \<and> partyReliablePurposePendingUnsafe r (peer_slot peer) ''skill-cast''
      then r\<lparr>partySkillRecoverAt := t + partySkillRecoveryRetry\<rparr>
      else
        let (ok, r) = sendPartySkillStateUnsafe E conn t 0 [] ''RECOVER'' r in
        if ok then
          let r = r\<lparr>partySkillRecoverAt := zero_time\<rparr> in
          if \<not> IsZero (partySkillNextAt r) \<and> \<not> t < partySkillNextAt r
          then r\<lparr>partySkillNextAt := t + partySkillDelayUnsafe r t\<rparr> else r
        else r\<lparr>partySkillRecoverAt := t + partySkillRecoveryRetry\<rparr>)"

definition flushPartyDungeonSkillUnsafe :: "env \<Rightarrow> nat option \<Rightarrow> time \<Rightarrow> RobotVo \<Rightarrow> RobotVo" where
  "flushPartyDungeonSkillUnsafe E conn t r =
     (if \<not> in_dungeon r t then clearPartyDungeonRuntimeUnsafe E r
      else if IsZero (partyDungeonLastAt r) then r\<lparr>partySkillNextAt := zero_time, partySkillRecoverAt := zero_time\<rparr>
      else if \<not> IsZero (partySkillRecoverAt r) \<and> \<not> t < partySkillRecoverAt r then recover_skill E conn t r
      else
        let idle = time_Sub t (partyDungeonLastAt r) in
        if idle > partyDungeonActivityTimeout then
          let r = r\<lparr>partySkillNextAt := zero_time\<rparr> in
          if idle > partyDungeonActivityTimeout + partySkillRecoveryGrace then r\<lparr>partySkillRecoverAt := zero_time\<rparr> else r
        else if t < partySkillBlockedUntil r then r
        else if \<not> IsZero (partySkillRecoverAt r) \<or> IsZero (partySkillNextAt r) \<or> t < partySkillNextAt r then r
        else if length (partyDungeonFollow r) > 0 then r\<lparr>partySkillNextAt := t + Second\<rparr>
        else cast_skill E conn t r)"

subsection \<open>Sending what the follower repeats\<close>

definition send_follow :: "env \<Rightarrow> nat option \<Rightarrow> time \<Rightarrow> partyIPPeer \<Rightarrow> partyDungeonFollowPending \<Rightarrow> RobotVo \<Rightarrow> bool \<times> RobotVo" where
  "send_follow E conn t peer item r =
     (if fp_reliable item then sendPartyReliableUnsafe E conn peer (fp_flags item) (fp_records item) ''follow'' t r
      else
        let route = partyRouteForPeerUnsafe E r (peer_slot peer) in
        if \<not> partyRouteSendEligibleUnsafe r conn peer route t then (False, r)
        else case nextPartyTQOSSequenceUnsafe (peer_slot peer) route False r of
          None \<Rightarrow> (False, r)
        | Some (sequence, r) \<Rightarrow>
            (case buildPartyUnreliablePacketChecked sequence (peer_slot (partySelfPeer r)) (fp_flags item) (fp_body item) of
               None \<Rightarrow> (False, r)
             | Some payload \<Rightarrow> sendPartyTransportUnsafe E conn peer route payload r))"

text \<open>The loop over the queue; sending does not look at the queue, which is stored back when the loop ends.\<close>

fun follow_loop :: "env \<Rightarrow> nat option \<Rightarrow> time \<Rightarrow> partyDungeonFollowPending list \<Rightarrow> RobotVo \<Rightarrow> RobotVo" where
  "follow_loop E conn t [] r = r\<lparr>partyDungeonFollow := []\<rparr>"
| "follow_loop E conn t (item # items) r =
     (if t < fp_due item then r\<lparr>partyDungeonFollow := item # items\<rparr>
      else
        let peer = partyPeerForSlotUnsafe r (fp_peerSlot item);
            postponed = item\<lparr>fp_due := t + 500 * Millisecond\<rparr> # items in
        if uniqueID peer = 0 then follow_loop E conn t items r
        else if fp_reliable item \<and> partyReliableWindowFullUnsafe r (peer_slot peer) then r\<lparr>partyDungeonFollow := postponed\<rparr>
        else
          let (ok, r) = send_follow E conn t peer item r in
          if \<not> ok then (snd (shouldLogPartyRuntimeErrorUnsafe t r))\<lparr>partyDungeonFollow := postponed\<rparr>
          else follow_loop E conn t items r)"

definition flushPartyDungeonFollowUnsafe :: "env \<Rightarrow> nat option \<Rightarrow> time \<Rightarrow> RobotVo \<Rightarrow> RobotVo" where
  "flushPartyDungeonFollowUnsafe E conn t r = follow_loop E conn t (partyDungeonFollow r) r"

definition flushPartyRuntimeUnsafe :: "env \<Rightarrow> nat option \<Rightarrow> time \<Rightarrow> RobotVo \<Rightarrow> RobotVo" where
  "flushPartyRuntimeUnsafe E conn t r =
     flushPartyDungeonSkillUnsafe E conn t
       (flushPartyDungeonFollowUnsafe E conn t (flushPartyReliableUnsafe E conn t (flushPartyTQOSRepliesUnsafe E conn t r)))"

subsection \<open>Received frames\<close>

text \<open>An acknowledgement of the peer: what it names is removed and the route is healthy.\<close>

definition ack_frame :: "env \<Rightarrow> u8 \<Rightarrow> partyIPPeer \<Rightarrow> bytes \<Rightarrow> RobotVo \<Rightarrow> RobotVo" where
  "ack_frame E route peer frame r =
     (let r = rememberPartyPeerRouteUnsafe (peer_slot peer) route (now E) r;
          (generatedACK, r) = acknowledgePartyReliableUnsafe frame route peer (now E) r;
          (acknowledged, r) = partyTQOSReplyAcknowledgedUnsafe frame route peer r in
      if acknowledged then markPartyRobotPeerReadyUnsafe E peer route (now E) r
      else if generatedACK \<and> isPartyRobotAccount E (accID peer) then markPartyRobotPeerReadyUnsafe E peer route (now E) r
      else r)"

text \<open>A handshake packet: the epoch, the readiness of the route, the codec and the answer.\<close>

definition answer_request :: "env \<Rightarrow> u8 \<Rightarrow> partyIPPeer \<Rightarrow> partyTQOSPacket \<Rightarrow> bytes list \<Rightarrow> RobotVo \<Rightarrow> bytes list \<times> RobotVo" where
  "answer_request E route peer request replies r =
     (let slot = peer_slot peer;
          r = (if tp_state request = 3 then beginPartyTQOSEpochUnsafe slot route request (now E) r else r);
          r = (if tp_state request = 2 then markPartyRobotPeerReadyUnsafe E peer route (now E) r else r);
          r = (if slot < 4 \<and> route < 3 then upd_route slot route (\<lambda>s. s\<lparr>TQOSCodec := tp_codec request, TQOSCodecKnown := True\<rparr>) r else r) in
      if tp_state request \<noteq> 3 \<and> isPartyRobotAccount E (accID peer) \<and> RobotPeerReady (slots r slot) then (replies, r)
      else case nextPartyTQOSState (tp_state request) of
        None \<Rightarrow> (replies, r)
      | Some nextState \<Rightarrow>
          if nextState = 2 then
            (case partyTQOSReliableReplyUnsafe E slot route request r of
               (None, r) \<Rightarrow> (replies, r)
             | (Some reply, r) \<Rightarrow> (replies @ [reply], r))
          else
            (case nextPartyTQOSSequenceUnsafe slot route False r of
               None \<Rightarrow> (replies, r)
             | Some (sequence, r) \<Rightarrow>
                 (replies @ [buildPartyTQOSPacket sequence (peer_slot (partySelfPeer r)) (tp_flags request) nextState route (tp_codec request)], r)))"

definition data_frame :: "env \<Rightarrow> u8 \<Rightarrow> partyIPPeer \<Rightarrow> bytes \<Rightarrow> bytes list \<Rightarrow> RobotVo \<Rightarrow> bytes list \<times> RobotVo" where
  "data_frame E route peer frame replies r =
     (let slot = peer_slot peer;
          r = rememberPartyPeerRouteUnsafe slot route (now E) r;
          request = parsePartyTQOSPacketWithCodec frame route (if route < 3 then preferred_codec r slot route else None);
          readyFromState2 = (case request of None \<Rightarrow> False | Some q \<Rightarrow> tp_state q = 2);
          sequence = le32 (slice 1 5 frame);
          (fresh, window) = (if frame ! 0 = 1 then accept sequence (TQOSReceived (routes r slot route)) else (True, TQOSReceived (routes r slot route)));
          r = upd_route slot route (TQOSReceived_update (\<lambda>_. window)) r;
          replies = (if frame ! 0 = 1 then replies @ [buildPartyTQOSAck (peer_slot (partySelfPeer r)) sequence] else replies) in
      if \<not> fresh then (replies, if readyFromState2 then markPartyRobotPeerReadyUnsafe E peer route (now E) r else r)
      else
        let r = (if shouldFollowPartyPeerUnsafe r peer
                 then queuePartyDungeonFollowUnsafe frame peer (now E) (rememberPartyDungeonActivityUnsafe frame route peer (now E) r)
                 else r) in
        case request of None \<Rightarrow> (replies, r) | Some q \<Rightarrow> answer_request E route peer q replies r)"

text \<open>A frame that does not belong to the peer ends the loop, and no reply at all is sent.\<close>

fun reply_loop :: "env \<Rightarrow> u8 \<Rightarrow> partyIPPeer \<Rightarrow> bytes list \<Rightarrow> bytes list \<Rightarrow> RobotVo \<Rightarrow> bytes list \<times> RobotVo" where
  "reply_loop E route peer [] replies r = (replies, r)"
| "reply_loop E route peer (frame # frames) replies r =
     (if frame ! 0 = 0 then
        if length frame \<noteq> 8 \<or> frame ! 1 \<noteq> peer_slot peer then ([], r)
        else reply_loop E route peer frames replies (ack_frame E route peer frame r)
      else if frame ! 7 \<noteq> peer_slot peer then ([], r)
      else let (replies, r) = data_frame E route peer frame replies r in reply_loop E route peer frames replies r)"

definition buildPartyTQOSRepliesUnsafe :: "env \<Rightarrow> bytes \<Rightarrow> u8 \<Rightarrow> partyIPPeer \<Rightarrow> RobotVo \<Rightarrow> bytes list \<times> RobotVo" where
  "buildPartyTQOSRepliesUnsafe E payload route peer r =
     (if \<not> slotKnown (partySelfPeer r) \<or> \<not> slotKnown peer \<or> peer_slot peer \<ge> 4 \<or> route \<ge> 3 then ([], r)
      else case splitPartyTransportFrames payload of
        None \<Rightarrow> ([], r)
      | Some frames \<Rightarrow> reply_loop E route peer frames [] r)"

definition buildPartyUDPAcks :: "env \<Rightarrow> bytes \<Rightarrow> bytes \<times> int \<Rightarrow> RobotVo \<Rightarrow> bytes list \<times> RobotVo" where
  "buildPartyUDPAcks E payload remote r =
     (let senderSlot = (if length payload \<ge> 8 \<and> (payload ! 0 = 1 \<or> payload ! 0 = 2) then Some (payload ! 7) else None) in
      case partyPeerForUDPUnsafe r (Some remote) senderSlot of
        None \<Rightarrow> ([], r)
      | Some peer \<Rightarrow>
          let observedEndpoint = partyPeerEndpointMatches (observedIP peer) (observedPort peer) remote;
              advertisedEndpoint = partyPeerEndpointMatches (outerIP peer) (peer_port peer) remote in
          if \<not> observedEndpoint \<and> \<not> advertisedEndpoint \<and>
             (senderSlot = None \<or> \<not> partyTQOSPayloadAuthenticatesPeerUnsafe r payload 1 peer) then ([], r)
          else
            let (peer, r) = (if observedEndpoint then (peer, r) else learnPartyPeerEndpointUnsafe peer remote r) in
            buildPartyTQOSRepliesUnsafe E payload 1 peer r)"

definition buildPartyRelayReplies :: "env \<Rightarrow> bytes \<Rightarrow> u32 \<Rightarrow> RobotVo \<Rightarrow> bytes list \<times> RobotVo" where
  "buildPartyRelayReplies E payload src r =
     (case partyPeerForAccountUnsafe r src of
        None \<Rightarrow> ([], r)
      | Some peer \<Rightarrow> buildPartyTQOSRepliesUnsafe E payload 2 peer r)"

subsection \<open>The UDP receive loop\<close>

definition partyUDPReadBackoffMin :: duration where "partyUDPReadBackoffMin = 10 * Millisecond"
definition partyUDPReadBackoffMax :: duration where "partyUDPReadBackoffMax = Second"
definition partyUDPReadRecycleAfter :: duration where "partyUDPReadRecycleAfter = 5 * Second"

definition nextPartyUDPReadBackoff :: "duration \<Rightarrow> duration" where
  "nextPartyUDPReadBackoff current =
     (if current < partyUDPReadBackoffMin then partyUDPReadBackoffMin
      else if current \<ge> go_div partyUDPReadBackoffMax 2 then partyUDPReadBackoffMax
      else current * 2)"

definition shouldReplyPartyUDP :: "env \<Rightarrow> nat \<Rightarrow> bytes \<times> int \<Rightarrow> bool" where
  "shouldReplyPartyUDP E conn remote \<longleftrightarrow> udpLocal E conn \<noteq> remote"

text \<open>What \<open>ReadFromUDP\<close> answers: a datagram, a timeout, the error of a closed socket or another error.\<close>

datatype udp_read = Datagram bytes "bytes \<times> int" | ReadTimeout | ReadClosed | ReadFailed

text \<open>The variables of the loop: the back-off after an error and the instant of the first error in a row.\<close>

record udp_loop =
  readErrorBackoff :: duration
  readErrorSince :: time

definition stop_udp_loop :: "nat \<Rightarrow> u64 \<Rightarrow> RobotVo \<Rightarrow> RobotVo" where
  "stop_udp_loop conn generation r =
     (if partyUDPConn r = Some conn \<and> partyUDPGeneration r = generation then r\<lparr>partyUDPRunning := False\<rparr> else r)"

text \<open>The check at the head of the loop; \<open>False\<close> ends the goroutine.\<close>

definition udp_loop_head :: "env \<Rightarrow> nat \<Rightarrow> u64 \<Rightarrow> RobotVo \<Rightarrow> bool \<times> RobotVo" where
  "udp_loop_head E conn generation r =
     (if rv_State r = StateStop \<or> partyUDPConn r \<noteq> Some conn \<or> partyUDPGeneration r \<noteq> generation then (False, stop_udp_loop conn generation r)
      else let (active, r) = partyActiveUnsafe E r in if active then (True, r) else (False, stop_udp_loop conn generation r))"

text \<open>One turn after the read: \<open>None\<close> in the first component when the goroutine ends.\<close>

definition partyUDPLoop_read ::
    "env \<Rightarrow> nat \<Rightarrow> u64 \<Rightarrow> int \<Rightarrow> udp_read \<Rightarrow> udp_loop \<Rightarrow> RobotVo \<Rightarrow> udp_loop option \<times> RobotVo" where
  "partyUDPLoop_read E conn generation mtu answer s r =
     (case answer of
        ReadTimeout \<Rightarrow> (Some s, r)
      | Datagram payload remote \<Rightarrow>
          let s = s\<lparr>readErrorBackoff := 0, readErrorSince := zero_time\<rparr> in
          if length payload = 0 then (Some s, r)
          else if shouldReplyPartyUDP E conn remote then
            let (frames, r) = buildPartyUDPAcks E payload remote r in
            (case groupPartyTransportFrames frames mtu of
               None \<Rightarrow> (Some s, r)
             | Some replies \<Rightarrow> (Some s, fold (\<lambda>reply r. snd (writePartyUDPDatagramWithMTU (Some conn) reply remote mtu r)) replies r))
          else (Some s, r)
      | _ \<Rightarrow>
          let (active, r) = udp_loop_head E conn generation r in
          if \<not> active then (None, r)
          else if answer = ReadClosed then (None, stop_udp_loop conn generation r)
          else
            let s = (if IsZero (readErrorSince s) then s\<lparr>readErrorSince := now E\<rparr> else s) in
            if time_Sub (now E) (readErrorSince s) \<ge> partyUDPReadRecycleAfter then (None, stop_udp_loop conn generation r)
            else (Some (s\<lparr>readErrorBackoff := nextPartyUDPReadBackoff (readErrorBackoff s)\<rparr>), r))"

subsection \<open>The relay connection\<close>

text \<open>\<open>conn\<close> is \<open>None\<close> when the connection or its authentication failed.\<close>

definition finishPartyRelayConnect :: "env \<Rightarrow> u64 \<Rightarrow> conn option \<Rightarrow> RobotVo \<Rightarrow> bool \<times> RobotVo" where
  "finishPartyRelayConnect E generation conn r =
     (if generation \<noteq> partyRelayGeneration r then (False, r)
      else
        let r = r\<lparr>partyRelayConnecting := False\<rparr> in
        if partyRelayConn r \<noteq> None \<or> rv_State r \<noteq> StateRun then (False, r)
        else
          let (active, r) = partyActiveUnsafe E r in
          case conn of
            None \<Rightarrow> (False, if active then schedulePartyRelayRetryUnsafe (now E) r else r)
          | Some c \<Rightarrow>
              if \<not> active then (False, r)
              else
                let r = r\<lparr>partyRelayConn := Some c, partyRelayNextAt := zero_time, partyRelayBackoff := 0\<rparr>;
                    r = fold (\<lambda>slot. upd_route slot 2 (\<lambda>s. s\<lparr>RouteBlockedUntil := zero_time, RouteFailures := 0\<rparr>)) [0, 1, 2, 3] r in
                (True, startPartyRelayWriterUnsafe c r))"

definition drop_relay :: "env \<Rightarrow> conn \<Rightarrow> RobotVo \<Rightarrow> RobotVo" where
  "drop_relay E conn r =
     (let (_, r) = detachPartyRelayConnUnsafe E conn r in r\<lparr>closedConns := closedConns r @ [conn]\<rparr>)"

text \<open>The reply groups are sent in turn; the first refusal detaches and closes the connection.\<close>

fun relay_groups :: "env \<Rightarrow> conn \<Rightarrow> u32 \<Rightarrow> bytes list \<Rightarrow> RobotVo \<Rightarrow> RobotVo" where
  "relay_groups E conn dst [] r = r"
| "relay_groups E conn dst (payload # groups) r =
     (case buildPartyRelayPacket 1 (UID r) dst payload of
        None \<Rightarrow> r
      | Some reply \<Rightarrow>
          let (ok, r) = enqueuePartyRelayPacketUnsafe conn reply r in
          if ok then relay_groups E conn dst groups r else drop_relay E conn r)"

definition handlePartyRelayPacket :: "env \<Rightarrow> conn \<Rightarrow> bytes \<Rightarrow> RobotVo \<Rightarrow> RobotVo" where
  "handlePartyRelayPacket E conn packet r =
     (if length packet < 12 then r
      else
        let t = le16 (slice 0 2 packet);
            src = le32 (slice 4 8 packet);
            dst = le32 (slice 8 12 packet);
            payload = drop 12 packet in
        if t \<noteq> 3 \<or> src = 0 \<or> src = UID r \<or> dst \<noteq> UID r \<or> length payload = 0 then r
        else
          let (replies, r) = buildPartyRelayReplies E payload src r in
          case groupPartyTransportFrames replies (int partyRelayMaxPacketSize - 12) of
            None \<Rightarrow> r
          | Some groups \<Rightarrow> relay_groups E conn src groups r)"

text \<open>The packets in what was read: the rest of the stream, or \<open>None\<close> when the loop ended on a bad size.\<close>

function relay_cut :: "env \<Rightarrow> conn \<Rightarrow> bytes \<Rightarrow> RobotVo \<Rightarrow> bytes option \<times> RobotVo" where
  "relay_cut E conn stream r =
     (if length stream < 12 then (Some stream, r)
      else
        let n = unat (le16 (slice 2 4 stream)) in
        if n < 12 \<or> n > partyRelayMaxPacketSize then (None, drop_relay E conn r)
        else if length stream < n then (Some stream, r)
        else relay_cut E conn (drop n stream) (handlePartyRelayPacket E conn (take n stream) r))"
  by auto
termination by (relation "measure (\<lambda>(E, conn, stream, r). length stream)") auto

declare relay_cut.simps [simp del]

text \<open>What \<open>Read\<close> of the relay connection answers, and one turn of the loop: the stream not yet consumed and the instant
  of the next heartbeat, or \<open>None\<close> when the goroutine ends.\<close>

datatype relay_read = RelayData bytes | RelayTimeout | RelayFailed

definition partyRelayLoop_read ::
    "env \<Rightarrow> conn \<Rightarrow> u32 \<Rightarrow> relay_read \<Rightarrow> bytes \<times> time \<Rightarrow> RobotVo \<Rightarrow> (bytes \<times> time) option \<times> RobotVo" where
  "partyRelayLoop_read E conn uid answer s r =
     (case answer of
        RelayTimeout \<Rightarrow>
          if rv_State r = StateStop \<or> partyRelayConn r \<noteq> Some conn then (None, r\<lparr>closedConns := closedConns r @ [conn]\<rparr>)
          else if now E > snd s then
            (case buildPartyRelayPacket 1 uid uid [] of
               None \<Rightarrow> (None, drop_relay E conn r)
             | Some heartbeat \<Rightarrow>
                 let (ok, r) = enqueuePartyRelayPacketUnsafe conn heartbeat r in
                 if ok then (Some (fst s, now E + 10 * Second), r) else (None, drop_relay E conn r))
          else (Some s, r)
      | RelayFailed \<Rightarrow> (None, drop_relay E conn r)
      | RelayData data \<Rightarrow>
          if length data = 0 then (Some s, r)
          else
            let (rest, r) = relay_cut E conn (fst s @ data) r in
            (map_option (\<lambda>stream. (stream, snd s)) rest, r))"

subsection \<open>Negotiation between robots\<close>

definition sendPartyRobotPeerProbeRouteUnsafe :: "env \<Rightarrow> partyIPPeer \<Rightarrow> u8 \<Rightarrow> RobotVo \<Rightarrow> bool \<times> RobotVo" where
  "sendPartyRobotPeerProbeRouteUnsafe E peer route r =
     (if bad_route peer route then (False, r)
      else case nextPartyTQOSSequenceUnsafe (peer_slot peer) route False r of
        None \<Rightarrow> (False, r)
      | Some (sequence, r) \<Rightarrow>
          sendPartyTransportUnsafe E (partyUDPConn r) peer route
            (buildPartyTQOSPacket sequence (peer_slot (partySelfPeer r)) 0 3 route \<lparr>tc_key = 0x7e, tc_rotate = 0\<rparr>) r)"

definition negotiate :: "env \<Rightarrow> partyIPPeer \<Rightarrow> RobotVo \<Rightarrow> RobotVo" where
  "negotiate E peer r =
     (let slot = peer_slot peer in
      if \<not> slotKnown peer \<or> slot \<ge> 4 \<or> RobotPeerReady (slots r slot) \<or> \<not> isPartyRobotAccount E (accID peer) then r
      else if accID (partySelfPeer r) = accID peer then r
      else if RobotProbeCount (slots r slot) \<ge> 4 \<and> time_Sub (now E) (RobotProbeAt (slots r slot)) < partyRobotProbeCooldown then r
      else
        let r = (if RobotProbeCount (slots r slot) \<ge> 4 then upd_slot slot (RobotProbeCount_update (\<lambda>_. 0)) r else r) in
        if \<not> IsZero (RobotProbeAt (slots r slot)) \<and> time_Sub (now E) (RobotProbeAt (slots r slot)) < 750 * Millisecond then r
        else
          let route = partyRouteForPeerUnsafe E r slot in
          if \<not> partyRouteAvailableUnsafe r peer route then r
          else
            let (ok, r) = sendPartyRobotPeerProbeRouteUnsafe E peer route r in
            if ok then upd_slot slot (\<lambda>s. s\<lparr>RobotProbeAt := now E, RobotProbeCount := RobotProbeCount s + 1\<rparr>) r else r)"

definition startPartyRobotPeerNegotiationUnsafe :: "env \<Rightarrow> RobotVo \<Rightarrow> RobotVo" where
  "startPartyRobotPeerNegotiationUnsafe E r =
     (if \<not> slotKnown (partySelfPeer r) \<or> \<not> isPartyRobotAccount E (accID (partySelfPeer r)) \<or>
         (partyUDPConn r = None \<and> partyRelayConn r = None) then r
      else fold (negotiate E) (partyPeers r) r)"

end
