(* ===== verification/Robot_Actions.thy ===== *)
theory Robot_Actions
  imports Party_Runtime
begin

section \<open>What a robot does over its game connection\<close>

text \<open>
  \<open>sendRaw\<close> of \<open>robot_session.go\<close> and the operations that send a packet: movement (\<open>robot_movement.go\<close>), public messages
  (\<open>robot_message.go\<close>), the party option and the NAT information (\<open>party_transport.go\<close>), trades (\<open>robot_trade.go\<close>) and
  private stores (\<open>robot_store.go\<close>). Theory \<open>Store_Proofs\<close> has the properties of writing, of
  quotes and of store displays.
\<close>

subsection \<open>Writing a packet\<close>

text \<open>The loop of \<open>sendRaw\<close>: success, the pieces the socket took, and what is left of its answers.\<close>

fun send_loop :: "bytes \<Rightarrow> write_result list \<Rightarrow> bool \<times> bytes list \<times> write_result list" where
  "send_loop pkt [] = (pkt = [], [], [])"
| "send_loop pkt (answer # answers) =
     (if pkt = [] then (True, [], answer # answers)
      else case answer of
        DeadlineError \<Rightarrow> (False, [], answers)
      | WriteError \<Rightarrow> (False, [], answers)
      | Wrote n \<Rightarrow>
          if n = 0 then (False, [], answers)
          else let (ok, pieces, rest) = send_loop (drop n pkt) answers in (ok, take n pkt # pieces, rest))"

definition sendRaw :: "bytes \<Rightarrow> RobotVo \<Rightarrow> bool \<times> RobotVo" where
  "sendRaw pkt r =
     (case rv_Conn r of
        None \<Rightarrow> (False, r)
      | Some conn \<Rightarrow>
          if length pkt = 0 then (False, r)
          else
            let (ok, pieces, rest) = send_loop pkt (writeScript r);
                r = r\<lparr>writeScript := rest, wrote := wrote r @ map (Pair conn) pieces\<rparr> in
            if ok then (True, r) else (False, r\<lparr>closedConns := closedConns r @ [conn]\<rparr>))"

definition SendMsg :: "bytes \<Rightarrow> RobotVo \<Rightarrow> bool \<times> RobotVo" where
  "SendMsg buf r = sendRaw buf r"

text \<open>Sealing a packet with the given index and sending it; a packet that cannot be sealed is not sent.\<close>

definition send_packet :: "env \<Rightarrow> u16 \<Rightarrow> u16 \<Rightarrow> bytes \<Rightarrow> RobotVo \<Rightarrow> bool \<times> RobotVo" where
  "send_packet E sendType sendIndex body r =
     (case buildSendPacket E sendType sendIndex body (Cipher r) of Inl e \<Rightarrow> (False, r) | Inr pkt \<Rightarrow> sendRaw pkt r)"

text \<open>The two ways the code counts packets: before the attempt, and only after a success.\<close>

definition next_packet :: "RobotVo \<Rightarrow> RobotVo" where
  "next_packet r = r\<lparr>PacketID := PacketID r + 1\<rparr>"

definition send_counted :: "env \<Rightarrow> u16 \<Rightarrow> bytes \<Rightarrow> RobotVo \<Rightarrow> bool \<times> RobotVo" where
  "send_counted E sendType body r = send_packet E sendType (ucast (PacketID r)) body (next_packet r)"

definition send_then_count :: "env \<Rightarrow> u16 \<Rightarrow> bytes \<Rightarrow> RobotVo \<Rightarrow> bool \<times> RobotVo" where
  "send_then_count E sendType body r =
     (let (ok, r) = send_packet E sendType (ucast (PacketID r)) body r in (ok, if ok then next_packet r else r))"

text \<open>The guard of the operations a user asks for: the robot runs and is in no party.\<close>

definition idle_running :: "env \<Rightarrow> RobotVo \<Rightarrow> bool \<times> RobotVo" where
  "idle_running E r =
     (if rv_State r \<noteq> StateRun then (False, r) else let (active, r) = partyActiveUnsafe E r in (\<not> active, r))"

subsection \<open>Movement\<close>

definition area_body :: "u8 \<Rightarrow> u8 \<Rightarrow> u16 \<Rightarrow> u16 \<Rightarrow> u16 \<Rightarrow> u16 \<Rightarrow> bytes \<Rightarrow> bytes" where
  "area_body village area x y fromVillage fromArea base =
     copy_into 8 (put16 fromVillage @ put16 fromArea) ((copy_into 0 ([village, area] @ put16 x @ put16 y) base)[7 := 1])"

definition setAreaFromLocked :: "env \<Rightarrow> u8 \<Rightarrow> u8 \<Rightarrow> u16 \<Rightarrow> u16 \<Rightarrow> u16 \<Rightarrow> u16 \<Rightarrow> RobotVo \<Rightarrow> RobotVo" where
  "setAreaFromLocked E village area x y fromVillage fromArea r =
     (let areaChanged = CurVillage r \<noteq> village \<or> CurArea r \<noteq> area;
          (ok, r) = send_counted E 38 (area_body village area x y fromVillage fromArea (setArea r)) r in
      if ok then
        (if areaChanged then r\<lparr>townEntityPositions := Map.empty\<rparr> else r)\<lparr>CurVillage := village, CurArea := area, CurX := x, CurY := y\<rparr>
      else r)"

definition SetAreaFrom :: "env \<Rightarrow> u8 \<Rightarrow> u8 \<Rightarrow> u16 \<Rightarrow> u16 \<Rightarrow> u16 \<Rightarrow> u16 \<Rightarrow> RobotVo \<Rightarrow> RobotVo" where
  "SetAreaFrom E village area x y fromVillage fromArea r =
     (let (ok, r) = idle_running E r in if \<not> ok then r else setAreaFromLocked E village area x y fromVillage fromArea r)"

definition SetArea :: "env \<Rightarrow> u8 \<Rightarrow> u8 \<Rightarrow> u16 \<Rightarrow> u16 \<Rightarrow> RobotVo \<Rightarrow> RobotVo" where
  "SetArea E village area x y r =
     (let (ok, r) = idle_running E r in
      if \<not> ok then r else setAreaFromLocked E village area x y (ucast (CurVillage r)) (ucast (CurArea r)) r)"

definition setPositionUnsafe :: "env \<Rightarrow> u16 \<Rightarrow> u16 \<Rightarrow> u8 \<Rightarrow> u16 \<Rightarrow> RobotVo \<Rightarrow> bool \<times> RobotVo" where
  "setPositionUnsafe E x y t speed r =
     (let (ok, r) = send_counted E 37 (put16 x @ put16 y @ [t] @ put16 speed @ [0]) r in
      if ok then (True, r\<lparr>CurX := x, CurY := y, MoveType := t\<rparr>) else (False, r))"

definition SetPosition :: "env \<Rightarrow> u16 \<Rightarrow> u16 \<Rightarrow> u8 \<Rightarrow> u16 \<Rightarrow> RobotVo \<Rightarrow> RobotVo" where
  "SetPosition E x y t speed r = (let (ok, r) = idle_running E r in if \<not> ok then r else snd (setPositionUnsafe E x y t speed r))"

subsection \<open>Public messages\<close>

definition findSubstring :: "bytes \<Rightarrow> bytes \<Rightarrow> nat option" where
  "findSubstring s sub =
     (if length s < length sub then None
      else List.find (\<lambda>i. slice i (i + length sub) s = sub) [0..<Suc (length s - length sub)])"

text \<open>\<open>strconv.Atoi\<close> on the bytes of a string: an optional sign, decimal digits, the range of \<open>int\<close>.\<close>

fun digits_value :: "int \<Rightarrow> bytes \<Rightarrow> int option" where
  "digits_value acc [] = Some acc"
| "digits_value acc (c # cs) =
     (if 0x30 \<le> c \<and> c \<le> 0x39 then digits_value (acc * 10 + uint (c - 0x30)) cs else None)"

definition Atoi :: "bytes \<Rightarrow> int option" where
  "Atoi s =
     (let (negative, digits) = (case s of [] \<Rightarrow> (False, []) | c # cs \<Rightarrow> if c = 0x2d then (True, cs) else if c = 0x2b then (False, cs) else (False, s)) in
      if digits = [] then None
      else case digits_value 0 digits of
        None \<Rightarrow> None
      | Some v \<Rightarrow>
          let v = (if negative then - v else v) in
          if - (2 ^ 63) \<le> v \<and> v < 2 ^ 63 then Some v else None)"

text \<open>The suffix \<open>ext(n)\<close> of a message selects its type and is not sent.\<close>

definition message_type :: "int \<Rightarrow> bytes \<Rightarrow> u8 \<times> bytes" where
  "message_type msgType msg =
     (let sendMsgType = (if word_of_int msgType = (0 :: u8) then 3 else word_of_int msgType) in
      case findSubstring msg [0x65, 0x78, 0x74, 0x28] of
        None \<Rightarrow> (sendMsgType, msg)
      | Some basePos \<Rightarrow>
          let fPos = basePos + 4 in
          case findSubstring (drop fPos msg) [0x29] of
            None \<Rightarrow> (sendMsgType, msg)
          | Some endP \<Rightarrow>
              (case Atoi (slice fPos (fPos + endP) msg) of None \<Rightarrow> sendMsgType | Some t \<Rightarrow> word_of_int t, take basePos msg))"

definition sendPublicMessagePacket :: "env \<Rightarrow> u8 \<Rightarrow> u8 \<Rightarrow> bytes \<Rightarrow> RobotVo \<Rightarrow> RobotVo" where
  "sendPublicMessagePacket E msgType flag msg r =
     (let realSize = 1 + 2 + 4 + 4 + int (length msg);
          data = copy_into 0 ([msgType, flag] @ replicate 5 0 @ put32 (of_nat (length msg)) @ msg) (replicate (nat (alignTo16 realSize)) 0) in
      snd (send_counted E 17 data r))"

definition SendPublicMessage :: "env \<Rightarrow> int \<Rightarrow> bytes \<Rightarrow> RobotVo \<Rightarrow> RobotVo" where
  "SendPublicMessage E msgType msg r =
     (let (ok, r) = idle_running E r in
      if \<not> ok then r
      else let (sendMsgType, msg) = message_type msgType msg in sendPublicMessagePacket E sendMsgType 0x24 msg r)"

subsection \<open>Party option and NAT information\<close>

definition sendPartyOptionUnsafe :: "env \<Rightarrow> RobotVo \<Rightarrow> bool \<times> RobotVo" where
  "sendPartyOptionUnsafe E r =
     (if rv_State r \<noteq> StateRun \<or> \<not> partyOptionReady r \<or> partyOptionSent r then (False, r)
      else
        let (ok, r) = send_counted E 200 (copy_into 4 (partyOptionData r) (copy_into 0 (put32 (of_nat gameEtcOptionSize)) (replicate 80 0))) r in
        if ok then (True, r\<lparr>partyOptionSent := True\<rparr>) else (False, r))"

text \<open>Addresses are IPv4 addresses of four bytes; the marker is \<open>robot\<close>.\<close>

definition buildNATInfoPayload :: "bytes \<Rightarrow> u16 \<Rightarrow> int \<Rightarrow> bytes option" where
  "buildNATInfoPayload addr port mtu =
     (if length addr \<noteq> 4 then None
      else
        let mtu = (if mtu \<le> 0 \<or> mtu > partyDefaultUDPMTU then partyDefaultUDPMTU else mtu) in
        Some ([1] @ addr @ addr @ rev (put16 port) @ put32 (word_of_int mtu) @ put32 5 @ [0x72, 0x6f, 0x62, 0x6f, 0x74]))"

definition sendNATInfoUpdateUnsafe :: "env \<Rightarrow> bool \<Rightarrow> RobotVo \<Rightarrow> bool \<times> RobotVo" where
  "sendNATInfoUpdateUnsafe E force r =
     (case rv_Conn r of
        None \<Rightarrow> (False, r)
      | Some conn \<Rightarrow>
          if rv_State r \<noteq> StateRun \<or> (\<not> force \<and> natInfoSent r) then (False, r)
          else case localAddr E conn of
            None \<Rightarrow> (False, r)
          | Some addr \<Rightarrow>
              let (ok, r) = (if partyUDPConn r = None then startPartyUDPUnsafe E (Some addr) r else (True, ensurePartyUDPLoopUnsafe E r)) in
              if \<not> ok then (False, r)
              else case partyUDPConn r of
                None \<Rightarrow> (False, r)
              | Some udp \<Rightarrow>
                  let (addr, port) = udpLocal E udp in
                  if port \<le> 0 \<or> port > 0xffff then (False, r)
                  else
                    let mtu = (if partyUDPMTU r \<le> 0 then partyDefaultUDPMTU else partyUDPMTU r) in
                    case buildNATInfoPayload addr (word_of_int port) mtu of
                      None \<Rightarrow> (False, r)
                    | Some body \<Rightarrow>
                        let (ok, r) = send_counted E 2 body r in
                        if ok then (True, r\<lparr>natInfoSent := True\<rparr>) else (False, r))"

definition sendNATInfoUnsafe :: "env \<Rightarrow> RobotVo \<Rightarrow> bool \<times> RobotVo" where
  "sendNATInfoUnsafe E r = sendNATInfoUpdateUnsafe E False r"

subsection \<open>Trades\<close>

record ShopVo =
  TradeItem :: int
  shop_Price :: int
  ItemNumber :: int

definition invalidateTradeQuoteUnsafe :: "RobotVo \<Rightarrow> RobotVo" where
  "invalidateTradeQuoteUnsafe r = r\<lparr>tradeQuoteVersion := tradeQuoteVersion r + 1, tradeQuotePending := False\<rparr>"

definition clearTradeUnsafe :: "RobotVo \<Rightarrow> RobotVo" where
  "clearTradeUnsafe r =
     r\<lparr>TradeMoney := 0, LastTradeState := False, LastTradeID := 0, TransactionArr := map (\<lambda>_. None) (TransactionArr r)\<rparr>"

definition queueTradeQuoteRefreshUnsafe :: "env \<Rightarrow> RobotVo \<Rightarrow> RobotVo" where
  "queueTradeQuoteRefreshUnsafe E r =
     (let r = r\<lparr>tradeQuoteVersion := tradeQuoteVersion r + 1, tradeQuotePending := True\<rparr> in
      if tradeQuoteLoading r then r
      else
        let (ok, r) = startRobotRoutine E RefreshTradeQuote (r\<lparr>tradeQuoteLoading := True\<rparr>) in
        if ok then r else r\<lparr>tradeQuoteLoading := False\<rparr>)"

record tradeQuoteSnapshot =
  qs_version :: u64
  qs_uid :: u32
  qs_transactions :: "Transaction option list"

definition tradeQuoteSnapshotUnsafe :: "RobotVo \<Rightarrow> tradeQuoteSnapshot option \<times> RobotVo" where
  "tradeQuoteSnapshotUnsafe r =
     (if \<not> tradeQuotePending r \<or> rv_State r \<noteq> StateRun \<or> UID r = 0 then (None, r)
      else (Some \<lparr>qs_version = tradeQuoteVersion r, qs_uid = UID r, qs_transactions = TransactionArr r\<rparr>, r\<lparr>tradeQuotePending := False\<rparr>))"

definition MaxUint32 :: u64 where "MaxUint32 = 0xffffffff"

text \<open>\<open>uint64(n) * uint64(price)\<close> of one transaction that has a price.\<close>

definition priced :: "(int \<rightharpoonup> ShopVo) \<Rightarrow> Transaction option \<Rightarrow> u64 option" where
  "priced prices slot =
     (case slot of
        None \<Rightarrow> None
      | Some tx \<Rightarrow>
          if sint (ItemNum tx) \<le> 0 then None
          else case prices (sint (ItemId tx)) of
            None \<Rightarrow> None
          | Some price \<Rightarrow>
              if shop_Price price \<le> 0 then None else Some (word_of_int (sint (ItemNum tx)) * word_of_int (shop_Price price)))"

fun quote_loop :: "(int \<rightharpoonup> ShopVo) \<Rightarrow> u64 \<Rightarrow> Transaction option list \<Rightarrow> u32" where
  "quote_loop prices money [] = ucast money"
| "quote_loop prices money (slot # transactions) =
     (case priced prices slot of
        None \<Rightarrow> quote_loop prices money transactions
      | Some amount \<Rightarrow>
          let money = money + amount in
          if money \<ge> MaxUint32 then ucast MaxUint32 else quote_loop prices money transactions)"

definition calculateTradeQuote :: "tradeQuoteSnapshot \<Rightarrow> (int \<rightharpoonup> ShopVo) \<Rightarrow> u32" where
  "calculateTradeQuote snapshot prices = quote_loop prices 0 (qs_transactions snapshot)"

definition applyTradeQuoteUnsafe :: "env \<Rightarrow> u32 \<Rightarrow> RobotVo \<Rightarrow> RobotVo" where
  "applyTradeQuoteUnsafe E money r =
     (let previous = (copy_into 7 (put32 (TradeMoney r)) (replicate 32 0))[0 := 4];
          r = (case buildSendPacket E 19 (ucast (PacketID r)) previous (Cipher r) of
                 Inl e \<Rightarrow> next_packet r
               | Inr pkt \<Rightarrow> let (ok, r) = sendRaw pkt (next_packet r) in if ok then r else clearTradeUnsafe r);
          nextBody = (copy_into 7 (put32 money) (replicate 32 0))[11 := 4] in
      case buildSendPacket E 19 (ucast (PacketID r)) nextBody (Cipher r) of
        Inl e \<Rightarrow> next_packet r
      | Inr pkt \<Rightarrow>
          let (ok, r) = sendRaw pkt (next_packet r) in
          if ok then r\<lparr>TradeMoney := money\<rparr> else clearTradeUnsafe r)"

text \<open>
  The goroutine \<open>refreshTradeQuote\<close>: it takes a snapshot, loads prices without the lock, and applies the quote if
  nothing changed meanwhile. \<open>prices\<close> is \<open>None\<close> when the query failed. The flag tells whether the loop
  goes on.
\<close>

definition refreshTradeQuote_begin :: "RobotVo \<Rightarrow> tradeQuoteSnapshot option \<times> RobotVo" where
  "refreshTradeQuote_begin r =
     (case tradeQuoteSnapshotUnsafe r of
        (None, r) \<Rightarrow> (None, r\<lparr>tradeQuoteLoading := False\<rparr>)
      | (Some snapshot, r) \<Rightarrow> (Some snapshot, r))"

definition refreshTradeQuote_end :: "env \<Rightarrow> tradeQuoteSnapshot \<Rightarrow> (int \<rightharpoonup> ShopVo) option \<Rightarrow> RobotVo \<Rightarrow> bool \<times> RobotVo" where
  "refreshTradeQuote_end E snapshot prices r =
     (if qs_version snapshot \<noteq> tradeQuoteVersion r then
        if \<not> tradeQuotePending r then (False, r\<lparr>tradeQuoteLoading := False\<rparr>) else (True, r)
      else
        let r = r\<lparr>tradeQuoteLoading := False, tradeQuoteFailures := 0\<rparr> in
        if rv_State r \<noteq> StateRun \<or> UID r \<noteq> qs_uid snapshot then (False, r)
        else (False, applyTradeQuoteUnsafe E (calculateTradeQuote snapshot (case prices of None \<Rightarrow> Map.empty | Some m \<Rightarrow> m)) r))"

text \<open>A panic of the goroutine: at most three further attempts, delayed by 100, 200 and 400 milliseconds.\<close>

definition refreshTradeQuote_panic :: "RobotVo \<Rightarrow> duration option \<times> RobotVo" where
  "refreshTradeQuote_panic r =
     (let attempt = tradeQuoteFailures r + 1;
          shouldRetry = attempt \<le> 3 \<and> rv_State r = StateRun \<and> UID r \<noteq> 0;
          r = r\<lparr>tradeQuoteLoading := False, tradeQuoteFailures := attempt, tradeQuotePending := shouldRetry\<rparr> in
      (if shouldRetry then Some (sint (push_bit (unat (attempt - 1)) (1 :: 64 word)) * (100 * Millisecond)) else None, r))"

definition refreshTradeQuote_retry :: "env \<Rightarrow> u32 \<Rightarrow> RobotVo \<Rightarrow> RobotVo" where
  "refreshTradeQuote_retry E uid r =
     (if rv_State r = StateRun \<and> UID r = uid \<and> tradeQuotePending r \<and> \<not> tradeQuoteLoading r then
        let (ok, r) = startRobotRoutine E RefreshTradeQuote (r\<lparr>tradeQuoteLoading := True\<rparr>) in
        if ok then r else r\<lparr>tradeQuoteLoading := False\<rparr>
      else r)"

subsection \<open>Private stores\<close>

definition privateStoreDisplayLimit :: nat where "privateStoreDisplayLimit = 7"

definition clear_display :: "RobotVo \<Rightarrow> RobotVo" where
  "clear_display r =
     r\<lparr>StoreDisplaySent := False, StoreDisplayAck := False, StoreDisplayRejected := False, StoreCreateRejected := False, LastStoreError := 0,
       StoreCreated := False, LastStoreDisplay := [], storeDisplayCandidates := [], storeDisplayRetryPlans := [], storeDisplayRetryIndex := 0\<rparr>"

definition ResetPrivateStoreState :: "RobotVo \<Rightarrow> RobotVo" where
  "ResetPrivateStoreState r =
     (clear_display (if RobotTyp r = 2 then r\<lparr>RobotTyp := 0\<rparr> else r))\<lparr>PendingStoreTitle := []\<rparr>"

definition PreparePrivateStoreState :: "bytes \<Rightarrow> RobotVo \<Rightarrow> RobotVo" where
  "PreparePrivateStoreState title r = (clear_display r)\<lparr>PendingStoreTitle := title, RobotTyp := 2\<rparr>"

definition QueueDisjointAfterRun :: "u32 \<Rightarrow> RobotVo \<Rightarrow> RobotVo" where
  "QueueDisjointAfterRun cost r = r\<lparr>AfterRunDisjointCost := cost\<rparr>"

definition runDisjointAfterLoginUnsafe :: "env \<Rightarrow> RobotVo \<Rightarrow> RobotVo" where
  "runDisjointAfterLoginUnsafe E r =
     (let cost = AfterRunDisjointCost r;
          r = r\<lparr>AfterRunDisjointCost := 0\<rparr> in
      if cost > 0 then snd (startRobotRoutine E (DisjointStore cost) r) else r)"

definition OpenDisjointStore :: "env \<Rightarrow> u32 \<Rightarrow> RobotVo \<Rightarrow> bool \<times> RobotVo" where
  "OpenDisjointStore E cost r =
     (let (idle, r) = idle_running E r in
      if \<not> idle then (False, r)
      else
        let (ok, r) = send_counted E 238 ([1, 0, 0, 0, 1] @ put32 cost @ put16 (CurX r) @ put16 (CurY r) @ [0, 0, 0]) r in
        if \<not> ok then (False, r)
        else (True, r\<lparr>RobotTyp := 3, DisjointCreateSent := True, DisjointDirectAck := False, DisjointActive := False, LastDisjointError := 0\<rparr>))"

definition CreatePrivateStore :: "env \<Rightarrow> RobotVo \<Rightarrow> bool \<times> RobotVo" where
  "CreatePrivateStore E r =
     (let (idle, r) = idle_running E r in
      if \<not> idle then (False, r)
      else
        let r = r\<lparr>StoreCreateRejected := False\<rparr>;
            (ok, r) = send_then_count E 88 ([CurVillage r, CurArea r] @ put16 (CurX r) @ put16 (CurY r) @ [0xff, 0xff] @ replicate 8 0) r in
        if \<not> ok then (False, r\<lparr>StoreCreateRejected := True, LastStoreError := 0\<rparr>) else (True, r\<lparr>RobotTyp := 2\<rparr>))"

text \<open>The plans of a display that is refused: one item fewer each time, then each further item alone.\<close>

definition renumber :: "StoreInfo list \<Rightarrow> StoreInfo list" where
  "renumber plan = map (\<lambda>(i, si). si\<lparr>si_Index := int i\<rparr>) (enumerate 0 plan)"

definition appendRetryPlan :: "StoreInfo list list \<Rightarrow> StoreInfo list \<Rightarrow> StoreInfo list list" where
  "appendRetryPlan plans plan = (if length plan = 0 then plans else plans @ [renumber plan])"

definition buildPrivateStoreRetryPlans :: "StoreInfo list \<Rightarrow> StoreInfo list list" where
  "buildPrivateStoreRetryPlans candidates =
     (if length candidates \<le> 1 then []
      else
        let plans = fold (\<lambda>count plans. appendRetryPlan plans (take count candidates)) (rev [1..<length candidates]) [] in
        fold (\<lambda>i plans. appendRetryPlan plans [candidates ! i]) [1..<length candidates] plans)"

definition store_entry :: "StoreInfo \<Rightarrow> bytes" where
  "store_entry si =
     put16 (word_of_int (si_Index si)) @ put32 (word_of_int (si_Price si)) @ [word_of_int (si_BoxType si)] @
     put16 (word_of_int (si_BoxIndex si)) @ put32 (word_of_int (si_Count si))"

definition display_body :: "bytes \<Rightarrow> StoreInfo list \<Rightarrow> bytes" where
  "display_body title storeInfo =
     (let realSize = 4 + length title + 1 + length storeInfo * 13 + 2 in
      copy_into 0 (put32 (of_nat (length title)) @ title @ [of_nat (length storeInfo)] @ concat (map store_entry storeInfo) @ [0xff, 0xff])
        (replicate (nat (alignTo (int realSize) 8)) 0))"

definition completeDisplay :: "env \<Rightarrow> bytes \<Rightarrow> StoreInfo list \<Rightarrow> RobotVo \<Rightarrow> bool \<times> RobotVo" where
  "completeDisplay E title storeInfo r =
     (let (idle, r) = idle_running E r in
      if \<not> idle then (False, r)
      else if StoreDisplaySent r then (False, r)
      else if length storeInfo = 0 then (False, r)
      else
        let storeInfo = take privateStoreDisplayLimit storeInfo;
            r = (if length (storeDisplayCandidates r) = 0
                 then r\<lparr>storeDisplayCandidates := storeInfo, storeDisplayRetryPlans := buildPrivateStoreRetryPlans storeInfo,
                        storeDisplayRetryIndex := 0\<rparr>
                 else r);
            (ok, r) = send_then_count E 90 (display_body title storeInfo) r in
        if \<not> ok then (False, r\<lparr>StoreDisplayRejected := True, LastStoreError := 0\<rparr>)
        else (True, r\<lparr>StoreDisplaySent := True, StoreDisplayAck := False, LastStoreDisplay := storeInfo\<rparr>))"

definition CompleteDisplay :: "env \<Rightarrow> bytes \<Rightarrow> StoreInfo list \<Rightarrow> RobotVo \<Rightarrow> bool \<times> RobotVo" where
  "CompleteDisplay E title storeInfo r = completeDisplay E title storeInfo r"

definition retryPrivateStoreDisplayUnsafe :: "env \<Rightarrow> RobotVo \<Rightarrow> bool \<times> RobotVo" where
  "retryPrivateStoreDisplayUnsafe E r =
     (if storeDisplayRetryIndex r \<ge> length (storeDisplayRetryPlans r) then (False, r)
      else
        let nextPlan = renumber (storeDisplayRetryPlans r ! storeDisplayRetryIndex r) in
        completeDisplay E (PendingStoreTitle r) nextPlan
          (r\<lparr>storeDisplayRetryIndex := storeDisplayRetryIndex r + 1, StoreDisplaySent := False, StoreDisplayRejected := False, LastStoreError := 0\<rparr>))"

definition GetCompleteDisplay :: "env \<Rightarrow> int \<Rightarrow> RobotVo \<Rightarrow> bool \<times> RobotVo" where
  "GetCompleteDisplay E flag r =
     (let (idle, r) = idle_running E r in
      if \<not> idle then (False, r)
      else
        let (ok, r) = send_then_count E 20 ([word_of_int flag] @ replicate 7 0) (r\<lparr>IsWaitingItemList := True\<rparr>) in
        if \<not> ok then (False, r\<lparr>IsWaitingItemList := False, StoreDisplayRejected := True, LastStoreError := 0\<rparr>) else (True, r))"

definition PrivateStoreItemListReceived :: "RobotVo \<Rightarrow> bool" where
  "PrivateStoreItemListReceived r \<longleftrightarrow> \<not> IsWaitingItemList r"

definition MarkPrivateStoreCreateFailed :: "RobotVo \<Rightarrow> RobotVo" where
  "MarkPrivateStoreCreateFailed r =
     (if StoreCreated r \<or> StoreCreateRejected r then r else r\<lparr>StoreCreateRejected := True, LastStoreError := 0\<rparr>)"

definition MarkPrivateStoreDisplayFailed :: "RobotVo \<Rightarrow> RobotVo" where
  "MarkPrivateStoreDisplayFailed r =
     (if StoreDisplaySent r \<or> StoreDisplayAck r \<or> StoreDisplayRejected r then r
      else r\<lparr>StoreDisplayRejected := True, LastStoreError := 0\<rparr>)"

text \<open>The inventory image of the database: 61 bytes for a slot, the first three slots are not for sale.\<close>

definition inventory_slot :: "bytes \<Rightarrow> nat \<Rightarrow> Transaction option" where
  "inventory_slot raw position =
     (let slot = slice (position * 61) ((position + 1) * 61) raw;
          boxType = uint (be16 (slice 0 2 slot));
          itemID = le32 (slice 2 6 slot) in
      if boxType \<le> 0 \<or> sint itemID \<le> 0 then None
      else Some \<lparr>ItemPos = of_nat position, ItemId = itemID, ItemNum = le32 (slice 7 11 slot), ItemType = word_of_int boxType\<rparr>)"

definition decodePreparedStoreInventory :: "bytes \<Rightarrow> int \<rightharpoonup> Transaction" where
  "decodePreparedStoreInventory raw =
     fold (\<lambda>position inventory.
       case inventory_slot raw position of None \<Rightarrow> inventory | Some tx \<Rightarrow> inventory(int position \<mapsto> tx))
       [3..<length raw div 61] Map.empty"

text \<open>
  The slot a row of the shop table is sold from: the largest stack of the item among the unused slots, the first of
  the largest in the order in which Go visits the map.
\<close>

definition better_slot :: "int \<Rightarrow> int \<Rightarrow> 16 word set \<Rightarrow> Transaction \<Rightarrow> Transaction option \<Rightarrow> Transaction option" where
  "better_slot tradeItem wantedCount used tx selected =
     (if sint (ItemId tx) \<noteq> tradeItem \<or> (sint (ItemNum tx) \<le> 0 \<and> wantedCount > 1) then selected
      else if ItemPos tx \<in> used then selected
      else case selected of
        None \<Rightarrow> Some tx
      | Some best \<Rightarrow> if sint (ItemNum tx) > sint (ItemNum best) then Some tx else selected)"

definition select_slot :: "int \<Rightarrow> int \<Rightarrow> 16 word set \<Rightarrow> Transaction list \<Rightarrow> Transaction option" where
  "select_slot tradeItem wantedCount used visited = fold (better_slot tradeItem wantedCount used) visited None"

type_synonym row = "bytes list"

text \<open>The item, price and count of a row, when the three columns are numbers and price and count are positive.\<close>

definition row_offer :: "row \<Rightarrow> (int \<times> int \<times> int) option" where
  "row_offer row =
     (if length row < 3 \<or> row ! 0 = [] \<or> row ! 1 = [] \<or> row ! 2 = [] then None
      else case (Atoi (row ! 0), Atoi (row ! 1), Atoi (row ! 2)) of
        (Some tradeItem, Some price, Some wantedCount) \<Rightarrow>
          if price \<le> 0 \<or> wantedCount \<le> 0 then None else Some (tradeItem, price, wantedCount)
      | _ \<Rightarrow> None)"

definition sale_count :: "int \<Rightarrow> Transaction \<Rightarrow> int" where
  "sale_count wantedCount selected =
     (if sint (ItemNum selected) \<le> 0 then 1
      else if wantedCount > sint (ItemNum selected) then sint (ItemNum selected) else wantedCount)"

text \<open>One row: \<open>ord\<close> is the order in which this row's loop visits the inventory.\<close>

definition reconcile_row :: "(int \<rightharpoonup> Transaction) \<Rightarrow> row \<times> int list \<Rightarrow> StoreInfo list \<times> 16 word set \<Rightarrow> StoreInfo list \<times> 16 word set" where
  "reconcile_row inventory item state =
     (let (row, ord) = item; (storeInfo, used) = state in
      if length storeInfo \<ge> privateStoreDisplayLimit then state
      else case row_offer row of
        None \<Rightarrow> state
      | Some (tradeItem, price, wantedCount) \<Rightarrow>
          (case select_slot tradeItem wantedCount used (map snd (range_over ord inventory)) of
             None \<Rightarrow> state
           | Some selected \<Rightarrow>
               let count = sale_count wantedCount selected in
               if count < 0 then state
               else (storeInfo @ [\<lparr>si_Index = int (length storeInfo), si_ItemID = tradeItem, si_BoxType = 0,
                       si_BoxIndex = sint (ItemPos selected), si_Price = price, si_Count = count\<rparr>], insert (ItemPos selected) used)))"

definition reconcileStoreDisplay :: "row list \<Rightarrow> int list list \<Rightarrow> (int \<rightharpoonup> Transaction) \<Rightarrow> StoreInfo list" where
  "reconcileStoreDisplay rows ords inventory = fst (fold (reconcile_row inventory) (zip rows ords) ([], {}))"

text \<open>
  \<open>GetDbDataAndCompleteDisplay\<close>: the first critical section takes what the second one checks; between them the rows,
  the prepared inventory and the title are read from the database.
\<close>

definition display_begin :: "env \<Rightarrow> RobotVo \<Rightarrow> (u32 \<times> bytes \<times> u64 \<times> (int \<rightharpoonup> Transaction)) option \<times> RobotVo" where
  "display_begin E r =
     (let (idle, r) = idle_running E r in
      if \<not> idle \<or> \<not> StoreCreated r \<or> \<not> hasDB r then (None, r)
      else (Some (UID r, PendingStoreTitle r, storeInventoryVersion r, InfanMap r), r))"

definition display_choice ::
    "row list \<Rightarrow> int list list \<Rightarrow> int list list \<Rightarrow> (int \<rightharpoonup> Transaction) \<Rightarrow> (int \<rightharpoonup> Transaction) option \<Rightarrow> StoreInfo list" where
  "display_choice rows ords preparedOrds inventory prepared =
     (let storeInfo = reconcileStoreDisplay rows ords inventory in
      if length storeInfo < min (length rows) privateStoreDisplayLimit then
        (case prepared of
           None \<Rightarrow> storeInfo
         | Some m \<Rightarrow>
             let preparedStoreInfo = reconcileStoreDisplay rows preparedOrds m in
             if length preparedStoreInfo > length storeInfo then preparedStoreInfo else storeInfo)
      else storeInfo)"

definition display_title :: "bytes \<Rightarrow> row list \<Rightarrow> bytes" where
  "display_title title cfgRows =
     (if title \<noteq> [] then title
      else case cfgRows of (cell # _) # _ \<Rightarrow> cell | _ \<Rightarrow> [0x73, 0x74, 0x6f, 0x72, 0x65])"

definition display_end :: "env \<Rightarrow> u32 \<Rightarrow> u64 \<Rightarrow> bytes \<Rightarrow> StoreInfo list \<Rightarrow> RobotVo \<Rightarrow> bool \<times> RobotVo" where
  "display_end E uid inventoryVersion title storeInfo r =
     (if length storeInfo = 0 then (False, r)
      else if rv_State r \<noteq> StateRun \<or> \<not> StoreCreated r \<or> UID r \<noteq> uid \<or> \<not> hasDB r \<or> storeInventoryVersion r \<noteq> inventoryVersion then (False, r)
      else completeDisplay E title storeInfo r)"

end
