(* ===== verification/Party_Members.thy ===== *)
theory Party_Members
  imports Robot_Actions
begin

section \<open>The members of the party\<close>

text \<open>
  The rest of \<open>party_state.go\<close>, \<open>party_recovery.go\<close>, \<open>party_supervisor.go\<close> and \<open>robot_character_refresh.go\<close>: town
  entities and following the leader, invitations, the rosters of the server and the reset of the routes of changed
  peers, recovery of a party without a human, the maintenance tick of the supervisor, and the return to the
  character selection.
\<close>

subsection \<open>Town entities\<close>

definition partyTownPositionMaxAge :: duration where "partyTownPositionMaxAge = 15 * Second"
definition partyTownEntitySweepInterval :: duration where "partyTownEntitySweepInterval = 2 * Second"
definition partyTownEntitySoftLimit :: nat where "partyTownEntitySoftLimit = 1024"
definition partyTownEntityHardLimit :: nat where "partyTownEntityHardLimit = 2048"

definition parseTownEntityPosition :: "env \<Rightarrow> bytes \<Rightarrow> townEntityPosition option" where
  "parseTownEntityPosition E data =
     (if length data < 9 then None
      else
        let unique = le16 (slice 0 2 data) in
        if unique = 0 then None
        else Some \<lparr>te_uniqueID = unique, te_x = le16 (slice 2 4 data), te_y = le16 (slice 4 6 data), te_moveType = data ! 6,
               te_speed = le16 (slice 7 9 data), te_seenAt = now E\<rparr>)"

definition parseTownEntityArea :: "bytes \<Rightarrow> townEntityArea option" where
  "parseTownEntityArea data =
     (if length data < 8 then None
      else
        let unique = le16 (slice 0 2 data) in
        if unique = 0 then None
        else Some \<lparr>ta_uniqueID = unique, ta_village = data ! 2, ta_area = data ! 3, ta_x = le16 (slice 4 6 data), ta_y = le16 (slice 6 8 data)\<rparr>)"

text \<open>
  Both selections follow one rule: the first candidate about a known entity, the only valid one, the one from the
  source the party uses, the plain one, the first valid one. The first two also settle the source.
\<close>

definition choose_candidate :: "('a \<Rightarrow> u16) \<Rightarrow> ('a \<times> recvBodySource) list \<Rightarrow> RobotVo \<Rightarrow> 'a option \<times> RobotVo" where
  "choose_candidate unique valid r =
     (case List.find (\<lambda>(a, source). partyEntityKnownUnsafe r (unique a)) valid of
        Some (a, source) \<Rightarrow> (Some a, rememberPartyRecvSourceUnsafe source r)
      | None \<Rightarrow>
          if length valid = 1 then (Some (fst (valid ! 0)), rememberPartyRecvSourceUnsafe (snd (valid ! 0)) r)
          else
            (map_option fst
              (or_else (List.find (\<lambda>(a, source). source = partyRecvSource r \<and> partyRecvSource r \<noteq> recvBodySourceUnknown) valid)
                (or_else (List.find (\<lambda>(a, source). source = recvBodySourcePlain) valid)
                  (case valid of [] \<Rightarrow> None | v # _ \<Rightarrow> Some v))), r))"

definition valid_bodies :: "(bytes \<Rightarrow> 'a option) \<Rightarrow> recvBodyCandidate list \<Rightarrow> ('a \<times> recvBodySource) list" where
  "valid_bodies parse candidates =
     List.map_filter (\<lambda>c. map_option (\<lambda>a. (a, cand_source c)) (parse (cand_body c))) candidates"

definition selectTownEntityPositionBodyUnsafe :: "env \<Rightarrow> bytes \<Rightarrow> bool \<Rightarrow> RobotVo \<Rightarrow> bytes option \<times> RobotVo" where
  "selectTownEntityPositionBodyUnsafe E raw isAnti r =
     (let (body, r) = choose_candidate (\<lambda>(position, body). te_uniqueID position)
            (valid_bodies (\<lambda>body. map_option (\<lambda>position. (position, body)) (parseTownEntityPosition E body))
               (fst (recvBodyCandidates E (Cipher r) raw isAnti))) r in
      (map_option snd body, r))"

definition selectTownEntityAreaUnsafe :: "env \<Rightarrow> bytes \<Rightarrow> bool \<Rightarrow> RobotVo \<Rightarrow> townEntityArea option \<times> RobotVo" where
  "selectTownEntityAreaUnsafe E raw isAnti r =
     choose_candidate ta_uniqueID (valid_bodies parseTownEntityArea (fst (recvBodyCandidates E (Cipher r) raw isAnti))) r"

text \<open>
  The sweep. The entries are collected in the order of the map, and \<open>sort.Slice\<close> puts the oldest first; entries seen at the
  same instant may come in any order, as the order of the map allows.
\<close>

definition pruneTownEntitiesUnsafe :: "env \<Rightarrow> time \<Rightarrow> RobotVo \<Rightarrow> RobotVo" where
  "pruneTownEntitiesUnsafe E t r =
     (let m = townEntityPositions r in
      if card (dom m) \<le> partyTownEntitySoftLimit then r
      else if card (dom m) \<le> partyTownEntityHardLimit \<and> t < townEntitySweepAt r then r
      else
        let cutoff = t - partyTownPositionMaxAge;
            m = (\<lambda>k. case m k of None \<Rightarrow> None | Some cached \<Rightarrow> if te_seenAt cached < cutoff then None else Some cached);
            r = r\<lparr>townEntitySweepAt := t + partyTownEntitySweepInterval, townEntityPositions := m\<rparr> in
        if card (dom m) \<le> partyTownEntityHardLimit then r
        else
          let entries = sort_key te_seenAt (map snd (range_over (townOrder E m) m)) in
          r\<lparr>townEntityPositions :=
              m |` (- te_uniqueID ` set (take (length entries - partyTownEntitySoftLimit) entries))\<rparr>)"

definition rememberTownEntityUnsafe :: "env \<Rightarrow> bytes \<Rightarrow> RobotVo \<Rightarrow> townEntityPosition option \<times> RobotVo" where
  "rememberTownEntityUnsafe E data r =
     (case parseTownEntityPosition E data of
        None \<Rightarrow> (None, r)
      | Some position \<Rightarrow>
          (Some position, pruneTownEntitiesUnsafe E (te_seenAt position)
             (r\<lparr>townEntityPositions := (townEntityPositions r)(te_uniqueID position \<mapsto> position)\<rparr>)))"

subsection \<open>Following the leader in town\<close>

definition partyLeaderUniqueIDUnsafe :: "RobotVo \<Rightarrow> u16 option" where
  "partyLeaderUniqueIDUnsafe r =
     (if \<not> slotKnown (partySelfPeer r) \<or> peer_slot (partySelfPeer r) = 0 then None
      else map_option uniqueID (List.find (\<lambda>p. slotKnown p \<and> peer_slot p = 0 \<and> uniqueID p \<noteq> 0) (partyPeers r)))"

definition partyLeaderTransportTimeout :: duration where "partyLeaderTransportTimeout = 15 * Second"

definition partyLeaderTransportFreshUnsafe :: "RobotVo \<Rightarrow> u16 \<Rightarrow> time \<Rightarrow> bool" where
  "partyLeaderTransportFreshUnsafe r unique t \<longleftrightarrow>
     unique \<noteq> 0 \<and> (partyLeaderTransportUnique r \<noteq> unique \<or> IsZero (partyLeaderTransportAt r) \<or>
       time_Sub t (partyLeaderTransportAt r) \<le> partyLeaderTransportTimeout)"

definition followPartyLeaderTownAreaUnsafe :: "env \<Rightarrow> townEntityArea \<Rightarrow> RobotVo \<Rightarrow> bool \<times> RobotVo" where
  "followPartyLeaderTownAreaUnsafe E area r =
     (if rv_State r \<noteq> StateRun then (False, r)
      else case partyLeaderUniqueIDUnsafe r of
        None \<Rightarrow> (False, r)
      | Some leaderID \<Rightarrow>
          if \<not> partyLeaderTransportFreshUnsafe r leaderID (now E) \<or> ta_uniqueID area \<noteq> leaderID \<or>
             (CurVillage r = ta_village area \<and> CurArea r = ta_area area) then (False, r)
          else
            let r = setAreaFromLocked E (ta_village area) (ta_area area) (ta_x area) (ta_y area) (ucast (CurVillage r)) (ucast (CurArea r)) r in
            (CurVillage r = ta_village area \<and> CurArea r = ta_area area, r))"

definition followPartyLeaderTownPositionUnsafe :: "env \<Rightarrow> townEntityPosition \<Rightarrow> RobotVo \<Rightarrow> bool \<times> RobotVo" where
  "followPartyLeaderTownPositionUnsafe E position r =
     (if rv_State r \<noteq> StateRun \<or> te_uniqueID position = 0 then (False, r)
      else case partyLeaderUniqueIDUnsafe r of
        None \<Rightarrow> (False, r)
      | Some leaderID \<Rightarrow>
          if \<not> partyLeaderTransportFreshUnsafe r leaderID (now E) \<or> te_uniqueID position \<noteq> leaderID \<or>
             (CurX r = te_x position \<and> CurY r = te_y position) then (False, r)
          else setPositionUnsafe E (te_x position) (te_y position)
                 (if te_moveType position = 0 then 5 else te_moveType position)
                 (if te_speed position = 0 then 100 else te_speed position) r)"

definition followCachedPartyLeaderTownPositionUnsafe :: "env \<Rightarrow> RobotVo \<Rightarrow> bool \<times> RobotVo" where
  "followCachedPartyLeaderTownPositionUnsafe E r =
     (case partyLeaderUniqueIDUnsafe r of
        None \<Rightarrow> (False, r)
      | Some leaderID \<Rightarrow>
          (case townEntityPositions r leaderID of
             None \<Rightarrow> (False, r)
           | Some position \<Rightarrow>
               if IsZero (te_seenAt position) \<or> time_Sub (now E) (te_seenAt position) > partyTownPositionMaxAge then (False, r)
               else followPartyLeaderTownPositionUnsafe E position r))"

subsection \<open>Invitations\<close>

definition setPartyPendingUnsafe :: "env \<Rightarrow> u16 \<Rightarrow> RobotVo \<Rightarrow> RobotVo" where
  "setPartyPendingUnsafe E unique r =
     (if unique = 0 then clearPartyPendingUnsafe r
      else
        let r = r\<lparr>partyPendingPeer := unique, partyPendingUntil := now E + partyPendingTimeout\<rparr> in
        ensurePartySupervisorUnsafe E (ensurePartyUDPLoopUnsafe E r))"

definition schedulePartyInviteFallbackUnsafe :: "env \<Rightarrow> peerResponseCandidate \<Rightarrow> peerResponseCandidate option \<Rightarrow> RobotVo \<Rightarrow> RobotVo" where
  "schedulePartyInviteFallbackUnsafe E selected candidate r =
     (let r = clearPartyInviteFallbackUnsafe r in
      case candidate of
        None \<Rightarrow> r
      | Some c \<Rightarrow>
          if length (pr_data selected) < 2 \<or> pr_typ c \<noteq> peerRequestParty \<or> length (pr_data c) < 8 then r
          else if pr_typ selected \<noteq> peerRequestParty \<and>
                  (pr_typ selected \<noteq> peerRequestTrade \<or> \<not> pr_canonical selected \<or> \<not> pr_canonical c) then r
          else
            r\<lparr>partyInviteFallback := \<lparr>if_data = take 8 (pr_data c), if_source = pr_source c, if_primaryPeer = le16 (slice 0 2 (pr_data selected)),
                if_primaryType = pr_typ selected, if_due = now E + partyInviteFallbackDelay\<rparr>,
              partyInviteTimer := True,
              started := started r @ [InviteFallbackTimer (partyInviteEpoch r) partyInviteFallbackDelay]\<rparr>)"

definition flushPartyInviteFallbackUnsafe :: "env \<Rightarrow> u64 \<Rightarrow> RobotVo \<Rightarrow> bool \<times> RobotVo" where
  "flushPartyInviteFallbackUnsafe E epoch r =
     (let fallback = partyInviteFallback r in
      if epoch \<noteq> partyInviteEpoch r \<or> IsZero (if_due fallback) \<or> now E < if_due fallback then (False, r)
      else
        let r = clearPartyInviteFallbackUnsafe r in
        if rv_State r \<noteq> StateRun \<or> (if_primaryType fallback = peerRequestParty \<and> partyPendingPeer r \<noteq> if_primaryPeer fallback) then (False, r)
        else if if_primaryType fallback = peerRequestTrade \<and> (\<not> LastTradeState r \<or> LastTradeID r \<noteq> if_primaryPeer fallback) then (False, r)
        else if list_ex (\<lambda>p. uniqueID p \<noteq> 0) (partyPeers r) then (False, r)
        else
          let (ok, r) = send_counted E 11 (if_data fallback) r in
          if \<not> ok then (False, r)
          else
            let r = (if if_primaryType fallback = peerRequestTrade \<and> LastTradeState r \<and> LastTradeID r = if_primaryPeer fallback
                     then clearTradeUnsafe (invalidateTradeQuoteUnsafe r) else r);
                r = rememberPartyRecvSourceUnsafe (if_source fallback) r;
                r = setPartyPendingUnsafe E (le16 (slice 0 2 (if_data fallback))) r in
            (True, ensurePartyRelayUnsafe E r))"

definition clearConfirmedTradeFallbackUnsafe :: "RobotVo \<Rightarrow> RobotVo" where
  "clearConfirmedTradeFallbackUnsafe r =
     (if if_primaryType (partyInviteFallback r) = peerRequestTrade then clearPartyInviteFallbackUnsafe r else r)"

subsection \<open>The roster\<close>

text \<open>The first entry of the array that satisfies a condition is replaced.\<close>

definition replace_first :: "(partyIPPeer \<Rightarrow> bool) \<Rightarrow> (partyIPPeer \<Rightarrow> partyIPPeer) \<Rightarrow> partyIPPeer list \<Rightarrow> partyIPPeer list option" where
  "replace_first P f peers = (case index_of P peers of None \<Rightarrow> None | Some i \<Rightarrow> Some (peers[i := f (peers ! i)]))"

definition remember_peer :: "partyIPPeer \<Rightarrow> partyIPPeer list \<Rightarrow> partyIPPeer list" where
  "remember_peer peer peers =
     (if \<not> partyPeerIdentityKnown peer then peers
      else case replace_first (\<lambda>old. partyPeerSameIdentity old peer) (\<lambda>old. mergePartyPeer old peer) peers of
        Some peers \<Rightarrow> peers
      | None \<Rightarrow>
          (case replace_first (\<lambda>old. \<not> partyPeerIdentityKnown old) (\<lambda>_. peer) peers of
             Some peers \<Rightarrow> peers
           | None \<Rightarrow> peer # butlast peers))"

definition rememberPartyPeersUnsafe :: "partyIPPeer list \<Rightarrow> RobotVo \<Rightarrow> RobotVo" where
  "rememberPartyPeersUnsafe peers r = r\<lparr>partyPeers := fold remember_peer peers (partyPeers r)\<rparr>"

text \<open>What the robot knew of a peer is kept; a learned endpoint is forgotten when the advertised one changed.\<close>

definition merge_previous :: "partyIPPeer list \<Rightarrow> partyIPPeer \<Rightarrow> partyIPPeer" where
  "merge_previous previous peer =
     (case List.find (\<lambda>old. partyPeerSameIdentity old peer) previous of
        None \<Rightarrow> peer
      | Some old \<Rightarrow>
          let merged = mergePartyPeer old peer in
          if \<not> partyPeerAdvertisedEndpointEqual old merged then merged\<lparr>observedIP := None, observedPort := 0\<rparr> else merged)"

definition peer_changed :: "partyIPPeer \<Rightarrow> partyIPPeer \<Rightarrow> bool" where
  "peer_changed before after =
     (let uniqueChanged = uniqueID before \<noteq> 0 \<and> uniqueID after \<noteq> 0 \<and> uniqueID before \<noteq> uniqueID after;
          identityChanged = uniqueChanged \<or>
            (\<not> partyPeerSameIdentity before after \<and> (partyPeerIdentityKnown before \<or> partyPeerIdentityKnown after));
          endpointChanged = partyPeerSameIdentity before after \<and> partyPeerIdentityKnown before \<and>
            \<not> partyPeerAdvertisedEndpointEqual before after in
      identityChanged \<or> endpointChanged)"

definition setPartyPeersUnsafe :: "env \<Rightarrow> partyIPPeer list \<Rightarrow> RobotVo \<Rightarrow> RobotVo" where
  "setPartyPeersUnsafe E peers r =
     (let r = clearPartyPendingUnsafe r;
          previous = partyPeers r;
          r = rememberPartyPeersUnsafe (map (merge_previous previous) peers) (r\<lparr>partyPeers := replicate 4 zero_peer\<rparr>);
          r = ensurePartySupervisorUnsafe E (ensurePartyUDPLoopUnsafe E r);
          r = fold (\<lambda>slot r. if peer_changed (partyPeerForSlot previous slot) (partyPeerForSlot (partyPeers r) slot)
                             then resetPartyTQOSPeerUnsafe slot r else r) [0, 1, 2, 3] r;
          (active, r) = partyActiveUnsafe E r in
      if \<not> active then
        resetPartyTQOSTransportUnsafe ((stopPartySupervisorUnsafe r)\<lparr>partySelfPeer := zero_peer, partySelfRefreshAttempts := 0\<rparr>)
      else r)"

definition setPartySelfPeerUnsafe :: "env \<Rightarrow> partyIPPeer \<Rightarrow> RobotVo \<Rightarrow> RobotVo" where
  "setPartySelfPeerUnsafe E peer r =
     (let previous = partySelfPeer r;
          uniqueChanged = uniqueID previous \<noteq> 0 \<and> uniqueID peer \<noteq> 0 \<and> uniqueID previous \<noteq> uniqueID peer;
          peer = (if partyPeerSameIdentity previous peer then mergePartyPeer previous peer
                  else if \<not> partyPeerIdentityKnown peer \<and> accID previous = UID r then mergePartyPeer previous peer
                  else peer);
          r = r\<lparr>partySelfPeer := peer\<rparr>;
          r = (if uniqueChanged then resetPartyTQOSTransportUnsafe r else r) in
      if uniqueID peer \<noteq> 0 then r\<lparr>partySelfRefreshAt := zero_time, partySelfRefreshBackoff := 0, partySelfRefreshAttempts := 0\<rparr>
      else if accID peer = UID r \<and> slotKnown peer \<and> IsZero (partySelfRefreshAt r) then r\<lparr>partySelfRefreshAt := now E + 3 * Second\<rparr>
      else r)"

definition clearPartyUnsafe :: "RobotVo \<Rightarrow> RobotVo" where
  "clearPartyUnsafe r =
     (let r = (stopPartySupervisorUnsafe r)\<lparr>partySelfPeer := zero_peer, partySelfRefreshAt := zero_time, partySelfRefreshBackoff := 0,
                partySelfRefreshAttempts := 0, partyRealtimeUnique := replicate 4 0, partyRealtimeCandidate := replicate 4 0,
                partyRealtimeConfirmations := 0, partyRealtimeCandidateAt := zero_time, partyHumanObserved := False,
                partyPeers := replicate 4 zero_peer\<rparr>;
          r = (clearPartyPendingUnsafe r)\<lparr>townEntityPositions := Map.empty, townEntitySweepAt := zero_time\<rparr> in
      resetPartyTQOSTransportUnsafe (closePartyRelayUnsafe r))"

subsection \<open>The return to the character selection\<close>

definition sendReturnToCharacterSelectUnsafe :: "env \<Rightarrow> bool \<Rightarrow> RobotVo \<Rightarrow> bool \<times> RobotVo" where
  "sendReturnToCharacterSelectUnsafe E recovery r =
     (if rv_State r \<noteq> StateRun \<or> ReturnSelectPending r then (False, r)
      else
        let (ok, r) = send_then_count E 7 [] r in
        if \<not> ok then (False, r)
        else (True, publishSnapshotUnsafe E (r\<lparr>ReturnSelectPending := True, ReturnSelectRejected := False, partyRecovery := recovery\<rparr>)))"

definition ReturnToCharacterSelect :: "env \<Rightarrow> RobotVo \<Rightarrow> bool \<times> RobotVo" where
  "ReturnToCharacterSelect E r =
     (if rv_State r \<noteq> StateRun \<or> ReturnSelectPending r then (False, r)
      else
        let (active, r) = partyActiveUnsafe E r in
        if active then (False, r) else sendReturnToCharacterSelectUnsafe E False r)"

definition sendSelectCharacUnsafe :: "env \<Rightarrow> RobotVo \<Rightarrow> bool \<times> RobotVo" where
  "sendSelectCharacUnsafe E r =
     (if rv_State r \<noteq> StateLogin \<or> SelectCharacSent r then (False, r)
      else
        let r = r\<lparr>selectCharac := (selectCharac r)[0 := CharacterSlot r]\<rparr>;
            (ok, r) = send_packet E 4 12 (selectCharac r) r in
        if \<not> ok then (False, r) else (True, r\<lparr>SelectCharacSent := True\<rparr>))"

text \<open>The attempt both reselections make: back to the selection when the packet could not be sent.\<close>

definition reselect :: "env \<Rightarrow> RobotVo \<Rightarrow> bool \<times> RobotVo" where
  "reselect E r =
     (let (ok, r) = sendSelectCharacUnsafe E (r\<lparr>rv_State := StateLogin, SelectCharacSent := False\<rparr>) in
      (ok, publishSnapshotUnsafe E (if ok then r else r\<lparr>rv_State := StateSelect\<rparr>)))"

definition ReselectCharacter :: "env \<Rightarrow> RobotVo \<Rightarrow> bool \<times> RobotVo" where
  "ReselectCharacter E r =
     (if rv_State r \<noteq> StateSelect \<or> ReturnSelectPending r \<or> ReturnSelectRejected r then (False, r) else reselect E r)"

definition schedulePartyReselectUnsafe :: "RobotVo \<Rightarrow> RobotVo" where
  "schedulePartyReselectUnsafe r =
     (let epoch = partyRecoveryEpoch r + 1 in
      r\<lparr>partyRecoveryEpoch := epoch, started := started r @ [PartyReselect epoch (300 * Millisecond)]\<rparr>)"

text \<open>One attempt of the timer; a failed one is repeated after a second until the deadline.\<close>

definition party_reselect_attempt :: "env \<Rightarrow> u64 \<Rightarrow> time \<Rightarrow> RobotVo \<Rightarrow> RobotVo" where
  "party_reselect_attempt E epoch deadline r =
     (if partyRecoveryEpoch r \<noteq> epoch \<or> rv_State r \<noteq> StateSelect \<or> ReturnSelectPending r \<or> ReturnSelectRejected r then r
      else
        let (ok, r) = reselect E r in
        if \<not> ok \<and> now E < deadline then r\<lparr>started := started r @ [PartyReselect epoch Second]\<rparr> else r)"

definition finishReturnToSelectUnsafe :: "env \<Rightarrow> RobotVo \<Rightarrow> RobotVo" where
  "finishReturnToSelectUnsafe E r =
     (let recoverParty = partyRecovery r;
          r = r\<lparr>ReturnSelectPending := False, ReturnSelectRejected := False, partyRecovery := False, SelectCharacSent := False,
                rv_State := StateSelect\<rparr>;
          r = (if recoverParty then clearPartyUnsafe (r\<lparr>partyRecoveryResumePending := True\<rparr>)
               else clearPartyPendingUnsafe (closePartyRelayUnsafe (closePartyUDPUnsafe (stopPartySupervisorUnsafe r))));
          r = publishSnapshotUnsafe E r in
      if recoverParty then schedulePartyReselectUnsafe r else r)"

subsection \<open>Recovery of a party without a human\<close>

definition partyRealtimeConfirmationsRequired :: u8 where "partyRealtimeConfirmationsRequired = 2"
definition partyRealtimeStableDelay :: duration where "partyRealtimeStableDelay = 2 * Second"
definition partyStaleRecoveryTimeout :: duration where "partyStaleRecoveryTimeout = 30 * Second"

definition observePartyAccountsUnsafe :: "env \<Rightarrow> partyIPPeer list \<Rightarrow> RobotVo \<Rightarrow> RobotVo" where
  "observePartyAccountsUnsafe E peers r =
     (if list_ex (\<lambda>p. accID p \<noteq> 0 \<and> \<not> isPartyRobotAccount E (accID p)) peers then r\<lparr>partyHumanObserved := True\<rparr> else r)"

definition partyRosterIsPureRobotUnsafe :: "env \<Rightarrow> RobotVo \<Rightarrow> partyIPPeer \<Rightarrow> partyIPPeer list \<Rightarrow> bool" where
  "partyRosterIsPureRobotUnsafe E r self peers \<longleftrightarrow>
     accID self = UID r \<and> isPartyRobotAccount E (accID self) \<and>
     list_all (\<lambda>p. accID p \<noteq> 0 \<and> isPartyRobotAccount E (accID p)) peers"

definition startPartyRecoveryUnsafe :: "env \<Rightarrow> time \<Rightarrow> RobotVo \<Rightarrow> bool \<times> RobotVo" where
  "startPartyRecoveryUnsafe E t r =
     (if \<not> partyHumanObserved r \<or> partyRecovery r \<or> ReturnSelectPending r \<or> t < partyRecoveryCooldownUntil r then (False, r)
      else
        let (ok, r) = sendReturnToCharacterSelectUnsafe E True r in
        if \<not> ok then (False, r\<lparr>partyRecoveryCooldownUntil := t + 5 * Second\<rparr>) else (True, r))"

definition partyPeerTransportAtUnsafe :: "RobotVo \<Rightarrow> partyIPPeer \<Rightarrow> time" where
  "partyPeerTransportAtUnsafe r peer =
     (if \<not> slotKnown peer \<or> peer_slot peer \<ge> 4 then zero_time
      else
        let last = PeerRouteAt (slots r (peer_slot peer));
            last = fold (\<lambda>route last. if RouteActivityAt (routes r (peer_slot peer) route) > last
                                      then RouteActivityAt (routes r (peer_slot peer) route) else last) [1, 2] last in
        if peer_slot peer = 0 \<and> uniqueID peer \<noteq> 0 \<and> partyLeaderTransportUnique r = uniqueID peer \<and> partyLeaderTransportAt r > last
        then partyLeaderTransportAt r else last)"

text \<open>The loop over the peers: \<open>None\<close> for an early return, otherwise whether a human was found.\<close>

fun stale_humans :: "env \<Rightarrow> time \<Rightarrow> RobotVo \<Rightarrow> bool \<Rightarrow> partyIPPeer list \<Rightarrow> bool option" where
  "stale_humans E t r found [] = Some found"
| "stale_humans E t r found (peer # peers) =
     (if accID peer = 0 then None
      else if isPartyRobotAccount E (accID peer) then stale_humans E t r found peers
      else
        let last = partyPeerTransportAtUnsafe r peer in
        if IsZero last \<or> time_Sub t last < partyStaleRecoveryTimeout then None else stale_humans E t r True peers)"

definition maybeRecoverStalePartyUnsafe :: "env \<Rightarrow> time \<Rightarrow> RobotVo \<Rightarrow> RobotVo" where
  "maybeRecoverStalePartyUnsafe E t r =
     (if \<not> partyHumanObserved r \<or> partyRecovery r \<or> ReturnSelectPending r then r
      else if (\<not> IsZero (partyDungeonLastAt r) \<and> time_Sub t (partyDungeonLastAt r) < partyStaleRecoveryTimeout) \<or>
              (\<not> IsZero (partyDungeonEnteredAt r) \<and> time_Sub t (partyDungeonEnteredAt r) < partyStaleRecoveryTimeout) then r
      else
        let peers = filter partyPeerIdentityKnown (partyPeers r) in
        if partyRosterIsPureRobotUnsafe E r (partySelfPeer r) peers then snd (startPartyRecoveryUnsafe E t r)
        else if stale_humans E t r False peers = Some True then snd (startPartyRecoveryUnsafe E t r)
        else r)"

definition partyRealtimeRoster :: "partyRealtimeIdentity list \<Rightarrow> u16 list" where
  "partyRealtimeRoster identities =
     fold (\<lambda>identity roster. if rt_slot identity < 4 then roster[unat (rt_slot identity) := rt_uniqueID identity] else roster)
       identities (replicate 4 0)"

text \<open>The slot of the robot in a roster: where its identity stands, or its known slot when somebody stands there.\<close>

definition self_in_roster :: "partyIPPeer \<Rightarrow> u16 list \<Rightarrow> (u8 \<times> partyIPPeer) option" where
  "self_in_roster self roster =
     (case (if uniqueID self \<noteq> 0 then index_of (\<lambda>u. u = uniqueID self) roster else None) of
        Some i \<Rightarrow> Some (of_nat i, self)
      | None \<Rightarrow>
          if slotKnown self \<and> peer_slot self < 4 \<and> roster ! unat (peer_slot self) \<noteq> 0
          then Some (peer_slot self, self\<lparr>uniqueID := roster ! unat (peer_slot self)\<rparr>) else None)"

definition roster_peer :: "partyIPPeer list \<Rightarrow> nat \<Rightarrow> u16 \<Rightarrow> partyIPPeer" where
  "roster_peer known slot unique =
     (let peer = zero_peer\<lparr>uniqueID := unique, peer_slot := of_nat slot, slotKnown := True\<rparr> in
      case List.find (\<lambda>old. uniqueID old = unique \<or> (uniqueID old = 0 \<and> slotKnown old \<and> peer_slot old = of_nat slot)) known of
        None \<Rightarrow> peer
      | Some old \<Rightarrow> (mergePartyPeer old peer)\<lparr>peer_slot := of_nat slot, slotKnown := True\<rparr>)"

definition reconcilePartyRealtimeUnsafe :: "env \<Rightarrow> u16 list \<Rightarrow> RobotVo \<Rightarrow> RobotVo" where
  "reconcilePartyRealtimeUnsafe E roster r =
     (case self_in_roster (partySelfPeer r) roster of
        None \<Rightarrow> r
      | Some (selfSlot, self) \<Rightarrow>
          let self = self\<lparr>peer_slot := selfSlot, slotKnown := True, accID := (if accID self = 0 then UID r else accID self)\<rparr>;
              r = setPartySelfPeerUnsafe E self r;
              peers = List.map_filter (\<lambda>(slot, unique). if unique = 0 \<or> of_nat slot = selfSlot then None else Some (roster_peer (partyPeers r) slot unique))
                        (enumerate 0 roster);
              r = observePartyAccountsUnsafe E peers r;
              (started, r) = (if partyHumanObserved r \<and> partyRosterIsPureRobotUnsafe E r self peers
                              then startPartyRecoveryUnsafe E (now E) r else (False, r)) in
          if started then r else setPartyPeersUnsafe E peers r)"

definition maybeConfirmPartyRealtimeUnsafe :: "env \<Rightarrow> time \<Rightarrow> RobotVo \<Rightarrow> RobotVo" where
  "maybeConfirmPartyRealtimeUnsafe E t r =
     (if partyRealtimeConfirmations r \<noteq> 1 \<or> IsZero (partyRealtimeCandidateAt r) \<or>
         time_Sub t (partyRealtimeCandidateAt r) < partyRealtimeStableDelay then r
      else reconcilePartyRealtimeUnsafe E (partyRealtimeCandidate r)
             (r\<lparr>partyRealtimeConfirmations := partyRealtimeConfirmationsRequired, partyRealtimeCandidateAt := zero_time\<rparr>))"

definition applyPartyRealtimeIdentitiesUnsafe :: "env \<Rightarrow> RobotVo \<Rightarrow> RobotVo" where
  "applyPartyRealtimeIdentitiesUnsafe E r =
     (let self = partySelfPeer r;
          unique = partyRealtimeUnique r ! unat (peer_slot self);
          r = (if slotKnown self \<and> peer_slot self < 4 \<and> unique \<noteq> 0 \<and> uniqueID self = 0
               then setPartySelfPeerUnsafe E (self\<lparr>uniqueID := unique\<rparr>) r else r);
          completes = (\<lambda>p. slotKnown p \<and> peer_slot p < 4 \<and> partyRealtimeUnique r ! unat (peer_slot p) \<noteq> 0 \<and> uniqueID p = 0);
          peers = filter partyPeerIdentityKnown (partyPeers r) in
      if list_ex completes peers
      then setPartyPeersUnsafe E (map (\<lambda>p. if completes p then p\<lparr>uniqueID := partyRealtimeUnique r ! unat (peer_slot p)\<rparr> else p) peers) r
      else r)"

definition rememberPartyRealtimeIdentitiesUnsafe :: "env \<Rightarrow> partyRealtimeIdentity list \<Rightarrow> RobotVo \<Rightarrow> RobotVo" where
  "rememberPartyRealtimeIdentitiesUnsafe E identities r =
     (let roster = partyRealtimeRoster identities;
          r = applyPartyRealtimeIdentitiesUnsafe E (r\<lparr>partyRealtimeUnique := roster\<rparr>);
          r = (if roster = partyRealtimeCandidate r
               then (if partyRealtimeConfirmations r < 0xff then r\<lparr>partyRealtimeConfirmations := partyRealtimeConfirmations r + 1\<rparr> else r)
               else r\<lparr>partyRealtimeCandidate := roster, partyRealtimeConfirmations := 1, partyRealtimeCandidateAt := now E\<rparr>) in
      if partyRealtimeConfirmations r = partyRealtimeConfirmationsRequired
      then reconcilePartyRealtimeUnsafe E roster (r\<lparr>partyRealtimeCandidateAt := zero_time\<rparr>) else r)"

subsection \<open>The tick of the supervisor\<close>

definition partySupervisorMaintenance :: duration where "partySupervisorMaintenance = Second"
definition partySelfRefreshInitial :: duration where "partySelfRefreshInitial = 3 * Second"
definition partySelfRefreshMax :: duration where "partySelfRefreshMax = 30 * Second"
definition partySelfRefreshRecycleAfter :: u8 where "partySelfRefreshRecycleAfter = 6"

definition rebuildPartyUDPUnsafe :: "env \<Rightarrow> RobotVo \<Rightarrow> bool \<times> RobotVo" where
  "rebuildPartyUDPUnsafe E r =
     (case rv_Conn r of
        None \<Rightarrow> (False, r)
      | Some conn \<Rightarrow>
          if localAddr E conn = None then (False, r)
          else
            let r = (if partyUDPConn r \<noteq> None then closePartyUDPUnsafe r else r);
                r = fold (\<lambda>slot r. upd_route slot 1 (\<lambda>s. s\<lparr>RouteBlockedUntil := zero_time, RouteFailures := 0\<rparr>)
                                     (resetPartyTQOSRouteUnsafe slot 1 r)) [0, 1, 2, 3] r in
            sendNATInfoUnsafe E (r\<lparr>natInfoSent := False\<rparr>))"

definition ensurePartyUDPHealthUnsafe :: "env \<Rightarrow> RobotVo \<Rightarrow> RobotVo" where
  "ensurePartyUDPHealthUnsafe E r =
     (if rv_State r \<noteq> StateRun \<or> rv_Conn r = None then r
      else
        let (active, r) = partyActiveUnsafe E r in
        if \<not> active then r
        else if partyUDPConn r \<noteq> None \<and> partyUDPRunning r then r
        else snd (rebuildPartyUDPUnsafe E (if partyUDPConn r \<noteq> None then closePartyUDPUnsafe r else r)))"

definition refreshPartySelfIdentityUnsafe :: "env \<Rightarrow> time \<Rightarrow> RobotVo \<Rightarrow> RobotVo" where
  "refreshPartySelfIdentityUnsafe E t r =
     (let self = partySelfPeer r in
      if uniqueID self \<noteq> 0 \<or> accID self \<noteq> UID r \<or> \<not> slotKnown self \<or> partyUDPConn r = None then r
      else if \<not> IsZero (partySelfRefreshAt r) \<and> t < partySelfRefreshAt r then r
      else
        let (sent, r) = (if partySelfRefreshAttempts r \<ge> partySelfRefreshRecycleAfter then
                           let (ok, r) = rebuildPartyUDPUnsafe E r in
                           (ok, if ok then r\<lparr>partySelfRefreshAttempts := 0, partySelfRefreshBackoff := 0\<rparr> else r)
                         else (False, r));
            (sent, r) = (if \<not> sent then sendNATInfoUpdateUnsafe E True r else (sent, r));
            r = (if sent \<and> partySelfRefreshAttempts r < 0xff then r\<lparr>partySelfRefreshAttempts := partySelfRefreshAttempts r + 1\<rparr> else r);
            backoff = (if partySelfRefreshBackoff r \<le> 0 then partySelfRefreshInitial
                       else if partySelfRefreshBackoff r * 2 > partySelfRefreshMax then partySelfRefreshMax else partySelfRefreshBackoff r * 2) in
        r\<lparr>partySelfRefreshBackoff := backoff, partySelfRefreshAt := t + backoff\<rparr>)"

definition supervisor_maintenance :: "env \<Rightarrow> time \<Rightarrow> RobotVo \<Rightarrow> RobotVo" where
  "supervisor_maintenance E t r =
     (let r = ensurePartyUDPHealthUnsafe E r;
          r = refreshPartySelfIdentityUnsafe E t r;
          r = ensurePartyRelayUnsafe E r;
          r = startPartyRobotPeerNegotiationUnsafe E r;
          r = probePartyRobotPeerHealthUnsafe E (partyUDPConn r) t r;
          r = maybeConfirmPartyRealtimeUnsafe E t r in
      maybeRecoverStalePartyUnsafe E t r)"

text \<open>\<open>t\<close> is the instant of the ticker, \<open>nextMaintenance\<close> the variable of the loop; \<open>None\<close> ends the goroutine.\<close>

definition partySupervisorStep :: "env \<Rightarrow> u64 \<Rightarrow> time \<Rightarrow> time \<Rightarrow> RobotVo \<Rightarrow> time option \<times> RobotVo" where
  "partySupervisorStep E epoch t nextMaintenance r =
     (let (active, r) = (if rv_State r = StateRun \<and> partySupervisorEpoch r = epoch then partyActiveUnsafe E r else (False, r)) in
      if \<not> active then (None, if partySupervisorEpoch r = epoch then r\<lparr>partySupervisorRun := False\<rparr> else r)
      else
        let due = IsZero nextMaintenance \<or> \<not> t < nextMaintenance;
            r = (if due then supervisor_maintenance E t r else r);
            udp = (if partyUDPRunning r then partyUDPConn r else None) in
        (Some (if due then t + partySupervisorMaintenance else nextMaintenance), flushPartyRuntimeUnsafe E udp t r))"

end
