(* ===== verification/Robot_Packets.thy ===== *)
theory Robot_Packets
  imports Party_Members
begin

section \<open>The packets a robot handles\<close>

text \<open>
  \<open>parsePacket\<close> of \<open>robot_packets.go\<close> and the handlers it dispatches to: \<open>robot_packet_session.go\<close>,
  \<open>robot_packet_login.go\<close>, \<open>robot_packet_store_trade.go\<close>, \<open>robot_packet_party.go\<close> and the answer to the return to the
  character selection. Theory \<open>Robot_Session\<close> interprets the receive loop of theory \<open>Packet_Stream\<close> on this handler.
\<close>

record robotInboundPacket =
  pk_data :: bytes
  pk_size :: nat
  pk_flag :: u8
  pk_typ :: u16
  pk_isAnti :: bool

definition stop_session :: "RobotVo \<Rightarrow> RobotVo" where
  "stop_session r = closeConn (r\<lparr>rv_State := StateStop\<rparr>)"

subsection \<open>Session packets\<close>

definition handleSessionPacketUnsafe :: "env \<Rightarrow> robotInboundPacket \<Rightarrow> RobotVo \<Rightarrow> RobotVo" where
  "handleSessionPacketUnsafe E packet r =
     (if pk_flag packet \<noteq> 0 then r
      else if pk_typ packet = 0 then snd (send_then_count E 0 (replicate 8 0) r)
      else if pk_typ packet = 199 then
        (case recv_body E (Cipher r) (pk_data packet) (pk_isAnti packet) of
           None \<Rightarrow> r
         | Some decData \<Rightarrow>
             if length decData < 4 then r
             else
               let r = r\<lparr>DisconReason := uint (le32 (slice 0 4 decData))\<rparr> in
               if DisconReason r \<noteq> NoDisconnect then snd (startRobotRoutine E RefreshConnect r) else r)
      else r)"

subsection \<open>Login packets\<close>

definition loginBodySize :: nat where "loginBodySize = 400"

definition login_body :: "RobotVo \<Rightarrow> bytes" where
  "login_body r =
     (let n = unat (TokenSize r);
          real = copy_into 4 (put32 (TokenSize r)) (copy_into 0 (replicate 4 0) (loginReal r));
          real = copy_into 8 (take n (Token r)) real in
      copy_into (8 + n) (loginEnd r) real)"

definition login_key_packet :: "env \<Rightarrow> bytes \<Rightarrow> RobotVo \<Rightarrow> RobotVo" where
  "login_key_packet E decData r =
     (case Initialize (Cipher r) (take 334 decData) of
        (cipher, Some e) \<Rightarrow> r\<lparr>Cipher := cipher\<rparr>
      | (cipher, None) \<Rightarrow>
          let r = r\<lparr>Cipher := cipher\<rparr> in
          if 8 + unat (TokenSize r) > loginBodySize then stop_session r
          else
            let r = r\<lparr>loginReal := login_body r\<rparr> in
            snd (send_packet E 1 0 (take loginBodySize (loginReal r)) r))"

text \<open>The packet that ends the login: position, area, start position; the robot runs once the last was sent.\<close>

definition enter_run :: "env \<Rightarrow> RobotVo \<Rightarrow> RobotVo" where
  "enter_run E r =
     (let r = r\<lparr>PacketID := 29, rv_State := StateRun, ConnCount := 0\<rparr>;
          r = snd (sendNATInfoUnsafe E r);
          r = snd (sendPartyOptionUnsafe E r);
          r = (if RunStartTime r = 0 then r\<lparr>RunStartTime := word_of_int (UnixNano (now E) div Second)\<rparr> else r);
          r = runDisjointAfterLoginUnsafe E r in
      if partyRecoveryResumePending r then r\<lparr>partyRecoveryResumePending := False\<rparr> else r)"

definition login_completion :: "env \<Rightarrow> RobotVo \<Rightarrow> RobotVo" where
  "login_completion E r =
     (let r = snd (send_packet E 37 19 (setPos r) r);
          r = r\<lparr>setArea := area_body (CurVillage r) (CurArea r) (CurX r) (CurY r) (ucast (CurVillage r)) (ucast (GateArea r)) (setArea r)\<rparr>;
          r = snd (send_packet E 38 26 (setArea r) r);
          r = r\<lparr>setPosStart := copy_into 0 (put16 (CurX r) @ put16 (CurY r)) (setPosStart r)\<rparr>;
          (ok, r) = send_packet E 37 27 (setPosStart r) r in
      if ok then enter_run E r else r)"

definition handleLoginPacketUnsafe :: "env \<Rightarrow> robotInboundPacket \<Rightarrow> RobotVo \<Rightarrow> RobotVo" where
  "handleLoginPacketUnsafe E packet r =
     (if pk_typ packet = 1 then
        if rv_State r \<noteq> StateLogin then r
        else if pk_flag packet = 1 then (if pk_size packet < 15 then stop_session r else r)
        else if pk_flag packet \<noteq> 0 then r
        else case recv_body E (Cipher r) (pk_data packet) (pk_isAnti packet) of
          None \<Rightarrow> r
        | Some decData \<Rightarrow> if length decData \<ge> 334 then login_key_packet E decData r else r
      else if pk_typ packet = 272 then
        if pk_flag packet \<noteq> 0 \<or> rv_State r \<noteq> StateLogin \<or> NccSent r then r
        else case recv_body E (Cipher r) (pk_data packet) (pk_isAnti packet) of
          None \<Rightarrow> r
        | Some decData \<Rightarrow>
            if length decData = 0 then r
            else
              let r = snd (send_packet E 294 0 decData (r\<lparr>NccSent := True\<rparr>)) in
              snd (sendSelectCharacUnsafe E r)
      else if pk_typ packet = 53 then
        if pk_flag packet = 0 \<and> rv_State r = StateLogin \<and> \<not> SelectCharacSent r then snd (sendSelectCharacUnsafe E r) else r
      else if pk_typ packet = 300 then
        if pk_flag packet \<noteq> 0 \<or> rv_State r \<noteq> StateLogin then r else login_completion E r
      else r)"

subsection \<open>Store and trade packets\<close>

definition disjoint_answer :: "bytes \<Rightarrow> RobotVo \<Rightarrow> RobotVo" where
  "disjoint_answer decData r =
     (if length decData > 0 \<and> decData ! 0 = 1 then r\<lparr>DisjointDirectAck := True, DisjointActive := True, LastDisjointError := 0\<rparr>
      else if length decData \<ge> 2 \<and> decData ! 0 = 0 then
        if DisjointActive r then r
        else r\<lparr>DisjointDirectAck := False, DisjointActive := False, LastDisjointError := decData ! 1\<rparr>
      else r)"

definition create_answer :: "u8 \<Rightarrow> u8 \<Rightarrow> RobotVo \<Rightarrow> RobotVo" where
  "create_answer answer storeErr r =
     (if answer = 1 then r\<lparr>StoreCreated := True, StoreCreateRejected := False, LastStoreError := 0\<rparr>
      else if \<not> StoreCreated r then r\<lparr>StoreCreateRejected := True, LastStoreError := storeErr\<rparr>
      else r)"

definition display_answer :: "env \<Rightarrow> u8 \<Rightarrow> u8 \<Rightarrow> RobotVo \<Rightarrow> RobotVo" where
  "display_answer E answer storeErr r =
     (if answer = 1 then r\<lparr>StoreDisplayAck := True, StoreDisplayRejected := False, LastStoreError := 0\<rparr>
      else if \<not> StoreDisplayAck r then
        let (retried, r) = (if storeErr = 0x11 then retryPrivateStoreDisplayUnsafe E r else (False, r)) in
        if retried then r else r\<lparr>StoreDisplayRejected := True, LastStoreError := storeErr\<rparr>
      else r)"

text \<open>The entries of an inventory list, 25 bytes each, by position.\<close>

fun inventory_entries :: "nat \<Rightarrow> bytes \<Rightarrow> (int \<rightharpoonup> Transaction) \<Rightarrow> int \<rightharpoonup> Transaction" where
  "inventory_entries 0 data inventory = inventory"
| "inventory_entries (Suc n) data inventory =
     (let itemPos = le16 (slice 0 2 data) :: 16 word;
          tx = \<lparr>ItemPos = itemPos, ItemId = le32 (slice 2 6 data), ItemNum = le32 (slice 6 10 data), ItemType = 0\<rparr> in
      inventory_entries n (drop 25 data) (inventory(sint itemPos \<mapsto> tx)))"

definition inventory_list :: "bytes \<Rightarrow> RobotVo \<Rightarrow> RobotVo" where
  "inventory_list decData r =
     (let itemNumber = unat (le16 (slice 3 5 decData));
          required = 5 + itemNumber * 25 in
      if length decData < required then r
      else if itemNumber = 0 \<and> IsWaitingItemList r then r
      else r\<lparr>InfanMap := inventory_entries itemNumber (slice 5 required decData) Map.empty,
             storeInventoryVersion := storeInventoryVersion r + 1, IsWaitingItemList := False\<rparr>)"

definition trade_item :: "env \<Rightarrow> bytes \<Rightarrow> RobotVo \<Rightarrow> RobotVo" where
  "trade_item E decData r =
     (let r = (if StoreDisplaySent r \<and> RobotTyp r = 2 \<and> \<not> StoreDisplayAck r then r\<lparr>StoreDisplayAck := True\<rparr> else r);
          itemPos = le16 (slice 0 2 decData) :: 16 word;
          itemID = le32 (slice 2 6 decData) :: 32 word;
          itemNum = le32 (slice 6 10 decData) :: 32 word;
          itemType = le32 (slice 11 15 decData) :: 32 word;
          r = clearConfirmedTradeFallbackUnsafe r;
          idx = sint itemPos - 3;
          valid = idx \<ge> 0 \<and> idx < 24;
          slot = (if sint itemID < 0 then None
                  else Some \<lparr>ItemPos = itemPos - 3, ItemId = itemID,
                             ItemNum = (if itemType = 100 \<or> sint itemNum < 1 then 1 else itemNum), ItemType = itemType\<rparr>);
          r = (if valid then r\<lparr>TransactionArr := (TransactionArr r)[nat idx := slot]\<rparr> else r) in
      queueTradeQuoteRefreshUnsafe E r)"

definition trade_state :: "env \<Rightarrow> bytes \<Rightarrow> RobotVo \<Rightarrow> RobotVo" where
  "trade_state E decData r =
     (let r = clearConfirmedTradeFallbackUnsafe r;
          unique = le16 (slice 0 2 decData);
          state = decData ! 2;
          r = (if unique = LastTradeID r \<and> state = 1 then snd (send_counted E 26 (1 # replicate 7 0) r) else r) in
      if unique \<noteq> LastTradeID r \<and> state = 1 then snd (send_counted E 26 (3 # replicate 7 0) r) else r)"

definition handleStoreTradePacketUnsafe :: "env \<Rightarrow> robotInboundPacket \<Rightarrow> RobotVo \<Rightarrow> RobotVo" where
  "handleStoreTradePacketUnsafe E packet r =
     (let body = recv_body E (Cipher r) (pk_data packet) (pk_isAnti packet) in
      if pk_typ packet = 238 then
        if rv_State r \<noteq> StateRun \<or> pk_flag packet \<noteq> 1 \<or> RobotTyp r \<noteq> 3 then r
        else (case body of None \<Rightarrow> r | Some decData \<Rightarrow> disjoint_answer decData r)
      else if pk_typ packet = 88 \<or> pk_typ packet = 90 then
        if rv_State r \<noteq> StateRun \<or> RobotTyp r \<noteq> 2 \<or> pk_flag packet \<noteq> 1 then r
        else (case body of
            None \<Rightarrow> r
          | Some decData \<Rightarrow>
              let answer = (if length decData > 0 then decData ! 0 else 0);
                  storeErr = (if length decData > 1 then decData ! 1 else 0) in
              if pk_typ packet = 88 then create_answer answer storeErr r else display_answer E answer storeErr r)
      else if pk_typ packet = 13 then
        if pk_flag packet \<noteq> 0 \<or> (rv_State r \<noteq> StateRun \<and> rv_State r \<noteq> StateLogin) then r
        else (case body of None \<Rightarrow> r | Some decData \<Rightarrow> if length decData \<ge> 5 then inventory_list decData r else r)
      else if pk_typ packet = 15 then
        if pk_flag packet \<noteq> 0 \<or> rv_State r \<noteq> StateRun then r
        else (case body of None \<Rightarrow> r | Some decData \<Rightarrow> if length decData \<ge> 15 then trade_item E decData r else r)
      else if pk_typ packet = 16 then
        if pk_flag packet = 0 \<and> rv_State r = StateRun
        then clearTradeUnsafe (invalidateTradeQuoteUnsafe (clearConfirmedTradeFallbackUnsafe r)) else r
      else if pk_typ packet = 17 then
        if pk_flag packet \<noteq> 0 \<or> rv_State r \<noteq> StateRun then r
        else (case body of None \<Rightarrow> r | Some decData \<Rightarrow> if length decData \<ge> 3 then trade_state E decData r else r)
      else r)"

subsection \<open>Party packets\<close>

definition buildFinishLoadingPayload :: "u32 \<Rightarrow> u32 \<Rightarrow> bytes" where
  "buildFinishLoadingPayload inventoryChecksum skillChecksum = put32 inventoryChecksum @ put32 skillChecksum"

definition dungeon_entry :: "env \<Rightarrow> RobotVo \<Rightarrow> RobotVo" where
  "dungeon_entry E r = snd (send_counted E 40 (buildFinishLoadingPayload 0 0) (markPartyDungeonEnteredUnsafe (now E) r))"

definition town_position :: "env \<Rightarrow> robotInboundPacket \<Rightarrow> RobotVo \<Rightarrow> RobotVo" where
  "town_position E packet r =
     (case selectTownEntityPositionBodyUnsafe E (pk_data packet) (pk_isAnti packet) r of
        (None, r) \<Rightarrow> r
      | (Some body, r) \<Rightarrow>
          (case rememberTownEntityUnsafe E body (clearPartyDungeonRuntimeUnsafe E r) of
             (None, r) \<Rightarrow> r
           | (Some position, r) \<Rightarrow> snd (followPartyLeaderTownPositionUnsafe E position r)))"

definition town_area :: "env \<Rightarrow> robotInboundPacket \<Rightarrow> RobotVo \<Rightarrow> RobotVo" where
  "town_area E packet r =
     (case selectTownEntityAreaUnsafe E (pk_data packet) (pk_isAnti packet) r of
        (None, r) \<Rightarrow> r
      | (Some area, r) \<Rightarrow> snd (followPartyLeaderTownAreaUnsafe E area (clearPartyDungeonRuntimeUnsafe E r)))"

definition party_info :: "env \<Rightarrow> robotInboundPacket \<Rightarrow> RobotVo \<Rightarrow> RobotVo" where
  "party_info E packet r =
     (case partyInfoPacketClearsParty E (Cipher r) (pk_data packet) (pk_isAnti packet) of
        Inl e \<Rightarrow> r
      | Inr (clears, source) \<Rightarrow>
          let r = rememberPartyRecvSourceUnsafe source r in if clears then r else clearPartyInviteFallbackUnsafe r)"

definition party_snapshot :: "env \<Rightarrow> robotInboundPacket \<Rightarrow> RobotVo \<Rightarrow> RobotVo" where
  "party_snapshot E packet r =
     (case selectPartyIPInfoPacket E (Cipher r) (pk_data packet) (pk_isAnti packet) (UID r) of
        Inl e \<Rightarrow> r
      | Inr (self, peers, source) \<Rightarrow>
          let r = rememberPartyRecvSourceUnsafe source r;
              r = r\<lparr>partyRealtimeCandidate := replicate 4 0, partyRealtimeConfirmations := 0, partyRealtimeCandidateAt := zero_time\<rparr>;
              r = setPartySelfPeerUnsafe E self (observePartyAccountsUnsafe E peers r);
              (recovering, r) = (if partyHumanObserved r \<and> partyRosterIsPureRobotUnsafe E r (partySelfPeer r) peers
                                 then startPartyRecoveryUnsafe E (now E) r else (False, r)) in
          if recovering then r
          else
            let r = applyPartyRealtimeIdentitiesUnsafe E (setPartyPeersUnsafe E peers r);
                r = snd (followCachedPartyLeaderTownPositionUnsafe E (ensurePartyRelayUnsafe E r)) in
            startPartyRobotPeerNegotiationUnsafe E r)"

definition entity_gone :: "env \<Rightarrow> robotInboundPacket \<Rightarrow> RobotVo \<Rightarrow> RobotVo" where
  "entity_gone E packet r =
     (case List.find (\<lambda>c. length (cand_body c) \<ge> 2 \<and> le16 (slice 0 2 (cand_body c)) \<noteq> 0 \<and>
                         partyEntityKnownUnsafe r (le16 (slice 0 2 (cand_body c))))
             (fst (recvBodyCandidates E (Cipher r) (pk_data packet) (pk_isAnti packet))) of
        None \<Rightarrow> r
      | Some c \<Rightarrow>
          let r = rememberPartyRecvSourceUnsafe (cand_source c) r in
          r\<lparr>townEntityPositions := (townEntityPositions r)(le16 (slice 0 2 (cand_body c)) := None)\<rparr>)"

definition party_option :: "env \<Rightarrow> robotInboundPacket \<Rightarrow> RobotVo \<Rightarrow> RobotVo" where
  "party_option E packet r =
     (case recv_body E (Cipher r) (pk_data packet) (pk_isAnti packet) of
        None \<Rightarrow> r
      | Some decData \<Rightarrow>
          (case partyAcceptGameOptions decData of
             None \<Rightarrow> r
           | Some optionData \<Rightarrow>
               snd (sendPartyOptionUnsafe E
                 (r\<lparr>partyOptionData := copy_into 0 optionData (partyOptionData r), partyOptionReady := True, partyOptionSent := False\<rparr>))))"

definition accept_request :: "env \<Rightarrow> peerResponseCandidate \<Rightarrow> peerResponseCandidate option \<Rightarrow> RobotVo \<Rightarrow> RobotVo" where
  "accept_request E selected alternate r =
     (let unique = le16 (slice 0 2 (pr_data selected));
          t = pr_typ selected;
          (sent, r) = send_counted E 11 (pr_data selected) r;
          r = (if sent \<and> t = peerRequestTrade then r\<lparr>LastTradeID := unique, LastTradeState := True\<rparr> else r);
          r = (if sent \<and> t = peerRequestParty then ensurePartyRelayUnsafe E (setPartyPendingUnsafe E unique r) else r);
          r = (if sent then schedulePartyInviteFallbackUnsafe E selected alternate r else r) in
      if t = peerRequestTrade then (invalidateTradeQuoteUnsafe r)\<lparr>TradeMoney := 0\<rparr> else r)"

definition peer_request :: "env \<Rightarrow> robotInboundPacket \<Rightarrow> RobotVo \<Rightarrow> RobotVo" where
  "peer_request E packet r =
     (case selectPeerResponsePackets E (Cipher r) (pk_data packet) (pk_isAnti packet) (partyRecvSource r) (Some (partyConfirmedPeerUnsafe r)) of
        Inl e \<Rightarrow> r
      | Inr (selected, alternate) \<Rightarrow>
          let r = rememberPartyRecvSourceUnsafe (pr_source selected) r in
          if pr_typ selected = peerRequestParty \<or> (\<not> LastTradeState r \<and> LastTradeID r = 0)
          then accept_request E selected alternate r else r)"

definition handlePartyPacketUnsafe :: "env \<Rightarrow> robotInboundPacket \<Rightarrow> RobotVo \<Rightarrow> RobotVo" where
  "handlePartyPacketUnsafe E packet r =
     (let t = pk_typ packet; run = rv_State r = StateRun \<and> pk_flag packet = 0 in
      if t = 28 \<or> t = 29 then (if \<not> run \<or> pk_size packet < 15 then r else dungeon_entry E r)
      else if t = 22 then (if \<not> run then r else town_position E packet r)
      else if t = 23 then (if \<not> run then r else town_area E packet r)
      else if t = 9 then (if \<not> run \<or> length (pk_data packet) \<le> 15 then r else party_info E packet r)
      else if t = 11 then (if \<not> run then r else party_snapshot E packet r)
      else if t = 153 then
        (if \<not> run then r
         else case selectPartyRealtimeInfoPacket E (Cipher r) (pk_data packet) (pk_isAnti packet) of
           Inl e \<Rightarrow> r
         | Inr (identities, _) \<Rightarrow> rememberPartyRealtimeIdentitiesUnsafe E identities r)
      else if t = 6 then (if \<not> run then r else entity_gone E packet r)
      else if t = 173 then
        (if pk_flag packet \<noteq> 0 \<or> (rv_State r \<noteq> StateLogin \<and> rv_State r \<noteq> StateRun) then r else party_option E packet r)
      else if t = 7 then (if \<not> run then r else peer_request E packet r)
      else r)"

subsection \<open>The answer to the return to the character selection\<close>

text \<open>\<open>True\<close> when the packet was the answer to the robot's own request.\<close>

definition handleReturnToSelectPacketUnsafe :: "env \<Rightarrow> robotInboundPacket \<Rightarrow> RobotVo \<Rightarrow> bool \<times> RobotVo" where
  "handleReturnToSelectPacketUnsafe E packet r =
     (if pk_typ packet \<noteq> 7 \<or> \<not> ReturnSelectPending r then (False, r)
      else if pk_flag packet = 1 then (True, finishReturnToSelectUnsafe E r)
      else if pk_flag packet \<noteq> 0 then (False, r)
      else
        case List.find (\<lambda>c. length (cand_body c) \<ge> 1 \<and> (cand_body c ! 0 = 0 \<or> cand_body c ! 0 = 1))
               (fst (recvBodyCandidates E (Cipher r) (pk_data packet) (pk_isAnti packet))) of
          None \<Rightarrow> (True, r)
        | Some c \<Rightarrow>
            let r = r\<lparr>ReturnSelectPending := False\<rparr> in
            if cand_body c ! 0 \<noteq> 1 then
              (True, publishSnapshotUnsafe E (r\<lparr>ReturnSelectRejected := True, partyRecovery := False,
                       partyRecoveryCooldownUntil := now E + 30 * Second\<rparr>))
            else (True, finishReturnToSelectUnsafe E r))"

subsection \<open>Dispatch\<close>

definition inbound_packet :: "bytes \<Rightarrow> bool \<Rightarrow> robotInboundPacket" where
  "inbound_packet data isAnti =
     \<lparr>pk_data = data, pk_size = length data, pk_flag = data ! 0, pk_typ = le16 (slice 1 3 data), pk_isAnti = isAnti\<rparr>"

text \<open>A packet of type 561 is an envelope around another packet.\<close>

definition open_envelope :: "bytes \<Rightarrow> robotInboundPacket" where
  "open_envelope inBuf =
     (let packet = inbound_packet inBuf False in
      if pk_flag packet = 0 \<and> pk_typ packet = 561 \<and> pk_size packet > 36 then
        (case DecryptAnti (drop 19 inBuf) of
           Inl e \<Rightarrow> packet
         | Inr dec \<Rightarrow> if length dec \<ge> 7 then inbound_packet dec True else packet)
      else packet)"

definition dispatch :: "env \<Rightarrow> robotInboundPacket \<Rightarrow> RobotVo \<Rightarrow> RobotVo" where
  "dispatch E packet r =
     (let t = pk_typ packet in
      if t = 7 then
        let (consumed, r) = handleReturnToSelectPacketUnsafe E packet r in
        if consumed then r else handlePartyPacketUnsafe E packet r
      else if t \<in> set [6, 9, 11, 22, 23, 28, 29, 153, 173] then handlePartyPacketUnsafe E packet r
      else if t \<in> set [1, 53, 272, 300] then handleLoginPacketUnsafe E packet r
      else if t \<in> set [13, 15, 16, 17, 88, 90, 238] then handleStoreTradePacketUnsafe E packet r
      else if t \<in> set [0, 199] then handleSessionPacketUnsafe E packet r
      else r)"

definition parsePacket :: "env \<Rightarrow> bytes \<Rightarrow> RobotVo \<Rightarrow> RobotVo" where
  "parsePacket E inBuf r =
     (if rv_State r = StateStop \<or> length inBuf < 7 then r else dispatch E (open_envelope inBuf) r)"

end
