(* ===== verification/Robot_Lifecycle.thy ===== *)
theory Robot_Lifecycle
  imports Robot_Packets
begin

section \<open>The life of a session\<close>

text \<open>
  Creating, loading, connecting, reading, reconnecting and closing a robot (\<open>robot_session.go\<close>, \<open>robot_lifecycle.go\<close>). A robot is the record \<open>session\<close> of
  theory \<open>Packet_Stream\<close>, which has the receive buffer, around the record \<open>RobotVo\<close>. What the task
  answers (is this robot the current one, was it replaced) is an argument; what the robot asks of the task is a
  result. The program has one task, so the field \<open>Controller\<close> is the flag \<open>hasController\<close>.
\<close>

type_synonym robot = "unit RobotVo_ext robot_party_ext robot_market_ext robot_session_ext session"

subsection \<open>Creation\<close>

definition new_session :: "bool \<Rightarrow> robot_session" where
  "new_session db =
     \<lparr>rv_State = StateStop, rv_Conn = None, closedConns = [],
      UID = 0, CID = 0, CharacterSlot = 0, LoginIP = [], LocalIP = [], gameIP = [], gamePort = 0,
      LoginInfo = \<lparr>li_IP = [], li_Port = 0, li_Token = replicate 512 0, li_TokenSize = 0, li_UID = 0, li_CID = 0, li_CharacterSlot = 0,
        li_MaxReConn = 0, li_ReDelay = 0, li_BirthPos = (0, 0, 0, 0), li_GateArea = 0\<rparr>,
      hasController = False, hasDB = db, Cipher = NewDNFCipher, LastError = NoneError, Token = replicate 512 0, TokenSize = 0,
      MaxReConn = 0, ConnCount = 0, ReDelay = 0, PacketID = 0, CurVillage = 0, CurArea = 0, CurX = 0, CurY = 0, GateArea = 0, NccSent = False,
      SelectCharacSent = False, ReturnSelectPending = False, ReturnSelectRejected = False, RunStartTime = 0, MoveType = 0,
      DisconReason = NoDisconnect, RobotTyp = 0, loginReal = replicate 512 0,
      loginEnd = [0x00, 0x00, 0x00, 0x00, 0x00, 0x00, 0x00, 0x00, 0x00, 0x08, 0x00, 0x00, 0x00, 0xF2, 0x03, 0x22,
        0xCF, 0x10, 0x4E, 0x91, 0xD0, 0x22, 0x67, 0x32, 0x01, 0xC9, 0x3F, 0xAB, 0x01, 0x03, 0x00, 0x01] @ replicate 32 0,
      selectCharac = replicate 16 0, setPos = [0xDA, 0x01, 0xEA, 0x00, 0x05, 0x68, 0x00, 0x00],
      setArea = [0x01, 0x00, 0x11, 0x03, 0x9E, 0x00, 0x05, 0x01, 0x00, 0x01, 0x00, 0x00, 0x00, 0x00, 0x00, 0x00],
      setPosStart = [0x11, 0x03, 0x00, 0x01, 0x05, 0x64, 0x00, 0x00],
      connectInFlight = False, writeScript = [], wrote = [], started = []\<rparr>"

definition new_market :: "bool \<Rightarrow> robot_market" where
  "new_market db = robot_session.extend (new_session db)
     \<lparr>LastTradeID = 0, LastTradeState = False, TradeMoney = 0, tradeQuoteLoading = False, tradeQuotePending = False, tradeQuoteVersion = 0,
      tradeQuoteFailures = 0, TransactionArr = replicate 24 None, InfanMap = Map.empty, IsWaitingItemList = False, PendingStoreTitle = [],
      StoreDisplaySent = False, StoreDisplayAck = False, StoreDisplayRejected = False, StoreCreateRejected = False, LastStoreError = 0,
      StoreCreated = False, LastStoreDisplay = [], storeDisplayCandidates = [], storeDisplayRetryPlans = [], storeDisplayRetryIndex = 0,
      storeInventoryVersion = 0, DisjointCreateSent = False, DisjointDirectAck = False, DisjointActive = False, LastDisjointError = 0,
      AfterRunDisjointCost = 0\<rparr>"

definition new_party :: "bool \<Rightarrow> robot_party" where
  "new_party db = robot_market.extend (new_market db)
     \<lparr>partyOptionReady = False, partyOptionSent = False, partyOptionData = replicate gameEtcOptionSize 0,
      partyRecvSource = recvBodySourceUnknown, natInfoSent = False, partySelfPeer = zero_peer, partySelfRefreshAt = zero_time,
      partySelfRefreshBackoff = 0, partySelfRefreshAttempts = 0, partyRealtimeUnique = replicate 4 0, partyRealtimeCandidate = replicate 4 0,
      partyRealtimeConfirmations = 0, partyRealtimeCandidateAt = zero_time, partyHumanObserved = False, partyRecovery = False,
      partyRecoveryResumePending = False, partyRecoveryEpoch = 0, partyRecoveryCooldownUntil = zero_time, partyPeers = replicate 4 zero_peer,
      partyLeaderTransportUnique = 0, partyLeaderTransportAt = zero_time, partyPendingPeer = 0, partyPendingUntil = zero_time,
      partyInviteFallback = zero_fallback, partyInviteTimer = False, partyInviteEpoch = 0, townEntityPositions = Map.empty,
      townEntitySweepAt = zero_time, lastSnapshot = None\<rparr>"

definition new_vo :: "bool \<Rightarrow> RobotVo" where
  "new_vo db = robot_party.extend (new_party db)
     \<lparr>partyUDPConn = None, partyUDPMTU = 0, partyUDPNetwork = None, partyUDPRunning = False, partyUDPGeneration = 0, partySupervisorRun = False,
      partySupervisorEpoch = 0, partyRelayConn = None, partyRelayConnecting = False, partyRelayGeneration = 0, partyRelayNextAt = zero_time,
      partyRelayBackoff = 0, partyRelayWriter = None, routes = (\<lambda>_ _. zero_route), slots = (\<lambda>_. zero_slot), udpScript = [], udpSent = [],
      partyRuntimeDiagAt = zero_time, partyDungeonFollow = [], partyDungeonEnteredAt = zero_time, partyDungeonLastAt = zero_time,
      partyDungeonFlags = 0, partySkillNextAt = zero_time, partySkillRecoverAt = zero_time, partySkillBlockedUntil = zero_time,
      partySkillLoaded = False, partySkillLoading = False, partySkillGeneration = 0, partySkillCatalogGeneration = 0, partySkillJob = 0,
      partySkillCandidates = []\<rparr>"

text \<open>The cipher pointer is nil until \<open>Load\<close>, which is the first call on a new robot.\<close>

definition NewRobotVo :: "bool \<Rightarrow> robot" where
  "NewRobotVo db = \<lparr>rv = new_vo db, recvBuffer = [], recvSize = 0, recvMaxSize = 0, minBufferSize = 4096\<rparr>"

definition load_vo :: "env \<Rightarrow> UserLoginInfo \<Rightarrow> RobotVo \<Rightarrow> RobotVo" where
  "load_vo E info r =
     (let tokenSize = (if li_TokenSize info > 512 then 512 else li_TokenSize info);
          (village, area, x, y) = li_BirthPos info;
          r = r\<lparr>LoginInfo := info, gameIP := li_IP info, gamePort := li_Port info, UID := li_UID info, CID := li_CID info,
                CharacterSlot := li_CharacterSlot info, MaxReConn := li_MaxReConn info, ReDelay := li_ReDelay info, TokenSize := tokenSize,
                Token := copy_into 0 (take (unat tokenSize) (li_Token info)) (Token r), CurVillage := ucast village, CurArea := ucast area,
                CurX := ucast x, CurY := ucast y, GateArea := ucast (li_GateArea info), Cipher := NewDNFCipher, MoveType := 5,
                SelectCharacSent := False, ReturnSelectPending := False, ReturnSelectRejected := False\<rparr>;
          r = r\<lparr>StoreDisplaySent := False, StoreDisplayAck := False, StoreDisplayRejected := False, StoreCreateRejected := False,
                LastStoreError := 0, StoreCreated := False, storeInventoryVersion := storeInventoryVersion r + 1\<rparr>;
          r = clearTradeUnsafe (invalidateTradeQuoteUnsafe r);
          r = r\<lparr>DisjointCreateSent := False, DisjointDirectAck := False, DisjointActive := False, LastDisjointError := 0,
                AfterRunDisjointCost := 0, partyOptionData := copy_into 0 defaultPartyAcceptGameOptions (partyOptionData r),
                partyOptionReady := True, partyOptionSent := False, partyRecvSource := recvBodySourceUnknown, natInfoSent := False\<rparr>;
          r = (stopPartySupervisorUnsafe r)\<lparr>partySelfPeer := zero_peer, partySelfRefreshAt := zero_time, partySelfRefreshBackoff := 0,
                partySelfRefreshAttempts := 0, partyRealtimeUnique := replicate 4 0, partyRealtimeCandidate := replicate 4 0,
                partyRealtimeConfirmations := 0, partyRealtimeCandidateAt := zero_time, partyHumanObserved := False, partyRecovery := False,
                partyRecoveryResumePending := False, partyRecoveryEpoch := partyRecoveryEpoch r + 1, partyRecoveryCooldownUntil := zero_time,
                partyPeers := replicate 4 zero_peer\<rparr>;
          r = (clearPartyPendingUnsafe r)\<lparr>townEntityPositions := Map.empty, townEntitySweepAt := zero_time, partyRelayNextAt := zero_time,
                partyRelayBackoff := 0\<rparr>;
          r = resetPartySkillProfileUnsafe (resetPartyTQOSTransportUnsafe r);
          r = closePartyRelayUnsafe (closePartyUDPUnsafe r) in
      publishSnapshotUnsafe E (r\<lparr>rv_Conn := None, LoginIP := li_IP info, LocalIP := ''127.0.0.1''\<rparr>))"

definition Load :: "env \<Rightarrow> UserLoginInfo \<Rightarrow> robot \<Rightarrow> robot" where
  "Load E info s = s\<lparr>rv := load_vo E info (rv s), recvSize := 0\<rparr>"

subsection \<open>Closing\<close>

definition close_vo :: "env \<Rightarrow> RobotVo \<Rightarrow> RobotVo" where
  "close_vo E r =
     (let r = closePartyRelayUnsafe (closePartyUDPUnsafe (closeConn (stopPartySupervisorUnsafe r)));
          r = clearTradeUnsafe (invalidateTradeQuoteUnsafe (clearPartyPendingUnsafe r)) in
      publishSnapshotUnsafe E (r\<lparr>rv_State := StateStop\<rparr>))"

definition closeOutUnsafe :: "env \<Rightarrow> robot \<Rightarrow> robot" where
  "closeOutUnsafe E s = s\<lparr>rv := close_vo E (rv s), recvBuffer := [], recvSize := 0\<rparr>"

definition CloseOut :: "env \<Rightarrow> robot \<Rightarrow> robot" where
  "CloseOut E s = closeOutUnsafe E s"

text \<open>\<open>locked\<close> tells that another goroutine holds the lock.\<close>

definition TryCloseOut :: "env \<Rightarrow> bool \<Rightarrow> robot \<Rightarrow> bool \<times> robot" where
  "TryCloseOut E locked s = (if locked then (False, s) else (True, closeOutUnsafe E s))"

definition Snapshot :: "env \<Rightarrow> robot \<Rightarrow> RobotSnapshot option \<times> robot" where
  "Snapshot E s = (let r = publishSnapshotUnsafe E (rv s) in (lastSnapshot r, s\<lparr>rv := r\<rparr>))"

definition TrySnapshot :: "env \<Rightarrow> bool \<Rightarrow> robot \<Rightarrow> (RobotSnapshot option \<times> bool) \<times> robot" where
  "TrySnapshot E locked s =
     (if locked then ((lastSnapshot (rv s), False), s)
      else let (snapshot, s) = Snapshot E s in ((snapshot, True), s))"

subsection \<open>Connecting\<close>

definition prepareConnect :: "env \<Rightarrow> robot \<Rightarrow> bool \<times> robot" where
  "prepareConnect E s =
     (if rv_State (rv s) \<noteq> StateStop then (False, s)
      else (True, s\<lparr>rv := publishSnapshotUnsafe E ((rv s)\<lparr>hasController := True, connectInFlight := False, rv_State := StateInit\<rparr>)\<rparr>))"

definition readyToConnect :: "robot \<Rightarrow> bool" where
  "readyToConnect s \<longleftrightarrow> rv_State (rv s) = StateInit \<and> \<not> connectInFlight (rv s)"

text \<open>What the attempt to dial gives: a connection, an error, or the end of the context.\<close>

datatype dial_result = Dialed conn | DialFailed | DialCancelled "conn option"

text \<open>The first critical section of \<open>connectContext\<close>: \<open>True\<close> when the robot goes on to dial.\<close>

definition connect_begin :: "bool \<Rightarrow> bool \<Rightarrow> robot \<Rightarrow> bool \<times> robot" where
  "connect_begin cancelled isCurrent s =
     (if cancelled \<or> \<not> readyToConnect s then (False, s)
      else if \<not> hasController (rv s) \<or> \<not> isCurrent then (False, s\<lparr>rv := (rv s)\<lparr>connectInFlight := False\<rparr>\<rparr>)
      else (True, s\<lparr>rv := (rv s)\<lparr>connectInFlight := True\<rparr>\<rparr>))"

definition refused_conn :: "conn \<Rightarrow> robot \<Rightarrow> robot" where
  "refused_conn conn s = s\<lparr>rv := (rv s)\<lparr>closedConns := closedConns (rv s) @ [conn]\<rparr>\<rparr>"

text \<open>The end of \<open>connectContext\<close> with an established connection: \<open>True\<close> when the read loop starts.\<close>

definition connect_established :: "env \<Rightarrow> conn \<Rightarrow> robot \<Rightarrow> bool \<times> robot" where
  "connect_established E conn s =
     (let r = (rv s)\<lparr>connectInFlight := False\<rparr>;
          host = (if gameIP r = [] then ''127.0.0.1'' else gameIP r) in
      if rv_State r \<noteq> StateInit then (False, refused_conn conn (s\<lparr>rv := r\<rparr>))
      else
        let r = (if host \<noteq> LocalIP r then r\<lparr>RobotTyp := 1\<rparr> else r);
            r = r\<lparr>rv_State := StateLogin, DisconReason := NoDisconnect, rv_Conn := Some conn\<rparr> in
        (True, \<lparr>rv = publishSnapshotUnsafe E r, recvBuffer = replicate 4096 0, recvSize = 0, recvMaxSize = 4096, minBufferSize = 4096\<rparr>))"

subsection \<open>Reconnecting\<close>

text \<open>What \<open>RefishConnect\<close> asks of the task.\<close>

datatype task_request = NoRequest | DeleteIfCurrent | ReconnectLater robot int

definition drop_connections :: "RobotVo \<Rightarrow> RobotVo" where
  "drop_connections r = closePartyRelayUnsafe (closePartyUDPUnsafe (closeConn (stopPartySupervisorUnsafe r)))"

definition reconnect_delay :: "u32 \<Rightarrow> int" where
  "reconnect_delay delay =
     (if uint delay \<le> 0 then 5 else go_div (uint delay * Millisecond + Second - 1) Second)"

text \<open>The robot that replaces one whose connection is lost.\<close>

definition successor :: "env \<Rightarrow> RobotVo \<Rightarrow> robot" where
  "successor E r =
     (let s = Load E (LoginInfo r) (NewRobotVo (hasDB r)) in
      s\<lparr>rv := (rv s)\<lparr>RunStartTime := RunStartTime r, ConnCount := ConnCount r + 1, PendingStoreTitle := PendingStoreTitle r,
               AfterRunDisjointCost := AfterRunDisjointCost r\<rparr>\<rparr>)"

definition RefishConnect :: "env \<Rightarrow> bool \<Rightarrow> robot \<Rightarrow> bool \<times> task_request \<times> robot" where
  "RefishConnect E replaced s =
     (let r = rv s; controller = hasController r in
      if rv_State r = StateStop then
        (False, if controller then DeleteIfCurrent else NoRequest, s\<lparr>rv := drop_connections r\<rparr>)
      else if rv_State r = StateRun \<or> rv_State r = StateLogin \<or> rv_State r = StateInit then
        let s' = s\<lparr>rv := publishSnapshotUnsafe E ((drop_connections r)\<lparr>rv_State := StateStop\<rparr>), recvBuffer := [], recvSize := 0\<rparr> in
        if ConnCount r + 1 < li_MaxReConn (LoginInfo r) \<and> controller then
          let newVo = snd (prepareConnect E (successor E r)) in
          if \<not> replaced then (True, NoRequest, s')
          else (True, ReconnectLater newVo (reconnect_delay (ReDelay (rv newVo))), s')
        else (True, if controller then DeleteIfCurrent else NoRequest, s')
      else
        (True, if controller then DeleteIfCurrent else NoRequest,
         s\<lparr>rv := publishSnapshotUnsafe E (drop_connections (r\<lparr>rv_State := StateStop\<rparr>))\<rparr>))"

text \<open>
  \<open>connectContext\<close> as a whole, when nothing else runs in between: \<open>cancelled\<close> is the state of the context, \<open>isCurrent\<close> and
  \<open>replaced\<close> are the answers of the task. The flag tells that the read loop starts.
\<close>

definition connectContext :: "env \<Rightarrow> bool \<Rightarrow> bool \<Rightarrow> bool \<Rightarrow> dial_result \<Rightarrow> robot \<Rightarrow> bool \<times> task_request \<times> robot" where
  "connectContext E cancelled isCurrent replaced dial s =
     (case connect_begin cancelled isCurrent s of
        (False, s) \<Rightarrow> (False, NoRequest, s)
      | (True, s) \<Rightarrow>
          let idle = s\<lparr>rv := (rv s)\<lparr>connectInFlight := False\<rparr>\<rparr> in
          case dial of
            DialCancelled conn \<Rightarrow> (False, NoRequest, case conn of None \<Rightarrow> idle | Some c \<Rightarrow> refused_conn c idle)
          | DialFailed \<Rightarrow> let (_, request, s) = RefishConnect E replaced idle in (False, request, s)
          | Dialed conn \<Rightarrow> let (ok, s) = connect_established E conn s in (ok, NoRequest, s))"

subsection \<open>Reading\<close>

text \<open>The read loop ends on an error: the robot reconnects while attempts are left.\<close>

definition readLoop_error :: "robot \<Rightarrow> bool \<times> robot" where
  "readLoop_error s =
     (if rv_State (rv s) = StateStop then (False, s)
      else (hasController (rv s) \<and> ConnCount (rv s) < MaxReConn (rv s), s\<lparr>rv := (rv s)\<lparr>LastError := StartRecvError\<rparr>\<rparr>))"

text \<open>The deferred end of the loop: \<open>True\<close> when the task is asked to forget the robot.\<close>

definition finishReadLoop :: "env \<Rightarrow> conn \<Rightarrow> robot \<Rightarrow> bool \<times> robot" where
  "finishReadLoop E conn s =
     (if rv_Conn (rv s) \<noteq> Some conn then (False, refused_conn conn s)
      else (hasController (rv s), refused_conn conn (closeOutUnsafe E s)))"

subsection \<open>The check before a robot goes online again\<close>

definition CheckUserState :: "env \<Rightarrow> robot \<Rightarrow> bool \<times> robot" where
  "CheckUserState E s =
     (let r = rv s in
      if rv_State r = StateStop then (False, s)
      else if DisconReason r \<noteq> NoDisconnect \<or> rv_State r \<noteq> StateRun then
        (False, s\<lparr>rv := publishSnapshotUnsafe E ((drop_connections r)\<lparr>rv_State := StateStop\<rparr>)\<rparr>)
      else
        let (active, r) = partyActiveUnsafe E r in
        if active then
          (True, s\<lparr>rv := startPartyRobotPeerNegotiationUnsafe E (ensurePartyRelayUnsafe E (ensurePartyUDPLoopUnsafe E (ensurePartySupervisorUnsafe E r)))\<rparr>)
        else
          let r = stopPartySupervisorUnsafe r in
          (True, s\<lparr>rv := (if partyRelayConn r \<noteq> None then closePartyRelayUnsafe r else r)\<rparr>))"

end
