(* ===== verification/Transport_Invariant.thy ===== *)
theory Transport_Invariant
  imports Robot_Lifecycle
begin

section \<open>The invariant of a robot and its transport\<close>

text \<open>
  What every operation on a robot keeps: the window of reliable packets and its retry delays, the failure counters, the
  probe counters, the queues and back-offs of the relay, the sizes of the arrays. The operations are long
  sequences of updates and guards; a predicate is carried through them by introduction rules for \<open>let\<close>, \<open>if\<close>
  and \<open>case\<close> and one rule for each operation. The rules for the operations that send a packet over a route are proved
  once, in a locale, for every predicate that the updates of these operations respect.
\<close>

subsection \<open>Carrying a predicate through an operation\<close>

locale state_predicate =
  fixes I :: "RobotVo \<Rightarrow> bool"
begin

lemma let_vo: "I e \<Longrightarrow> (\<And>x. I x \<Longrightarrow> I (f x)) \<Longrightarrow> I (let x = e in f x)" for e :: RobotVo
  by (simp add: Let_def)

lemma let_pair: "I (snd p) \<Longrightarrow> (\<And>a x. p = (a, x) \<Longrightarrow> I x \<Longrightarrow> I (f a x)) \<Longrightarrow> I (let (a, x) = p in f a x)"
  by (simp add: Let_def case_prod_beta)

lemma snd_let_pair:
  "I (snd p) \<Longrightarrow> (\<And>a x. p = (a, x) \<Longrightarrow> I x \<Longrightarrow> I (snd (f a x))) \<Longrightarrow> I (snd (let (a, x) = p in f a x))"
  by (simp add: Let_def case_prod_beta)

lemma let_any: "(\<And>x. x = e \<Longrightarrow> I (f x)) \<Longrightarrow> I (let x = e in f x)"
  by (simp add: Let_def)

lemma snd_let_vo: "I e \<Longrightarrow> (\<And>x. I x \<Longrightarrow> I (snd (f x))) \<Longrightarrow> I (snd (let x = e in f x))" for e :: RobotVo
  by (simp add: Let_def)

lemma snd_let_any: "(\<And>x. x = e \<Longrightarrow> I (snd (f x))) \<Longrightarrow> I (snd (let x = e in f x))"
  by (simp add: Let_def)

lemma case_prod_vo: "I (snd p) \<Longrightarrow> (\<And>a x. p = (a, x) \<Longrightarrow> I x \<Longrightarrow> I (f a x)) \<Longrightarrow> I (case p of (a, x) \<Rightarrow> f a x)"
  by (simp add: case_prod_beta)

lemma case_prod_any: "(\<And>a b. p = (a, b) \<Longrightarrow> I (f a b)) \<Longrightarrow> I (case p of (a, b) \<Rightarrow> f a b)"
  by (simp split: prod.split)

lemma snd_case_prod_vo: "I (snd p) \<Longrightarrow> (\<And>a x. p = (a, x) \<Longrightarrow> I x \<Longrightarrow> I (snd (f a x))) \<Longrightarrow> I (snd (case p of (a, x) \<Rightarrow> f a x))"
  by (simp add: case_prod_beta)

lemma snd_case_prod_any: "(\<And>a b. p = (a, b) \<Longrightarrow> I (snd (f a b))) \<Longrightarrow> I (snd (case p of (a, b) \<Rightarrow> f a b))"
  by (simp split: prod.split)

lemma if_vo: "(c \<Longrightarrow> I a) \<Longrightarrow> (\<not> c \<Longrightarrow> I b) \<Longrightarrow> I (if c then a else b)"
  by simp

lemma snd_if: "(c \<Longrightarrow> I (snd a)) \<Longrightarrow> (\<not> c \<Longrightarrow> I (snd b)) \<Longrightarrow> I (snd (if c then a else b))"
  by simp

lemma option_vo: "(x = None \<Longrightarrow> I a) \<Longrightarrow> (\<And>y. x = Some y \<Longrightarrow> I (f y)) \<Longrightarrow> I (case x of None \<Rightarrow> a | Some y \<Rightarrow> f y)"
  by (simp split: option.split)

lemma snd_option:
  "(x = None \<Longrightarrow> I (snd a)) \<Longrightarrow> (\<And>y. x = Some y \<Longrightarrow> I (snd (f y))) \<Longrightarrow> I (snd (case x of None \<Rightarrow> a | Some y \<Rightarrow> f y))"
  by (simp split: option.split)

lemma sum_vo: "(\<And>e. x = Inl e \<Longrightarrow> I (f e)) \<Longrightarrow> (\<And>y. x = Inr y \<Longrightarrow> I (g y)) \<Longrightarrow> I (case x of Inl e \<Rightarrow> f e | Inr y \<Rightarrow> g y)"
  by (simp split: sum.split)

lemma snd_sum:
  "(\<And>e. x = Inl e \<Longrightarrow> I (snd (f e))) \<Longrightarrow> (\<And>y. x = Inr y \<Longrightarrow> I (snd (g y))) \<Longrightarrow> I (snd (case x of Inl e \<Rightarrow> f e | Inr y \<Rightarrow> g y))"
  by (simp split: sum.split)

lemma snd_pair: "I x \<Longrightarrow> I (snd (a, x))"
  by simp

lemma fold_vo: "I r \<Longrightarrow> (\<And>x r. I r \<Longrightarrow> I (f x r)) \<Longrightarrow> I (fold f xs r)"
  by (induction xs arbitrary: r) simp_all

lemmas calc = let_vo let_pair let_any snd_let_vo snd_let_pair snd_let_any case_prod_vo case_prod_any snd_case_prod_vo snd_case_prod_any
  if_vo snd_if option_vo snd_option sum_vo snd_sum snd_pair fold_vo

end

subsection \<open>Sending over a route\<close>

text \<open>The updates that the health of a route and a transmission make.\<close>

definition same_delivery :: "route_state \<Rightarrow> route_state \<Rightarrow> bool" where
  "same_delivery s s' \<longleftrightarrow>
     ReliablePending s' = ReliablePending s \<and> TQOSReply s' = TQOSReply s \<and> (RouteFailures s \<le> 8 \<longrightarrow> RouteFailures s' \<le> 8)"

locale route_predicate = state_predicate I for I :: "RobotVo \<Rightarrow> bool" +
  assumes route: "I r \<Longrightarrow> same_delivery (routes r sl rt) (g (routes r sl rt)) \<Longrightarrow> I (upd_route sl rt g r)"
    and slot: "I r \<Longrightarrow> RobotProbeCount (g' (slots r sl)) \<le> RobotProbeCount (slots r sl) \<Longrightarrow> I (upd_slot sl g' r)"
    and pending: "I r \<Longrightarrow> I (clearPartyPendingUnsafe r)"
    and datagram: "I r \<Longrightarrow> I (r\<lparr>udpScript := script\<rparr>)" "I r \<Longrightarrow> I (r\<lparr>udpSent := sent\<rparr>)"
    and closed: "I r \<Longrightarrow> I (r\<lparr>closedConns := cs\<rparr>)"
    and writer: "I r \<Longrightarrow> partyRelayConn r = Some c \<Longrightarrow> I (startPartyRelayWriterUnsafe c r)"
    and queued: "I r \<Longrightarrow> partyRelayWriter r = Some (c, q) \<Longrightarrow> length q < partyRelayWriteQueueSize \<Longrightarrow>
      I (r\<lparr>partyRelayWriter := Some (c, q @ [packet])\<rparr>)"
    and detached: "I r \<Longrightarrow> partyRelayConn r = Some c \<Longrightarrow>
      I (stopPartyRelayWriterUnsafe (Some c) (r\<lparr>partyRelayConn := None, partyRelayGeneration := n, partyRelayConnecting := b\<rparr>))"
    and retry: "I r \<Longrightarrow> I (schedulePartyRelayRetryUnsafe t r)"
begin

lemma active: "I r \<Longrightarrow> I (snd (partyActiveUnsafe E r))"
  unfolding partyActiveUnsafe_def by (intro calc pending)

lemma ready: "I r \<Longrightarrow> I (setPartyRobotRouteReadyUnsafe E peer rt b t r)"
  unfolding setPartyRobotRouteReadyUnsafe_def by (intro calc route slot) (simp_all add: same_delivery_def)

lemma not_ready: "I r \<Longrightarrow> I (clearPartyRobotRouteReadyUnsafe sl rt r)"
  unfolding clearPartyRobotRouteReadyUnsafe_def by (intro calc route slot) (simp_all add: same_delivery_def)

lemma failure: "I r \<Longrightarrow> I (markPartyRouteFailureUnsafe E peer rt t r)"
  unfolding markPartyRouteFailureUnsafe_def
  by (intro calc route slot ready) (auto simp: same_delivery_def Let_def word_less_nat_alt word_le_nat_alt unat_word_ariths)

lemma detach: "I r \<Longrightarrow> I (snd (detachPartyRelayConnUnsafe E c r))"
  unfolding detachPartyRelayConnUnsafe_def by (intro calc detached failure retry active) simp_all

lemma enqueue: "I r \<Longrightarrow> I (snd (enqueuePartyRelayPacketUnsafe c packet r))"
  unfolding enqueuePartyRelayPacketUnsafe_def by (intro calc writer queued) simp_all

lemma write_datagram: "I r \<Longrightarrow> I (snd (writePartyUDPDatagramWithMTU c payload remote mtu r))"
  unfolding writePartyUDPDatagramWithMTU_def
  by (auto simp: Let_def intro: datagram split: list.split bool.split)

lemma send: "I r \<Longrightarrow> I (snd (sendPartyTransportUnsafe E c peer rt payload r))"
  unfolding sendPartyTransportUnsafe_def by (intro calc failure write_datagram enqueue detach closed)

end


subsection \<open>The invariant\<close>

definition route_ok :: "route_state \<Rightarrow> bool" where
  "route_ok s \<longleftrightarrow>
     length (ReliablePending s) \<le> partyReliableWindow \<and>
     (\<forall>p \<in> set (ReliablePending s). partyReliableRetryInitial \<le> rp_retryDelay p \<and> rp_retryDelay p \<le> partyReliableRetryMax) \<and>
     RouteFailures s \<le> 8 \<and> tr_retries (TQOSReply s) \<le> partyTQOSMaxRetries"

definition relay_ok :: "conn option \<Rightarrow> (conn \<times> bytes list) option \<Rightarrow> duration \<Rightarrow> bool" where
  "relay_ok relay relayWriter backoff \<longleftrightarrow>
     (\<forall>c q. relayWriter = Some (c, q) \<longrightarrow> relay = Some c \<and> length q \<le> partyRelayWriteQueueSize) \<and>
     0 \<le> backoff \<and> backoff \<le> partyRelayBackoffMax"

definition sizes_ok :: "RobotVo \<Rightarrow> bool" where
  "sizes_ok r \<longleftrightarrow>
     length (partyPeers r) = 4 \<and> length (partyRealtimeUnique r) = 4 \<and> length (partyRealtimeCandidate r) = 4 \<and>
     length (TransactionArr r) = 24 \<and> length (partyDungeonFollow r) \<le> 2048 \<and>
     length (LastStoreDisplay r) \<le> privateStoreDisplayLimit \<and> length (storeDisplayCandidates r) \<le> privateStoreDisplayLimit \<and>
     0 \<le> partySelfRefreshBackoff r \<and> partySelfRefreshBackoff r \<le> partySelfRefreshMax"

definition robot_ok :: "RobotVo \<Rightarrow> bool" where
  "robot_ok r \<longleftrightarrow>
     (\<forall>sl rt. route_ok (routes r sl rt)) \<and> (\<forall>sl. RobotProbeCount (slots r sl) \<le> 4) \<and>
     relay_ok (partyRelayConn r) (partyRelayWriter r) (partyRelayBackoff r) \<and> sizes_ok r"

text \<open>
  An operation keeps the robot when it keeps the invariant, leaves the game connection alone and does not stop the robot.
\<close>

definition keeps :: "RobotVo \<Rightarrow> RobotVo \<Rightarrow> bool" where
  "keeps r0 r \<longleftrightarrow>
     rv_Conn r = rv_Conn r0 \<and> (rv_State r0 \<noteq> StateStop \<longrightarrow> rv_State r \<noteq> StateStop) \<and> (robot_ok r0 \<longrightarrow> robot_ok r)"

text \<open>A transmission leaves the pending packets and replies alone and never raises a probe counter.\<close>

definition calm :: "RobotVo \<Rightarrow> RobotVo \<Rightarrow> bool" where
  "calm r0 r \<longleftrightarrow>
     (\<forall>sl rt. ReliablePending (routes r sl rt) = ReliablePending (routes r0 sl rt) \<and> TQOSReply (routes r sl rt) = TQOSReply (routes r0 sl rt)) \<and>
     (\<forall>sl. RobotProbeCount (slots r sl) \<le> RobotProbeCount (slots r0 sl))"

lemma route_ok_same: "route_ok s \<Longrightarrow> same_delivery s s' \<Longrightarrow> route_ok s'"
  by (simp add: route_ok_def same_delivery_def)

lemma keeps_refl: "keeps r r"
  by (simp add: keeps_def)

lemma keeps_upd:
  assumes "keeps r0 r"
  shows
    "keeps r0 (closedConns_update u1 r)" "keeps r0 (UID_update u2 r)" "keeps r0 (CID_update u3 r)" "keeps r0 (CharacterSlot_update u4 r)"
    "keeps r0 (LoginIP_update u5 r)" "keeps r0 (LocalIP_update u6 r)" "keeps r0 (gameIP_update u7 r)" "keeps r0 (gamePort_update u8 r)"
    "keeps r0 (LoginInfo_update u9 r)" "keeps r0 (hasController_update u10 r)" "keeps r0 (hasDB_update u11 r)" "keeps r0 (Cipher_update u12 r)"
    "keeps r0 (LastError_update u13 r)" "keeps r0 (Token_update u14 r)" "keeps r0 (TokenSize_update u15 r)" "keeps r0 (MaxReConn_update u16 r)"
    "keeps r0 (ConnCount_update u17 r)" "keeps r0 (ReDelay_update u18 r)" "keeps r0 (PacketID_update u19 r)" "keeps r0 (CurVillage_update u20 r)"
    "keeps r0 (CurArea_update u21 r)" "keeps r0 (CurX_update u22 r)" "keeps r0 (CurY_update u23 r)" "keeps r0 (GateArea_update u24 r)"
    "keeps r0 (NccSent_update u25 r)" "keeps r0 (SelectCharacSent_update u26 r)" "keeps r0 (ReturnSelectPending_update u27 r)"
    "keeps r0 (ReturnSelectRejected_update u28 r)" "keeps r0 (RunStartTime_update u29 r)" "keeps r0 (MoveType_update u30 r)"
    "keeps r0 (DisconReason_update u31 r)" "keeps r0 (RobotTyp_update u32 r)" "keeps r0 (loginReal_update u33 r)" "keeps r0 (loginEnd_update u34 r)"
    "keeps r0 (selectCharac_update u35 r)" "keeps r0 (setPos_update u36 r)" "keeps r0 (setArea_update u37 r)" "keeps r0 (setPosStart_update u38 r)"
    "keeps r0 (connectInFlight_update u39 r)" "keeps r0 (writeScript_update u40 r)" "keeps r0 (wrote_update u41 r)"
    "keeps r0 (started_update u42 r)" "keeps r0 (LastTradeID_update u43 r)" "keeps r0 (LastTradeState_update u44 r)"
    "keeps r0 (TradeMoney_update u45 r)" "keeps r0 (tradeQuoteLoading_update u46 r)" "keeps r0 (tradeQuotePending_update u47 r)"
    "keeps r0 (tradeQuoteVersion_update u48 r)" "keeps r0 (tradeQuoteFailures_update u49 r)" "keeps r0 (InfanMap_update u50 r)"
    "keeps r0 (IsWaitingItemList_update u51 r)" "keeps r0 (PendingStoreTitle_update u52 r)" "keeps r0 (StoreDisplaySent_update u53 r)"
    "keeps r0 (StoreDisplayAck_update u54 r)" "keeps r0 (StoreDisplayRejected_update u55 r)" "keeps r0 (StoreCreateRejected_update u56 r)"
    "keeps r0 (LastStoreError_update u57 r)" "keeps r0 (StoreCreated_update u58 r)" "keeps r0 (storeDisplayRetryPlans_update u59 r)"
    "keeps r0 (storeDisplayRetryIndex_update u60 r)" "keeps r0 (storeInventoryVersion_update u61 r)" "keeps r0 (DisjointCreateSent_update u62 r)"
    "keeps r0 (DisjointDirectAck_update u63 r)" "keeps r0 (DisjointActive_update u64 r)" "keeps r0 (LastDisjointError_update u65 r)"
    "keeps r0 (AfterRunDisjointCost_update u66 r)" "keeps r0 (partyOptionReady_update u67 r)" "keeps r0 (partyOptionSent_update u68 r)"
    "keeps r0 (partyOptionData_update u69 r)" "keeps r0 (partyRecvSource_update u70 r)" "keeps r0 (natInfoSent_update u71 r)"
    "keeps r0 (partySelfPeer_update u72 r)" "keeps r0 (partySelfRefreshAt_update u73 r)" "keeps r0 (partySelfRefreshAttempts_update u74 r)"
    "keeps r0 (partyRealtimeConfirmations_update u75 r)" "keeps r0 (partyRealtimeCandidateAt_update u76 r)"
    "keeps r0 (partyHumanObserved_update u77 r)" "keeps r0 (partyRecovery_update u78 r)" "keeps r0 (partyRecoveryResumePending_update u79 r)"
    "keeps r0 (partyRecoveryEpoch_update u80 r)" "keeps r0 (partyRecoveryCooldownUntil_update u81 r)"
    "keeps r0 (partyLeaderTransportUnique_update u82 r)" "keeps r0 (partyLeaderTransportAt_update u83 r)"
    "keeps r0 (partyPendingPeer_update u84 r)" "keeps r0 (partyPendingUntil_update u85 r)" "keeps r0 (partyInviteFallback_update u86 r)"
    "keeps r0 (partyInviteTimer_update u87 r)" "keeps r0 (partyInviteEpoch_update u88 r)" "keeps r0 (townEntityPositions_update u89 r)"
    "keeps r0 (townEntitySweepAt_update u90 r)" "keeps r0 (lastSnapshot_update u91 r)" "keeps r0 (partyUDPConn_update u92 r)"
    "keeps r0 (partyUDPMTU_update u93 r)" "keeps r0 (partyUDPNetwork_update u94 r)" "keeps r0 (partyUDPRunning_update u95 r)"
    "keeps r0 (partyUDPGeneration_update u96 r)" "keeps r0 (partySupervisorRun_update u97 r)" "keeps r0 (partySupervisorEpoch_update u98 r)"
    "keeps r0 (partyRelayConnecting_update u99 r)" "keeps r0 (partyRelayGeneration_update u100 r)" "keeps r0 (partyRelayNextAt_update u101 r)"
    "keeps r0 (udpScript_update u102 r)" "keeps r0 (udpSent_update u103 r)" "keeps r0 (partyRuntimeDiagAt_update u104 r)"
    "keeps r0 (partyDungeonEnteredAt_update u105 r)" "keeps r0 (partyDungeonLastAt_update u106 r)" "keeps r0 (partyDungeonFlags_update u107 r)"
    "keeps r0 (partySkillNextAt_update u108 r)" "keeps r0 (partySkillRecoverAt_update u109 r)" "keeps r0 (partySkillBlockedUntil_update u110 r)"
    "keeps r0 (partySkillLoaded_update u111 r)" "keeps r0 (partySkillLoading_update u112 r)" "keeps r0 (partySkillGeneration_update u113 r)"
    "keeps r0 (partySkillCatalogGeneration_update u114 r)" "keeps r0 (partySkillJob_update u115 r)" "keeps r0 (partySkillCandidates_update u116 r)"
  using assms by (simp_all add: keeps_def robot_ok_def sizes_ok_def)

lemma keeps_state: "keeps r0 r \<Longrightarrow> s \<noteq> StateStop \<Longrightarrow> keeps r0 (r\<lparr>rv_State := s\<rparr>)"
  by (simp add: keeps_def robot_ok_def sizes_ok_def)

lemma keeps_route:
  "keeps r0 r \<Longrightarrow> (route_ok (routes r sl rt) \<Longrightarrow> route_ok (g (routes r sl rt))) \<Longrightarrow> keeps r0 (upd_route sl rt g r)"
  by (auto simp: keeps_def robot_ok_def sizes_ok_def upd_route_def)

lemma keeps_slot:
  "keeps r0 r \<Longrightarrow> (RobotProbeCount (slots r sl) \<le> 4 \<Longrightarrow> RobotProbeCount (g (slots r sl)) \<le> 4) \<Longrightarrow> keeps r0 (upd_slot sl g r)"
  by (auto simp: keeps_def robot_ok_def sizes_ok_def upd_slot_def)

lemma keeps_relay:
  "keeps r0 r \<Longrightarrow> (relay_ok (partyRelayConn r) (partyRelayWriter r) (partyRelayBackoff r) \<Longrightarrow>
     relay_ok (partyRelayConn r') (partyRelayWriter r') (partyRelayBackoff r')) \<Longrightarrow>
   rv_Conn r' = rv_Conn r \<Longrightarrow> rv_State r' = rv_State r \<Longrightarrow> routes r' = routes r \<Longrightarrow> slots r' = slots r \<Longrightarrow>
   (sizes_ok r \<Longrightarrow> sizes_ok r') \<Longrightarrow> keeps r0 r'"
  by (auto simp: keeps_def robot_ok_def)

interpretation calm: route_predicate "calm r0"
proof
  show "calm r0 (upd_route sl rt g r)" if "calm r0 r" "same_delivery (routes r sl rt) (g (routes r sl rt))" for r sl rt g
    using that by (auto simp: calm_def upd_route_def same_delivery_def)
  show "calm r0 (upd_slot sl g r)" if "calm r0 r" "RobotProbeCount (g (slots r sl)) \<le> RobotProbeCount (slots r sl)" for r sl g
    using that by (auto simp: calm_def upd_slot_def intro: order.trans)
qed (simp_all add: calm_def clearPartyPendingUnsafe_def clearPartyInviteFallbackUnsafe_def startPartyRelayWriterUnsafe_def
       stopPartyRelayWriterUnsafe_def schedulePartyRelayRetryUnsafe_def Let_def split: option.splits)

interpretation kept: route_predicate "keeps r0"
proof
  show "keeps r0 (upd_route sl rt g r)" if "keeps r0 r" "same_delivery (routes r sl rt) (g (routes r sl rt))" for r sl rt g
    using that by (auto intro: keeps_route route_ok_same)
  show "keeps r0 (upd_slot sl g r)" if "keeps r0 r" "RobotProbeCount (g (slots r sl)) \<le> RobotProbeCount (slots r sl)" for r sl g
    using that by (auto intro: keeps_slot order.trans)
  show "keeps r0 (clearPartyPendingUnsafe r)" if "keeps r0 r" for r
    unfolding clearPartyPendingUnsafe_def clearPartyInviteFallbackUnsafe_def by (intro keeps_upd that)
  show "keeps r0 (r\<lparr>udpScript := s\<rparr>)" "keeps r0 (r\<lparr>udpSent := u\<rparr>)" "keeps r0 (r\<lparr>closedConns := cs\<rparr>)" if "keeps r0 r" for r s u cs
    by (intro keeps_upd that)+
  show "keeps r0 (startPartyRelayWriterUnsafe c r)" if "keeps r0 r" "partyRelayConn r = Some c" for r c
    using that(1) by (rule keeps_relay)
      (use that(2) in \<open>auto simp: startPartyRelayWriterUnsafe_def relay_ok_def sizes_ok_def split: option.split\<close>)
  show "keeps r0 (r\<lparr>partyRelayWriter := Some (c, q @ [packet])\<rparr>)"
    if "keeps r0 r" "partyRelayWriter r = Some (c, q)" "length q < partyRelayWriteQueueSize" for r c q packet
    using that(1) by (rule keeps_relay) (use that(2,3) in \<open>auto simp: relay_ok_def sizes_ok_def\<close>)
  show "keeps r0 (stopPartyRelayWriterUnsafe (Some c) (r\<lparr>partyRelayConn := None, partyRelayGeneration := n, partyRelayConnecting := b\<rparr>))"
    if "keeps r0 r" "partyRelayConn r = Some c" for r c n b
    using that(1) by (rule keeps_relay)
      (use that(2) in \<open>auto simp: stopPartyRelayWriterUnsafe_def relay_ok_def sizes_ok_def split: option.split\<close>)
  show "keeps r0 (schedulePartyRelayRetryUnsafe t r)" if "keeps r0 r" for r t
    using that by (rule keeps_relay) (auto simp: schedulePartyRelayRetryUnsafe_def Let_def sizes_ok_def relay_ok_def
          partyRelayBackoffInitial_def partyRelayBackoffMax_def Millisecond_def Second_def)
qed


subsection \<open>The rules of the operations\<close>

named_theorems keeps \<open>operations that keep the robot\<close>

lemma keeps_sizes:
  assumes "keeps r0 r"
  shows "(length (partyPeers r) = 4 \<Longrightarrow> length (f1 (partyPeers r)) = 4) \<Longrightarrow> keeps r0 (partyPeers_update f1 r)"
    and "(length (partyRealtimeUnique r) = 4 \<Longrightarrow> length (f2 (partyRealtimeUnique r)) = 4) \<Longrightarrow> keeps r0 (partyRealtimeUnique_update f2 r)"
    and "(length (partyRealtimeCandidate r) = 4 \<Longrightarrow> length (f3 (partyRealtimeCandidate r)) = 4) \<Longrightarrow>
      keeps r0 (partyRealtimeCandidate_update f3 r)"
    and "(length (TransactionArr r) = 24 \<Longrightarrow> length (f4 (TransactionArr r)) = 24) \<Longrightarrow> keeps r0 (TransactionArr_update f4 r)"
    and "(length (partyDungeonFollow r) \<le> 2048 \<Longrightarrow> length (f5 (partyDungeonFollow r)) \<le> 2048) \<Longrightarrow> keeps r0 (partyDungeonFollow_update f5 r)"
    and "(length (LastStoreDisplay r) \<le> privateStoreDisplayLimit \<Longrightarrow> length (f6 (LastStoreDisplay r)) \<le> privateStoreDisplayLimit) \<Longrightarrow>
      keeps r0 (LastStoreDisplay_update f6 r)"
    and "(length (storeDisplayCandidates r) \<le> privateStoreDisplayLimit \<Longrightarrow> length (f7 (storeDisplayCandidates r)) \<le> privateStoreDisplayLimit) \<Longrightarrow>
      keeps r0 (storeDisplayCandidates_update f7 r)"
    and "(0 \<le> partySelfRefreshBackoff r \<Longrightarrow> partySelfRefreshBackoff r \<le> partySelfRefreshMax \<Longrightarrow>
        0 \<le> f8 (partySelfRefreshBackoff r) \<and> f8 (partySelfRefreshBackoff r) \<le> partySelfRefreshMax) \<Longrightarrow>
      keeps r0 (partySelfRefreshBackoff_update f8 r)"
    and "(relay_ok (partyRelayConn r) (partyRelayWriter r) (partyRelayBackoff r) \<Longrightarrow>
        relay_ok (partyRelayConn r) (partyRelayWriter r) (f9 (partyRelayBackoff r))) \<Longrightarrow> keeps r0 (partyRelayBackoff_update f9 r)"
  using assms by (auto simp: keeps_def robot_ok_def sizes_ok_def)

lemmas [keeps] = keeps_upd kept.pending kept.active kept.ready kept.not_ready kept.failure kept.detach kept.enqueue kept.write_datagram
  kept.send kept.retry

lemma clearPartyInviteFallback_keeps [keeps]: "keeps r0 r \<Longrightarrow> keeps r0 (clearPartyInviteFallbackUnsafe r)"
  unfolding clearPartyInviteFallbackUnsafe_def by (intro keeps)

lemma rememberPartyRecvSource_keeps [keeps]: "keeps r0 r \<Longrightarrow> keeps r0 (rememberPartyRecvSourceUnsafe source r)"
  unfolding rememberPartyRecvSourceUnsafe_def by (intro kept.calc keeps)

lemma publishSnapshot_keeps [keeps]: "keeps r0 r \<Longrightarrow> keeps r0 (publishSnapshotUnsafe E r)"
  unfolding publishSnapshotUnsafe_def by (intro kept.calc keeps)

lemma stopPartySupervisor_keeps [keeps]: "keeps r0 r \<Longrightarrow> keeps r0 (stopPartySupervisorUnsafe r)"
  unfolding stopPartySupervisorUnsafe_def by (intro keeps)

lemma ensurePartySupervisor_keeps [keeps]: "keeps r0 r \<Longrightarrow> keeps r0 (ensurePartySupervisorUnsafe E r)"
  unfolding ensurePartySupervisorUnsafe_def by (intro kept.calc keeps)

lemma closePartyUDP_keeps [keeps]: "keeps r0 r \<Longrightarrow> keeps r0 (closePartyUDPUnsafe r)"
  unfolding closePartyUDPUnsafe_def by (intro keeps)

lemma ensurePartyUDPLoop_keeps [keeps]: "keeps r0 r \<Longrightarrow> keeps r0 (ensurePartyUDPLoopUnsafe E r)"
  unfolding ensurePartyUDPLoopUnsafe_def by (intro kept.calc keeps)

lemma startPartyUDP_keeps [keeps]: "keeps r0 r \<Longrightarrow> keeps r0 (snd (startPartyUDPUnsafe E addr r))"
  unfolding startPartyUDPUnsafe_def by (intro kept.calc keeps)

lemma closePartyRelay_keeps [keeps]: "keeps r0 r \<Longrightarrow> keeps r0 (closePartyRelayUnsafe r)"
  by (erule keeps_relay)
    (auto simp: closePartyRelayUnsafe_def stopPartyRelayWriterUnsafe_def relay_ok_def sizes_ok_def partyRelayBackoffMax_def Second_def
      Let_def split: option.split)

lemma ensurePartyRelay_keeps [keeps]: "keeps r0 r \<Longrightarrow> keeps r0 (ensurePartyRelayUnsafe E r)"
  unfolding ensurePartyRelayUnsafe_def by (intro kept.calc keeps)

lemma shouldLog_keeps [keeps]: "keeps r0 r \<Longrightarrow> keeps r0 (snd (shouldLogPartyRuntimeErrorUnsafe t r))"
  unfolding shouldLogPartyRuntimeErrorUnsafe_def by (intro kept.calc keeps)

lemma markPartyRouteHealthy_keeps [keeps]: "keeps r0 r \<Longrightarrow> keeps r0 (markPartyRouteHealthyUnsafe peer rt t r)"
  unfolding markPartyRouteHealthyUnsafe_def by (intro kept.calc keeps kept.route kept.slot) (simp_all add: same_delivery_def)

lemma learnPartyPeerEndpoint_keeps [keeps]: "keeps r0 r \<Longrightarrow> keeps r0 (snd (learnPartyPeerEndpointUnsafe peer remote r))"
  unfolding learnPartyPeerEndpointUnsafe_def by (intro kept.calc keeps keeps_sizes) simp_all

lemma keeps_tables:
  assumes "keeps r0 r"
  shows "((\<And>sl rt. route_ok (routes r sl rt)) \<Longrightarrow> (\<And>sl rt. route_ok (f1 (routes r) sl rt))) \<Longrightarrow> keeps r0 (routes_update f1 r)"
    and "((\<And>sl. RobotProbeCount (slots r sl) \<le> 4) \<Longrightarrow> (\<And>sl. RobotProbeCount (f2 (slots r) sl) \<le> 4)) \<Longrightarrow> keeps r0 (slots_update f2 r)"
  using assms by (auto simp: keeps_def robot_ok_def sizes_ok_def)

lemma zero_route_ok [simp]: "route_ok zero_route"
  by (simp add: route_ok_def zero_route_def zero_reply_def)

lemma zero_slot_probes [simp]: "RobotProbeCount zero_slot = 0"
  by (simp add: zero_slot_def)

text \<open>What a transmission leaves alone.\<close>

lemma send_calm:
  assumes "sendPartyTransportUnsafe E c peer rt payload r = (ok, r')"
  shows "ReliablePending (routes r' sl t) = ReliablePending (routes r sl t)" "TQOSReply (routes r' sl t) = TQOSReply (routes r sl t)"
    and "RobotProbeCount (slots r' sl) \<le> RobotProbeCount (slots r sl)"
proof -
  have "calm r r" by (simp add: calm_def)
  from calm.send [OF this, of E c peer rt payload] assms have "calm r r'" by simp
  then show "ReliablePending (routes r' sl t) = ReliablePending (routes r sl t)" "TQOSReply (routes r' sl t) = TQOSReply (routes r sl t)"
    "RobotProbeCount (slots r' sl) \<le> RobotProbeCount (slots r sl)" by (auto simp: calm_def)
qed

lemma next_sequence_keeps: "nextPartyTQOSSequenceUnsafe sl rt b r = Some y \<Longrightarrow> keeps r0 r \<Longrightarrow> keeps r0 (snd y)"
  by (auto simp: nextPartyTQOSSequenceUnsafe_def split: if_splits intro!: keeps_route simp: route_ok_def)

lemma next_sequence_case [keeps]:
  assumes "keeps r0 r" and "\<And>q x. keeps r0 x \<Longrightarrow> keeps r0 (f q x)" and "keeps r0 a"
  shows "keeps r0 (case nextPartyTQOSSequenceUnsafe sl rt b r of None \<Rightarrow> a | Some (q, x) \<Rightarrow> f q x)"
  using assms next_sequence_keeps [of sl rt b r _ r0] by (auto split: option.split prod.split)

lemma snd_next_sequence_case [keeps]:
  assumes "keeps r0 r" and "\<And>q x. keeps r0 x \<Longrightarrow> keeps r0 (snd (f q x))" and "keeps r0 (snd a)"
  shows "keeps r0 (snd (case nextPartyTQOSSequenceUnsafe sl rt b r of None \<Rightarrow> a | Some (q, x) \<Rightarrow> f q x))"
  using assms next_sequence_keeps [of sl rt b r _ r0] by (auto split: option.split prod.split)

lemma resetPartyTQOSRoute_keeps [keeps]: "keeps r0 r \<Longrightarrow> keeps r0 (resetPartyTQOSRouteUnsafe sl rt r)"
  unfolding resetPartyTQOSRouteUnsafe_def by (intro keeps kept.calc keeps_route) (simp_all add: route_ok_def zero_reply_def)

lemma resetPartyTQOSTransport_keeps [keeps]: "keeps r0 r \<Longrightarrow> keeps r0 (resetPartyTQOSTransportUnsafe r)"
  unfolding resetPartyTQOSTransportUnsafe_def by (intro keeps keeps_tables keeps_sizes) simp_all

lemma resetPartyTQOSPeer_keeps [keeps]: "keeps r0 r \<Longrightarrow> keeps r0 (resetPartyTQOSPeerUnsafe sl r)"
  unfolding resetPartyTQOSPeerUnsafe_def
  by (intro keeps kept.calc keeps_tables keeps_sizes) (auto intro: le_trans [OF length_filter_le])

lemma rememberPartyPeerRoute_keeps [keeps]: "keeps r0 r \<Longrightarrow> keeps r0 (rememberPartyPeerRouteUnsafe sl rt t r)"
  unfolding rememberPartyPeerRouteUnsafe_def by (intro keeps kept.calc)

lemma retry_delays: "partyReliableRetryInitial \<le> partyReliableRetryMax" "0 \<le> partyReliableRetryInitial"
  by (simp_all add: partyReliableRetryInitial_def partyReliableRetryMax_def Millisecond_def Second_def)

lemma sendPartyReliableRoute_keeps [keeps]:
  "keeps r0 r \<Longrightarrow> keeps r0 (snd (sendPartyReliableRouteUnsafe E c peer rt fl records purpose t r))"
  unfolding sendPartyReliableRouteUnsafe_def
  by (intro keeps kept.calc keeps_route) (auto simp: send_calm route_ok_def partyReliableWindow_def retry_delays)

lemma sendPartyReliable_keeps [keeps]: "keeps r0 r \<Longrightarrow> keeps r0 (snd (sendPartyReliableUnsafe E c peer fl records purpose t r))"
  unfolding sendPartyReliableUnsafe_def by (intro keeps kept.calc)

lemma recoverPartyRoute_keeps [keeps]: "keeps r0 r \<Longrightarrow> keeps r0 (recoverPartyRouteUnsafe E c peer rt t stalled r)"
  unfolding recoverPartyRouteUnsafe_def
  by (intro keeps kept.route kept.calc) (simp_all add: same_delivery_def)

text \<open>A retry changes neither the number of pending packets nor the range of their delays.\<close>

lemma retried_delay:
  assumes "partyReliableRetryInitial \<le> rp_retryDelay item"
  shows "partyReliableRetryInitial \<le> rp_retryDelay (retried t ok item)" "rp_retryDelay (retried t ok item) \<le> partyReliableRetryMax"
  using assms retry_delays by (auto simp: retried_def Let_def)

lemma retry_items_keeps: "keeps r0 r \<Longrightarrow> keeps r0 (snd (retry_items E c peer rt t items r))"
proof (induction items arbitrary: r)
  case (Cons item items)
  then show ?case by (simp add: Let_def case_prod_beta kept.send)
qed simp

lemma retry_items_ok:
  assumes "retry_items E c peer rt t items r = (items', r')" and "\<forall>p \<in> set items. partyReliableRetryInitial \<le> rp_retryDelay p \<and> rp_retryDelay p \<le> partyReliableRetryMax"
  shows "length items' = length items"
    and "\<forall>p \<in> set items'. partyReliableRetryInitial \<le> rp_retryDelay p \<and> rp_retryDelay p \<le> partyReliableRetryMax"
  using assms
proof (induction items arbitrary: r items' r')
  case (Cons item items)
  { case 1 with Cons.IH show ?case by (auto split: if_splits prod.splits simp: Let_def) }
  { case 2 with Cons.IH(2) show ?case by (fastforce split: if_splits prod.splits simp: Let_def retried_delay) }
qed auto

lemma retry_items_calm: "calm r0 r \<Longrightarrow> calm r0 (snd (retry_items E c peer rt t items r))"
proof (induction items arbitrary: r)
  case (Cons item items)
  then show ?case by (simp add: Let_def case_prod_beta calm.send)
qed simp

lemma flush_route_keeps [keeps]:
  assumes r: "keeps r0 r"
  shows "keeps r0 (flush_route E c t peer sl rt r)"
proof (cases "ReliablePending (routes r sl rt)")
  case (Cons oldest rest)
  have calm: "calm r (snd (retry_items E c peer rt t (oldest # rest) r))" by (rule retry_items_calm) (simp add: calm_def)
  show ?thesis unfolding flush_route_def Cons list.case
  proof (intro keeps kept.calc keeps_route r retry_items_keeps)
    fix items r' assume retry: "retry_items E c peer rt t (oldest # rest) r = (items, r')" and ok: "route_ok (routes r' sl rt)"
    have "ReliablePending (routes r' sl rt) = oldest # rest" using calm retry Cons by (simp add: calm_def del: retry_items.simps)
    with ok have range: "\<forall>p \<in> set (oldest # rest). partyReliableRetryInitial \<le> rp_retryDelay p \<and> rp_retryDelay p \<le> partyReliableRetryMax"
      and len: "length (oldest # rest) \<le> partyReliableWindow" unfolding route_ok_def by metis+
    from retry_items_ok [OF retry range] len have "length items \<le> partyReliableWindow"
      "\<forall>p \<in> set items. partyReliableRetryInitial \<le> rp_retryDelay p \<and> rp_retryDelay p \<le> partyReliableRetryMax" by simp_all
    with ok show "route_ok ((routes r' sl rt)\<lparr>ReliablePending := items\<rparr>)" by (simp add: route_ok_def)
  qed
qed (simp add: flush_route_def r)

lemma flushPartyReliable_keeps [keeps]: "keeps r0 r \<Longrightarrow> keeps r0 (flushPartyReliableUnsafe E c t r)"
  unfolding flushPartyReliableUnsafe_def by (intro keeps kept.calc)

lemma acknowledgePartyReliable_keeps [keeps]: "keeps r0 r \<Longrightarrow> keeps r0 (snd (acknowledgePartyReliableUnsafe frame rt peer t r))"
  unfolding acknowledgePartyReliableUnsafe_def
  by (intro keeps kept.calc keeps_route) (auto simp: route_ok_def remove_at_def dest: in_set_takeD in_set_dropD)

lemma cancelPartyDungeonReliable_keeps [keeps]: "keeps r0 r \<Longrightarrow> keeps r0 (cancelPartyDungeonReliableUnsafe E r)"
  unfolding cancelPartyDungeonReliableUnsafe_def by (intro keeps kept.calc)

text \<open>Replies.\<close>

lemma keeps_reply:
  "keeps r0 r \<Longrightarrow> (tr_retries (TQOSReply (routes r sl rt)) \<le> partyTQOSMaxRetries \<Longrightarrow>
     tr_retries (f (TQOSReply (routes r sl rt))) \<le> partyTQOSMaxRetries) \<Longrightarrow> keeps r0 (upd_reply sl rt f r)"
  unfolding upd_reply_def by (erule keeps_route) (simp add: route_ok_def)

lemma flush_reply_keeps [keeps]: "keeps r0 r \<Longrightarrow> keeps r0 (flush_reply E c t peer sl rt r)"
  unfolding flush_reply_def
  by (intro keeps kept.calc keeps_reply)
    (auto simp: send_calm partyTQOSMaxRetries_def word_less_nat_alt word_le_nat_alt unat_word_ariths)

lemma flushPartyTQOSReplies_keeps [keeps]: "keeps r0 r \<Longrightarrow> keeps r0 (flushPartyTQOSRepliesUnsafe E c t r)"
  unfolding flushPartyTQOSRepliesUnsafe_def by (intro keeps kept.calc)

lemma partyTQOSReplyAcknowledged_keeps [keeps]: "keeps r0 r \<Longrightarrow> keeps r0 (snd (partyTQOSReplyAcknowledgedUnsafe frame rt peer r))"
  unfolding partyTQOSReplyAcknowledgedUnsafe_def by (intro keeps kept.calc keeps_reply) simp_all

lemma markPartyRobotPeerReady_keeps [keeps]: "keeps r0 r \<Longrightarrow> keeps r0 (markPartyRobotPeerReadyUnsafe E peer rt t r)"
  unfolding markPartyRobotPeerReadyUnsafe_def by (intro keeps)

lemma probe_route_keeps [keeps]: "keeps r0 r \<Longrightarrow> keeps r0 (probe_route E c t peer sl rt r)"
  unfolding probe_route_def by (intro keeps kept.calc keeps_reply) simp_all

lemma probePartyRobotPeerHealth_keeps [keeps]: "keeps r0 r \<Longrightarrow> keeps r0 (probePartyRobotPeerHealthUnsafe E c t r)"
  unfolding probePartyRobotPeerHealthUnsafe_def by (intro keeps kept.calc)

lemma new_reliable_reply_keeps [keeps]: "keeps r0 r \<Longrightarrow> keeps r0 (snd (new_reliable_reply E sl rt request r))"
  unfolding new_reliable_reply_def by (intro keeps kept.calc keeps_reply) (simp_all add: zero_reply_def)

lemma partyTQOSReliableReply_keeps [keeps]: "keeps r0 r \<Longrightarrow> keeps r0 (snd (partyTQOSReliableReplyUnsafe E sl rt request r))"
  unfolding partyTQOSReliableReplyUnsafe_def by (intro keeps kept.calc keeps_reply) simp_all

lemma beginPartyTQOSEpoch_keeps [keeps]: "keeps r0 r \<Longrightarrow> keeps r0 (beginPartyTQOSEpochUnsafe sl rt request t r)"
  unfolding beginPartyTQOSEpochUnsafe_def by (intro keeps kept.calc kept.route) (simp_all add: same_delivery_def)

lemma queue_follow_keeps [keeps]: "keeps r0 r \<Longrightarrow> keeps r0 (queue_follow item r)"
  unfolding queue_follow_def by (intro keeps kept.calc keeps_sizes) simp_all

lemma queuePartyDungeonFollow_keeps [keeps]: "keeps r0 r \<Longrightarrow> keeps r0 (queuePartyDungeonFollowUnsafe frame peer t r)"
  unfolding queuePartyDungeonFollowUnsafe_def by (intro keeps kept.calc)

end
