(* ===== verification/Robot_Invariant.thy ===== *)
theory Robot_Invariant
  imports Transport_Invariant
begin

section \<open>Every operation keeps the invariant of a robot\<close>

text \<open>
  The rules of theory \<open>Transport_Invariant\<close> for the operations of the party runtime, the actions, the members of the party and
  the packet handlers.
\<close>

subsubsection \<open>Skills, following, received frames\<close>

lemma startRobotRoutine_keeps [keeps]: "keeps r0 r \<Longrightarrow> keeps r0 (snd (startRobotRoutine E job r))"
  unfolding startRobotRoutine_def by (intro keeps kept.calc)

lemma rememberPartyDungeonActivity_keeps [keeps]: "keeps r0 r \<Longrightarrow> keeps r0 (rememberPartyDungeonActivityUnsafe frame rt peer t r)"
  unfolding rememberPartyDungeonActivityUnsafe_def by (intro keeps kept.calc)

lemma resetPartySkillProfile_keeps [keeps]: "keeps r0 r \<Longrightarrow> keeps r0 (resetPartySkillProfileUnsafe r)"
  unfolding resetPartySkillProfileUnsafe_def by (intro keeps kept.calc)

lemma markPartyDungeonEntered_keeps [keeps]: "keeps r0 r \<Longrightarrow> keeps r0 (markPartyDungeonEnteredUnsafe t r)"
  unfolding markPartyDungeonEnteredUnsafe_def by (intro keeps kept.calc)

lemma clearPartyDungeonRuntime_keeps [keeps]: "keeps r0 r \<Longrightarrow> keeps r0 (clearPartyDungeonRuntimeUnsafe E r)"
  unfolding clearPartyDungeonRuntimeUnsafe_def by (intro keeps keeps_sizes kept.calc) simp_all

lemma ensurePartySkillProfile_keeps [keeps]: "keeps r0 r \<Longrightarrow> keeps r0 (snd (ensurePartySkillProfileUnsafe E r))"
  unfolding ensurePartySkillProfileUnsafe_def by (intro keeps kept.calc)

lemma loadPartySkillProfile_keeps [keeps]: "keeps r0 r \<Longrightarrow> keeps r0 (loadPartySkillProfile E g cg uid profile r)"
  unfolding loadPartySkillProfile_def by (intro keeps kept.calc)

lemma sendPartySkillState_keeps [keeps]: "keeps r0 r \<Longrightarrow> keeps r0 (snd (sendPartySkillStateUnsafe E c t st data reason r))"
  unfolding sendPartySkillStateUnsafe_def by (intro keeps kept.calc)

lemma cast_skill_keeps [keeps]: "keeps r0 r \<Longrightarrow> keeps r0 (cast_skill E c t r)"
  unfolding cast_skill_def by (intro keeps kept.calc)

lemma recover_skill_keeps [keeps]: "keeps r0 r \<Longrightarrow> keeps r0 (recover_skill E c t r)"
  unfolding recover_skill_def by (intro keeps kept.calc)

lemma flushPartyDungeonSkill_keeps [keeps]: "keeps r0 r \<Longrightarrow> keeps r0 (flushPartyDungeonSkillUnsafe E c t r)"
  unfolding flushPartyDungeonSkillUnsafe_def by (intro keeps kept.calc)

lemma send_follow_keeps [keeps]: "keeps r0 r \<Longrightarrow> keeps r0 (snd (send_follow E c t peer item r))"
  unfolding send_follow_def by (intro keeps kept.calc)

lemma keeps_follow: "keeps r0 r \<Longrightarrow> (robot_ok r0 \<Longrightarrow> length items \<le> 2048) \<Longrightarrow> keeps r0 (r\<lparr>partyDungeonFollow := items\<rparr>)"
  by (auto simp: keeps_def robot_ok_def sizes_ok_def)

lemma follow_loop_keeps: "(robot_ok r0 \<Longrightarrow> length items \<le> 2048) \<Longrightarrow> keeps r0 r \<Longrightarrow> keeps r0 (follow_loop E c t items r)"
proof (induction items arbitrary: r)
  case Nil
  then show ?case by (simp add: keeps_follow)
next
  case (Cons item items)
  have len: "robot_ok r0 \<Longrightarrow> length items \<le> 2048" using Cons.prems(1) by simp
  show ?case unfolding follow_loop.simps
    by (intro Cons.IH [OF len] keeps Cons.prems(2) keeps_follow kept.calc) (use Cons.prems(1) in simp_all)
qed

lemma flushPartyDungeonFollow_keeps [keeps]: "keeps r0 r \<Longrightarrow> keeps r0 (flushPartyDungeonFollowUnsafe E c t r)"
  unfolding flushPartyDungeonFollowUnsafe_def
  by (rule follow_loop_keeps) (simp_all add: keeps_def robot_ok_def sizes_ok_def)

lemma flushPartyRuntime_keeps [keeps]: "keeps r0 r \<Longrightarrow> keeps r0 (flushPartyRuntimeUnsafe E c t r)"
  unfolding flushPartyRuntimeUnsafe_def by (intro keeps kept.calc)

lemma ack_frame_keeps [keeps]: "keeps r0 r \<Longrightarrow> keeps r0 (ack_frame E rt peer frame r)"
  unfolding ack_frame_def by (intro keeps kept.calc)

lemma answer_request_keeps [keeps]: "keeps r0 r \<Longrightarrow> keeps r0 (snd (answer_request E rt peer request replies r))"
  unfolding answer_request_def by (intro keeps kept.route kept.calc) (simp_all add: same_delivery_def)

lemma data_frame_keeps [keeps]: "keeps r0 r \<Longrightarrow> keeps r0 (snd (data_frame E rt peer frame replies r))"
  unfolding data_frame_def by (intro keeps kept.route kept.calc) (simp_all add: same_delivery_def)

lemma reply_loop_keeps [keeps]: "keeps r0 r \<Longrightarrow> keeps r0 (snd (reply_loop E rt peer frames replies r))"
proof (induction frames arbitrary: replies r)
  case (Cons frame frames)
  show ?case unfolding reply_loop.simps by (intro Cons.IH keeps Cons.prems kept.calc)
qed simp

lemma buildPartyTQOSReplies_keeps [keeps]: "keeps r0 r \<Longrightarrow> keeps r0 (snd (buildPartyTQOSRepliesUnsafe E payload rt peer r))"
  unfolding buildPartyTQOSRepliesUnsafe_def by (intro keeps kept.calc)

lemma buildPartyUDPAcks_keeps [keeps]: "keeps r0 r \<Longrightarrow> keeps r0 (snd (buildPartyUDPAcks E payload remote r))"
  unfolding buildPartyUDPAcks_def by (intro keeps kept.calc)

lemma buildPartyRelayReplies_keeps [keeps]: "keeps r0 r \<Longrightarrow> keeps r0 (snd (buildPartyRelayReplies E payload src r))"
  unfolding buildPartyRelayReplies_def by (intro keeps kept.calc)

lemma stop_udp_loop_keeps [keeps]: "keeps r0 r \<Longrightarrow> keeps r0 (stop_udp_loop c g r)"
  unfolding stop_udp_loop_def by (intro keeps kept.calc)

lemma udp_loop_head_keeps [keeps]: "keeps r0 r \<Longrightarrow> keeps r0 (snd (udp_loop_head E c g r))"
  unfolding udp_loop_head_def by (intro keeps kept.calc)

lemma partyUDPLoop_read_keeps [keeps]: "keeps r0 r \<Longrightarrow> keeps r0 (snd (partyUDPLoop_read E c g mtu answer s r))"
  unfolding partyUDPLoop_read_def by (cases answer; simp only: udp_read.case; intro keeps kept.calc)

lemma relay_connected_keeps:
  "keeps r0 r \<Longrightarrow> partyRelayConn r = None \<Longrightarrow> keeps r0 (r\<lparr>partyRelayConn := Some c, partyRelayNextAt := t, partyRelayBackoff := 0\<rparr>)"
  by (erule keeps_relay) (auto simp: relay_ok_def sizes_ok_def partyRelayBackoffMax_def Second_def)

lemma active_same [simp]: "partyRelayConn (snd (partyActiveUnsafe E r)) = partyRelayConn r"
  by (simp add: partyActiveUnsafe_def clearPartyPendingUnsafe_def clearPartyInviteFallbackUnsafe_def Let_def)

lemma finishPartyRelayConnect_keeps [keeps]: "keeps r0 r \<Longrightarrow> keeps r0 (snd (finishPartyRelayConnect E g c r))"
  unfolding finishPartyRelayConnect_def Let_def case_prod_beta
  by (intro keeps kept.writer kept.route relay_connected_keeps kept.calc) (auto simp: same_delivery_def upd_route_def)

lemma drop_relay_keeps [keeps]: "keeps r0 r \<Longrightarrow> keeps r0 (drop_relay E c r)"
  unfolding drop_relay_def by (intro keeps kept.calc)

lemma relay_groups_keeps [keeps]: "keeps r0 r \<Longrightarrow> keeps r0 (relay_groups E c dst groups r)"
proof (induction groups arbitrary: r)
  case (Cons payload groups)
  show ?case unfolding relay_groups.simps by (intro Cons.IH keeps Cons.prems kept.calc)
qed simp

lemma handlePartyRelayPacket_keeps [keeps]: "keeps r0 r \<Longrightarrow> keeps r0 (handlePartyRelayPacket E c packet r)"
  unfolding handlePartyRelayPacket_def by (intro keeps kept.calc)

lemma relay_cut_keeps [keeps]: "keeps r0 r \<Longrightarrow> keeps r0 (snd (relay_cut E c stream r))"
proof (induction E c stream r rule: relay_cut.induct)
  case (1 E c stream r)
  show ?case by (subst relay_cut.simps) (intro 1(1) keeps 1(2) kept.calc; simp)
qed

lemma partyRelayLoop_read_keeps [keeps]: "keeps r0 r \<Longrightarrow> keeps r0 (snd (partyRelayLoop_read E c uid answer s r))"
  unfolding partyRelayLoop_read_def by (cases answer; simp only: relay_read.case; intro keeps kept.calc)

lemma sendPartyRobotPeerProbeRoute_keeps [keeps]: "keeps r0 r \<Longrightarrow> keeps r0 (snd (sendPartyRobotPeerProbeRouteUnsafe E peer rt r))"
  unfolding sendPartyRobotPeerProbeRouteUnsafe_def by (intro keeps kept.calc)

lemma probe_count:
  assumes "sendPartyRobotPeerProbeRouteUnsafe E peer rt r = (ok, r')"
  shows "RobotProbeCount (slots r' sl) \<le> RobotProbeCount (slots r sl)"
  using assms send_calm(3)
  by (fastforce simp: sendPartyRobotPeerProbeRouteUnsafe_def nextPartyTQOSSequenceUnsafe_def upd_route_def split: if_splits)

lemma negotiate_keeps [keeps]:
  assumes "keeps r0 r"
  shows "keeps r0 (negotiate E peer r)"
proof -
  let ?slot = "peer_slot peer"
  define r1 where "r1 = (if RobotProbeCount (slots r ?slot) \<ge> 4 then upd_slot ?slot (RobotProbeCount_update (\<lambda>_. 0)) r else r)"
  have r1: "keeps r0 r1" unfolding r1_def by (intro kept.slot kept.calc assms) simp
  have "RobotProbeCount (slots r1 ?slot) < 4" by (simp add: r1_def upd_slot_def not_le)
  then have count: "RobotProbeCount (slots r' ?slot) + 1 \<le> 4"
    if "sendPartyRobotPeerProbeRouteUnsafe E peer rt r1 = (ok, r')" for rt ok r'
    using probe_count [OF that, of ?slot] by (simp add: word_less_nat_alt word_le_nat_alt unat_word_ariths)
  show ?thesis unfolding negotiate_def Let_def [of ?slot] r1_def [symmetric]
    by (intro keeps keeps_slot r1 assms kept.calc) (auto simp: r1_def [symmetric] intro: r1 count)
qed

lemma startPartyRobotPeerNegotiation_keeps [keeps]: "keeps r0 r \<Longrightarrow> keeps r0 (startPartyRobotPeerNegotiationUnsafe E r)"
  unfolding startPartyRobotPeerNegotiationUnsafe_def by (intro keeps kept.calc)

subsubsection \<open>Actions\<close>

lemma sendRaw_keeps [keeps]: "keeps r0 r \<Longrightarrow> keeps r0 (snd (sendRaw pkt r))"
  unfolding sendRaw_def by (intro keeps kept.calc)

lemma SendMsg_keeps [keeps]: "keeps r0 r \<Longrightarrow> keeps r0 (snd (SendMsg pkt r))"
  unfolding SendMsg_def by (intro keeps kept.calc)

lemma send_packet_keeps [keeps]: "keeps r0 r \<Longrightarrow> keeps r0 (snd (send_packet E t i body r))"
  unfolding send_packet_def by (intro keeps kept.calc)

lemma next_packet_keeps [keeps]: "keeps r0 r \<Longrightarrow> keeps r0 (next_packet r)"
  unfolding next_packet_def by (intro keeps kept.calc)

lemma send_counted_keeps [keeps]: "keeps r0 r \<Longrightarrow> keeps r0 (snd (send_counted E t body r))"
  unfolding send_counted_def by (intro keeps kept.calc)

lemma send_then_count_keeps [keeps]: "keeps r0 r \<Longrightarrow> keeps r0 (snd (send_then_count E t body r))"
  unfolding send_then_count_def by (intro keeps kept.calc)

lemma idle_running_keeps [keeps]: "keeps r0 r \<Longrightarrow> keeps r0 (snd (idle_running E r))"
  unfolding idle_running_def by (intro keeps kept.calc)

lemma setAreaFromLocked_keeps [keeps]: "keeps r0 r \<Longrightarrow> keeps r0 (setAreaFromLocked E village area x y fv fa r)"
  unfolding setAreaFromLocked_def by (intro keeps kept.calc)

lemma SetAreaFrom_keeps [keeps]: "keeps r0 r \<Longrightarrow> keeps r0 (SetAreaFrom E village area x y fv fa r)"
  unfolding SetAreaFrom_def by (intro keeps kept.calc)

lemma SetArea_keeps [keeps]: "keeps r0 r \<Longrightarrow> keeps r0 (SetArea E village area x y r)"
  unfolding SetArea_def by (intro keeps kept.calc)

lemma setPosition_keeps [keeps]: "keeps r0 r \<Longrightarrow> keeps r0 (snd (setPositionUnsafe E x y t speed r))"
  unfolding setPositionUnsafe_def by (intro keeps kept.calc)

lemma SetPosition_keeps [keeps]: "keeps r0 r \<Longrightarrow> keeps r0 (SetPosition E x y t speed r)"
  unfolding SetPosition_def by (intro keeps kept.calc)

lemma sendPublicMessagePacket_keeps [keeps]: "keeps r0 r \<Longrightarrow> keeps r0 (sendPublicMessagePacket E t fl msg r)"
  unfolding sendPublicMessagePacket_def by (intro keeps kept.calc)

lemma SendPublicMessage_keeps [keeps]: "keeps r0 r \<Longrightarrow> keeps r0 (SendPublicMessage E t msg r)"
  unfolding SendPublicMessage_def by (intro keeps kept.calc)

lemma sendPartyOption_keeps [keeps]: "keeps r0 r \<Longrightarrow> keeps r0 (snd (sendPartyOptionUnsafe E r))"
  unfolding sendPartyOptionUnsafe_def by (intro keeps kept.calc)

lemma sendNATInfoUpdate_keeps [keeps]: "keeps r0 r \<Longrightarrow> keeps r0 (snd (sendNATInfoUpdateUnsafe E force r))"
  unfolding sendNATInfoUpdateUnsafe_def by (intro keeps kept.calc)

lemma sendNATInfo_keeps [keeps]: "keeps r0 r \<Longrightarrow> keeps r0 (snd (sendNATInfoUnsafe E r))"
  unfolding sendNATInfoUnsafe_def by (intro keeps kept.calc)

lemma invalidateTradeQuote_keeps [keeps]: "keeps r0 r \<Longrightarrow> keeps r0 (invalidateTradeQuoteUnsafe r)"
  unfolding invalidateTradeQuoteUnsafe_def by (intro keeps kept.calc)

lemma clearTrade_keeps [keeps]: "keeps r0 r \<Longrightarrow> keeps r0 (clearTradeUnsafe r)"
  unfolding clearTradeUnsafe_def by (intro keeps keeps_sizes kept.calc) simp_all

lemma queueTradeQuoteRefresh_keeps [keeps]: "keeps r0 r \<Longrightarrow> keeps r0 (queueTradeQuoteRefreshUnsafe E r)"
  unfolding queueTradeQuoteRefreshUnsafe_def by (intro keeps kept.calc)

lemma tradeQuoteSnapshot_keeps [keeps]: "keeps r0 r \<Longrightarrow> keeps r0 (snd (tradeQuoteSnapshotUnsafe r))"
  unfolding tradeQuoteSnapshotUnsafe_def by (intro keeps kept.calc)

lemma applyTradeQuote_keeps [keeps]: "keeps r0 r \<Longrightarrow> keeps r0 (applyTradeQuoteUnsafe E money r)"
  unfolding applyTradeQuoteUnsafe_def by (intro keeps kept.calc)

lemma refreshTradeQuote_begin_keeps [keeps]: "keeps r0 r \<Longrightarrow> keeps r0 (snd (refreshTradeQuote_begin r))"
  unfolding refreshTradeQuote_begin_def by (intro keeps kept.calc)

lemma refreshTradeQuote_end_keeps [keeps]: "keeps r0 r \<Longrightarrow> keeps r0 (snd (refreshTradeQuote_end E snapshot prices r))"
  unfolding refreshTradeQuote_end_def by (intro keeps kept.calc)

lemma refreshTradeQuote_panic_keeps [keeps]: "keeps r0 r \<Longrightarrow> keeps r0 (snd (refreshTradeQuote_panic r))"
  unfolding refreshTradeQuote_panic_def by (intro keeps kept.calc)

lemma refreshTradeQuote_retry_keeps [keeps]: "keeps r0 r \<Longrightarrow> keeps r0 (refreshTradeQuote_retry E uid r)"
  unfolding refreshTradeQuote_retry_def by (intro keeps kept.calc)

lemma clear_display_keeps [keeps]: "keeps r0 r \<Longrightarrow> keeps r0 (clear_display r)"
  unfolding clear_display_def by (intro keeps keeps_sizes kept.calc) simp_all

lemma ResetPrivateStoreState_keeps [keeps]: "keeps r0 r \<Longrightarrow> keeps r0 (ResetPrivateStoreState r)"
  unfolding ResetPrivateStoreState_def by (intro keeps kept.calc)

lemma PreparePrivateStoreState_keeps [keeps]: "keeps r0 r \<Longrightarrow> keeps r0 (PreparePrivateStoreState title r)"
  unfolding PreparePrivateStoreState_def by (intro keeps kept.calc)

lemma QueueDisjointAfterRun_keeps [keeps]: "keeps r0 r \<Longrightarrow> keeps r0 (QueueDisjointAfterRun cost r)"
  unfolding QueueDisjointAfterRun_def by (intro keeps kept.calc)

lemma runDisjointAfterLogin_keeps [keeps]: "keeps r0 r \<Longrightarrow> keeps r0 (runDisjointAfterLoginUnsafe E r)"
  unfolding runDisjointAfterLoginUnsafe_def by (intro keeps kept.calc)

lemma OpenDisjointStore_keeps [keeps]: "keeps r0 r \<Longrightarrow> keeps r0 (snd (OpenDisjointStore E cost r))"
  unfolding OpenDisjointStore_def by (intro keeps kept.calc)

lemma CreatePrivateStore_keeps [keeps]: "keeps r0 r \<Longrightarrow> keeps r0 (snd (CreatePrivateStore E r))"
  unfolding CreatePrivateStore_def by (intro keeps kept.calc)

lemma completeDisplay_keeps [keeps]: "keeps r0 r \<Longrightarrow> keeps r0 (snd (completeDisplay E title storeInfo r))"
  unfolding completeDisplay_def by (intro keeps keeps_sizes kept.calc) simp_all

lemma CompleteDisplay_keeps [keeps]: "keeps r0 r \<Longrightarrow> keeps r0 (snd (CompleteDisplay E title storeInfo r))"
  unfolding CompleteDisplay_def by (intro keeps kept.calc)

lemma retryPrivateStoreDisplay_keeps [keeps]: "keeps r0 r \<Longrightarrow> keeps r0 (snd (retryPrivateStoreDisplayUnsafe E r))"
  unfolding retryPrivateStoreDisplayUnsafe_def by (intro keeps kept.calc)

lemma GetCompleteDisplay_keeps [keeps]: "keeps r0 r \<Longrightarrow> keeps r0 (snd (GetCompleteDisplay E fl r))"
  unfolding GetCompleteDisplay_def by (intro keeps kept.calc)

lemma MarkPrivateStoreCreateFailed_keeps [keeps]: "keeps r0 r \<Longrightarrow> keeps r0 (MarkPrivateStoreCreateFailed r)"
  unfolding MarkPrivateStoreCreateFailed_def by (intro keeps kept.calc)

lemma MarkPrivateStoreDisplayFailed_keeps [keeps]: "keeps r0 r \<Longrightarrow> keeps r0 (MarkPrivateStoreDisplayFailed r)"
  unfolding MarkPrivateStoreDisplayFailed_def by (intro keeps kept.calc)

lemma display_begin_keeps [keeps]: "keeps r0 r \<Longrightarrow> keeps r0 (snd (display_begin E r))"
  unfolding display_begin_def by (intro keeps kept.calc)

lemma display_end_keeps [keeps]: "keeps r0 r \<Longrightarrow> keeps r0 (snd (display_end E uid v title storeInfo r))"
  unfolding display_end_def by (intro keeps kept.calc)

subsubsection \<open>Members of the party\<close>

lemma choose_candidate_keeps [keeps]: "keeps r0 r \<Longrightarrow> keeps r0 (snd (choose_candidate unique valid r))"
  unfolding choose_candidate_def by (intro keeps kept.calc)

lemma selectTownEntityPositionBody_keeps [keeps]: "keeps r0 r \<Longrightarrow> keeps r0 (snd (selectTownEntityPositionBodyUnsafe E raw isAnti r))"
  unfolding selectTownEntityPositionBodyUnsafe_def by (intro keeps kept.calc)

lemma selectTownEntityArea_keeps [keeps]: "keeps r0 r \<Longrightarrow> keeps r0 (snd (selectTownEntityAreaUnsafe E raw isAnti r))"
  unfolding selectTownEntityAreaUnsafe_def by (intro keeps kept.calc)

lemma pruneTownEntities_keeps [keeps]: "keeps r0 r \<Longrightarrow> keeps r0 (pruneTownEntitiesUnsafe E t r)"
  unfolding pruneTownEntitiesUnsafe_def by (intro keeps kept.calc)

lemma rememberTownEntity_keeps [keeps]: "keeps r0 r \<Longrightarrow> keeps r0 (snd (rememberTownEntityUnsafe E data r))"
  unfolding rememberTownEntityUnsafe_def by (intro keeps kept.calc)

lemma followPartyLeaderTownArea_keeps [keeps]: "keeps r0 r \<Longrightarrow> keeps r0 (snd (followPartyLeaderTownAreaUnsafe E area r))"
  unfolding followPartyLeaderTownAreaUnsafe_def by (intro keeps kept.calc)

lemma followPartyLeaderTownPosition_keeps [keeps]: "keeps r0 r \<Longrightarrow> keeps r0 (snd (followPartyLeaderTownPositionUnsafe E position r))"
  unfolding followPartyLeaderTownPositionUnsafe_def by (intro keeps kept.calc)

lemma followCachedPartyLeaderTownPosition_keeps [keeps]: "keeps r0 r \<Longrightarrow> keeps r0 (snd (followCachedPartyLeaderTownPositionUnsafe E r))"
  unfolding followCachedPartyLeaderTownPositionUnsafe_def by (intro keeps kept.calc)

lemma setPartyPending_keeps [keeps]: "keeps r0 r \<Longrightarrow> keeps r0 (setPartyPendingUnsafe E unique r)"
  unfolding setPartyPendingUnsafe_def by (intro keeps kept.calc)

lemma schedulePartyInviteFallback_keeps [keeps]: "keeps r0 r \<Longrightarrow> keeps r0 (schedulePartyInviteFallbackUnsafe E selected candidate r)"
  unfolding schedulePartyInviteFallbackUnsafe_def by (intro keeps kept.calc)

lemma flushPartyInviteFallback_keeps [keeps]: "keeps r0 r \<Longrightarrow> keeps r0 (snd (flushPartyInviteFallbackUnsafe E epoch r))"
  unfolding flushPartyInviteFallbackUnsafe_def by (intro keeps kept.calc)

lemma clearConfirmedTradeFallback_keeps [keeps]: "keeps r0 r \<Longrightarrow> keeps r0 (clearConfirmedTradeFallbackUnsafe r)"
  unfolding clearConfirmedTradeFallbackUnsafe_def by (intro keeps kept.calc)

lemma remember_peer_length [simp]: "length (remember_peer peer peers) = length peers" if "peers \<noteq> []"
  using that by (auto simp: remember_peer_def replace_first_def split: option.splits)

lemma fold_remember_length: "peers \<noteq> [] \<Longrightarrow> length (fold remember_peer new peers) = length peers"
proof (induction new arbitrary: peers)
  case (Cons peer new)
  then have "remember_peer peer peers \<noteq> []" by (metis length_greater_0_conv remember_peer_length)
  with Cons show ?case by simp
qed simp

lemma rememberPartyPeers_keeps [keeps]: "keeps r0 r \<Longrightarrow> keeps r0 (rememberPartyPeersUnsafe peers r)"
  unfolding rememberPartyPeersUnsafe_def by (intro keeps keeps_sizes kept.calc) (metis fold_remember_length length_0_conv zero_neq_numeral)+

lemma setPartyPeers_keeps [keeps]: "keeps r0 r \<Longrightarrow> keeps r0 (setPartyPeersUnsafe E peers r)"
  unfolding setPartyPeersUnsafe_def by (intro keeps keeps_sizes kept.calc) simp_all

lemma setPartySelfPeer_keeps [keeps]: "keeps r0 r \<Longrightarrow> keeps r0 (setPartySelfPeerUnsafe E peer r)"
  unfolding setPartySelfPeerUnsafe_def by (intro keeps keeps_sizes kept.calc) (simp_all add: partySelfRefreshMax_def Second_def)

lemma clearParty_keeps [keeps]: "keeps r0 r \<Longrightarrow> keeps r0 (clearPartyUnsafe r)"
  unfolding clearPartyUnsafe_def by (intro keeps keeps_sizes kept.calc) (simp_all add: partySelfRefreshMax_def Second_def)

lemma sendReturnToCharacterSelect_keeps [keeps]: "keeps r0 r \<Longrightarrow> keeps r0 (snd (sendReturnToCharacterSelectUnsafe E b r))"
  unfolding sendReturnToCharacterSelectUnsafe_def by (intro keeps kept.calc)

lemma ReturnToCharacterSelect_keeps [keeps]: "keeps r0 r \<Longrightarrow> keeps r0 (snd (ReturnToCharacterSelect E r))"
  unfolding ReturnToCharacterSelect_def by (intro keeps kept.calc)

lemma sendSelectCharac_keeps [keeps]: "keeps r0 r \<Longrightarrow> keeps r0 (snd (sendSelectCharacUnsafe E r))"
  unfolding sendSelectCharacUnsafe_def by (intro keeps kept.calc)

lemma reselect_keeps [keeps]: "keeps r0 r \<Longrightarrow> keeps r0 (snd (reselect E r))"
  unfolding reselect_def by (intro keeps keeps_state kept.calc) simp_all

lemma ReselectCharacter_keeps [keeps]: "keeps r0 r \<Longrightarrow> keeps r0 (snd (ReselectCharacter E r))"
  unfolding ReselectCharacter_def by (intro keeps kept.calc)

lemma schedulePartyReselect_keeps [keeps]: "keeps r0 r \<Longrightarrow> keeps r0 (schedulePartyReselectUnsafe r)"
  unfolding schedulePartyReselectUnsafe_def by (intro keeps kept.calc)

lemma party_reselect_attempt_keeps [keeps]: "keeps r0 r \<Longrightarrow> keeps r0 (party_reselect_attempt E epoch deadline r)"
  unfolding party_reselect_attempt_def by (intro keeps kept.calc)

lemma finishReturnToSelect_keeps [keeps]: "keeps r0 r \<Longrightarrow> keeps r0 (finishReturnToSelectUnsafe E r)"
  unfolding finishReturnToSelectUnsafe_def by (intro keeps keeps_state kept.calc) simp_all

lemma observePartyAccounts_keeps [keeps]: "keeps r0 r \<Longrightarrow> keeps r0 (observePartyAccountsUnsafe E peers r)"
  unfolding observePartyAccountsUnsafe_def by (intro keeps kept.calc)

lemma startPartyRecovery_keeps [keeps]: "keeps r0 r \<Longrightarrow> keeps r0 (snd (startPartyRecoveryUnsafe E t r))"
  unfolding startPartyRecoveryUnsafe_def by (intro keeps kept.calc)

lemma maybeRecoverStaleParty_keeps [keeps]: "keeps r0 r \<Longrightarrow> keeps r0 (maybeRecoverStalePartyUnsafe E t r)"
  unfolding maybeRecoverStalePartyUnsafe_def by (intro keeps kept.calc)

lemma reconcilePartyRealtime_keeps [keeps]: "keeps r0 r \<Longrightarrow> keeps r0 (reconcilePartyRealtimeUnsafe E roster r)"
  unfolding reconcilePartyRealtimeUnsafe_def by (intro keeps kept.calc)

lemma maybeConfirmPartyRealtime_keeps [keeps]: "keeps r0 r \<Longrightarrow> keeps r0 (maybeConfirmPartyRealtimeUnsafe E t r)"
  unfolding maybeConfirmPartyRealtimeUnsafe_def by (intro keeps kept.calc)

lemma applyPartyRealtimeIdentities_keeps [keeps]: "keeps r0 r \<Longrightarrow> keeps r0 (applyPartyRealtimeIdentitiesUnsafe E r)"
  unfolding applyPartyRealtimeIdentitiesUnsafe_def by (intro keeps kept.calc)

lemma partyRealtimeRoster_length [simp]: "length (partyRealtimeRoster identities) = 4"
proof -
  have "length (fold (\<lambda>identity roster. if rt_slot identity < 4 then roster[unat (rt_slot identity) := rt_uniqueID identity] else roster)
      identities roster) = length roster" for roster
    by (induction identities arbitrary: roster) simp_all
  then show ?thesis by (simp add: partyRealtimeRoster_def)
qed

lemma rememberPartyRealtimeIdentities_keeps [keeps]: "keeps r0 r \<Longrightarrow> keeps r0 (rememberPartyRealtimeIdentitiesUnsafe E identities r)"
  unfolding rememberPartyRealtimeIdentitiesUnsafe_def by (intro keeps keeps_sizes kept.calc) simp_all

lemma rebuildPartyUDP_keeps [keeps]: "keeps r0 r \<Longrightarrow> keeps r0 (snd (rebuildPartyUDPUnsafe E r))"
  unfolding rebuildPartyUDPUnsafe_def by (intro keeps kept.route kept.calc) (simp_all add: same_delivery_def)

lemma ensurePartyUDPHealth_keeps [keeps]: "keeps r0 r \<Longrightarrow> keeps r0 (ensurePartyUDPHealthUnsafe E r)"
  unfolding ensurePartyUDPHealthUnsafe_def by (intro keeps kept.calc)

lemma refreshPartySelfIdentity_keeps [keeps]: "keeps r0 r \<Longrightarrow> keeps r0 (refreshPartySelfIdentityUnsafe E t r)"
  unfolding refreshPartySelfIdentityUnsafe_def by (intro keeps keeps_sizes kept.calc) (auto simp: partySelfRefreshMax_def partySelfRefreshInitial_def Second_def)

lemma supervisor_maintenance_keeps [keeps]: "keeps r0 r \<Longrightarrow> keeps r0 (supervisor_maintenance E t r)"
  unfolding supervisor_maintenance_def by (intro keeps kept.calc)

lemma partySupervisorStep_keeps [keeps]: "keeps r0 r \<Longrightarrow> keeps r0 (snd (partySupervisorStep E epoch t nextMaintenance r))"
  unfolding partySupervisorStep_def by (intro keeps kept.calc)

subsubsection \<open>Packets\<close>

lemma handleSessionPacket_keeps [keeps]: "keeps r0 r \<Longrightarrow> keeps r0 (handleSessionPacketUnsafe E packet r)"
  unfolding handleSessionPacketUnsafe_def by (intro keeps kept.calc)

lemma enter_run_keeps [keeps]: "keeps r0 r \<Longrightarrow> keeps r0 (enter_run E r)"
  unfolding enter_run_def by (intro keeps keeps_state kept.calc) simp_all

lemma login_completion_keeps [keeps]: "keeps r0 r \<Longrightarrow> keeps r0 (login_completion E r)"
  unfolding login_completion_def by (intro keeps kept.calc)

lemma disjoint_answer_keeps [keeps]: "keeps r0 r \<Longrightarrow> keeps r0 (disjoint_answer d r)"
  unfolding disjoint_answer_def by (intro keeps kept.calc)

lemma create_answer_keeps [keeps]: "keeps r0 r \<Longrightarrow> keeps r0 (create_answer a e r)"
  unfolding create_answer_def by (intro keeps kept.calc)

lemma display_answer_keeps [keeps]: "keeps r0 r \<Longrightarrow> keeps r0 (display_answer E a e r)"
  unfolding display_answer_def by (intro keeps kept.calc)

lemma inventory_list_keeps [keeps]: "keeps r0 r \<Longrightarrow> keeps r0 (inventory_list d r)"
  unfolding inventory_list_def by (intro keeps kept.calc)

lemma trade_item_keeps [keeps]: "keeps r0 r \<Longrightarrow> keeps r0 (trade_item E d r)"
  unfolding trade_item_def by (intro keeps keeps_sizes kept.calc) simp_all

lemma trade_state_keeps [keeps]: "keeps r0 r \<Longrightarrow> keeps r0 (trade_state E d r)"
  unfolding trade_state_def by (intro keeps kept.calc)

lemma handleStoreTradePacket_keeps [keeps]: "keeps r0 r \<Longrightarrow> keeps r0 (handleStoreTradePacketUnsafe E packet r)"
  unfolding handleStoreTradePacketUnsafe_def by (intro keeps kept.calc)

lemma dungeon_entry_keeps [keeps]: "keeps r0 r \<Longrightarrow> keeps r0 (dungeon_entry E r)"
  unfolding dungeon_entry_def by (intro keeps kept.calc)

lemma town_position_keeps [keeps]: "keeps r0 r \<Longrightarrow> keeps r0 (town_position E packet r)"
  unfolding town_position_def by (intro keeps kept.calc)

lemma town_area_keeps [keeps]: "keeps r0 r \<Longrightarrow> keeps r0 (town_area E packet r)"
  unfolding town_area_def by (intro keeps kept.calc)

lemma party_info_keeps [keeps]: "keeps r0 r \<Longrightarrow> keeps r0 (party_info E packet r)"
  unfolding party_info_def by (intro keeps kept.calc)

lemma party_snapshot_keeps [keeps]: "keeps r0 r \<Longrightarrow> keeps r0 (party_snapshot E packet r)"
  unfolding party_snapshot_def by (intro keeps keeps_sizes kept.calc) simp_all

lemma entity_gone_keeps [keeps]: "keeps r0 r \<Longrightarrow> keeps r0 (entity_gone E packet r)"
  unfolding entity_gone_def by (intro keeps kept.calc)

lemma party_option_keeps [keeps]: "keeps r0 r \<Longrightarrow> keeps r0 (party_option E packet r)"
  unfolding party_option_def by (intro keeps kept.calc)

lemma accept_request_keeps [keeps]: "keeps r0 r \<Longrightarrow> keeps r0 (accept_request E selected alternate r)"
  unfolding accept_request_def by (intro keeps kept.calc)

lemma peer_request_keeps [keeps]: "keeps r0 r \<Longrightarrow> keeps r0 (peer_request E packet r)"
  unfolding peer_request_def by (intro keeps kept.calc)

lemma handlePartyPacket_keeps [keeps]: "keeps r0 r \<Longrightarrow> keeps r0 (handlePartyPacketUnsafe E packet r)"
  unfolding handlePartyPacketUnsafe_def by (intro keeps kept.calc)

lemma handleReturnToSelectPacket_keeps [keeps]: "keeps r0 r \<Longrightarrow> keeps r0 (snd (handleReturnToSelectPacketUnsafe E packet r))"
  unfolding handleReturnToSelectPacketUnsafe_def by (intro keeps kept.calc)

end
