(* ===== verification/Robot_Session.thy ===== *)
theory Robot_Session
  imports Robot_Invariant
begin

section \<open>Sessions\<close>

text \<open>
  The receive loop of theory \<open>Packet_Stream\<close> is instantiated with the packet handler of theory \<open>Robot_Packets\<close>. The steps of
  a robot are the reads of its connection, the ticks and goroutines of the party, the timers, the operations of
  the user and its connecting, reconnecting and closing; in every reachable state the invariant of theory
  \<open>Robot_Invariant\<close> holds, a stopped robot holds no connection, and no read can fail.
\<close>

subsection \<open>The packet handler\<close>

text \<open>A handler that does not keep the robot has stopped it and closed its connection.\<close>

definition stopped :: "RobotVo \<Rightarrow> RobotVo \<Rightarrow> bool" where
  "stopped r0 r \<longleftrightarrow> rv_State r = StateStop \<and> rv_Conn r = None \<and> (robot_ok r0 \<longrightarrow> robot_ok r)"

lemma robot_ok_upd [simp]:
  "robot_ok (r\<lparr>rv_State := s\<rparr>) = robot_ok r" "robot_ok (r\<lparr>rv_Conn := c\<rparr>) = robot_ok r" "robot_ok (r\<lparr>closedConns := cs\<rparr>) = robot_ok r"
  "robot_ok (r\<lparr>hasController := b1\<rparr>) = robot_ok r" "robot_ok (r\<lparr>connectInFlight := b2\<rparr>) = robot_ok r"
  "robot_ok (r\<lparr>RobotTyp := t\<rparr>) = robot_ok r" "robot_ok (r\<lparr>DisconReason := d\<rparr>) = robot_ok r"
  by (simp_all add: robot_ok_def sizes_ok_def)

lemma robot_ok_closeConn [simp]: "robot_ok (closeConn r) = robot_ok r" for r :: RobotVo
  by (simp add: closeConn_def split: option.split)

lemma stop_session_stopped: "keeps r0 r \<Longrightarrow> stopped r0 (stop_session r)"
  by (simp add: stopped_def stop_session_def closeConn_def keeps_def split: option.split)

lemma login_key_packet_cases: "keeps r0 (login_key_packet E d r) \<or> stopped r0 (login_key_packet E d r)" if "keeps r0 r"
proof -
  have "keeps r0 (r\<lparr>Cipher := cipher\<rparr>)" for cipher by (intro keeps that)
  then show ?thesis unfolding login_key_packet_def
    by (auto simp: Let_def split: prod.split option.split intro!: keeps stop_session_stopped that)
qed

lemma handleLoginPacket_cases:
  assumes "keeps r0 r"
  shows "keeps r0 (handleLoginPacketUnsafe E packet r) \<or> stopped r0 (handleLoginPacketUnsafe E packet r)"
  using assms login_key_packet_cases [OF assms] stop_session_stopped [OF assms]
  by (auto simp: handleLoginPacketUnsafe_def Let_def split: option.split intro!: keeps)

lemma dispatch_cases:
  assumes "keeps r0 r"
  shows "keeps r0 (dispatch E packet r) \<or> stopped r0 (dispatch E packet r)"
proof (cases "pk_typ packet \<in> set [1, 53, 272, 300]")
  case True
  then have "dispatch E packet r = handleLoginPacketUnsafe E packet r" by (auto simp: dispatch_def Let_def)
  with handleLoginPacket_cases [OF assms] show ?thesis by simp
next
  case False
  have "keeps r0 (dispatch E packet r)" unfolding dispatch_def using False by (intro keeps assms kept.calc) simp_all
  then show ?thesis ..
qed

lemma parsePacket_cases: "keeps r (parsePacket E p r) \<or> stopped r (parsePacket E p r)"
  using dispatch_cases [OF keeps_refl] by (auto simp: parsePacket_def keeps_refl)

interpretation received: packet_handler "parsePacket E" for E
proof
  show "parsePacket E p r = r" if "rv_State r = StateStop" for p r using that by (simp add: parsePacket_def)
  show "rv_Conn (parsePacket E p r) = rv_Conn r" if "rv_State (parsePacket E p r) \<noteq> StateStop" for p r
    using that parsePacket_cases [of r E p] by (auto simp: keeps_def stopped_def)
  show "rv_Conn (parsePacket E p r) = None" if "rv_State r \<noteq> StateStop" "rv_State (parsePacket E p r) = StateStop" for p r
    using that parsePacket_cases [of r E p] by (auto simp: keeps_def stopped_def)
qed

lemma run_ok: "robot_ok r \<Longrightarrow> robot_ok (fold (parsePacket E) ps r)"
proof (induction ps arbitrary: r)
  case (Cons p ps)
  from parsePacket_cases [of r E p] Cons.prems have "robot_ok (parsePacket E p r)" by (auto simp: keeps_def stopped_def)
  with Cons.IH show ?case by simp
qed simp

subsection \<open>The steps of a robot\<close>

text \<open>What the user, the goroutines and the timers do with the lock of a robot, apart from reading and connecting.\<close>

inductive vo_step :: "RobotVo \<Rightarrow> RobotVo \<Rightarrow> bool" where
  tick: "vo_step r (snd (partySupervisorStep E epoch t nextMaintenance r))"
| udp_head: "vo_step r (snd (udp_loop_head E udp g r))"
| udp_read: "vo_step r (snd (partyUDPLoop_read E udp g mtu answer s r))"
| relay_connect: "vo_step r (snd (finishPartyRelayConnect E g c r))"
| relay_read: "vo_step r (snd (partyRelayLoop_read E relay uid relayAnswer stream r))"
| relay_drop: "vo_step r (drop_relay E relay r)"
| relay_written: "partyRelayWriter r = Some (relay, packet # q) \<Longrightarrow> vo_step r (r\<lparr>partyRelayWriter := Some (relay, q)\<rparr>)"
| skill_profile: "vo_step r (loadPartySkillProfile E g cg uid profile r)"
| invite_timer: "vo_step r (snd (flushPartyInviteFallbackUnsafe E epoch r))"
| reselect_timer: "vo_step r (party_reselect_attempt E epoch deadline r)"
| quote_begin: "vo_step r (snd (refreshTradeQuote_begin r))"
| quote_end: "vo_step r (snd (refreshTradeQuote_end E snapshot prices r))"
| quote_panic: "vo_step r (snd (refreshTradeQuote_panic r))"
| quote_retry: "vo_step r (refreshTradeQuote_retry E uid r)"
| set_area: "vo_step r (SetAreaFrom E village area x y fv fa r)"
| set_position: "vo_step r (SetPosition E x y moveType speed r)"
| message: "vo_step r (SendPublicMessage E msgType msg r)"
| return_select: "vo_step r (snd (ReturnToCharacterSelect E r))"
| select_again: "vo_step r (snd (ReselectCharacter E r))"
| store_reset: "vo_step r (ResetPrivateStoreState r)"
| store_prepare: "vo_step r (PreparePrivateStoreState title r)"
| store_create: "vo_step r (snd (CreatePrivateStore E r))"
| store_items: "vo_step r (snd (GetCompleteDisplay E item_flag r))"
| store_begin: "vo_step r (snd (display_begin E r))"
| store_display: "vo_step r (snd (display_end E uid v title storeInfo r))"
| store_failed: "vo_step r (MarkPrivateStoreDisplayFailed r)"
| create_failed: "vo_step r (MarkPrivateStoreCreateFailed r)"
| disjoint: "vo_step r (snd (OpenDisjointStore E cost r))"
| disjoint_later: "vo_step r (QueueDisjointAfterRun cost r)"
| snapshot: "vo_step r (publishSnapshotUnsafe E r)"

inductive robot_step :: "robot \<Rightarrow> robot \<Rightarrow> bool" where
  acts: "vo_step (rv s) r \<Longrightarrow> robot_step s (s\<lparr>rv := r\<rparr>)"
| reads: "onRecvDataFrom (parsePacket E) (Some c) data s = Some s' \<Longrightarrow> robot_step s s'"
| prepares: "robot_step s (snd (prepareConnect E s))"
| dials: "robot_step s (snd (connect_begin cancelled isCurrent s))"
| gives_up: "robot_step s (s\<lparr>rv := (rv s)\<lparr>connectInFlight := False\<rparr>\<rparr>)"
| connects: "robot_step s (snd (connect_established E c s))"
| read_error: "robot_step s (snd (readLoop_error s))"
| read_end: "robot_step s (snd (finishReadLoop E c s))"
| reconnects: "robot_step s (snd (snd (RefishConnect E replaced s)))"
| checked: "robot_step s (snd (CheckUserState E s))"
| closes: "robot_step s (closeOutUnsafe E s)"

definition session_ok :: "robot \<Rightarrow> bool" where
  "session_ok s \<longleftrightarrow>
     robot_ok (rv s) \<and> (rv_State (rv s) = StateStop \<longrightarrow> rv_Conn (rv s) = None) \<and>
     (rv_Conn (rv s) \<noteq> None \<longrightarrow> rx_ok s \<and> cut_packets (pending s) = ([], Some (pending s)) \<and> buf_ok s \<and> minBufferSize s = 4096)"

lemma vo_step_keeps: "vo_step r r' \<Longrightarrow> keeps r r'"
proof (induction rule: vo_step.induct)
  case (relay_written r relay packet q)
  show ?case by (rule keeps_relay [OF keeps_refl]) (auto simp: relay_ok_def sizes_ok_def relay_written)
qed (intro keeps keeps_refl)+

lemma session_ok_keeps:
  assumes "session_ok s" "keeps (rv s) r"
  shows "session_ok (s\<lparr>rv := r\<rparr>)"
  using assms by (auto simp: session_ok_def keeps_def rx_ok_def pending_def buf_ok_def)

text \<open>A session without a connection is in order when its robot is.\<close>

lemma session_ok_closed: "robot_ok (rv s) \<Longrightarrow> rv_Conn (rv s) = None \<Longrightarrow> session_ok s"
  by (simp add: session_ok_def)

lemma read_ok:
  assumes ok: "session_ok s"
  shows "\<exists>s'. onRecvDataFrom (parsePacket E) (Some c) data s = Some s' \<and> session_ok s'"
proof (cases "rv_State (rv s) = StateStop \<or> data = [] \<or> rv_Conn (rv s) \<noteq> Some c")
  case True
  with ok show ?thesis by (auto simp: onRecvDataFrom_def)
next
  case False
  obtain ps e where cut: "cut_packets (pending s @ data) = (ps, e)" by fastforce
  from ok False have rx: "rx_ok s" and min: "minBufferSize s = 4096" by (auto simp: session_ok_def)
  from received.recv_step [OF rx _ _ _ cut, of "Some c" E] False obtain s'
    where s': "onRecvDataFrom (parsePacket E) (Some c) data s = Some s'" "rx_ok s'" "minBufferSize s' = 4096"
      "rv s' = finish e (fold (parsePacket E) ps (rv s))"
      and rest: "\<forall>rest. e = Some rest \<longrightarrow> pending s' = rest \<and> recvMaxSize s' \<le> max 4096 (4 * int (length rest) + 4)"
    using min by auto
  have "connected c (rv s)" using ok False by (simp add: connected_def)
  then have con: "connected c (rv s')" by (simp add: s'(4) connected_finish received.connected_run)
  have rok: "robot_ok (rv s')" using ok by (simp add: s'(4) session_ok_def finish_def run_ok)
  show ?thesis
  proof (cases "rv_State (rv s') = StateStop")
    case True
    with con rok s'(1) show ?thesis by (auto simp: connected_def intro: session_ok_closed)
  next
    case False
    then obtain rest' where e: "e = Some rest'" using s'(4) finish_None_stops by (cases e) auto
    with rest cut_rest [OF cut [unfolded e]] s' False rok show ?thesis by (auto simp: session_ok_def buf_ok_def)
  qed
qed

lemma state_same [simp]:
  "rv_State (publishSnapshotUnsafe E r) = rv_State r" "rv_Conn (publishSnapshotUnsafe E r) = rv_Conn r"
  by (simp_all add: publishSnapshotUnsafe_def partyActiveUnsafe_def clearPartyPendingUnsafe_def clearPartyInviteFallbackUnsafe_def Let_def case_prod_beta)

lemma closed_conn [simp]: "rv_Conn (closeConn r) = None" for r :: RobotVo
  by (simp add: closeConn_def split: option.split)

lemma robot_ok_keeps: "keeps r0 r \<Longrightarrow> robot_ok r0 \<Longrightarrow> robot_ok r"
  by (simp add: keeps_def)

lemma drop_connections_ok:
  assumes "robot_ok r"
  shows "robot_ok (drop_connections r)" "rv_Conn (drop_connections r) = None"
proof -
  let ?r = "closeConn (stopPartySupervisorUnsafe r)"
  have "keeps r (stopPartySupervisorUnsafe r)" by (intro keeps keeps_refl)
  then have ok: "robot_ok ?r" using assms by (simp add: robot_ok_keeps)
  have "keeps ?r (drop_connections r)" unfolding drop_connections_def by (intro keeps keeps_refl)
  then show "robot_ok (drop_connections r)" "rv_Conn (drop_connections r) = None" using ok by (simp_all add: keeps_def)
qed

lemma close_vo_ok:
  assumes "robot_ok r"
  shows "robot_ok (close_vo E r)" "rv_Conn (close_vo E r) = None" "rv_State (close_vo E r) = StateStop"
proof -
  let ?d = "clearTradeUnsafe (invalidateTradeQuoteUnsafe (clearPartyPendingUnsafe (drop_connections r)))"
  have eq: "close_vo E r = publishSnapshotUnsafe E (?d\<lparr>rv_State := StateStop\<rparr>)"
    by (simp add: close_vo_def drop_connections_def Let_def)
  have "keeps (drop_connections r) ?d" by (intro keeps keeps_refl)
  with drop_connections_ok [OF assms] have d: "robot_ok ?d" "rv_Conn ?d = None" by (simp_all add: keeps_def)
  have "keeps (?d\<lparr>rv_State := StateStop\<rparr>) (close_vo E r)" unfolding eq by (intro keeps keeps_refl)
  with d show "robot_ok (close_vo E r)" "rv_Conn (close_vo E r) = None" "rv_State (close_vo E r) = StateStop"
    by (simp_all add: keeps_def eq)
qed

lemma publish_ok: "robot_ok r \<Longrightarrow> robot_ok (publishSnapshotUnsafe E r)"
  by (rule robot_ok_keeps [OF publishSnapshot_keeps [OF keeps_refl]])

lemma closeOut_ok: "session_ok s \<Longrightarrow> session_ok (closeOutUnsafe E s)"
  by (rule session_ok_closed) (simp_all add: closeOutUnsafe_def close_vo_ok session_ok_def)

lemma refused_ok: "session_ok s \<Longrightarrow> session_ok (refused_conn c s)"
  unfolding refused_conn_def by (erule session_ok_keeps) (intro keeps keeps_refl)

lemma checked_ok:
  assumes ok: "session_ok s"
  shows "session_ok (snd (CheckUserState E s))"
proof (cases "rv_State (rv s) = StateStop \<or> DisconReason (rv s) \<noteq> NoDisconnect \<or> rv_State (rv s) \<noteq> StateRun")
  case True
  have "session_ok (s\<lparr>rv := publishSnapshotUnsafe E ((drop_connections (rv s))\<lparr>rv_State := StateStop\<rparr>)\<rparr>)"
    by (rule session_ok_closed) (use ok in \<open>simp_all add: session_ok_def publish_ok drop_connections_ok\<close>)
  with True ok show ?thesis by (auto simp: CheckUserState_def Let_def)
next
  case False
  have "keeps (rv s) (rv (snd (CheckUserState E s)))"
    unfolding CheckUserState_def using False by (auto simp: Let_def case_prod_beta intro!: keeps keeps_refl)
  moreover have "snd (CheckUserState E s) = s\<lparr>rv := rv (snd (CheckUserState E s))\<rparr>"
    by (auto simp: CheckUserState_def Let_def case_prod_beta)
  ultimately show ?thesis using session_ok_keeps [OF ok] by metis
qed

lemma connected_ok:
  assumes ok: "session_ok s"
  shows "session_ok (snd (connect_established E c s))"
proof (cases "rv_State (rv s) = StateInit")
  case True
  with ok show ?thesis
    by (simp add: connect_established_def Let_def session_ok_def publish_ok rx_ok_def pending_def buf_ok_def cut_short)
next
  case False
  have "session_ok (s\<lparr>rv := (rv s)\<lparr>connectInFlight := False\<rparr>\<rparr>)" by (rule session_ok_keeps [OF ok]) (intro keeps keeps_refl)
  with False show ?thesis by (simp add: connect_established_def Let_def refused_ok)
qed

lemma robot_step_ok:
  assumes "robot_step s s'" "session_ok s"
  shows "session_ok s'"
  using assms
proof (induction rule: robot_step.induct)
  case (acts s r)
  then show ?case by (auto intro: session_ok_keeps vo_step_keeps)
next
  case (reads E c data s s')
  with read_ok [of s E c data] show ?case by auto
next
  case (prepares s E)
  show ?case
  proof (cases "rv_State (rv s) = StateStop")
    case True
    with prepares show ?thesis
      by (intro session_ok_closed) (simp_all add: prepareConnect_def session_ok_def publish_ok)
  qed (use prepares in \<open>simp add: prepareConnect_def\<close>)
next
  case (dials s cancelled isCurrent)
  then show ?case by (auto simp: connect_begin_def intro!: session_ok_keeps keeps keeps_refl)
next
  case (gives_up s)
  then show ?case by (auto intro!: session_ok_keeps keeps keeps_refl)
next
  case (connects s E c)
  then show ?case by (rule connected_ok)
next
  case (read_error s)
  then show ?case by (auto simp: readLoop_error_def intro!: session_ok_keeps keeps keeps_refl)
next
  case (read_end s E c)
  then show ?case by (auto simp: finishReadLoop_def refused_ok closeOut_ok)
next
  case (reconnects s E replaced)
  show ?case
    by (rule session_ok_closed) (use reconnects in \<open>auto simp: RefishConnect_def Let_def session_ok_def publish_ok drop_connections_ok\<close>)
next
  case (checked s E)
  then show ?case by (rule checked_ok)
next
  case (closes s E)
  then show ?case by (rule closeOut_ok)
qed

subsection \<open>Reachable states\<close>

lemma new_vo_ok: "robot_ok (new_vo db)" "rv_Conn (new_vo db) = None"
  by (simp_all add: new_vo_def new_party_def new_market_def new_session_def robot_party.extend_def robot_market.extend_def
      robot_session.extend_def robot_ok_def sizes_ok_def relay_ok_def partySelfRefreshMax_def partyRelayBackoffMax_def Second_def Millisecond_def)

lemma keeps_no_conn: "keeps r0 r \<Longrightarrow> rv_Conn r0 = None \<Longrightarrow> keeps r0 (r\<lparr>rv_Conn := None\<rparr>)"
  by (simp add: keeps_def)

lemma load_vo_keeps: "rv_Conn r = None \<Longrightarrow> keeps r (load_vo E info r)"
  unfolding load_vo_def
  by (intro keeps keeps_refl keeps_no_conn keeps_sizes kept.calc)
    (simp_all add: relay_ok_def partySelfRefreshMax_def partyRelayBackoffMax_def Second_def Millisecond_def)

lemma loaded_ok: "session_ok (Load E info (NewRobotVo db))"
proof (rule session_ok_closed)
  have "keeps (new_vo db) (load_vo E info (new_vo db))" by (rule load_vo_keeps) (rule new_vo_ok)
  then show "robot_ok (rv (Load E info (NewRobotVo db)))" "rv_Conn (rv (Load E info (NewRobotVo db))) = None"
    using new_vo_ok by (simp_all add: Load_def NewRobotVo_def keeps_def)
qed

lemma reachable_ok: "robot_step\<^sup>*\<^sup>* (Load E info (NewRobotVo db)) s \<Longrightarrow> session_ok s"
  by (induction rule: rtranclp_induct) (auto intro: loaded_ok robot_step_ok)

definition example_env :: env where
  "example_env =
     \<lparr>aesEnc = (\<lambda>_ block. block), aesDec = (\<lambda>_ block. block), zlibRead = (\<lambda>_ _. None), now = 63000000000 * Second, workerAccepted = True,
      localAddr = (\<lambda>_. None), listenUDP = (\<lambda>_ _. None), udpLocal = (\<lambda>_. ([], 0)), ifaceMTU = (\<lambda>_. None), ifaceNetwork = (\<lambda>_. None),
      accountStart = 1, accountEnd = 99, skillCatalogGeneration = 0, dbReady = True, townOrder = (\<lambda>_. [])\<rparr>"

definition example_login :: UserLoginInfo where
  "example_login =
     \<lparr>li_IP = ''10.0.0.1'', li_Port = 10011, li_Token = replicate 512 0, li_TokenSize = 344, li_UID = 17, li_CID = 5, li_CharacterSlot = 0,
      li_MaxReConn = 3, li_ReDelay = 1000, li_BirthPos = (1, 0, 300, 200), li_GateArea = 1\<rparr>"

definition example_loaded :: robot where
  "example_loaded = Load example_env example_login (NewRobotVo True)"

definition example_connected :: robot where
  "example_connected = snd (connect_established example_env 7 (snd (prepareConnect example_env example_loaded)))"

lemma same_state:
  "rv_State (clearTradeUnsafe r) = rv_State r" "rv_State (invalidateTradeQuoteUnsafe r) = rv_State r"
  "rv_State (stopPartySupervisorUnsafe r) = rv_State r" "rv_State (clearPartyPendingUnsafe r) = rv_State r"
  "rv_State (resetPartySkillProfileUnsafe r) = rv_State r" "rv_State (resetPartyTQOSTransportUnsafe r) = rv_State r"
  "rv_State (closePartyRelayUnsafe r) = rv_State r" "rv_State (closePartyUDPUnsafe r) = rv_State r"
  by (simp_all add: clearTradeUnsafe_def invalidateTradeQuoteUnsafe_def stopPartySupervisorUnsafe_def clearPartyPendingUnsafe_def
      clearPartyInviteFallbackUnsafe_def resetPartySkillProfileUnsafe_def resetPartyTQOSTransportUnsafe_def closePartyRelayUnsafe_def
      closePartyUDPUnsafe_def stopPartyRelayWriterUnsafe_def Let_def split: option.split)

lemma load_vo_state: "rv_State (load_vo E info r) = rv_State r"
  by (simp add: load_vo_def Let_def case_prod_beta same_state)

lemma example_loaded_state [simp]: "rv_State (rv example_loaded) = StateStop"
  unfolding example_loaded_def Load_def NewRobotVo_def session.simps
  by (simp add: load_vo_state new_vo_def new_party_def new_market_def new_session_def robot_party.extend_def
      robot_market.extend_def robot_session.extend_def)

lemma example_connected_state:
  "rv_State (rv example_connected) = StateLogin" "rv_Conn (rv example_connected) = Some 7" "recvSize example_connected = 0"
  "fst (connect_established example_env 7 (snd (prepareConnect example_env example_loaded)))"
  by (simp_all add: example_connected_def connect_established_def prepareConnect_def Let_def)

lemma example_reachable: "robot_step\<^sup>*\<^sup>* example_loaded example_connected"
  unfolding example_connected_def by (rule rtranclp.rtrancl_into_rtrancl [OF r_into_rtranclp]) (rule prepares, rule connects)


subsection \<open>Properties\<close>

lemma buffer_bound: "session_ok s \<Longrightarrow> rv_Conn (rv s) \<noteq> None \<Longrightarrow> recvMaxSize s \<le> 4 * 1048576"
  using incomplete_bound [of "pending s"] by (auto simp: session_ok_def buf_ok_def)

lemma established_ok:
  assumes "connect_established E0 c s0 = (True, s)"
  shows "rx_ok s" "connected c (rv s)" "rv_State (rv s) = StateLogin" "pending s = []" "buf_ok s"
  using assms by (auto simp: connect_established_def Let_def rx_ok_def connected_def pending_def buf_ok_def split: if_splits)

text \<open>
  Property C5. The invariant of a robot. From the moment \<open>Load\<close> has filled in a new robot, whatever its goroutines, timers, users
  and peers do in whatever order, and whatever bytes arrive on the game connection, the party socket and the relay: on every route to
  every party slot at most \<open>partyReliableWindow\<close> packets wait for an acknowledgement, each with a retry delay between the
  initial and the maximal one; route failures, reply retries and probe counters stay at their limits; the relay writer belongs to the
  relay connection in use and its queue is bounded; the fixed-size arrays keep their sizes; a stopped robot holds no game
  connection; and while there is one, the receive buffer is consistent and holds less than one packet.\<close>

theorem robot_reachable_invariant:
  assumes "robot_step\<^sup>*\<^sup>* (Load E info (NewRobotVo db)) s"
  shows "robot_ok (rv s) \<and> (rv_State (rv s) = StateStop \<longrightarrow> rv_Conn (rv s) = None) \<and>
    (rv_Conn (rv s) \<noteq> None \<longrightarrow> rx_ok s \<and> cut_packets (pending s) = ([], Some (pending s)))"
  using reachable_ok [OF assms] by (simp add: session_ok_def)

theorem robot_reachable_invariant_witness:
  "robot_ok (rv example_connected) \<and> rv_Conn (rv example_connected) = Some 7 \<and> rx_ok example_connected"
  using robot_reachable_invariant [of example_env example_login True example_connected, folded example_loaded_def] example_reachable
    example_connected_state(2)
  by simp



text \<open>
  Property C6. How TCP cuts the stream of a connection into reads does not matter. After a connection is established, feeding the reads
  one after another returns, and the robot is the one that handles the packets of the whole stream in order, each once, and
  that is stopped with its connection closed when an invalid header follows them. While the robot is not stopped, the bytes that wait
  in the buffer are the ones after the last complete packet.\<close>

theorem stream_independent_of_reads:
  assumes "connect_established E0 c s0 = (True, s)"
    and "cut_packets (concat reads) = (packets, rest)"
  shows "\<exists>s'. feed (parsePacket E) c reads s = Some s' \<and> rv s' = finish rest (fold (parsePacket E) packets (rv s)) \<and>
    (rv_State (rv s') \<noteq> StateStop \<longrightarrow> rest = Some (pending s'))"
proof -
  note s = established_ok [OF assms(1)]
  from received.feed_any_pieces [OF s(1,2), of reads packets rest E] s(3-5) assms(2) show ?thesis by (auto simp: cut_short)
qed

text \<open>A heartbeat in two reads, with the first bytes of a header after it.\<close>

lemma example_cut: "cut_packets (concat [[1, 0, 0, 8], [0, 0, 0, 9, 1, 2]]) = ([[1, 0, 0, 8, 0, 0, 0, 9]], Some [1, 2])"
proof -
  have "loadU32LE [8, 0, 0, 0] = 8" by code_simp
  then show ?thesis
    by (simp add: cut_packets.simps [of "[1, 0, 0, 8, 0, 0, 0, 9, 1, 2]"] cut_packets.simps [of "[1, 2]"] maxPacketSize_def slice_def)
qed

theorem stream_independent_of_reads_witness:
  "\<exists>s'. feed (parsePacket example_env) 7 [[1, 0, 0, 8], [0, 0, 0, 9, 1, 2]] example_connected = Some s' \<and>
     rv s' = parsePacket example_env [1, 0, 0, 8, 0, 0, 0, 9] (rv example_connected)"
proof -
  have "connect_established example_env 7 (snd (prepareConnect example_env example_loaded)) = (True, example_connected)"
    using example_connected_state(4) by (simp add: prod_eq_iff example_connected_def)
  from stream_independent_of_reads [OF this example_cut, of example_env] show ?thesis by (auto simp: finish_def)
qed

end
