(* ===== verification/Store_Proofs.thy ===== *)
theory Store_Proofs
  imports Robot_Lifecycle "HOL-Library.Multiset" "HOL-Library.Sublist"
begin

section \<open>Packets, quotes and store displays\<close>

text \<open>
  The properties of theory \<open>Robot_Actions\<close>: a packet is written whole or the connection is closed, a trade quote is
  the sum of the prices clipped to 32 bits, and a store display is well formed and offers the same items,
  prices and counts for every order in which Go visits the inventory. The last one is a refinement of a greedy choice
  on the multiset of stacks.
\<close>

subsection \<open>Writing a packet\<close>

lemma send_loop_pieces:
  "send_loop pkt answers = (ok, pieces, rest) \<Longrightarrow> prefix (concat pieces) pkt \<and> (ok \<longleftrightarrow> concat pieces = pkt)"
proof (induction pkt answers arbitrary: ok pieces rest rule: send_loop.induct)
  case (2 pkt answer answers)
  show ?case
  proof (cases "pkt \<noteq> [] \<and> (\<exists>n. answer = Wrote n \<and> n \<noteq> 0)")
    case True
    then obtain n where n: "answer = Wrote n" "n \<noteq> 0" "pkt \<noteq> []" by auto
    obtain ok' ps' rest' where rec: "send_loop (drop n pkt) answers = (ok', ps', rest')" by (metis prod_cases3)
    from 2(1) [OF _ n(1) _ rec] n(2,3) have IH: "prefix (concat ps') (drop n pkt)" "ok' = (concat ps' = drop n pkt)" by auto
    from 2(2) n rec have eq: "pieces = take n pkt # ps'" "ok = ok'" by auto
    have "prefix (take n pkt @ concat ps') (take n pkt @ drop n pkt)" using IH(1) by (simp only: same_prefix_prefix)
    moreover have "take n pkt @ concat ps' = pkt \<longleftrightarrow> concat ps' = drop n pkt" by (metis append_take_drop_id same_append_eq)
    ultimately show ?thesis using IH(2) by (simp add: eq)
  qed (use 2(2) in \<open>auto split: write_result.splits if_splits\<close>)
qed auto

text \<open>
  \<open>sendRaw\<close> with a connection and a packet writes to that connection only, in pieces whose concatenation is a
  prefix of the packet; it reports success exactly when that is the whole packet, and otherwise it calls \<open>Close\<close> on the
  connection.\<close>

theorem send_whole_or_closed:
  assumes "rv_Conn r = Some conn" "pkt \<noteq> []" "sendRaw pkt r = (ok, r')"
  shows "\<exists>pieces. wrote r' = wrote r @ map (Pair conn) pieces \<and> prefix (concat pieces) pkt \<and> (ok \<longleftrightarrow> concat pieces = pkt) \<and>
    closedConns r' = closedConns r @ (if ok then [] else [conn])"
proof -
  obtain ok' pieces rest where l: "send_loop pkt (writeScript r) = (ok', pieces, rest)" by (metis prod_cases3)
  from assms l have "ok = ok'" "wrote r' = wrote r @ map (Pair conn) pieces" "closedConns r' = closedConns r @ (if ok then [] else [conn])"
    by (auto simp: sendRaw_def Let_def split: if_splits)
  with send_loop_pieces [OF l] show ?thesis by blast
qed

theorem send_whole_or_closed_witness:
  "fst (sendRaw [1, 2, 3] (new_vo True\<lparr>rv_Conn := Some 7, writeScript := [Wrote 2, Wrote 1]\<rparr>)) \<and>
   closedConns (snd (sendRaw [1, 2, 3] (new_vo True\<lparr>rv_Conn := Some 7, writeScript := [Wrote 2, WriteError]\<rparr>))) =
     closedConns (new_vo True) @ [7]"
proof -
  let ?r = "\<lambda>answers. new_vo True\<lparr>rv_Conn := Some 7, writeScript := answers\<rparr>"
  have f: "fst (sendRaw [1, 2, 3] (?r [Wrote 2, Wrote 1]))" "\<not> fst (sendRaw [1, 2, 3] (?r [Wrote 2, WriteError]))"
    by (simp_all add: sendRaw_def Let_def)
  from send_whole_or_closed [of "?r [Wrote 2, WriteError]" 7 "[1, 2, 3]" False "snd (sendRaw [1, 2, 3] (?r [Wrote 2, WriteError]))"] f
  show ?thesis by (auto simp: prod_eq_iff)
qed

subsection \<open>Trade quotes\<close>

text \<open>The price of one slot of the trade as a natural number.\<close>

definition slot_price :: "(int \<rightharpoonup> ShopVo) \<Rightarrow> Transaction option \<Rightarrow> int" where
  "slot_price prices slot =
     (case slot of
        None \<Rightarrow> 0
      | Some tx \<Rightarrow>
          (case prices (sint (ItemId tx)) of
             None \<Rightarrow> 0
           | Some price \<Rightarrow> max 0 (sint (ItemNum tx)) * max 0 (shop_Price price)))"

lemma priced_value:
  assumes "\<forall>p \<in> ran prices. shop_Price p < 2 ^ 32"
  shows "case priced prices slot of None \<Rightarrow> slot_price prices slot = 0 | Some amount \<Rightarrow> uint amount = slot_price prices slot"
    and "0 \<le> slot_price prices slot" "slot_price prices slot < 2 ^ 63"
proof -
  have bound: "0 < n \<Longrightarrow> n < 2 ^ 31 \<Longrightarrow> 0 < p \<Longrightarrow> p < 2 ^ 32 \<Longrightarrow> 0 < n * p \<and> n * p < 2 ^ 63" for n p :: int
    using mult_strict_mono [of n "2 ^ 31" p "2 ^ 32"] by simp
  have product: "0 < n * p \<Longrightarrow> n * p < 2 ^ 63 \<Longrightarrow> uint (word_of_int n * word_of_int p :: u64) = n * p" for n p :: int
    unfolding of_int_mult [symmetric] by (simp add: uint_word_of_int del: of_int_mult)
  have num: "sint (w :: 32 word) < 2 ^ 31" for w using sint_lt [of w] by simp
  have "(case priced prices slot of None \<Rightarrow> slot_price prices slot = 0 | Some amount \<Rightarrow> uint amount = slot_price prices slot) \<and>
      0 \<le> slot_price prices slot \<and> slot_price prices slot < 2 ^ 63"
  proof (cases "\<exists>tx p. slot = Some tx \<and> prices (sint (ItemId tx)) = Some p \<and> 0 < sint (ItemNum tx) \<and> 0 < shop_Price p")
    case True
    then obtain tx p where s: "slot = Some tx" "prices (sint (ItemId tx)) = Some p" "0 < sint (ItemNum tx)" "0 < shop_Price p" by auto
    then have "shop_Price p < 2 ^ 32" using assms by (auto simp: ran_def)
    from bound [OF s(3) num s(4) this] product [of "sint (ItemNum tx)" "shop_Price p"] s show ?thesis
      by (simp add: priced_def slot_price_def)
  qed (auto simp: priced_def slot_price_def max_def split: option.split)
  then show "case priced prices slot of None \<Rightarrow> slot_price prices slot = 0 | Some amount \<Rightarrow> uint amount = slot_price prices slot"
    "0 \<le> slot_price prices slot" "slot_price prices slot < 2 ^ 63" by auto
qed

lemma quote_loop_value:
  assumes prices: "\<forall>p \<in> ran prices. shop_Price p < 2 ^ 32" and "uint money < 2 ^ 32 - 1"
  shows "uint (quote_loop prices money transactions) = min (2 ^ 32 - 1) (uint money + sum_list (map (slot_price prices) transactions))"
  using assms(2)
proof (induction transactions arbitrary: money)
  case Nil
  then show ?case by (simp add: unsigned_ucast_eq take_bit_int_eq_self)
next
  case (Cons slot transactions)
  note v = priced_value [OF prices, of slot]
  have rest: "0 \<le> sum_list (map (slot_price prices) transactions)" using priced_value(2) [OF prices] by (intro sum_list_nonneg) auto
  show ?case
  proof (cases "priced prices slot")
    case None
    with v(1) Cons show ?thesis by simp
  next
    case (Some amount)
    with v have a: "uint amount = slot_price prices slot" "uint amount < 2 ^ 63" by auto
    have sum: "uint (money + amount) = uint money + uint amount"
      using Cons.prems a(2) by (simp add: uint_plus_if' )
    have big: "money + amount \<ge> MaxUint32 \<longleftrightarrow> uint money + uint amount \<ge> 2 ^ 32 - 1"
      by (simp add: MaxUint32_def word_le_def sum)
    show ?thesis
    proof (cases "money + amount \<ge> MaxUint32")
      case True
      then show ?thesis using Some big rest a(1) by (simp add: MaxUint32_def min_def)
    next
      case False
      then have "uint (money + amount) < 2 ^ 32 - 1" using big sum by simp
      from Cons.IH [OF this] False Some sum a(1) show ?thesis by (simp add: add.assoc)
    qed
  qed
qed

text \<open>
  Property C18. The quote of a trade is the sum, over its 24 slots, of the number of items times their price, clipped to the largest
  32-bit number: neither the 64-bit sum nor the conversion to 32 bits wraps around, provided that no price of the shop table
  exceeds 32 bits.\<close>

theorem trade_quote_saturates:
  assumes "\<forall>p \<in> ran prices. shop_Price p < 2 ^ 32"
  shows "uint (calculateTradeQuote snapshot prices) = min (2 ^ 32 - 1) (sum_list (map (slot_price prices) (qs_transactions snapshot)))"
  using quote_loop_value [OF assms, of 0 "qs_transactions snapshot"] by (simp add: calculateTradeQuote_def)

theorem trade_quote_saturates_witness:
  "uint (calculateTradeQuote
     \<lparr>qs_version = 1, qs_uid = 17,
      qs_transactions = [None, Some \<lparr>ItemPos = 3, ItemId = 100, ItemNum = 3, ItemType = 1\<rparr>, Some \<lparr>ItemPos = 4, ItemId = 100, ItemNum = 7, ItemType = 1\<rparr>]\<rparr>
     [100 \<mapsto> \<lparr>TradeItem = 100, shop_Price = 0x7fffffff, ItemNumber = 1\<rparr>]) = 2 ^ 32 - 1"
proof -
  have "\<forall>p \<in> ran [100 \<mapsto> \<lparr>TradeItem = 100, shop_Price = 0x7fffffff, ItemNumber = 1\<rparr>]. shop_Price p < 2 ^ 32" by simp
  from trade_quote_saturates [OF this] show ?thesis by (simp add: slot_price_def)
qed


subsection \<open>Store displays\<close>

text \<open>The slots a row may be sold from.\<close>

definition sells :: "int \<Rightarrow> int \<Rightarrow> 16 word set \<Rightarrow> Transaction \<Rightarrow> bool" where
  "sells tradeItem wantedCount used tx \<longleftrightarrow>
     sint (ItemId tx) = tradeItem \<and> (sint (ItemNum tx) > 0 \<or> wantedCount \<le> 1) \<and> ItemPos tx \<notin> used"

lemma better_slot_alt:
  "better_slot tradeItem wantedCount used tx selected =
     (if sells tradeItem wantedCount used tx \<and> (\<forall>best. selected = Some best \<longrightarrow> sint (ItemNum tx) > sint (ItemNum best)) then Some tx
      else selected)"
  by (auto simp: better_slot_def sells_def split: option.split)

lemma select_slot_fold:
  "case fold (better_slot tradeItem wantedCount used) visited selected of
     None \<Rightarrow> selected = None \<and> (\<forall>tx \<in> set visited. \<not> sells tradeItem wantedCount used tx)
   | Some best \<Rightarrow>
       (best \<in> set visited \<and> sells tradeItem wantedCount used best \<or> selected = Some best) \<and>
       (\<forall>tx \<in> set visited. sells tradeItem wantedCount used tx \<longrightarrow> sint (ItemNum tx) \<le> sint (ItemNum best)) \<and>
       (\<forall>tx. selected = Some tx \<longrightarrow> sint (ItemNum tx) \<le> sint (ItemNum best))"
proof (induction visited arbitrary: selected)
  case (Cons tx visited)
  show ?case using Cons [of "better_slot tradeItem wantedCount used tx selected"]
    by (fastforce simp: better_slot_alt split: option.splits if_splits)
qed (simp split: option.split)

text \<open>The row takes a largest stack that fits, whatever the order.\<close>

lemma select_slot_cases:
  assumes "iteration_order ord inventory"
  shows "case select_slot tradeItem wantedCount used (map snd (range_over ord inventory)) of
     None \<Rightarrow> \<forall>tx \<in> ran inventory. \<not> sells tradeItem wantedCount used tx
   | Some best \<Rightarrow> best \<in> ran inventory \<and> sells tradeItem wantedCount used best \<and>
       (\<forall>tx \<in> ran inventory. sells tradeItem wantedCount used tx \<longrightarrow> sint (ItemNum tx) \<le> sint (ItemNum best))"
proof -
  have "set (map snd (range_over ord inventory)) = ran inventory"
    using in_range_over [OF assms] by (force simp: ran_def)
  then show ?thesis using select_slot_fold [where tradeItem = tradeItem and wantedCount = wantedCount and used = used and
        visited = "map snd (range_over ord inventory)" and selected = None]
    by (simp add: select_slot_def split: option.splits)
qed

text \<open>The stacks that are left, as pairs of item and number.\<close>

definition stacks :: "(int \<rightharpoonup> Transaction) \<Rightarrow> 16 word set \<Rightarrow> (int \<times> int) multiset" where
  "stacks inventory used =
     image_mset (\<lambda>k. (sint (ItemId (the (inventory k))), sint (ItemNum (the (inventory k)))))
       (mset_set {k \<in> dom inventory. ItemPos (the (inventory k)) \<notin> used})"

text \<open>Go's map is finite and holds every position once.\<close>

definition positions_ok :: "(int \<rightharpoonup> Transaction) \<Rightarrow> bool" where
  "positions_ok inventory \<longleftrightarrow> finite (dom inventory) \<and> inj_on (\<lambda>k. ItemPos (the (inventory k))) (dom inventory)"

lemma stacks_member:
  assumes "positions_ok inventory"
  shows "(item, n) \<in># stacks inventory used \<longleftrightarrow>
    (\<exists>tx \<in> ran inventory. sint (ItemId tx) = item \<and> sint (ItemNum tx) = n \<and> ItemPos tx \<notin> used)"
proof -
  let ?K = "{k \<in> dom inventory. ItemPos (the (inventory k)) \<notin> used}"
  have "finite ?K" using assms by (simp add: positions_ok_def)
  then have "(item, n) \<in># stacks inventory used \<longleftrightarrow>
      (\<exists>k \<in> ?K. sint (ItemId (the (inventory k))) = item \<and> sint (ItemNum (the (inventory k))) = n)"
    by (auto simp: stacks_def)
  then show ?thesis by (auto simp: ran_def)
qed

lemma stacks_take:
  assumes "positions_ok inventory" "tx \<in> ran inventory" "ItemPos tx \<notin> used"
  shows "stacks inventory (insert (ItemPos tx) used) = stacks inventory used - {#(sint (ItemId tx), sint (ItemNum tx))#}"
proof -
  from assms(2) obtain k where k: "inventory k = Some tx" by (auto simp: ran_def)
  let ?K = "{k \<in> dom inventory. ItemPos (the (inventory k)) \<notin> used}"
  have "{k \<in> dom inventory. ItemPos (the (inventory k)) \<notin> insert (ItemPos tx) used} = ?K - {k}"
    using inj_onD [OF conjunct2 [OF assms(1) [unfolded positions_ok_def]], of _ k] k by (auto simp: dom_def)
  moreover have "mset_set ?K = add_mset k (mset_set (?K - {k}))"
    using assms k by (intro mset_set.remove) (auto simp: positions_ok_def)
  ultimately show ?thesis using k by (simp add: stacks_def)
qed

text \<open>
  What a display offers, computed without looking at slots: every row takes the largest stack of its item that fits, and offers
  as much of it as was asked for.
\<close>

definition fitting :: "int \<Rightarrow> int \<Rightarrow> (int \<times> int) multiset \<Rightarrow> int set" where
  "fitting tradeItem wantedCount left = {n. (tradeItem, n) \<in># left \<and> (n > 0 \<or> wantedCount \<le> 1)}"

definition greedy_row :: "row \<Rightarrow> (int \<times> int \<times> int) list \<times> (int \<times> int) multiset \<Rightarrow> (int \<times> int \<times> int) list \<times> (int \<times> int) multiset" where
  "greedy_row row = (\<lambda>(offers, left).
     if length offers \<ge> privateStoreDisplayLimit then (offers, left)
     else case row_offer row of
       None \<Rightarrow> (offers, left)
     | Some (tradeItem, price, wantedCount) \<Rightarrow>
         if fitting tradeItem wantedCount left = {} then (offers, left)
         else let n = Max (fitting tradeItem wantedCount left) in
           (offers @ [(tradeItem, price, if n \<le> 0 then 1 else min wantedCount n)], left - {#(tradeItem, n)#}))"

definition offer_of :: "StoreInfo \<Rightarrow> int \<times> int \<times> int" where
  "offer_of s = (si_ItemID s, si_Price s, si_Count s)"

text \<open>One entry of a display is backed by a slot of the inventory.\<close>

definition backed :: "(int \<rightharpoonup> Transaction) \<Rightarrow> StoreInfo \<Rightarrow> bool" where
  "backed inventory s \<longleftrightarrow>
     0 < si_Price s \<and> 0 < si_Count s \<and>
     (\<exists>tx \<in> ran inventory. sint (ItemPos tx) = si_BoxIndex s \<and> sint (ItemId tx) = si_ItemID s \<and>
        (si_Count s \<le> sint (ItemNum tx) \<or> sint (ItemNum tx) \<le> 0 \<and> si_Count s = 1))"

definition display_ok :: "(int \<rightharpoonup> Transaction) \<Rightarrow> StoreInfo list \<Rightarrow> 16 word set \<Rightarrow> bool" where
  "display_ok inventory storeInfo used \<longleftrightarrow>
     length storeInfo \<le> privateStoreDisplayLimit \<and> map si_Index storeInfo = map int [0..<length storeInfo] \<and>
     distinct (map si_BoxIndex storeInfo) \<and> set (map si_BoxIndex storeInfo) = sint ` used \<and> (\<forall>s \<in> set storeInfo. backed inventory s)"

lemma reconcile_row_cases:
  assumes "iteration_order ord inventory" "display_ok inventory storeInfo used"
  shows "reconcile_row inventory (row, ord) (storeInfo, used) = (storeInfo, used) \<and>
      (length storeInfo \<ge> privateStoreDisplayLimit \<or> row_offer row = None \<or>
       (\<exists>item price wanted. row_offer row = Some (item, price, wanted) \<and> (\<forall>tx \<in> ran inventory. \<not> sells item wanted used tx))) \<or>
    (\<exists>item price wanted tx. row_offer row = Some (item, price, wanted) \<and> length storeInfo < privateStoreDisplayLimit \<and>
       tx \<in> ran inventory \<and> sells item wanted used tx \<and>
       (\<forall>tx' \<in> ran inventory. sells item wanted used tx' \<longrightarrow> sint (ItemNum tx') \<le> sint (ItemNum tx)) \<and>
       reconcile_row inventory (row, ord) (storeInfo, used) =
         (storeInfo @ [\<lparr>si_Index = int (length storeInfo), si_ItemID = item, si_BoxType = 0, si_BoxIndex = sint (ItemPos tx), si_Price = price,
            si_Count = (if sint (ItemNum tx) \<le> 0 then 1 else min wanted (sint (ItemNum tx)))\<rparr>], insert (ItemPos tx) used))"
proof (cases "length storeInfo \<ge> privateStoreDisplayLimit \<or> row_offer row = None")
  case True
  then show ?thesis by (auto simp: reconcile_row_def)
next
  case False
  then obtain item price wanted where o: "row_offer row = Some (item, price, wanted)" by auto
  from o have "0 < wanted" by (auto simp: row_offer_def split: if_splits option.splits)
  then have count: "sale_count wanted tx = (if sint (ItemNum tx) \<le> 0 then 1 else min wanted (sint (ItemNum tx)))" "\<not> sale_count wanted tx < 0" for tx
    by (auto simp: sale_count_def)
  from select_slot_cases [OF assms(1), of item wanted used] False o count show ?thesis
    by (auto simp: reconcile_row_def Let_def split: option.splits)
qed


lemma reconcile_row_ok:
  assumes ord: "iteration_order ord inventory" and ok: "display_ok inventory storeInfo used" and pos: "positions_ok inventory"
    and "reconcile_row inventory (row, ord) (storeInfo, used) = (storeInfo', used')"
  shows "display_ok inventory storeInfo' used' \<and>
    greedy_row row (map offer_of storeInfo, stacks inventory used) = (map offer_of storeInfo', stacks inventory used')"
  using reconcile_row_cases [OF ord ok, of row]
proof (elim disjE conjE exE)
  fix item price wanted assume same: "reconcile_row inventory (row, ord) (storeInfo, used) = (storeInfo, used)"
    and row: "row_offer row = Some (item, price, wanted)" and none: "\<forall>tx \<in> ran inventory. \<not> sells item wanted used tx"
  have "fitting item wanted (stacks inventory used) = {}" using none by (auto simp: fitting_def stacks_member [OF pos] sells_def)
  with same row ok assms(4) show ?thesis by (simp add: greedy_row_def)
next
  fix item price wanted tx
  assume row: "row_offer row = Some (item, price, wanted)" and short: "length storeInfo < privateStoreDisplayLimit"
    and tx: "tx \<in> ran inventory" "sells item wanted used tx"
    and best: "\<forall>tx' \<in> ran inventory. sells item wanted used tx' \<longrightarrow> sint (ItemNum tx') \<le> sint (ItemNum tx)"
    and step: "reconcile_row inventory (row, ord) (storeInfo, used) =
         (storeInfo @ [\<lparr>si_Index = int (length storeInfo), si_ItemID = item, si_BoxType = 0, si_BoxIndex = sint (ItemPos tx), si_Price = price,
            si_Count = (if sint (ItemNum tx) \<le> 0 then 1 else min wanted (sint (ItemNum tx)))\<rparr>], insert (ItemPos tx) used)"
  have pw: "0 < price" "0 < wanted" using row by (auto simp: row_offer_def split: if_splits option.splits)
  let ?F = "fitting item wanted (stacks inventory used)"
  have fit: "n \<in> ?F \<longleftrightarrow> (\<exists>tx \<in> ran inventory. sells item wanted used tx \<and> sint (ItemNum tx) = n)" for n
    by (auto simp: fitting_def stacks_member [OF pos] sells_def)
  have "?F \<subseteq> snd ` set_mset (stacks inventory used)" by (force simp: fitting_def)
  then have fin: "finite ?F" by (rule finite_subset) simp
  have max: "Max ?F = sint (ItemNum tx)" using fit tx best by (intro Max_eqI fin) auto
  have ne: "?F \<noteq> {}" using fit tx by blast
  have "stacks inventory (insert (ItemPos tx) used) = stacks inventory used - {#(item, sint (ItemNum tx))#}"
    using stacks_take [OF pos tx(1)] tx(2) by (simp add: sells_def)
  then have g: "greedy_row row (map offer_of storeInfo, stacks inventory used) = (map offer_of storeInfo', stacks inventory used')"
    using step assms(4) short ne max row by (auto simp: greedy_row_def offer_of_def Let_def)
  have "sint (ItemPos tx) \<notin> sint ` used" using tx(2) by (auto simp: sells_def dest: signed_word_eqI)
  then have "display_ok inventory storeInfo' used'"
    using step assms(4) ok short tx pw by (auto simp: display_ok_def backed_def sells_def min_def)
  with g show ?thesis by blast
qed (use ok assms(4) in \<open>auto simp: greedy_row_def\<close>)

lemma reconcile_fold:
  assumes "list_all (\<lambda>ord. iteration_order ord inventory) ords" "length ords = length rows" "positions_ok inventory" "display_ok inventory storeInfo used"
    and "fold (reconcile_row inventory) (zip rows ords) (storeInfo, used) = (storeInfo', used')"
  shows "display_ok inventory storeInfo' used' \<and>
    fold greedy_row rows (map offer_of storeInfo, stacks inventory used) = (map offer_of storeInfo', stacks inventory used')"
  using assms
proof (induction rows arbitrary: ords storeInfo used)
  case (Cons row rows)
  from Cons.prems(2) obtain ord ords' where ords: "ords = ord # ords'" by (cases ords) auto
  obtain s1 u1 where step: "reconcile_row inventory (row, ord) (storeInfo, used) = (s1, u1)" by fastforce
  from reconcile_row_ok [OF _ Cons.prems(4,3) step] Cons.prems(1) ords
  have "display_ok inventory s1 u1" "greedy_row row (map offer_of storeInfo, stacks inventory used) = (map offer_of s1, stacks inventory u1)" by auto
  with Cons.IH [of ords' s1 u1] Cons.prems step ords show ?case by simp
qed simp

lemma reconcile_result:
  assumes "list_all (\<lambda>ord. iteration_order ord inventory) ords" "length ords = length rows" "positions_ok inventory"
  shows "\<exists>used. display_ok inventory (reconcileStoreDisplay rows ords inventory) used"
    and "map offer_of (reconcileStoreDisplay rows ords inventory) = fst (fold greedy_row rows ([], stacks inventory {}))"
proof -
  have "display_ok inventory [] {}" by (simp add: display_ok_def)
  from reconcile_fold [OF assms this] show "\<exists>used. display_ok inventory (reconcileStoreDisplay rows ords inventory) used"
    and "map offer_of (reconcileStoreDisplay rows ords inventory) = fst (fold greedy_row rows ([], stacks inventory {}))"
    by (cases "fold (reconcile_row inventory) (zip rows ords) ([], {})"; force simp: reconcileStoreDisplay_def)+
qed

text \<open>
  Property C16. The entries of a private store display are well formed for every order in which Go visits the inventory map, chosen anew for
  every row: at most seven entries, numbered from zero without gaps, no inventory position sold twice, prices and counts
  positive, and every entry backed by a stack of that item at that position which holds the count offered (one for equipment, whose stack is
  counted as zero).\<close>

theorem store_display_well_formed:
  assumes "list_all (\<lambda>ord. iteration_order ord inventory) ords" "length ords = length rows" "positions_ok inventory"
    and "storeInfo = reconcileStoreDisplay rows ords inventory"
  shows "length storeInfo \<le> 7 \<and> map si_Index storeInfo = map int [0..<length storeInfo] \<and> distinct (map si_BoxIndex storeInfo) \<and>
    (\<forall>s \<in> set storeInfo. backed inventory s)"
  using reconcile_result(1) [OF assms(1-3)] assms(4) by (auto simp: display_ok_def privateStoreDisplayLimit_def)

text \<open>
  Property C15. The display refines a greedy choice on the multiset of stacks: which items, prices and counts it offers does not depend on
  the iteration order of the map, although the positions it sells them from may (stacks of equal size).\<close>

theorem store_display_refines_greedy:
  assumes "list_all (\<lambda>ord. iteration_order ord inventory) ords" "length ords = length rows" "positions_ok inventory"
  shows "map offer_of (reconcileStoreDisplay rows ords inventory) = fst (fold greedy_row rows ([], stacks inventory {}))"
  by (rule reconcile_result(2) [OF assms])

text \<open>Two equal stacks of one item, visited in both orders.\<close>

definition example_inventory :: "int \<rightharpoonup> Transaction" where
  "example_inventory = [3 \<mapsto> \<lparr>ItemPos = 3, ItemId = 100, ItemNum = 5, ItemType = 1\<rparr>, 4 \<mapsto> \<lparr>ItemPos = 4, ItemId = 100, ItemNum = 5, ItemType = 1\<rparr>]"

definition example_rows :: "row list" where
  "example_rows = [[[0x31, 0x30, 0x30], [0x37], [0x39]]]"

lemma example_inventory_ok:
  "iteration_order [3, 4] example_inventory" "iteration_order [4, 3] example_inventory" "positions_ok example_inventory"
  by (auto simp: iteration_order_def positions_ok_def example_inventory_def inj_on_def split: if_splits)

lemma example_display:
  "reconcileStoreDisplay example_rows [[3, 4]] example_inventory =
     [\<lparr>si_Index = 0, si_ItemID = 100, si_BoxType = 0, si_BoxIndex = 3, si_Price = 7, si_Count = 5\<rparr>]"
  "reconcileStoreDisplay example_rows [[4, 3]] example_inventory =
     [\<lparr>si_Index = 0, si_ItemID = 100, si_BoxType = 0, si_BoxIndex = 4, si_Price = 7, si_Count = 5\<rparr>]"
  by (simp_all add: reconcileStoreDisplay_def reconcile_row_def example_rows_def example_inventory_def row_offer_def Atoi_def select_slot_def
      better_slot_def sale_count_def range_over_Cons privateStoreDisplayLimit_def Let_def)

theorem store_display_well_formed_witness:
  "backed example_inventory \<lparr>si_Index = 0, si_ItemID = 100, si_BoxType = 0, si_BoxIndex = 3, si_Price = 7, si_Count = 5\<rparr>"
  using store_display_well_formed [of example_inventory "[[3, 4]]" example_rows "reconcileStoreDisplay example_rows [[3, 4]] example_inventory"]
    example_inventory_ok
  by (simp add: example_display) (simp add: example_rows_def)

theorem store_display_refines_greedy_witness:
  "map offer_of (reconcileStoreDisplay example_rows [[3, 4]] example_inventory) = map offer_of (reconcileStoreDisplay example_rows [[4, 3]] example_inventory)"
  using store_display_refines_greedy [of example_inventory "[[3, 4]]" example_rows]
    store_display_refines_greedy [of example_inventory "[[4, 3]]" example_rows] example_inventory_ok
  by (simp add: example_rows_def)

text \<open>The position does depend on the order: the first of two equal stacks wins.\<close>

lemma display_position_depends_on_order:
  "reconcileStoreDisplay example_rows [[3, 4]] example_inventory \<noteq> reconcileStoreDisplay example_rows [[4, 3]] example_inventory"
  by (simp add: example_display)

end
