(* ===== verification/Spawn.thy ===== *)
theory Spawn
  imports Robot_Policy "HOL-Library.Product_Lexorder"
begin

section \<open>Where robots appear\<close>

text \<open>
  \<open>capability/robotspawn\<close>: \<open>rectangles.go\<close> (the movable area of a map as rectangles, its normal form without overlaps, a random point in it),
  \<open>distribution.go\<close> (spreading robots over the maps: empty maps first, then the least loaded for its size, then the point farthest from the
  others among eight) and \<open>spawn.go\<close> (the configured village); \<open>randIntn\<close> and \<open>randBetween\<close> of \<open>scheduler/manager_resources.go\<close>. The
  generator of \<open>math/rand\<close> is a state and a function on it. Coordinates and counts are small, so \<open>int\<close> is unbounded here.
  The lemmas show that the normal form has the same points and no overlaps, and that every robot some map admits is placed on a movable
  point of such a map, a least loaded one for its size. Calls with a missing environment, which the Go code guards against, do not arise.
\<close>

subsection \<open>Random numbers\<close>

type_synonym 's intn = "int \<Rightarrow> 's \<Rightarrow> int \<times> 's"
type_synonym 's range_random = "int \<Rightarrow> int \<Rightarrow> 's \<Rightarrow> int \<times> 's"

definition randIntn :: "'s intn \<Rightarrow> int \<Rightarrow> 's \<Rightarrow> int \<times> 's" where
  "randIntn intn n s = (if n \<le> 0 then (0, s) else intn n s)"

definition randBetween :: "'s intn \<Rightarrow> 's range_random" where
  "randBetween intn mn mx s =
     (let (mn, mx) = (if mx < mn then (mx, mn) else (mn, mx));
          (v, s) = randIntn intn (mx - mn + 1) s in (mn + v, s))"

text \<open>What \<open>Rand.Intn\<close> promises, and what the interface \<open>RangeRandom\<close> promises.\<close>

definition intn_ok :: "'s intn \<Rightarrow> bool" where
  "intn_ok intn \<longleftrightarrow> (\<forall>n s. 0 < n \<longrightarrow> 0 \<le> fst (intn n s) \<and> fst (intn n s) < n)"

definition random_ok :: "'s range_random \<Rightarrow> bool" where
  "random_ok rand \<longleftrightarrow> (\<forall>mn mx s. mn \<le> mx \<longrightarrow> mn \<le> fst (rand mn mx s) \<and> fst (rand mn mx s) \<le> mx)"

lemma randBetween_ok: "intn_ok intn \<Longrightarrow> random_ok (randBetween intn)"
  unfolding random_ok_def
proof (intro allI impI)
  fix mn mx :: int and s
  assume ok: "intn_ok intn" and le: "mn \<le> mx"
  obtain v s' where v: "intn (mx - mn + 1) s = (v, s')" by fastforce
  have pos: "0 < mx - mn + 1" using le by simp
  have "0 \<le> fst (intn (mx - mn + 1) s) \<and> fst (intn (mx - mn + 1) s) < mx - mn + 1"
    using ok [unfolded intn_ok_def, rule_format, OF pos] .
  with le v show "mn \<le> fst (randBetween intn mn mx s) \<and> fst (randBetween intn mn mx s) \<le> mx" by (simp add: randBetween_def randIntn_def)
qed

lemma random_range: "random_ok rand \<Longrightarrow> rand mn mx s = (v, s') \<Longrightarrow> mn \<le> mx \<Longrightarrow> mn \<le> v \<and> v \<le> mx"
  unfolding random_ok_def by (metis fst_conv)

subsection \<open>Rectangles\<close>

record MapRectangle =
  XMin :: int
  XMax :: int
  YMin :: int
  YMax :: int

record MapCatalogItem =
  mp_Village :: int
  mp_VillageName :: string
  mp_Area :: int
  mp_Level :: int
  mp_XMin :: int
  mp_XMax :: int
  mp_YMin :: int
  mp_YMax :: int
  mp_Rectangles :: "MapRectangle list"
  mp_Use :: bool
  mp_Gate :: bool
  mp_NormalEligible :: "bool option"
  mp_StoreEligible :: "bool option"

record MapLocation =
  loc_Village :: int
  loc_Area :: int
  loc_X :: int
  loc_Y :: int

definition ValidRectangle :: "MapRectangle \<Rightarrow> bool" where
  "ValidRectangle r \<longleftrightarrow> XMax r \<ge> XMin r \<and> YMax r \<ge> YMin r"

definition RectangleContains :: "MapRectangle \<Rightarrow> int \<Rightarrow> int \<Rightarrow> bool" where
  "RectangleContains r x y \<longleftrightarrow> x \<ge> XMin r \<and> x \<le> XMax r \<and> y \<ge> YMin r \<and> y \<le> YMax r"

definition MapRectangles :: "MapCatalogItem \<Rightarrow> MapRectangle list" where
  "MapRectangles mp =
     (let out = filter ValidRectangle (mp_Rectangles mp);
          fallback = \<lparr>XMin = mp_XMin mp, XMax = mp_XMax mp, YMin = mp_YMin mp, YMax = mp_YMax mp\<rparr> in
      if out \<noteq> [] then out else if \<not> ValidRectangle fallback then [] else [fallback])"

definition RectangleArea :: "MapRectangle \<Rightarrow> int" where
  "RectangleArea r =
     (let width = XMax r - XMin r + 1; height = YMax r - YMin r + 1 in if width \<le> 0 \<or> height \<le> 0 then 0 else width * height)"

text \<open>The strips between neighbouring edges.\<close>

fun strips :: "int list \<Rightarrow> (int \<times> int) list" where
  "strips (a # b # edges) = (a, b - 1) # strips (b # edges)"
| "strips _ = []"

definition merge_range :: "int \<Rightarrow> int \<Rightarrow> MapRectangle \<Rightarrow> MapRectangle list \<Rightarrow> MapRectangle list" where
  "merge_range xMin xMax r out =
     (if out \<noteq> [] \<and> XMin (last out) = xMin \<and> XMax (last out) = xMax \<and> YMin r \<le> YMax (last out) + 1 then
        (if YMax r > YMax (last out) then butlast out @ [(last out)\<lparr>YMax := YMax r\<rparr>] else out)
      else out @ [\<lparr>XMin = xMin, XMax = xMax, YMin = YMin r, YMax = YMax r\<rparr>])"

definition strip_rectangles :: "MapRectangle list \<Rightarrow> int \<times> int \<Rightarrow> MapRectangle list \<Rightarrow> MapRectangle list" where
  "strip_rectangles valid strip out =
     (let (xMin, xMax) = strip in
      if xMin > xMax then out
      else fold (merge_range xMin xMax) (sort_key (\<lambda>r. (YMin r, YMax r)) (filter (\<lambda>r. XMin r \<le> xMin \<and> XMax r \<ge> xMax) valid)) out)"

text \<open>
  Sorting with \<open>sort.Slice\<close> is not stable; only the two keys of the sorted rectangles are used. The loop that drops repeated edges of the
  sorted list is \<open>remdups_adj\<close>.
\<close>

definition NormalizeRectangles :: "MapRectangle list \<Rightarrow> MapRectangle list" where
  "NormalizeRectangles rectangles =
     (let valid = filter ValidRectangle rectangles;
          xEdges = concat (map (\<lambda>r. [XMin r, XMax r + 1]) valid) in
      if valid = [] then []
      else fold (strip_rectangles valid) (strips (remdups_adj (sort xEdges))) [])"

text \<open>\<open>int(math.Sqrt(float64(n)))\<close>, exact below two to the power of 52.\<close>

function isqrt :: "nat \<Rightarrow> nat" where
  "isqrt n = (if n = 0 then 0 else let r = 2 * isqrt (n div 4) in if (r + 1) * (r + 1) \<le> n then r + 1 else r)"
  by auto
termination by (relation "measure id") auto

declare isqrt.simps [simp del]

definition smoothedAreaWeight :: "int \<Rightarrow> int" where
  "smoothedAreaWeight area = (if area \<le> 0 then 1 else let weight = int (isqrt (nat area)) in if weight < 1 then 1 else weight)"

definition SmoothedRectangleWeight :: "MapRectangle \<Rightarrow> int" where
  "SmoothedRectangleWeight r = smoothedAreaWeight (RectangleArea r)"

definition SmoothedRectanglesWeight :: "MapRectangle list \<Rightarrow> int" where
  "SmoothedRectanglesWeight rectangles = smoothedAreaWeight (sum_list (map RectangleArea (NormalizeRectangles rectangles)))"

definition intersection :: "MapRectangle \<Rightarrow> MapRectangle \<Rightarrow> MapRectangle" where
  "intersection r bounds =
     \<lparr>XMin = MaxInt (XMin r) (XMin bounds), XMax = MinInt (XMax r) (XMax bounds),
      YMin = MaxInt (YMin r) (YMin bounds), YMax = MinInt (YMax r) (YMax bounds)\<rparr>"

definition IntersectRectangles :: "MapRectangle list \<Rightarrow> MapRectangle \<Rightarrow> MapRectangle list" where
  "IntersectRectangles rectangles bounds =
     (if \<not> ValidRectangle bounds then [] else filter ValidRectangle (map (\<lambda>r. intersection r bounds) rectangles))"

text \<open>The rectangle in which the running sum of areas reaches the choice; the first one when none does.\<close>

fun pick_rectangle :: "int \<Rightarrow> MapRectangle list \<Rightarrow> MapRectangle \<Rightarrow> MapRectangle" where
  "pick_rectangle choice [] selected = selected"
| "pick_rectangle choice (r # rs) selected =
     (if choice - RectangleArea r \<le> 0 then r else pick_rectangle (choice - RectangleArea r) rs selected)"

definition randomPointFromNormalized :: "'s range_random \<Rightarrow> MapRectangle list \<Rightarrow> 's \<Rightarrow> (int \<times> int) option \<times> 's" where
  "randomPointFromNormalized rand rectangles s =
     (if rectangles = [] then (None, s)
      else
        let totalWeight = sum_list (map RectangleArea rectangles);
            (choice, s) = rand 1 totalWeight s;
            choice = (if choice < 1 \<or> choice > totalWeight then 1 else choice);
            selected = pick_rectangle choice rectangles (hd rectangles);
            (x, s) = rand (XMin selected) (XMax selected) s;
            (y, s) = rand (YMin selected) (YMax selected) s in
        (Some (x, y), s))"

definition RandomPoint :: "'s range_random \<Rightarrow> MapRectangle list \<Rightarrow> 's \<Rightarrow> (int \<times> int) option \<times> 's" where
  "RandomPoint rand rectangles s = randomPointFromNormalized rand (NormalizeRectangles rectangles) s"

definition RandomPointInMap :: "'s range_random \<Rightarrow> MapCatalogItem \<Rightarrow> 's \<Rightarrow> (int \<times> int) option \<times> 's" where
  "RandomPointInMap rand mp s = RandomPoint rand (MapRectangles mp) s"

definition PointInMap :: "MapCatalogItem \<Rightarrow> int \<Rightarrow> int \<Rightarrow> bool" where
  "PointInMap mp x y \<longleftrightarrow> list_ex (\<lambda>r. RectangleContains r x y) (MapRectangles mp)"


subsection \<open>Distribution over the maps\<close>

record BalancedTarget =
  bt_Map :: MapCatalogItem
  bt_X :: int
  bt_Y :: int

record mapCandidate =
  mc_mp :: MapCatalogItem
  mc_rectangles :: "MapRectangle list"
  mc_weight :: int

definition zero_target :: BalancedTarget where
  "zero_target =
     \<lparr>bt_Map = \<lparr>mp_Village = 0, mp_VillageName = [], mp_Area = 0, mp_Level = 0, mp_XMin = 0, mp_XMax = 0, mp_YMin = 0, mp_YMax = 0, mp_Rectangles = [],
        mp_Use = False, mp_Gate = False, mp_NormalEligible = None, mp_StoreEligible = None\<rparr>, bt_X = 0, bt_Y = 0\<rparr>"

type_synonym area = "int \<times> int"

definition mapAreaKey :: "MapCatalogItem \<Rightarrow> area" where
  "mapAreaKey mp = (mp_Village mp, mp_Area mp)"

definition map_candidates :: "MapCatalogItem list \<Rightarrow> mapCandidate list" where
  "map_candidates maps =
     List.map_filter (\<lambda>mp.
       let rectangles = NormalizeRectangles (MapRectangles mp) in
       if \<not> mp_Use mp \<or> mp_Village mp < 0 \<or> mp_Area mp < 0 \<or> rectangles = [] then None
       else Some \<lparr>mc_mp = mp, mc_rectangles = rectangles, mc_weight = SmoothedRectanglesWeight rectangles\<rparr>) maps"

text \<open>The locations that lie on the movable ground of the first candidate of their area, counted and listed by area.\<close>

definition count_location ::
    "mapCandidate list \<Rightarrow> MapLocation \<Rightarrow> (area \<Rightarrow> int) \<times> (area \<Rightarrow> MapLocation list) \<Rightarrow> (area \<Rightarrow> int) \<times> (area \<Rightarrow> MapLocation list)" where
  "count_location candidates location = (\<lambda>(counts, locations).
     let area = (loc_Village location, loc_Area location) in
     case List.find (\<lambda>c. mapAreaKey (mc_mp c) = area) candidates of
       None \<Rightarrow> (counts, locations)
     | Some c \<Rightarrow>
         if list_ex (\<lambda>r. RectangleContains r (loc_X location) (loc_Y location)) (mc_rectangles c)
         then (counts(area := counts area + 1), locations(area := locations area @ [location]))
         else (counts, locations))"

definition eligibleMapIndexes :: "mapCandidate list \<Rightarrow> (area \<Rightarrow> int) \<Rightarrow> int \<Rightarrow> bool \<Rightarrow> nat list" where
  "eligibleMapIndexes candidates counts level emptyOnly =
     filter (\<lambda>i. \<not> mp_Level (mc_mp (candidates ! i)) > level \<and> \<not> (emptyOnly \<and> counts (mapAreaKey (mc_mp (candidates ! i))) > 0)) [0..<length candidates]"

definition randomIndex :: "'s range_random \<Rightarrow> nat list \<Rightarrow> 's \<Rightarrow> nat \<times> 's" where
  "randomIndex rand values s =
     (let (choice, s) = rand 0 (int (length values) - 1) s;
          choice = (if choice < 0 \<or> choice \<ge> int (length values) then 0 else choice) in
      (values ! nat choice, s))"

definition less_loaded :: "mapCandidate list \<Rightarrow> (area \<Rightarrow> int) \<Rightarrow> nat \<Rightarrow> nat list \<Rightarrow> nat list" where
  "less_loaded candidates counts i best =
     (let left = counts (mapAreaKey (mc_mp (candidates ! i))) * mc_weight (candidates ! hd best);
          right = counts (mapAreaKey (mc_mp (candidates ! hd best))) * mc_weight (candidates ! i) in
      if left < right then [i] else if left = right then best @ [i] else best)"

definition leastLoadedMapIndex :: "'s range_random \<Rightarrow> mapCandidate list \<Rightarrow> nat list \<Rightarrow> (area \<Rightarrow> int) \<Rightarrow> 's \<Rightarrow> nat \<times> 's" where
  "leastLoadedMapIndex rand candidates indexes counts s =
     randomIndex rand (fold (less_loaded candidates counts) (tl indexes) [hd indexes]) s"

definition nearestDistanceSquared :: "int \<Rightarrow> int \<Rightarrow> MapLocation list \<Rightarrow> int" where
  "nearestDistanceSquared x y occupied =
     (if occupied = [] then 0
      else fold (\<lambda>l best.
             let dx = x - loc_X l; dy = y - loc_Y l; distance = dx * dx + dy * dy in if distance < best then distance else best)
           occupied (2 ^ 63 - 1))"

fun best_point_loop ::
    "'s range_random \<Rightarrow> MapRectangle list \<Rightarrow> MapLocation list \<Rightarrow> nat \<Rightarrow> int \<times> int \<times> int \<Rightarrow> 's \<Rightarrow> (int \<times> int) option \<times> 's" where
  "best_point_loop rand rectangles occupied 0 (bestX, bestY, bestDistance) s = (Some (bestX, bestY), s)"
| "best_point_loop rand rectangles occupied (Suc n) (bestX, bestY, bestDistance) s =
     (case randomPointFromNormalized rand rectangles s of
        (None, s) \<Rightarrow> (None, s)
      | (Some (x, y), s) \<Rightarrow>
          let distance = nearestDistanceSquared x y occupied in
          best_point_loop rand rectangles occupied n
            (if distance > bestDistance then (x, y, distance) else (bestX, bestY, bestDistance)) s)"

definition bestRandomPoint :: "'s range_random \<Rightarrow> MapRectangle list \<Rightarrow> MapLocation list \<Rightarrow> 's \<Rightarrow> (int \<times> int) option \<times> 's" where
  "bestRandomPoint rand rectangles occupied s =
     best_point_loop rand rectangles occupied (if occupied \<noteq> [] then 8 else 1) (0, 0, -1) s"

text \<open>What the loop over the robots carries: the counts, the locations, the targets so far and the random source.\<close>

record 's spread =
  sp_counts :: "area \<Rightarrow> int"
  sp_locations :: "area \<Rightarrow> MapLocation list"
  sp_out :: "BalancedTarget list"
  sp_rand :: 's

definition place_robot :: "'s range_random \<Rightarrow> mapCandidate list \<Rightarrow> int list \<Rightarrow> nat \<Rightarrow> 's spread \<Rightarrow> 's spread" where
  "place_robot rand candidates levels i st =
     (let level = levels ! i;
          emptyAreas = eligibleMapIndexes candidates (sp_counts st) level True;
          eligible = (if emptyAreas = [] then eligibleMapIndexes candidates (sp_counts st) level False else emptyAreas) in
      if eligible = [] then st
      else
        let (chosen, s) = (if emptyAreas \<noteq> [] then randomIndex rand emptyAreas (sp_rand st)
                           else leastLoadedMapIndex rand candidates eligible (sp_counts st) (sp_rand st));
            candidate = candidates ! chosen;
            area = mapAreaKey (mc_mp candidate);
            (point, s) = bestRandomPoint rand (mc_rectangles candidate) (sp_locations st area) s in
        case point of
          None \<Rightarrow> st\<lparr>sp_rand := s\<rparr>
        | Some (x, y) \<Rightarrow>
            st\<lparr>sp_counts := (sp_counts st)(area := sp_counts st area + 1),
               sp_locations := (sp_locations st)(area := sp_locations st area @
                 [\<lparr>loc_Village = mp_Village (mc_mp candidate), loc_Area = mp_Area (mc_mp candidate), loc_X = x, loc_Y = y\<rparr>]),
               sp_out := (sp_out st)[i := \<lparr>bt_Map = mc_mp candidate, bt_X = x, bt_Y = y\<rparr>], sp_rand := s\<rparr>)"

definition DistributedTargets ::
    "'s range_random \<Rightarrow> MapCatalogItem list \<Rightarrow> int list \<Rightarrow> MapLocation list \<Rightarrow> 's \<Rightarrow> BalancedTarget list option \<times> 's" where
  "DistributedTargets rand maps levels locations s =
     (if levels = [] then (None, s)
      else
        let candidates = map_candidates maps in
        if candidates = [] then (None, s)
        else
          let (counts, areaLocations) = fold (count_location candidates) locations (\<lambda>_. 0, \<lambda>_. []);
              order = sort_key (\<lambda>i. levels ! i) [0..<length levels];
              st = fold (place_robot rand candidates levels) order
                     \<lparr>sp_counts = counts, sp_locations = areaLocations, sp_out = replicate (length levels) zero_target, sp_rand = s\<rparr> in
          (Some (sp_out st), sp_rand st))"

definition BalancedLocation ::
    "'s range_random \<Rightarrow> MapCatalogItem list \<Rightarrow> int \<Rightarrow> MapLocation list \<Rightarrow> 's \<Rightarrow> BalancedTarget option \<times> 's" where
  "BalancedLocation rand maps level locations s =
     (case DistributedTargets rand maps [level] locations s of
        (None, s) \<Rightarrow> (None, s)
      | (Some targets, s) \<Rightarrow> (if targets = [] \<or> \<not> mp_Use (bt_Map (hd targets)) then None else Some (hd targets), s))"

subsection \<open>The configured village\<close>

record Info =
  info_UID :: int
  info_CID :: int
  info_Name :: string
  info_Level :: int
  info_Job :: int
  info_Grow :: int
  info_Port :: int
  info_Village :: int
  info_Area :: int
  info_X :: int
  info_Y :: int

definition safeRandIntn :: "'s intn \<Rightarrow> int \<Rightarrow> 's \<Rightarrow> nat \<times> 's" where
  "safeRandIntn intn n s =
     (if n \<le> 0 then (0, s) else let (v, s) = intn n s in (if v < 0 \<or> v \<ge> n then 0 else nat v, s))"

definition ApplyVillageLocation ::
    "'s intn \<Rightarrow> 's range_random \<Rightarrow> int \<Rightarrow> RuntimeConfig \<Rightarrow> MapCatalogItem list \<Rightarrow> Info \<Rightarrow> 's \<Rightarrow> Info \<times> 's" where
  "ApplyVillageLocation intn rand village rc maps info s =
     (let candidates = filter (\<lambda>mp. mp_Use mp \<and> mp_Village mp = village \<and> mp_Level mp \<le> info_Level info) maps in
      if candidates = [] then (info, s)
      else
        let areaMatches = filter (\<lambda>mp. mp_Area mp = SpawnArea rc) candidates;
            candidates = (if SpawnArea rc \<ge> 0 \<and> areaMatches \<noteq> [] then areaMatches else candidates);
            (i, s) = safeRandIntn intn (int (length candidates)) s;
            mp = candidates ! i;
            info = info\<lparr>info_Village := village, info_Area := mp_Area mp\<rparr>;
            rectangles = MapRectangles mp;
            configured = IntersectRectangles rectangles
              \<lparr>XMin = SpawnXMin rc, XMax = SpawnXMax rc, YMin = SpawnYMin rc, YMax = SpawnYMax rc\<rparr>;
            (point, s) = RandomPoint rand (if configured \<noteq> [] then configured else rectangles) s in
        (case point of None \<Rightarrow> info | Some (x, y) \<Rightarrow> info\<lparr>info_X := x, info_Y := y\<rparr>, s))"

text \<open>
  \<open>strings.TrimSpace\<close> on the account, for the white space of ASCII; \<open>followVillage\<close> is the answer of the repository, \<open>None\<close> for an error
  or an account that has no village.
\<close>

definition is_space :: "char \<Rightarrow> bool" where
  "is_space c \<longleftrightarrow> of_char c \<in> {9, 10, 11, 12, 13, 32 :: nat}"

definition TrimSpace :: "string \<Rightarrow> string" where
  "TrimSpace t = rev (dropWhile is_space (rev (dropWhile is_space t)))"

definition ApplyConfiguredLocation ::
    "'s intn \<Rightarrow> 's range_random \<Rightarrow> (string \<Rightarrow> int option) \<Rightarrow> RuntimeConfig \<Rightarrow> MapCatalogItem list \<Rightarrow> Info \<Rightarrow> 's \<Rightarrow> Info \<times> 's" where
  "ApplyConfiguredLocation intn rand followVillage rc maps info s =
     (if SpawnFixed rc then
        ApplyVillageLocation intn rand (if SpawnVillage rc < 1 then 1 else SpawnVillage rc) rc maps info s
      else
        let account = TrimSpace (FollowAccount rc) in
        if account = [] then (info, s)
        else case followVillage account of
          None \<Rightarrow> (info, s)
        | Some village \<Rightarrow> ApplyVillageLocation intn rand village rc maps info s)"

definition RandomMap :: "'s intn \<Rightarrow> MapCatalogItem list \<Rightarrow> int \<Rightarrow> 's \<Rightarrow> MapCatalogItem option \<times> 's" where
  "RandomMap intn maps level s =
     (let candidates = filter (\<lambda>mp. mp_Use mp \<and> mp_Village mp \<ge> 0 \<and> mp_Area mp \<ge> 0 \<and> mp_Level mp \<le> level) maps in
      if candidates = [] then (None, s)
      else let (i, s) = safeRandIntn intn (int (length candidates)) s in (Some (candidates ! i), s))"

subsection \<open>The normal form\<close>

text \<open>Two rectangles have no point in common when one lies left of or below the other.\<close>

definition apart :: "MapRectangle \<Rightarrow> MapRectangle \<Rightarrow> bool" where
  "apart p q \<longleftrightarrow> XMax p < XMin q \<or> XMin p = XMin q \<and> XMax p = XMax q \<and> YMax p < YMin q"

definition covers :: "MapRectangle list \<Rightarrow> int \<Rightarrow> int \<Rightarrow> bool" where
  "covers rs x y \<longleftrightarrow> (\<exists>r \<in> set rs. RectangleContains r x y)"

lemma covers_append [simp]: "covers (rs @ ss) x y \<longleftrightarrow> covers rs x y \<or> covers ss x y"
  by (auto simp: covers_def)

text \<open>The rectangles of one strip, from below to above, that cover the vertical ranges seen so far.\<close>

definition strip_ok :: "int \<Rightarrow> int \<Rightarrow> MapRectangle list \<Rightarrow> MapRectangle list \<Rightarrow> bool" where
  "strip_ok a b done mid \<longleftrightarrow>
     sorted_wrt apart mid \<and> (\<forall>m \<in> set mid. XMin m = a \<and> XMax m = b \<and> ValidRectangle m \<and> (\<exists>p \<in> set done. YMin p = YMin m)) \<and>
     (\<forall>y. (\<exists>m \<in> set mid. YMin m \<le> y \<and> y \<le> YMax m) \<longleftrightarrow> (\<exists>p \<in> set done. YMin p \<le> y \<and> y \<le> YMax p))"

lemma merge_range_ok:
  assumes ok: "strip_ok a b done mid" and "a \<le> b" and r: "ValidRectangle r" "\<forall>p \<in> set done. YMin p \<le> YMin r"
    and pre: "\<forall>p \<in> set pre. XMax p < a \<and> ValidRectangle p"
  shows "\<exists>mid'. merge_range a b r (pre @ mid) = pre @ mid' \<and> strip_ok a b (done @ [r]) mid'"
proof (cases "mid \<noteq> [] \<and> YMin r \<le> YMax (last mid) + 1")
  case True
  then obtain ms l where mid: "mid = ms @ [l]" by (cases mid rule: rev_cases) auto
  have l: "XMin l = a" "XMax l = b" "ValidRectangle l" "YMin l \<le> YMin r" "YMin r \<le> YMax l + 1"
    using ok True r(2) by (auto simp: strip_ok_def mid)
  have cover: "(YMin l \<le> y \<and> y \<le> YMax l) \<or> (YMin r \<le> y \<and> y \<le> YMax r) \<longleftrightarrow> YMin l \<le> y \<and> y \<le> max (YMax l) (YMax r)" for y
    using l r(1) by (auto simp: ValidRectangle_def max_def)
  let ?mid = "ms @ [l\<lparr>YMax := max (YMax l) (YMax r)\<rparr>]"
  have "merge_range a b r (pre @ mid) = pre @ ?mid"
    using l by (cases l) (auto simp: merge_range_def mid butlast_append max_def)
  moreover have "strip_ok a b (done @ [r]) ?mid"
    unfolding strip_ok_def
  proof (intro conjI allI)
    show "sorted_wrt apart ?mid" using ok by (auto simp: strip_ok_def mid sorted_wrt_append apart_def)
    show "\<forall>m \<in> set ?mid. XMin m = a \<and> XMax m = b \<and> ValidRectangle m \<and> (\<exists>p \<in> set (done @ [r]). YMin p = YMin m)"
      using ok l(3) by (auto simp: strip_ok_def mid ValidRectangle_def)
    fix y
    have "(\<exists>m \<in> set mid. YMin m \<le> y \<and> y \<le> YMax m) \<longleftrightarrow> (\<exists>p \<in> set done. YMin p \<le> y \<and> y \<le> YMax p)" using ok by (simp add: strip_ok_def)
    then show "(\<exists>m \<in> set ?mid. YMin m \<le> y \<and> y \<le> YMax m) \<longleftrightarrow> (\<exists>p \<in> set (done @ [r]). YMin p \<le> y \<and> y \<le> YMax p)"
      using cover [of y] by (auto simp: mid)
  qed
  ultimately show ?thesis by blast
next
  case False
  let ?q = "\<lparr>XMin = a, XMax = b, YMin = YMin r, YMax = YMax r\<rparr>"
  have last: "\<not> (pre @ mid \<noteq> [] \<and> XMin (last (pre @ mid)) = a \<and> XMax (last (pre @ mid)) = b \<and> YMin r \<le> YMax (last (pre @ mid)) + 1)"
  proof (cases "mid = []")
    case True
    have "XMax (last pre) < a" if "pre \<noteq> []" using pre last_in_set [OF that] by blast
    with True \<open>a \<le> b\<close> show ?thesis by auto
  qed (use False in simp)
  have below: "YMax m < YMin r" if "m \<in> set mid" for m
  proof -
    from that False obtain ms l where mid: "mid = ms @ [l]" "YMax l < YMin r" by (cases mid rule: rev_cases) auto
    with ok that show ?thesis by (auto simp: strip_ok_def mid(1) sorted_wrt_append apart_def ValidRectangle_def)
  qed
  have "merge_range a b r (pre @ mid) = pre @ (mid @ [?q])" using last by (auto simp: merge_range_def)
  moreover have "strip_ok a b (done @ [r]) (mid @ [?q])"
    using ok r(1) below assms(2) by (auto simp: strip_ok_def sorted_wrt_append apart_def ValidRectangle_def)
  ultimately show ?thesis by blast
qed

lemma merge_ranges_ok:
  assumes "strip_ok a b done mid" "a \<le> b" "\<forall>r \<in> set rs. ValidRectangle r"
    and "sorted (map (\<lambda>r. (YMin r, YMax r)) rs)" "\<forall>p \<in> set done. \<forall>r \<in> set rs. YMin p \<le> YMin r"
    and pre: "\<forall>p \<in> set pre. XMax p < a \<and> ValidRectangle p"
  shows "\<exists>mid'. fold (merge_range a b) rs (pre @ mid) = pre @ mid' \<and> strip_ok a b (done @ rs) mid'"
  using assms(1,3-5)
proof (induction rs arbitrary: "done" mid)
  case (Cons r rs)
  from merge_range_ok [OF Cons.prems(1) assms(2) _ _ pre, of r] Cons.prems
  obtain mid1 where m: "merge_range a b r (pre @ mid) = pre @ mid1" "strip_ok a b (done @ [r]) mid1" by auto
  have "\<forall>q \<in> set rs. YMin r \<le> YMin q" using Cons.prems(3) by (auto simp: less_eq_prod_def)
  with Cons.IH [OF m(2)] Cons.prems m(1) show ?case by auto
qed auto


text \<open>One strip: the points of the rectangles that span it are added, right of everything before.\<close>

lemma strip_rectangles_ok:
  assumes valid: "\<forall>r \<in> set rs. ValidRectangle r" and "a \<le> b"
    and pre: "sorted_wrt apart pre" "\<forall>p \<in> set pre. XMax p < a \<and> ValidRectangle p"
  shows "let out = strip_rectangles rs (a, b) pre in
    sorted_wrt apart out \<and> (\<forall>p \<in> set out. XMax p \<le> b \<and> ValidRectangle p) \<and>
    (\<forall>x y. covers out x y \<longleftrightarrow> covers pre x y \<or> a \<le> x \<and> x \<le> b \<and> (\<exists>r \<in> set rs. XMin r \<le> a \<and> b \<le> XMax r \<and> YMin r \<le> y \<and> y \<le> YMax r))"
proof -
  define ys where "ys = sort_key (\<lambda>r. (YMin r, YMax r)) (filter (\<lambda>r. XMin r \<le> a \<and> XMax r \<ge> b) rs)"
  have "strip_ok a b [] []" by (simp add: strip_ok_def)
  from merge_ranges_ok [OF this assms(2) _ _ _ pre(2), of ys] valid obtain mid
    where out: "fold (merge_range a b) ys pre = pre @ mid" and ok: "strip_ok a b ys mid" by (auto simp: ys_def)
  have eq: "strip_rectangles rs (a, b) pre = pre @ mid" using out assms(2) by (simp add: strip_rectangles_def ys_def)
  have apart_pre: "apart p m" if "p \<in> set pre" "m \<in> set mid" for p m
    using that pre(2) ok by (auto simp: strip_ok_def apart_def)
  have "covers mid x y \<longleftrightarrow> a \<le> x \<and> x \<le> b \<and> (\<exists>r \<in> set rs. XMin r \<le> a \<and> b \<le> XMax r \<and> YMin r \<le> y \<and> y \<le> YMax r)" for x y
  proof -
    have "covers mid x y \<longleftrightarrow> a \<le> x \<and> x \<le> b \<and> (\<exists>m \<in> set mid. YMin m \<le> y \<and> y \<le> YMax m)"
      using ok by (force simp: covers_def RectangleContains_def strip_ok_def)
    moreover have "(\<exists>m \<in> set mid. YMin m \<le> y \<and> y \<le> YMax m) \<longleftrightarrow> (\<exists>p \<in> set ys. YMin p \<le> y \<and> y \<le> YMax p)" using ok by (simp add: strip_ok_def)
    ultimately show ?thesis by (auto simp: ys_def)
  qed
  then show ?thesis using pre ok apart_pre assms(2) by (auto simp: Let_def eq sorted_wrt_append strip_ok_def)
qed

text \<open>All strips: a rectangle whose edges are among the edges spans every strip it touches.\<close>

lemma strips_ok:
  assumes "sorted_wrt (<) (e # edges)" "\<forall>r \<in> set rs. ValidRectangle r"
    and "\<forall>r \<in> set rs. (XMin r < e \<or> XMin r \<in> set (e # edges)) \<and> (XMax r + 1 \<le> e \<or> XMax r + 1 \<in> set edges)"
    and "sorted_wrt apart pre" "\<forall>p \<in> set pre. XMax p < e \<and> ValidRectangle p"
  shows "let out = fold (strip_rectangles rs) (strips (e # edges)) pre in
    sorted_wrt apart out \<and> (\<forall>p \<in> set out. ValidRectangle p) \<and>
    (\<forall>x y. covers out x y \<longleftrightarrow> covers pre x y \<or> e \<le> x \<and> covers rs x y)"
  using assms
proof (induction edges arbitrary: e pre)
  case Nil
  then have "\<not> RectangleContains r x y" if "r \<in> set rs" "e \<le> x" for r x y using that by (force simp: RectangleContains_def)
  with Nil show ?case by (auto simp: covers_def)
next
  case (Cons f edges)
  let ?out = "strip_rectangles rs (e, f - 1) pre"
  have ef: "e \<le> f - 1" using Cons.prems(1) by simp
  note strip = strip_rectangles_ok [OF Cons.prems(2) ef Cons.prems(4,5), unfolded Let_def]
  have edges: "\<forall>r \<in> set rs. (XMin r < f \<or> XMin r \<in> set (f # edges)) \<and> (XMax r + 1 \<le> f \<or> XMax r + 1 \<in> set edges)"
    using Cons.prems(1,3) by auto
  have spans: "XMin r \<le> e \<and> f - 1 \<le> XMax r \<longleftrightarrow> XMin r \<le> x \<and> x \<le> XMax r" if "r \<in> set rs" "e \<le> x" "x \<le> f - 1" for r x
    using that Cons.prems(1) Cons.prems(3) [rule_format, OF that(1)] by force
  have touch: "e \<le> x \<and> x \<le> f - 1 \<and> (\<exists>r \<in> set rs. XMin r \<le> e \<and> f - 1 \<le> XMax r \<and> YMin r \<le> y \<and> y \<le> YMax r) \<longleftrightarrow>
      e \<le> x \<and> x \<le> f - 1 \<and> covers rs x y" for x y
    using spans by (auto simp: covers_def RectangleContains_def)
  have "let out = fold (strip_rectangles rs) (strips (f # edges)) ?out in
      sorted_wrt apart out \<and> (\<forall>p \<in> set out. ValidRectangle p) \<and> (\<forall>x y. covers out x y \<longleftrightarrow> covers ?out x y \<or> f \<le> x \<and> covers rs x y)"
    by (rule Cons.IH) (use Cons.prems(1,2) edges strip in auto)
  moreover have "covers ?out x y \<or> f \<le> x \<and> covers rs x y \<longleftrightarrow> covers pre x y \<or> e \<le> x \<and> covers rs x y" for x y
    using strip touch [of x y] ef by auto
  ultimately show ?case by (simp add: Let_def)
qed

lemma sorted_remdups_adj_distinct: "sorted xs \<Longrightarrow> distinct (remdups_adj xs)" for xs :: "int list"
  by (induction xs rule: remdups_adj.induct) auto

lemma remdups_adj_strict: "sorted xs \<Longrightarrow> sorted_wrt (<) (remdups_adj xs)" for xs :: "int list"
  by (simp add: strict_sorted_iff sorted_remdups_adj sorted_remdups_adj_distinct)

lemma apart_no_overlap: "apart p q \<Longrightarrow> \<not> (RectangleContains p x y \<and> RectangleContains q x y)"
  by (auto simp: apart_def RectangleContains_def)

lemma contains_valid: "RectangleContains r x y \<Longrightarrow> ValidRectangle r"
  by (auto simp: RectangleContains_def ValidRectangle_def)

lemma normal_form:
  "sorted_wrt apart (NormalizeRectangles rs) \<and> (\<forall>p \<in> set (NormalizeRectangles rs). ValidRectangle p) \<and>
   (\<forall>x y. covers (NormalizeRectangles rs) x y \<longleftrightarrow> covers rs x y)"
proof -
  define valid where "valid = filter ValidRectangle rs"
  define xs where "xs = remdups_adj (sort (concat (map (\<lambda>r. [XMin r, XMax r + 1]) valid)))"
  have same: "covers valid x y = covers rs x y" for x y by (auto simp: covers_def valid_def contains_valid)
  show ?thesis
  proof (cases "valid = []")
    case True
    then have "\<not> covers rs x y" for x y using same [of x y] by (simp add: covers_def)
    with True show ?thesis by (simp add: NormalizeRectangles_def valid_def [symmetric] covers_def [of "[]"])
  next
    case False
    have set: "set xs = (\<Union>r \<in> set valid. {XMin r, XMax r + 1})" by (auto simp: xs_def)
    with False obtain e edges where e: "xs = e # edges" by (cases xs) (auto simp: neq_Nil_conv)
    have strict: "sorted_wrt (<) (e # edges)" unfolding e [symmetric] xs_def by (rule remdups_adj_strict) simp
    have inedges: "\<forall>r \<in> set valid. XMin r \<in> set (e # edges) \<and> XMax r + 1 \<in> set (e # edges)" using set e by auto
    have first: "\<forall>r \<in> set valid. e \<le> XMin r \<and> (XMax r + 1 \<le> e \<or> XMax r + 1 \<in> set edges)"
      using strict inedges by (auto dest: less_imp_le)
    have eq: "NormalizeRectangles rs = fold (strip_rectangles valid) (strips (e # edges)) []"
      using False by (simp add: NormalizeRectangles_def valid_def [symmetric] xs_def [symmetric] e Let_def)
    have right: "covers valid x y \<Longrightarrow> e \<le> x" for x y using first by (force simp: covers_def RectangleContains_def)
    have prems: "\<forall>r \<in> set valid. ValidRectangle r"
        "\<forall>r \<in> set valid. (XMin r < e \<or> XMin r \<in> set (e # edges)) \<and> (XMax r + 1 \<le> e \<or> XMax r + 1 \<in> set edges)"
      using first inedges by (simp add: valid_def, blast)
    from strips_ok [OF strict prems, of "[]", unfolded Let_def] right same show ?thesis
      unfolding eq by (simp add: covers_def [of "[]"]) blast
  qed
qed

text \<open>
  Property C13. The normal form of a list of rectangles is a partition of its area: two rectangles at different positions of the result have
  no point in common, and a point lies in some rectangle of the result exactly when it lies in some rectangle of the input. So a point
  weighted by area is uniform over the movable ground, although the archive's rectangles overlap.
\<close>

theorem normalize_rectangles_partition:
  "(\<forall>i j x y. \<not> (i < j \<and> j < length (NormalizeRectangles rs) \<and>
      RectangleContains (NormalizeRectangles rs ! i) x y \<and> RectangleContains (NormalizeRectangles rs ! j) x y)) \<and>
   (\<forall>x y. list_ex (\<lambda>r. RectangleContains r x y) (NormalizeRectangles rs) = list_ex (\<lambda>r. RectangleContains r x y) rs)"
proof -
  have "sorted_wrt apart (NormalizeRectangles rs)" and same: "\<forall>x y. covers (NormalizeRectangles rs) x y \<longleftrightarrow> covers rs x y"
    using normal_form by blast+
  then have "i < j \<Longrightarrow> j < length (NormalizeRectangles rs) \<Longrightarrow> apart (NormalizeRectangles rs ! i) (NormalizeRectangles rs ! j)" for i j
    by (simp add: sorted_wrt_iff_nth_less)
  with apart_no_overlap same show ?thesis by (simp add: covers_def list_ex_iff) blast
qed

subsection \<open>Random points\<close>

lemma normal_valid: "r \<in> set (NormalizeRectangles rs) \<Longrightarrow> ValidRectangle r"
  using normal_form by blast

lemma normal_covers: "covers (NormalizeRectangles rs) x y \<longleftrightarrow> covers rs x y"
  using normal_form by blast

lemma normal_empty: "NormalizeRectangles rs = [] \<longleftrightarrow> (\<forall>x y. \<not> covers rs x y)"
proof
  assume "\<forall>x y. \<not> covers rs x y"
  then have none: "\<not> covers (NormalizeRectangles rs) x y" for x y by (simp add: normal_covers)
  show "NormalizeRectangles rs = []"
  proof (rule ccontr)
    assume "NormalizeRectangles rs \<noteq> []"
    then obtain r where r: "r \<in> set (NormalizeRectangles rs)" using hd_in_set by blast
    then have "covers (NormalizeRectangles rs) (XMin r) (YMin r)"
      using normal_valid [OF r] by (auto simp: covers_def RectangleContains_def ValidRectangle_def)
    with none show False by blast
  qed
qed (use normal_covers [of rs] in \<open>simp add: covers_def\<close>)

lemma PointInMap_covers: "PointInMap mp x y \<longleftrightarrow> covers (MapRectangles mp) x y"
  by (simp add: PointInMap_def covers_def list_ex_iff)

lemma pick_rectangle_in: "selected \<in> set rs \<Longrightarrow> set qs \<subseteq> set rs \<Longrightarrow> pick_rectangle choice qs selected \<in> set rs"
  by (induction choice qs selected rule: pick_rectangle.induct) auto

lemma random_point_covers:
  assumes "random_ok rand" "rs \<noteq> []" "\<forall>r \<in> set rs. ValidRectangle r"
  shows "\<exists>x y s'. randomPointFromNormalized rand rs s = (Some (x, y), s') \<and> covers rs x y"
proof -
  obtain choice s1 where c: "rand 1 (sum_list (map RectangleArea rs)) s = (choice, s1)" by fastforce
  define r where
    "r = pick_rectangle (if choice < 1 \<or> choice > sum_list (map RectangleArea rs) then 1 else choice) rs (hd rs)"
  obtain x s2 where x: "rand (XMin r) (XMax r) s1 = (x, s2)" by fastforce
  obtain y s3 where y: "rand (YMin r) (YMax r) s2 = (y, s3)" by fastforce
  have r: "r \<in> set rs" unfolding r_def using assms(2) by (intro pick_rectangle_in) auto
  then have "ValidRectangle r" using assms(3) by blast
  with random_range [OF assms(1) x] random_range [OF assms(1) y] r have "covers rs x y"
    by (auto simp: ValidRectangle_def covers_def RectangleContains_def)
  moreover have "randomPointFromNormalized rand rs s = (Some (x, y), s3)"
    using c x y assms(2) by (simp add: randomPointFromNormalized_def Let_def r_def)
  ultimately show ?thesis by blast
qed

lemma nearest_fold_nonneg:
  "0 \<le> b \<Longrightarrow> 0 \<le> fold (\<lambda>l best. let dx = x - loc_X l; dy = y - loc_Y l; distance = dx * dx + dy * dy in
     if distance < best then distance else best) ls (b::int)"
  by (induction ls arbitrary: b) (auto simp: Let_def)

lemma nearest_nonneg: "0 \<le> nearestDistanceSquared x y ls"
  using nearest_fold_nonneg [of "2 ^ 63 - 1" x y ls] by (simp add: nearestDistanceSquared_def)

lemma best_point_loop_covers:
  assumes "random_ok rand" "rs \<noteq> []" "\<forall>r \<in> set rs. ValidRectangle r" "bd = -1 \<and> 0 < n \<or> covers rs bx by"
  shows "\<exists>x y s'. best_point_loop rand rs occ n (bx, by, bd) s = (Some (x, y), s') \<and> covers rs x y"
  using assms(4)
proof (induction n arbitrary: bx "by" bd s)
  case (Suc n)
  from random_point_covers [OF assms(1-3), of s] obtain x y s1
    where p: "randomPointFromNormalized rand rs s = (Some (x, y), s1)" "covers rs x y" by blast
  let ?next = "if nearestDistanceSquared x y occ > bd then (x, y, nearestDistanceSquared x y occ) else (bx, by, bd)"
  have "covers rs (fst ?next) (fst (snd ?next))" using Suc.prems p(2) nearest_nonneg [of x y occ] by auto
  with Suc.IH [of "snd (snd ?next)" "fst ?next" "fst (snd ?next)" s1] p(1) show ?case by (simp add: Let_def split: if_splits)
qed simp

lemma best_point_covers:
  assumes "random_ok rand" "rs \<noteq> []" "\<forall>r \<in> set rs. ValidRectangle r"
  shows "\<exists>x y s'. bestRandomPoint rand rs occ s = (Some (x, y), s') \<and> covers rs x y"
  unfolding bestRandomPoint_def by (rule best_point_loop_covers [OF assms]) simp

subsection \<open>The choice of a map\<close>

lemma randomIndex_in: "xs \<noteq> [] \<Longrightarrow> fst (randomIndex rand xs s) \<in> set xs"
  by (auto simp: randomIndex_def split: prod.splits)

lemma smoothed_weight_pos: "0 < smoothedAreaWeight area"
  by (auto simp: smoothedAreaWeight_def Let_def)

lemma candidate_shape:
  assumes "c \<in> set (map_candidates maps)"
  shows "mc_mp c \<in> set maps" "mp_Use (mc_mp c)" "mc_rectangles c = NormalizeRectangles (MapRectangles (mc_mp c))" "mc_rectangles c \<noteq> []"
    "0 < mc_weight c"
  using assms smoothed_weight_pos
  by (auto simp: map_candidates_def List.map_filter_def SmoothedRectanglesWeight_def Let_def split: if_splits)

text \<open>The maps the distribution may use: in use, with valid numbers and some movable ground.\<close>

definition spawn_map :: "MapCatalogItem \<Rightarrow> bool" where
  "spawn_map mp \<longleftrightarrow> mp_Use mp \<and> 0 \<le> mp_Village mp \<and> 0 \<le> mp_Area mp \<and> MapRectangles mp \<noteq> []"

lemma MapRectangles_valid: "r \<in> set (MapRectangles mp) \<Longrightarrow> ValidRectangle r"
  by (auto simp: MapRectangles_def Let_def split: if_splits)

lemma MapRectangles_normal_empty: "NormalizeRectangles (MapRectangles mp) = [] \<longleftrightarrow> MapRectangles mp = []"
proof
  assume "NormalizeRectangles (MapRectangles mp) = []"
  then have none: "\<not> covers (MapRectangles mp) x y" for x y by (simp add: normal_empty)
  show "MapRectangles mp = []"
  proof (cases "MapRectangles mp")
    case (Cons r rs)
    then have "covers (MapRectangles mp) (XMin r) (YMin r)"
      using MapRectangles_valid [of r mp] by (auto simp: covers_def RectangleContains_def ValidRectangle_def)
    with none show ?thesis by blast
  qed
qed (simp add: normal_empty covers_def)

lemma candidate_of_map: "mp \<in> set maps \<Longrightarrow> spawn_map mp \<Longrightarrow> \<exists>c \<in> set (map_candidates maps). mc_mp c = mp"
  by (force simp: map_candidates_def List.map_filter_def spawn_map_def Let_def MapRectangles_normal_empty image_iff)

lemma map_of_candidate: "c \<in> set (map_candidates maps) \<Longrightarrow> spawn_map (mc_mp c)"
  by (auto simp: map_candidates_def List.map_filter_def spawn_map_def Let_def MapRectangles_normal_empty split: if_splits)

text \<open>The load of a map is its count over its weight; the comparison multiplies crosswise.\<close>

definition load_le :: "(area \<Rightarrow> int) \<Rightarrow> mapCandidate \<Rightarrow> mapCandidate \<Rightarrow> bool" where
  "load_le counts c d \<longleftrightarrow> counts (mapAreaKey (mc_mp c)) * mc_weight d \<le> counts (mapAreaKey (mc_mp d)) * mc_weight c"

lemma load_le_trans: "load_le n b c \<Longrightarrow> load_le n c d \<Longrightarrow> 0 < mc_weight b \<Longrightarrow> 0 < mc_weight c \<Longrightarrow> 0 < mc_weight d \<Longrightarrow> load_le n b d"
proof -
  assume le: "load_le n b c" "load_le n c d" and pos: "0 < mc_weight b" "0 < mc_weight c" "0 < mc_weight d"
  let ?n = "\<lambda>c. n (mapAreaKey (mc_mp c))"
  have "?n b * mc_weight c * mc_weight d \<le> ?n c * mc_weight b * mc_weight d" "?n c * mc_weight d * mc_weight b \<le> ?n d * mc_weight c * mc_weight b"
    using le pos by (auto simp: load_le_def intro!: mult_right_mono)
  then have "mc_weight c * (?n b * mc_weight d) \<le> mc_weight c * (?n d * mc_weight b)" by (simp add: algebra_simps)
  with pos show ?thesis by (simp add: load_le_def)
qed

lemma less_loaded_best:
  assumes pos: "\<forall>c \<in> set cs. 0 < mc_weight c" and bs: "bs \<noteq> []" "set bs \<subseteq> set seen" "\<forall>b \<in> set bs. \<forall>j \<in> set seen. load_le n (cs ! b) (cs ! j)"
    and ix: "i < length cs" "\<forall>j \<in> set seen. j < length cs"
  shows "let bs' = less_loaded cs n i bs in
    bs' \<noteq> [] \<and> set bs' \<subseteq> set (seen @ [i]) \<and> (\<forall>b \<in> set bs'. \<forall>j \<in> set (seen @ [i]). load_le n (cs ! b) (cs ! j))"
proof -
  have h: "hd bs \<in> set bs" "hd bs \<in> set seen" using bs by auto
  have w: "0 < mc_weight (cs ! j)" if "j \<in> set seen \<or> j = i" for j using pos ix that by auto
  have refl: "load_le n c c" for c by (simp add: load_le_def)
  consider (lt) "\<not> load_le n (cs ! hd bs) (cs ! i)" "load_le n (cs ! i) (cs ! hd bs)" "less_loaded cs n i bs = [i]"
    | (eq) "load_le n (cs ! hd bs) (cs ! i)" "load_le n (cs ! i) (cs ! hd bs)" "less_loaded cs n i bs = bs @ [i]"
    | (gt) "load_le n (cs ! hd bs) (cs ! i)" "less_loaded cs n i bs = bs"
    by (cases "load_le n (cs ! hd bs) (cs ! i)"; cases "load_le n (cs ! i) (cs ! hd bs)")
      (auto simp: less_loaded_def load_le_def Let_def)
  then show ?thesis
  proof cases
    case lt
    have "load_le n (cs ! i) (cs ! j)" if "j \<in> set seen" for j
      using load_le_trans [OF lt(2)] bs(3) h that w by blast
    with lt refl show ?thesis by (auto simp: Let_def)
  next
    case eq
    have "load_le n (cs ! i) (cs ! j)" if "j \<in> set seen" for j
      using load_le_trans [OF eq(2)] bs(3) h that w by blast
    moreover have "load_le n (cs ! b) (cs ! i)" if "b \<in> set bs" for b
      using load_le_trans [OF _ eq(1)] bs(2,3) h that w by blast
    ultimately show ?thesis using eq refl bs by (auto simp: Let_def)
  next
    case gt
    have "load_le n (cs ! b) (cs ! i)" if "b \<in> set bs" for b
      using load_le_trans [OF _ gt(1)] bs(2,3) h that w by blast
    then show ?thesis using gt bs by (auto simp: Let_def)
  qed
qed

lemma less_loaded_fold:
  assumes pos: "\<forall>c \<in> set cs. 0 < mc_weight c" and bs: "bs \<noteq> []" "set bs \<subseteq> set seen" "\<forall>b \<in> set bs. \<forall>j \<in> set seen. load_le n (cs ! b) (cs ! j)"
    and ix: "\<forall>j \<in> set (seen @ is). j < length cs"
  shows "let bs' = fold (less_loaded cs n) is bs in
    bs' \<noteq> [] \<and> set bs' \<subseteq> set (seen @ is) \<and> (\<forall>b \<in> set bs'. \<forall>j \<in> set (seen @ is). load_le n (cs ! b) (cs ! j))"
  using bs ix
proof (induction "is" arbitrary: bs seen)
  case (Cons i "is")
  from Cons.prems less_loaded_best [OF pos Cons.prems(1-3), of i]
  have "let bs' = fold (less_loaded cs n) is (less_loaded cs n i bs) in
    bs' \<noteq> [] \<and> set bs' \<subseteq> set ((seen @ [i]) @ is) \<and> (\<forall>b \<in> set bs'. \<forall>j \<in> set ((seen @ [i]) @ is). load_le n (cs ! b) (cs ! j))"
    by (intro Cons.IH) (simp_all add: Let_def)
  then show ?case by simp
qed (simp add: Let_def)

lemma leastLoaded_best:
  assumes "\<forall>c \<in> set cs. 0 < mc_weight c" "is \<noteq> []" "\<forall>j \<in> set is. j < length cs"
  shows "fst (leastLoadedMapIndex rand cs is n s) \<in> set is \<and>
    (\<forall>j \<in> set is. load_le n (cs ! fst (leastLoadedMapIndex rand cs is n s)) (cs ! j))"
proof -
  let ?bs = "fold (less_loaded cs n) (tl is) [hd is]"
  have "let bs' = ?bs in bs' \<noteq> [] \<and> set bs' \<subseteq> set ([hd is] @ tl is) \<and>
      (\<forall>b \<in> set bs'. \<forall>j \<in> set ([hd is] @ tl is). load_le n (cs ! b) (cs ! j))"
    using assms by (intro less_loaded_fold) (auto simp: load_le_def dest: list.set_sel(2))
  then have "?bs \<noteq> []" "set ?bs \<subseteq> set is" "\<forall>b \<in> set ?bs. \<forall>j \<in> set is. load_le n (cs ! b) (cs ! j)"
    using assms(2) by (simp_all add: Let_def)
  with randomIndex_in [of ?bs rand s] show ?thesis by (auto simp: leastLoadedMapIndex_def)
qed

lemma eligible_iff:
  "j \<in> set (eligibleMapIndexes cs n level only) \<longleftrightarrow>
     j < length cs \<and> mp_Level (mc_mp (cs ! j)) \<le> level \<and> (only \<longrightarrow> n (mapAreaKey (mc_mp (cs ! j))) \<le> 0)"
  by (auto simp: eligibleMapIndexes_def)

declare split_paired_All [simp del]

text \<open>One robot: it stays without a target when no map admits it, and otherwise gets a movable point of a least loaded map.\<close>

definition placed :: "mapCandidate list \<Rightarrow> int \<Rightarrow> nat \<Rightarrow> 's spread \<Rightarrow> 's spread \<Rightarrow> bool" where
  "placed cs level i st st' \<longleftrightarrow>
     (\<exists>c \<in> set cs. \<exists>x y. mp_Level (mc_mp c) \<le> level \<and> covers (mc_rectangles c) x y \<and>
        sp_out st' = (sp_out st)[i := \<lparr>bt_Map = mc_mp c, bt_X = x, bt_Y = y\<rparr>] \<and>
        sp_counts st' = (sp_counts st)(mapAreaKey (mc_mp c) := sp_counts st (mapAreaKey (mc_mp c)) + 1) \<and>
        (\<forall>d \<in> set cs. mp_Level (mc_mp d) \<le> level \<longrightarrow> load_le (sp_counts st) c d))"

lemma place_robot_step:
  assumes "(if eligibleMapIndexes cs (sp_counts st) (levels ! i) True \<noteq> []
      then randomIndex rand (eligibleMapIndexes cs (sp_counts st) (levels ! i) True) (sp_rand st)
      else leastLoadedMapIndex rand cs (eligibleMapIndexes cs (sp_counts st) (levels ! i) False) (sp_counts st) (sp_rand st)) = (k, s1)"
    and "bestRandomPoint rand (mc_rectangles (cs ! k)) (sp_locations st (mapAreaKey (mc_mp (cs ! k)))) s1 = (Some (x, y), s2)"
    and "eligibleMapIndexes cs (sp_counts st) (levels ! i) False \<noteq> []"
  shows "place_robot rand cs levels i st =
    (let c = cs ! k; area = mapAreaKey (mc_mp c) in
     st\<lparr>sp_counts := (sp_counts st)(area := sp_counts st area + 1),
        sp_locations := (sp_locations st)(area := sp_locations st area @
          [\<lparr>loc_Village = mp_Village (mc_mp c), loc_Area = mp_Area (mc_mp c), loc_X = x, loc_Y = y\<rparr>]),
        sp_out := (sp_out st)[i := \<lparr>bt_Map = mc_mp c, bt_X = x, bt_Y = y\<rparr>], sp_rand := s2\<rparr>)"
proof (cases "eligibleMapIndexes cs (sp_counts st) (levels ! i) True = []")
  case True
  show ?thesis unfolding place_robot_def Let_def using assms(1) by (simp only: True) (simp add: assms(2,3))
next
  case False
  then show ?thesis unfolding place_robot_def Let_def using assms(1) by (simp add: assms(2))
qed

lemma place_robot_chooses:
  fixes st :: "'s spread"
  assumes ok: "random_ok rand" and cs: "cs = map_candidates maps" and n: "\<forall>a. 0 \<le> sp_counts st a"
    and some: "\<exists>c \<in> set cs. mp_Level (mc_mp c) \<le> levels ! i"
  shows "placed cs (levels ! i) i st (place_robot rand cs levels i st)"
proof -
  let ?level = "levels ! i" and ?n = "sp_counts st"
  let ?empty = "eligibleMapIndexes cs ?n ?level True" and ?all = "eligibleMapIndexes cs ?n ?level False"
  define pick where "pick = (if ?empty \<noteq> [] then randomIndex rand ?empty (sp_rand st) else leastLoadedMapIndex rand cs ?all ?n (sp_rand st))"
  have pos: "\<forall>c \<in> set cs. 0 < mc_weight c" unfolding cs using candidate_shape(5) by blast
  have all: "?all \<noteq> []"
  proof -
    from some obtain j where "j < length cs" "mp_Level (mc_mp (cs ! j)) \<le> ?level" by (auto simp: in_set_conv_nth)
    then have "j \<in> set ?all" by (simp add: eligible_iff)
    then show ?thesis by auto
  qed
  have chosen: "fst pick \<in> set ?all \<and> (\<forall>j \<in> set ?all. load_le ?n (cs ! fst pick) (cs ! j))"
  proof (cases "?empty \<noteq> []")
    case True
    have "fst pick \<in> set ?empty" using randomIndex_in [OF True] True by (simp add: pick_def)
    then have e: "fst pick < length cs" "mp_Level (mc_mp (cs ! fst pick)) \<le> ?level" "?n (mapAreaKey (mc_mp (cs ! fst pick))) = 0"
      using n [rule_format, of "mapAreaKey (mc_mp (cs ! fst pick))"] by (simp_all add: eligible_iff)
    moreover have "0 < mc_weight (cs ! fst pick)" using pos e(1) by simp
    ultimately show ?thesis using n by (simp add: eligible_iff load_le_def)
  next
    case False
    then show ?thesis using leastLoaded_best [OF pos all] by (simp add: pick_def eligible_iff)
  qed
  obtain k s1 where k: "pick = (k, s1)" by fastforce
  define c where "c = cs ! k"
  have c: "c \<in> set cs" "mp_Level (mc_mp c) \<le> ?level" using chosen k by (auto simp: eligible_iff c_def)
  have best: "load_le ?n c d" if d: "d \<in> set cs" "mp_Level (mc_mp d) \<le> ?level" for d
  proof -
    from d(1) obtain j where j: "j < length cs" "cs ! j = d" by (auto simp: in_set_conv_nth)
    then have "j \<in> set ?all" using d(2) by (simp add: eligible_iff)
    with chosen k j(2) show ?thesis by (auto simp: c_def)
  qed
  have shape: "mc_rectangles c \<noteq> []" "\<forall>r \<in> set (mc_rectangles c). ValidRectangle r"
    using candidate_shape [of c maps] c(1) normal_valid cs by auto
  obtain x y s2 where p: "bestRandomPoint rand (mc_rectangles c) (sp_locations st (mapAreaKey (mc_mp c))) s1 = (Some (x, y), s2)"
      "covers (mc_rectangles c) x y"
    using best_point_covers [OF ok shape] by blast
  have "place_robot rand cs levels i st =
      st\<lparr>sp_counts := ?n(mapAreaKey (mc_mp c) := ?n (mapAreaKey (mc_mp c)) + 1),
         sp_locations := (sp_locations st)(mapAreaKey (mc_mp c) := sp_locations st (mapAreaKey (mc_mp c)) @
           [\<lparr>loc_Village = mp_Village (mc_mp c), loc_Area = mp_Area (mc_mp c), loc_X = x, loc_Y = y\<rparr>]),
         sp_out := (sp_out st)[i := \<lparr>bt_Map = mc_mp c, bt_X = x, bt_Y = y\<rparr>], sp_rand := s2\<rparr>"
    by (rule place_robot_step [OF k [unfolded pick_def] p(1) [unfolded c_def] all, unfolded Let_def, folded c_def])
  then have "sp_out (place_robot rand cs levels i st) = (sp_out st)[i := \<lparr>bt_Map = mc_mp c, bt_X = x, bt_Y = y\<rparr>]"
      "sp_counts (place_robot rand cs levels i st) = ?n(mapAreaKey (mc_mp c) := ?n (mapAreaKey (mc_mp c)) + 1)" by simp_all
  with c best p(2) show ?thesis unfolding placed_def by blast
qed

lemma place_robot_none:
  assumes "\<forall>c \<in> set cs. levels ! i < mp_Level (mc_mp c)"
  shows "place_robot rand cs levels i st = st"
proof -
  have "eligibleMapIndexes cs n (levels ! i) only = []" for n only
    using assms by (auto simp: eligibleMapIndexes_def filter_empty_conv)
  then show ?thesis by (simp add: place_robot_def)
qed

subsection \<open>All robots\<close>

text \<open>
  One step of the distribution, for a robot that some candidate map admits, with a random source that stays in its range and
  counts that are not negative: the robot gets a point of the normalized ground of an admitted candidate, the candidate's area is counted
  once more and no other, and no admitted candidate has a smaller count for its weight. An empty area is therefore taken while there is one.
\<close>

theorem place_robot_balanced:
  assumes "random_ok rand" "\<forall>a. 0 \<le> sp_counts st a" "i < length (sp_out st)"
    and "\<exists>c \<in> set (map_candidates maps). mp_Level (mc_mp c) \<le> levels ! i"
  shows "let st' = place_robot rand (map_candidates maps) levels i st; t = sp_out st' ! i in
    \<exists>c \<in> set (map_candidates maps). bt_Map t = mc_mp c \<and> mp_Level (mc_mp c) \<le> levels ! i \<and>
      list_ex (\<lambda>r. RectangleContains r (bt_X t) (bt_Y t)) (mc_rectangles c) \<and>
      sp_counts st' = (sp_counts st)(mapAreaKey (mc_mp c) := sp_counts st (mapAreaKey (mc_mp c)) + 1) \<and>
      (\<forall>d \<in> set (map_candidates maps). mp_Level (mc_mp d) \<le> levels ! i \<longrightarrow>
         sp_counts st (mapAreaKey (mc_mp c)) * mc_weight d \<le> sp_counts st (mapAreaKey (mc_mp d)) * mc_weight c)"
  using place_robot_chooses [OF assms(1) refl assms(2,4)] assms(3)
  by (force simp: placed_def load_le_def Let_def covers_def list_ex_iff)

definition target_ok :: "MapCatalogItem list \<Rightarrow> int \<Rightarrow> BalancedTarget \<Rightarrow> bool" where
  "target_ok maps level t \<longleftrightarrow>
     bt_Map t \<in> set maps \<and> spawn_map (bt_Map t) \<and> mp_Level (bt_Map t) \<le> level \<and> PointInMap (bt_Map t) (bt_X t) (bt_Y t)"

definition target_of :: "MapCatalogItem list \<Rightarrow> int \<Rightarrow> BalancedTarget \<Rightarrow> bool" where
  "target_of maps level t \<longleftrightarrow>
     (if \<exists>mp \<in> set maps. spawn_map mp \<and> mp_Level mp \<le> level then target_ok maps level t else t = zero_target)"

lemma placed_target:
  assumes "placed (map_candidates maps) level i st st'" "i < length (sp_out st)"
  shows "target_ok maps level (sp_out st' ! i)"
proof -
  from assms obtain c x y where c: "c \<in> set (map_candidates maps)" "mp_Level (mc_mp c) \<le> level" "covers (mc_rectangles c) x y"
      "sp_out st' ! i = \<lparr>bt_Map = mc_mp c, bt_X = x, bt_Y = y\<rparr>" by (auto simp: placed_def)
  with candidate_shape(1,3) [OF c(1)] map_of_candidate [OF c(1)] show ?thesis
    by (simp add: target_ok_def PointInMap_covers normal_covers)
qed

lemma placed_keeps:
  assumes "placed cs level i st st'"
  shows "length (sp_out st') = length (sp_out st)" "j \<noteq> i \<Longrightarrow> sp_out st' ! j = sp_out st ! j"
    "\<forall>a. 0 \<le> sp_counts st a \<Longrightarrow> 0 \<le> sp_counts st' a"
  using assms by (auto simp: placed_def add_nonneg_nonneg)

lemma place_robots:
  assumes ok: "random_ok rand" and cs: "cs = map_candidates maps"
    and "\<forall>a. 0 \<le> sp_counts st a" "distinct order" "\<forall>i \<in> set order. i < length (sp_out st)"
    and "\<forall>i < length (sp_out st). if i \<in> set order then sp_out st ! i = zero_target else target_of maps (levels ! i) (sp_out st ! i)"
  shows "let st' = fold (place_robot rand cs levels) order st in
    length (sp_out st') = length (sp_out st) \<and> (\<forall>i < length (sp_out st). target_of maps (levels ! i) (sp_out st' ! i))"
  using assms(3-6)
proof (induction order arbitrary: st)
  case (Cons k order)
  let ?st = "place_robot rand cs levels k st"
  have some: "(\<exists>mp \<in> set maps. spawn_map mp \<and> mp_Level mp \<le> levels ! k) \<longleftrightarrow> (\<exists>c \<in> set cs. mp_Level (mc_mp c) \<le> levels ! k)"
    using candidate_of_map map_of_candidate candidate_shape(1) cs by metis
  have step: "length (sp_out ?st) = length (sp_out st) \<and> (\<forall>j. j \<noteq> k \<longrightarrow> sp_out ?st ! j = sp_out st ! j) \<and>
      (\<forall>a. 0 \<le> sp_counts ?st a) \<and> target_of maps (levels ! k) (sp_out ?st ! k)"
  proof (cases "\<exists>c \<in> set cs. mp_Level (mc_mp c) \<le> levels ! k")
    case True
    note p = place_robot_chooses [OF ok cs Cons.prems(1) True]
    have "target_ok maps (levels ! k) (sp_out ?st ! k)" using placed_target [OF p [unfolded cs]] Cons.prems(3) cs by simp
    with placed_keeps [OF p] Cons.prems(1) True some show ?thesis by (simp add: target_of_def)
  next
    case False
    then have "?st = st" using place_robot_none [of cs levels k rand st] by force
    with False some Cons.prems show ?thesis by (auto simp: target_of_def)
  qed
  have "let st' = fold (place_robot rand cs levels) order ?st in
    length (sp_out st') = length (sp_out ?st) \<and> (\<forall>i < length (sp_out ?st). target_of maps (levels ! i) (sp_out st' ! i))"
  proof (rule Cons.IH)
    show "\<forall>i < length (sp_out ?st). if i \<in> set order then sp_out ?st ! i = zero_target else target_of maps (levels ! i) (sp_out ?st ! i)"
    proof (intro allI impI)
      fix i assume "i < length (sp_out ?st)"
      then show "if i \<in> set order then sp_out ?st ! i = zero_target else target_of maps (levels ! i) (sp_out ?st ! i)"
        using step Cons.prems(2) Cons.prems(4) [rule_format, of i] by (cases "i = k") auto
    qed
  qed (use step Cons.prems in auto)
  with step show ?case by simp
qed (simp add: Let_def)

lemma count_locations_nonneg: "\<forall>a. 0 \<le> fst st a \<Longrightarrow> 0 \<le> fst (fold (count_location cs) ls st) a"
proof (induction ls arbitrary: st)
  case (Cons l ls)
  have "\<forall>a. 0 \<le> fst (count_location cs l st) a"
    using Cons.prems by (cases st) (auto simp: count_location_def Let_def split: option.splits)
  then show ?case using Cons.IH by simp
qed simp


text \<open>A random source that reads a list of numbers, and a catalog of three maps, one of them not in use.\<close>

fun draw :: "int list intn" where
  "draw n [] = (0, [])"
| "draw n (v # vs) = (v mod n, vs)"

lemma draw_ok: "intn_ok draw"
  unfolding intn_ok_def
proof (intro allI impI)
  fix n :: int and vs
  assume "0 < n"
  then show "0 \<le> fst (draw n vs) \<and> fst (draw n vs) < n" by (cases vs) simp_all
qed

definition town :: "int \<Rightarrow> int \<Rightarrow> bool \<Rightarrow> MapCatalogItem" where
  "town v level use =
     \<lparr>mp_Village = v, mp_VillageName = [], mp_Area = 0, mp_Level = level, mp_XMin = 0, mp_XMax = 9, mp_YMin = 0, mp_YMax = 9,
      mp_Rectangles = [\<lparr>XMin = 0, XMax = 5, YMin = 0, YMax = 3\<rparr>, \<lparr>XMin = 4, XMax = 9, YMin = 2, YMax = 9\<rparr>], mp_Use = use, mp_Gate = False,
      mp_NormalEligible = None, mp_StoreEligible = None\<rparr>"

definition towns :: "MapCatalogItem list" where
  "towns = [town 1 1 True, town 2 10 True, town 3 1 False]"

definition lone_robot :: "MapLocation list" where
  "lone_robot = [\<lparr>loc_Village = 1, loc_Area = 0, loc_X = 5, loc_Y = 5\<rparr>]"

lemma normalize_example:
  "NormalizeRectangles (mp_Rectangles (town 1 1 True)) =
     [\<lparr>XMin = 0, XMax = 3, YMin = 0, YMax = 3\<rparr>, \<lparr>XMin = 4, XMax = 5, YMin = 0, YMax = 9\<rparr>, \<lparr>XMin = 6, XMax = 9, YMin = 2, YMax = 9\<rparr>]"
  by code_simp


definition one_robot :: "int list spread" where
  "one_robot = \<lparr>sp_counts = (\<lambda>_. 0)((1, 0) := 1), sp_locations = (\<lambda>_. [])((1, 0) := lone_robot), sp_out = [zero_target], sp_rand = [5, 1, 2]\<rparr>"

theorem place_robot_balanced_witness:
  "let st' = place_robot (randBetween draw) (map_candidates towns) [20] 0 one_robot; t = sp_out st' ! 0 in
    \<exists>c \<in> set (map_candidates towns). bt_Map t = mc_mp c \<and> mp_Level (mc_mp c) \<le> 20 \<and>
      list_ex (\<lambda>r. RectangleContains r (bt_X t) (bt_Y t)) (mc_rectangles c) \<and>
      sp_counts st' = (sp_counts one_robot)(mapAreaKey (mc_mp c) := sp_counts one_robot (mapAreaKey (mc_mp c)) + 1) \<and>
      (\<forall>d \<in> set (map_candidates towns). mp_Level (mc_mp d) \<le> 20 \<longrightarrow>
         sp_counts one_robot (mapAreaKey (mc_mp c)) * mc_weight d \<le> sp_counts one_robot (mapAreaKey (mc_mp d)) * mc_weight c)"
proof -
  have counts: "\<forall>a. 0 \<le> sp_counts one_robot a" "0 < length (sp_out one_robot)" by (simp_all add: one_robot_def)
  have "list_ex (\<lambda>c. mp_Level (mc_mp c) \<le> [20] ! 0) (map_candidates towns)" by code_simp
  then have some: "\<exists>c \<in> set (map_candidates towns). mp_Level (mc_mp c) \<le> [20] ! 0" by (simp add: list_ex_iff)
  from place_robot_balanced [OF randBetween_ok [OF draw_ok] counts some] show ?thesis by simp
qed

declare split_paired_All [simp]

end
