(* ===== verification/Store_Points.thy ===== *)
theory Store_Points
  imports Spawn "HOL-Library.AList" "HOL-Library.Char_ord" "HOL-Library.List_Lexorder"
begin

section \<open>Points for private stores\<close>

text \<open>
  \<open>capability/store\<close>: \<open>grid.go\<close> (the lattice of points a store may stand on), \<open>coordinator.go\<close>, \<open>coordinator_occupancy.go\<close>,
  \<open>coordinator_packing.go\<close>, \<open>coordinator_evidence.go\<close> and the parts of \<open>coordinator_cache.go\<close> and \<open>coordinator_active_cache.go\<close> that
  work on the coordinator's state. The coordinator hands out points to robots, keeps them occupied until the store ends, and learns from
  the answers of the game which points do not work.

  The Go maps are association lists, the sets of point IDs are sets; loops over maps have effects that do not depend on the order. The
  coordinator's lock makes each operation one step; \<open>now\<close> is the clock read in it. \<open>LastResultAt\<close> is the text of a time in
  seconds: missing, not a time, or a time. Files are what the environment answers: whether a write succeeds, what a read decodes to.
\<close>

subsection \<open>The lattice\<close>

definition PointCacheVer :: int where "PointCacheVer = 1"

definition PointXStep :: int where "PointXStep = 120"

definition PointYStep :: int where "PointYStep = 80"

definition RestrictHalfX :: int where "RestrictHalfX = 80"

definition RestrictHalfY :: int where "RestrictHalfY = 150"

datatype stamp = NoStamp | BadStamp | Stamp time

definition FormatRFC3339 :: "time \<Rightarrow> stamp" where
  "FormatRFC3339 t = Stamp (t div Second * Second)"

definition PointStatusUnknown :: string where "PointStatusUnknown = ''unknown''"

definition PointStatusSuccess :: string where "PointStatusSuccess = ''success''"

definition PointStatusFailed :: string where "PointStatusFailed = ''failed''"

record GridPoint =
  gp_ID :: string
  gp_Village :: int
  gp_Area :: int
  gp_X :: int
  gp_Y :: int
  gp_Status :: string
  gp_Success :: int
  gp_Failed :: int
  gp_LastUID :: int
  gp_LastReason :: string
  gp_LastResultAt :: stamp

definition pointArea :: "GridPoint \<Rightarrow> area" where
  "pointArea pt = (gp_Village pt, gp_Area pt)"

definition IsNormalMapEligible :: "MapCatalogItem \<Rightarrow> bool" where
  "IsNormalMapEligible mp = (case mp_NormalEligible mp of Some b \<Rightarrow> mp_Use mp \<and> b | None \<Rightarrow> mp_Use mp)"

definition IsStoreMapEligible :: "MapCatalogItem \<Rightarrow> bool" where
  "IsStoreMapEligible mp = (case mp_StoreEligible mp of Some b \<Rightarrow> mp_Use mp \<and> b | None \<Rightarrow> mp_Use mp \<and> \<not> mp_Gate mp)"

definition PointYStart :: "MapRectangle \<Rightarrow> int" where
  "PointYStart r = (if YMax r \<le> YMin r then YMin r else YMin r + (YMax r - YMin r) div 2)"

text \<open>The values of a loop variable that starts at \<open>a\<close> and grows by \<open>d\<close> while it is at most \<open>b\<close>.\<close>

definition counting :: "int \<Rightarrow> int \<Rightarrow> int \<Rightarrow> int list" where
  "counting a b d = map (\<lambda>k. a + int k * d) [0..<nat ((b - a) div d + 1)]"

text \<open>\<open>\%d\<close> of \<open>fmt.Sprintf\<close>.\<close>

fun decimal :: "nat \<Rightarrow> string" where
  "decimal n = (if n < 10 then [char_of (48 + n)] else decimal (n div 10) @ [char_of (48 + n mod 10)])"

declare decimal.simps [simp del]

definition format_d :: "int \<Rightarrow> string" where
  "format_d v = (if v < 0 then CHR ''-'' # decimal (nat (- v)) else decimal (nat v))"

definition point_id :: "int \<Rightarrow> int \<Rightarrow> int \<Rightarrow> int \<Rightarrow> string" where
  "point_id v a x y = format_d v @ ''-'' @ format_d a @ ''-'' @ format_d x @ ''-'' @ format_d y"

definition new_point :: "MapCatalogItem \<Rightarrow> int \<Rightarrow> int \<Rightarrow> GridPoint" where
  "new_point mp x y =
     \<lparr>gp_ID = point_id (mp_Village mp) (mp_Area mp) x y, gp_Village = mp_Village mp, gp_Area = mp_Area mp, gp_X = x, gp_Y = y,
      gp_Status = PointStatusUnknown, gp_Success = 0, gp_Failed = 0, gp_LastUID = 0, gp_LastReason = [], gp_LastResultAt = NoStamp\<rparr>"

definition add_point :: "MapCatalogItem \<Rightarrow> int \<Rightarrow> int \<Rightarrow> string set \<times> GridPoint list \<Rightarrow> string set \<times> GridPoint list" where
  "add_point mp y x = (\<lambda>(seen, points).
     if x \<le> 0 \<or> y \<le> 0 then (seen, points)
     else
       let id = point_id (mp_Village mp) (mp_Area mp) x y in
       if id \<in> seen then (seen, points) else (insert id seen, points @ [new_point mp x y]))"

definition add_map :: "MapCatalogItem \<Rightarrow> string set \<times> GridPoint list \<Rightarrow> string set \<times> GridPoint list" where
  "add_map mp st =
     (if \<not> mp_Use mp \<or> \<not> IsStoreMapEligible mp then st
      else fold (\<lambda>r. fold (\<lambda>y. fold (add_point mp y) (counting (XMin r) (XMax r) PointXStep)) (counting (PointYStart r) (YMax r) PointYStep))
             (MapRectangles mp) st)"

definition point_key :: "GridPoint \<Rightarrow> int \<times> int \<times> int \<times> int" where
  "point_key p = (gp_Village p, gp_Area p, gp_Y p, gp_X p)"

definition BuildGridPoints :: "MapCatalogItem list \<Rightarrow> GridPoint list" where
  "BuildGridPoints maps = sort_key point_key (snd (fold add_map maps ({}, [])))"

definition FilterEligibleGridPoints :: "GridPoint list \<Rightarrow> MapCatalogItem list \<Rightarrow> GridPoint list" where
  "FilterEligibleGridPoints points maps =
     (let eligible = set (map (\<lambda>mp. (mp_Village mp, mp_Area mp)) (filter IsStoreMapEligible maps)) in
      filter (\<lambda>pt. \<not> (pointArea pt \<notin> eligible \<or> gp_X pt \<le> 0 \<or> gp_Y pt \<le> 0)) points)"

subsection \<open>The coordinator\<close>

definition pointClaimTTL :: duration where "pointClaimTTL = 2 * Minute"

definition pointCleanupMargin :: duration where "pointCleanupMargin = 30 * Second"

definition pointSaveMax :: int where "pointSaveMax = 100"

definition pointSaveAge :: duration where "pointSaveAge = 30 * Second"

definition PointFailRetry :: duration where "PointFailRetry = 6 * Minute"

definition pointFailureBurst :: duration where "pointFailureBurst = Minute"

definition pointEvidenceWindow :: duration where "pointEvidenceWindow = 2 * Minute"

definition pointEvidenceLimit :: nat where "pointEvidenceLimit = 3"

definition PointSourceUnknown :: string where "PointSourceUnknown = ''grid_unknown''"

definition PointSourceSuccess :: string where "PointSourceSuccess = ''grid_success''"

definition PointSourceFailedRetry :: string where "PointSourceFailedRetry = ''grid_failed_retry''"

definition StoreReasonAck :: string where "StoreReasonAck = ''store_ack''"

definition StoreReasonDisjointAck :: string where "StoreReasonDisjointAck = ''disjoint_ack''"

definition StoreReasonErr052 :: string where "StoreReasonErr052 = ''store_err_0x52''"

definition StoreReasonErr052Zone :: string where "StoreReasonErr052Zone = ''store_err_0x52_zone''"

record Position =
  pos_Village :: int
  pos_Area :: int
  pos_X :: int
  pos_Y :: int
  pos_Source :: string
  pos_PointID :: string

record pointClaim =
  cl_UID :: int
  cl_ExpiresAt :: time
  cl_ClaimUntil :: time
  cl_Lease :: duration
  cl_ReuseAfter :: duration

record pointOccupancy =
  oc_ClaimUntil :: time
  oc_SuccessUntil :: time

record occupancyCell =
  cell_X :: int
  cell_Y :: int

type_synonym occupancy_map = "(area \<times> (occupancyCell \<times> (string \<times> pointOccupancy) list) list) list"

record PointCoordinator =
  pc_configDir :: string
  pc_sourceMD5 :: string
  pc_points :: "GridPoint list"
  pc_byID :: "(string \<times> nat) list"
  pc_byArea :: "(area \<times> nat list) list"
  pc_areaOrder :: "area list"
  pc_areaCursor :: nat
  pc_claims :: "(string \<times> pointClaim) list"
  pc_occupancy :: occupancy_map
  pc_evidence :: "((string \<times> string) \<times> (int \<times> time) list) list"
  pc_cooldown :: "(string \<times> time) list"
  pc_packed :: "string set"
  pc_failed :: "string set"
  pc_success :: "string set"
  pc_tried :: "string set"
  pc_dirtyCount :: int
  pc_activeDirty :: int
  pc_lastCacheSave :: time

definition byArea_of :: "PointCoordinator \<Rightarrow> area \<Rightarrow> nat list" where
  "byArea_of c a = (case map_of (pc_byArea c) a of None \<Rightarrow> [] | Some is \<Rightarrow> is)"

definition HasArea :: "PointCoordinator \<Rightarrow> int \<Rightarrow> int \<Rightarrow> bool" where
  "HasArea c village area \<longleftrightarrow> length (byArea_of c (village, area)) > 0"

definition SuccessCount :: "PointCoordinator \<Rightarrow> nat" where
  "SuccessCount c = card (pc_success c)"

definition normalizePointLease :: "duration \<Rightarrow> duration" where
  "normalizePointLease lease = (if lease < pointClaimTTL then pointClaimTTL else lease)"

definition StorePointLeaseDuration :: "int \<Rightarrow> duration" where
  "StorePointLeaseDuration storeDurationSec =
     normalizePointLease (i64 (i64 (MaxStoreDurationSec storeDurationSec * Second) + pointCleanupMargin))"

definition newPointClaim :: "int \<Rightarrow> time \<Rightarrow> duration \<Rightarrow> duration \<Rightarrow> pointClaim" where
  "newPointClaim uid now lease reuseAfter =
     (let lease = normalizePointLease lease in
      \<lparr>cl_UID = uid, cl_ExpiresAt = now + lease, cl_ClaimUntil = now + lease, cl_Lease = lease, cl_ReuseAfter = reuseAfter\<rparr>)"

definition pointPenaltyReason :: "string \<Rightarrow> bool" where
  "pointPenaltyReason reason \<longleftrightarrow>
     reason \<in> {''store_err_0x38'', ''store_err_0x3e'', StoreReasonErr052, StoreReasonErr052Zone,
               ''disjoint_err_0x14'', ''disjoint_err_0x3e'', ''disjoint_err_0x52'', ''disjoint_err_0xbe''}"

definition pointFailureRetry :: "string \<Rightarrow> duration \<Rightarrow> duration \<times> bool" where
  "pointFailureRetry reason lease =
     (if reason \<in> {StoreReasonErr052, StoreReasonErr052Zone, ''disjoint_err_0x52''} then (0, True)
      else if reason \<in> {''store_err_0x38'', ''disjoint_err_0x14'', ''disjoint_err_0xbe''} then (normalizePointLease lease, False)
      else (PointFailRetry, False))"

definition restrictivePointReason :: "string \<Rightarrow> bool" where
  "restrictivePointReason reason \<longleftrightarrow> reason = StoreReasonErr052 \<or> reason = ''disjoint_err_0x52''"

definition ambiguousPointFailureReason :: "string \<Rightarrow> bool" where
  "ambiguousPointFailureReason reason \<longleftrightarrow>
     pointPenaltyReason reason \<and> \<not> restrictivePointReason reason \<and> reason \<noteq> StoreReasonErr052Zone"

definition pointSuccessReason :: "string \<Rightarrow> bool" where
  "pointSuccessReason reason \<longleftrightarrow> reason = StoreReasonAck \<or> reason = StoreReasonDisjointAck"

subsection \<open>Occupancy\<close>

definition pointOccupancyConflictX :: int where "pointOccupancyConflictX = PointXStep - 1"

definition pointOccupancyConflictY :: int where "pointOccupancyConflictY = PointYStep * 2 - 1"

definition pointOccupancyCellX :: int where "pointOccupancyCellX = pointOccupancyConflictX + 1"

definition pointOccupancyCellY :: int where "pointOccupancyCellY = pointOccupancyConflictY + 1"

definition floorDiv :: "int \<Rightarrow> int \<Rightarrow> int" where
  "floorDiv v divisor = (let quotient = go_div v divisor in if go_mod v divisor < 0 then quotient - 1 else quotient)"

definition occupancyCellFor :: "int \<Rightarrow> int \<Rightarrow> occupancyCell" where
  "occupancyCellFor x y = \<lparr>cell_X = floorDiv x pointOccupancyCellX, cell_Y = floorDiv y pointOccupancyCellY\<rparr>"

definition positionsConflict :: "GridPoint \<Rightarrow> GridPoint \<Rightarrow> bool" where
  "positionsConflict p q \<longleftrightarrow>
     gp_Village p = gp_Village q \<and> gp_Area p = gp_Area q \<and>
     AbsInt (gp_X p - gp_X q) \<le> pointOccupancyConflictX \<and> AbsInt (gp_Y p - gp_Y q) \<le> pointOccupancyConflictY"

definition positionsOccupancyConflict :: "GridPoint \<Rightarrow> GridPoint \<Rightarrow> bool" where
  "positionsOccupancyConflict p q = positionsConflict p q"

definition positionsConflictPosition :: "Position \<Rightarrow> Position \<Rightarrow> bool" where
  "positionsConflictPosition p q \<longleftrightarrow>
     pos_Village p = pos_Village q \<and> pos_Area p = pos_Area q \<and>
     AbsInt (pos_X p - pos_X q) \<le> pointOccupancyConflictX \<and> AbsInt (pos_Y p - pos_Y q) \<le> pointOccupancyConflictY"

text \<open>The cell itself and its eight neighbours, in the order of the loops.\<close>

definition cells_around :: "occupancyCell \<Rightarrow> occupancyCell list" where
  "cells_around cell =
     concat (map (\<lambda>y. map (\<lambda>x. \<lparr>cell_X = x, cell_Y = y\<rparr>) [cell_X cell - 1, cell_X cell, cell_X cell + 1])
       [cell_Y cell - 1, cell_Y cell, cell_Y cell + 1])"

definition area_cells :: "occupancy_map \<Rightarrow> area \<Rightarrow> (occupancyCell \<times> (string \<times> pointOccupancy) list) list" where
  "area_cells occ a = (case map_of occ a of None \<Rightarrow> [] | Some cells \<Rightarrow> cells)"

definition cell_points :: "(occupancyCell \<times> (string \<times> pointOccupancy) list) list \<Rightarrow> occupancyCell \<Rightarrow> (string \<times> pointOccupancy) list" where
  "cell_points cells cell = (case map_of cells cell of None \<Rightarrow> [] | Some points \<Rightarrow> points)"

definition zero_occupancy :: pointOccupancy where
  "zero_occupancy = \<lparr>oc_ClaimUntil = zero_time, oc_SuccessUntil = zero_time\<rparr>"

definition live_occupancy :: "time \<Rightarrow> pointOccupancy \<Rightarrow> bool" where
  "live_occupancy now oc \<longleftrightarrow> \<not> (\<not> now < oc_ClaimUntil oc \<and> \<not> now < oc_SuccessUntil oc)"

definition positionRecentlyOccupied :: "PointCoordinator \<Rightarrow> area \<Rightarrow> GridPoint \<Rightarrow> time \<Rightarrow> bool" where
  "positionRecentlyOccupied c area candidate now \<longleftrightarrow>
     list_ex (\<lambda>cell. list_ex (\<lambda>(pointID, occupied).
         live_occupancy now occupied \<and>
         (case map_of (pc_byID c) pointID of None \<Rightarrow> False | Some idx \<Rightarrow> positionsOccupancyConflict candidate (pc_points c ! idx)))
       (cell_points (area_cells (pc_occupancy c) area) cell))
     (cells_around (occupancyCellFor (gp_X candidate) (gp_Y candidate)))"

definition put_occupancy :: "area \<Rightarrow> occupancyCell \<Rightarrow> string \<Rightarrow> pointOccupancy \<Rightarrow> occupancy_map \<Rightarrow> occupancy_map" where
  "put_occupancy a cell pointID occupied occ =
     (let cells = area_cells occ a; points = cell_points cells cell in
      if \<not> IsZero (oc_ClaimUntil occupied) \<or> \<not> IsZero (oc_SuccessUntil occupied)
      then AList.update a (AList.update cell (AList.update pointID occupied points) cells) occ
      else
        let points = AList.delete pointID points;
            cells = (if points = [] then AList.delete cell cells else AList.update cell points cells) in
        if cells = [] then AList.delete a occ else AList.update a cells occ)"

definition updatePointOccupancyLocked :: "string \<Rightarrow> bool \<Rightarrow> (pointOccupancy \<Rightarrow> pointOccupancy) \<Rightarrow> PointCoordinator \<Rightarrow> PointCoordinator" where
  "updatePointOccupancyLocked pointID create update c =
     (case map_of (pc_byID c) pointID of
        None \<Rightarrow> c
      | Some idx \<Rightarrow>
          let point = pc_points c ! idx;
              a = pointArea point;
              cell = occupancyCellFor (gp_X point) (gp_Y point);
              cells = area_cells (pc_occupancy c) a;
              points = cell_points cells cell in
          if \<not> create \<and> (map_of (pc_occupancy c) a = None \<or> map_of cells cell = None) then c
          else
            let occupied = update (case map_of points pointID of None \<Rightarrow> zero_occupancy | Some oc \<Rightarrow> oc) in
            c\<lparr>pc_occupancy := put_occupancy a cell pointID occupied (pc_occupancy c)\<rparr>)"

text \<open>What \<open>update\<close> is called with, for a point of the coordinator.\<close>

definition occupancy_of :: "PointCoordinator \<Rightarrow> string \<Rightarrow> pointOccupancy" where
  "occupancy_of c pointID =
     (case map_of (pc_byID c) pointID of
        None \<Rightarrow> zero_occupancy
      | Some idx \<Rightarrow>
          let point = pc_points c ! idx in
          case map_of (cell_points (area_cells (pc_occupancy c) (pointArea point)) (occupancyCellFor (gp_X point) (gp_Y point))) pointID of
            None \<Rightarrow> zero_occupancy | Some oc \<Rightarrow> oc)"

definition setPointClaimLocked :: "string \<Rightarrow> pointClaim \<Rightarrow> PointCoordinator \<Rightarrow> PointCoordinator" where
  "setPointClaimLocked pointID claim c =
     updatePointOccupancyLocked pointID True (\<lambda>oc. oc\<lparr>oc_ClaimUntil := cl_ClaimUntil claim\<rparr>)
       (c\<lparr>pc_claims := AList.update pointID claim (pc_claims c)\<rparr>)"

definition clearPointClaimLocked :: "string \<Rightarrow> PointCoordinator \<Rightarrow> PointCoordinator" where
  "clearPointClaimLocked pointID c =
     updatePointOccupancyLocked pointID False (\<lambda>oc. oc\<lparr>oc_ClaimUntil := zero_time\<rparr>) (c\<lparr>pc_claims := AList.delete pointID (pc_claims c)\<rparr>)"

definition setPointSuccessOccupancyLocked :: "string \<Rightarrow> time \<Rightarrow> PointCoordinator \<Rightarrow> PointCoordinator" where
  "setPointSuccessOccupancyLocked pointID reusableAt c = updatePointOccupancyLocked pointID True (\<lambda>oc. oc\<lparr>oc_SuccessUntil := reusableAt\<rparr>) c"

definition clearPointSuccessOccupancyLocked :: "string \<Rightarrow> PointCoordinator \<Rightarrow> bool \<times> PointCoordinator" where
  "clearPointSuccessOccupancyLocked pointID c =
     (\<not> IsZero (oc_SuccessUntil (occupancy_of c pointID)),
      updatePointOccupancyLocked pointID False (\<lambda>oc. oc\<lparr>oc_SuccessUntil := zero_time\<rparr>) c)"

text \<open>The occupancies that outlive a restart; \<open>Until\<close> is written with nanoseconds, so it reads back as the same time.\<close>

record ActivePointOccupancy =
  ao_PointID :: string
  ao_Until :: time

definition activeOccupanciesLocked :: "PointCoordinator \<Rightarrow> time \<Rightarrow> ActivePointOccupancy list" where
  "activeOccupanciesLocked c now =
     sort_key ao_PointID
       (concat (map (\<lambda>(a, cells). concat (map (\<lambda>(cell, points).
          List.map_filter (\<lambda>(pointID, oc).
            if \<not> oc_SuccessUntil oc > now then None else Some \<lparr>ao_PointID = pointID, ao_Until = oc_SuccessUntil oc\<rparr>) points) cells)) (pc_occupancy c)))"

definition restore_one :: "time \<Rightarrow> ActivePointOccupancy \<Rightarrow> PointCoordinator \<times> int \<Rightarrow> PointCoordinator \<times> int" where
  "restore_one now ao = (\<lambda>(c, restored).
     if map_of (pc_byID c) (ao_PointID ao) = None \<or> \<not> ao_Until ao > now then (c, restored)
     else (setPointSuccessOccupancyLocked (ao_PointID ao) (ao_Until ao) c, restored + 1))"

definition restoreActiveOccupanciesLocked :: "ActivePointOccupancy list \<Rightarrow> time \<Rightarrow> PointCoordinator \<Rightarrow> PointCoordinator \<times> int" where
  "restoreActiveOccupanciesLocked active now c = fold (restore_one now) active (c, 0)"

subsection \<open>Packing\<close>

text \<open>The selected points by area and cell.\<close>

type_synonym selection = "((area \<times> occupancyCell) \<times> GridPoint) list"

definition pack_point :: "GridPoint \<Rightarrow> string set \<times> selection \<Rightarrow> string set \<times> selection" where
  "pack_point point = (\<lambda>(packed, selected).
     if snd (pointFailureRetry (gp_LastReason point) pointClaimTTL) then (packed, selected)
     else
       let a = pointArea point;
           cell = occupancyCellFor (gp_X point) (gp_Y point);
           conflict = list_ex (\<lambda>cl.
             case map_of selected (a, cl) of None \<Rightarrow> False | Some existing \<Rightarrow> positionsOccupancyConflict point existing) (cells_around cell) in
       if conflict then (packed, selected)
       else (insert (gp_ID point) packed, AList.update (a, cell) point selected))"

definition buildPackedPointSet :: "GridPoint list \<Rightarrow> string set" where
  "buildPackedPointSet points = fst (fold pack_point points ({}, []))"

definition rebuildPackedPointsLocked :: "PointCoordinator \<Rightarrow> PointCoordinator" where
  "rebuildPackedPointsLocked c = c\<lparr>pc_packed := buildPackedPointSet (pc_points c)\<rparr>"

definition clearAmbiguousPointFailure :: "GridPoint \<Rightarrow> GridPoint" where
  "clearAmbiguousPointFailure point =
     point\<lparr>gp_Failed := (if gp_Failed point > 0 then gp_Failed point - 1 else gp_Failed point),
           gp_LastUID := 0, gp_LastReason := [], gp_LastResultAt := NoStamp,
           gp_Status := (if gp_Success point > 0 then PointStatusSuccess else PointStatusUnknown)\<rparr>"

record pointFailureObservation =
  ob_index :: nat
  ob_at :: time

definition normalizeAmbiguousFailureBurst :: "GridPoint list \<Rightarrow> pointFailureObservation list \<Rightarrow> GridPoint list \<times> nat" where
  "normalizeAmbiguousFailureBurst points observations =
     (if length observations < 2 then (points, 0)
      else
        let independent = list_ex (\<lambda>i. list_ex (\<lambda>j.
              \<not> positionsConflict (points ! ob_index (observations ! i)) (points ! ob_index (observations ! j)))
              [i + 1..<length observations]) [0..<length observations];
            start = (if independent then 0 else 1) in
        (fold (\<lambda>ob points. points[ob_index ob := clearAmbiguousPointFailure (points ! ob_index ob)]) (drop start observations) points,
         length observations - start))"

function burst_loop :: "pointFailureObservation list \<Rightarrow> GridPoint list \<times> nat \<Rightarrow> GridPoint list \<times> nat" where
  "burst_loop [] st = st"
| "burst_loop (ob # obs) (points, pruned) =
     (let near = (\<lambda>q. time_Sub (ob_at q) (ob_at ob) \<le> pointFailureBurst);
          (points, n) = normalizeAmbiguousFailureBurst points (ob # takeWhile near obs) in
      burst_loop (dropWhile near obs) (points, pruned + n))"
  by pat_completeness auto
termination by (relation "measure (length \<circ> fst)") (auto simp: length_dropWhile_le less_Suc_eq_le)

definition failure_observation :: "GridPoint list \<Rightarrow> nat \<Rightarrow> ((int \<times> string) \<times> pointFailureObservation) option" where
  "failure_observation points index =
     (let pt = points ! index in
      if gp_LastUID pt \<le> 0 \<or> \<not> ambiguousPointFailureReason (gp_LastReason pt) then None
      else case gp_LastResultAt pt of
        Stamp t \<Rightarrow> Some ((gp_LastUID pt, gp_LastReason pt), \<lparr>ob_index = index, ob_at = t\<rparr>)
      | _ \<Rightarrow> None)"

text \<open>
  The groups are disjoint, so the order of the map does not matter; observations of one second keep their order, where \<open>sort.Slice\<close> gives
  no promise for more than a dozen of them.
\<close>

definition normalizeAmbiguousFailureBursts :: "GridPoint list \<Rightarrow> GridPoint list \<times> nat" where
  "normalizeAmbiguousFailureBursts points =
     (let obs = List.map_filter (failure_observation points) [0..<length points] in
      fold (\<lambda>key. burst_loop (sort_key ob_at (map snd (filter (\<lambda>(k, ob). k = key) obs)))) (remdups (map fst obs)) (points, 0))"

subsection \<open>Evidence against points\<close>

definition pointCoolingDownLocked :: "string \<Rightarrow> time \<Rightarrow> PointCoordinator \<Rightarrow> bool \<times> PointCoordinator" where
  "pointCoolingDownLocked pointID now c =
     (case map_of (pc_cooldown c) pointID of
        None \<Rightarrow> (False, c)
      | Some until \<Rightarrow> if now < until then (True, c) else (False, c\<lparr>pc_cooldown := AList.delete pointID (pc_cooldown c)\<rparr>))"

definition pointHasEnoughEvidenceLocked :: "PointCoordinator \<Rightarrow> string \<Rightarrow> bool" where
  "pointHasEnoughEvidenceLocked c pointID \<longleftrightarrow>
     list_ex (\<lambda>((p, reason), byUID). p = pointID \<and> length byUID \<ge> pointEvidenceLimit) (pc_evidence c)"

definition prunePointEvidenceLocked :: "time \<Rightarrow> PointCoordinator \<Rightarrow> PointCoordinator" where
  "prunePointEvidenceLocked now c =
     (let cutoff = now - pointEvidenceWindow in
      c\<lparr>pc_evidence := filter (\<lambda>(key, byUID). byUID \<noteq> [])
         (map (\<lambda>(key, byUID). (key, filter (\<lambda>(uid, observedAt). \<not> observedAt < cutoff) byUID)) (pc_evidence c))\<rparr>)"

definition clearPointEvidenceLocked :: "string \<Rightarrow> PointCoordinator \<Rightarrow> PointCoordinator" where
  "clearPointEvidenceLocked pointID c = c\<lparr>pc_evidence := filter (\<lambda>((p, reason), byUID). p \<noteq> pointID) (pc_evidence c)\<rparr>"

definition rememberPointEvidence :: "time \<Rightarrow> int \<Rightarrow> Position \<Rightarrow> string \<Rightarrow> PointCoordinator \<Rightarrow> PointCoordinator" where
  "rememberPointEvidence now uid pos reason c =
     (if uid \<le> 0 \<or> pos_PointID pos = [] \<or> \<not> ambiguousPointFailureReason reason then c
      else
        let c = prunePointEvidenceLocked now c;
            key = (pos_PointID pos, reason);
            byUID = AList.update uid now (case map_of (pc_evidence c) key of None \<Rightarrow> [] | Some m \<Rightarrow> m);
            c = c\<lparr>pc_evidence := AList.update key byUID (pc_evidence c)\<rparr> in
        if length byUID < pointEvidenceLimit then c
        else
          let lease = (case map_of (pc_claims c) (pos_PointID pos) of
                Some claim \<Rightarrow> if cl_UID claim = uid then cl_Lease claim else pointClaimTTL
              | None \<Rightarrow> pointClaimTTL);
              until = now + normalizePointLease lease in
          if (case map_of (pc_cooldown c) (pos_PointID pos) of Some current \<Rightarrow> \<not> current < until | None \<Rightarrow> False) then c
          else c\<lparr>pc_cooldown := AList.update (pos_PointID pos) until (pc_cooldown c)\<rparr>)"

definition forgetPointEvidence :: "time \<Rightarrow> int \<Rightarrow> Position \<Rightarrow> string \<Rightarrow> PointCoordinator \<Rightarrow> PointCoordinator" where
  "forgetPointEvidence now uid pos reason c =
     (if uid \<le> 0 \<or> pos_PointID pos = [] \<or> \<not> ambiguousPointFailureReason reason then c
      else
        let c = prunePointEvidenceLocked now c;
            key = (pos_PointID pos, reason);
            c = (case map_of (pc_evidence c) key of
                None \<Rightarrow> c
              | Some byUID \<Rightarrow>
                  let byUID = AList.delete uid byUID in
                  c\<lparr>pc_evidence := (if byUID = [] then AList.delete key (pc_evidence c) else AList.update key byUID (pc_evidence c))\<rparr>) in
        if pointHasEnoughEvidenceLocked c (pos_PointID pos) then c
        else c\<lparr>pc_cooldown := AList.delete (pos_PointID pos) (pc_cooldown c)\<rparr>)"

subsection \<open>Claims\<close>

definition clearExpiredClaims :: "time \<Rightarrow> PointCoordinator \<Rightarrow> PointCoordinator" where
  "clearExpiredClaims now c =
     (let c = fold (\<lambda>(pointID, claim) c. if now > cl_ExpiresAt claim then clearPointClaimLocked pointID c else c) (pc_claims c) c in
      c\<lparr>pc_cooldown := filter (\<lambda>(pointID, until). now < until) (pc_cooldown c)\<rparr>)"

definition recentFailedPoint :: "GridPoint \<Rightarrow> time \<Rightarrow> duration \<Rightarrow> PointCoordinator \<Rightarrow> bool \<times> PointCoordinator" where
  "recentFailedPoint pt now lease c =
     (let (cooling, c) = pointCoolingDownLocked (gp_ID pt) now c in
      if cooling then (True, c)
      else if \<not> pointPenaltyReason (gp_LastReason pt) then (False, c)
      else
        let (retry, permanent) = pointFailureRetry (gp_LastReason pt) lease in
        if permanent then (True, c)
        else case gp_LastResultAt pt of
          Stamp t \<Rightarrow> (time_Sub now t < retry, c)
        | _ \<Rightarrow> (True, c))"

definition position_of :: "GridPoint \<Rightarrow> string \<Rightarrow> Position" where
  "position_of pt source =
     \<lparr>pos_Village = gp_Village pt, pos_Area = gp_Area pt, pos_X = gp_X pt, pos_Y = gp_Y pt, pos_Source = source, pos_PointID = gp_ID pt\<rparr>"

text \<open>The arguments every claim function passes on.\<close>

record claim_call =
  call_uid :: int
  call_now :: time
  call_lease :: duration
  call_reuseAfter :: duration

definition call_claim :: "claim_call \<Rightarrow> pointClaim" where
  "call_claim call = newPointClaim (call_uid call) (call_now call) (call_lease call) (call_reuseAfter call)"

fun claimFromArea_loop :: "claim_call \<Rightarrow> area \<Rightarrow> string \<Rightarrow> bool \<Rightarrow> nat list \<Rightarrow> PointCoordinator \<Rightarrow> Position option \<times> PointCoordinator" where
  "claimFromArea_loop call area status packedOnly [] c = (None, c)"
| "claimFromArea_loop call area status packedOnly (idx # idxs) c =
     (let pt = pc_points c ! idx in
      if (if status = PointStatusSuccess then gp_ID pt \<notin> pc_success c
          else status = PointStatusUnknown \<and> gp_ID pt \<in> pc_tried c)
      then claimFromArea_loop call area status packedOnly idxs c
      else if packedOnly \<and> gp_ID pt \<notin> pc_packed c then claimFromArea_loop call area status packedOnly idxs c
      else if gp_ID pt \<in> pc_failed c then claimFromArea_loop call area status packedOnly idxs c
      else if positionRecentlyOccupied c area pt (call_now call) then claimFromArea_loop call area status packedOnly idxs c
      else
        let (recent, c) = recentFailedPoint pt (call_now call) (call_lease call) c in
        if recent then claimFromArea_loop call area status packedOnly idxs c
        else (Some (position_of pt (if status = PointStatusSuccess then PointSourceSuccess else PointSourceUnknown)),
              setPointClaimLocked (gp_ID pt) (call_claim call) c))"

definition claimFromArea :: "claim_call \<Rightarrow> string \<Rightarrow> bool \<Rightarrow> area \<Rightarrow> PointCoordinator \<Rightarrow> Position option \<times> PointCoordinator" where
  "claimFromArea call status packedOnly area c = claimFromArea_loop call area status packedOnly (byArea_of c area) c"

fun areaHasUsableSuccess_loop :: "claim_call \<Rightarrow> nat list \<Rightarrow> PointCoordinator \<Rightarrow> bool \<times> PointCoordinator" where
  "areaHasUsableSuccess_loop call [] c = (False, c)"
| "areaHasUsableSuccess_loop call (idx # idxs) c =
     (let pt = pc_points c ! idx in
      if gp_ID pt \<notin> pc_success c then areaHasUsableSuccess_loop call idxs c
      else
        let (recent, c) = recentFailedPoint pt (call_now call) (call_lease call) c in
        if recent then areaHasUsableSuccess_loop call idxs c else (True, c))"

definition areaHasUsableSuccess :: "claim_call \<Rightarrow> area \<Rightarrow> PointCoordinator \<Rightarrow> bool \<times> PointCoordinator" where
  "areaHasUsableSuccess call area c = areaHasUsableSuccess_loop call (byArea_of c area) c"

fun claimFailedFromArea_loop :: "claim_call \<Rightarrow> area \<Rightarrow> bool \<Rightarrow> nat list \<Rightarrow> PointCoordinator \<Rightarrow> Position option \<times> PointCoordinator" where
  "claimFailedFromArea_loop call area packedOnly [] c = (None, c)"
| "claimFailedFromArea_loop call area packedOnly (idx # idxs) c =
     (let pt = pc_points c ! idx in
      if packedOnly \<and> gp_ID pt \<notin> pc_packed c then claimFailedFromArea_loop call area packedOnly idxs c
      else if gp_ID pt \<notin> pc_failed c then claimFailedFromArea_loop call area packedOnly idxs c
      else
        let (recent, c) = recentFailedPoint pt (call_now call) (call_lease call) c in
        if recent then claimFailedFromArea_loop call area packedOnly idxs c
        else if positionRecentlyOccupied c area pt (call_now call) then claimFailedFromArea_loop call area packedOnly idxs c
        else (Some (position_of pt PointSourceFailedRetry), setPointClaimLocked (gp_ID pt) (call_claim call) c))"

definition claimFailedFromArea :: "claim_call \<Rightarrow> bool \<Rightarrow> bool \<Rightarrow> area \<Rightarrow> PointCoordinator \<Rightarrow> Position option \<times> PointCoordinator" where
  "claimFailedFromArea call packedOnly requireAreaSuccess area c =
     (let (usable, c) = (if requireAreaSuccess then areaHasUsableSuccess call area c else (True, c)) in
      if \<not> usable then (None, c) else claimFailedFromArea_loop call area packedOnly (byArea_of c area) c)"

fun claim_scan ::
    "nat \<Rightarrow> (area \<Rightarrow> PointCoordinator \<Rightarrow> Position option \<times> PointCoordinator) \<Rightarrow> PointCoordinator \<Rightarrow> Position option \<times> PointCoordinator" where
  "claim_scan 0 fn c = (None, c)"
| "claim_scan (Suc n) fn c =
     (let area = pc_areaOrder c ! (pc_areaCursor c mod length (pc_areaOrder c));
          c = c\<lparr>pc_areaCursor := (pc_areaCursor c + 1) mod length (pc_areaOrder c)\<rparr> in
      case fn area c of
        (Some pos, c) \<Rightarrow> (Some pos, c)
      | (None, c) \<Rightarrow> claim_scan n fn c)"

definition claimAcrossAreas ::
    "(area \<Rightarrow> PointCoordinator \<Rightarrow> Position option \<times> PointCoordinator) \<Rightarrow> PointCoordinator \<Rightarrow> Position option \<times> PointCoordinator" where
  "claimAcrossAreas fn c = claim_scan (length (pc_areaOrder c)) fn c"

text \<open>The first of several searches that finds a point.\<close>

fun first_claim :: "(area \<Rightarrow> PointCoordinator \<Rightarrow> Position option \<times> PointCoordinator) list \<Rightarrow> PointCoordinator \<Rightarrow> Position option \<times> PointCoordinator" where
  "first_claim [] c = (None, c)"
| "first_claim (fn # fns) c =
     (case claimAcrossAreas fn c of
        (Some pos, c) \<Rightarrow> (Some pos, c)
      | (None, c) \<Rightarrow> first_claim fns c)"

definition pc_claim :: "int \<Rightarrow> time \<Rightarrow> duration \<Rightarrow> duration \<Rightarrow> PointCoordinator \<Rightarrow> Position option \<times> PointCoordinator" where
  "pc_claim uid now lease reuseAfter c =
     (let call = \<lparr>call_uid = uid, call_now = now, call_lease = normalizePointLease lease, call_reuseAfter = reuseAfter\<rparr>;
          c = clearExpiredClaims now c in
      if pc_areaOrder c = [] then (None, c)
      else first_claim
        [claimFromArea call PointStatusSuccess True,
         claimFromArea call PointStatusSuccess False,
         claimFromArea call PointStatusUnknown True,
         claimFailedFromArea call True True,
         claimFromArea call PointStatusUnknown False,
         claimFailedFromArea call False False] c)"

definition ClaimWithLease :: "int \<Rightarrow> time \<Rightarrow> duration \<Rightarrow> PointCoordinator \<Rightarrow> Position option \<times> PointCoordinator" where
  "ClaimWithLease uid now lease c = (let lease = normalizePointLease lease in pc_claim uid now lease lease c)"

definition Claim :: "int \<Rightarrow> time \<Rightarrow> PointCoordinator \<Rightarrow> Position option \<times> PointCoordinator" where
  "Claim uid now c = ClaimWithLease uid now pointClaimTTL c"

definition ClaimForStore :: "int \<Rightarrow> int \<Rightarrow> time \<Rightarrow> PointCoordinator \<Rightarrow> Position option \<times> PointCoordinator" where
  "ClaimForStore uid storeDurationSec now c =
     (let cleanupLease = StorePointLeaseDuration storeDurationSec;
          reuseAfter = StoreDurationForUID storeDurationSec uid in
      pc_claim uid now cleanupLease (if reuseAfter < 0 then 0 else reuseAfter) c)"

subsection \<open>Reports\<close>

definition discardPositionLocked :: "int \<Rightarrow> Position \<Rightarrow> PointCoordinator \<Rightarrow> PointCoordinator" where
  "discardPositionLocked uid pos c =
     (case map_of (pc_claims c) (pos_PointID pos) of
        Some claim \<Rightarrow> if uid \<le> 0 \<or> cl_UID claim = uid then clearPointClaimLocked (pos_PointID pos) c else c
      | None \<Rightarrow> c)"

definition Discard :: "int \<Rightarrow> Position \<Rightarrow> PointCoordinator \<Rightarrow> PointCoordinator" where
  "Discard uid pos c = (if pos_PointID pos = [] then c else discardPositionLocked uid pos c)"

definition release_claim :: "int \<Rightarrow> string \<times> pointClaim \<Rightarrow> PointCoordinator \<times> int \<Rightarrow> PointCoordinator \<times> int" where
  "release_claim uid = (\<lambda>(pointID, claim) (c, releasedActive).
     if cl_UID claim \<noteq> uid then (c, releasedActive)
     else let (cleared, c) = clearPointSuccessOccupancyLocked pointID (clearPointClaimLocked pointID c) in
          (c, if cleared then releasedActive + 1 else releasedActive))"

text \<open>Saving the active occupancies afterwards is the timer of \<open>scheduleActiveOccupancySave\<close>.\<close>

definition ReleaseUID :: "int \<Rightarrow> PointCoordinator \<Rightarrow> PointCoordinator" where
  "ReleaseUID uid c =
     (if uid \<le> 0 then c
      else let (c, releasedActive) = fold (release_claim uid) (pc_claims c) (c, 0) in
           if releasedActive > 0 then c\<lparr>pc_activeDirty := pc_activeDirty c + releasedActive\<rparr> else c)"

definition zone_point :: "int \<Rightarrow> Position \<Rightarrow> stamp \<Rightarrow> nat \<Rightarrow> PointCoordinator \<Rightarrow> PointCoordinator" where
  "zone_point uid pos now idx c =
     (let pt = pc_points c ! idx in
      if gp_Success pt > 0 \<or> gp_Status pt = PointStatusSuccess then c
      else if AbsInt (gp_X pt - pos_X pos) > RestrictHalfX * 2 \<or> AbsInt (gp_Y pt - pos_Y pos) > RestrictHalfY * 2 then c
      else c\<lparr>pc_failed := insert (gp_ID pt) (pc_failed c), pc_tried := insert (gp_ID pt) (pc_tried c),
             pc_points := (pc_points c)[idx := pt\<lparr>gp_Status := PointStatusFailed, gp_LastUID := uid,
               gp_LastReason := StoreReasonErr052Zone, gp_LastResultAt := now\<rparr>]\<rparr>)"

definition markRestrictiveZoneLocked :: "int \<Rightarrow> Position \<Rightarrow> stamp \<Rightarrow> PointCoordinator \<Rightarrow> PointCoordinator" where
  "markRestrictiveZoneLocked uid pos now c = fold (zone_point uid pos now) (byArea_of c (pos_Village pos, pos_Area pos)) c"

definition cacheSaveDueLocked :: "time \<Rightarrow> PointCoordinator \<Rightarrow> bool" where
  "cacheSaveDueLocked now c \<longleftrightarrow>
     pc_configDir c \<noteq> [] \<and> pc_dirtyCount c > 0 \<and>
     (pc_dirtyCount c \<ge> pointSaveMax \<or> time_Sub now (pc_lastCacheSave c) \<ge> pointSaveAge)"

text \<open>\<open>write\<close> tells whether the points reach the file.\<close>

definition saveCache :: "(GridPoint list \<Rightarrow> bool) \<Rightarrow> time \<Rightarrow> PointCoordinator \<Rightarrow> PointCoordinator" where
  "saveCache write now c =
     (if pc_configDir c = [] \<or> pc_dirtyCount c = 0 \<or> \<not> write (pc_points c) then c
      else c\<lparr>pc_dirtyCount := 0, pc_lastCacheSave := now\<rparr>)"

definition saveActiveOccupancies :: "(ActivePointOccupancy list \<Rightarrow> bool) \<Rightarrow> time \<Rightarrow> PointCoordinator \<Rightarrow> PointCoordinator" where
  "saveActiveOccupancies write now c =
     (if pc_configDir c = [] \<or> pc_activeDirty c = 0 \<or> \<not> write (activeOccupanciesLocked c now) then c else c\<lparr>pc_activeDirty := 0\<rparr>)"

text \<open>The claim a successful report leaves behind.\<close>

definition reported_claim :: "time \<Rightarrow> int \<Rightarrow> string \<Rightarrow> pointClaim option \<Rightarrow> pointClaim" where
  "reported_claim now uid reason existing =
     (let claim = (case existing of
            None \<Rightarrow> newPointClaim uid now pointClaimTTL pointClaimTTL
          | Some cl \<Rightarrow> cl\<lparr>cl_ExpiresAt := now + cl_Lease cl, cl_ClaimUntil := now + cl_Lease cl\<rparr>) in
      if pointSuccessReason reason then claim\<lparr>cl_ClaimUntil := zero_time\<rparr> else claim)"

text \<open>A success: evidence, cooldown and the mark of failure go, the point is occupied until it may be used again.\<close>

definition report_success :: "time \<Rightarrow> int \<Rightarrow> Position \<Rightarrow> string \<Rightarrow> PointCoordinator \<Rightarrow> bool \<times> PointCoordinator" where
  "report_success now uid pos reason c =
     (let pointID = pos_PointID pos;
          c = clearPointEvidenceLocked pointID c;
          c = c\<lparr>pc_cooldown := AList.delete pointID (pc_cooldown c), pc_failed := pc_failed c - {pointID},
                pc_success := insert pointID (pc_success c)\<rparr>;
          (activeChanged, c) =
            (if pointSuccessReason reason then
               (True, setPointSuccessOccupancyLocked pointID
                  (now + (case map_of (pc_claims c) pointID of Some cl \<Rightarrow> cl_ReuseAfter cl | None \<Rightarrow> 0)) c)
             else clearPointSuccessOccupancyLocked pointID c) in
      (activeChanged,
       case map_of (pc_byID c) pointID of
         None \<Rightarrow> c
       | Some idx \<Rightarrow>
           c\<lparr>pc_points := (pc_points c)[idx := (pc_points c ! idx)\<lparr>gp_Status := PointStatusSuccess,
               gp_Success := gp_Success (pc_points c ! idx) + 1, gp_LastUID := uid, gp_LastReason := reason,
               gp_LastResultAt := FormatRFC3339 now\<rparr>]\<rparr>))"

text \<open>
  A failure that counts against the point; a reason that does not has returned before, so the branch of the code for it cannot be reached.
\<close>

definition report_penalty :: "time \<Rightarrow> int \<Rightarrow> Position \<Rightarrow> string \<Rightarrow> bool \<Rightarrow> PointCoordinator \<Rightarrow> bool \<times> PointCoordinator" where
  "report_penalty now uid pos reason ownedClaim c =
     (let pointID = pos_PointID pos;
          (activeChanged, c) = (if ownedClaim then clearPointSuccessOccupancyLocked pointID c else (False, c));
          c = (case map_of (pc_byID c) pointID of
              None \<Rightarrow> c\<lparr>pc_failed := insert pointID (pc_failed c)\<rparr>
            | Some idx \<Rightarrow>
                let pt = pc_points c ! idx;
                    pt' = pt\<lparr>gp_Failed := gp_Failed pt + 1, gp_LastUID := uid, gp_LastReason := reason, gp_LastResultAt := FormatRFC3339 now\<rparr> in
                if gp_Success pt > 0 then
                  c\<lparr>pc_success := insert pointID (pc_success c), pc_points := (pc_points c)[idx := pt'\<lparr>gp_Status := PointStatusSuccess\<rparr>]\<rparr>
                else
                  c\<lparr>pc_failed := insert pointID (pc_failed c), pc_points := (pc_points c)[idx := pt'\<lparr>gp_Status := PointStatusFailed\<rparr>]\<rparr>) in
      (activeChanged,
       if restrictivePointReason reason then
         let c = clearPointEvidenceLocked pointID c;
             c = c\<lparr>pc_cooldown := AList.delete pointID (pc_cooldown c)\<rparr> in
         rebuildPackedPointsLocked (markRestrictiveZoneLocked uid pos (FormatRFC3339 now) c)
       else c))"

definition Report ::
    "(GridPoint list \<Rightarrow> bool) \<Rightarrow> time \<Rightarrow> int \<Rightarrow> Position \<Rightarrow> bool \<Rightarrow> string \<Rightarrow> PointCoordinator \<Rightarrow> PointCoordinator" where
  "Report write now uid pos ok reason c =
     (if pos_PointID pos = [] then c
      else
        let c = clearExpiredClaims now c;
            existing = map_of (pc_claims c) (pos_PointID pos) in
        if (case existing of Some cl \<Rightarrow> cl_UID cl \<noteq> uid | None \<Rightarrow> False) then c
        else
          let c = (if ok then setPointClaimLocked (pos_PointID pos) (reported_claim now uid reason existing) c
                   else discardPositionLocked uid pos c);
              penalty = pointPenaltyReason reason in
          if \<not> ok \<and> \<not> penalty then c
          else
            let c = c\<lparr>pc_tried := insert (pos_PointID pos) (pc_tried c)\<rparr>;
                (activeChanged, c) =
                  (if ok then report_success now uid pos reason c else report_penalty now uid pos reason (existing \<noteq> None) c);
                c = c\<lparr>pc_dirtyCount := pc_dirtyCount c + 1,
                      pc_activeDirty := (if activeChanged then pc_activeDirty c + 1 else pc_activeDirty c)\<rparr> in
            if cacheSaveDueLocked now c then saveCache write now c else c)"

text \<open>The provisional failure of one attempt; a missing pointer is \<open>None\<close>, the zero value has an empty reason.\<close>

record AttemptFailureState =
  af_position :: Position
  af_reason :: string

definition zero_attempt :: AttemptFailureState where
  "zero_attempt =
     \<lparr>af_position = \<lparr>pos_Village = 0, pos_Area = 0, pos_X = 0, pos_Y = 0, pos_Source = [], pos_PointID = []\<rparr>, af_reason = []\<rparr>"

definition ReportAttemptFailure ::
    "(GridPoint list \<Rightarrow> bool) \<Rightarrow> time \<Rightarrow> int \<Rightarrow> AttemptFailureState option \<Rightarrow> Position \<Rightarrow> string \<Rightarrow> PointCoordinator \<Rightarrow>
       bool \<times> AttemptFailureState option \<times> PointCoordinator" where
  "ReportAttemptFailure write now uid state pos reason c =
     (case state of
        None \<Rightarrow>
          if ambiguousPointFailureReason reason
          then (False, None, Discard uid pos (rememberPointEvidence now uid pos reason c))
          else (False, None, Report write now uid pos False reason c)
      | Some st \<Rightarrow>
          if af_reason st \<noteq> [] \<and> af_reason st = reason \<and> ambiguousPointFailureReason reason \<and> \<not> positionsConflictPosition (af_position st) pos
          then (True, Some zero_attempt,
                Discard uid pos (Discard uid (af_position st) (forgetPointEvidence now uid (af_position st) (af_reason st) c)))
          else
            let (st, c) = (if af_reason st \<noteq> [] then (zero_attempt, Discard uid (af_position st) c) else (st, c)) in
            if ambiguousPointFailureReason reason
            then (False, Some (st\<lparr>af_position := pos, af_reason := reason\<rparr>), rememberPointEvidence now uid pos reason c)
            else (False, Some st, Report write now uid pos False reason c))"

definition CommitAttemptFailure :: "int \<Rightarrow> AttemptFailureState option \<Rightarrow> PointCoordinator \<Rightarrow> AttemptFailureState option \<times> PointCoordinator" where
  "CommitAttemptFailure uid state c =
     (case state of
        None \<Rightarrow> (state, c)
      | Some st \<Rightarrow> if af_reason st = [] then (state, c) else (Some zero_attempt, Discard uid (af_position st) c))"

definition DiscardAttemptFailure :: "time \<Rightarrow> int \<Rightarrow> AttemptFailureState option \<Rightarrow> PointCoordinator \<Rightarrow> AttemptFailureState option \<times> PointCoordinator" where
  "DiscardAttemptFailure now uid state c =
     (case state of
        None \<Rightarrow> (state, c)
      | Some st \<Rightarrow>
          if af_reason st = [] then (state, c)
          else (Some zero_attempt, Discard uid (af_position st) (forgetPointEvidence now uid (af_position st) (af_reason st) c)))"

subsection \<open>Loading\<close>

definition index_point :: "nat \<Rightarrow> PointCoordinator \<Rightarrow> PointCoordinator" where
  "index_point i c =
     (let pt = pc_points c ! i;
          success = gp_Success pt > 0 \<or> gp_Status pt = PointStatusSuccess in
      c\<lparr>pc_byID := AList.update (gp_ID pt) i (pc_byID c),
        pc_byArea := AList.update (pointArea pt) (byArea_of c (pointArea pt) @ [i]) (pc_byArea c),
        pc_tried := (if success \<or> gp_Status pt = PointStatusFailed then insert (gp_ID pt) (pc_tried c) else pc_tried c),
        pc_success := (if success then insert (gp_ID pt) (pc_success c) else pc_success c),
        pc_failed := (if \<not> success \<and> gp_Status pt = PointStatusFailed then insert (gp_ID pt) (pc_failed c) else pc_failed c)\<rparr>)"

definition rebuildIndexes :: "PointCoordinator \<Rightarrow> PointCoordinator" where
  "rebuildIndexes c =
     (let (points, pruned) = normalizeAmbiguousFailureBursts (pc_points c);
          c = c\<lparr>pc_points := points, pc_dirtyCount := pc_dirtyCount c + int pruned, pc_byID := [], pc_byArea := [], pc_occupancy := [],
                pc_failed := {}, pc_success := {}, pc_tried := {}\<rparr>;
          c = rebuildPackedPointsLocked (fold index_point [0..<length (pc_points c)] c) in
      c\<lparr>pc_areaOrder := sort (map fst (pc_byArea c))\<rparr>)"

record PointCache =
  ch_Version :: int
  ch_SourceFile :: string
  ch_SourceMD5 :: string
  ch_XStep :: int
  ch_YStep :: int
  ch_Points :: "GridPoint list"

record ActivePointCache =
  ac_Version :: int
  ac_SourceMD5 :: string
  ac_Occupancies :: "ActivePointOccupancy list"

definition loadActiveOccupancies :: "ActivePointCache option \<Rightarrow> time \<Rightarrow> PointCoordinator \<Rightarrow> PointCoordinator \<times> int" where
  "loadActiveOccupancies file now c =
     (case file of
        None \<Rightarrow> (c, 0)
      | Some cache \<Rightarrow>
          if ac_Version cache \<noteq> 1 \<or> ac_SourceMD5 cache \<noteq> pc_sourceMD5 c then (c, 0)
          else restoreActiveOccupanciesLocked (ac_Occupancies cache) now c)"

text \<open>
  \<open>source\<close> is the decoded map catalog with the digest of its file, \<open>cache\<close> and \<open>active\<close> what the two state files decode to; the result says
  whether points were loaded. The names of files and the time of generation, which only go into the next cache file, are left out.
\<close>

definition load ::
    "(string \<times> MapCatalogItem list) option \<Rightarrow> PointCache option \<Rightarrow> ActivePointCache option \<Rightarrow> (GridPoint list \<Rightarrow> bool) \<Rightarrow> time \<Rightarrow>
       PointCoordinator \<Rightarrow> bool \<times> PointCoordinator" where
  "load source cache active write now c =
     (case source of
        None \<Rightarrow> (False, c)
      | Some (sourceMD5, maps) \<Rightarrow>
          let cached = (case cache of
                None \<Rightarrow> None
              | Some ch \<Rightarrow>
                  if ch_Version ch = PointCacheVer \<and> ch_SourceMD5 ch = sourceMD5 \<and> ch_XStep ch = PointXStep \<and> ch_YStep ch = PointYStep \<and>
                     length (ch_Points ch) > 0
                  then Some (FilterEligibleGridPoints (ch_Points ch) maps) else None);
              c = (case cached of None \<Rightarrow> c | Some points \<Rightarrow> c\<lparr>pc_sourceMD5 := sourceMD5, pc_points := points\<rparr>) in
          if cached \<noteq> None \<and> length (pc_points c) > 0
          then (True, fst (loadActiveOccupancies active now (rebuildIndexes c)))
          else
            let points = BuildGridPoints maps in
            if length points = 0 \<or> \<not> write points then (False, c)
            else (True, fst (loadActiveOccupancies active now (rebuildIndexes (c\<lparr>pc_sourceMD5 := sourceMD5, pc_points := points\<rparr>)))))"

definition empty_coordinator :: "string \<Rightarrow> time \<Rightarrow> PointCoordinator" where
  "empty_coordinator configDir now =
     \<lparr>pc_configDir = configDir, pc_sourceMD5 = [], pc_points = [], pc_byID = [], pc_byArea = [], pc_areaOrder = [], pc_areaCursor = 0,
      pc_claims = [], pc_occupancy = [], pc_evidence = [], pc_cooldown = [], pc_packed = {}, pc_failed = {}, pc_success = {}, pc_tried = {},
      pc_dirtyCount = 0, pc_activeDirty = 0, pc_lastCacheSave = now\<rparr>"

definition newPointCoordinator ::
    "string \<Rightarrow> (string \<times> MapCatalogItem list) option \<Rightarrow> PointCache option \<Rightarrow> ActivePointCache option \<Rightarrow> (GridPoint list \<Rightarrow> bool) \<Rightarrow> time \<Rightarrow> PointCoordinator" where
  "newPointCoordinator configDir source cache active write now =
     (if configDir = [] then empty_coordinator configDir now
      else snd (load source cache active write now (empty_coordinator configDir now)))"

end
