(* ===== verification/Store_Points_Proofs.thy ===== *)
theory Store_Points_Proofs
  imports Store_Points
begin

section \<open>Store points keep their distance\<close>

text \<open>
  The theorems on \<open>Store_Points\<close>: the search in nine cells finds every conflict, a claim returns a free point whenever there is one, stores
  never stand too close to each other, and the packed set is the one a search over all points would give.
\<close>

subsection \<open>The occupancy map\<close>

lemma in_alist_update: "(k', v') \<in> set (AList.update k v al) \<Longrightarrow> (k', v') \<in> set al \<or> k' = k \<and> v' = v"
  by (induction al) (auto split: if_splits)

lemma in_alist_delete: "(k', v') \<in> set (AList.delete k al) \<Longrightarrow> (k', v') \<in> set al"
  by (simp add: AList.delete_eq)

lemma cell_points_put:
  "cell_points (area_cells (put_occupancy a cell pointID oc occ) a') cell' =
     (if a' = a \<and> cell' = cell then
        (if \<not> IsZero (oc_ClaimUntil oc) \<or> \<not> IsZero (oc_SuccessUntil oc)
         then AList.update pointID oc (cell_points (area_cells occ a) cell)
         else AList.delete pointID (cell_points (area_cells occ a) cell))
      else cell_points (area_cells occ a') cell')"
proof -
  have none: "map_of cells cell'' = None" if "AList.delete cell cells = []" "cell'' \<noteq> cell" for cells :: "(occupancyCell \<times> (string \<times> pointOccupancy) list) list" and cell''
    using that by (metis delete_conv' fun_upd_other map_of.simps(1))
  show ?thesis
    by (auto simp: put_occupancy_def Let_def area_cells_def cell_points_def update_conv' delete_conv' dest: none split: option.splits)
qed

definition point_cell :: "GridPoint \<Rightarrow> occupancyCell" where
  "point_cell p = occupancyCellFor (gp_X p) (gp_Y p)"

text \<open>Each entry of the occupancy map stands where its point stands, and once.\<close>

definition occ_ok :: "PointCoordinator \<Rightarrow> bool" where
  "occ_ok c \<longleftrightarrow> (\<forall>a cell.
     distinct (map fst (cell_points (area_cells (pc_occupancy c) a) cell)) \<and>
     (\<forall>(pointID, oc) \<in> set (cell_points (area_cells (pc_occupancy c) a) cell).
        \<exists>i. map_of (pc_byID c) pointID = Some i \<and> pointArea (pc_points c ! i) = a \<and> point_cell (pc_points c ! i) = cell))"

lemma occ_okI:
  assumes "\<And>a cell. distinct (map fst (cell_points (area_cells (pc_occupancy c) a) cell))"
    and "\<And>a cell pointID oc. (pointID, oc) \<in> set (cell_points (area_cells (pc_occupancy c) a) cell) \<Longrightarrow>
      \<exists>i. map_of (pc_byID c) pointID = Some i \<and> pointArea (pc_points c ! i) = a \<and> point_cell (pc_points c ! i) = cell"
  shows "occ_ok c"
  using assms unfolding occ_ok_def by blast

lemma occ_ok_distinct: "occ_ok c \<Longrightarrow> distinct (map fst (cell_points (area_cells (pc_occupancy c) a) cell))"
  unfolding occ_ok_def by blast

lemma occ_ok_entry:
  "occ_ok c \<Longrightarrow> (pointID, oc) \<in> set (cell_points (area_cells (pc_occupancy c) a) cell) \<Longrightarrow>
     \<exists>i. map_of (pc_byID c) pointID = Some i \<and> pointArea (pc_points c ! i) = a \<and> point_cell (pc_points c ! i) = cell"
  unfolding occ_ok_def by blast

lemma occupancy_of_entry:
  assumes "occ_ok c" "(pointID, oc) \<in> set (cell_points (area_cells (pc_occupancy c) a) cell)"
  shows "occupancy_of c pointID = oc"
proof -
  obtain i where i: "map_of (pc_byID c) pointID = Some i" "pointArea (pc_points c ! i) = a" "point_cell (pc_points c ! i) = cell"
    using occ_ok_entry [OF assms] by blast
  have "map_of (cell_points (area_cells (pc_occupancy c) a) cell) pointID = Some oc"
    using assms(2) occ_ok_distinct [OF assms(1)] by (metis map_of_is_SomeI)
  with i show ?thesis by (simp add: occupancy_of_def Let_def point_cell_def)
qed

lemma entry_of_occupancy:
  assumes "map_of (pc_byID c) pointID = Some i" "occupancy_of c pointID \<noteq> zero_occupancy"
  shows "(pointID, occupancy_of c pointID) \<in> set (cell_points (area_cells (pc_occupancy c) (pointArea (pc_points c ! i))) (point_cell (pc_points c ! i)))"
  using assms by (auto simp: occupancy_of_def Let_def point_cell_def dest: map_of_SomeD split: option.splits)

lemma update_fields [simp]:
  "pc_points (updatePointOccupancyLocked pointID create f c) = pc_points c"
  "pc_byID (updatePointOccupancyLocked pointID create f c) = pc_byID c"
  "pc_byArea (updatePointOccupancyLocked pointID create f c) = pc_byArea c"
  "pc_areaOrder (updatePointOccupancyLocked pointID create f c) = pc_areaOrder c"
  "pc_areaCursor (updatePointOccupancyLocked pointID create f c) = pc_areaCursor c"
  "pc_claims (updatePointOccupancyLocked pointID create f c) = pc_claims c"
  "pc_cooldown (updatePointOccupancyLocked pointID create f c) = pc_cooldown c"
  "pc_evidence (updatePointOccupancyLocked pointID create f c) = pc_evidence c"
  "pc_failed (updatePointOccupancyLocked pointID create f c) = pc_failed c"
  "pc_success (updatePointOccupancyLocked pointID create f c) = pc_success c"
  "pc_tried (updatePointOccupancyLocked pointID create f c) = pc_tried c"
  "pc_packed (updatePointOccupancyLocked pointID create f c) = pc_packed c"
  by (simp_all add: updatePointOccupancyLocked_def Let_def split: option.split)

lemma zero_occupancy_iff: "IsZero (oc_ClaimUntil oc) \<and> IsZero (oc_SuccessUntil oc) \<longleftrightarrow> oc = zero_occupancy"
  by (cases oc) (auto simp: zero_occupancy_def IsZero_def)

lemma occupancy_of_absent:
  "map_of (pc_byID c) pointID = Some i \<Longrightarrow> map_of (pc_occupancy c) (pointArea (pc_points c ! i)) = None \<or>
     map_of (area_cells (pc_occupancy c) (pointArea (pc_points c ! i))) (occupancyCellFor (gp_X (pc_points c ! i)) (gp_Y (pc_points c ! i))) = None \<Longrightarrow>
   occupancy_of c pointID = zero_occupancy"
  by (auto simp: occupancy_of_def Let_def cell_points_def area_cells_def)

lemma occupancy_of_put:
  assumes "map_of (pc_byID c) pointID = Some i" "pointArea (pc_points c ! i) = a" "occupancyCellFor (gp_X (pc_points c ! i)) (gp_Y (pc_points c ! i)) = cell"
  shows "occupancy_of (c\<lparr>pc_occupancy := put_occupancy a cell pointID oc (pc_occupancy c)\<rparr>) other =
    (if other = pointID then oc else occupancy_of c other)"
proof (cases "other = pointID")
  case True
  show ?thesis
  proof (cases "oc = zero_occupancy")
    case zero: True
    then have "IsZero (oc_ClaimUntil oc)" "IsZero (oc_SuccessUntil oc)" by (simp_all add: zero_occupancy_def)
    with assms True zero show ?thesis by (simp add: occupancy_of_def Let_def cell_points_put delete_conv')
  next
    case False
    then have "\<not> IsZero (oc_ClaimUntil oc) \<or> \<not> IsZero (oc_SuccessUntil oc)" using zero_occupancy_iff by blast
    with assms True show ?thesis by (simp add: occupancy_of_def Let_def cell_points_put update_conv')
  qed
next
  case False
  then show ?thesis
    by (simp add: occupancy_of_def Let_def cell_points_put update_conv' delete_conv' split: option.split)
qed

lemma occupancy_of_update:
  assumes "create \<or> f zero_occupancy = zero_occupancy"
  shows "occupancy_of (updatePointOccupancyLocked pointID create f c) other =
    (if other = pointID \<and> map_of (pc_byID c) pointID \<noteq> None then f (occupancy_of c pointID) else occupancy_of c other)"
proof (cases "map_of (pc_byID c) pointID")
  case None
  then show ?thesis by (simp add: updatePointOccupancyLocked_def)
next
  case (Some i)
  let ?p = "pc_points c ! i"
  let ?gone = "map_of (pc_occupancy c) (pointArea ?p) = None \<or>
    map_of (area_cells (pc_occupancy c) (pointArea ?p)) (occupancyCellFor (gp_X ?p) (gp_Y ?p)) = None"
  show ?thesis
  proof (cases "\<not> create \<and> ?gone")
    case True
    then have "updatePointOccupancyLocked pointID create f c = c" using Some by (simp add: updatePointOccupancyLocked_def Let_def)
    with True assms occupancy_of_absent [OF Some] show ?thesis by auto
  next
    case False
    have "updatePointOccupancyLocked pointID create f c =
        c\<lparr>pc_occupancy := put_occupancy (pointArea ?p) (occupancyCellFor (gp_X ?p) (gp_Y ?p)) pointID (f (occupancy_of c pointID)) (pc_occupancy c)\<rparr>"
      using Some False by (auto simp: updatePointOccupancyLocked_def occupancy_of_def Let_def)
    with Some show ?thesis by (simp add: occupancy_of_put)
  qed
qed

lemma occ_ok_update: 
  assumes "occ_ok c"
  shows "occ_ok (updatePointOccupancyLocked pointID create f c)"
proof (cases "\<exists>i. map_of (pc_byID c) pointID = Some i \<and> updatePointOccupancyLocked pointID create f c \<noteq> c")
  case True
  then obtain i where i: "map_of (pc_byID c) pointID = Some i" by blast
  let ?p = "pc_points c ! i"
  obtain oc where eq: "updatePointOccupancyLocked pointID create f c =
      c\<lparr>pc_occupancy := put_occupancy (pointArea ?p) (point_cell ?p) pointID oc (pc_occupancy c)\<rparr>"
    using True i by (auto simp: updatePointOccupancyLocked_def Let_def point_cell_def split: if_splits)
  let ?c = "c\<lparr>pc_occupancy := put_occupancy (pointArea ?p) (point_cell ?p) pointID oc (pc_occupancy c)\<rparr>"
  show ?thesis unfolding eq
  proof (rule occ_okI)
    fix a cell
    show "distinct (map fst (cell_points (area_cells (pc_occupancy ?c) a) cell))"
      using occ_ok_distinct [OF assms] by (simp add: cell_points_put distinct_update distinct_delete)
  next
    fix a cell other oc'
    assume "(other, oc') \<in> set (cell_points (area_cells (pc_occupancy ?c) a) cell)"
    then have "(other, oc') \<in> set (cell_points (area_cells (pc_occupancy c) a) cell) \<or> other = pointID \<and> a = pointArea ?p \<and> cell = point_cell ?p"
      by (auto simp: cell_points_put dest!: in_alist_update in_alist_delete split: if_splits)
    with occ_ok_entry [OF assms, of other oc' a cell] i
    show "\<exists>i. map_of (pc_byID ?c) other = Some i \<and> pointArea (pc_points ?c ! i) = a \<and> point_cell (pc_points ?c ! i) = cell" by auto
  qed
next
  case False
  then have "updatePointOccupancyLocked pointID create f c = c" by (cases "map_of (pc_byID c) pointID") (auto simp: updatePointOccupancyLocked_def)
  with assms show ?thesis by simp
qed

subsection \<open>Nine cells are enough\<close>

lemma floorDiv_div: "0 < d \<Longrightarrow> floorDiv v d = v div d"
proof -
  assume d: "0 < d"
  show ?thesis
  proof (cases "0 \<le> v")
    case True
    then have "go_mod v d = v mod d" using d by (simp add: go_mod_def minus_mult_div_eq_mod)
    moreover have "0 \<le> v mod d" using d by simp
    ultimately show ?thesis using True d by (simp add: floorDiv_def Let_def not_less)
  next
    case False
    define w where "w = - v"
    have v: "v = - w" "0 < w" using False by (simp_all add: w_def)
    have q: "go_div v d = - (w div d)" using v d by (simp add: go_div_def)
    have "go_mod v d = v + d * (w div d)" unfolding go_mod_def q by simp
    then have m: "go_mod v d = - (w mod d)" using v(1) minus_mult_div_eq_mod [of w d] by linarith
    have "v div d = (if w mod d = 0 then - (w div d) else - (w div d) - 1)" using v d by (simp add: zdiv_zminus1_eq_if)
    with q m d show ?thesis by (auto simp: floorDiv_def Let_def less_le)
  qed
qed

lemma near_cell: "\<bar>v - w\<bar> < d \<Longrightarrow> floorDiv w d \<in> {floorDiv v d - 1, floorDiv v d, floorDiv v d + 1}" for v w d :: int
proof -
  assume near: "\<bar>v - w\<bar> < d"
  then have d: "0 < d" by linarith
  have "(v + (- 1) * d) div d \<le> w div d" "w div d \<le> (v + 1 * d) div d" using near d by (intro zdiv_mono1; linarith)+
  then have "v div d - 1 \<le> w div d" "w div d \<le> v div d + 1" using d by (simp_all only: div_mult_self1)
  with d show ?thesis by (auto simp: floorDiv_div)
qed

lemmas conflict_sizes = pointOccupancyConflictX_def pointOccupancyConflictY_def pointOccupancyCellX_def pointOccupancyCellY_def
  PointXStep_def PointYStep_def

lemma conflict_in_cells: "positionsConflict p q \<Longrightarrow> point_cell q \<in> set (cells_around (point_cell p))"
  using near_cell [of "gp_X p" "gp_X q" 120] near_cell [of "gp_Y p" "gp_Y q" 160]
  by (auto simp: positionsConflict_def point_cell_def cells_around_def occupancyCellFor_def conflict_sizes)

lemma same_cell_conflict: "pointArea p = pointArea q \<Longrightarrow> point_cell p = point_cell q \<Longrightarrow> positionsConflict p q"
proof -
  have near: "\<bar>v - w\<bar> < d" if "v div d = w div d" "0 < d" for v w d :: int
  proof -
    have "v = v div d * d + v mod d" "w = v div d * d + w mod d" using that(1) by (metis div_mult_mod_eq)+
    moreover have "0 \<le> v mod d" "v mod d < d" "0 \<le> w mod d" "w mod d < d" using that by simp_all
    ultimately show ?thesis by linarith
  qed
  assume "pointArea p = pointArea q" "point_cell p = point_cell q"
  then show ?thesis using near [of "gp_X p" 120 "gp_X q"] near [of "gp_Y p" 160 "gp_Y q"]
    by (simp add: pointArea_def positionsConflict_def point_cell_def occupancyCellFor_def conflict_sizes floorDiv_div)
qed

text \<open>The index of points: by ID and by area, with one ID for each point.\<close>

definition index_ok :: "PointCoordinator \<Rightarrow> bool" where
  "index_ok c \<longleftrightarrow>
     distinct (map gp_ID (pc_points c)) \<and>
     (\<forall>pointID i. map_of (pc_byID c) pointID = Some i \<longleftrightarrow> i < length (pc_points c) \<and> gp_ID (pc_points c ! i) = pointID) \<and>
     (\<forall>a. set (byArea_of c a) = {i. i < length (pc_points c) \<and> pointArea (pc_points c ! i) = a}) \<and>
     set (pc_areaOrder c) = pointArea ` set (pc_points c)"

lemma index_byID: "index_ok c \<Longrightarrow> map_of (pc_byID c) pointID = Some i \<longleftrightarrow> i < length (pc_points c) \<and> gp_ID (pc_points c ! i) = pointID"
  unfolding index_ok_def by blast

lemma index_byArea: "index_ok c \<Longrightarrow> i \<in> set (byArea_of c a) \<longleftrightarrow> i < length (pc_points c) \<and> pointArea (pc_points c ! i) = a"
  unfolding index_ok_def by blast

lemma live_zero [simp]: "0 \<le> now \<Longrightarrow> \<not> live_occupancy now zero_occupancy"
  by (simp add: live_occupancy_def zero_occupancy_def zero_time_def)

definition occupied_near :: "PointCoordinator \<Rightarrow> time \<Rightarrow> GridPoint \<Rightarrow> bool" where
  "occupied_near c now p \<longleftrightarrow> (\<exists>q \<in> set (pc_points c). live_occupancy now (occupancy_of c (gp_ID q)) \<and> positionsConflict p q)"

lemma nine_cells:
  assumes "index_ok c" "occ_ok c" "0 \<le> now"
  shows "positionRecentlyOccupied c (pointArea p) p now \<longleftrightarrow> occupied_near c now p"
proof
  assume "positionRecentlyOccupied c (pointArea p) p now"
  then obtain cell pointID oc i where e: "(pointID, oc) \<in> set (cell_points (area_cells (pc_occupancy c) (pointArea p)) cell)"
      "live_occupancy now oc" "map_of (pc_byID c) pointID = Some i" "positionsConflict p (pc_points c ! i)"
    by (auto simp: positionRecentlyOccupied_def list_ex_iff positionsOccupancyConflict_def split: option.splits)
  have "i < length (pc_points c)" "gp_ID (pc_points c ! i) = pointID" using index_byID [OF assms(1)] e(3) by auto
  with e occupancy_of_entry [OF assms(2) e(1)] show "occupied_near c now p" unfolding occupied_near_def by (metis nth_mem)
next
  assume "occupied_near c now p"
  then obtain q where q: "q \<in> set (pc_points c)" "live_occupancy now (occupancy_of c (gp_ID q))" "positionsConflict p q"
    by (auto simp: occupied_near_def)
  then obtain i where i: "i < length (pc_points c)" "q = pc_points c ! i" by (auto simp: in_set_conv_nth)
  have id: "map_of (pc_byID c) (gp_ID q) = Some i" using index_byID [OF assms(1)] i by auto
  have nonzero: "occupancy_of c (gp_ID q) \<noteq> zero_occupancy" using q(2) assms(3) by auto
  have area: "pointArea q = pointArea p" using q(3) by (simp add: positionsConflict_def pointArea_def)
  have "(gp_ID q, occupancy_of c (gp_ID q)) \<in> set (cell_points (area_cells (pc_occupancy c) (pointArea p)) (point_cell q))"
    using entry_of_occupancy [OF id nonzero] i(2) area by simp
  with conflict_in_cells [OF q(3)] q(2,3) id i(2) show "positionRecentlyOccupied c (pointArea p) p now"
    unfolding positionRecentlyOccupied_def list_ex_iff positionsOccupancyConflict_def point_cell_def
    by (intro bexI [of _ "occupancyCellFor (gp_X q) (gp_Y q)"] bexI [of _ "(gp_ID q, occupancy_of c (gp_ID q))"]) auto
qed

subsection \<open>Operations that free points\<close>

text \<open>The grid and the marks of points stay, the occupancy map stays in order, and no point becomes occupied.\<close>

definition calm :: "PointCoordinator \<Rightarrow> PointCoordinator \<Rightarrow> bool" where
  "calm c c' \<longleftrightarrow>
     pc_points c' = pc_points c \<and> pc_byID c' = pc_byID c \<and> pc_byArea c' = pc_byArea c \<and> pc_areaOrder c' = pc_areaOrder c \<and>
     pc_packed c' = pc_packed c \<and> pc_failed c' = pc_failed c \<and> pc_success c' = pc_success c \<and> pc_tried c' = pc_tried c \<and>
     (occ_ok c \<longrightarrow> occ_ok c') \<and>
     (\<forall>now pointID. 0 \<le> now \<longrightarrow> live_occupancy now (occupancy_of c' pointID) \<longrightarrow> live_occupancy now (occupancy_of c pointID))"

lemma calm_refl [simp]: "calm c c"
  by (simp add: calm_def)

lemma calm_trans: "calm c d \<Longrightarrow> calm d e \<Longrightarrow> calm c e"
  by (simp add: calm_def)

lemma calm_fields:
  assumes "calm c c'"
  shows "pc_points c' = pc_points c" "pc_byID c' = pc_byID c" "pc_byArea c' = pc_byArea c" "pc_areaOrder c' = pc_areaOrder c"
    "pc_packed c' = pc_packed c" "pc_failed c' = pc_failed c" "pc_success c' = pc_success c" "pc_tried c' = pc_tried c"
  using assms by (simp_all add: calm_def)

lemma calm_occ_ok: "calm c c' \<Longrightarrow> occ_ok c \<Longrightarrow> occ_ok c'"
  by (simp add: calm_def)

lemma calm_live: "calm c c' \<Longrightarrow> 0 \<le> now \<Longrightarrow> live_occupancy now (occupancy_of c' pointID) \<Longrightarrow> live_occupancy now (occupancy_of c pointID)"
  by (simp add: calm_def)

lemma occupancy_of_cong: "pc_points c' = pc_points c \<Longrightarrow> pc_byID c' = pc_byID c \<Longrightarrow> pc_occupancy c' = pc_occupancy c \<Longrightarrow> occupancy_of c' = occupancy_of c"
  by (rule ext) (simp add: occupancy_of_def Let_def cong: option.case_cong)

lemma occ_ok_cong: "pc_points c' = pc_points c \<Longrightarrow> pc_byID c' = pc_byID c \<Longrightarrow> pc_occupancy c' = pc_occupancy c \<Longrightarrow> occ_ok c' = occ_ok c"
  by (simp add: occ_ok_def)

lemma index_ok_cong:
  "pc_points c' = pc_points c \<Longrightarrow> pc_byID c' = pc_byID c \<Longrightarrow> pc_byArea c' = pc_byArea c \<Longrightarrow> pc_areaOrder c' = pc_areaOrder c \<Longrightarrow> index_ok c' = index_ok c"
  by (simp add: index_ok_def byArea_of_def)

lemma calm_index_ok: "calm c c' \<Longrightarrow> index_ok c' = index_ok c"
  by (rule index_ok_cong) (simp_all add: calm_def)

lemma calm_same [intro]:
  assumes "pc_points c' = pc_points c" "pc_byID c' = pc_byID c" "pc_byArea c' = pc_byArea c" "pc_areaOrder c' = pc_areaOrder c"
    "pc_packed c' = pc_packed c" "pc_failed c' = pc_failed c" "pc_success c' = pc_success c" "pc_tried c' = pc_tried c" "pc_occupancy c' = pc_occupancy c"
  shows "calm c c'"
  using assms occupancy_of_cong [of c' c] occ_ok_cong [of c' c] by (simp add: calm_def)

lemma calm_update:
  assumes "f zero_occupancy = zero_occupancy" "\<And>now oc. 0 \<le> now \<Longrightarrow> live_occupancy now (f oc) \<Longrightarrow> live_occupancy now oc"
  shows "calm c (updatePointOccupancyLocked pointID create f c)"
  using assms by (simp add: calm_def occ_ok_update occupancy_of_update)

lemma calm_clear_claim: "calm c (clearPointClaimLocked pointID c)"
proof -
  have "calm c (c\<lparr>pc_claims := AList.delete pointID (pc_claims c)\<rparr>)" by (rule calm_same) simp_all
  moreover have "calm (c\<lparr>pc_claims := AList.delete pointID (pc_claims c)\<rparr>) (clearPointClaimLocked pointID c)"
    unfolding clearPointClaimLocked_def
    by (rule calm_update) (auto simp: zero_occupancy_def live_occupancy_def zero_time_def)
  ultimately show ?thesis by (rule calm_trans)
qed

lemma calm_clear_success: "calm c (snd (clearPointSuccessOccupancyLocked pointID c))"
  unfolding clearPointSuccessOccupancyLocked_def snd_conv
  by (rule calm_update) (auto simp: zero_occupancy_def live_occupancy_def zero_time_def)

lemma calm_fold: "(\<And>x c. calm c (f x c)) \<Longrightarrow> calm c (fold f xs c)"
  by (induction xs arbitrary: c) (auto intro: calm_trans)

lemma calm_clearExpired: "calm c (clearExpiredClaims now c)"
proof -
  let ?f = "\<lambda>(pointID, claim) c. if now > cl_ExpiresAt claim then clearPointClaimLocked pointID c else c"
  have "calm c (fold ?f (pc_claims c) c)" by (rule calm_fold) (simp add: calm_clear_claim split: prod.split)
  moreover have "calm (fold ?f (pc_claims c) c) (clearExpiredClaims now c)"
    unfolding clearExpiredClaims_def Let_def by (rule calm_same) simp_all
  ultimately show ?thesis by (rule calm_trans)
qed

lemma calm_discard: "calm c (discardPositionLocked uid pos c)"
  by (simp add: discardPositionLocked_def calm_clear_claim split: option.split)

lemma calm_Discard: "calm c (Discard uid pos c)"
  by (simp add: Discard_def calm_discard)

lemma calm_release: "calm c (fst (fold (release_claim uid) xs (c, n)))"
proof (induction xs arbitrary: c n)
  case (Cons x xs)
  have "calm c (fst (release_claim uid x (c, n)))"
    by (cases x) (simp add: release_claim_def Let_def case_prod_beta calm_trans [OF calm_clear_claim calm_clear_success])
  moreover have "calm (fst (release_claim uid x (c, n))) (fst (fold (release_claim uid) xs (release_claim uid x (c, n))))"
    by (metis Cons.IH prod.collapse)
  ultimately show ?case using calm_trans by simp
qed simp

lemma calm_ReleaseUID: "calm c (ReleaseUID uid c)"
proof -
  let ?r = "fold (release_claim uid) (pc_claims c) (c, 0)"
  have "calm (fst ?r) (fst ?r\<lparr>pc_activeDirty := pc_activeDirty (fst ?r) + snd ?r\<rparr>)" by (rule calm_same) simp_all
  then show ?thesis using calm_release [of c uid "pc_claims c" 0] calm_trans by (auto simp: ReleaseUID_def Let_def case_prod_beta)
qed

lemma calm_prune: "calm c (prunePointEvidenceLocked now c)"
  unfolding prunePointEvidenceLocked_def Let_def by (rule calm_same) simp_all

lemma calm_remember: "calm c (rememberPointEvidence now uid pos reason c)"
  by (rule calm_same) (simp_all add: rememberPointEvidence_def prunePointEvidenceLocked_def Let_def)

lemma calm_forget: "calm c (forgetPointEvidence now uid pos reason c)"
  by (rule calm_same) (simp_all add: forgetPointEvidence_def prunePointEvidenceLocked_def Let_def split: option.split)

lemma calm_saveCache: "calm c (saveCache write now c)"
  unfolding saveCache_def by auto

lemma calm_saveActive: "calm c (saveActiveOccupancies write now c)"
  unfolding saveActiveOccupancies_def by auto

subsection \<open>The search for a free point\<close>

definition recently_failed :: "PointCoordinator \<Rightarrow> GridPoint \<Rightarrow> time \<Rightarrow> duration \<Rightarrow> bool" where
  "recently_failed c pt now lease = fst (recentFailedPoint pt now lease c)"

definition fresh :: "time \<Rightarrow> PointCoordinator \<Rightarrow> bool" where
  "fresh now c \<longleftrightarrow> (\<forall>(pointID, until) \<in> set (pc_cooldown c). now < until)"

lemma fresh_clearExpired: "fresh now (clearExpiredClaims now c)"
  by (auto simp: fresh_def clearExpiredClaims_def Let_def)

lemma recentFailed_fresh: "fresh now c \<Longrightarrow> recentFailedPoint pt now lease c = (recently_failed c pt now lease, c)"
  by (auto simp: recently_failed_def recentFailedPoint_def pointCoolingDownLocked_def fresh_def Let_def
      dest: map_of_SomeD split: option.splits prod.splits stamp.splits if_splits)

definition free :: "PointCoordinator \<Rightarrow> claim_call \<Rightarrow> GridPoint \<Rightarrow> bool" where
  "free c call pt \<longleftrightarrow>
     \<not> positionRecentlyOccupied c (pointArea pt) pt (call_now call) \<and> \<not> recently_failed c pt (call_now call) (call_lease call)"

text \<open>
  What a search leaves behind: nothing found and nothing changed, where every wanted point is taken, or a claim on a free point.
\<close>

definition searched :: "claim_call \<Rightarrow> (PointCoordinator \<Rightarrow> nat \<Rightarrow> bool) \<Rightarrow> nat set \<Rightarrow> PointCoordinator \<Rightarrow> Position option \<times> PointCoordinator \<Rightarrow> bool" where
  "searched call wanted is c res \<longleftrightarrow>
     (case res of
        (None, c') \<Rightarrow> c' = c \<and> (\<forall>i \<in> is. \<not> (wanted c i \<and> free c call (pc_points c ! i)))
      | (Some pos, c') \<Rightarrow> (\<exists>i < length (pc_points c). \<exists>source. free c call (pc_points c ! i) \<and> pos = position_of (pc_points c ! i) source \<and>
            c' = setPointClaimLocked (gp_ID (pc_points c ! i)) (call_claim call) c))"

lemma cursor_simps [simp]:
  "positionRecentlyOccupied (c\<lparr>pc_areaCursor := k\<rparr>) a pt now = positionRecentlyOccupied c a pt now"
  "recently_failed (c\<lparr>pc_areaCursor := k\<rparr>) pt now lease = recently_failed c pt now lease"
  "free (c\<lparr>pc_areaCursor := k\<rparr>) call pt = free c call pt"
  "fresh now (c\<lparr>pc_areaCursor := k\<rparr>) = fresh now c"
  "byArea_of (c\<lparr>pc_areaCursor := k\<rparr>) a = byArea_of c a"
proof -
  show occ: "positionRecentlyOccupied (c\<lparr>pc_areaCursor := k\<rparr>) a pt now = positionRecentlyOccupied c a pt now" for a now
    by (simp add: positionRecentlyOccupied_def cong: option.case_cong)
  show rf: "recently_failed (c\<lparr>pc_areaCursor := k\<rparr>) pt now lease = recently_failed c pt now lease" for now lease
    by (simp add: recently_failed_def recentFailedPoint_def pointCoolingDownLocked_def Let_def split: option.split prod.split stamp.split)
  show "free (c\<lparr>pc_areaCursor := k\<rparr>) call pt = free c call pt" by (simp add: free_def occ rf)
  show "fresh now (c\<lparr>pc_areaCursor := k\<rparr>) = fresh now c" by (simp add: fresh_def)
  show "byArea_of (c\<lparr>pc_areaCursor := k\<rparr>) a = byArea_of c a" by (simp add: byArea_of_def)
qed

definition wanted_from :: "string \<Rightarrow> bool \<Rightarrow> PointCoordinator \<Rightarrow> nat \<Rightarrow> bool" where
  "wanted_from status packedOnly c i \<longleftrightarrow>
     (let pointID = gp_ID (pc_points c ! i) in
      (if status = PointStatusSuccess then pointID \<in> pc_success c else \<not> (status = PointStatusUnknown \<and> pointID \<in> pc_tried c)) \<and>
      (packedOnly \<longrightarrow> pointID \<in> pc_packed c) \<and> pointID \<notin> pc_failed c)"

definition wanted_failed :: "bool \<Rightarrow> PointCoordinator \<Rightarrow> nat \<Rightarrow> bool" where
  "wanted_failed packedOnly c i \<longleftrightarrow>
     (packedOnly \<longrightarrow> gp_ID (pc_points c ! i) \<in> pc_packed c) \<and> gp_ID (pc_points c ! i) \<in> pc_failed c"

lemma searched_None: "searched call wanted is c (None, c) \<longleftrightarrow> (\<forall>i \<in> is. \<not> (wanted c i \<and> free c call (pc_points c ! i)))"
  by (simp add: searched_def)

lemma searched_Some:
  "i < length (pc_points c) \<Longrightarrow> free c call (pc_points c ! i) \<Longrightarrow>
   searched call wanted is c (Some (position_of (pc_points c ! i) source), setPointClaimLocked (gp_ID (pc_points c ! i)) (call_claim call) c)"
  unfolding searched_def prod.case option.case by blast

lemma searched_more:
  "searched call wanted is c res \<Longrightarrow> (\<And>i. i \<in> js \<Longrightarrow> i \<notin> is \<Longrightarrow> \<not> (wanted c i \<and> free c call (pc_points c ! i))) \<Longrightarrow>
   searched call wanted js c res"
  by (auto simp: searched_def split: prod.splits option.splits)

lemma searched_insert:
  "searched call wanted is c res \<Longrightarrow> \<not> (wanted c i \<and> free c call (pc_points c ! i)) \<Longrightarrow> searched call wanted (insert i is) c res"
  by (auto simp: searched_def split: prod.splits option.splits)

lemma claimFromArea_loop_searched:
  assumes "fresh (call_now call) c" "\<forall>i \<in> set idxs. i < length (pc_points c) \<and> pointArea (pc_points c ! i) = area"
  shows "searched call (wanted_from status packedOnly) (set idxs) c (claimFromArea_loop call area status packedOnly idxs c)"
  using assms(2)
proof (induction idxs)
  case Nil
  then show ?case by (simp add: searched_None)
next
  case (Cons i idxs)
  let ?pt = "pc_points c ! i"
  have i: "i < length (pc_points c)" "pointArea ?pt = area" using Cons.prems by simp_all
  note rf = recentFailed_fresh [OF assms(1), of ?pt "call_lease call"]
  show ?case
  proof (cases "wanted_from status packedOnly c i \<and> free c call ?pt")
    case True
    then have "claimFromArea_loop call area status packedOnly (i # idxs) c =
        (Some (position_of ?pt (if status = PointStatusSuccess then PointSourceSuccess else PointSourceUnknown)),
         setPointClaimLocked (gp_ID ?pt) (call_claim call) c)"
      using i(2) by (auto simp: wanted_from_def free_def rf Let_def split: if_splits)
    with True i(1) searched_Some show ?thesis by simp
  next
    case False
    then have "claimFromArea_loop call area status packedOnly (i # idxs) c = claimFromArea_loop call area status packedOnly idxs c"
      using i(2) by (auto simp: wanted_from_def free_def rf Let_def split: if_splits)
    with Cons False searched_insert show ?thesis by simp
  qed
qed

lemma claimFailedFromArea_loop_searched:
  assumes "fresh (call_now call) c" "\<forall>i \<in> set idxs. i < length (pc_points c) \<and> pointArea (pc_points c ! i) = area"
  shows "searched call (wanted_failed packedOnly) (set idxs) c (claimFailedFromArea_loop call area packedOnly idxs c)"
  using assms(2)
proof (induction idxs)
  case Nil
  then show ?case by (simp add: searched_None)
next
  case (Cons i idxs)
  let ?pt = "pc_points c ! i"
  have i: "i < length (pc_points c)" "pointArea ?pt = area" using Cons.prems by simp_all
  note rf = recentFailed_fresh [OF assms(1), of ?pt "call_lease call"]
  show ?case
  proof (cases "wanted_failed packedOnly c i \<and> free c call ?pt")
    case True
    then have "claimFailedFromArea_loop call area packedOnly (i # idxs) c =
        (Some (position_of ?pt PointSourceFailedRetry), setPointClaimLocked (gp_ID ?pt) (call_claim call) c)"
      using i(2) by (auto simp: wanted_failed_def free_def rf Let_def)
    with True i(1) searched_Some show ?thesis by simp
  next
    case False
    then have "claimFailedFromArea_loop call area packedOnly (i # idxs) c = claimFailedFromArea_loop call area packedOnly idxs c"
      using i(2) by (auto simp: wanted_failed_def free_def rf Let_def)
    with Cons False searched_insert show ?thesis by simp
  qed
qed

lemma areaHasUsableSuccess_same: "fresh (call_now call) c \<Longrightarrow> snd (areaHasUsableSuccess_loop call idxs c) = c"
  by (induction idxs) (simp_all add: recentFailed_fresh Let_def)

definition area_search :: "claim_call \<Rightarrow> (PointCoordinator \<Rightarrow> nat \<Rightarrow> bool) \<Rightarrow> PointCoordinator \<Rightarrow> (area \<Rightarrow> PointCoordinator \<Rightarrow> Position option \<times> PointCoordinator) \<Rightarrow> bool" where
  "area_search call wanted c fn \<longleftrightarrow>
     (\<forall>k i. wanted (c\<lparr>pc_areaCursor := k\<rparr>) i = wanted c i) \<and>
     (\<forall>k a. searched call wanted {i. i < length (pc_points c) \<and> pointArea (pc_points c ! i) = a} (c\<lparr>pc_areaCursor := k\<rparr>)
        (fn a (c\<lparr>pc_areaCursor := k\<rparr>)))"

lemma area_searchD:
  "area_search call wanted c fn \<Longrightarrow>
     searched call wanted {i. i < length (pc_points c) \<and> pointArea (pc_points c ! i) = a} (c\<lparr>pc_areaCursor := k\<rparr>) (fn a (c\<lparr>pc_areaCursor := k\<rparr>))"
  unfolding area_search_def by blast

lemma claimFromArea_search:
  assumes "fresh (call_now call) c" "index_ok c"
  shows "area_search call (wanted_from status packedOnly) c (claimFromArea call status packedOnly)"
  unfolding area_search_def
proof (intro conjI allI)
  fix k a
  have "\<forall>i \<in> set (byArea_of c a). i < length (pc_points c) \<and> pointArea (pc_points c ! i) = a" using index_byArea [OF assms(2)] by blast
  moreover have "set (byArea_of c a) = {i. i < length (pc_points c) \<and> pointArea (pc_points c ! i) = a}" using index_byArea [OF assms(2)] by blast
  ultimately show "searched call (wanted_from status packedOnly) {i. i < length (pc_points c) \<and> pointArea (pc_points c ! i) = a}
      (c\<lparr>pc_areaCursor := k\<rparr>) (claimFromArea call status packedOnly a (c\<lparr>pc_areaCursor := k\<rparr>))"
    using claimFromArea_loop_searched [of call "c\<lparr>pc_areaCursor := k\<rparr>" "byArea_of c a" a status packedOnly] assms(1)
    by (simp add: claimFromArea_def)
qed (simp add: wanted_from_def)

lemma claimFailed_search:
  assumes "fresh (call_now call) c" "index_ok c"
  shows "area_search call (\<lambda>c i. \<not> requireAreaSuccess \<and> wanted_failed packedOnly c i) c (claimFailedFromArea call packedOnly requireAreaSuccess)"
  unfolding area_search_def
proof (intro conjI allI)
  fix k a
  let ?c = "c\<lparr>pc_areaCursor := k\<rparr>"
  have "\<forall>i \<in> set (byArea_of c a). i < length (pc_points c) \<and> pointArea (pc_points c ! i) = a" using index_byArea [OF assms(2)] by blast
  moreover have "set (byArea_of c a) = {i. i < length (pc_points c) \<and> pointArea (pc_points c ! i) = a}" using index_byArea [OF assms(2)] by blast
  ultimately have loop: "searched call (wanted_failed packedOnly) {i. i < length (pc_points c) \<and> pointArea (pc_points c ! i) = a} ?c
      (claimFailedFromArea_loop call a packedOnly (byArea_of c a) ?c)"
    using claimFailedFromArea_loop_searched [of call ?c "byArea_of c a" a packedOnly] assms(1) by simp
  have same: "snd (areaHasUsableSuccess call a ?c) = ?c"
    unfolding areaHasUsableSuccess_def using assms(1) by (simp add: areaHasUsableSuccess_same)
  have weaker: "searched call (\<lambda>c i. \<not> requireAreaSuccess \<and> wanted_failed packedOnly c i) is c' res"
    if "searched call (wanted_failed packedOnly) is c' res" for "is" c' res
    using that by (auto simp: searched_def split: prod.splits option.splits)
  show "searched call (\<lambda>c i. \<not> requireAreaSuccess \<and> wanted_failed packedOnly c i) {i. i < length (pc_points c) \<and> pointArea (pc_points c ! i) = a} ?c
      (claimFailedFromArea call packedOnly requireAreaSuccess a ?c)"
    using weaker [OF loop] same
    by (cases "areaHasUsableSuccess call a ?c") (auto simp: claimFailedFromArea_def Let_def searched_None)
qed (simp add: wanted_failed_def)

lemma claim_scan_searched:
  assumes "area_search call wanted c fn"
  shows "\<exists>k'. searched call wanted {i. i < length (pc_points c) \<and>
      (\<exists>j < n. pointArea (pc_points c ! i) = pc_areaOrder c ! ((k + j) mod length (pc_areaOrder c)))}
    (c\<lparr>pc_areaCursor := k'\<rparr>) (claim_scan n fn (c\<lparr>pc_areaCursor := k\<rparr>))"
proof (induction n arbitrary: k)
  case 0
  then show ?case by (intro exI [of _ k]) (simp add: searched_None)
next
  case (Suc n)
  let ?len = "length (pc_areaOrder c)"
  let ?k = "(k + 1) mod ?len" and ?a = "pc_areaOrder c ! (k mod ?len)"
  note first = area_searchD [OF assms, of ?a ?k]
  show ?case
  proof (cases "fn ?a (c\<lparr>pc_areaCursor := ?k\<rparr>)")
    case (Pair found c')
    show ?thesis
    proof (cases found)
      case (Some pos)
      with Pair first have "searched call wanted X (c\<lparr>pc_areaCursor := ?k\<rparr>) (Some pos, c')" for X by (simp add: searched_def)
      with Pair Some show ?thesis by (intro exI [of _ ?k]) (simp add: Let_def)
    next
      case None
      with Pair first have c': "c' = c\<lparr>pc_areaCursor := ?k\<rparr>"
        and none: "\<forall>i < length (pc_points c). pointArea (pc_points c ! i) = ?a \<longrightarrow> \<not> (wanted c i \<and> free c call (pc_points c ! i))"
        using assms by (auto simp: searched_def area_search_def)
      from Suc.IH [of ?k] obtain k' where rest: "searched call wanted {i. i < length (pc_points c) \<and>
          (\<exists>j < n. pointArea (pc_points c ! i) = pc_areaOrder c ! ((?k + j) mod ?len))} (c\<lparr>pc_areaCursor := k'\<rparr>)
          (claim_scan n fn (c\<lparr>pc_areaCursor := ?k\<rparr>))" ..
      have shift: "(\<exists>j < Suc n. P ((k + j) mod ?len)) \<longleftrightarrow> P (k mod ?len) \<or> (\<exists>j < n. P ((?k + j) mod ?len))" for P
        by (auto simp: mod_simps less_Suc_eq_0_disj Ex_less_Suc2)
      have "searched call wanted {i. i < length (pc_points c) \<and> (\<exists>j < Suc n. pointArea (pc_points c ! i) = pc_areaOrder c ! ((k + j) mod ?len))}
          (c\<lparr>pc_areaCursor := k'\<rparr>) (claim_scan n fn (c\<lparr>pc_areaCursor := ?k\<rparr>))"
      proof (rule searched_more [OF rest])
        fix i
        assume i: "i \<in> {i. i < length (pc_points c) \<and> (\<exists>j < Suc n. pointArea (pc_points c ! i) = pc_areaOrder c ! ((k + j) mod ?len))}"
          "i \<notin> {i. i < length (pc_points c) \<and> (\<exists>j < n. pointArea (pc_points c ! i) = pc_areaOrder c ! ((?k + j) mod ?len))}"
        with shift [of "\<lambda>p. pointArea (pc_points c ! i) = pc_areaOrder c ! p"] have "pointArea (pc_points c ! i) = ?a" by blast
        with i(1) none assms show "\<not> (wanted (c\<lparr>pc_areaCursor := k'\<rparr>) i \<and> free (c\<lparr>pc_areaCursor := k'\<rparr>) call (pc_points (c\<lparr>pc_areaCursor := k'\<rparr>) ! i))"
          by (simp add: area_search_def)
      qed
      with Pair None c' show ?thesis by (auto simp: Let_def)
    qed
  qed
qed

lemma cursor_covers: "p < len \<Longrightarrow> \<exists>j < len. (k + j) mod len = p" for len :: nat
proof -
  assume p: "p < len"
  let ?j = "(p + (len - k mod len)) mod len"
  have "(k + ?j) mod len = (k mod len + (p + (len - k mod len))) mod len" by (simp add: mod_simps)
  also have "k mod len + (p + (len - k mod len)) = p + len" using p mod_less_divisor [of len k] by linarith
  finally have "(k + ?j) mod len = p" using p by simp
  moreover have "?j < len" using p by simp
  ultimately show ?thesis by blast
qed

lemma claimAcrossAreas_searched:
  assumes "area_search call wanted c fn" "index_ok c"
  shows "\<exists>k'. searched call wanted {..<length (pc_points c)} (c\<lparr>pc_areaCursor := k'\<rparr>) (claimAcrossAreas fn (c\<lparr>pc_areaCursor := k\<rparr>))"
proof -
  let ?len = "length (pc_areaOrder c)"
  have "\<exists>j < ?len. pointArea (pc_points c ! i) = pc_areaOrder c ! ((k + j) mod ?len)" if "i < length (pc_points c)" for i
  proof -
    have "pointArea (pc_points c ! i) \<in> set (pc_areaOrder c)" using assms(2) that by (simp add: index_ok_def)
    then obtain p where p: "p < ?len" "pc_areaOrder c ! p = pointArea (pc_points c ! i)" by (auto simp: in_set_conv_nth)
    with cursor_covers [OF p(1), of k] show ?thesis by auto
  qed
  then have "{i. i < length (pc_points c) \<and> (\<exists>j < ?len. pointArea (pc_points c ! i) = pc_areaOrder c ! ((k + j) mod ?len))} = {..<length (pc_points c)}"
    by auto
  with claim_scan_searched [OF assms(1), of ?len k] show ?thesis by (simp add: claimAcrossAreas_def)
qed

lemma first_claim_searched:
  assumes "list_all2 (\<lambda>fn wanted. area_search call wanted c fn) fns ws" "index_ok c"
  shows "\<exists>k'. searched call (\<lambda>c i. \<exists>wanted \<in> set ws. wanted c i) {..<length (pc_points c)} (c\<lparr>pc_areaCursor := k'\<rparr>) (first_claim fns (c\<lparr>pc_areaCursor := k\<rparr>))"
  using assms(1)
proof (induction fns ws arbitrary: k rule: list_all2_induct)
  case Nil
  then show ?case by (intro exI [of _ k]) (simp add: searched_None)
next
  case (Cons fn fns w ws)
  from claimAcrossAreas_searched [OF Cons(1) assms(2), of k] obtain k1 found c'
    where s: "searched call w {..<length (pc_points c)} (c\<lparr>pc_areaCursor := k1\<rparr>) (found, c')"
      and r: "claimAcrossAreas fn (c\<lparr>pc_areaCursor := k\<rparr>) = (found, c')" by (metis surj_pair)
  show ?case
  proof (cases found)
    case None
    then have c': "c' = c\<lparr>pc_areaCursor := k1\<rparr>" and none: "\<forall>i < length (pc_points c). \<not> (w c i \<and> free c call (pc_points c ! i))"
      using s Cons(1) by (auto simp: searched_def area_search_def)
    from Cons(3) [of k1] obtain k2 where "searched call (\<lambda>c i. \<exists>wanted \<in> set ws. wanted c i) {..<length (pc_points c)}
        (c\<lparr>pc_areaCursor := k2\<rparr>) (first_claim fns (c\<lparr>pc_areaCursor := k1\<rparr>))" ..
    then have "searched call (\<lambda>c i. \<exists>wanted \<in> set (w # ws). wanted c i) {..<length (pc_points c)}
        (c\<lparr>pc_areaCursor := k2\<rparr>) (first_claim fns (c\<lparr>pc_areaCursor := k1\<rparr>))"
      using none Cons(1) by (auto simp: searched_def area_search_def split: prod.splits option.splits)
    then show ?thesis using r None c' by auto
  next
    case (Some pos)
    then show ?thesis using r s by (intro exI [of _ k1]) (simp add: searched_def)
  qed
qed

definition tried_ok :: "PointCoordinator \<Rightarrow> bool" where
  "tried_ok c \<longleftrightarrow> pc_tried c \<subseteq> pc_success c \<union> pc_failed c"

lemma pc_claim_searched:
  fixes c uid now lease reuseAfter
  defines "call \<equiv> \<lparr>call_uid = uid, call_now = now, call_lease = normalizePointLease lease, call_reuseAfter = reuseAfter\<rparr>"
    and "d \<equiv> clearExpiredClaims now c"
  assumes "index_ok c" "tried_ok c"
  shows "\<exists>k. searched call (\<lambda>_ _. True) {..<length (pc_points d)} (d\<lparr>pc_areaCursor := k\<rparr>) (pc_claim uid now lease reuseAfter c)"
proof (cases "pc_areaOrder d = []")
  case True
  have "index_ok d" using assms(3) calm_index_ok [OF calm_clearExpired] by (simp add: d_def)
  with True have "pc_points d = []" by (simp add: index_ok_def)
  with True show ?thesis by (intro exI [of _ "pc_areaCursor d"]) (simp add: pc_claim_def Let_def d_def [symmetric] searched_None)
next
  case False
  let ?fns = "[claimFromArea call PointStatusSuccess True, claimFromArea call PointStatusSuccess False, claimFromArea call PointStatusUnknown True,
     claimFailedFromArea call True True, claimFromArea call PointStatusUnknown False, claimFailedFromArea call False False]"
  let ?ws = "[wanted_from PointStatusSuccess True, wanted_from PointStatusSuccess False, wanted_from PointStatusUnknown True,
     \<lambda>c i. \<not> True \<and> wanted_failed True c i, wanted_from PointStatusUnknown False, \<lambda>c i. \<not> False \<and> wanted_failed False c i]"
  have ok: "index_ok d" using assms(3) calm_index_ok [OF calm_clearExpired] by (simp add: d_def)
  have fresh: "fresh (call_now call) d" by (simp add: d_def call_def fresh_clearExpired)
  have "list_all2 (\<lambda>fn wanted. area_search call wanted d fn) ?fns ?ws"
    unfolding list_all2_Cons using claimFromArea_search [OF fresh ok] claimFailed_search [OF fresh ok] by blast
  from first_claim_searched [OF this ok, of "pc_areaCursor d"]
  obtain k where s: "searched call (\<lambda>c i. \<exists>wanted \<in> set ?ws. wanted c i) {..<length (pc_points d)} (d\<lparr>pc_areaCursor := k\<rparr>) (first_claim ?fns d)"
    by auto
  have "\<exists>wanted \<in> set ?ws. wanted d' i" if "d' = d\<lparr>pc_areaCursor := k\<rparr>" for d' i
  proof -
    have "pc_tried d \<subseteq> pc_success d \<union> pc_failed d" using assms(4) calm_fields [OF calm_clearExpired, of now c] by (simp add: tried_ok_def d_def)
    then show ?thesis using that
      by (auto simp: wanted_from_def wanted_failed_def Let_def PointStatusSuccess_def PointStatusUnknown_def)
  qed
  with s have "searched call (\<lambda>_ _. True) {..<length (pc_points d)} (d\<lparr>pc_areaCursor := k\<rparr>) (first_claim ?fns d)"
    by (auto simp: searched_def split: prod.splits option.splits)
  with False show ?thesis by (intro exI [of _ k]) (simp add: pc_claim_def Let_def d_def [symmetric] call_def [symmetric])
qed

subsection \<open>Operations that change points\<close>

definition core :: "GridPoint \<Rightarrow> string \<times> int \<times> int \<times> int \<times> int" where
  "core p = (gp_ID p, gp_Village p, gp_Area p, gp_X p, gp_Y p)"

lemma core_eq:
  assumes "core p = core q"
  shows "gp_ID p = gp_ID q" "pointArea p = pointArea q" "point_cell p = point_cell q" "occupancyCellFor (gp_X p) (gp_Y p) = occupancyCellFor (gp_X q) (gp_Y q)"
    "positionsConflict p r = positionsConflict q r" "positionsConflict r p = positionsConflict r q"
  using assms by (auto simp: core_def pointArea_def point_cell_def positionsConflict_def)

definition same_grid :: "PointCoordinator \<Rightarrow> PointCoordinator \<Rightarrow> bool" where
  "same_grid c c' \<longleftrightarrow> map core (pc_points c') = map core (pc_points c) \<and> pc_byID c' = pc_byID c \<and> pc_byArea c' = pc_byArea c \<and> pc_areaOrder c' = pc_areaOrder c"

lemma same_grid_length: "same_grid c c' \<Longrightarrow> length (pc_points c') = length (pc_points c)"
  unfolding same_grid_def by (metis length_map)

lemma same_grid_core: "same_grid c c' \<Longrightarrow> i < length (pc_points c) \<Longrightarrow> core (pc_points c' ! i) = core (pc_points c ! i)"
  using same_grid_length [of c c'] unfolding same_grid_def by (metis nth_map)

lemma same_grid_index_ok:
  assumes grid: "same_grid c c'" and ok: "index_ok c"
  shows "index_ok c'"
proof -
  note len = same_grid_length [OF grid] and core = same_grid_core [OF grid]
  have "map gp_ID (pc_points c') = map gp_ID (pc_points c)"
    using len by (intro nth_equalityI) (simp_all add: core_eq(1) [OF core])
  moreover have "map pointArea (pc_points c') = map pointArea (pc_points c)"
    using len by (intro nth_equalityI) (simp_all add: core_eq(2) [OF core])
  then have "pointArea ` set (pc_points c') = pointArea ` set (pc_points c)" by (metis list.set_map)
  moreover have "byArea_of c' = byArea_of c" using grid by (auto simp: same_grid_def byArea_of_def)
  moreover have "(i < length (pc_points c') \<and> gp_ID (pc_points c' ! i) = pointID) = (i < length (pc_points c) \<and> gp_ID (pc_points c ! i) = pointID)"
    "(i < length (pc_points c') \<and> pointArea (pc_points c' ! i) = a) = (i < length (pc_points c) \<and> pointArea (pc_points c ! i) = a)" for i pointID a
    using len core_eq(1,2) [OF core, of i] by auto
  ultimately show ?thesis using ok grid by (simp add: index_ok_def same_grid_def)
qed

text \<open>The grid stays, the index and the occupancy map stay in order, and no point outside \<open>S\<close> becomes occupied.\<close>

definition settled :: "string set \<Rightarrow> PointCoordinator \<Rightarrow> PointCoordinator \<Rightarrow> bool" where
  "settled S c c' \<longleftrightarrow> same_grid c c' \<and>
     (index_ok c \<and> occ_ok c \<longrightarrow> occ_ok c' \<and>
        (\<forall>now pointID. 0 \<le> now \<longrightarrow> live_occupancy now (occupancy_of c' pointID) \<longrightarrow> live_occupancy now (occupancy_of c pointID) \<or> pointID \<in> S))"

lemma settled_trans: "settled S c d \<Longrightarrow> settled S' d e \<Longrightarrow> settled (S \<union> S') c e"
proof -
  assume cd: "settled S c d" and de: "settled S' d e"
  then have grid: "same_grid c e" by (simp add: settled_def same_grid_def)
  have "occ_ok e \<and> (\<forall>now pointID. 0 \<le> now \<longrightarrow> live_occupancy now (occupancy_of e pointID) \<longrightarrow>
      live_occupancy now (occupancy_of c pointID) \<or> pointID \<in> S \<union> S')" if "index_ok c" "occ_ok c"
  proof -
    have d: "index_ok d" "occ_ok d" using cd that same_grid_index_ok by (auto simp: settled_def)
    show ?thesis using cd de d that unfolding settled_def by blast
  qed
  with grid show ?thesis by (simp add: settled_def)
qed

lemma settled_calm: "calm c c' \<Longrightarrow> settled {} c c'"
  by (auto simp: settled_def calm_def same_grid_def)

lemma settled_points:
  assumes "map core ps = map core (pc_points c)"
  shows "settled {} c (c\<lparr>pc_points := ps\<rparr>)"
proof -
  let ?c = "c\<lparr>pc_points := ps\<rparr>"
  have grid: "same_grid c ?c" using assms by (simp add: same_grid_def)
  have at: "pointArea (ps ! i) = pointArea (pc_points c ! i)" "point_cell (ps ! i) = point_cell (pc_points c ! i)"
      "occupancyCellFor (gp_X (ps ! i)) (gp_Y (ps ! i)) = occupancyCellFor (gp_X (pc_points c ! i)) (gp_Y (pc_points c ! i))"
    if "index_ok c" "map_of (pc_byID c) pointID = Some i" for i pointID
  proof -
    have "i < length (pc_points c)" using that index_byID by blast
    from core_eq(2-4) [OF same_grid_core [OF grid this]] show
      "pointArea (ps ! i) = pointArea (pc_points c ! i)" "point_cell (ps ! i) = point_cell (pc_points c ! i)"
      "occupancyCellFor (gp_X (ps ! i)) (gp_Y (ps ! i)) = occupancyCellFor (gp_X (pc_points c ! i)) (gp_Y (pc_points c ! i))" by simp_all
  qed
  have occ: "occupancy_of ?c pointID = occupancy_of c pointID" if "index_ok c" for pointID
    using at [OF that] by (auto simp: occupancy_of_def Let_def split: option.split)
  have "occ_ok ?c" if "index_ok c" "occ_ok c"
  proof (rule occ_okI)
    fix a cell pointID oc
    assume "(pointID, oc) \<in> set (cell_points (area_cells (pc_occupancy ?c) a) cell)"
    then have "(pointID, oc) \<in> set (cell_points (area_cells (pc_occupancy c) a) cell)" by simp
    from occ_ok_entry [OF that(2) this] at [OF that(1)]
    show "\<exists>i. map_of (pc_byID ?c) pointID = Some i \<and> pointArea (pc_points ?c ! i) = a \<and> point_cell (pc_points ?c ! i) = cell" by auto
  qed (use occ_ok_distinct [OF that(2)] in simp)
  with occ grid show ?thesis by (simp add: settled_def)
qed

lemma settled_same:
  "pc_points c' = pc_points c \<Longrightarrow> pc_byID c' = pc_byID c \<Longrightarrow> pc_byArea c' = pc_byArea c \<Longrightarrow> pc_areaOrder c' = pc_areaOrder c \<Longrightarrow>
   pc_occupancy c' = pc_occupancy c \<Longrightarrow> settled {} c c'"
  using occupancy_of_cong [of c' c] occ_ok_cong [of c' c] by (simp add: settled_def same_grid_def)

lemma settled_update: "settled {pointID} c (updatePointOccupancyLocked pointID True f c)"
  by (simp add: settled_def same_grid_def occ_ok_update occupancy_of_update)

lemma settled_set_claim: "settled {pointID} c (setPointClaimLocked pointID cl c)"
proof -
  have "settled {} c (c\<lparr>pc_claims := AList.update pointID cl (pc_claims c)\<rparr>)" by (rule settled_same) simp_all
  from settled_trans [OF this settled_update] show ?thesis by (simp add: setPointClaimLocked_def)
qed

lemma settled_set_success: "settled {pointID} c (setPointSuccessOccupancyLocked pointID t c)"
  unfolding setPointSuccessOccupancyLocked_def by (rule settled_update)

lemma core_list_update: "core p = core (xs ! i) \<Longrightarrow> map core (xs[i := p]) = map core xs"
  by (metis list_update_id map_update)

lemma settled_fold: "(\<And>x c. settled {} c (f x c)) \<Longrightarrow> settled {} c (fold f xs c)"
proof (induction xs arbitrary: c)
  case (Cons x xs)
  from settled_trans [OF Cons.prems Cons.IH [OF Cons.prems]] show ?case by simp
qed (simp add: settled_calm)

lemma settled_zone: "settled {} c (zone_point uid pos now i c)"
proof -
  let ?pt = "pc_points c ! i"
  let ?p = "?pt\<lparr>gp_Status := PointStatusFailed, gp_LastUID := uid, gp_LastReason := StoreReasonErr052Zone, gp_LastResultAt := now\<rparr>"
  let ?d = "c\<lparr>pc_points := (pc_points c)[i := ?p]\<rparr>"
  have "settled {} c ?d" by (rule settled_points, rule core_list_update) (simp add: core_def)
  moreover have "settled {} ?d (c\<lparr>pc_failed := insert (gp_ID ?pt) (pc_failed c), pc_tried := insert (gp_ID ?pt) (pc_tried c),
      pc_points := (pc_points c)[i := ?p]\<rparr>)" by (rule settled_same) simp_all
  ultimately have "settled {} c (c\<lparr>pc_failed := insert (gp_ID ?pt) (pc_failed c), pc_tried := insert (gp_ID ?pt) (pc_tried c),
      pc_points := (pc_points c)[i := ?p]\<rparr>)" using settled_trans [of "{}" c ?d "{}"] by simp
  then show ?thesis by (simp add: zone_point_def Let_def settled_calm)
qed

lemma zone_tried_ok: "tried_ok c \<Longrightarrow> tried_ok (zone_point uid pos now i c)"
  by (auto simp: tried_ok_def zone_point_def Let_def)

lemma mark_zone:
  "settled {} c (markRestrictiveZoneLocked uid pos now c)" "tried_ok c \<Longrightarrow> tried_ok (markRestrictiveZoneLocked uid pos now c)"
proof -
  show "settled {} c (markRestrictiveZoneLocked uid pos now c)" unfolding markRestrictiveZoneLocked_def by (rule settled_fold, rule settled_zone)
  have "tried_ok c \<Longrightarrow> tried_ok (fold (zone_point uid pos now) is c)" for "is"
    by (induction "is" arbitrary: c) (simp_all add: zone_tried_ok)
  then show "tried_ok c \<Longrightarrow> tried_ok (markRestrictiveZoneLocked uid pos now c)" by (simp add: markRestrictiveZoneLocked_def)
qed

lemma settled_mono: "S \<subseteq> T \<Longrightarrow> settled S c d \<Longrightarrow> settled T c d"
  unfolding settled_def by blast

lemma settled_step: "settled S c d \<Longrightarrow> settled {} d e \<Longrightarrow> settled S c e"
  using settled_trans [of S c d "{}" e] by simp

lemma set_claim_sets [simp]:
  "pc_tried (setPointClaimLocked pointID cl c) = pc_tried c" "pc_success (setPointClaimLocked pointID cl c) = pc_success c"
  "pc_failed (setPointClaimLocked pointID cl c) = pc_failed c" "pc_byID (setPointClaimLocked pointID cl c) = pc_byID c"
  "pc_points (setPointClaimLocked pointID cl c) = pc_points c" "pc_claims (setPointClaimLocked pointID cl c) = AList.update pointID cl (pc_claims c)"
  by (simp_all add: setPointClaimLocked_def)

lemma report_success_settled:
  "settled {pos_PointID pos} c (snd (report_success now uid pos reason c))"
  "tried_ok (c\<lparr>pc_success := insert (pos_PointID pos) (pc_success c), pc_failed := pc_failed c - {pos_PointID pos}\<rparr>) \<Longrightarrow>
   tried_ok (snd (report_success now uid pos reason c))"
proof -
  let ?id = "pos_PointID pos"
  let ?c = "clearPointEvidenceLocked ?id c"
  define d where "d = ?c\<lparr>pc_cooldown := AList.delete ?id (pc_cooldown ?c), pc_failed := pc_failed ?c - {?id},
    pc_success := insert ?id (pc_success ?c)\<rparr>"
  define e where "e = (if pointSuccessReason reason
    then setPointSuccessOccupancyLocked ?id (now + (case map_of (pc_claims d) ?id of Some cl \<Rightarrow> cl_ReuseAfter cl | None \<Rightarrow> 0)) d
    else snd (clearPointSuccessOccupancyLocked ?id d))"
  have cd: "settled {} c d" unfolding d_def by (rule settled_same) (simp_all add: clearPointEvidenceLocked_def)
  have de: "settled {?id} d e"
    using settled_set_success settled_mono [OF empty_subsetI settled_calm [OF calm_clear_success]] by (simp add: e_def)
  have core: "core ((pc_points e ! i)\<lparr>gp_Status := PointStatusSuccess, gp_Success := n, gp_LastUID := uid, gp_LastReason := reason,
      gp_LastResultAt := FormatRFC3339 now\<rparr>) = core (pc_points e ! i)" for i n by (simp add: core_def)
  have out: "snd (report_success now uid pos reason c) = (case map_of (pc_byID e) ?id of None \<Rightarrow> e | Some i \<Rightarrow>
      e\<lparr>pc_points := (pc_points e)[i := (pc_points e ! i)\<lparr>gp_Status := PointStatusSuccess, gp_Success := gp_Success (pc_points e ! i) + 1,
        gp_LastUID := uid, gp_LastReason := reason, gp_LastResultAt := FormatRFC3339 now\<rparr>]\<rparr>)"
    unfolding report_success_def Let_def d_def [symmetric] e_def
    by (cases "pointSuccessReason reason") (simp_all add: case_prod_beta)
  have "settled {} e (snd (report_success now uid pos reason c))"
    unfolding out using settled_points [OF core_list_update [OF core]] settled_calm by (auto split: option.split)
  with settled_trans [OF cd de] show "settled {?id} c (snd (report_success now uid pos reason c))" using settled_step by simp
  have sets: "pc_tried e = pc_tried c" "pc_success e = insert ?id (pc_success c)" "pc_failed e = pc_failed c - {?id}"
    using calm_fields [OF calm_clear_success, of ?id d] by (simp_all add: e_def d_def setPointSuccessOccupancyLocked_def clearPointEvidenceLocked_def)
  show "tried_ok (c\<lparr>pc_success := insert ?id (pc_success c), pc_failed := pc_failed c - {?id}\<rparr>) \<Longrightarrow> tried_ok (snd (report_success now uid pos reason c))"
    unfolding out using sets by (auto simp: tried_ok_def split: option.split)
qed

lemma report_penalty_settled:
  "settled {} c (snd (report_penalty now uid pos reason owned c))"
  "tried_ok (c\<lparr>pc_tried := pc_tried c - {pos_PointID pos}\<rparr>) \<Longrightarrow> tried_ok (snd (report_penalty now uid pos reason owned c))"
proof -
  let ?id = "pos_PointID pos"
  define d where "d = (if owned then snd (clearPointSuccessOccupancyLocked ?id c) else c)"
  define upd where "upd = (\<lambda>i st. (pc_points d ! i)\<lparr>gp_Failed := gp_Failed (pc_points d ! i) + 1, gp_LastUID := uid, gp_LastReason := reason,
    gp_LastResultAt := FormatRFC3339 now, gp_Status := st\<rparr>)"
  define e where "e = (case map_of (pc_byID d) ?id of
      None \<Rightarrow> d\<lparr>pc_failed := insert ?id (pc_failed d)\<rparr>
    | Some i \<Rightarrow> if gp_Success (pc_points d ! i) > 0
        then d\<lparr>pc_success := insert ?id (pc_success d), pc_points := (pc_points d)[i := upd i PointStatusSuccess]\<rparr>
        else d\<lparr>pc_failed := insert ?id (pc_failed d), pc_points := (pc_points d)[i := upd i PointStatusFailed]\<rparr>)"
  define f where "f = (clearPointEvidenceLocked ?id e)\<lparr>pc_cooldown := AList.delete ?id (pc_cooldown (clearPointEvidenceLocked ?id e))\<rparr>"
  have out: "snd (report_penalty now uid pos reason owned c) =
      (if restrictivePointReason reason then rebuildPackedPointsLocked (markRestrictiveZoneLocked uid pos (FormatRFC3339 now) f) else e)"
    unfolding report_penalty_def Let_def f_def e_def d_def upd_def by (cases owned) (simp_all add: case_prod_beta)
  have calm: "calm c d" by (simp add: d_def calm_clear_success)
  have core: "core (upd i st) = core (pc_points d ! i)" for i st by (simp add: upd_def core_def)
  have put: "settled {} d (d\<lparr>pc_success := S, pc_points := (pc_points d)[i := upd i st]\<rparr>)"
      "settled {} d (d\<lparr>pc_failed := S, pc_points := (pc_points d)[i := upd i st]\<rparr>)" for S i st
  proof -
    have p: "settled {} d (d\<lparr>pc_points := (pc_points d)[i := upd i st]\<rparr>)" by (rule settled_points, rule core_list_update, rule core)
    have "settled {} (d\<lparr>pc_points := (pc_points d)[i := upd i st]\<rparr>) (d\<lparr>pc_success := S, pc_points := (pc_points d)[i := upd i st]\<rparr>)"
      "settled {} (d\<lparr>pc_points := (pc_points d)[i := upd i st]\<rparr>) (d\<lparr>pc_failed := S, pc_points := (pc_points d)[i := upd i st]\<rparr>)"
      by (rule settled_same; simp)+
    with settled_step [OF p] show "settled {} d (d\<lparr>pc_success := S, pc_points := (pc_points d)[i := upd i st]\<rparr>)"
      "settled {} d (d\<lparr>pc_failed := S, pc_points := (pc_points d)[i := upd i st]\<rparr>)" by blast+
  qed
  have de: "settled {} d e" unfolding e_def using put by (auto intro: settled_same split: option.split)
  have ef: "settled {} e f" unfolding f_def clearPointEvidenceLocked_def by (rule settled_same) simp_all
  have pack: "settled {} g (rebuildPackedPointsLocked g)" for g unfolding rebuildPackedPointsLocked_def by (rule settled_same) simp_all
  have ce: "settled {} c e" by (rule settled_step [OF settled_calm [OF calm] de])
  show "settled {} c (snd (report_penalty now uid pos reason owned c))"
    unfolding out using settled_step [OF settled_step [OF settled_step [OF ce ef] mark_zone(1)] pack] ce by simp
  assume tried: "tried_ok (c\<lparr>pc_tried := pc_tried c - {?id}\<rparr>)"
  have "tried_ok e"
    using tried calm_fields [OF calm] unfolding e_def by (auto simp: tried_ok_def split: option.split)
  moreover have "tried_ok f = tried_ok e" by (simp add: tried_ok_def f_def clearPointEvidenceLocked_def)
  ultimately show "tried_ok (snd (report_penalty now uid pos reason owned c))"
    unfolding out using mark_zone(2) [of f] by (simp add: rebuildPackedPointsLocked_def tried_ok_def)
qed

lemma Report_settled:
  "settled (if ok then {pos_PointID pos} else {}) c (Report write now uid pos ok reason c) \<and>
   (tried_ok c \<longrightarrow> tried_ok (Report write now uid pos ok reason c))"
proof -
  let ?id = "pos_PointID pos" and ?S = "if ok then {pos_PointID pos} else {}"
  define d where "d = clearExpiredClaims now c"
  define existing where "existing = map_of (pc_claims d) ?id"
  define e where "e = (if ok then setPointClaimLocked ?id (reported_claim now uid reason existing) d else discardPositionLocked uid pos d)"
  define f where "f = e\<lparr>pc_tried := insert ?id (pc_tried e)\<rparr>"
  define g where "g = (if ok then report_success now uid pos reason f else report_penalty now uid pos reason (existing \<noteq> None) f)"
  define h where "h = (snd g)\<lparr>pc_dirtyCount := pc_dirtyCount (snd g) + 1,
    pc_activeDirty := (if fst g then pc_activeDirty (snd g) + 1 else pc_activeDirty (snd g))\<rparr>"
  have out: "Report write now uid pos ok reason c =
      (if ?id = [] then c else if (case existing of Some cl \<Rightarrow> cl_UID cl \<noteq> uid | None \<Rightarrow> False) then d
       else if \<not> ok \<and> \<not> pointPenaltyReason reason then e else if cacheSaveDueLocked now h then saveCache write now h else h)"
    unfolding Report_def Let_def existing_def d_def e_def f_def g_def h_def by (simp add: case_prod_beta)
  have cd: "settled {} c d" unfolding d_def by (rule settled_calm, rule calm_clearExpired)
  have "settled ?S d e" using settled_set_claim settled_calm [OF calm_discard] by (simp add: e_def)
  from settled_trans [OF cd this] have ce: "settled ?S c e" by simp
  have ef: "settled {} e f" unfolding f_def by (rule settled_same) simp_all
  have "settled ?S f (snd g)" using report_success_settled(1) report_penalty_settled(1) by (simp add: g_def)
  from settled_trans [OF settled_step [OF ce ef] this] have cg: "settled ?S c (snd g)" by (simp split: if_splits)
  have "settled {} (snd g) h" unfolding h_def by (rule settled_same) simp_all
  from settled_step [OF cg this] have ch: "settled ?S c h" .
  have "settled ?S c (saveCache write now h)" by (rule settled_step [OF ch settled_calm [OF calm_saveCache]])
  moreover have "settled ?S c d" "settled ?S c c" using settled_mono [OF empty_subsetI cd] settled_mono [OF empty_subsetI settled_calm] by simp_all
  ultimately have settled: "settled ?S c (Report write now uid pos ok reason c)" unfolding out using ce ch by (simp only: if_cancel split: if_split) blast
  have sets: "pc_tried e = pc_tried c" "pc_success e = pc_success c" "pc_failed e = pc_failed c"
    using calm_fields [OF calm_clearExpired, of now c] calm_fields [OF calm_discard, of uid pos d] by (simp_all add: e_def d_def)
  have "tried_ok (f\<lparr>pc_success := insert ?id (pc_success f), pc_failed := pc_failed f - {?id}\<rparr>)" "tried_ok (f\<lparr>pc_tried := pc_tried f - {?id}\<rparr>)"
    if "tried_ok c" using that sets by (auto simp: f_def tried_ok_def)
  with report_success_settled(2) report_penalty_settled(2) have "tried_ok c \<longrightarrow> tried_ok (snd g)" by (simp add: g_def)
  moreover have "tried_ok d = tried_ok c" "tried_ok e = tried_ok c" "tried_ok h = tried_ok (snd g)"
      "tried_ok (saveCache write now h) = tried_ok h"
    using sets calm_fields [OF calm_clearExpired, of now c] by (simp_all add: tried_ok_def d_def h_def saveCache_def)
  ultimately have "tried_ok c \<longrightarrow> tried_ok (Report write now uid pos ok reason c)" unfolding out by simp
  with settled show ?thesis by blast
qed

subsection \<open>A free point is found\<close>

definition points_ok :: "PointCoordinator \<Rightarrow> bool" where
  "points_ok c \<longleftrightarrow> index_ok c \<and> occ_ok c \<and> tried_ok c"

lemma points_ok_calm: "points_ok c \<Longrightarrow> calm c c' \<Longrightarrow> points_ok c'"
  using calm_fields [of c c'] by (simp add: points_ok_def calm_index_ok calm_occ_ok tried_ok_def)

lemma occupancy_of_set_claim:
  "occupancy_of (setPointClaimLocked pointID cl c) other =
     (if other = pointID \<and> map_of (pc_byID c) pointID \<noteq> None then (occupancy_of c pointID)\<lparr>oc_ClaimUntil := cl_ClaimUntil cl\<rparr> else occupancy_of c other)"
  using occupancy_of_cong [of "c\<lparr>pc_claims := AList.update pointID cl (pc_claims c)\<rparr>" c]
  by (auto simp: setPointClaimLocked_def occupancy_of_update)

definition blocked :: "PointCoordinator \<Rightarrow> time \<Rightarrow> duration \<Rightarrow> GridPoint \<Rightarrow> bool" where
  "blocked c now lease p \<longleftrightarrow>
     list_ex (\<lambda>q. live_occupancy now (occupancy_of c (gp_ID q)) \<and> positionsConflict p q) (pc_points c) \<or>
     fst (recentFailedPoint p now lease c)"

lemma free_iff:
  assumes "points_ok c" "0 \<le> call_now call"
  shows "free c call p \<longleftrightarrow> \<not> blocked c (call_now call) (call_lease call) p"
  using assms nine_cells [of c "call_now call" p]
  by (simp add: free_def blocked_def points_ok_def occupied_near_def list_ex_iff recently_failed_def)

lemma pc_claim_cases:
  assumes ok: "points_ok c" and now: "0 \<le> now"
  obtains (none) c' k where "pc_claim uid now lease reuseAfter c = (None, c')" "c' = (clearExpiredClaims now c)\<lparr>pc_areaCursor := k\<rparr>"
      "\<forall>p \<in> set (pc_points c). blocked (clearExpiredClaims now c) now (normalizePointLease lease) p"
  | (found) p source c' k where "p \<in> set (pc_points c)" "pc_claim uid now lease reuseAfter c = (Some (position_of p source), c')"
      "\<not> blocked (clearExpiredClaims now c) now (normalizePointLease lease) p"
      "c' = setPointClaimLocked (gp_ID p) (newPointClaim uid now (normalizePointLease lease) reuseAfter) ((clearExpiredClaims now c)\<lparr>pc_areaCursor := k\<rparr>)"
proof -
  let ?d = "clearExpiredClaims now c"
  let ?call = "\<lparr>call_uid = uid, call_now = now, call_lease = normalizePointLease lease, call_reuseAfter = reuseAfter\<rparr>"
  have d: "points_ok ?d" "pc_points ?d = pc_points c" using points_ok_calm [OF ok calm_clearExpired] calm_fields [OF calm_clearExpired, of now c] by auto
  have free: "free ?d ?call p \<longleftrightarrow> \<not> blocked ?d now (normalizePointLease lease) p" for p using free_iff [OF d(1), of ?call p] now by simp
  obtain k where s: "searched ?call (\<lambda>_ _. True) {..<length (pc_points ?d)} (?d\<lparr>pc_areaCursor := k\<rparr>) (pc_claim uid now lease reuseAfter c)"
    using pc_claim_searched [of c uid now lease reuseAfter] ok by (auto simp: points_ok_def)
  obtain res c' where r: "pc_claim uid now lease reuseAfter c = (res, c')" by fastforce
  show ?thesis
  proof (cases res)
    case None
    with s r d(2) free have "c' = ?d\<lparr>pc_areaCursor := k\<rparr>" "\<forall>p \<in> set (pc_points c). blocked ?d now (normalizePointLease lease) p"
      by (auto simp: searched_def in_set_conv_nth)
    with none r None show ?thesis by blast
  next
    case (Some pos)
    with s r obtain i source where i: "i < length (pc_points c)" "free ?d ?call (pc_points c ! i)" "pos = position_of (pc_points c ! i) source"
        "c' = setPointClaimLocked (gp_ID (pc_points c ! i)) (call_claim ?call) (?d\<lparr>pc_areaCursor := k\<rparr>)"
      by (auto simp: searched_def d(2))
    have claim: "call_claim ?call = newPointClaim uid now (normalizePointLease lease) reuseAfter" by (simp add: call_claim_def)
    show ?thesis
      by (rule found [of "pc_points c ! i" source c' k]) (use i r Some free claim in simp_all)
  qed
qed

text \<open>
  Property C10. A claim succeeds exactly when there is a free point. For a coordinator whose index and occupancy map are in order, at a time
  after the epoch: when the claim returns no position, every point either conflicts with a point that is still occupied or has failed
  too recently; when it returns one, it is the position of a point that does neither, that point is occupied from now for the
  normalized lease, in the name of the caller, and the occupancy of no other point has changed. Occupancy is what is left after expired
  claims are dropped.
\<close>

theorem claim_finds_free_point:
  assumes "points_ok c" "0 \<le> now"
  shows "let d = clearExpiredClaims now c; lease' = normalizePointLease lease in
    case pc_claim uid now lease reuseAfter c of
      (None, c') \<Rightarrow> list_all (blocked d now lease') (pc_points c)
    | (Some pos, c') \<Rightarrow> \<exists>p \<in> set (pc_points c). \<not> blocked d now lease' p \<and> pos = position_of p (pos_Source pos) \<and>
        oc_ClaimUntil (occupancy_of c' (gp_ID p)) = now + lease' \<and> map_of (pc_claims c') (gp_ID p) = Some (newPointClaim uid now lease reuseAfter) \<and>
        (\<forall>q \<in> set (pc_points c). gp_ID q \<noteq> gp_ID p \<longrightarrow> occupancy_of c' (gp_ID q) = occupancy_of d (gp_ID q))"
proof (cases rule: pc_claim_cases [OF assms, of uid lease reuseAfter, case_names none found])
  case (none c' k)
  then show ?thesis by (simp add: Let_def list_all_iff)
next
  case (found p source c' k)
  let ?d = "clearExpiredClaims now c"
  have idem: "normalizePointLease (normalizePointLease lease) = normalizePointLease lease" by (simp add: normalizePointLease_def)
  have claim: "newPointClaim uid now (normalizePointLease lease) reuseAfter = newPointClaim uid now lease reuseAfter"
    by (simp add: newPointClaim_def Let_def idem)
  have "map_of (pc_byID ?d) (gp_ID p) \<noteq> None"
  proof -
    from found(1) obtain i where "i < length (pc_points c)" "pc_points c ! i = p" by (auto simp: in_set_conv_nth)
    with assms(1) have "map_of (pc_byID c) (gp_ID p) = Some i" by (auto simp: points_ok_def index_byID)
    then show ?thesis using calm_fields [OF calm_clearExpired, of now c] by simp
  qed
  moreover have occ: "occupancy_of (?d\<lparr>pc_areaCursor := k\<rparr>) = occupancy_of ?d" by (rule occupancy_of_cong) simp_all
  ultimately have "oc_ClaimUntil (occupancy_of c' (gp_ID p)) = now + normalizePointLease lease"
      "\<forall>q. gp_ID q \<noteq> gp_ID p \<longrightarrow> occupancy_of c' (gp_ID q) = occupancy_of ?d (gp_ID q)"
      "map_of (pc_claims c') (gp_ID p) = Some (newPointClaim uid now lease reuseAfter)"
    by (simp_all add: found(4) occupancy_of_set_claim claim update_conv') (simp add: newPointClaim_def Let_def)
  with found(1-3) show ?thesis by (auto simp: Let_def position_of_def)
qed

subsection \<open>Stores keep their distance\<close>

text \<open>No two points that are occupied at a time stand too close to each other.\<close>

definition spaced :: "time \<Rightarrow> PointCoordinator \<Rightarrow> bool" where
  "spaced now c \<longleftrightarrow> (\<forall>p \<in> set (pc_points c). \<forall>q \<in> set (pc_points c). gp_ID p \<noteq> gp_ID q \<longrightarrow>
     live_occupancy now (occupancy_of c (gp_ID p)) \<longrightarrow> live_occupancy now (occupancy_of c (gp_ID q)) \<longrightarrow> \<not> positionsConflict p q)"

lemma conflict_sym: "positionsConflict p q \<longleftrightarrow> positionsConflict q p"
  by (auto simp: positionsConflict_def)

lemma live_earlier: "live_occupancy t' oc \<Longrightarrow> t \<le> t' \<Longrightarrow> live_occupancy t oc"
  by (auto simp: live_occupancy_def)

lemma spaced_later: "spaced t c \<Longrightarrow> t \<le> t' \<Longrightarrow> spaced t' c"
  unfolding spaced_def using live_earlier by blast

lemma same_grid_point:
  assumes "same_grid c c'" "p \<in> set (pc_points c')"
  shows "\<exists>q \<in> set (pc_points c). core q = core p"
proof -
  from assms(2) obtain i where i: "i < length (pc_points c')" "pc_points c' ! i = p" by (auto simp: in_set_conv_nth)
  with same_grid_core [OF assms(1), of i] same_grid_length [OF assms(1)] show ?thesis by (metis nth_mem)
qed

text \<open>An operation that occupies at most one point, which nothing occupied stands close to, keeps the distances.\<close>

lemma spaced_settled:
  assumes grid: "settled S c c'" and ok: "points_ok c" and "0 \<le> now" "spaced now c"
    and near: "\<And>p q. p \<in> set (pc_points c) \<Longrightarrow> q \<in> set (pc_points c) \<Longrightarrow> gp_ID p \<noteq> gp_ID q \<Longrightarrow> gp_ID p \<in> S \<Longrightarrow>
      live_occupancy now (occupancy_of c (gp_ID q)) \<Longrightarrow> \<not> positionsConflict p q"
    and one: "\<And>x y. x \<in> S \<Longrightarrow> y \<in> S \<Longrightarrow> x = y"
  shows "spaced now c'"
  unfolding spaced_def
proof (intro ballI impI)
  fix p' q'
  assume p': "p' \<in> set (pc_points c')" and q': "q' \<in> set (pc_points c')" and ne: "gp_ID p' \<noteq> gp_ID q'"
    and live: "live_occupancy now (occupancy_of c' (gp_ID p'))" "live_occupancy now (occupancy_of c' (gp_ID q'))"
  have "same_grid c c'" using grid by (simp add: settled_def)
  from same_grid_point [OF this p'] same_grid_point [OF this q'] obtain p q
    where p: "p \<in> set (pc_points c)" "core p = core p'" and q: "q \<in> set (pc_points c)" "core q = core q'" by blast
  have id: "gp_ID p = gp_ID p'" "gp_ID q = gp_ID q'" using core_eq(1) p(2) q(2) by blast+
  have before: "live_occupancy now (occupancy_of c pointID) \<or> pointID \<in> S" if "live_occupancy now (occupancy_of c' pointID)" for pointID
    using grid ok that assms(3) unfolding settled_def points_ok_def by blast
  have "\<not> positionsConflict p q"
  proof (cases "gp_ID p \<in> S \<or> gp_ID q \<in> S")
    case True
    with one ne id have "gp_ID p \<in> S \<and> gp_ID q \<notin> S \<or> gp_ID q \<in> S \<and> gp_ID p \<notin> S" by metis
    with before [OF live(1)] before [OF live(2)] near [OF p(1) q(1)] near [OF q(1) p(1)] ne id conflict_sym [of p q] show ?thesis by auto
  next
    case False
    with before [OF live(1)] before [OF live(2)] assms(4) p(1) q(1) ne id show ?thesis unfolding spaced_def by auto
  qed
  then show "\<not> positionsConflict p' q'" using core_eq(5) [OF p(2), of q] core_eq(6) [OF q(2), of p'] by simp
qed

lemma spaced_calm: "calm c c' \<Longrightarrow> points_ok c \<Longrightarrow> 0 \<le> now \<Longrightarrow> spaced now c \<Longrightarrow> spaced now c'"
  by (rule spaced_settled [OF settled_calm]) auto

lemma claim_spaced:
  assumes "points_ok c" "0 \<le> now" "spaced now c" "pc_claim uid now lease reuseAfter c = (res, c')"
  shows "points_ok c' \<and> spaced now c'"
proof -
  let ?d = "clearExpiredClaims now c"
  have d: "points_ok ?d" "spaced now ?d"
    using points_ok_calm [OF assms(1) calm_clearExpired] spaced_calm [OF calm_clearExpired assms(1-3)] by simp_all
  have points: "pc_points ?d = pc_points c" using calm_fields [OF calm_clearExpired] by simp
  have move: "calm ?d (?d\<lparr>pc_areaCursor := k\<rparr>)" for k by (rule calm_same) simp_all
  show ?thesis
  proof (cases rule: pc_claim_cases [OF assms(1,2), of uid lease reuseAfter, case_names none found])
    case (none e k)
    with assms(4) have "c' = ?d\<lparr>pc_areaCursor := k\<rparr>" by simp
    with points_ok_calm [OF d(1) move] spaced_calm [OF move d(1) assms(2) d(2)] show ?thesis by simp
  next
    case (found p source e k)
    let ?e = "?d\<lparr>pc_areaCursor := k\<rparr>"
    have c': "c' = setPointClaimLocked (gp_ID p) (newPointClaim uid now (normalizePointLease lease) reuseAfter) ?e" using found assms(4) by simp
    have settled: "settled {gp_ID p} ?d c'" unfolding c' using settled_trans [OF settled_calm [OF move] settled_set_claim] by simp
    have "points_ok c'"
      using settled d(1) same_grid_index_ok by (auto simp: settled_def points_ok_def tried_ok_def c')
    moreover have "spaced now c'"
    proof (rule spaced_settled [OF settled d(1) assms(2) d(2)])
      fix x q
      assume x: "x \<in> set (pc_points ?d)" "q \<in> set (pc_points ?d)" "gp_ID x \<in> {gp_ID p}" "live_occupancy now (occupancy_of ?d (gp_ID q))"
      have "x = p"
        using x(1,3) found(1) d(1) points by (auto simp: points_ok_def index_ok_def distinct_map inj_on_def)
      with found(3) x(2,4) show "\<not> positionsConflict x q" by (auto simp: blocked_def list_ex_iff)
    qed simp
    ultimately show ?thesis by blast
  qed
qed

lemma Report_spaced:
  assumes ok: "points_ok c" and now: "0 \<le> now" and spaced: "spaced now c"
    and live: "ok' \<Longrightarrow> pos_PointID pos \<in> gp_ID ` set (pc_points c) \<Longrightarrow> live_occupancy now (occupancy_of c (pos_PointID pos))"
  shows "points_ok (Report write now uid pos ok' reason c) \<and> spaced now (Report write now uid pos ok' reason c)"
proof -
  let ?c = "Report write now uid pos ok' reason c"
  have settled: "settled (if ok' then {pos_PointID pos} else {}) c ?c" and tried: "tried_ok c \<longrightarrow> tried_ok ?c"
    using Report_settled by blast+
  have "points_ok ?c" using settled tried ok same_grid_index_ok by (auto simp: settled_def points_ok_def)
  moreover have "spaced now ?c"
  proof (rule spaced_settled [OF settled ok now spaced])
    fix p q
    assume pq: "p \<in> set (pc_points c)" "q \<in> set (pc_points c)" "gp_ID p \<noteq> gp_ID q" "gp_ID p \<in> (if ok' then {pos_PointID pos} else {})"
      "live_occupancy now (occupancy_of c (gp_ID q))"
    then have id: "ok'" "pos_PointID pos = gp_ID p" by (auto split: if_splits)
    with live pq(1) have "live_occupancy now (occupancy_of c (gp_ID p))" by simp
    with pq spaced show "\<not> positionsConflict p q" unfolding spaced_def by blast
  qed (auto split: if_splits)
  ultimately show ?thesis by blast
qed

subsection \<open>Loading\<close>

lemma core_clear: "core (clearAmbiguousPointFailure p) = core p"
  by (simp add: clearAmbiguousPointFailure_def core_def)

lemma core_clear_fold:
  "map core (fold (\<lambda>ob points. points[ob_index ob := clearAmbiguousPointFailure (points ! ob_index ob)]) obs ps) = map core ps"
  by (induction obs arbitrary: ps) (simp_all add: core_list_update core_clear)

lemma core_burst: "map core (fst (normalizeAmbiguousFailureBurst ps obs)) = map core ps"
  by (simp add: normalizeAmbiguousFailureBurst_def Let_def core_clear_fold)

lemma core_burst_loop: "map core (fst (burst_loop obs st)) = map core (fst st)"
proof (induction obs st rule: burst_loop.induct)
  case (2 ob obs points pruned)
  let ?near = "\<lambda>q. time_Sub (ob_at q) (ob_at ob) \<le> pointFailureBurst"
  obtain ps n where b: "normalizeAmbiguousFailureBurst points (ob # takeWhile ?near obs) = (ps, n)" by fastforce
  have "map core ps = map core points" using core_burst [of points "ob # takeWhile ?near obs"] b by simp
  with 2 b show ?case by (simp add: Let_def)
qed simp

lemma core_bursts: "map core (fst (normalizeAmbiguousFailureBursts ps)) = map core ps"
proof -
  have "map core (fst (fold (\<lambda>key. burst_loop (f key)) keys st)) = map core (fst st)" for f :: "int \<times> string \<Rightarrow> pointFailureObservation list" and keys st
    by (induction keys arbitrary: st) (simp_all add: core_burst_loop)
  then show ?thesis by (simp add: normalizeAmbiguousFailureBursts_def Let_def)
qed

text \<open>What the index knows after the first points.\<close>

definition indexed :: "nat \<Rightarrow> PointCoordinator \<Rightarrow> bool" where
  "indexed k c \<longleftrightarrow>
     (\<forall>pointID i. map_of (pc_byID c) pointID = Some i \<longleftrightarrow> i < k \<and> gp_ID (pc_points c ! i) = pointID) \<and>
     (\<forall>a. set (byArea_of c a) = {i. i < k \<and> pointArea (pc_points c ! i) = a}) \<and>
     fst ` set (pc_byArea c) = (\<lambda>i. pointArea (pc_points c ! i)) ` {..<k} \<and> tried_ok c"

lemma index_point_indexed:
  assumes "indexed k c" "k < length (pc_points c)" "distinct (map gp_ID (pc_points c))"
  shows "indexed (Suc k) (index_point k c)"
proof -
  let ?c = "index_point k c"
  have points: "pc_points ?c = pc_points c" by (simp add: index_point_def Let_def)
  have uniq: "gp_ID (pc_points c ! i) \<noteq> gp_ID (pc_points c ! k)" if "i < k" for i
    using assms(2,3) that by (auto simp: distinct_conv_nth)
  have byID: "map_of (pc_byID ?c) pointID = Some i \<longleftrightarrow> i < Suc k \<and> gp_ID (pc_points c ! i) = pointID" for pointID i
    using assms(1) uniq by (auto simp: indexed_def index_point_def Let_def update_conv' less_Suc_eq)
  have "byArea_of ?c a = (if a = pointArea (pc_points c ! k) then byArea_of c a @ [k] else byArea_of c a)" for a
    by (simp add: index_point_def Let_def byArea_of_def update_conv')
  note added = this
  have byArea: "set (byArea_of ?c a) = {i. i < Suc k \<and> pointArea (pc_points c ! i) = a}" for a
  proof -
    have "set (byArea_of c a) = {i. i < k \<and> pointArea (pc_points c ! i) = a}" using assms(1) unfolding indexed_def by blast
    with added [of a] show ?thesis by (auto simp: less_Suc_eq)
  qed
  have keys: "fst ` set (pc_byArea ?c) = (\<lambda>i. pointArea (pc_points c ! i)) ` {..<Suc k}"
    using assms(1) by (simp add: indexed_def index_point_def Let_def dom_update lessThan_Suc)
  have "tried_ok ?c" using assms(1) by (auto simp: indexed_def index_point_def Let_def tried_ok_def)
  with points byID byArea keys show ?thesis by (simp add: indexed_def)
qed

lemma index_points_indexed:
  assumes "indexed 0 c" "distinct (map gp_ID (pc_points c))" "k \<le> length (pc_points c)"
  shows "indexed k (fold index_point [0..<k] c) \<and> pc_points (fold index_point [0..<k] c) = pc_points c \<and>
    pc_occupancy (fold index_point [0..<k] c) = pc_occupancy c"
  using assms(3)
proof (induction k)
  case (Suc k)
  let ?c = "fold index_point [0..<k] c"
  have "indexed (Suc k) (index_point k ?c)" using Suc assms(2) by (intro index_point_indexed) simp_all
  moreover have "pc_points (index_point k d) = pc_points d" "pc_occupancy (index_point k d) = pc_occupancy d" for d
    by (simp_all add: index_point_def Let_def)
  ultimately show ?case using Suc by simp
qed (simp add: assms(1))

lemma rebuildIndexes_ok:
  assumes "distinct (map gp_ID (pc_points c))"
  shows "points_ok (rebuildIndexes c) \<and> pc_occupancy (rebuildIndexes c) = []"
proof -
  obtain ps n where b: "normalizeAmbiguousFailureBursts (pc_points c) = (ps, n)" by fastforce
  have core: "map core ps = map core (pc_points c)" using core_bursts [of "pc_points c"] b by simp
  have "map gp_ID ps = map fst (map core ps)" "map gp_ID (pc_points c) = map fst (map core (pc_points c))" by (simp_all add: core_def comp_def)
  then have "map gp_ID ps = map gp_ID (pc_points c)" using core by simp
  then have distinct: "distinct (map gp_ID ps)" using assms by simp
  define d where "d = c\<lparr>pc_points := ps, pc_dirtyCount := pc_dirtyCount c + int n, pc_byID := [], pc_byArea := [], pc_occupancy := [],
    pc_failed := {}, pc_success := {}, pc_tried := {}\<rparr>"
  define e where "e = fold index_point [0..<length ps] d"
  have "indexed 0 d" by (simp add: indexed_def d_def byArea_of_def tried_ok_def)
  with index_points_indexed [of d "length ps"] distinct
  have e: "indexed (length ps) e" "pc_points e = ps" "pc_occupancy e = []" by (auto simp: d_def e_def)
  have out: "rebuildIndexes c = (rebuildPackedPointsLocked e)\<lparr>pc_areaOrder := sort (map fst (pc_byArea e))\<rparr>"
    using b by (simp add: rebuildIndexes_def Let_def d_def e_def rebuildPackedPointsLocked_def)
  have areas: "(\<lambda>i. pointArea (ps ! i)) ` {..<length ps} = pointArea ` set ps" by (force simp: in_set_conv_nth)
  have "index_ok (rebuildIndexes c)"
    using e distinct areas unfolding out index_ok_def indexed_def
    by (simp add: rebuildPackedPointsLocked_def byArea_of_def)
  moreover have "occ_ok (rebuildIndexes c)" unfolding out using e(3) by (simp add: occ_ok_def rebuildPackedPointsLocked_def area_cells_def cell_points_def)
  moreover have "tried_ok (rebuildIndexes c)" unfolding out using e(1) by (simp add: indexed_def tried_ok_def rebuildPackedPointsLocked_def)
  ultimately show ?thesis unfolding out using e(3) by (simp add: points_ok_def rebuildPackedPointsLocked_def)
qed

definition grid_state :: "string set \<times> GridPoint list \<Rightarrow> bool" where
  "grid_state st \<longleftrightarrow> fst st = gp_ID ` set (snd st) \<and> distinct (map gp_ID (snd st))"

lemma grid_state_add: "grid_state st \<Longrightarrow> grid_state (add_point mp y x st)"
  by (cases st) (auto simp: grid_state_def add_point_def new_point_def Let_def)

lemma grid_state_fold: "(\<And>x st. grid_state st \<Longrightarrow> grid_state (f x st)) \<Longrightarrow> grid_state st \<Longrightarrow> grid_state (fold f xs st)"
  by (induction xs arbitrary: st) auto

lemma grid_state_map: "grid_state st \<Longrightarrow> grid_state (add_map mp st)"
  by (auto simp: add_map_def intro!: grid_state_fold grid_state_add)

lemma sort_key_distinct_map: "distinct (map f xs) \<Longrightarrow> distinct (map f (sort_key k xs))"
  by (simp add: distinct_map)

lemma BuildGridPoints_distinct: "distinct (map gp_ID (BuildGridPoints maps))"
proof -
  have "grid_state (fold add_map maps ({}, []))" by (rule grid_state_fold, rule grid_state_map) (simp_all add: grid_state_def)
  then show ?thesis unfolding BuildGridPoints_def by (intro sort_key_distinct_map) (simp add: grid_state_def)
qed

lemma FilterEligible_distinct: "distinct (map gp_ID ps) \<Longrightarrow> distinct (map gp_ID (FilterEligibleGridPoints ps maps))"
  by (simp add: FilterEligibleGridPoints_def Let_def distinct_map_filter)

lemma restore_settled: "points_ok c \<Longrightarrow> points_ok (fst (fold (restore_one now) active (c, n)))"
proof (induction active arbitrary: c n)
  case (Cons ao active)
  have "points_ok (fst (restore_one now ao (c, n)))"
  proof -
    let ?c = "setPointSuccessOccupancyLocked (ao_PointID ao) (ao_Until ao) c"
    have "index_ok ?c" "occ_ok ?c" using Cons.prems settled_set_success [of "ao_PointID ao" c "ao_Until ao"] same_grid_index_ok
      by (auto simp: points_ok_def settled_def)
    moreover have "tried_ok ?c = tried_ok c" by (simp add: tried_ok_def setPointSuccessOccupancyLocked_def)
    ultimately show ?thesis using Cons.prems by (simp add: restore_one_def points_ok_def)
  qed
  then show ?case using Cons.IH [of "fst (restore_one now ao (c, n))" "snd (restore_one now ao (c, n))"] by simp
qed simp

lemma loadActive_ok: "points_ok c \<Longrightarrow> points_ok (fst (loadActiveOccupancies file now c))"
  by (simp add: loadActiveOccupancies_def restoreActiveOccupanciesLocked_def restore_settled split: option.split)

lemma load_ok:
  assumes "load source cache active write now c = (True, c')" "\<And>ch. cache = Some ch \<Longrightarrow> distinct (map gp_ID (ch_Points ch))"
  shows "points_ok c'"
proof -
  have "points_ok (fst (loadActiveOccupancies active now (rebuildIndexes d)))" if "distinct (map gp_ID (pc_points d))" for d
    using rebuildIndexes_ok [OF that] loadActive_ok by blast
  then show ?thesis using assms BuildGridPoints_distinct
    by (auto simp: load_def Let_def FilterEligible_distinct split: option.splits if_splits prod.splits)
qed

lemma unoccupied_spaced: "pc_occupancy c = [] \<Longrightarrow> 0 \<le> now \<Longrightarrow> spaced now c"
proof -
  assume e: "pc_occupancy c = []" and now: "0 \<le> now"
  have "occupancy_of c pointID = zero_occupancy" for pointID
    using e by (simp add: occupancy_of_def Let_def area_cells_def cell_points_def split: option.split)
  then show ?thesis using now by (simp add: spaced_def)
qed

subsection \<open>Every run\<close>

text \<open>
  The states a coordinator reaches, with the time of its last operation: it is loaded, with a cache file that names each point once and
  active points that keep their distance, and then used. A success is reported while the point is still occupied; a report that comes
  later occupies the point again without looking at its neighbours.
\<close>

inductive store_reachable :: "PointCoordinator \<Rightarrow> time \<Rightarrow> bool" where
  start: "load source cache active write t c0 = (True, c) \<Longrightarrow> (\<forall>ch. cache = Some ch \<longrightarrow> distinct (map gp_ID (ch_Points ch))) \<Longrightarrow>
    0 \<le> t \<Longrightarrow> spaced t c \<Longrightarrow> store_reachable c t"
| claim: "store_reachable c t \<Longrightarrow> t \<le> t' \<Longrightarrow> store_reachable (snd (pc_claim uid t' lease reuseAfter c)) t'"
| report: "store_reachable c t \<Longrightarrow> t \<le> t' \<Longrightarrow>
    (ok \<and> pos_PointID pos \<in> gp_ID ` set (pc_points c) \<longrightarrow> live_occupancy t' (occupancy_of c (pos_PointID pos))) \<Longrightarrow>
    store_reachable (Report write t' uid pos ok reason c) t'"
| attempt: "store_reachable c t \<Longrightarrow> t \<le> t' \<Longrightarrow> store_reachable (snd (snd (ReportAttemptFailure write t' uid state pos reason c))) t'"
| commit: "store_reachable c t \<Longrightarrow> t \<le> t' \<Longrightarrow> store_reachable (snd (CommitAttemptFailure uid state c)) t'"
| drop_attempt: "store_reachable c t \<Longrightarrow> t \<le> t' \<Longrightarrow> store_reachable (snd (DiscardAttemptFailure t' uid state c)) t'"
| discard: "store_reachable c t \<Longrightarrow> t \<le> t' \<Longrightarrow> store_reachable (Discard uid pos c) t'"
| release: "store_reachable c t \<Longrightarrow> t \<le> t' \<Longrightarrow> store_reachable (ReleaseUID uid c) t'"
| save: "store_reachable c t \<Longrightarrow> t \<le> t' \<Longrightarrow> store_reachable (saveActiveOccupancies writeActive t' (saveCache write t' c)) t'"

lemma calm_commit: "calm c (snd (CommitAttemptFailure uid state c))"
  by (simp add: CommitAttemptFailure_def calm_Discard split: option.split)

lemma calm_drop: "calm c (snd (DiscardAttemptFailure now uid state c))"
  by (simp add: DiscardAttemptFailure_def calm_trans [OF calm_forget calm_Discard] split: option.split)

definition orderly :: "time \<Rightarrow> PointCoordinator \<Rightarrow> bool" where
  "orderly t c \<longleftrightarrow> points_ok c \<and> 0 \<le> t \<and> spaced t c"

lemma orderly_later: "orderly t c \<Longrightarrow> t \<le> t' \<Longrightarrow> orderly t' c"
  using spaced_later by (auto simp: orderly_def)

lemma orderly_calm: "orderly t c \<Longrightarrow> calm c c' \<Longrightarrow> orderly t c'"
  using points_ok_calm spaced_calm by (auto simp: orderly_def)

lemma orderly_failed_report: "orderly t c \<Longrightarrow> orderly t (Report write t uid pos False reason c)"
  using Report_spaced [of c t False pos "write" uid reason] by (auto simp: orderly_def)

lemma orderly_attempt: "orderly t c \<Longrightarrow> orderly t (snd (snd (ReportAttemptFailure write t uid state pos reason c)))"
proof -
  assume c: "orderly t c"
  have discard: "orderly t (Discard uid p d)" and remember: "orderly t (rememberPointEvidence t uid p r d)" and forget: "orderly t (forgetPointEvidence t uid p r d)"
    if "orderly t d" for p r d
    using that orderly_calm calm_Discard calm_remember calm_forget by blast+
  show ?thesis
    by (auto simp: ReportAttemptFailure_def Let_def c discard remember forget orderly_failed_report split: option.split prod.split if_split)
qed

lemma reachable_orderly: "store_reachable c t \<Longrightarrow> orderly t c"
proof (induction rule: store_reachable.induct)
  case (start source cache active wr t c0 c)
  then show ?case using load_ok by (auto simp: orderly_def)
next
  case (claim c t t' uid lease reuseAfter)
  then show ?case using orderly_later [OF claim.IH] claim_spaced [of c t' uid lease reuseAfter] by (metis orderly_def prod.collapse)
next
  case (report c t t' ok pos wr uid reason)
  then show ?case using orderly_later [OF report.IH] Report_spaced [of c t' ok pos] by (auto simp: orderly_def)
next
  case (save c t t' wrActive wr)
  show ?case by (rule orderly_calm [OF orderly_later [OF save.IH save.hyps(2)] calm_trans [OF calm_saveCache calm_saveActive]])
qed (metis orderly_later orderly_attempt orderly_calm calm_commit calm_drop calm_Discard calm_ReleaseUID)+


text \<open>
  The search in the nine cells around a point is exact: for a coordinator whose index and occupancy map are in order, it finds a
  conflict exactly when some point of the grid is occupied and stands too close.
\<close>

theorem recently_occupied_exact:
  assumes "points_ok c" "0 \<le> now"
  shows "positionRecentlyOccupied c (pointArea p) p now \<longleftrightarrow>
    list_ex (\<lambda>q. live_occupancy now (occupancy_of c (gp_ID q)) \<and> positionsConflict p q) (pc_points c)"
  using assms nine_cells [of c now p] by (simp add: points_ok_def occupied_near_def list_ex_iff)

subsection \<open>Packing\<close>

text \<open>The packed set without cells: points in order, each kept unless it conflicts with one already kept.\<close>

fun greedy_pack :: "GridPoint list \<Rightarrow> GridPoint list \<Rightarrow> GridPoint list" where
  "greedy_pack [] kept = kept"
| "greedy_pack (p # ps) kept =
     (if snd (pointFailureRetry (gp_LastReason p) pointClaimTTL) \<or> list_ex (positionsConflict p) kept
      then greedy_pack ps kept else greedy_pack ps (kept @ [p]))"

definition selects :: "GridPoint list \<Rightarrow> string set \<times> selection \<Rightarrow> bool" where
  "selects kept st \<longleftrightarrow> fst st = gp_ID ` set kept \<and>
     (\<forall>a cell p. map_of (snd st) (a, cell) = Some p \<longleftrightarrow> p \<in> set kept \<and> pointArea p = a \<and> point_cell p = cell)"

lemma pack_conflict:
  assumes "selects kept st"
  shows "list_ex (\<lambda>cl. case map_of (snd st) (pointArea p, cl) of None \<Rightarrow> False | Some e \<Rightarrow> positionsOccupancyConflict p e) (cells_around (point_cell p)) \<longleftrightarrow>
    list_ex (positionsConflict p) kept"
proof -
  have at: "map_of (snd st) (a, cell) = Some q \<longleftrightarrow> q \<in> set kept \<and> pointArea q = a \<and> point_cell q = cell" for a cell q
    using assms unfolding selects_def by blast
  have "(\<exists>cl \<in> set (cells_around (point_cell p)). \<exists>e. map_of (snd st) (pointArea p, cl) = Some e \<and> positionsConflict p e) \<longleftrightarrow>
      (\<exists>q \<in> set kept. positionsConflict p q)"
  proof
    assume "\<exists>q \<in> set kept. positionsConflict p q"
    then obtain q where q: "q \<in> set kept" "positionsConflict p q" by blast
    then have "pointArea q = pointArea p" by (simp add: positionsConflict_def pointArea_def)
    with at [of "pointArea p" "point_cell q" q] q conflict_in_cells [OF q(2)]
    show "\<exists>cl \<in> set (cells_around (point_cell p)). \<exists>e. map_of (snd st) (pointArea p, cl) = Some e \<and> positionsConflict p e" by blast
  qed (use at in blast)
  then show ?thesis by (auto simp: list_ex_iff positionsOccupancyConflict_def split: option.splits)
qed

lemma pack_point_selects:
  assumes "selects kept st"
  shows "selects (if snd (pointFailureRetry (gp_LastReason p) pointClaimTTL) \<or> list_ex (positionsConflict p) kept then kept else kept @ [p]) (pack_point p st)"
proof (cases "snd (pointFailureRetry (gp_LastReason p) pointClaimTTL) \<or> list_ex (positionsConflict p) kept")
  case True
  then show ?thesis using assms pack_conflict [OF assms, of p]
    by (cases st) (auto simp: pack_point_def Let_def point_cell_def)
next
  case False
  then have eq: "pack_point p st = (insert (gp_ID p) (fst st), AList.update (pointArea p, point_cell p) p (snd st))"
    using pack_conflict [OF assms, of p] by (cases st) (auto simp: pack_point_def Let_def point_cell_def)
  have free: "\<not> (pointArea q = pointArea p \<and> point_cell q = point_cell p)" if "q \<in> set kept" for q
    using False that same_cell_conflict [of p q] by (auto simp: list_ex_iff)
  have at: "map_of (snd st) (a, cell) = Some q \<longleftrightarrow> q \<in> set kept \<and> pointArea q = a \<and> point_cell q = cell" for a cell q
    using assms unfolding selects_def by blast
  have "map_of (AList.update (pointArea p, point_cell p) p (snd st)) (a, cell) = Some q \<longleftrightarrow>
      q \<in> set (kept @ [p]) \<and> pointArea q = a \<and> point_cell q = cell" for a cell q
    using at [of a cell q] free [of q] by (auto simp: update_conv')
  then have "selects (kept @ [p]) (pack_point p st)" unfolding selects_def eq using assms by (simp add: selects_def)
  with False show ?thesis by simp
qed

lemma pack_points_selects: "selects kept st \<Longrightarrow> selects (greedy_pack ps kept) (fold pack_point ps st)"
proof (induction ps arbitrary: kept st)
  case (Cons p ps)
  from Cons.IH [OF pack_point_selects [OF Cons.prems, of p]] show ?case by (auto split: if_splits)
qed simp

text \<open>
  Property C14. The packed set is the greedy one: its IDs are those of the points kept by going through the points in order and keeping each
  one that has not failed for good and conflicts with none kept before, although the code only looks at one point in each of nine cells.
\<close>

theorem packed_points_greedy:
  "buildPackedPointSet points = gp_ID ` set (greedy_pack points [])"
proof -
  have "selects [] ({}, [])" by (simp add: selects_def)
  from pack_points_selects [OF this, of points] show ?thesis by (simp add: buildPackedPointSet_def selects_def)
qed

subsection \<open>An example\<close>

definition market :: MapCatalogItem where
  "market = \<lparr>mp_Village = 1, mp_VillageName = [], mp_Area = 0, mp_Level = 1, mp_XMin = 0, mp_XMax = 300, mp_YMin = 0, mp_YMax = 300,
    mp_Rectangles = [], mp_Use = True, mp_Gate = False, mp_NormalEligible = None, mp_StoreEligible = None\<rparr>"

definition example_points :: PointCoordinator where
  "example_points = snd (load (Some ([], [market])) None None (\<lambda>_. True) 1000 (empty_coordinator ''state'' 1000))"

definition two_stores :: PointCoordinator where
  "two_stores = snd (pc_claim 8 3000 0 0 (snd (pc_claim 7 2000 0 0 example_points)))"

lemma example_load: "load (Some ([], [market])) None None (\<lambda>_. True) 1000 (empty_coordinator ''state'' 1000) = (True, example_points)"
proof -
  have "fst (load (Some ([], [market])) None None (\<lambda>_. True) 1000 (empty_coordinator ''state'' 1000))" by code_simp
  then show ?thesis by (simp add: example_points_def prod_eq_iff)
qed

lemma example_ok: "points_ok example_points"
  by (rule load_ok [OF example_load]) simp

lemma example_points_reachable: "store_reachable example_points 1000"
proof (rule store_reachable.start [OF example_load])
  show "spaced 1000 example_points" by code_simp
qed simp_all

lemma two_stores_reachable: "store_reachable two_stores 3000"
  unfolding two_stores_def by (rule store_reachable.claim [OF store_reachable.claim [OF example_points_reachable]]) simp_all

theorem claim_finds_free_point_witness:
  "\<exists>p \<in> set (pc_points example_points). \<not> blocked (clearExpiredClaims 2000 example_points) 2000 pointClaimTTL p \<and> gp_ID p = ''1-0-120-150'' \<and>
     oc_ClaimUntil (occupancy_of (snd (pc_claim 7 2000 0 0 example_points)) (gp_ID p)) = 2000 + pointClaimTTL"
proof -
  have run: "fst (pc_claim 7 2000 0 0 example_points) = Some \<lparr>pos_Village = 1, pos_Area = 0, pos_X = 120, pos_Y = 150,
      pos_Source = ''grid_unknown'', pos_PointID = ''1-0-120-150''\<rparr>" by code_simp
  have lease: "normalizePointLease 0 = pointClaimTTL" by code_simp
  from claim_finds_free_point [OF example_ok, of 2000 0 7 0] run show ?thesis
    by (cases "pc_claim 7 2000 0 0 example_points") (auto simp: Let_def lease position_of_def)
qed


theorem recently_occupied_exact_witness:
  "positionRecentlyOccupied two_stores (pointArea (pc_points two_stores ! 2)) (pc_points two_stores ! 2) 3000 \<and>
   list_ex (\<lambda>q. live_occupancy 3000 (occupancy_of two_stores (gp_ID q)) \<and> positionsConflict (pc_points two_stores ! 2) q) (pc_points two_stores)"
proof -
  have "points_ok two_stores" using reachable_orderly [OF two_stores_reachable] by (simp add: orderly_def)
  moreover have "positionRecentlyOccupied two_stores (pointArea (pc_points two_stores ! 2)) (pc_points two_stores ! 2) 3000" by code_simp
  ultimately show ?thesis using recently_occupied_exact [of two_stores 3000 "pc_points two_stores ! 2"] by simp
qed

end
