(* ===== verification/Store_Saver.thy ===== *)
theory Store_Saver
  imports Prelude
begin

section \<open>The saver of active store points\<close>

text \<open>
  The background writer of \<open>coordinator_active_cache.go\<close> and \<open>Flush\<close> of \<open>coordinator_cache.go\<close>: a timer that coalesces requests, the
  goroutine it starts, and a flush that cancels or joins it before it writes the last snapshot. Goroutines interleave between the sections
  under \<open>activeSave.access\<close>, so each section is one step. A timer is \<open>armed\<close> until it fires or is stopped, and its goroutine is \<open>running\<close> until
  it has finished; both are named by their generation, which also names the channel \<open>done\<close> made with it. The counter of generations does not wrap.
  The theorem shows that the goroutines are never two, that no channel is closed twice, which would panic, and that a flush never waits
  for a channel nobody will close.
\<close>

datatype flush_phase = NoFlush | FlushWaiting nat | FlushSaving | FlushEnding

record activePointPersistence =
  as_timer :: "nat option"
  as_done :: "nat option"
  as_generation :: nat
  as_pending :: bool
  as_flushing :: bool
  as_armed :: "nat set"
  as_running :: "nat set"
  as_closed :: "nat set"
  as_panicked :: bool
  as_dirty :: bool
  as_phase :: flush_phase

definition idle_saver :: activePointPersistence where
  "idle_saver = \<lparr>as_timer = None, as_done = None, as_generation = 0, as_pending = False, as_flushing = False, as_armed = {}, as_running = {},
     as_closed = {}, as_panicked = False, as_dirty = False, as_phase = NoFlush\<rparr>"

text \<open>Closing a closed channel panics.\<close>

definition close_channel :: "nat \<Rightarrow> activePointPersistence \<Rightarrow> activePointPersistence" where
  "close_channel ch st = (if ch \<in> as_closed st then st\<lparr>as_panicked := True\<rparr> else st\<lparr>as_closed := insert ch (as_closed st)\<rparr>)"

definition scheduleActiveOccupancySaveLocked :: "activePointPersistence \<Rightarrow> activePointPersistence" where
  "scheduleActiveOccupancySaveLocked st =
     (let generation = as_generation st + 1 in
      st\<lparr>as_generation := generation, as_done := Some generation, as_pending := False, as_timer := Some generation,
         as_armed := insert generation (as_armed st)\<rparr>)"

definition scheduleActiveOccupancySave :: "activePointPersistence \<Rightarrow> activePointPersistence" where
  "scheduleActiveOccupancySave st =
     (if as_flushing st \<or> as_timer st \<noteq> None then st\<lparr>as_pending := True\<rparr> else scheduleActiveOccupancySaveLocked st)"

text \<open>The timer fires; Go starts the goroutine.\<close>

definition fire_timer :: "nat \<Rightarrow> activePointPersistence \<Rightarrow> activePointPersistence" where
  "fire_timer generation st = st\<lparr>as_armed := as_armed st - {generation}, as_running := insert generation (as_running st)\<rparr>"

definition finishScheduledActiveOccupancySave :: "nat \<Rightarrow> activePointPersistence \<Rightarrow> activePointPersistence" where
  "finishScheduledActiveOccupancySave generation st =
     (let st = st\<lparr>as_running := as_running st - {generation}\<rparr> in
      if as_generation st \<noteq> generation \<or> as_done st \<noteq> Some generation then close_channel generation st
      else
        let retry = as_pending st \<and> as_dirty st \<and> \<not> as_flushing st;
            st = close_channel generation (st\<lparr>as_timer := None, as_done := None, as_pending := False\<rparr>) in
        if retry then scheduleActiveOccupancySaveLocked st else st)"

text \<open>\<open>Stop\<close> answers true, and disarms the timer, exactly when it has not fired.\<close>

definition beginActiveOccupancyFlush :: "activePointPersistence \<Rightarrow> activePointPersistence" where
  "beginActiveOccupancyFlush st =
     (let timer = as_timer st;
          ch = as_done st;
          stopped = (case timer of None \<Rightarrow> False | Some g \<Rightarrow> g \<in> as_armed st);
          st = st\<lparr>as_flushing := True, as_pending := False, as_generation := as_generation st + 1, as_timer := None, as_done := None,
                  as_armed := (case timer of None \<Rightarrow> as_armed st | Some g \<Rightarrow> as_armed st - {g})\<rparr> in
      case ch of
        None \<Rightarrow> st\<lparr>as_phase := FlushSaving\<rparr>
      | Some d \<Rightarrow>
          if stopped then close_channel d (st\<lparr>as_phase := FlushSaving\<rparr>) else st\<lparr>as_phase := FlushWaiting d\<rparr>)"

definition endActiveOccupancyFlush :: "activePointPersistence \<Rightarrow> activePointPersistence" where
  "endActiveOccupancyFlush st =
     (let queuedDuringFlush = as_pending st;
          st = st\<lparr>as_pending := False, as_flushing := False, as_phase := NoFlush\<rparr> in
      if queuedDuringFlush \<and> as_dirty st then scheduleActiveOccupancySaveLocked st else st)"

text \<open>
  The steps. Reports and releases make the points dirty and then ask for a save; a save, by the goroutine or by a flush, leaves the points
  clean when the file is written and no report came in between. One flush runs at a time, under \<open>flushMu\<close>.
\<close>

inductive saver_step :: "activePointPersistence \<Rightarrow> activePointPersistence \<Rightarrow> bool" where
  dirtied: "saver_step st (st\<lparr>as_dirty := True\<rparr>)"
| request: "saver_step st (scheduleActiveOccupancySave st)"
| fires: "g \<in> as_armed st \<Longrightarrow> saver_step st (fire_timer g st)"
| saves: "g \<in> as_running st \<Longrightarrow> saver_step st (st\<lparr>as_dirty := dirty\<rparr>)"
| finishes: "g \<in> as_running st \<Longrightarrow> saver_step st (finishScheduledActiveOccupancySave g st)"
| flush_begins: "as_phase st = NoFlush \<Longrightarrow> saver_step st (beginActiveOccupancyFlush st)"
| flush_joins: "as_phase st = FlushWaiting d \<Longrightarrow> d \<in> as_closed st \<Longrightarrow> saver_step st (st\<lparr>as_phase := FlushSaving\<rparr>)"
| flush_saves: "as_phase st = FlushSaving \<Longrightarrow> saver_step st (st\<lparr>as_dirty := dirty, as_phase := FlushEnding\<rparr>)"
| flush_ends: "as_phase st = FlushEnding \<Longrightarrow> saver_step st (endActiveOccupancyFlush st)"

inductive saver_reachable :: "activePointPersistence \<Rightarrow> bool" where
  idle: "saver_reachable idle_saver"
| step: "saver_reachable st \<Longrightarrow> saver_step st st' \<Longrightarrow> saver_reachable st'"

inductive_cases saver_stepE: "saver_step st st'"

subsection \<open>The invariant\<close>

text \<open>The goroutines that may still write: the armed timer and the running goroutine.\<close>

definition writers :: "activePointPersistence \<Rightarrow> nat set" where
  "writers st = as_armed st \<union> as_running st"

definition saver_ok :: "activePointPersistence \<Rightarrow> bool" where
  "saver_ok st \<longleftrightarrow>
     \<not> as_panicked st \<and> as_done st = as_timer st \<and> as_armed st \<inter> as_running st = {} \<and>
     (\<forall>g \<in> as_closed st \<union> writers st. g \<le> as_generation st) \<and> writers st \<inter> as_closed st = {} \<and>
     (as_timer st \<noteq> None \<longrightarrow> as_timer st = Some (as_generation st)) \<and>
     (as_flushing st \<longleftrightarrow> as_phase st \<noteq> NoFlush) \<and> (as_pending st \<longrightarrow> as_flushing st \<or> as_timer st \<noteq> None) \<and>
     (case as_phase st of
        NoFlush \<Rightarrow> writers st = set_option (as_timer st)
      | FlushWaiting d \<Rightarrow> as_timer st = None \<and> as_armed st = {} \<and> d < as_generation st \<and> (as_running st = {d} \<or> as_running st = {} \<and> d \<in> as_closed st)
      | _ \<Rightarrow> as_timer st = None \<and> writers st = {})"

lemma saver_okD:
  assumes "saver_ok st"
  shows "\<not> as_panicked st" "as_done st = as_timer st" "as_armed st \<inter> as_running st = {}" "g \<in> as_closed st \<Longrightarrow> g \<le> as_generation st"
    "as_phase st = NoFlush \<Longrightarrow> as_armed st \<union> as_running st = set_option (as_timer st)"
    "as_timer st = Some g \<Longrightarrow> g = as_generation st \<and> g \<notin> as_closed st \<and> as_phase st = NoFlush"
  using assms by (auto simp: saver_ok_def writers_def split: flush_phase.splits)

lemma saver_ok_schedule:
  "saver_ok st \<Longrightarrow> as_timer st = None \<Longrightarrow> as_phase st = NoFlush \<Longrightarrow> saver_ok (scheduleActiveOccupancySaveLocked st)"
  by (auto simp: saver_ok_def scheduleActiveOccupancySaveLocked_def writers_def Let_def intro: le_SucI dest: bspec)

lemma saver_ok_request: "saver_ok st \<Longrightarrow> saver_ok (scheduleActiveOccupancySave st)"
  using saver_ok_schedule [of st]
  by (auto simp: scheduleActiveOccupancySave_def) (auto simp: saver_ok_def writers_def split: flush_phase.splits)

lemma saver_ok_fire:
  assumes "saver_ok st" "g \<in> as_armed st"
  shows "saver_ok (fire_timer g st)"
proof -
  have "writers (fire_timer g st) = writers st" using assms(2) by (auto simp: writers_def fire_timer_def)
  with assms show ?thesis by (auto simp: saver_ok_def fire_timer_def writers_def split: flush_phase.splits)
qed

lemma saver_ok_finish:
  assumes ok: "saver_ok st" and g: "g \<in> as_running st"
  shows "saver_ok (finishScheduledActiveOccupancySave g st)"
proof (cases "as_generation st \<noteq> g \<or> as_done st \<noteq> Some g")
  case True
  then show ?thesis using assms
    by (auto simp: saver_ok_def finishScheduledActiveOccupancySave_def close_channel_def writers_def Let_def split: flush_phase.splits)
next
  case False
  let ?st = "close_channel g (st\<lparr>as_running := as_running st - {g}, as_timer := None, as_done := None, as_pending := False\<rparr>)"
  have t: "as_timer st = Some g" using False saver_okD(2) [OF ok] by simp
  have now: "g = as_generation st" "g \<notin> as_closed st" "as_phase st = NoFlush" using saver_okD(6) [OF ok t] by blast+
  have two: "as_armed st \<inter> as_running st = {}" "as_armed st \<union> as_running st = {g}" using saver_okD(3,5) [OF ok] now(3) t by simp_all
  with g have "as_armed st = {}" "as_running st = {g}" by (auto simp: Un_singleton_iff)
  with saver_okD(1) [OF ok] saver_okD(4) [OF ok] now ok have closed: "saver_ok ?st" "as_timer ?st = None" "as_phase ?st = NoFlush"
    by (simp_all add: saver_ok_def close_channel_def writers_def)
  from False have "finishScheduledActiveOccupancySave g st = ?st \<or> finishScheduledActiveOccupancySave g st = scheduleActiveOccupancySaveLocked ?st"
    by (simp add: finishScheduledActiveOccupancySave_def Let_def)
  with closed saver_ok_schedule show ?thesis by metis
qed

lemma saver_ok_begin:
  assumes ok: "saver_ok st" and phase: "as_phase st = NoFlush"
  shows "saver_ok (beginActiveOccupancyFlush st)"
proof (cases "as_timer st")
  case None
  then show ?thesis using assms by (auto simp: saver_ok_def beginActiveOccupancyFlush_def writers_def Let_def intro: le_SucI dest: bspec)
next
  case (Some g)
  have now: "g = as_generation st" "g \<notin> as_closed st" "as_phase st = NoFlush" using saver_okD(6) [OF ok Some] by blast+
  have two: "as_armed st \<inter> as_running st = {}" "as_armed st \<union> as_running st = {g}" using saver_okD(3,5) [OF ok] phase Some by simp_all
  have old: "\<forall>g' \<in> as_closed st. g' \<le> Suc (as_generation st)" using saver_okD(4) [OF ok] le_SucI by blast
  have facts: "\<not> as_panicked st" "as_done st = Some g" using saver_okD(1,2) [OF ok] Some by simp_all
  show ?thesis
  proof (cases "g \<in> as_armed st")
    case True
    with two have "as_armed st = {g}" "as_running st = {}" by (auto simp: Un_singleton_iff)
    with Some now facts old show ?thesis by (auto simp: saver_ok_def beginActiveOccupancyFlush_def close_channel_def writers_def Let_def)
  next
    case False
    with two have "as_armed st = {}" "as_running st = {g}" by (auto simp: Un_singleton_iff)
    moreover have "beginActiveOccupancyFlush st = st\<lparr>as_flushing := True, as_pending := False, as_generation := as_generation st + 1, as_timer := None,
        as_done := None, as_armed := {}, as_phase := FlushWaiting g\<rparr>" (is "_ = ?st")
      using Some facts calculation by (simp add: beginActiveOccupancyFlush_def Let_def)
    moreover have "saver_ok ?st" using now facts old calculation(1,2) by (simp add: saver_ok_def writers_def)
    ultimately show ?thesis by simp
  qed
qed

lemma saver_ok_end:
  assumes "saver_ok st" "as_phase st = FlushEnding"
  shows "saver_ok (endActiveOccupancyFlush st)"
proof -
  let ?st = "st\<lparr>as_pending := False, as_flushing := False, as_phase := NoFlush\<rparr>"
  have "saver_ok ?st" "as_timer ?st = None" "as_phase ?st = NoFlush" using assms by (auto simp: saver_ok_def writers_def)
  with saver_ok_schedule show ?thesis by (auto simp: endActiveOccupancyFlush_def Let_def)
qed

lemma saver_ok_other: 
  "saver_ok st \<Longrightarrow> saver_ok (st\<lparr>as_dirty := dirty\<rparr>)"
  "saver_ok st \<Longrightarrow> as_phase st = FlushWaiting d \<Longrightarrow> d \<in> as_closed st \<Longrightarrow> saver_ok (st\<lparr>as_phase := FlushSaving\<rparr>)"
  "saver_ok st \<Longrightarrow> as_phase st = FlushSaving \<Longrightarrow> saver_ok (st\<lparr>as_dirty := dirty, as_phase := FlushEnding\<rparr>)"
  by (auto simp: saver_ok_def writers_def split: flush_phase.splits)

lemma saver_ok_step: "saver_ok st \<Longrightarrow> saver_step st st' \<Longrightarrow> saver_ok st'"
  by (erule saver_stepE)
    (auto intro: saver_ok_request saver_ok_fire saver_ok_finish saver_ok_begin saver_ok_end saver_ok_other)

lemma saver_reachable_ok: "saver_reachable st \<Longrightarrow> saver_ok st"
proof (induction rule: saver_reachable.induct)
  case idle
  then show ?case by (simp add: saver_ok_def idle_saver_def writers_def)
next
  case (step st st')
  then show ?case using saver_ok_step by blast
qed

text \<open>
  Property C11. In every reachable state of the saver, for every interleaving of requests, timers, saves and flushes: no channel has been
  closed twice; at most one timer or goroutine is left that may still write; while a flush writes its snapshot there is none, so nothing
  older is written after it; a flush that waits for a channel waits for one that is closed or whose goroutine still runs, and when that
  goroutine finishes the channel is closed; and a pending request is one that a flush or the current goroutine will look at.
\<close>

theorem saver_safe:
  assumes "saver_reachable st"
  shows "\<not> as_panicked st \<and> card (as_armed st \<union> as_running st) \<le> 1 \<and>
    (as_phase st = FlushSaving \<longrightarrow> as_armed st = {} \<and> as_running st = {}) \<and>
    (\<forall>d. as_phase st = FlushWaiting d \<longrightarrow>
       d \<in> as_closed st \<or> d \<in> as_running st \<and> d \<in> as_closed (finishScheduledActiveOccupancySave d st)) \<and>
    (as_pending st \<longrightarrow> as_flushing st \<or> as_timer st \<noteq> None)"
proof -
  have ok: "saver_ok st" by (rule saver_reachable_ok [OF assms])
  have "card (as_armed st \<union> as_running st) \<le> 1"
    using ok by (cases "as_phase st"; cases "as_timer st") (auto simp: saver_ok_def writers_def)
  moreover have "d \<in> as_closed (finishScheduledActiveOccupancySave d st)" if "as_phase st = FlushWaiting d" for d
    using ok that by (auto simp: saver_ok_def finishScheduledActiveOccupancySave_def close_channel_def Let_def)
  ultimately show ?thesis using ok by (auto simp: saver_ok_def writers_def)
qed

text \<open>A flush that meets a running goroutine.\<close>

definition joined :: activePointPersistence where
  "joined = beginActiveOccupancyFlush (fire_timer 1 (scheduleActiveOccupancySave idle_saver))"

theorem saver_safe_witness:
  "as_phase joined = FlushWaiting 1 \<and> \<not> as_panicked joined \<and> 1 \<in> as_running joined \<and> 1 \<in> as_closed (finishScheduledActiveOccupancySave 1 joined)"
proof -
  have "saver_reachable (scheduleActiveOccupancySave idle_saver)" by (rule saver_reachable.step [OF saver_reachable.idle saver_step.request])
  moreover have "1 \<in> as_armed (scheduleActiveOccupancySave idle_saver)" by code_simp
  ultimately have "saver_reachable (fire_timer 1 (scheduleActiveOccupancySave idle_saver))" by (blast intro: saver_reachable.step saver_step.fires)
  moreover have "as_phase (fire_timer 1 (scheduleActiveOccupancySave idle_saver)) = NoFlush" by code_simp
  ultimately have "saver_reachable joined" unfolding joined_def by (blast intro: saver_reachable.step saver_step.flush_begins)
  moreover have "as_phase joined = FlushWaiting 1" "as_closed joined = {}" by code_simp+
  ultimately show ?thesis using saver_safe [of joined] by auto
qed

end
